(* ===== verification/Prelude.thy ===== *)
theory Prelude
  imports Main "HOL-Library.Word" "HOL-Library.AList"
begin

text \<open>
  Shared vocabulary of the development.

  \<^item> \<open>type_synonym\<close>s for the Rust types that every component uses: machine integers at their
    width, string identifiers, monotonic clock readings, and \<open>Result\<close> as a sum whose left
    summand is the error.
  \<^item> Rust's \<open>HashMap\<close>.  A map is an association list with distinct keys; its order stands for the
    iteration order, which Rust leaves unspecified, so no property of the development depends on it.
    The operations are the ones the services call (\<open>get\<close>, \<open>insert\<close>, \<open>remove\<close>, \<open>entry\<close> and
    \<open>get_mut\<close> updates, \<open>values\<close>), the locale \<open>hash_map\<close> states their contract and is interpreted
    on them.
  \<^item> Big-endian byte strings, the standard library's \<open>to_be_bytes\<close> and \<open>from_be_bytes\<close>.
  \<^item> Rust's arithmetic on unsigned words where it matters: wrapping atomics and saturating
    subtraction.
\<close>

section \<open>Collections of rewrite rules\<close>

named_theorems hm_simps \<open>equations of the hash map operations\<close>
named_theorems wf_intros \<open>operations keep their component's invariant\<close>

section \<open>Types\<close>

type_synonym u8 = "8 word"
type_synonym u16 = "16 word"
type_synonym u32 = "32 word"
type_synonym u64 = "64 word"
type_synonym usize = "64 word"

text \<open>Readings of a monotonic clock and durations, in nanoseconds.\<close>

type_synonym instant = nat
type_synonym duration = nat

definition from_secs :: "nat \<Rightarrow> duration" where
  "from_secs n = n * 1000000000"

text \<open>
  \<open>Instant::duration_since\<close> (and \<open>elapsed\<close>) returns zero when the argument is later: the
  truncating subtraction of natural numbers.
\<close>

definition duration_since :: "instant \<Rightarrow> instant \<Rightarrow> duration" where
  "duration_since now earlier = now - earlier"

text \<open>\<open>Result<T, E>\<close>: \<open>Inl\<close> is \<open>Err\<close>, \<open>Inr\<close> is \<open>Ok\<close>.\<close>

type_synonym ('a, 'e) result = "'e + 'a"

abbreviation Ok :: "'a \<Rightarrow> ('a, 'e) result" where
  "Ok \<equiv> Inr"

abbreviation Err :: "'e \<Rightarrow> ('a, 'e) result" where
  "Err \<equiv> Inl"

section \<open>Hash maps\<close>

type_synonym ('k, 'v) hmap = "('k \<times> 'v) list"

definition hm_get :: "('k, 'v) hmap \<Rightarrow> 'k \<Rightarrow> 'v option" where
  "hm_get m k = map_of m k"

definition hm_contains :: "('k, 'v) hmap \<Rightarrow> 'k \<Rightarrow> bool" where
  "hm_contains m k \<longleftrightarrow> hm_get m k \<noteq> None"

definition hm_insert :: "'k \<Rightarrow> 'v \<Rightarrow> ('k, 'v) hmap \<Rightarrow> ('k, 'v) hmap" where
  "hm_insert k v m = AList.update k v m"

definition hm_remove :: "'k \<Rightarrow> ('k, 'v) hmap \<Rightarrow> ('k, 'v) hmap" where
  "hm_remove k m = AList.delete k m"

definition hm_keys :: "('k, 'v) hmap \<Rightarrow> 'k list" where
  "hm_keys m = map fst m"

definition hm_values :: "('k, 'v) hmap \<Rightarrow> 'v list" where
  "hm_values m = map snd m"

definition hm_len :: "('k, 'v) hmap \<Rightarrow> nat" where
  "hm_len m = length m"

text \<open>\<open>get(k).unwrap_or_default()\<close> and \<open>entry(k).or_default()\<close> on a map of collections.\<close>

definition hm_get_or :: "'v \<Rightarrow> ('k, 'v) hmap \<Rightarrow> 'k \<Rightarrow> 'v" where
  "hm_get_or d m k = (case hm_get m k of None \<Rightarrow> d | Some v \<Rightarrow> v)"

text \<open>\<open>if let Some(v) = map.get_mut(k) { *v = f(v) }\<close>.\<close>

definition hm_modify :: "'k \<Rightarrow> ('v \<Rightarrow> 'v) \<Rightarrow> ('k, 'v) hmap \<Rightarrow> ('k, 'v) hmap" where
  "hm_modify k f m = (case hm_get m k of None \<Rightarrow> m | Some v \<Rightarrow> hm_insert k (f v) m)"

definition hm_wf :: "('k, 'v) hmap \<Rightarrow> bool" where
  "hm_wf m \<longleftrightarrow> distinct (map fst m)"

lemma hm_get_Nil [simp, hm_simps]: "hm_get [] k = None"
  by (simp add: hm_get_def)

lemma hm_get_insert [simp, hm_simps]:
  "hm_get (hm_insert k v m) k' = (if k' = k then Some v else hm_get m k')"
  by (simp add: hm_get_def hm_insert_def update_conv')

lemma hm_get_remove [simp, hm_simps]:
  "hm_get (hm_remove k m) k' = (if k' = k then None else hm_get m k')"
  by (simp add: hm_get_def hm_remove_def delete_conv')

lemma hm_get_modify [simp, hm_simps]:
  "hm_get (hm_modify k f m) k' =
     (if k' = k then map_option f (hm_get m k') else hm_get m k')"
  by (simp add: hm_modify_def split: option.split)

lemma hm_get_or_insert [simp, hm_simps]:
  "hm_get_or d (hm_insert k v m) k' = (if k' = k then v else hm_get_or d m k')"
  by (simp add: hm_get_or_def)

lemma hm_get_or_remove [simp, hm_simps]:
  "hm_get_or d (hm_remove k m) k' = (if k' = k then d else hm_get_or d m k')"
  by (simp add: hm_get_or_def)

lemma hm_get_or_Nil [simp, hm_simps]: "hm_get_or d [] k = d"
  by (simp add: hm_get_or_def)

lemma hm_wf_Nil [simp, intro, wf_intros]: "hm_wf []"
  by (simp add: hm_wf_def)

lemma hm_wf_insert [simp, intro, wf_intros]: "hm_wf m \<Longrightarrow> hm_wf (hm_insert k v m)"
  by (simp add: hm_wf_def hm_insert_def distinct_update)

lemma hm_wf_remove [simp, intro, wf_intros]: "hm_wf m \<Longrightarrow> hm_wf (hm_remove k m)"
  by (simp add: hm_wf_def hm_remove_def distinct_delete)

lemma hm_wf_modify [simp, intro, wf_intros]: "hm_wf m \<Longrightarrow> hm_wf (hm_modify k f m)"
  by (simp add: hm_modify_def split: option.split)

lemma hm_in_set_conv: "hm_wf m \<Longrightarrow> (k, v) \<in> set m \<longleftrightarrow> hm_get m k = Some v"
  by (auto simp: hm_wf_def hm_get_def)

lemma hm_in_set_keys: "k \<in> set (hm_keys m) \<longleftrightarrow> hm_get m k \<noteq> None"
  by (auto simp: hm_keys_def hm_get_def map_of_eq_None_iff)

lemma hm_in_values: "hm_wf m \<Longrightarrow> v \<in> set (hm_values m) \<longleftrightarrow> (\<exists>k. hm_get m k = Some v)"
  by (force simp: hm_values_def hm_in_set_conv [symmetric])

lemma hm_contains_iff [simp]: "hm_contains m k \<longleftrightarrow> (\<exists>v. hm_get m k = Some v)"
  by (auto simp: hm_contains_def)

lemma hm_keys_distinct: "hm_wf m \<Longrightarrow> distinct (hm_keys m)"
  by (simp add: hm_wf_def hm_keys_def)

lemma hm_remove_filter: "hm_remove k m = filter (\<lambda>e. fst e \<noteq> k) m"
  by (auto simp: hm_remove_def AList.delete_eq intro: filter_cong)

lemma hm_insert_fresh: "hm_get m k = None \<Longrightarrow> hm_insert k v m = m @ [(k, v)]"
  by (induction m) (auto simp: hm_get_def hm_insert_def split: if_splits)

lemma hm_len_insert_fresh: "hm_get m k = None \<Longrightarrow> hm_len (hm_insert k v m) = Suc (hm_len m)"
  by (simp add: hm_insert_fresh hm_len_def)

lemma hm_len_insert_old: "hm_get m k = Some u \<Longrightarrow> hm_len (hm_insert k v m) = hm_len m"
  by (induction m) (auto simp: hm_get_def hm_insert_def hm_len_def split: if_splits)

lemma hm_len_modify [simp]: "hm_len (hm_modify k f m) = hm_len m"
  by (auto simp: hm_modify_def hm_len_insert_old split: option.split)

lemma hm_remove_fresh: "hm_get m k = None \<Longrightarrow> hm_remove k m = m"
  by (auto simp: hm_remove_filter hm_get_def map_of_eq_None_iff filter_id_conv)

lemma hm_len_remove:
  "hm_wf m \<Longrightarrow> hm_get m k = Some v \<Longrightarrow> Suc (hm_len (hm_remove k m)) = hm_len m"
proof (induction m)
  case (Cons e m)
  show ?case
  proof (cases "fst e = k")
    case True
    with Cons.prems have "hm_get m k = None"
      by (force simp: hm_wf_def hm_get_def map_of_eq_None_iff)
    then show ?thesis using True hm_remove_fresh [of m k]
      by (simp add: hm_remove_filter hm_len_def)
  next
    case False
    with Cons show ?thesis
      by (cases e) (simp add: hm_remove_filter hm_len_def hm_wf_def hm_get_def)
  qed
qed simp

text \<open>
  What the services rely on of a hash map: lookups after each update, and that the length counts
  the keys present.
\<close>

locale hash_map =
  fixes empty :: "'m"
    and get :: "'m \<Rightarrow> 'k \<Rightarrow> 'v option"
    and insert :: "'k \<Rightarrow> 'v \<Rightarrow> 'm \<Rightarrow> 'm"
    and remove :: "'k \<Rightarrow> 'm \<Rightarrow> 'm"
    and len :: "'m \<Rightarrow> nat"
    and invar :: "'m \<Rightarrow> bool"
  assumes get_empty: "get empty k = None"
    and get_insert: "get (insert k v m) k' = (if k' = k then Some v else get m k')"
    and get_remove: "get (remove k m) k' = (if k' = k then None else get m k')"
    and invar_empty: "invar empty"
    and invar_insert: "invar m \<Longrightarrow> invar (insert k v m)"
    and invar_remove: "invar m \<Longrightarrow> invar (remove k m)"
    and len_card: "invar m \<Longrightarrow> finite (dom (get m)) \<and> len m = card (dom (get m))"
begin

lemma len_empty_iff: "invar m \<Longrightarrow> len m = 0 \<longleftrightarrow> (\<forall>k. get m k = None)"
  using len_card [of m] by (auto simp: dom_def)

lemma dom_insert: "dom (get (insert k v m)) = Set.insert k (dom (get m))"
  by (auto simp: dom_def get_insert)

lemma dom_remove: "dom (get (remove k m)) = dom (get m) - {k}"
  by (auto simp: dom_def get_remove split: if_splits)

lemma len_insert:
  assumes "invar m"
  shows "len (insert k v m) = (if get m k = None then Suc (len m) else len m)"
proof -
  have "finite (dom (get m))" "len m = card (dom (get m))"
    using len_card [OF assms] by auto
  moreover have "len (insert k v m) = card (Set.insert k (dom (get m)))"
    using len_card [OF invar_insert [OF assms], of k v] by (simp add: dom_insert)
  ultimately show ?thesis by (auto simp: card_insert_if dom_def)
qed

lemma insert_then_remove: "get m k = None \<Longrightarrow> get (remove k (insert k v m)) = get m"
  by (rule ext) (simp add: get_insert get_remove)

end

lemma hm_len_card: "hm_wf m \<Longrightarrow> finite (dom (hm_get m)) \<and> hm_len m = card (dom (hm_get m))"
proof -
  assume "hm_wf m"
  moreover have "dom (hm_get m) = set (map fst m)"
    using dom_map_of_conv_image_fst [of m] by (simp add: hm_get_def [abs_def])
  ultimately show ?thesis
    using distinct_card [of "map fst m"] by (simp add: hm_wf_def hm_len_def)
qed

interpretation hm: hash_map "[]" hm_get hm_insert hm_remove hm_len hm_wf
  by unfold_locales (auto simp: hm_len_card)

section \<open>Sums over the values of a map\<close>

text \<open>\<open>map.values().map(f).sum()\<close>, for counts and for multisets.\<close>

definition hm_sum :: "('v \<Rightarrow> 'a::comm_monoid_add) \<Rightarrow> ('k, 'v) hmap \<Rightarrow> 'a" where
  "hm_sum f m = sum_list (map f (hm_values m))"

lemma hm_sum_Nil [simp]: "hm_sum f [] = 0"
  by (simp add: hm_sum_def hm_values_def)

lemma hm_remove_Nil [simp]: "hm_remove k [] = []"
  by (simp add: hm_remove_def)

lemma hm_sum_insert:
  "hm_sum f (hm_insert k v m) + (case hm_get m k of None \<Rightarrow> 0 | Some u \<Rightarrow> f u) = hm_sum f m + f v"
  by (induction m)
    (auto simp: hm_sum_def hm_values_def hm_get_def hm_insert_def ac_simps split: option.split)

lemma hm_sum_insert_fresh: "hm_get m k = None \<Longrightarrow> hm_sum f (hm_insert k v m) = hm_sum f m + f v"
  using hm_sum_insert [of f k v m] by simp

lemma hm_sum_insert_or:
  assumes "f d = 0"
  shows "hm_sum f (hm_insert k v m) + f (hm_get_or d m k) = hm_sum f m + f v"
  using hm_sum_insert [of f k v m] assms by (simp add: hm_get_or_def split: option.splits)

lemma hm_sum_remove:
  "hm_wf m \<Longrightarrow>
     hm_sum f (hm_remove k m) + (case hm_get m k of None \<Rightarrow> 0 | Some u \<Rightarrow> f u) = hm_sum f m"
proof (induction m)
  case (Cons e m)
  show ?case
  proof (cases "fst e = k")
    case True
    with Cons.prems have "hm_get m k = None"
      by (force simp: hm_wf_def hm_get_def map_of_eq_None_iff)
    then show ?thesis using True hm_remove_fresh [of m k]
      by (cases e) (simp add: hm_remove_filter hm_sum_def hm_values_def hm_get_def ac_simps)
  next
    case False
    with Cons show ?thesis
      by (cases e) (simp add: hm_remove_filter hm_sum_def hm_values_def hm_wf_def hm_get_def ac_simps)
  qed
qed simp

lemma hm_sum_ge:
  fixes f :: "'v \<Rightarrow> nat"
  shows "hm_get m k = Some u \<Longrightarrow> f u \<le> hm_sum f m"
  by (induction m) (auto simp: hm_get_def hm_sum_def hm_values_def split: if_splits)

section \<open>Removing the first match of a vector\<close>

text \<open>\<open>if let Some(pos) = v.iter().position(p) { v.remove(pos); }\<close>.\<close>

fun remove_first :: "('a \<Rightarrow> bool) \<Rightarrow> 'a list \<Rightarrow> 'a list" where
  "remove_first p [] = []"
| "remove_first p (x # xs) = (if p x then xs else x # remove_first p xs)"

lemma remove_first_none: "\<not> (\<exists>x \<in> set xs. p x) \<Longrightarrow> remove_first p xs = xs"
  by (induction xs) auto

lemma length_remove_first:
  "\<exists>x \<in> set xs. p x \<Longrightarrow> Suc (length (remove_first p xs)) = length xs"
  by (induction xs) auto

lemma set_remove_first: "set (remove_first p xs) \<subseteq> set xs"
  by (induction xs) auto

lemma remove_first_map_distinct:
  "distinct (map f xs) \<Longrightarrow> remove_first (\<lambda>x. f x = a) xs = filter (\<lambda>x. f x \<noteq> a) xs"
proof (induction xs)
  case (Cons x xs)
  show ?case
  proof (cases "f x = a")
    case True
    with Cons.prems have "\<forall>y \<in> set xs. f y \<noteq> a" by (metis distinct.simps(2) image_eqI list.set_map list.simps(9))
    then have "filter (\<lambda>y. f y \<noteq> a) xs = xs" by (simp add: filter_id_conv)
    with True show ?thesis by simp
  next
    case False
    with Cons show ?thesis by simp
  qed
qed simp

section \<open>Big-endian bytes\<close>

text \<open>The standard library's \<open>to_be_bytes\<close> and \<open>from_be_bytes\<close> at a width of \<open>n\<close> bytes.\<close>

fun be_bytes :: "nat \<Rightarrow> nat \<Rightarrow> u8 list" where
  "be_bytes 0 x = []"
| "be_bytes (Suc n) x = of_nat (x div 256 ^ n) # be_bytes n (x mod 256 ^ n)"

fun be_val :: "u8 list \<Rightarrow> nat" where
  "be_val [] = 0"
| "be_val (b # bs) = unat b * 256 ^ length bs + be_val bs"

lemma length_be_bytes [simp]: "length (be_bytes n x) = n"
  by (induction n arbitrary: x) auto

lemma unat_u8_lt: "unat (b :: u8) < 256"
  using unsigned_less [of b] by simp

lemma be_val_lt: "be_val bs < 256 ^ length bs"
proof (induction bs)
  case (Cons b bs)
  have "unat b * 256 ^ length bs + be_val bs < unat b * 256 ^ length bs + 256 ^ length bs"
    using Cons by simp
  also have "\<dots> = (unat b + 1) * 256 ^ length bs" by simp
  also have "\<dots> \<le> 256 * 256 ^ length bs"
    using unat_u8_lt [of b] by (intro mult_right_mono) auto
  finally show ?case by simp
qed simp

lemma be_val_be_bytes: "x < 256 ^ n \<Longrightarrow> be_val (be_bytes n x) = x"
proof (induction n arbitrary: x)
  case (Suc n)
  have "x div 256 ^ n < 256"
    using Suc.prems by (simp add: less_mult_imp_div_less mult.commute)
  then have "unat (of_nat (x div 256 ^ n) :: u8) = x div 256 ^ n"
    by (simp add: unat_of_nat)
  moreover have "be_val (be_bytes n (x mod 256 ^ n)) = x mod 256 ^ n"
    by (rule Suc.IH) simp
  ultimately show ?case using div_mult_mod_eq [of x "256 ^ n"] by simp
qed simp

lemma be_bytes_be_val: "be_bytes (length bs) (be_val bs) = bs"
proof (induction bs)
  case (Cons b bs)
  have "be_val bs < 256 ^ length bs" by (rule be_val_lt)
  with Cons show ?case by simp
qed simp

section \<open>Unsigned arithmetic\<close>

text \<open>
  \<open>fetch_add\<close> and \<open>fetch_sub\<close> on an atomic wrap around; \<open>saturating_sub\<close> stops at zero.
\<close>

definition saturating_sub :: "'a::len word \<Rightarrow> 'a word \<Rightarrow> 'a word" where
  "saturating_sub a b = (if a \<le> b then 0 else a - b)"

lemma saturating_sub_le: "saturating_sub a b \<le> a"
  by (auto simp: saturating_sub_def word_le_nat_alt unat_sub)

section \<open>Decimal numerals\<close>

text \<open>\<open>to_string\<close> of an unsigned integer, and \<open>str::parse\<close> back at a width of \<open>w\<close> bits.\<close>

fun show_nat :: "nat \<Rightarrow> string" where
  "show_nat n = (if n < 10 then [''0123456789'' ! n] else show_nat (n div 10) @ [''0123456789'' ! (n mod 10)])"

declare show_nat.simps [simp del]

definition digit_value :: "char \<Rightarrow> nat option" where
  "digit_value ch = (let c = of_char ch in if 48 \<le> c \<and> c \<le> 57 then Some (c - 48) else None)"

fun parse_digits :: "nat \<Rightarrow> string \<Rightarrow> nat option" where
  "parse_digits acc [] = Some acc"
| "parse_digits acc (ch # cs) =
     (case digit_value ch of None \<Rightarrow> None | Some d \<Rightarrow> parse_digits (10 * acc + d) cs)"

definition parse_unsigned :: "nat \<Rightarrow> string \<Rightarrow> nat option" where
  "parse_unsigned w s =
     (let ds = (case s of CHR ''+'' # rest \<Rightarrow> rest | _ \<Rightarrow> s)
      in if ds = [] then None
         else (case parse_digits 0 ds of
                 Some n \<Rightarrow> if n < 2 ^ w then Some n else None
               | None \<Rightarrow> None))"

lemma digit_value_digit: "n < 10 \<Longrightarrow> digit_value (''0123456789'' ! n) = Some n"
proof -
  assume "n < 10"
  then have "n \<in> set [0..<10]" by simp
  moreover have "\<forall>n \<in> set [0..<10]. digit_value (''0123456789'' ! n) = Some n" by code_simp
  ultimately show ?thesis by blast
qed

lemma parse_digits_append:
  "parse_digits acc (xs @ ys) = (case parse_digits acc xs of None \<Rightarrow> None | Some a \<Rightarrow> parse_digits a ys)"
  by (induction xs arbitrary: acc) (auto split: option.split)

lemma parse_show: "parse_digits 0 (show_nat n) = Some n"
proof (induction n rule: show_nat.induct)
  case (1 n)
  show ?case
  proof (cases "n < 10")
    case True
    then show ?thesis using digit_value_digit [of n] by (subst show_nat.simps) simp
  next
    case False
    then show ?thesis using 1 digit_value_digit [of "n mod 10"]
      by (subst show_nat.simps) (simp add: parse_digits_append)
  qed
qed

lemma show_nat_not_Nil [simp]: "show_nat n \<noteq> []"
  by (subst show_nat.simps) simp

lemma show_nat_head: "\<exists>d ds. show_nat n = ''0123456789'' ! d # ds \<and> d < 10"
proof (induction n rule: show_nat.induct)
  case (1 n)
  show ?case
  proof (cases "n < 10")
    case True
    then show ?thesis by (subst show_nat.simps) auto
  next
    case False
    then show ?thesis using 1 by (subst show_nat.simps) auto
  qed
qed

lemma parse_unsigned_show: "n < 2 ^ w \<Longrightarrow> parse_unsigned w (show_nat n) = Some n"
proof -
  assume "n < 2 ^ w"
  obtain d ds where s: "show_nat n = ''0123456789'' ! d # ds" "d < 10" using show_nat_head by blast
  have "''0123456789'' ! d \<noteq> CHR ''+''"
    using digit_value_digit [OF s(2)] by (auto simp: digit_value_def)
  then have "(case show_nat n of CHR ''+'' # rest \<Rightarrow> rest | _ \<Rightarrow> show_nat n) = show_nat n"
    using s(1) by (auto split: char.split bool.split)
  then show ?thesis using \<open>n < 2 ^ w\<close> by (simp add: parse_unsigned_def parse_show)
qed

lemma show_nat_inj: "show_nat a = show_nat b \<Longrightarrow> a = b"
  by (metis option.inject parse_show)

section \<open>Databases\<close>

text \<open>How a statement goes: it works, or it fails before or after it took effect.\<close>

datatype db_fault = DbOk | DbFailBefore string | DbFailAfter string

end
