(* ===== verification/Media_Codec.thy ===== *)
theory Media_Codec
  imports Prelude "HOL-Library.Monad_Syntax"
begin

text \<open>
  The media protocol (crates/media-protocol): frame types and flags (frame.rs), the binary codec
  (codec.rs) and the per-stream state (stream.rs).

  The codec writes and reads through the \<open>bytes\<close> crate, which is not part of the repository.  Its
  operations are the parameter \<open>bytes_ops\<close> of \<open>encode_frame\<close> and \<open>decode_frame\<close>: each \<open>put\<close> gives
  the bytes it appends, each \<open>get\<close> takes the remaining bytes and gives the value and what is left,
  \<open>None\<close> where the crate panics for lack of data.  The locale \<open>bytes_crate\<close> states the documented
  contract; \<open>be_ops\<close>, built from the standard library's big-endian conversions, satisfies it.
\<close>

section \<open>Frames\<close>

datatype FrameType = Audio | VideoKey | VideoDelta

definition frame_type_as_u8 :: "FrameType \<Rightarrow> u8" where
  "frame_type_as_u8 t = (case t of Audio \<Rightarrow> 0 | VideoKey \<Rightarrow> 1 | VideoDelta \<Rightarrow> 2)"

record FrameFlags =
  end_of_frame :: bool
  discardable :: bool

unbundle bit_operations_syntax

definition to_u16 :: "FrameFlags \<Rightarrow> u16" where
  "to_u16 f =
     (let flags = 0;
          flags = (if end_of_frame f then flags OR 1 else flags);
          flags = (if discardable f then flags OR 2 else flags)
      in flags)"

definition from_u16 :: "u16 \<Rightarrow> FrameFlags" where
  "from_u16 v = \<lparr>end_of_frame = (v AND 1 \<noteq> 0), discardable = (v AND 2 \<noteq> 0)\<rparr>"

record MediaFrame =
  version :: u8
  user_id :: u64
  stream_id :: u32
  frame_type :: FrameType
  timestamp :: u64
  sequence :: u64
  flags :: FrameFlags
  payload :: "u8 list"

definition HEADER_SIZE :: nat where
  "HEADER_SIZE = 42"

definition VERSION :: u8 where
  "VERSION = 1"

section \<open>Codec\<close>

datatype CodecError =
    InsufficientData
  | InvalidFormat string
  | UnsupportedVersion u8
  | InvalidFrameType u8

record bytes_ops =
  put_u8 :: "u8 \<Rightarrow> u8 list"
  put_u16 :: "u16 \<Rightarrow> u8 list"
  put_u32 :: "u32 \<Rightarrow> u8 list"
  put_u64 :: "u64 \<Rightarrow> u8 list"
  put_bytes :: "u8 \<Rightarrow> nat \<Rightarrow> u8 list"
  get_u8 :: "u8 list \<Rightarrow> (u8 \<times> u8 list) option"
  get_u16 :: "u8 list \<Rightarrow> (u16 \<times> u8 list) option"
  get_u32 :: "u8 list \<Rightarrow> (u32 \<times> u8 list) option"
  get_u64 :: "u8 list \<Rightarrow> (u64 \<times> u8 list) option"
  advance :: "nat \<Rightarrow> u8 list \<Rightarrow> u8 list option"
  copy_to_slice :: "nat \<Rightarrow> u8 list \<Rightarrow> (u8 list \<times> u8 list) option"

text \<open>\<open>payload_len as u32\<close> truncates: \<open>of_nat\<close> into 32 bits.\<close>

definition encode_frame :: "bytes_ops \<Rightarrow> MediaFrame \<Rightarrow> (u8 list, CodecError) result" where
  "encode_frame ops f =
     Ok (put_u8 ops (version f)
       @ put_u8 ops (frame_type_as_u8 (frame_type f))
       @ put_u64 ops (user_id f)
       @ put_u32 ops (stream_id f)
       @ put_u64 ops (timestamp f)
       @ put_u64 ops (sequence f)
       @ put_u32 ops (of_nat (length (payload f)))
       @ put_u16 ops (to_u16 (flags f))
       @ put_bytes ops 0 6
       @ payload f)"

definition frame_type_of_u8 :: "u8 \<Rightarrow> FrameType option" where
  "frame_type_of_u8 b =
     (if b = 0 then Some Audio
      else if b = 1 then Some VideoKey
      else if b = 2 then Some VideoDelta
      else None)"

text \<open>
  The part of \<open>decode_frame\<close> after the frame type has been read.  The result carries the bytes that
  remain in the buffer; the outer \<open>None\<close> is a panic of the buffer.
\<close>

definition decode_body ::
  "bytes_ops \<Rightarrow> u8 \<Rightarrow> FrameType \<Rightarrow> u8 list \<Rightarrow> ((MediaFrame, CodecError) result \<times> u8 list) option"
where
  "decode_body ops v t d0 = do {
     (uid, d1) \<leftarrow> get_u64 ops d0;
     (sid, d2) \<leftarrow> get_u32 ops d1;
     (ts, d3) \<leftarrow> get_u64 ops d2;
     (sq, d4) \<leftarrow> get_u64 ops d3;
     (plen, d5) \<leftarrow> get_u32 ops d4;
     (fl, d6) \<leftarrow> get_u16 ops d5;
     d7 \<leftarrow> advance ops 6 d6;
     if length d7 < unat plen then Some (Err InsufficientData, d7)
     else do {
       (p, d8) \<leftarrow> copy_to_slice ops (unat plen) d7;
       Some (Ok \<lparr>version = v, user_id = uid, stream_id = sid, frame_type = t,
                 timestamp = ts, sequence = sq, flags = from_u16 fl, payload = p\<rparr>, d8)
     }
   }"

definition decode_frame ::
  "bytes_ops \<Rightarrow> u8 list \<Rightarrow> ((MediaFrame, CodecError) result \<times> u8 list) option"
where
  "decode_frame ops data =
     (if length data < HEADER_SIZE then Some (Err InsufficientData, data)
      else do {
        (v, d1) \<leftarrow> get_u8 ops data;
        if v \<noteq> VERSION then Some (Err (UnsupportedVersion v), d1)
        else do {
          (b, d2) \<leftarrow> get_u8 ops d1;
          case frame_type_of_u8 b of
            None \<Rightarrow> Some (Err (InvalidFrameType b), d2)
          | Some t \<Rightarrow> decode_body ops v t d2
        }
      })"

section \<open>Streams\<close>

record StreamConfig =
  cfg_user_id :: u64
  cfg_stream_id :: u32
  cfg_max_bitrate :: u64
  cfg_is_audio :: bool

record MediaStream =
  config :: StreamConfig
  next_sequence :: u64
  frames_received :: u64
  bytes_received :: u64

definition new_media_stream :: "StreamConfig \<Rightarrow> MediaStream" where
  "new_media_stream c =
     \<lparr>config = c, next_sequence = 0, frames_received = 0, bytes_received = 0\<rparr>"

definition ms_user_id :: "MediaStream \<Rightarrow> u64" where
  "ms_user_id s = cfg_user_id (config s)"

definition ms_stream_id :: "MediaStream \<Rightarrow> u32" where
  "ms_stream_id s = cfg_stream_id (config s)"

section \<open>The contract of the buffer operations\<close>

locale bytes_crate =
  fixes ops :: bytes_ops
  assumes len_put_u8: "length (put_u8 ops a) = 1"
    and len_put_u16: "length (put_u16 ops b) = 2"
    and len_put_u32: "length (put_u32 ops c) = 4"
    and len_put_u64: "length (put_u64 ops e) = 8"
    and put_bytes_replicate: "put_bytes ops a n = replicate n a"
    and get_put_u8: "get_u8 ops (put_u8 ops a @ r) = Some (a, r)"
    and get_put_u16: "get_u16 ops (put_u16 ops b @ r) = Some (b, r)"
    and get_put_u32: "get_u32 ops (put_u32 ops c @ r) = Some (c, r)"
    and get_put_u64: "get_u64 ops (put_u64 ops e @ r) = Some (e, r)"
    and get_u8_enough: "1 \<le> length d \<Longrightarrow> \<exists>x. get_u8 ops d = Some (x, drop 1 d)"
    and get_u16_enough: "2 \<le> length d \<Longrightarrow> \<exists>y. get_u16 ops d = Some (y, drop 2 d)"
    and get_u32_enough: "4 \<le> length d \<Longrightarrow> \<exists>z. get_u32 ops d = Some (z, drop 4 d)"
    and get_u64_enough: "8 \<le> length d \<Longrightarrow> \<exists>w. get_u64 ops d = Some (w, drop 8 d)"
    and advance_enough: "n \<le> length d \<Longrightarrow> advance ops n d = Some (drop n d)"
    and copy_enough: "n \<le> length d \<Longrightarrow> copy_to_slice ops n d = Some (take n d, drop n d)"

lemma from_u16_to_u16 [simp]: "from_u16 (to_u16 f) = f"
  by (cases f) (simp add: to_u16_def from_u16_def)

lemma frame_type_of_as_u8 [simp]: "frame_type_of_u8 (frame_type_as_u8 t) = Some t"
  by (cases t) (simp_all add: frame_type_of_u8_def frame_type_as_u8_def)

context bytes_crate begin

lemma length_encode: "encode_frame ops f = Ok bs \<Longrightarrow> length bs = HEADER_SIZE + length (payload f)"
  by (auto simp: encode_frame_def HEADER_SIZE_def len_put_u8 len_put_u16 len_put_u32 len_put_u64
      put_bytes_replicate)

lemma decode_body_encoded:
  assumes "n = length (payload f) mod 2 ^ 32" and "n \<le> length tail"
  shows "decode_body ops (version f) (frame_type f)
      (put_u64 ops (user_id f) @ put_u32 ops (stream_id f) @ put_u64 ops (timestamp f)
       @ put_u64 ops (sequence f) @ put_u32 ops (of_nat (length (payload f)))
       @ put_u16 ops (to_u16 (flags f)) @ put_bytes ops 0 6 @ tail)
    = Some (Ok (f\<lparr>payload := take n tail\<rparr>), drop n tail)"
  using assms
  by (simp add: decode_body_def get_put_u64 get_put_u32 get_put_u16 advance_enough copy_enough
      put_bytes_replicate unat_of_nat)

lemma decode_encoded_prefix:
  assumes "version f = VERSION" and "encode_frame ops f = Ok bs"
    and "n = length (payload f) mod 2 ^ 32"
  shows "decode_frame ops (bs @ rest) =
    Some (Ok (f\<lparr>payload := take n (payload f)\<rparr>), drop n (payload f) @ rest)"
proof -
  have n: "n \<le> length (payload f @ rest)" "n \<le> length (payload f)"
    using assms(3) mod_less_eq_dividend [of "length (payload f)" "2 ^ 32"]
    by (simp_all add: trans_le_add1)
  have long: "\<not> length (bs @ rest) < HEADER_SIZE"
    using length_encode [OF assms(2)] by simp
  have bs: "bs @ rest = put_u8 ops (version f) @ put_u8 ops (frame_type_as_u8 (frame_type f))
      @ (put_u64 ops (user_id f) @ put_u32 ops (stream_id f) @ put_u64 ops (timestamp f)
       @ put_u64 ops (sequence f) @ put_u32 ops (of_nat (length (payload f)))
       @ put_u16 ops (to_u16 (flags f)) @ put_bytes ops 0 6 @ (payload f @ rest))"
    using assms(2) by (simp add: encode_frame_def)
  show ?thesis
    unfolding decode_frame_def using long
    by (simp add: bs get_put_u8 assms(1) decode_body_encoded [OF assms(3) n(1), unfolded assms(1)] n)
qed

lemmas reads_enough =
  get_u8_enough [of "drop k d" for k d, unfolded length_drop drop_drop]
  get_u16_enough [of "drop k d" for k d, unfolded length_drop drop_drop]
  get_u32_enough [of "drop k d" for k d, unfolded length_drop drop_drop]
  get_u64_enough [of "drop k d" for k d, unfolded length_drop drop_drop]

lemma decode_body_never_panics:
  assumes "40 \<le> length d"
  shows "decode_body ops v t d \<noteq> None"
proof -
  have len: "8 \<le> length d" "4 \<le> length d - 8" "8 \<le> length d - 12" "8 \<le> length d - 20"
    "4 \<le> length d - 28" "2 \<le> length d - 32" "6 \<le> length d - 34"
    using assms by linarith+
  obtain x1 where 1: "get_u64 ops d = Some (x1, drop 8 d)"
    using get_u64_enough [OF len(1)] by blast
  obtain x2 where 2: "get_u32 ops (drop 8 d) = Some (x2, drop 12 d)"
    using reads_enough(3) [OF len(2)] by auto
  obtain x3 where 3: "get_u64 ops (drop 12 d) = Some (x3, drop 20 d)"
    using reads_enough(4) [OF len(3)] by auto
  obtain x4 where 4: "get_u64 ops (drop 20 d) = Some (x4, drop 28 d)"
    using reads_enough(4) [OF len(4)] by auto
  obtain x5 where 5: "get_u32 ops (drop 28 d) = Some (x5, drop 32 d)"
    using reads_enough(3) [OF len(5)] by auto
  obtain x6 where 6: "get_u16 ops (drop 32 d) = Some (x6, drop 34 d)"
    using reads_enough(2) [OF len(6)] by auto
  have 7: "advance ops 6 (drop 34 d) = Some (drop 40 d)"
    using advance_enough [of 6 "drop 34 d"] len(7) by simp
  show ?thesis
    by (auto simp: decode_body_def 1 2 3 4 5 6 7 copy_enough)
qed

lemma decode_never_panics: "decode_frame ops data \<noteq> None"
proof (cases "length data < HEADER_SIZE")
  case False
  then have len: "1 \<le> length data" "1 \<le> length data - 1" "40 \<le> length (drop 2 data)"
    by (simp_all add: HEADER_SIZE_def)
  obtain v where v: "get_u8 ops data = Some (v, drop 1 data)"
    using get_u8_enough [OF len(1)] by blast
  obtain b where b: "get_u8 ops (drop 1 data) = Some (b, drop 2 data)"
    using reads_enough(1) [OF len(2)] by (auto simp: numeral_2_eq_2)
  from decode_body_never_panics [OF len(3)] show ?thesis using False
    by (auto simp: decode_frame_def v b [unfolded One_nat_def] split: option.split)
qed (simp add: decode_frame_def)

end

section \<open>An instance: the standard library's big-endian conversions\<close>

definition get_be :: "nat \<Rightarrow> u8 list \<Rightarrow> (nat \<times> u8 list) option" where
  "get_be n d = (if n \<le> length d then Some (be_val (take n d), drop n d) else None)"

definition be_ops :: bytes_ops where
  "be_ops = \<lparr>
     put_u8 = \<lambda>x. be_bytes 1 (unat x),
     put_u16 = \<lambda>x. be_bytes 2 (unat x),
     put_u32 = \<lambda>x. be_bytes 4 (unat x),
     put_u64 = \<lambda>x. be_bytes 8 (unat x),
     put_bytes = \<lambda>x n. replicate n x,
     get_u8 = \<lambda>d. map_option (\<lambda>(v, r). (of_nat v, r)) (get_be 1 d),
     get_u16 = \<lambda>d. map_option (\<lambda>(v, r). (of_nat v, r)) (get_be 2 d),
     get_u32 = \<lambda>d. map_option (\<lambda>(v, r). (of_nat v, r)) (get_be 4 d),
     get_u64 = \<lambda>d. map_option (\<lambda>(v, r). (of_nat v, r)) (get_be 8 d),
     advance = \<lambda>n d. if n \<le> length d then Some (drop n d) else None,
     copy_to_slice = \<lambda>n d. if n \<le> length d then Some (take n d, drop n d) else None\<rparr>"

lemma get_be_put:
  "length bs = n \<Longrightarrow> get_be n (bs @ r) = Some (be_val bs, r)"
  by (simp add: get_be_def)

lemma unat_be_val:
  fixes x :: "'a::len word"
  assumes "LENGTH('a) = 8 * n"
  shows "be_val (be_bytes n (unat x)) = unat x"
proof (rule be_val_be_bytes)
  have "unat x < 2 ^ (8 * n)" using unsigned_less [of x, where 'a = nat] assms by simp
  then show "unat x < 256 ^ n" by (simp add: power_mult)
qed

lemma be_ops_laws: "bytes_crate be_ops"
  by unfold_locales
    (simp_all add: be_ops_def get_be_put unat_be_val, simp_all add: get_be_def)

interpretation be: bytes_crate be_ops
  by (rule be_ops_laws)

section \<open>Properties\<close>

text \<open>
  C3. Decoding what \<open>encode_frame\<close> wrote returns the frame and leaves exactly the bytes that follow
  it in the buffer, for every frame of the current version whose payload length fits the 32-bit
  length field, whatever the buffer operations are as long as they keep their documented contract.
\<close>

theorem decode_encode_frame:
  assumes "bytes_crate ops" and "version f = VERSION" and "length (payload f) < 2 ^ 32"
  shows "\<exists>bs. encode_frame ops f = Ok bs \<and> decode_frame ops (bs @ rest) = Some (Ok f, rest)"
proof -
  obtain bs where bs: "encode_frame ops f = Ok bs" by (simp add: encode_frame_def)
  have "decode_frame ops (bs @ rest) = Some (Ok f, rest)"
    using bytes_crate.decode_encoded_prefix [OF assms(1,2) bs refl, of rest] assms(3) by simp
  with bs show ?thesis by blast
qed

definition sample_frame :: MediaFrame where
  "sample_frame = \<lparr>version = 1, user_id = 7, stream_id = 3, frame_type = VideoKey,
     timestamp = 1000, sequence = 9, flags = \<lparr>end_of_frame = True, discardable = False\<rparr>,
     payload = [1, 2, 3]\<rparr>"

theorem decode_encode_frame_witness:
  "\<exists>bs. encode_frame be_ops sample_frame = Ok bs \<and>
     decode_frame be_ops (bs @ [255]) = Some (Ok sample_frame, [255])"
  using decode_encode_frame [OF be_ops_laws, of sample_frame "[255]"]
  by (simp add: sample_frame_def VERSION_def)

text \<open>
  Decoding arbitrary bytes never panics: the header check at the top covers every later read of
  the buffer, so each input yields a frame or one of the codec's errors.
\<close>

theorem decode_frame_total:
  assumes "bytes_crate ops"
  shows "\<exists>r rest. decode_frame ops data = Some (r, rest)"
  using bytes_crate.decode_never_panics [OF assms, of data] by auto

theorem decode_frame_total_witness:
  "\<exists>r rest. decode_frame be_ops (replicate 50 1) = Some (r, rest)"
  by (rule decode_frame_total [OF be_ops_laws])

text \<open>
  The length field is a truncating cast: a frame whose payload has 2^32 bytes or more decodes to
  a frame with only the first (length mod 2^32) payload bytes, and the rest of the payload is left
  in the buffer as if it were the next frame.
\<close>

theorem encode_frame_truncates:
  assumes "bytes_crate ops" and "version f = VERSION" and "2 ^ 32 \<le> length (payload f)"
    and "encode_frame ops f = Ok bs"
  shows "decode_frame ops bs =
      Some (Ok (f\<lparr>payload := take (length (payload f) mod 2 ^ 32) (payload f)\<rparr>),
            drop (length (payload f) mod 2 ^ 32) (payload f))
    \<and> drop (length (payload f) mod 2 ^ 32) (payload f) \<noteq> []"
  using bytes_crate.decode_encoded_prefix [OF assms(1,2,4) refl, of "[]"] assms(3)
    mod_less_divisor [of "2 ^ 32" "length (payload f)"]
  by (simp add: not_le)

theorem encode_frame_truncates_witness:
  "decode_frame be_ops (projr (encode_frame be_ops (sample_frame\<lparr>payload := replicate (2 ^ 32) 0\<rparr>))) =
     Some (Ok (sample_frame\<lparr>payload := []\<rparr>), replicate (2 ^ 32) 0)"
proof -
  let ?f = "sample_frame\<lparr>payload := replicate (2 ^ 32) 0\<rparr>"
  have enc: "encode_frame be_ops ?f = Ok (projr (encode_frame be_ops ?f))"
    by (simp add: encode_frame_def)
  have "version ?f = VERSION" by (simp add: sample_frame_def VERSION_def)
  from encode_frame_truncates [OF be_ops_laws this _ enc] show ?thesis by simp
qed

end
