(* ===== verification/MH_Session.thy ===== *)
theory MH_Session
  imports Prelude "HOL-Library.Multiset"
begin

text \<open>
  The session manager of the Media Handler (crates/mh-service/src/session/mod.rs): registered
  meetings, active connections, pending connections and the wake-up handles of pending clients.

  \<open>SessionState\<close> is the actor's state, each \<open>handle_\<close> function one of its message handlers, and
  \<open>session_handle_message\<close> the dispatch of its mailbox.  A \<open>tokio::sync::Notify\<close> is a number;
  creating one takes a fresh number as an argument, and \<open>notify_waiters\<close> is returned as the
  handle that was signalled.  The public \<open>SessionManagerHandle\<close> works on an actor that may have
  stopped (\<open>None\<close>), in which case each call answers its default.
\<close>

section \<open>Data\<close>

record MeetingRegistration =
  mc_id :: string
  mc_grpc_endpoint :: string
  registered_at :: instant

record ConnectionEntry =
  ce_connection_id :: string
  ce_participant_id :: string
  ce_connected_at :: instant

record PendingConnection =
  pc_connection_id :: string
  pc_meeting_id :: string
  pc_participant_id :: string
  pc_connected_at :: instant

type_synonym notify = nat

record SessionState =
  registered_meetings :: "(string, MeetingRegistration) hmap"
  active_connections :: "(string, (string, ConnectionEntry list) hmap) hmap"
  pending_connections :: "(string, PendingConnection list) hmap"
  meeting_notifiers :: "(string, notify) hmap"

definition session_new :: SessionState where
  "session_new = \<lparr>registered_meetings = [], active_connections = [],
     pending_connections = [], meeting_notifiers = []\<rparr>"

section \<open>Handlers\<close>

text \<open>\<open>entry(meeting).or_default().entry(participant).or_default().push(entry)\<close>.\<close>

definition push_active ::
  "string \<Rightarrow> ConnectionEntry \<Rightarrow> (string, (string, ConnectionEntry list) hmap) hmap
     \<Rightarrow> (string, (string, ConnectionEntry list) hmap) hmap"
where
  "push_active mid e act =
     (let meeting_conns = hm_get_or [] act mid;
          participant_conns = hm_get_or [] meeting_conns (ce_participant_id e)
      in hm_insert mid
           (hm_insert (ce_participant_id e) (participant_conns @ [e]) meeting_conns) act)"

definition entry_of_pending :: "PendingConnection \<Rightarrow> ConnectionEntry" where
  "entry_of_pending c = \<lparr>ce_connection_id = pc_connection_id c,
     ce_participant_id = pc_participant_id c, ce_connected_at = pc_connected_at c\<rparr>"

definition handle_register_meeting ::
  "string \<Rightarrow> MeetingRegistration \<Rightarrow> SessionState
     \<Rightarrow> PendingConnection list \<times> SessionState \<times> notify option"
where
  "handle_register_meeting mid reg s =
     (let pending = hm_get_or [] (pending_connections s) mid;
          s1 = s\<lparr>registered_meetings := hm_insert mid reg (registered_meetings s),
                 pending_connections := hm_remove mid (pending_connections s)\<rparr>;
          s2 = s1\<lparr>active_connections :=
                    fold (\<lambda>conn. push_active mid (entry_of_pending conn)) pending
                      (active_connections s1)\<rparr>
      in (pending, s2, hm_get (meeting_notifiers s2) mid))"

definition handle_add_connection :: "string \<Rightarrow> ConnectionEntry \<Rightarrow> SessionState \<Rightarrow> SessionState" where
  "handle_add_connection mid e s =
     s\<lparr>active_connections := push_active mid e (active_connections s)\<rparr>"

text \<open>The loop over \<open>meeting_conns.values_mut()\<close>, which returns at the first hit.\<close>

fun remove_from_participants ::
  "string \<Rightarrow> (string, ConnectionEntry list) hmap \<Rightarrow> (string, ConnectionEntry list) hmap option"
where
  "remove_from_participants cid [] = None"
| "remove_from_participants cid ((pid, conns) # rest) =
     (if \<exists>c \<in> set conns. ce_connection_id c = cid
      then Some ((pid, remove_first (\<lambda>c. ce_connection_id c = cid) conns) # rest)
      else map_option ((#) (pid, conns)) (remove_from_participants cid rest))"

definition handle_remove_connection :: "string \<Rightarrow> string \<Rightarrow> SessionState \<Rightarrow> bool \<times> SessionState" where
  "handle_remove_connection mid cid s =
     (case hm_get (active_connections s) mid of
        None \<Rightarrow> (False, s)
      | Some meeting_conns \<Rightarrow>
          (case remove_from_participants cid meeting_conns of
             None \<Rightarrow> (False, s)
           | Some meeting_conns' \<Rightarrow>
               (True, s\<lparr>active_connections :=
                          hm_insert mid meeting_conns' (active_connections s)\<rparr>)))"

definition handle_add_pending_connection ::
  "notify \<Rightarrow> PendingConnection \<Rightarrow> SessionState \<Rightarrow> notify \<times> SessionState"
where
  "handle_add_pending_connection fresh p s =
     (let mid = pc_meeting_id p;
          s1 = s\<lparr>pending_connections :=
                   hm_insert mid (hm_get_or [] (pending_connections s) mid @ [p])
                     (pending_connections s)\<rparr>;
          n = hm_get_or fresh (meeting_notifiers s1) mid
      in (n, s1\<lparr>meeting_notifiers := hm_insert mid n (meeting_notifiers s1)\<rparr>))"

definition handle_remove_pending_connection ::
  "string \<Rightarrow> string \<Rightarrow> SessionState \<Rightarrow> bool \<times> SessionState"
where
  "handle_remove_pending_connection mid cid s =
     (case hm_get (pending_connections s) mid of
        None \<Rightarrow> (False, s)
      | Some pending_list \<Rightarrow>
          if \<exists>c \<in> set pending_list. pc_connection_id c = cid
          then let l = remove_first (\<lambda>c. pc_connection_id c = cid) pending_list
               in (True, s\<lparr>pending_connections :=
                     (if l = [] then hm_remove mid (pending_connections s)
                      else hm_insert mid l (pending_connections s))\<rparr>)
          else (False, s))"

definition is_meeting_registered_in :: "string \<Rightarrow> SessionState \<Rightarrow> bool" where
  "is_meeting_registered_in mid s = hm_contains (registered_meetings s) mid"

definition mc_endpoint_in :: "string \<Rightarrow> SessionState \<Rightarrow> string option" where
  "mc_endpoint_in mid s = map_option mc_grpc_endpoint (hm_get (registered_meetings s) mid)"

definition active_connection_count_in :: "SessionState \<Rightarrow> nat" where
  "active_connection_count_in s = hm_sum (hm_sum length) (active_connections s)"

section \<open>Mailbox\<close>

datatype SessionMessage =
    RegisterMeeting string MeetingRegistration
  | IsMeetingRegistered string
  | GetMcEndpoint string
  | AddConnection string ConnectionEntry
  | RemoveConnection string string
  | AddPendingConnection PendingConnection
  | RemovePendingConnection string string
  | ActiveConnectionCount

datatype SessionReply =
    RPending "PendingConnection list" "notify option"
  | RBool bool
  | REndpoint "string option"
  | RNone
  | RNotify notify
  | RCount nat

fun session_handle_message ::
  "notify \<Rightarrow> SessionMessage \<Rightarrow> SessionState \<Rightarrow> SessionReply \<times> SessionState"
where
  "session_handle_message fresh (RegisterMeeting mid reg) s =
     (let (p, s', n) = handle_register_meeting mid reg s in (RPending p n, s'))"
| "session_handle_message fresh (IsMeetingRegistered mid) s =
     (RBool (is_meeting_registered_in mid s), s)"
| "session_handle_message fresh (GetMcEndpoint mid) s = (REndpoint (mc_endpoint_in mid s), s)"
| "session_handle_message fresh (AddConnection mid e) s = (RNone, handle_add_connection mid e s)"
| "session_handle_message fresh (RemoveConnection mid cid) s =
     (let (b, s') = handle_remove_connection mid cid s in (RBool b, s'))"
| "session_handle_message fresh (AddPendingConnection p) s =
     (let (n, s') = handle_add_pending_connection fresh p s in (RNotify n, s'))"
| "session_handle_message fresh (RemovePendingConnection mid cid) s =
     (let (b, s') = handle_remove_pending_connection mid cid s in (RBool b, s'))"
| "session_handle_message fresh ActiveConnectionCount s =
     (RCount (active_connection_count_in s), s)"

text \<open>\<open>SessionManagerActor::run\<close>: messages are handled in arrival order until the channel closes.\<close>

fun session_run :: "(notify \<times> SessionMessage) list \<Rightarrow> SessionState \<Rightarrow> SessionReply list \<times> SessionState" where
  "session_run [] s = ([], s)"
| "session_run ((fresh, msg) # msgs) s =
     (let (r, s') = session_handle_message fresh msg s;
          (rs, s'') = session_run msgs s'
      in (r # rs, s''))"

section \<open>The handle\<close>

text \<open>
  A call on a \<open>SessionManagerHandle\<close>: the actor's state, or \<open>None\<close> once the actor has stopped and
  the channel is closed.
\<close>

type_synonym session_actor = "SessionState option"

definition sh_register_meeting ::
  "string \<Rightarrow> MeetingRegistration \<Rightarrow> session_actor
     \<Rightarrow> PendingConnection list \<times> session_actor \<times> notify option"
where
  "sh_register_meeting mid reg a =
     (case a of None \<Rightarrow> ([], None, None)
      | Some s \<Rightarrow> (let (p, s', n) = handle_register_meeting mid reg s in (p, Some s', n)))"

definition sh_is_meeting_registered :: "string \<Rightarrow> session_actor \<Rightarrow> bool" where
  "sh_is_meeting_registered mid a =
     (case a of None \<Rightarrow> False | Some s \<Rightarrow> is_meeting_registered_in mid s)"

definition sh_get_mc_endpoint :: "string \<Rightarrow> session_actor \<Rightarrow> string option" where
  "sh_get_mc_endpoint mid a = (case a of None \<Rightarrow> None | Some s \<Rightarrow> mc_endpoint_in mid s)"

definition sh_add_connection :: "string \<Rightarrow> ConnectionEntry \<Rightarrow> session_actor \<Rightarrow> session_actor" where
  "sh_add_connection mid e a = map_option (handle_add_connection mid e) a"

definition sh_remove_connection :: "string \<Rightarrow> string \<Rightarrow> session_actor \<Rightarrow> bool \<times> session_actor" where
  "sh_remove_connection mid cid a =
     (case a of None \<Rightarrow> (False, None)
      | Some s \<Rightarrow> (let (b, s') = handle_remove_connection mid cid s in (b, Some s')))"

text \<open>A stopped actor leaves the caller with a \<open>Notify\<close> of its own, which nobody signals.\<close>

definition sh_add_pending_connection ::
  "notify \<Rightarrow> PendingConnection \<Rightarrow> session_actor \<Rightarrow> notify \<times> session_actor"
where
  "sh_add_pending_connection fresh p a =
     (case a of None \<Rightarrow> (fresh, None)
      | Some s \<Rightarrow> (let (n, s') = handle_add_pending_connection fresh p s in (n, Some s')))"

definition sh_remove_pending_connection ::
  "string \<Rightarrow> string \<Rightarrow> session_actor \<Rightarrow> bool \<times> session_actor"
where
  "sh_remove_pending_connection mid cid a =
     (case a of None \<Rightarrow> (False, None)
      | Some s \<Rightarrow> (let (b, s') = handle_remove_pending_connection mid cid s in (b, Some s')))"

definition sh_active_connection_count :: "session_actor \<Rightarrow> nat" where
  "sh_active_connection_count a =
     (case a of None \<Rightarrow> 0 | Some s \<Rightarrow> active_connection_count_in s)"

section \<open>Views and invariant\<close>

text \<open>The connections of one participant, of one meeting, and the pending ones of a meeting.\<close>

definition active_of :: "SessionState \<Rightarrow> string \<Rightarrow> string \<Rightarrow> ConnectionEntry list" where
  "active_of s mid pid = hm_get_or [] (hm_get_or [] (active_connections s) mid) pid"

definition pending_of :: "SessionState \<Rightarrow> string \<Rightarrow> PendingConnection list" where
  "pending_of s mid = hm_get_or [] (pending_connections s) mid"

text \<open>
  Keys are distinct, entries are filed under their own participant and meeting, a meeting has a
  pending list only while it has pending connections, and then it has a wake-up handle.
\<close>

definition session_wf :: "SessionState \<Rightarrow> bool" where
  "session_wf s \<longleftrightarrow>
     hm_wf (registered_meetings s) \<and> hm_wf (active_connections s) \<and>
     hm_wf (pending_connections s) \<and> hm_wf (meeting_notifiers s) \<and>
     (\<forall>mid mc. hm_get (active_connections s) mid = Some mc \<longrightarrow> hm_wf mc) \<and>
     (\<forall>mid pid. \<forall>e \<in> set (active_of s mid pid). ce_participant_id e = pid) \<and>
     (\<forall>mid ps. hm_get (pending_connections s) mid = Some ps \<longrightarrow>
        ps \<noteq> [] \<and> (\<forall>p \<in> set ps. pc_meeting_id p = mid) \<and>
        hm_get (meeting_notifiers s) mid \<noteq> None)"

section \<open>Lookups after each update\<close>

lemma active_get_push [simp]:
  "hm_get_or [] (hm_get_or [] (push_active mid e act) m) p =
     (let old = hm_get_or [] (hm_get_or [] act m) p
      in if m = mid \<and> p = ce_participant_id e then old @ [e] else old)"
  by (auto simp: push_active_def Let_def)

lemma active_get_fold_push:
  "hm_get_or [] (hm_get_or [] (fold (\<lambda>c. push_active mid (g c)) cs act) m) p =
     hm_get_or [] (hm_get_or [] act m) p
       @ (if m = mid then filter (\<lambda>e. ce_participant_id e = p) (map g cs) else [])"
  by (induction cs arbitrary: act) (auto simp: Let_def)

lemma remove_from_participants_None:
  "remove_from_participants cid mc = None \<longleftrightarrow>
     (\<forall>(pid, conns) \<in> set mc. \<forall>c \<in> set conns. ce_connection_id c \<noteq> cid)"
  by (induction cid mc rule: remove_from_participants.induct) auto

lemma remove_from_participants_keys:
  "remove_from_participants cid mc = Some mc' \<Longrightarrow> map fst mc' = map fst mc"
  by (induction cid mc arbitrary: mc' rule: remove_from_participants.induct)
    (auto split: if_splits)

lemma remove_from_participants_subset:
  "remove_from_participants cid mc = Some mc' \<Longrightarrow>
     set (hm_get_or [] mc' p) \<subseteq> set (hm_get_or [] mc p)"
proof (induction cid mc arbitrary: mc' rule: remove_from_participants.induct)
  case (2 cid pid conns rest)
  then show ?case
    using set_remove_first [of "\<lambda>c. ce_connection_id c = cid" conns]
    by (fastforce simp: hm_get_or_def hm_get_def split: if_splits option.splits)
qed simp

text \<open>The connection identifiers of a meeting, as multisets: the abstract state.\<close>

definition ids_of_meeting :: "(string, ConnectionEntry list) hmap \<Rightarrow> string multiset" where
  "ids_of_meeting mc = hm_sum (\<lambda>conns. mset (map ce_connection_id conns)) mc"

definition active_ids :: "SessionState \<Rightarrow> string \<Rightarrow> string multiset" where
  "active_ids s mid = ids_of_meeting (hm_get_or [] (active_connections s) mid)"

definition pending_ids :: "SessionState \<Rightarrow> string \<Rightarrow> string multiset" where
  "pending_ids s mid = mset (map pc_connection_id (pending_of s mid))"

lemma ids_of_meeting_Nil [simp]: "ids_of_meeting [] = {#}"
  by (simp add: ids_of_meeting_def)

lemma mset_remove_first:
  "\<exists>c \<in> set cs. f c = a \<Longrightarrow>
     image_mset f (mset cs) = add_mset a (image_mset f (mset (remove_first (\<lambda>c. f c = a) cs)))"
  by (induction cs) auto

lemma ids_of_meeting_Cons:
  "ids_of_meeting ((pid, conns) # rest) = mset (map ce_connection_id conns) + ids_of_meeting rest"
  by (simp add: ids_of_meeting_def hm_sum_def hm_values_def)

lemma in_ids_of_meeting:
  "cid \<in># ids_of_meeting mc \<longleftrightarrow> (\<exists>(pid, conns) \<in> set mc. \<exists>c \<in> set conns. ce_connection_id c = cid)"
  by (induction mc) (auto simp: ids_of_meeting_Cons)

lemma remove_from_participants_ids:
  "remove_from_participants cid mc = Some mc' \<Longrightarrow>
     ids_of_meeting mc = add_mset cid (ids_of_meeting mc')"
  by (induction cid mc arbitrary: mc' rule: remove_from_participants.induct)
    (auto simp: ids_of_meeting_Cons split: if_splits intro!: mset_remove_first)

lemma ids_of_meeting_push:
  "ids_of_meeting (hm_get_or [] (push_active mid e act) m) =
     (if m = mid then add_mset (ce_connection_id e) (ids_of_meeting (hm_get_or [] act m))
      else ids_of_meeting (hm_get_or [] act m))"
proof (cases "m = mid")
  case True
  let ?f = "\<lambda>conns. mset (map ce_connection_id conns)"
  let ?mc = "hm_get_or [] act mid"
  let ?pc = "hm_get_or [] ?mc (ce_participant_id e)"
  have "hm_sum ?f (hm_insert (ce_participant_id e) (?pc @ [e]) ?mc) + ?f ?pc
      = hm_sum ?f ?mc + ?f (?pc @ [e])"
    by (rule hm_sum_insert_or) simp
  then show ?thesis using True
    by (simp add: ids_of_meeting_def push_active_def Let_def)
qed (simp add: push_active_def Let_def)

lemma ids_of_meeting_fold_push:
  "ids_of_meeting (hm_get_or [] (fold (\<lambda>c. push_active mid (g c)) cs act) m) =
     ids_of_meeting (hm_get_or [] act m)
       + (if m = mid then mset (map (\<lambda>c. ce_connection_id (g c)) cs) else {#})"
  by (induction cs arbitrary: act) (auto simp: ids_of_meeting_push)

section \<open>The contract of a session store\<close>

text \<open>
  What the connection tasks rely on.  \<open>reg\<close>, \<open>act\<close> and \<open>pend\<close> are the observable state: which
  meetings are registered and which connections, by identifier, are active and pending.
\<close>

locale session_store =
  fixes reg :: "'s \<Rightarrow> string \<Rightarrow> bool"
    and act :: "'s \<Rightarrow> string \<Rightarrow> string multiset"
    and pend :: "'s \<Rightarrow> string \<Rightarrow> string multiset"
    and register :: "string \<Rightarrow> MeetingRegistration \<Rightarrow> 's \<Rightarrow> 's"
    and add :: "string \<Rightarrow> ConnectionEntry \<Rightarrow> 's \<Rightarrow> 's"
    and remove :: "string \<Rightarrow> string \<Rightarrow> 's \<Rightarrow> bool \<times> 's"
    and add_pending :: "PendingConnection \<Rightarrow> 's \<Rightarrow> 's"
    and remove_pending :: "string \<Rightarrow> string \<Rightarrow> 's \<Rightarrow> bool \<times> 's"
  assumes reg_register: "reg (register mid r s) m \<longleftrightarrow> m = mid \<or> reg s m"
    and act_register: "act (register mid r s) m = (if m = mid then act s m + pend s m else act s m)"
    and pend_register: "pend (register mid r s) m = (if m = mid then {#} else pend s m)"
    and reg_add: "reg (add mid e s) m = reg s m"
    and act_add: "act (add mid e s) m =
       (if m = mid then add_mset (ce_connection_id e) (act s m) else act s m)"
    and pend_add: "pend (add mid e s) m = pend s m"
    and remove_found: "fst (remove mid cid s) \<longleftrightarrow> cid \<in># act s mid"
    and reg_remove: "reg (snd (remove mid cid s)) m = reg s m"
    and act_remove: "act (snd (remove mid cid s)) m = (if m = mid then act s m - {#cid#} else act s m)"
    and pend_remove: "pend (snd (remove mid cid s)) m = pend s m"
    and reg_add_pending: "reg (add_pending p s) m = reg s m"
    and act_add_pending: "act (add_pending p s) m = act s m"
    and pend_add_pending: "pend (add_pending p s) m =
       (if m = pc_meeting_id p then add_mset (pc_connection_id p) (pend s m) else pend s m)"
    and remove_pending_found: "fst (remove_pending mid cid s) \<longleftrightarrow> cid \<in># pend s mid"
    and reg_remove_pending: "reg (snd (remove_pending mid cid s)) m = reg s m"
    and act_remove_pending: "act (snd (remove_pending mid cid s)) m = act s m"
    and pend_remove_pending: "pend (snd (remove_pending mid cid s)) m =
       (if m = mid then pend s m - {#cid#} else pend s m)"
begin

lemmas store_simps =
  reg_register act_register pend_register reg_add act_add pend_add remove_found reg_remove
  act_remove pend_remove reg_add_pending act_add_pending pend_add_pending remove_pending_found
  reg_remove_pending act_remove_pending pend_remove_pending

lemma connect_disconnect:
  "act (snd (remove mid (ce_connection_id e) (add mid e s))) = act s"
  by (rule ext) (simp add: store_simps)

lemma provisional_lifecycle:
  assumes "p = \<lparr>pc_connection_id = cid, pc_meeting_id = mid, pc_participant_id = pid, pc_connected_at = t\<rparr>"
    and "pend s mid = {#}"
  shows "act (snd (remove mid cid (register mid r (add_pending p s)))) = act s"
  by (rule ext) (simp add: store_simps assms)

lemma provisional_timeout:
  assumes "p = \<lparr>pc_connection_id = cid, pc_meeting_id = mid, pc_participant_id = pid, pc_connected_at = t\<rparr>"
  shows "act (snd (remove_pending mid cid (add_pending p s))) = act s"
    and "pend (snd (remove_pending mid cid (add_pending p s))) = pend s"
  by (rule ext, simp add: store_simps assms)+

end

lemma register_views:
  "registered_meetings (fst (snd (handle_register_meeting mid r s))) =
     hm_insert mid r (registered_meetings s)"
  "active_ids (fst (snd (handle_register_meeting mid r s))) m =
     (if m = mid then active_ids s m + pending_ids s m else active_ids s m)"
  "pending_ids (fst (snd (handle_register_meeting mid r s))) m =
     (if m = mid then {#} else pending_ids s m)"
  by (auto simp: handle_register_meeting_def Let_def active_ids_def pending_ids_def pending_of_def
      ids_of_meeting_fold_push entry_of_pending_def)

lemma remove_connection_views:
  "fst (handle_remove_connection mid cid s) \<longleftrightarrow> cid \<in># active_ids s mid"
  "registered_meetings (snd (handle_remove_connection mid cid s)) = registered_meetings s"
  "active_ids (snd (handle_remove_connection mid cid s)) m =
     (if m = mid then active_ids s m - {#cid#} else active_ids s m)"
  "pending_ids (snd (handle_remove_connection mid cid s)) m = pending_ids s m"
proof -
  have none: "hm_get (active_connections s) mid = None \<Longrightarrow> active_ids s mid = {#}"
    by (simp add: active_ids_def hm_get_or_def)
  have some: "hm_get (active_connections s) mid = Some mc \<Longrightarrow> active_ids s mid = ids_of_meeting mc" for mc
    by (simp add: active_ids_def hm_get_or_def)
  have miss: "remove_from_participants cid mc = None \<Longrightarrow> cid \<notin># ids_of_meeting mc" for mc
    by (auto simp: remove_from_participants_None in_ids_of_meeting)
  show "fst (handle_remove_connection mid cid s) \<longleftrightarrow> cid \<in># active_ids s mid"
    using none some miss
    by (auto simp: handle_remove_connection_def remove_from_participants_ids split: option.split)
  show "active_ids (snd (handle_remove_connection mid cid s)) m =
     (if m = mid then active_ids s m - {#cid#} else active_ids s m)"
  proof (cases "hm_get (active_connections s) mid")
    case (Some mc)
    show ?thesis
    proof (cases "remove_from_participants cid mc")
      case None
      with Some some [OF Some] miss [OF None] show ?thesis
        by (simp add: handle_remove_connection_def diff_single_trivial)
    next
      case (Some mc')
      with \<open>hm_get _ _ = _\<close> some remove_from_participants_ids [OF Some] show ?thesis
        by (simp add: handle_remove_connection_def active_ids_def)
    qed
  qed (simp add: handle_remove_connection_def none)
qed (simp_all add: handle_remove_connection_def pending_ids_def pending_of_def split: option.split)

lemma remove_pending_views:
  "fst (handle_remove_pending_connection mid cid s) \<longleftrightarrow> cid \<in># pending_ids s mid"
  "registered_meetings (snd (handle_remove_pending_connection mid cid s)) = registered_meetings s"
  "active_ids (snd (handle_remove_pending_connection mid cid s)) m = active_ids s m"
  "pending_ids (snd (handle_remove_pending_connection mid cid s)) m =
     (if m = mid then pending_ids s m - {#cid#} else pending_ids s m)"
proof -
  let ?P = "\<lambda>c. pc_connection_id c = cid"
  let ?l = "hm_get_or [] (pending_connections s) mid"
  have ids: "pending_ids s mid = mset (map pc_connection_id ?l)"
    by (simp add: pending_ids_def pending_of_def)
  have hit: "mset (map pc_connection_id ?l) =
      add_mset cid (mset (map pc_connection_id (remove_first ?P ?l)))" if "\<exists>c \<in> set ?l. ?P c"
    using mset_remove_first [OF that] by simp
  show "fst (handle_remove_pending_connection mid cid s) \<longleftrightarrow> cid \<in># pending_ids s mid"
    by (auto simp: handle_remove_pending_connection_def ids hm_get_or_def Let_def split: option.split)
  show "pending_ids (snd (handle_remove_pending_connection mid cid s)) m =
     (if m = mid then pending_ids s m - {#cid#} else pending_ids s m)"
  proof (cases "\<exists>c \<in> set ?l. ?P c")
    case True
    then obtain ps where "hm_get (pending_connections s) mid = Some ps" "?l = ps"
      by (cases "hm_get (pending_connections s) mid") (auto simp: hm_get_or_def)
    with True hit show ?thesis
      by (auto simp: handle_remove_pending_connection_def Let_def pending_ids_def pending_of_def)
  next
    case False
    then have "cid \<notin># pending_ids s mid" by (auto simp: ids)
    moreover have "snd (handle_remove_pending_connection mid cid s) = s" using False
      by (auto simp: handle_remove_pending_connection_def hm_get_or_def split: option.splits)
    ultimately show ?thesis by (simp add: diff_single_trivial)
  qed
qed (simp_all add: handle_remove_pending_connection_def active_ids_def Let_def split: option.split)

lemma add_views:
  "registered_meetings (handle_add_connection mid e s) = registered_meetings s"
  "active_ids (handle_add_connection mid e s) m =
     (if m = mid then add_mset (ce_connection_id e) (active_ids s m) else active_ids s m)"
  "pending_ids (handle_add_connection mid e s) m = pending_ids s m"
  by (auto simp: handle_add_connection_def active_ids_def ids_of_meeting_push pending_ids_def
      pending_of_def)

lemma add_pending_views:
  "registered_meetings (snd (handle_add_pending_connection fresh p s)) = registered_meetings s"
  "active_ids (snd (handle_add_pending_connection fresh p s)) m = active_ids s m"
  "pending_ids (snd (handle_add_pending_connection fresh p s)) m =
     (if m = pc_meeting_id p then add_mset (pc_connection_id p) (pending_ids s m)
      else pending_ids s m)"
  by (auto simp: handle_add_pending_connection_def Let_def active_ids_def pending_ids_def
      pending_of_def)

lemmas session_views =
  register_views remove_connection_views remove_pending_views add_views add_pending_views

interpretation mhs: session_store
  "\<lambda>s mid. is_meeting_registered_in mid s" active_ids pending_ids
  "\<lambda>mid r s. fst (snd (handle_register_meeting mid r s))" handle_add_connection
  handle_remove_connection "\<lambda>p s. snd (handle_add_pending_connection fresh p s)"
  handle_remove_pending_connection for fresh
  by unfold_locales
    (auto simp: is_meeting_registered_in_def session_views)

section \<open>The invariant\<close>

definition nested_wf :: "(string, (string, ConnectionEntry list) hmap) hmap \<Rightarrow> bool" where
  "nested_wf act \<longleftrightarrow> hm_wf act \<and> (\<forall>m mc. hm_get act m = Some mc \<longrightarrow> hm_wf mc)"

lemma push_active_wf: "nested_wf act \<Longrightarrow> nested_wf (push_active mid e act)"
  by (auto simp: nested_wf_def push_active_def Let_def hm_get_or_def split: option.splits)

lemma fold_push_wf: "nested_wf act \<Longrightarrow> nested_wf (fold (\<lambda>c. push_active mid (g c)) cs act)"
  by (induction cs arbitrary: act) (auto simp: push_active_wf)

lemma session_wf_nested: "session_wf s \<Longrightarrow> nested_wf (active_connections s)"
  by (simp add: session_wf_def nested_wf_def)

lemma register_keeps_wf [wf_intros]:
  assumes "session_wf s"
  shows "session_wf (fst (snd (handle_register_meeting mid r s)))"
  using assms fold_push_wf [OF session_wf_nested [OF assms], of mid entry_of_pending]
  by (auto simp: session_wf_def nested_wf_def handle_register_meeting_def Let_def active_of_def
      active_get_fold_push split: if_splits)

lemma add_keeps_wf [wf_intros]:
  assumes "session_wf s"
  shows "session_wf (handle_add_connection mid e s)"
  using assms push_active_wf [OF session_wf_nested [OF assms], of mid e]
  by (auto simp: session_wf_def nested_wf_def handle_add_connection_def active_of_def Let_def
      split: if_splits)

lemma remove_keeps_wf [wf_intros]:
  assumes "session_wf s"
  shows "session_wf (snd (handle_remove_connection mid cid s))"
proof (cases "hm_get (active_connections s) mid")
  case (Some mc)
  show ?thesis
  proof (cases "remove_from_participants cid mc")
    case None
    with Some assms show ?thesis by (simp add: handle_remove_connection_def)
  next
    case (Some mc')
    let ?s = "snd (handle_remove_connection mid cid s)"
    have s': "active_connections ?s = hm_insert mid mc' (active_connections s)"
      "registered_meetings ?s = registered_meetings s"
      "pending_connections ?s = pending_connections s" "meeting_notifiers ?s = meeting_notifiers s"
      using \<open>hm_get _ _ = _\<close> Some by (simp_all add: handle_remove_connection_def)
    have "hm_wf mc'"
      using remove_from_participants_keys [OF Some] assms \<open>hm_get _ _ = _\<close>
      by (auto simp: session_wf_def hm_wf_def)
    moreover have "set (active_of ?s m p) \<subseteq> set (active_of s m p)" for m p
      using remove_from_participants_subset [OF Some, of p] \<open>hm_get _ _ = _\<close>
      by (auto simp: active_of_def s' hm_get_or_def [of _ _ mid])
    ultimately show ?thesis using assms by (fastforce simp: session_wf_def s' split: if_splits)
  qed
qed (simp add: handle_remove_connection_def assms)

lemma add_pending_keeps_wf [wf_intros]:
  "session_wf s \<Longrightarrow> session_wf (snd (handle_add_pending_connection fresh p s))"
  by (cases "hm_get (pending_connections s) (pc_meeting_id p)")
    (auto simp: session_wf_def handle_add_pending_connection_def Let_def active_of_def
      hm_get_or_def [of "[]" "pending_connections s"] split: if_splits)

lemma remove_pending_keeps_wf [wf_intros]:
  assumes "session_wf s"
  shows "session_wf (snd (handle_remove_pending_connection mid cid s))"
proof (cases "hm_get (pending_connections s) mid")
  case (Some ps)
  let ?l = "remove_first (\<lambda>c. pc_connection_id c = cid) ps"
  have "set ?l \<subseteq> set ps" by (rule set_remove_first)
  with Some assms show ?thesis
    by (auto simp: session_wf_def handle_remove_pending_connection_def Let_def active_of_def
        subset_iff)
qed (simp add: handle_remove_pending_connection_def assms)

lemma session_new_wf [wf_intros]: "session_wf session_new"
  by (simp add: session_wf_def session_new_def active_of_def)

lemma session_message_keeps_wf:
  assumes "session_wf s"
  shows "session_wf (snd (session_handle_message fresh msg s))"
proof (cases msg)
  case (RegisterMeeting mid reg)
  with register_keeps_wf [OF assms, of mid reg] show ?thesis
    by (cases "handle_register_meeting mid reg s") simp
qed (use assms wf_intros in \<open>simp_all add: case_prod_unfold Let_def\<close>)

lemma session_run_keeps_wf: "session_wf s \<Longrightarrow> session_wf (snd (session_run msgs s))"
proof (induction msgs s rule: session_run.induct)
  case (2 fresh msg msgs s)
  obtain r s' where m: "session_handle_message fresh msg s = (r, s')" by fastforce
  with session_message_keeps_wf [OF "2.prems", of fresh msg] have "session_wf s'" by simp
  from "2.IH" [OF m [symmetric] refl this] m show ?case by (simp add: case_prod_unfold Let_def)
qed simp

section \<open>Counting connections\<close>

lemma sum_length_ids: "hm_sum length mc = size (ids_of_meeting mc)"
  by (induction mc) (auto simp: ids_of_meeting_Cons hm_sum_def hm_values_def)

lemma count_eq: "active_connection_count_in s = hm_sum (\<lambda>mc. size (ids_of_meeting mc)) (active_connections s)"
  by (simp add: active_connection_count_in_def sum_length_ids [abs_def])

lemma count_push:
  "hm_sum (\<lambda>mc. size (ids_of_meeting mc)) (push_active mid e act) =
     Suc (hm_sum (\<lambda>mc. size (ids_of_meeting mc)) act)"
proof -
  let ?f = "\<lambda>mc. size (ids_of_meeting mc)"
  obtain mc' where push: "push_active mid e act = hm_insert mid mc' act"
    by (simp add: push_active_def Let_def)
  have "hm_sum ?f (hm_insert mid mc' act) + ?f (hm_get_or [] act mid) = hm_sum ?f act + ?f mc'"
    by (rule hm_sum_insert_or) simp
  moreover have "?f mc' = Suc (?f (hm_get_or [] act mid))"
    using ids_of_meeting_push [of mid e act mid] by (simp add: push)
  ultimately show ?thesis by (simp add: push)
qed

lemma count_fold_push:
  "hm_sum (\<lambda>mc. size (ids_of_meeting mc)) (fold (\<lambda>c. push_active mid (g c)) cs act) =
     hm_sum (\<lambda>mc. size (ids_of_meeting mc)) act + length cs"
  by (induction cs arbitrary: act) (auto simp: count_push)

lemma count_remove:
  "active_connection_count_in (snd (handle_remove_connection mid cid s))
     + (if fst (handle_remove_connection mid cid s) then 1 else 0) = active_connection_count_in s"
proof (cases "hm_get (active_connections s) mid")
  case (Some mc)
  show ?thesis
  proof (cases "remove_from_participants cid mc")
    case (Some mc')
    with \<open>hm_get _ _ = _\<close> remove_from_participants_ids [OF Some]
      hm_sum_insert [of "\<lambda>mc. size (ids_of_meeting mc)" mid mc' "active_connections s"]
    show ?thesis by (simp add: handle_remove_connection_def count_eq)
  qed (simp add: handle_remove_connection_def Some)
qed (simp add: handle_remove_connection_def)

text \<open>What registering one meeting keeps of the others.\<close>

definition other_meetings_kept :: "string \<Rightarrow> SessionState \<Rightarrow> SessionState \<Rightarrow> bool" where
  "other_meetings_kept mid s s' \<longleftrightarrow> meeting_notifiers s' = meeting_notifiers s \<and>
     (\<forall>m pid. m \<noteq> mid \<longrightarrow> hm_get (registered_meetings s') m = hm_get (registered_meetings s) m
        \<and> active_of s' m pid = active_of s m pid \<and> pending_of s' m = pending_of s m)"

lemma other_meetings_kept_refl [simp]: "other_meetings_kept mid s s"
  by (simp add: other_meetings_kept_def)

lemma other_meetings_kept_trans:
  "other_meetings_kept mid s s' \<Longrightarrow> other_meetings_kept mid s' s'' \<Longrightarrow> other_meetings_kept mid s s''"
  by (simp add: other_meetings_kept_def)

lemma handle_register_meeting_kept: "other_meetings_kept mid s (fst (snd (handle_register_meeting mid reg s)))"
  by (auto simp: other_meetings_kept_def handle_register_meeting_def Let_def pending_of_def active_of_def
      active_get_fold_push)

text \<open>Connections a message opened, and connections it closed, as its reply tells.\<close>

fun opened :: "SessionMessage \<Rightarrow> SessionReply \<Rightarrow> nat" where
  "opened (AddConnection mid e) r = 1"
| "opened (RegisterMeeting mid reg) (RPending ps n) = length ps"
| "opened msg r = 0"

fun closed :: "SessionMessage \<Rightarrow> SessionReply \<Rightarrow> nat" where
  "closed (RemoveConnection mid cid) (RBool b) = (if b then 1 else 0)"
| "closed msg r = 0"

lemma session_message_count:
  "session_handle_message fresh msg s = (r, s') \<Longrightarrow>
     active_connection_count_in s' + closed msg r = active_connection_count_in s + opened msg r"
proof (cases msg)
  case (RemoveConnection mid cid)
  moreover assume "session_handle_message fresh msg s = (r, s')"
  ultimately show ?thesis using count_remove [of mid cid s]
    by (cases "handle_remove_connection mid cid s") (auto split: if_splits)
next
  case (RemovePendingConnection mid cid)
  moreover assume "session_handle_message fresh msg s = (r, s')"
  ultimately show ?thesis
    by (auto simp: handle_remove_pending_connection_def Let_def count_eq case_prod_unfold
        split: option.splits if_splits)
qed (auto simp: handle_register_meeting_def handle_add_connection_def count_eq count_push
    count_fold_push handle_add_pending_connection_def Let_def)

section \<open>Properties\<close>

text \<open>
  C34. Registering a meeting promotes its pending connections exactly once: they are returned to the
  caller, they join the active connections of their own participants in arrival order, no pending
  connection of the meeting is left, the meeting is registered with the given data, and the waiting
  tasks' handle is signalled.  Other meetings are left alone: they stay registered, or unregistered,
  as they were, they keep their active and pending connections, and every wake-up handle is kept.
\<close>

theorem register_meeting_promotes:
  assumes "handle_register_meeting mid reg s = (promoted, s', signalled)"
  shows "promoted = pending_of s mid
    \<and> hm_get (registered_meetings s') mid = Some reg
    \<and> pending_of s' mid = []
    \<and> (\<forall>pid. active_of s' mid pid = active_of s mid pid
         @ filter (\<lambda>e. ce_participant_id e = pid) (map entry_of_pending promoted))
    \<and> (\<forall>m pid. m \<noteq> mid \<longrightarrow> hm_get (registered_meetings s') m = hm_get (registered_meetings s) m
         \<and> active_of s' m pid = active_of s m pid \<and> pending_of s' m = pending_of s m)
    \<and> meeting_notifiers s' = meeting_notifiers s
    \<and> signalled = hm_get (meeting_notifiers s) mid"
  using assms
  by (auto simp: handle_register_meeting_def Let_def pending_of_def active_of_def
      active_get_fold_push)

definition sample_registration :: MeetingRegistration where
  "sample_registration = \<lparr>mc_id = ''mc-1'', mc_grpc_endpoint = ''http://mc-1:50052'', registered_at = 0\<rparr>"

definition sample_pending :: PendingConnection where
  "sample_pending = \<lparr>pc_connection_id = ''c1'', pc_meeting_id = ''m1'',
     pc_participant_id = ''alice'', pc_connected_at = 5\<rparr>"

definition sample_session :: SessionState where
  "sample_session = snd (handle_add_pending_connection 0 sample_pending session_new)"

lemma sample_session_eq:
  "sample_session = \<lparr>registered_meetings = [], active_connections = [],
     pending_connections = [(''m1'', [sample_pending])], meeting_notifiers = [(''m1'', 0)]\<rparr>"
  by (simp add: sample_session_def handle_add_pending_connection_def session_new_def
      sample_pending_def hm_insert_def Let_def)

text \<open>A session in which another meeting is registered already.\<close>

definition sample_shared :: SessionState where
  "sample_shared = sample_session\<lparr>registered_meetings := [(''m2'', sample_registration)]\<rparr>"

theorem register_meeting_promotes_witness:
  "\<exists>s'. handle_register_meeting ''m1'' sample_registration sample_shared
       = ([sample_pending], s', Some 0)
     \<and> active_of s' ''m1'' ''alice'' = [entry_of_pending sample_pending]
     \<and> hm_get (registered_meetings s') ''m2'' = Some sample_registration"
proof -
  obtain p s' n where h: "handle_register_meeting ''m1'' sample_registration sample_shared = (p, s', n)"
    by (cases "handle_register_meeting ''m1'' sample_registration sample_shared") auto
  from register_meeting_promotes [OF h] show ?thesis using h
    by (auto simp: sample_shared_def sample_session_eq pending_of_def active_of_def hm_get_or_def hm_get_def
        entry_of_pending_def sample_pending_def)
qed

text \<open>
  In every run of the session actor from its initial state the state stays well formed: entries
  are filed under their own participant and meeting, no meeting keeps an empty pending list, and
  every meeting with pending connections has a wake-up handle to signal.
\<close>

theorem session_run_wf: "session_wf (snd (session_run msgs session_new))"
  by (rule session_run_keeps_wf) (rule session_new_wf)

text \<open>
  The reported number of active connections is a ledger: after any run it is what was opened
  (connections added, plus pending connections that a registration promoted) less what was closed
  (removals that answered true).
\<close>

theorem active_count_ledger:
  assumes "session_run msgs session_new = (rs, s)"
  shows "active_connection_count_in s + sum_list (map2 closed (map snd msgs) rs)
    = sum_list (map2 opened (map snd msgs) rs)"
proof -
  have "session_run msgs s0 = (rs, s) \<Longrightarrow>
    active_connection_count_in s + sum_list (map2 closed (map snd msgs) rs)
      = active_connection_count_in s0 + sum_list (map2 opened (map snd msgs) rs)" for s0
  proof (induction msgs s0 arbitrary: rs rule: session_run.induct)
    case (2 fresh msg msgs s0)
    obtain r s1 where m: "session_handle_message fresh msg s0 = (r, s1)" by fastforce
    obtain rs' s2 where run: "session_run msgs s1 = (rs', s2)" by fastforce
    from "2.prems" m run have "rs = r # rs'" "s2 = s" by auto
    with "2.IH" [OF m [symmetric] refl] run session_message_count [OF m] show ?case by auto
  qed simp
  from this [OF assms] show ?thesis
    by (simp add: active_connection_count_in_def session_new_def)
qed

theorem active_count_ledger_witness:
  "active_connection_count_in (snd (session_run
     [(0, AddPendingConnection sample_pending), (0, RegisterMeeting ''m1'' sample_registration)]
     session_new)) = 1"
proof -
  let ?ms = "[(0, AddPendingConnection sample_pending), (0, RegisterMeeting ''m1'' sample_registration)]"
  have run: "fst (session_run ?ms session_new) = [RNotify 0, RPending [sample_pending] (Some 0)]"
    by (simp add: handle_add_pending_connection_def handle_register_meeting_def session_new_def
        sample_pending_def hm_insert_def hm_get_or_def hm_get_def Let_def)
  have "session_run ?ms session_new = ([RNotify 0, RPending [sample_pending] (Some 0)],
      snd (session_run ?ms session_new))"
    using run by (metis prod.collapse)
  from active_count_ledger [OF this] show ?thesis by (simp del: session_run.simps)
qed

end
