(* ===== verification/Framing.thy ===== *)
theory Framing
  imports Prelude
begin

text \<open>
  Length-prefixed messages on a WebTransport stream: a 4-byte big-endian length and the body.  Both
  the Meeting Controller and the Media Handler read them (\<open>read_framed_message\<close> in their
  webtransport/connection.rs); the two functions differ in the error constructor only, which is the
  argument \<open>mk\<close> here.  The Meeting Controller writes them (\<open>write_raw_framed\<close>).

  The QUIC stream itself is the wtransport crate's.  \<open>read_exact\<close> is a parameter: it takes the
  number of bytes wanted and the stream, and gives the bytes with the stream advanced past them, or
  \<open>None\<close> for a read error.  The locale \<open>exact_reader\<close> states what the readers rely on, in terms of
  the bytes the stream will still deliver.
\<close>

definition MAX_MESSAGE_SIZE :: nat where
  "MAX_MESSAGE_SIZE = 64 * 1024"

definition read_framed ::
  "(string \<Rightarrow> 'e) \<Rightarrow> (nat \<Rightarrow> 's \<Rightarrow> (u8 list \<times> 's) option) \<Rightarrow> 's \<Rightarrow> (u8 list \<times> 's, 'e) result"
where
  "read_framed mk read_exact stream =
     (case read_exact 4 stream of
        None \<Rightarrow> Err (mk ''Failed to read message'')
      | Some (len_buf, stream1) \<Rightarrow>
          let msg_len = be_val len_buf
          in if msg_len > MAX_MESSAGE_SIZE then Err (mk ''Message too large'')
             else if msg_len = 0 then Err (mk ''Empty message'')
             else (case read_exact msg_len stream1 of
                     None \<Rightarrow> Err (mk ''Failed to read message body'')
                   | Some (buf, stream2) \<Rightarrow> Ok (buf, stream2)))"

text \<open>The frame that \<open>write_raw_framed\<close> hands to the stream; \<open>try_into\<close> checks the length.\<close>

definition write_raw_framed :: "(string \<Rightarrow> 'e) \<Rightarrow> u8 list \<Rightarrow> (u8 list, 'e) result" where
  "write_raw_framed mk data =
     (if length data < 2 ^ 32 then Ok (be_bytes 4 (length data) @ data)
      else Err (mk ''Message too large to frame''))"

section \<open>The contract of the stream\<close>

locale exact_reader =
  fixes content :: "'s \<Rightarrow> u8 list"
    and read_exact :: "nat \<Rightarrow> 's \<Rightarrow> (u8 list \<times> 's) option"
  assumes read_enough: "n \<le> length (content s) \<Longrightarrow>
      \<exists>s'. read_exact n s = Some (take n (content s), s') \<and> content s' = drop n (content s)"
    and read_short: "length (content s) < n \<Longrightarrow> read_exact n s = None"
begin

lemma read_exactD:
  assumes "read_exact n s = Some (bs, s')"
  shows "bs = take n (content s) \<and> content s' = drop n (content s) \<and> n \<le> length (content s)"
  using assms read_enough [of n s] read_short [of s n] by (cases "n \<le> length (content s)") auto

lemma read_framed_ok:
  assumes "content s = be_bytes 4 (length msg) @ msg @ rest"
    and "msg \<noteq> []" and "length msg \<le> MAX_MESSAGE_SIZE"
  shows "\<exists>s'. read_framed mk read_exact s = Ok (msg, s') \<and> content s' = rest"
proof -
  obtain s1 where s1: "read_exact 4 s = Some (be_bytes 4 (length msg), s1)" "content s1 = msg @ rest"
    using read_enough [of 4 s] assms(1) by auto
  obtain s2 where s2: "read_exact (length msg) s1 = Some (msg, s2)" "content s2 = rest"
    using read_enough [of "length msg" s1] s1(2) by auto
  have "be_val (be_bytes 4 (length msg)) = length msg"
    using assms(3) by (intro be_val_be_bytes) (simp add: MAX_MESSAGE_SIZE_def)
  with assms(2,3) s1 s2 show ?thesis by (simp add: read_framed_def Let_def)
qed

lemma read_framed_sound:
  assumes "read_framed mk read_exact s = Ok (msg, s')"
  shows "content s = be_bytes 4 (length msg) @ msg @ content s'
    \<and> 0 < length msg \<and> length msg \<le> MAX_MESSAGE_SIZE"
proof -
  from assms obtain lb s1 where r1: "read_exact 4 s = Some (lb, s1)"
    and len: "be_val lb \<le> MAX_MESSAGE_SIZE" "be_val lb \<noteq> 0"
    and r2: "read_exact (be_val lb) s1 = Some (msg, s')"
    by (auto simp: read_framed_def Let_def not_less split: option.splits if_splits)
  note d1 = read_exactD [OF r1] and d2 = read_exactD [OF r2]
  have "length lb = 4" using d1 by simp
  moreover have msg: "length msg = be_val lb" using d2 by simp
  ultimately have "be_bytes 4 (length msg) = lb" using be_bytes_be_val [of lb] by simp
  with d1 d2 len msg show ?thesis
    using append_take_drop_id [of 4 "content s"] append_take_drop_id [of "be_val lb" "content s1"]
    by auto
qed

end

section \<open>A stream that has received its bytes\<close>

definition read_exact_bytes :: "nat \<Rightarrow> u8 list \<Rightarrow> (u8 list \<times> u8 list) option" where
  "read_exact_bytes n bs = (if n \<le> length bs then Some (take n bs, drop n bs) else None)"

lemma read_exact_bytes_laws: "exact_reader id read_exact_bytes"
  by unfold_locales (auto simp: read_exact_bytes_def)

interpretation rb: exact_reader id read_exact_bytes
  by (rule read_exact_bytes_laws)

section \<open>Properties\<close>

text \<open>
  A message written with \<open>write_raw_framed\<close> is read back whole and the stream is left at the
  first byte after it, whenever the message is not empty and within the 64 KiB limit.
\<close>

theorem framed_roundtrip:
  assumes "exact_reader content read_exact"
    and "write_raw_framed mk msg = Ok frame"
    and "content s = frame @ rest"
    and "msg \<noteq> []" and "length msg \<le> MAX_MESSAGE_SIZE"
  shows "\<exists>s'. read_framed mk' read_exact s = Ok (msg, s') \<and> content s' = rest"
proof -
  have "content s = be_bytes 4 (length msg) @ msg @ rest"
    using assms(2,3) by (auto simp: write_raw_framed_def split: if_splits)
  from exact_reader.read_framed_ok [OF assms(1) this assms(4,5)] show ?thesis .
qed

theorem framed_roundtrip_witness:
  "\<exists>s'. read_framed (\<lambda>e. e) read_exact_bytes (be_bytes 4 3 @ [7, 8, 9] @ [1]) = Ok ([7, 8, 9], s')
     \<and> id s' = [1]"
  by (rule framed_roundtrip [OF read_exact_bytes_laws, of "\<lambda>e. e" _ "be_bytes 4 3 @ [7, 8, 9]"])
    (simp_all add: write_raw_framed_def MAX_MESSAGE_SIZE_def numeral_3_eq_3)

text \<open>
  Whatever a peer sends, an accepted message has between 1 and 65536 bytes (the buffer that is
  allocated for it is bounded by the limit, whatever the length prefix says), and the bytes consumed
  are exactly its frame.
\<close>

theorem framed_read_bounded:
  assumes "exact_reader content read_exact" and "read_framed mk read_exact s = Ok (msg, s')"
  shows "0 < length msg \<and> length msg \<le> MAX_MESSAGE_SIZE
    \<and> content s = be_bytes 4 (length msg) @ msg @ content s'"
  using exact_reader.read_framed_sound [OF assms] by blast

theorem framed_read_bounded_witness:
  "0 < length [5 :: u8] \<and> length [5 :: u8] \<le> MAX_MESSAGE_SIZE
     \<and> id [0, 0, 0, 1, 5, 6] = be_bytes 4 (length [5 :: u8]) @ [5] @ id [6]"
  by (rule framed_read_bounded [OF read_exact_bytes_laws, of "\<lambda>e. e"])
    (simp add: read_framed_def read_exact_bytes_def MAX_MESSAGE_SIZE_def)

end
