(* ===== verification/MH_Connection.thy ===== *)
theory MH_Connection
  imports MH_Session Framing
begin

text \<open>
  The per-connection task of the Media Handler (crates/mh-service/src/webtransport/connection.rs)
  and its error type (errors.rs).

  The handshake (steps 1 to 4 of \<open>handle_connection\<close>) is a function of what the transport, the
  protobuf decoder and the token validator answer; those are parameters.  From step 5 on the task
  exchanges messages with the session actor, and other tasks and \<open>RegisterMeeting\<close> calls interleave
  between any two of them.  That part is the step relation \<open>mh_step\<close>: one rule per message or
  event, over a system of the session actor's state and all connection tasks.  A task waiting on
  its \<open>Notify\<close> is \<open>Waiting n woken\<close>; \<open>notify_waiters\<close> reaches the tasks that wait at that moment
  and leaves no permit for later ones.  A task between the answer to \<open>add_pending_connection\<close> and
  the creation of the \<open>notified()\<close> future is \<open>Subscribing n\<close>.
\<close>

section \<open>Errors\<close>

datatype MhError =
    Grpc string
  | NotRegistered
  | Config string
  | Internal string
  | TokenAcquisition string
  | TokenAcquisitionTimeout
  | JwtValidation string
  | WebTransportError string
  | MeetingNotRegistered string

fun mh_error_type_label :: "MhError \<Rightarrow> string" where
  "mh_error_type_label (Grpc _) = ''grpc''"
| "mh_error_type_label NotRegistered = ''not_registered''"
| "mh_error_type_label (Config _) = ''config''"
| "mh_error_type_label (Internal _) = ''internal''"
| "mh_error_type_label (TokenAcquisition _) = ''token_acquisition''"
| "mh_error_type_label TokenAcquisitionTimeout = ''token_acquisition_timeout''"
| "mh_error_type_label (JwtValidation _) = ''jwt_validation''"
| "mh_error_type_label (WebTransportError _) = ''webtransport''"
| "mh_error_type_label (MeetingNotRegistered _) = ''meeting_not_registered''"

fun mh_status_code :: "MhError \<Rightarrow> u16" where
  "mh_status_code (Grpc _) = 13"
| "mh_status_code (Internal _) = 13"
| "mh_status_code (WebTransportError _) = 13"
| "mh_status_code NotRegistered = 5"
| "mh_status_code (MeetingNotRegistered _) = 5"
| "mh_status_code (Config _) = 3"
| "mh_status_code (TokenAcquisition _) = 14"
| "mh_status_code TokenAcquisitionTimeout = 14"
| "mh_status_code (JwtValidation _) = 16"

fun mh_client_message :: "MhError \<Rightarrow> string" where
  "mh_client_message (JwtValidation _) = ''Invalid or expired token''"
| "mh_client_message (MeetingNotRegistered _) = ''Meeting not available''"
| "mh_client_message _ = ''An internal error occurred''"

section \<open>Handshake\<close>

definition mh_read_framed_message ::
  "(nat \<Rightarrow> 's \<Rightarrow> (u8 list \<times> 's) option) \<Rightarrow> 's \<Rightarrow> (u8 list \<times> 's, MhError) result"
where
  "mh_read_framed_message = read_framed WebTransportError"

record meeting_claims =
  cl_sub :: string
  cl_meeting_id :: string

text \<open>
  The oneof of the connect envelope: \<open>None\<close> when no variant is set, else the join token.  \<open>decode\<close>
  is the protobuf decoder, \<open>validate\<close> the token validator; each transport step is the error text it
  failed with, if any.
\<close>

definition mh_handshake ::
  "string option \<Rightarrow> string option \<Rightarrow> string option
     \<Rightarrow> (nat \<Rightarrow> 's \<Rightarrow> (u8 list \<times> 's) option) \<Rightarrow> (u8 list \<Rightarrow> string option option)
     \<Rightarrow> (string \<Rightarrow> (meeting_claims, MhError) result) \<Rightarrow> 's
     \<Rightarrow> (meeting_claims, MhError) result"
where
  "mh_handshake request_err accept_err bi_err read_exact decode validate stream =
     (case request_err of
        Some e \<Rightarrow> Err (WebTransportError (''Session request failed: '' @ e))
      | None \<Rightarrow> (case accept_err of
        Some e \<Rightarrow> Err (WebTransportError (''Session accept failed: '' @ e))
      | None \<Rightarrow> (case bi_err of
        Some e \<Rightarrow> Err (WebTransportError (''BiStream accept failed: '' @ e))
      | None \<Rightarrow> (case mh_read_framed_message read_exact stream of
        Inl e \<Rightarrow> Err e
      | Inr (envelope_bytes, _) \<Rightarrow> (case decode envelope_bytes of
        None \<Rightarrow> Err (WebTransportError ''Invalid connect message'')
      | Some None \<Rightarrow> Err (WebTransportError ''Invalid connect message'')
      | Some (Some token) \<Rightarrow> validate token)))))"

section \<open>Tasks\<close>

datatype DisconnectReason = Unspecified | ClientClosed | DisconnectError

text \<open>What the hold loop of step 6 can observe, and the reason it breaks with, if it does.\<close>

datatype hold_event = CancelFired | ReadEnd | ReadError | ReadData

fun hold_loop_step :: "hold_event \<Rightarrow> DisconnectReason option" where
  "hold_loop_step CancelFired = Some Unspecified"
| "hold_loop_step ReadEnd = Some ClientClosed"
| "hold_loop_step ReadError = Some DisconnectError"
| "hold_loop_step ReadData = None"

datatype McNotification =
    ParticipantConnected string string string
  | ParticipantDisconnected string string string DisconnectReason

text \<open>\<open>spawn_notify_connected\<close> and the notification of step 7: sent if the endpoint is known.\<close>

definition spawn_notify_connected :: "SessionState \<Rightarrow> string \<Rightarrow> string \<Rightarrow> McNotification list" where
  "spawn_notify_connected s mid pid =
     (case mc_endpoint_in mid s of Some ep \<Rightarrow> [ParticipantConnected ep mid pid] | None \<Rightarrow> [])"

definition notify_disconnected ::
  "SessionState \<Rightarrow> string \<Rightarrow> string \<Rightarrow> DisconnectReason \<Rightarrow> McNotification list"
where
  "notify_disconnected s mid pid reason =
     (case mc_endpoint_in mid s of
        Some ep \<Rightarrow> [ParticipantDisconnected ep mid pid reason] | None \<Rightarrow> [])"

text \<open>
  \<open>await_meeting_registration\<close>: what each arm of its \<open>select!\<close> does to the session state and to
  the counter of registration timeouts, and what \<open>handle_connection\<close> returns for the outcome
  (\<open>None\<close>: it goes on).
\<close>

datatype RegistrationOutcome = Registered | Timeout | Cancelled

fun await_arm :: "RegistrationOutcome \<Rightarrow> string \<Rightarrow> string \<Rightarrow> SessionState \<Rightarrow> nat \<times> SessionState" where
  "await_arm Registered mid cid s = (0, s)"
| "await_arm Timeout mid cid s = (1, snd (handle_remove_pending_connection mid cid s))"
| "await_arm Cancelled mid cid s = (0, snd (handle_remove_pending_connection mid cid s))"

fun outcome_result :: "RegistrationOutcome \<Rightarrow> string \<Rightarrow> (unit, MhError) result option" where
  "outcome_result Registered mid = None"
| "outcome_result Timeout mid = Some (Err (MeetingNotRegistered mid))"
| "outcome_result Cancelled mid = Some (Ok ())"

datatype conn_pc =
    CheckRegistered
  | AddingActive
  | AddingPending
  | Subscribing notify
  | Waiting notify bool
  | TimedOut
  | CancelledPending
  | NotifyingConnected
  | Holding
  | Cleaning DisconnectReason
  | NotifyingDisconnected DisconnectReason
  | Finished "(unit, MhError) result"

record conn_task =
  t_meeting :: string
  t_participant :: string
  t_pc :: conn_pc

record mh_sys =
  sess :: SessionState
  tasks :: "string \<Rightarrow> conn_task option"
  next_notify :: notify
  sent :: "McNotification list"
  register_timeouts :: nat

definition mh_init :: mh_sys where
  "mh_init = \<lparr>sess = session_new, tasks = Map.empty, next_notify = 0, sent = [],
     register_timeouts = 0\<rparr>"

definition set_pc :: "string \<Rightarrow> conn_pc \<Rightarrow> mh_sys \<Rightarrow> mh_sys" where
  "set_pc c pc s = s\<lparr>tasks := (tasks s)(c := map_option (\<lambda>t. t\<lparr>t_pc := pc\<rparr>) (tasks s c))\<rparr>"

text \<open>\<open>notify_waiters\<close> on the signalled handle.\<close>

definition wake_pc :: "notify option \<Rightarrow> conn_pc \<Rightarrow> conn_pc" where
  "wake_pc sig pc =
     (case pc of Waiting n w \<Rightarrow> Waiting n (w \<or> sig = Some n) | _ \<Rightarrow> pc)"

definition wake :: "notify option \<Rightarrow> mh_sys \<Rightarrow> mh_sys" where
  "wake sig s = s\<lparr>tasks := \<lambda>c. map_option (\<lambda>t. t\<lparr>t_pc := wake_pc sig (t_pc t)\<rparr>) (tasks s c)\<rparr>"

definition at_pc :: "mh_sys \<Rightarrow> string \<Rightarrow> conn_task \<Rightarrow> conn_pc \<Rightarrow> bool" where
  "at_pc s c t pc \<longleftrightarrow> tasks s c = Some t \<and> t_pc t = pc"

inductive mh_step :: "mh_sys \<Rightarrow> mh_sys \<Rightarrow> bool" where
  arrive: "tasks s c = None \<Longrightarrow>
     mh_step s (s\<lparr>tasks := (tasks s)(c \<mapsto> \<lparr>t_meeting = mid, t_participant = pid,
                                            t_pc = CheckRegistered\<rparr>)\<rparr>)"
| rpc_register: "handle_register_meeting mid reg (sess s) = (promoted, ss, sig) \<Longrightarrow>
     mh_step s (wake sig (s\<lparr>sess := ss\<rparr>))"
| check_yes: "at_pc s c t CheckRegistered \<Longrightarrow> is_meeting_registered_in (t_meeting t) (sess s) \<Longrightarrow>
     mh_step s (set_pc c AddingActive s)"
| check_no: "at_pc s c t CheckRegistered \<Longrightarrow> \<not> is_meeting_registered_in (t_meeting t) (sess s) \<Longrightarrow>
     mh_step s (set_pc c AddingPending s)"
| add_active: "at_pc s c t AddingActive \<Longrightarrow>
     ss = handle_add_connection (t_meeting t)
            \<lparr>ce_connection_id = c, ce_participant_id = t_participant t, ce_connected_at = now\<rparr> (sess s) \<Longrightarrow>
     mh_step s (set_pc c NotifyingConnected (s\<lparr>sess := ss\<rparr>))"
| add_pending: "at_pc s c t AddingPending \<Longrightarrow>
     handle_add_pending_connection (next_notify s)
       \<lparr>pc_connection_id = c, pc_meeting_id = t_meeting t, pc_participant_id = t_participant t,
        pc_connected_at = now\<rparr> (sess s) = (n, ss) \<Longrightarrow>
     mh_step s (set_pc c (Subscribing n) (s\<lparr>sess := ss, next_notify := Suc (next_notify s)\<rparr>))"
| subscribe: "at_pc s c t (Subscribing n) \<Longrightarrow> mh_step s (set_pc c (Waiting n False) s)"
| notified: "at_pc s c t (Waiting n True) \<Longrightarrow> mh_step s (set_pc c NotifyingConnected s)"
| register_timeout: "at_pc s c t (Waiting n w) \<Longrightarrow> mh_step s (set_pc c TimedOut s)"
| cancel_waiting: "at_pc s c t (Waiting n w) \<Longrightarrow> mh_step s (set_pc c CancelledPending s)"
| finish_timeout: "at_pc s c t TimedOut \<Longrightarrow>
     await_arm Timeout (t_meeting t) c (sess s) = (n, ss) \<Longrightarrow>
     outcome_result Timeout (t_meeting t) = Some res \<Longrightarrow>
     mh_step s (set_pc c (Finished res)
       (s\<lparr>sess := ss, register_timeouts := register_timeouts s + n\<rparr>))"
| finish_cancel: "at_pc s c t CancelledPending \<Longrightarrow>
     await_arm Cancelled (t_meeting t) c (sess s) = (n, ss) \<Longrightarrow>
     outcome_result Cancelled (t_meeting t) = Some res \<Longrightarrow>
     mh_step s (set_pc c (Finished res)
       (s\<lparr>sess := ss, register_timeouts := register_timeouts s + n\<rparr>))"
| notify_connected: "at_pc s c t NotifyingConnected \<Longrightarrow>
     mh_step s (set_pc c Holding
       (s\<lparr>sent := sent s @ spawn_notify_connected (sess s) (t_meeting t) (t_participant t)\<rparr>))"
| hold: "at_pc s c t Holding \<Longrightarrow> hold_loop_step ev = Some reason \<Longrightarrow>
     mh_step s (set_pc c (Cleaning reason) s)"
| clean: "at_pc s c t (Cleaning reason) \<Longrightarrow>
     handle_remove_connection (t_meeting t) c (sess s) = (found, ss) \<Longrightarrow>
     mh_step s (set_pc c (NotifyingDisconnected reason) (s\<lparr>sess := ss\<rparr>))"
| finish: "at_pc s c t (NotifyingDisconnected reason) \<Longrightarrow>
     mh_step s (set_pc c (Finished (Ok ()))
       (s\<lparr>sent := sent s @ notify_disconnected (sess s) (t_meeting t) (t_participant t) reason\<rparr>))"

inductive mh_reachable :: "mh_sys \<Rightarrow> bool" where
  init: "mh_reachable mh_init"
| step: "mh_reachable s \<Longrightarrow> mh_step s s' \<Longrightarrow> mh_reachable s'"

section \<open>The invariant\<close>

text \<open>
  Per task: how often its connection is active (\<open>a\<close>) and pending (\<open>p\<close>) in its meeting, whether the
  meeting is registered, and the meeting's wake-up handle.
\<close>

fun pc_ok :: "conn_pc \<Rightarrow> nat \<Rightarrow> nat \<Rightarrow> bool \<Rightarrow> notify option \<Rightarrow> bool" where
  "pc_ok CheckRegistered a p r nf \<longleftrightarrow> a = 0 \<and> p = 0"
| "pc_ok AddingActive a p r nf \<longleftrightarrow> a = 0 \<and> p = 0 \<and> r"
| "pc_ok AddingPending a p r nf \<longleftrightarrow> a = 0 \<and> p = 0"
| "pc_ok (Subscribing n) a p r nf \<longleftrightarrow> a + p = 1 \<and> (a = 1 \<longrightarrow> r) \<and> nf = Some n"
| "pc_ok (Waiting n w) a p r nf \<longleftrightarrow> a + p = 1 \<and> (a = 1 \<longrightarrow> r) \<and> (w \<longrightarrow> a = 1) \<and> nf = Some n"
| "pc_ok TimedOut a p r nf \<longleftrightarrow> a + p = 1 \<and> (a = 1 \<longrightarrow> r)"
| "pc_ok CancelledPending a p r nf \<longleftrightarrow> a + p = 1 \<and> (a = 1 \<longrightarrow> r)"
| "pc_ok NotifyingConnected a p r nf \<longleftrightarrow> a = 1 \<and> p = 0 \<and> r"
| "pc_ok Holding a p r nf \<longleftrightarrow> a = 1 \<and> p = 0 \<and> r"
| "pc_ok (Cleaning reason) a p r nf \<longleftrightarrow> a = 1 \<and> p = 0 \<and> r"
| "pc_ok (NotifyingDisconnected reason) a p r nf \<longleftrightarrow> a = 0 \<and> p = 0 \<and> r"
| "pc_ok (Finished res) a p r nf \<longleftrightarrow> p = 0 \<and> a \<le> 1 \<and> (a = 1 \<longrightarrow> r)"

definition conn_ok :: "mh_sys \<Rightarrow> string \<Rightarrow> bool" where
  "conn_ok s c \<longleftrightarrow>
     (case tasks s c of
        None \<Rightarrow> (\<forall>m. c \<notin># active_ids (sess s) m \<and> c \<notin># pending_ids (sess s) m)
      | Some t \<Rightarrow>
          (\<forall>m. m \<noteq> t_meeting t \<longrightarrow> c \<notin># active_ids (sess s) m \<and> c \<notin># pending_ids (sess s) m) \<and>
          pc_ok (t_pc t) (count (active_ids (sess s) (t_meeting t)) c)
            (count (pending_ids (sess s) (t_meeting t)) c)
            (is_meeting_registered_in (t_meeting t) (sess s))
            (hm_get (meeting_notifiers (sess s)) (t_meeting t)))"

definition mh_inv :: "mh_sys \<Rightarrow> bool" where
  "mh_inv s \<longleftrightarrow> (\<forall>c. conn_ok s c)
     \<and> (\<forall>m n. hm_get (meeting_notifiers (sess s)) m = Some n \<longrightarrow> n < next_notify s)
     \<and> (\<forall>m m' n. hm_get (meeting_notifiers (sess s)) m = Some n
          \<longrightarrow> hm_get (meeting_notifiers (sess s)) m' = Some n \<longrightarrow> m = m')"

lemma set_pc_simps [simp]:
  "sess (set_pc c pc s) = sess s" "next_notify (set_pc c pc s) = next_notify s"
  "sent (set_pc c pc s) = sent s"
  "tasks (set_pc c pc s) c' =
     (if c' = c then map_option (\<lambda>t. t\<lparr>t_pc := pc\<rparr>) (tasks s c) else tasks s c')"
  by (auto simp: set_pc_def)

lemma wake_simps [simp]:
  "sess (wake sig s) = sess s" "next_notify (wake sig s) = next_notify s" "sent (wake sig s) = sent s"
  "tasks (wake sig s) c = map_option (\<lambda>t. t\<lparr>t_pc := wake_pc sig (t_pc t)\<rparr>) (tasks s c)"
  by (auto simp: wake_def)

lemma notifiers_kept [simp]:
  "meeting_notifiers (fst (snd (handle_register_meeting mid r s))) = meeting_notifiers s"
  "meeting_notifiers (handle_add_connection mid e s) = meeting_notifiers s"
  "meeting_notifiers (snd (handle_remove_connection mid cid s)) = meeting_notifiers s"
  "meeting_notifiers (snd (handle_remove_pending_connection mid cid s)) = meeting_notifiers s"
  by (auto simp: handle_register_meeting_def handle_add_connection_def handle_remove_connection_def
      handle_remove_pending_connection_def Let_def split: option.split)

text \<open>A step of task \<open>c\<close> that changes only its own counts keeps every other task's invariant.\<close>

lemma conn_ok_frame:
  assumes "conn_ok s c"
    and "tasks s' c = tasks s c"
    and "\<And>m. count (active_ids (sess s') m) c = count (active_ids (sess s) m) c"
    and "\<And>m. count (pending_ids (sess s') m) c = count (pending_ids (sess s) m) c"
    and "\<And>m. is_meeting_registered_in m (sess s') = is_meeting_registered_in m (sess s)"
    and "\<And>m n. hm_get (meeting_notifiers (sess s)) m = Some n \<Longrightarrow>
           hm_get (meeting_notifiers (sess s')) m = Some n"
  shows "conn_ok s' c"
proof -
  have "pc_ok pc a p r nf \<Longrightarrow> (\<And>n. nf = Some n \<Longrightarrow> nf' = Some n) \<Longrightarrow> pc_ok pc a p r nf'"
    for pc a p r nf nf'
    by (cases pc) auto
  with assms show ?thesis
    by (auto simp: conn_ok_def count_eq_zero_iff [symmetric] split: option.splits)
qed

text \<open>The task that moves: its own counts before and after.\<close>

lemma conn_ok_self:
  assumes "conn_ok s c" and "tasks s c = Some t" and "tasks s' c = Some (t\<lparr>t_pc := pc\<rparr>)"
    and "\<And>m. m \<noteq> t_meeting t \<Longrightarrow> active_ids (sess s') m = active_ids (sess s) m"
    and "\<And>m. m \<noteq> t_meeting t \<Longrightarrow> pending_ids (sess s') m = pending_ids (sess s) m"
    and "pc_ok pc (count (active_ids (sess s') (t_meeting t)) c)
          (count (pending_ids (sess s') (t_meeting t)) c)
          (is_meeting_registered_in (t_meeting t) (sess s'))
          (hm_get (meeting_notifiers (sess s')) (t_meeting t))"
  shows "conn_ok s' c"
  using assms by (auto simp: conn_ok_def)

lemma conn_ok_pc:
  assumes "conn_ok s c" and "at_pc s c t pc"
  shows "pc_ok pc (count (active_ids (sess s) (t_meeting t)) c)
          (count (pending_ids (sess s) (t_meeting t)) c)
          (is_meeting_registered_in (t_meeting t) (sess s))
          (hm_get (meeting_notifiers (sess s)) (t_meeting t))"
  using assms by (auto simp: conn_ok_def at_pc_def)

definition notifiers_ok :: "mh_sys \<Rightarrow> bool" where
  "notifiers_ok s \<longleftrightarrow>
     (\<forall>m n. hm_get (meeting_notifiers (sess s)) m = Some n \<longrightarrow> n < next_notify s)
     \<and> (\<forall>m m' n. hm_get (meeting_notifiers (sess s)) m = Some n
          \<longrightarrow> hm_get (meeting_notifiers (sess s)) m' = Some n \<longrightarrow> m = m')"

lemma mh_inv_alt: "mh_inv s \<longleftrightarrow> (\<forall>c. conn_ok s c) \<and> notifiers_ok s"
  by (auto simp: mh_inv_def notifiers_ok_def)

text \<open>
  The common shape of a step: task \<open>c\<close> moves to \<open>pc\<close> and the session state becomes \<open>ss\<close>, which
  differs in the counts of \<open>c\<close> in its own meeting only.
\<close>

lemma own_step_inv:
  assumes "mh_inv s" and "at_pc s c t pc0"
    and s': "sess s' = ss" "next_notify s \<le> next_notify s'"
      "\<And>c'. tasks s' c' = tasks (set_pc c pc s) c'"
    and reg: "\<And>m. is_meeting_registered_in m ss = is_meeting_registered_in m (sess s)"
    and nf: "meeting_notifiers ss = meeting_notifiers (sess s)"
    and others: "\<And>m x. x \<noteq> c \<or> m \<noteq> t_meeting t \<Longrightarrow>
           count (active_ids ss m) x = count (active_ids (sess s) m) x \<and>
           count (pending_ids ss m) x = count (pending_ids (sess s) m) x"
    and pc: "pc_ok pc (count (active_ids ss (t_meeting t)) c)
          (count (pending_ids ss (t_meeting t)) c)
          (is_meeting_registered_in (t_meeting t) (sess s))
          (hm_get (meeting_notifiers (sess s)) (t_meeting t))"
  shows "mh_inv s'"
proof -
  have "conn_ok s' x" for x
  proof (cases "x = c")
    case True
    show ?thesis unfolding True
      by (rule conn_ok_self [where s = s and t = t and pc = pc])
        (use assms in \<open>auto simp: mh_inv_alt at_pc_def multiset_eq_iff True\<close>)
  next
    case False
    show ?thesis
      by (rule conn_ok_frame [where s = s]) (use assms False in \<open>auto simp: mh_inv_alt\<close>)
  qed
  moreover have "notifiers_ok s'"
    using assms(1) s'(1,2) nf by (auto simp: mh_inv_alt notifiers_ok_def intro: less_le_trans)
  ultimately show ?thesis by (simp add: mh_inv_alt)
qed

lemma pc_ok_register:
  assumes "pc_ok pc a p r nf" and "sig = Some n \<Longrightarrow> nf = Some n"
  shows "pc_ok (wake_pc sig pc) (a + p) 0 True nf"
  using assms by (cases pc) (auto simp: wake_pc_def)

lemma pc_ok_wake_other:
  assumes "pc_ok pc a p r nf" and "sig \<noteq> nf \<or> sig = None"
  shows "pc_ok (wake_pc sig pc) a p r nf"
  using assms by (cases pc) (auto simp: wake_pc_def)

lemma register_step_inv:
  assumes inv: "mh_inv s" and reg: "handle_register_meeting mid r (sess s) = (promoted, ss, sig)"
  shows "mh_inv (wake sig (s\<lparr>sess := ss\<rparr>))"
proof -
  have ss: "ss = fst (snd (handle_register_meeting mid r (sess s)))"
    and sig: "sig = hm_get (meeting_notifiers (sess s)) mid"
    using reg by (auto simp: handle_register_meeting_def Let_def)
  have nf: "meeting_notifiers ss = meeting_notifiers (sess s)" by (simp add: ss)
  have views: "active_ids ss m = (if m = mid then active_ids (sess s) m + pending_ids (sess s) m
        else active_ids (sess s) m)"
      "pending_ids ss m = (if m = mid then {#} else pending_ids (sess s) m)"
      "is_meeting_registered_in m ss \<longleftrightarrow> m = mid \<or> is_meeting_registered_in m (sess s)" for m
    by (auto simp: ss register_views is_meeting_registered_in_def)
  have "conn_ok (wake sig (s\<lparr>sess := ss\<rparr>)) c" for c
  proof (cases "tasks s c")
    case None
    with inv show ?thesis by (auto simp: mh_inv_alt conn_ok_def views dest: spec [of _ c])
  next
    case (Some t)
    let ?m = "t_meeting t"
    from inv have c: "conn_ok s c" by (simp add: mh_inv_alt)
    then have ok: "pc_ok (t_pc t) (count (active_ids (sess s) ?m) c) (count (pending_ids (sess s) ?m) c)
        (is_meeting_registered_in ?m (sess s)) (hm_get (meeting_notifiers (sess s)) ?m)"
      using Some by (simp add: conn_ok_def)
    have "pc_ok (wake_pc sig (t_pc t)) (count (active_ids ss ?m) c) (count (pending_ids ss ?m) c)
        (is_meeting_registered_in ?m ss) (hm_get (meeting_notifiers ss) ?m)"
    proof (cases "?m = mid")
      case True
      then show ?thesis using pc_ok_register [OF ok, of sig] by (auto simp: views nf sig)
    next
      case False
      have "sig \<noteq> hm_get (meeting_notifiers (sess s)) ?m \<or> sig = None"
        using inv False sig unfolding mh_inv_def by (metis option.exhaust)
      from pc_ok_wake_other [OF ok this] False show ?thesis by (simp add: views nf)
    qed
    with c Some show ?thesis by (auto simp: conn_ok_def views)
  qed
  with inv show ?thesis by (auto simp: mh_inv_alt notifiers_ok_def nf)
qed

lemma arrive_step_inv:
  assumes "mh_inv s" and "tasks s c = None"
  shows "mh_inv (s\<lparr>tasks := (tasks s)(c \<mapsto> \<lparr>t_meeting = mid, t_participant = pid,
                                              t_pc = CheckRegistered\<rparr>)\<rparr>)"
    (is "mh_inv ?s'")
proof -
  have ok: "conn_ok s x" for x using assms(1) by (simp add: mh_inv_alt)
  have "conn_ok ?s' x" for x
  proof (cases "x = c")
    case True
    with ok [of c] assms(2) show ?thesis by (simp add: conn_ok_def not_in_iff)
  next
    case False
    show ?thesis by (rule conn_ok_frame [OF ok]) (use False in auto)
  qed
  with assms(1) show ?thesis by (simp add: mh_inv_alt notifiers_ok_def)
qed

lemma add_pending_step_inv:
  assumes inv: "mh_inv s" and at: "at_pc s c t AddingPending"
    and h: "handle_add_pending_connection (next_notify s)
       \<lparr>pc_connection_id = c, pc_meeting_id = t_meeting t, pc_participant_id = pid,
        pc_connected_at = now\<rparr> (sess s) = (n, ss)"
  shows "mh_inv (set_pc c (Subscribing n) (s\<lparr>sess := ss, next_notify := Suc (next_notify s)\<rparr>))"
    (is "mh_inv ?s'")
proof -
  let ?p = "\<lparr>pc_connection_id = c, pc_meeting_id = t_meeting t, pc_participant_id = pid,
        pc_connected_at = now\<rparr>"
  have ss: "ss = snd (handle_add_pending_connection (next_notify s) ?p (sess s))" using h by simp
  have nf: "hm_get (meeting_notifiers ss) m =
      (if m = t_meeting t then Some n else hm_get (meeting_notifiers (sess s)) m)"
    and n: "n = hm_get_or (next_notify s) (meeting_notifiers (sess s)) (t_meeting t)" for m
    using h by (auto simp: handle_add_pending_connection_def Let_def)
  have ids: "active_ids ss m = active_ids (sess s) m"
    "pending_ids ss m = (if m = t_meeting t then add_mset c (pending_ids (sess s) m)
       else pending_ids (sess s) m)"
    "is_meeting_registered_in m ss = is_meeting_registered_in m (sess s)" for m
    by (auto simp: ss add_pending_views is_meeting_registered_in_def)
  have ok: "conn_ok s x" for x using inv by (simp add: mh_inv_alt)
  have "conn_ok ?s' x" for x
  proof (cases "x = c")
    case True
    have "t_pc t = AddingPending" "tasks s c = Some t" using at by (simp_all add: at_pc_def)
    with ok [of c] show ?thesis unfolding True by (auto simp: conn_ok_def ids nf not_in_iff)
  next
    case False
    show ?thesis
      by (rule conn_ok_frame [OF ok]) (use False in \<open>auto simp: ids nf n hm_get_or_def\<close>)
  qed
  moreover have "notifiers_ok ?s'"
    using inv unfolding mh_inv_def notifiers_ok_def
    by (auto simp: nf n hm_get_or_def less_Suc_eq split: option.splits if_splits)
  ultimately show ?thesis by (simp add: mh_inv_alt)
qed

lemmas own_views =
  remove_connection_views remove_pending_views add_views is_meeting_registered_in_def

lemma mh_step_inv:
  assumes "mh_step s s'" and "mh_inv s"
  shows "mh_inv s'"
  using assms
proof (induction rule: mh_step.induct)
  case (arrive s c mid pid)
  then show ?case by (simp add: arrive_step_inv)
next
  case (rpc_register mid reg s promoted ss sig)
  then show ?case by (simp add: register_step_inv)
next
  case (add_pending s c t now n ss)
  then show ?case by (simp add: add_pending_step_inv)
next
  case (add_active s c t ss now)
  show ?case
    by (rule own_step_inv [OF add_active.prems add_active.hyps(1),
          where pc = NotifyingConnected and ss = ss])
      (use add_active conn_ok_pc [OF _ add_active.hyps(1)] in \<open>auto simp: mh_inv_alt own_views\<close>)
next
  case (finish_timeout s c t n ss res)
  then have ss: "ss = snd (handle_remove_pending_connection (t_meeting t) c (sess s))" by simp
  show ?case
    by (rule own_step_inv [OF finish_timeout.prems finish_timeout.hyps(1),
          where pc = "Finished res" and ss = ss])
      (use finish_timeout.prems conn_ok_pc [OF _ finish_timeout.hyps(1)]
        in \<open>auto simp: mh_inv_alt own_views ss\<close>)
next
  case (finish_cancel s c t n ss res)
  then have ss: "ss = snd (handle_remove_pending_connection (t_meeting t) c (sess s))" by simp
  show ?case
    by (rule own_step_inv [OF finish_cancel.prems finish_cancel.hyps(1),
          where pc = "Finished res" and ss = ss])
      (use finish_cancel.prems conn_ok_pc [OF _ finish_cancel.hyps(1)]
        in \<open>auto simp: mh_inv_alt own_views ss\<close>)
next
  case (clean s c t reason found ss)
  then have ss: "ss = snd (handle_remove_connection (t_meeting t) c (sess s))" by simp
  show ?case
    by (rule own_step_inv [OF clean.prems clean.hyps(1),
          where pc = "NotifyingDisconnected reason" and ss = ss])
      (use clean.prems conn_ok_pc [OF _ clean.hyps(1)] in \<open>auto simp: mh_inv_alt own_views ss\<close>)
qed (rule own_step_inv, assumption, assumption,
     (use conn_ok_pc in \<open>fastforce simp: mh_inv_alt set_pc_def\<close>)+)+

lemma mh_reachable_inv: "mh_reachable s \<Longrightarrow> mh_inv s"
proof (induction rule: mh_reachable.induct)
  case init
  show ?case
    by (simp add: mh_inv_def conn_ok_def mh_init_def session_new_def active_ids_def pending_ids_def
        pending_of_def)
next
  case (step s s')
  then show ?case by (blast intro: mh_step_inv)
qed

section \<open>Two runs\<close>

text \<open>
  A client connects to a meeting that is not registered yet.  In \<open>run_ok\<close> the registration arrives
  while the task waits; in \<open>run_lost\<close> it arrives between the answer to \<open>add_pending_connection\<close> and
  the wait, and the timeout fires.
\<close>

definition demo_pending :: "mh_sys" where
  "demo_pending =
     (let s1 = mh_init\<lparr>tasks := [''c'' \<mapsto> \<lparr>t_meeting = ''m'', t_participant = ''p'',
                                             t_pc = CheckRegistered\<rparr>]\<rparr>;
          s2 = set_pc ''c'' AddingPending s1;
          (n, ss) = handle_add_pending_connection (next_notify s2)
             \<lparr>pc_connection_id = ''c'', pc_meeting_id = ''m'', pc_participant_id = ''p'',
              pc_connected_at = 0\<rparr> (sess s2)
      in set_pc ''c'' (Subscribing n) (s2\<lparr>sess := ss, next_notify := Suc (next_notify s2)\<rparr>))"

definition demo_register :: "mh_sys \<Rightarrow> mh_sys" where
  "demo_register s =
     (let (ps, ss, sig) = handle_register_meeting ''m''
            \<lparr>mc_id = ''mc'', mc_grpc_endpoint = ''http://mc'', registered_at = 0\<rparr> (sess s)
      in wake sig (s\<lparr>sess := ss\<rparr>))"

definition run_ok :: mh_sys where
  "run_ok = (let s = set_pc ''c'' NotifyingConnected
                       (demo_register (set_pc ''c'' (Waiting 0 False) demo_pending))
             in set_pc ''c'' Holding (s\<lparr>sent := sent s @ spawn_notify_connected (sess s) ''m'' ''p''\<rparr>))"

definition run_lost :: mh_sys where
  "run_lost = (let s = set_pc ''c'' TimedOut (set_pc ''c'' (Waiting 0 False) (demo_register demo_pending))
               in set_pc ''c'' (Finished (Err (MeetingNotRegistered ''m'')))
                    (s\<lparr>sess := snd (handle_remove_pending_connection ''m'' ''c'' (sess s)),
                       register_timeouts := register_timeouts s + 1\<rparr>))"

lemma demo_pending_facts:
  "tasks demo_pending = [''c'' \<mapsto> \<lparr>t_meeting = ''m'', t_participant = ''p'', t_pc = Subscribing 0\<rparr>]"
  "pending_ids (sess demo_pending) ''m'' = {#''c''#}"
  "active_ids (sess demo_pending) ''m'' = {#}"
  "hm_get (meeting_notifiers (sess demo_pending)) ''m'' = Some 0"
  by (auto simp: demo_pending_def Let_def handle_add_pending_connection_def mh_init_def
      session_new_def set_pc_def pending_ids_def pending_of_def active_ids_def)

lemma demo_register_facts:
  "sess (demo_register s) = fst (snd (handle_register_meeting ''m''
     \<lparr>mc_id = ''mc'', mc_grpc_endpoint = ''http://mc'', registered_at = 0\<rparr> (sess s)))"
  "tasks (demo_register s) c =
     map_option (\<lambda>t. t\<lparr>t_pc := wake_pc (hm_get (meeting_notifiers (sess s)) ''m'') (t_pc t)\<rparr>) (tasks s c)"
  "mh_step s (demo_register s)"
proof -
  obtain ps ss sig where h: "handle_register_meeting ''m''
      \<lparr>mc_id = ''mc'', mc_grpc_endpoint = ''http://mc'', registered_at = 0\<rparr> (sess s) = (ps, ss, sig)"
    by (meson prod_cases3)
  then have "sig = hm_get (meeting_notifiers (sess s)) ''m''"
    by (auto simp: handle_register_meeting_def Let_def)
  with h show "sess (demo_register s) = fst (snd (handle_register_meeting ''m''
     \<lparr>mc_id = ''mc'', mc_grpc_endpoint = ''http://mc'', registered_at = 0\<rparr> (sess s)))"
   "tasks (demo_register s) c =
     map_option (\<lambda>t. t\<lparr>t_pc := wake_pc (hm_get (meeting_notifiers (sess s)) ''m'') (t_pc t)\<rparr>) (tasks s c)"
   "mh_step s (demo_register s)"
    by (auto simp: demo_register_def intro: mh_step.rpc_register)
qed

lemma demo_pending_reachable: "mh_reachable demo_pending"
proof -
  let ?t = "\<lparr>t_meeting = ''m'', t_participant = ''p'', t_pc = CheckRegistered\<rparr>"
  let ?s1 = "mh_init\<lparr>tasks := [''c'' \<mapsto> ?t]\<rparr>"
  have "mh_step mh_init ?s1"
    using mh_step.arrive [of mh_init "''c''" "''m''" "''p''"] by (simp add: mh_init_def)
  then have 1: "mh_reachable ?s1" by (blast intro: mh_reachable.intros)
  have "mh_step ?s1 (set_pc ''c'' AddingPending ?s1)"
    by (rule mh_step.check_no [where t = ?t])
      (simp_all add: at_pc_def is_meeting_registered_in_def mh_init_def session_new_def)
  with 1 have 2: "mh_reachable (set_pc ''c'' AddingPending ?s1)" by (rule mh_reachable.step)
  have "mh_step (set_pc ''c'' AddingPending ?s1) demo_pending"
    unfolding demo_pending_def Let_def
    by (split prod.split, intro allI impI,
        rule mh_step.add_pending [where t = "?t\<lparr>t_pc := AddingPending\<rparr>" and now = 0])
      (simp_all add: at_pc_def)
  with 2 show ?thesis by (rule mh_reachable.step)
qed

lemma run_ok_reachable: "mh_reachable run_ok"
proof -
  let ?w = "set_pc ''c'' (Waiting 0 False) demo_pending"
  have "mh_step demo_pending ?w"
    by (rule mh_step.subscribe [where t = "\<lparr>t_meeting = ''m'', t_participant = ''p'', t_pc = Subscribing 0\<rparr>"])
      (simp add: at_pc_def demo_pending_facts)
  then have "mh_reachable ?w" using demo_pending_reachable by (blast intro: mh_reachable.step)
  then have 1: "mh_reachable (demo_register ?w)"
    using demo_register_facts(3) by (blast intro: mh_reachable.step)
  let ?t = "\<lparr>t_meeting = ''m'', t_participant = ''p'', t_pc = Waiting 0 True\<rparr>"
  have t: "tasks (demo_register ?w) ''c'' = Some ?t"
    by (simp add: demo_register_facts demo_pending_facts wake_pc_def)
  have "mh_step (demo_register ?w) (set_pc ''c'' NotifyingConnected (demo_register ?w))"
    by (rule mh_step.notified [where t = ?t]) (simp add: at_pc_def t)
  with 1 have 2: "mh_reachable (set_pc ''c'' NotifyingConnected (demo_register ?w))"
    by (rule mh_reachable.step)
  have "mh_step (set_pc ''c'' NotifyingConnected (demo_register ?w)) run_ok"
    unfolding run_ok_def Let_def
    using mh_step.notify_connected [of "set_pc ''c'' NotifyingConnected (demo_register ?w)" "''c''"
        "?t\<lparr>t_pc := NotifyingConnected\<rparr>"]
    by (simp add: at_pc_def t)
  with 2 show ?thesis by (rule mh_reachable.step)
qed

lemma run_lost_reachable: "mh_reachable run_lost"
proof -
  let ?r = "demo_register demo_pending"
  have 1: "mh_reachable ?r"
    using demo_register_facts(3) demo_pending_reachable by (blast intro: mh_reachable.step)
  have t: "tasks ?r ''c'' = Some \<lparr>t_meeting = ''m'', t_participant = ''p'', t_pc = Subscribing 0\<rparr>"
    by (simp add: demo_register_facts demo_pending_facts wake_pc_def)
  let ?w = "set_pc ''c'' (Waiting 0 False) ?r"
  have "mh_step ?r ?w"
    by (rule mh_step.subscribe [where t = "\<lparr>t_meeting = ''m'', t_participant = ''p'', t_pc = Subscribing 0\<rparr>"])
      (simp add: at_pc_def t)
  with 1 have 2: "mh_reachable ?w" by (rule mh_reachable.step)
  have "mh_step ?w (set_pc ''c'' TimedOut ?w)"
    by (rule mh_step.register_timeout [where n = 0 and w = False and t = "\<lparr>t_meeting = ''m'', t_participant = ''p'', t_pc = Waiting 0 False\<rparr>"])
      (simp add: at_pc_def t)
  with 2 have 3: "mh_reachable (set_pc ''c'' TimedOut ?w)" by (rule mh_reachable.step)
  have "mh_step (set_pc ''c'' TimedOut ?w) run_lost"
    unfolding run_lost_def Let_def
    using mh_step.finish_timeout [of "set_pc ''c'' TimedOut ?w" "''c''"
        "\<lparr>t_meeting = ''m'', t_participant = ''p'', t_pc = TimedOut\<rparr>" 1 _
        "Err (MeetingNotRegistered ''m'')"]
    by (simp add: at_pc_def t)
  with 3 show ?thesis by (rule mh_reachable.step)
qed

lemma run_lost_facts:
  "tasks run_lost ''c'' = Some \<lparr>t_meeting = ''m'', t_participant = ''p'',
     t_pc = Finished (Err (MeetingNotRegistered ''m''))\<rparr>"
  "''c'' \<in># active_ids (sess run_lost) ''m''"
  "is_meeting_registered_in ''m'' (sess run_lost)"
  by (simp_all add: run_lost_def Let_def demo_register_facts demo_pending_facts wake_pc_def
      session_views is_meeting_registered_in_def)

lemma run_ok_facts:
  "tasks run_ok ''c'' = Some \<lparr>t_meeting = ''m'', t_participant = ''p'', t_pc = Holding\<rparr>"
  by (simp add: run_ok_def Let_def demo_register_facts demo_pending_facts)

definition leaked :: "string \<Rightarrow> string \<Rightarrow> mh_sys \<Rightarrow> bool" where
  "leaked c m s \<longleftrightarrow> c \<in># active_ids (sess s) m
     \<and> (\<exists>t r. tasks s c = Some t \<and> t_meeting t = m \<and> t_pc t = Finished r)"

lemma leaked_frame:
  assumes "leaked c m s" and "at_pc s x t pc" and "\<And>r. pc \<noteq> Finished r"
    and "\<And>c'. tasks s' c' = tasks (set_pc x pc' s) c'"
    and "\<And>m'. c \<noteq> x \<Longrightarrow> c \<in># active_ids (sess s) m' \<Longrightarrow> c \<in># active_ids (sess s') m'"
  shows "leaked c m s'"
proof -
  have "c \<noteq> x" using assms(1,2,3) by (auto simp: leaked_def at_pc_def)
  with assms(1,4,5) show ?thesis by (auto simp: leaked_def)
qed

lemma leaked_step: "mh_step s s' \<Longrightarrow> leaked c m s \<Longrightarrow> leaked c m s'"
proof (induction rule: mh_step.induct)
  case (rpc_register mid reg s promoted ss sig)
  then have ss: "ss = fst (snd (handle_register_meeting mid reg (sess s)))" by simp
  from rpc_register.prems show ?case
    by (auto simp: leaked_def ss register_views wake_pc_def)
next
  case (add_pending s x t now n ss)
  let ?p = "\<lparr>pc_connection_id = x, pc_meeting_id = t_meeting t,
    pc_participant_id = t_participant t, pc_connected_at = now\<rparr>"
  have ss: "ss = snd (handle_add_pending_connection (next_notify s) ?p (sess s))"
    using add_pending.hyps(2) by simp
  show ?case
    by (rule leaked_frame [OF add_pending.prems add_pending.hyps(1), where pc' = "Subscribing n"])
      (auto simp: ss add_pending_views set_pc_def)
next
  case (clean s x t reason found ss)
  then have ss: "ss = snd (handle_remove_connection (t_meeting t) x (sess s))" by simp
  show ?case
    by (rule leaked_frame [OF clean.prems clean.hyps(1), where pc' = "NotifyingDisconnected reason"])
      (auto simp: ss remove_connection_views set_pc_def in_diff_count)
next
  case (finish_timeout s x t n ss res)
  then have ss: "ss = snd (handle_remove_pending_connection (t_meeting t) x (sess s))" by simp
  show ?case
    by (rule leaked_frame [OF finish_timeout.prems finish_timeout.hyps(1),
          where pc' = "Finished res"])
      (auto simp: ss remove_pending_views set_pc_def)
next
  case (finish_cancel s x t n ss res)
  then have ss: "ss = snd (handle_remove_pending_connection (t_meeting t) x (sess s))" by simp
  show ?case
    by (rule leaked_frame [OF finish_cancel.prems finish_cancel.hyps(1), where pc' = "Finished res"])
      (auto simp: ss remove_pending_views set_pc_def)
next
  case (add_active s x t ss now)
  show ?case
    by (rule leaked_frame [OF add_active.prems add_active.hyps(1), where pc' = NotifyingConnected])
      (auto simp: add_active.hyps(2) add_views set_pc_def)
qed (auto simp: leaked_def at_pc_def set_pc_def)

section \<open>Properties\<close>

text \<open>
  C10. However connections, registrations and timeouts interleave, a connection that is held open is
  tracked: it is listed exactly once among the active connections of its own meeting, it is not
  pending anywhere nor active in another meeting, and its meeting is registered.
\<close>

theorem held_connection_tracked:
  assumes "mh_reachable s" and "tasks s c = Some t" and "t_pc t = Holding"
  shows "count (active_ids (sess s) (t_meeting t)) c = 1
    \<and> (\<forall>m. c \<notin># pending_ids (sess s) m)
    \<and> (\<forall>m. c \<in># active_ids (sess s) m \<longleftrightarrow> m = t_meeting t)
    \<and> is_meeting_registered_in (t_meeting t) (sess s)"
proof -
  have "conn_ok s c" using mh_reachable_inv [OF assms(1)] by (simp add: mh_inv_alt)
  then show ?thesis using assms(2,3)
    by (auto simp: conn_ok_def) (metis count_eq_zero_iff, metis not_in_iff nat.distinct(1))
qed

theorem held_connection_tracked_witness:
  "count (active_ids (sess run_ok) ''m'') ''c'' = 1"
  using held_connection_tracked [OF run_ok_reachable run_ok_facts] by simp

text \<open>
  The Meeting Controller hears of every established connection and of its end: when a task is
  about to report a connect or a disconnect the meeting's endpoint is always known, so the report is
  sent to it (the "no MC endpoint found" branches never run), and by the time of the disconnect
  report the connection has left the session's tables.
\<close>

theorem mc_always_notified:
  assumes "mh_reachable s" and "tasks s c = Some t"
  shows "(t_pc t = NotifyingConnected \<longrightarrow>
      (\<exists>ep. spawn_notify_connected (sess s) (t_meeting t) (t_participant t)
         = [ParticipantConnected ep (t_meeting t) (t_participant t)]))
    \<and> (t_pc t = NotifyingDisconnected reason \<longrightarrow>
      (\<exists>ep. notify_disconnected (sess s) (t_meeting t) (t_participant t) reason
         = [ParticipantDisconnected ep (t_meeting t) (t_participant t) reason])
      \<and> c \<notin># active_ids (sess s) (t_meeting t) \<and> c \<notin># pending_ids (sess s) (t_meeting t))"
proof -
  have "conn_ok s c" using mh_reachable_inv [OF assms(1)] by (simp add: mh_inv_alt)
  then show ?thesis using assms(2)
    by (auto simp: conn_ok_def is_meeting_registered_in_def spawn_notify_connected_def
        notify_disconnected_def mc_endpoint_in_def not_in_iff)
qed

theorem mc_always_notified_witness:
  "\<exists>s t. mh_reachable s \<and> tasks s ''c'' = Some t \<and> t_pc t = NotifyingConnected
     \<and> (\<exists>ep. spawn_notify_connected (sess s) (t_meeting t) (t_participant t)
          = [ParticipantConnected ep (t_meeting t) (t_participant t)])"
proof -
  let ?r = "demo_register (set_pc ''c'' (Waiting 0 False) demo_pending)"
  let ?s = "set_pc ''c'' NotifyingConnected ?r"
  let ?w = "\<lparr>t_meeting = ''m'', t_participant = ''p'', t_pc = Waiting 0 True\<rparr>"
  have "mh_step demo_pending (set_pc ''c'' (Waiting 0 False) demo_pending)"
    by (rule mh_step.subscribe [where t = "?w\<lparr>t_pc := Subscribing 0\<rparr>"])
      (simp add: at_pc_def demo_pending_facts)
  then have r: "mh_reachable ?r"
    using demo_pending_reachable demo_register_facts(3) by (blast intro: mh_reachable.step)
  have w: "tasks ?r ''c'' = Some ?w"
    by (simp add: demo_register_facts demo_pending_facts wake_pc_def)
  have "mh_step ?r ?s" by (rule mh_step.notified [where t = ?w]) (simp add: at_pc_def w)
  with r have "mh_reachable ?s" by (rule mh_reachable.step)
  moreover have "tasks ?s ''c'' = Some (?w\<lparr>t_pc := NotifyingConnected\<rparr>)" by (simp add: w)
  ultimately show ?thesis using mc_always_notified [of ?s "''c''" "?w\<lparr>t_pc := NotifyingConnected\<rparr>"]
    by fastforce
qed

text \<open>
  A registration can be lost.  If \<open>RegisterMeeting\<close> is handled after a client was added to the
  pending list and before its task awaits the notification, the client is promoted but not woken:
  the task times out and rejects the client with \<open>MeetingNotRegistered\<close> although its meeting is
  registered, and the promoted entry is never removed: the connection stays in the active table,
  and in the active count, in every later state of the system.
\<close>

theorem lost_registration_leaks_connection:
  "\<exists>s t. mh_reachable s \<and> tasks s ''c'' = Some t
     \<and> t_pc t = Finished (Err (MeetingNotRegistered (t_meeting t)))
     \<and> is_meeting_registered_in (t_meeting t) (sess s)
     \<and> {s'. mh_step\<^sup>*\<^sup>* s s'} \<subseteq> {s'. ''c'' \<in># active_ids (sess s') (t_meeting t)}"
proof -
  have l: "leaked ''c'' ''m'' run_lost" using run_lost_facts by (auto simp: leaked_def)
  have "leaked ''c'' ''m'' s'" if "mh_step\<^sup>*\<^sup>* run_lost s'" for s'
    using that l by (induction rule: rtranclp_induct) (auto intro: leaked_step)
  then have "{s'. mh_step\<^sup>*\<^sup>* run_lost s'} \<subseteq> {s'. ''c'' \<in># active_ids (sess s') ''m''}"
    by (auto simp: leaked_def)
  with run_lost_reachable run_lost_facts show ?thesis
    by (intro exI [of _ run_lost]) simp
qed

end
