(* ===== verification/MC_Types.thy ===== *)
theory MC_Types
  imports Prelude
begin

text \<open>
  Errors (crates/mc-service/src/errors.rs), actor messages (actors/messages.rs) and the encoding of
  participant updates for the wire (webtransport/handler.rs) of the Meeting Controller.  Reply
  channels are not part of a message here: a handler's result is what it sends on them.
\<close>

section \<open>Errors\<close>

datatype SessionBindingError =
    TokenExpired
  | InvalidToken
  | NonceReused
  | SessionNotFound
  | UserIdMismatch

datatype McError =
    Redis string
  | Grpc string
  | NotRegistered
  | Config string
  | InvalidArgument string
  | SessionBinding SessionBindingError
  | MeetingNotFound string
  | ParticipantNotFound string
  | MeetingCapacityExceeded string
  | McCapacityExceeded
  | Draining
  | Migrating string
  | FencedOut string
  | Conflict string
  | JwtValidation string
  | PermissionDenied string
  | MhAssignmentMissing string
  | Internal string
  | TokenAcquisition string
  | TokenAcquisitionTimeout

primrec error_code :: "McError \<Rightarrow> int" where
  "error_code (Redis _) = 6"
| "error_code (Grpc _) = 6"
| "error_code (Config _) = 6"
| "error_code (InvalidArgument _) = 6"
| "error_code (Internal _) = 6"
| "error_code (FencedOut _) = 6"
| "error_code NotRegistered = 6"
| "error_code (MhAssignmentMissing _) = 6"
| "error_code (TokenAcquisition _) = 6"
| "error_code TokenAcquisitionTimeout = 6"
| "error_code (SessionBinding _) = 2"
| "error_code (JwtValidation _) = 2"
| "error_code (PermissionDenied _) = 3"
| "error_code (MeetingNotFound _) = 4"
| "error_code (ParticipantNotFound _) = 4"
| "error_code (Conflict _) = 5"
| "error_code (MeetingCapacityExceeded _) = 7"
| "error_code McCapacityExceeded = 7"
| "error_code Draining = 7"
| "error_code (Migrating _) = 7"

definition mc_status_code :: "McError \<Rightarrow> u16" where
  "mc_status_code e = of_int (error_code e)"

primrec mc_error_type_label :: "McError \<Rightarrow> string" where
  "mc_error_type_label (Redis _) = ''redis''"
| "mc_error_type_label (Grpc _) = ''grpc''"
| "mc_error_type_label NotRegistered = ''not_registered''"
| "mc_error_type_label (Config _) = ''config''"
| "mc_error_type_label (InvalidArgument _) = ''invalid_argument''"
| "mc_error_type_label (SessionBinding _) = ''session_binding''"
| "mc_error_type_label (MeetingNotFound _) = ''meeting_not_found''"
| "mc_error_type_label (ParticipantNotFound _) = ''participant_not_found''"
| "mc_error_type_label (MeetingCapacityExceeded _) = ''meeting_capacity_exceeded''"
| "mc_error_type_label McCapacityExceeded = ''mc_capacity_exceeded''"
| "mc_error_type_label Draining = ''draining''"
| "mc_error_type_label (Migrating _) = ''migrating''"
| "mc_error_type_label (FencedOut _) = ''fenced_out''"
| "mc_error_type_label (Conflict _) = ''conflict''"
| "mc_error_type_label (JwtValidation _) = ''jwt_validation''"
| "mc_error_type_label (PermissionDenied _) = ''permission_denied''"
| "mc_error_type_label (MhAssignmentMissing _) = ''mh_assignment_missing''"
| "mc_error_type_label (Internal _) = ''internal''"
| "mc_error_type_label (TokenAcquisition _) = ''token_acquisition''"
| "mc_error_type_label TokenAcquisitionTimeout = ''token_acquisition_timeout''"

primrec binding_error_text :: "SessionBindingError \<Rightarrow> string" where
  "binding_error_text TokenExpired = ''Binding token expired''"
| "binding_error_text InvalidToken = ''Invalid binding token''"
| "binding_error_text NonceReused = ''Nonce already used''"
| "binding_error_text SessionNotFound = ''Session not found''"
| "binding_error_text UserIdMismatch = ''User ID mismatch''"

primrec mc_client_message :: "McError \<Rightarrow> string" where
  "mc_client_message (Redis _) = ''An internal error occurred''"
| "mc_client_message (Grpc _) = ''An internal error occurred''"
| "mc_client_message (Config _) = ''An internal error occurred''"
| "mc_client_message (InvalidArgument _) = ''An internal error occurred''"
| "mc_client_message (Internal _) = ''An internal error occurred''"
| "mc_client_message NotRegistered = ''An internal error occurred''"
| "mc_client_message (MhAssignmentMissing _) = ''An internal error occurred''"
| "mc_client_message (TokenAcquisition _) = ''An internal error occurred''"
| "mc_client_message TokenAcquisitionTimeout = ''An internal error occurred''"
| "mc_client_message (SessionBinding e) = binding_error_text e"
| "mc_client_message (MeetingNotFound _) = ''Meeting not found''"
| "mc_client_message (ParticipantNotFound _) = ''Participant not found''"
| "mc_client_message (MeetingCapacityExceeded _) = ''Meeting is at capacity''"
| "mc_client_message McCapacityExceeded = ''Server is at capacity, please try again''"
| "mc_client_message Draining = ''Server is shutting down, please reconnect''"
| "mc_client_message (Migrating _) = ''Meeting is being migrated, please reconnect''"
| "mc_client_message (FencedOut _) = ''An internal error occurred''"
| "mc_client_message (JwtValidation _) = ''Invalid or expired token''"
| "mc_client_message (Conflict msg) = msg"
| "mc_client_message (PermissionDenied msg) = msg"

section \<open>Messages\<close>

datatype ParticipantStatus = Connected | Disconnected | Reconnecting

datatype LeaveReason = Voluntary | Timeout | Removed | MeetingEnded

record ParticipantInfo =
  pi_participant_id :: string
  pi_user_id :: string
  pi_display_name :: string
  pi_audio_self_muted :: bool
  pi_video_self_muted :: bool
  pi_audio_host_muted :: bool
  pi_video_host_muted :: bool
  pi_status :: ParticipantStatus

datatype ParticipantStateUpdate =
    UpdJoined ParticipantInfo
  | UpdLeft string LeaveReason
  | UpdMuteChanged string bool bool bool bool
  | UpdDisconnected string
  | UpdReconnected string

datatype SignalingPayload =
    MuteUpdate bool bool
  | LayoutSubscribe string
  | Chat string
  | Raw u32 "u8 list"

datatype ParticipantMessage =
    PSend SignalingPayload
  | PUpdate ParticipantStateUpdate
  | PClose string
  | PPing

text \<open>
  \<open>ParticipantActorHandle\<close>.  The mailbox sender and the cancellation token it holds are identified
  by the number of the spawned actor.
\<close>

record ParticipantHandle =
  h_connection_id :: string
  h_participant_id :: string
  h_actor :: nat

record JoinResult =
  jr_participant_id :: string
  jr_correlation_id :: string
  jr_binding_token :: string
  jr_participants :: "ParticipantInfo list"
  jr_fencing_generation :: u64
  jr_participant_handle :: ParticipantHandle

record ReconnectResult =
  rr_participant_id :: string
  rr_new_correlation_id :: string
  rr_new_binding_token :: string
  rr_participants :: "ParticipantInfo list"

record MeetingState =
  st_meeting_id :: string
  st_participants :: "ParticipantInfo list"
  st_fencing_generation :: u64
  st_created_at :: int
  st_mailbox_depth :: usize
  st_is_shutting_down :: bool

datatype MeetingMessage =
    ConnectionJoin string string string bool bool
  | ConnectionDisconnected string string
  | ConnectionReconnect string string string
  | ParticipantLeave string
  | SignalingMessage string SignalingPayload
  | GetState
  | UpdateSelfMute string bool bool
  | HostMute string string bool bool
  | EndMeeting string

section \<open>Wire encoding of updates\<close>

datatype ProtoLeaveReason = PLVoluntary | PLTimeout | PLKicked | PLMeetingEnded

text \<open>\<open>ParticipantJoined\<close> carries the identifier and display name; streams are empty.\<close>

datatype ServerMessage =
    SMParticipantJoined string string
  | SMParticipantLeft string ProtoLeaveReason

primrec proto_leave_reason :: "LeaveReason \<Rightarrow> ProtoLeaveReason" where
  "proto_leave_reason Voluntary = PLVoluntary"
| "proto_leave_reason Timeout = PLTimeout"
| "proto_leave_reason Removed = PLKicked"
| "proto_leave_reason MeetingEnded = PLMeetingEnded"

primrec encode_participant_update :: "ParticipantStateUpdate \<Rightarrow> ServerMessage option" where
  "encode_participant_update (UpdJoined info) =
     Some (SMParticipantJoined (pi_participant_id info) (pi_display_name info))"
| "encode_participant_update (UpdLeft pid reason) =
     Some (SMParticipantLeft pid (proto_leave_reason reason))"
| "encode_participant_update (UpdMuteChanged _ _ _ _ _) = None"
| "encode_participant_update (UpdDisconnected _) = None"
| "encode_participant_update (UpdReconnected _) = None"

section \<open>Properties\<close>

text \<open>
  What a client is told of an error never depends on the internal detail the error carries: two
  errors with the same type label give the same client message and the same code, unless the label
  is one whose text is written for clients (a conflict, a refused permission, a binding error).
\<close>

theorem client_message_hides_detail:
  assumes "mc_error_type_label e = mc_error_type_label e'"
    and "mc_error_type_label e \<notin> {''conflict'', ''permission_denied'', ''session_binding''}"
  shows "mc_client_message e = mc_client_message e' \<and> error_code e = error_code e'"
  using assms by (cases e; cases e') simp_all

theorem client_message_hides_detail_witness:
  "mc_client_message (Redis ''secret host'') = mc_client_message (Redis '''')
     \<and> error_code (Redis ''secret host'') = error_code (Redis '''')"
  by (rule client_message_hides_detail) simp_all

end
