(* ===== verification/MC_Metrics.thy ===== *)
theory MC_Metrics
  imports MC_Types
begin

text \<open>
  Mailbox monitoring and the shared counters of the Meeting Controller (actors/metrics.rs).

  Atomics are machine words: \<open>fetch_add\<close> and \<open>fetch_sub\<close> wrap.  The Prometheus gauge a function
  sets is returned next to the new state.  The compare-and-exchange loop of \<open>record_enqueue\<close> ends
  with the maximum of the old peak and the new depth.
\<close>

datatype ActorType = AController | AMeeting | AParticipant

definition MEETING_MAILBOX_NORMAL :: usize where "MEETING_MAILBOX_NORMAL = 100"
definition MEETING_MAILBOX_WARNING :: usize where "MEETING_MAILBOX_WARNING = 500"
definition PARTICIPANT_MAILBOX_NORMAL :: usize where "PARTICIPANT_MAILBOX_NORMAL = 50"
definition PARTICIPANT_MAILBOX_WARNING :: usize where "PARTICIPANT_MAILBOX_WARNING = 200"

primrec warning_threshold :: "ActorType \<Rightarrow> usize" where
  "warning_threshold AController = MEETING_MAILBOX_WARNING"
| "warning_threshold AMeeting = MEETING_MAILBOX_WARNING"
| "warning_threshold AParticipant = PARTICIPANT_MAILBOX_WARNING"

primrec normal_threshold :: "ActorType \<Rightarrow> usize" where
  "normal_threshold AController = MEETING_MAILBOX_NORMAL"
| "normal_threshold AMeeting = MEETING_MAILBOX_NORMAL"
| "normal_threshold AParticipant = PARTICIPANT_MAILBOX_NORMAL"

datatype MailboxLevel = LNormal | LWarning | LCritical

record MailboxMonitor =
  mb_actor_type :: ActorType
  mb_actor_id :: string
  mb_depth :: usize
  mb_peak_depth :: usize
  mb_messages_processed :: u64
  mb_messages_dropped :: u64

definition mailbox_new :: "ActorType \<Rightarrow> string \<Rightarrow> MailboxMonitor" where
  "mailbox_new ty i = \<lparr>mb_actor_type = ty, mb_actor_id = i, mb_depth = 0, mb_peak_depth = 0,
     mb_messages_processed = 0, mb_messages_dropped = 0\<rparr>"

definition level_for_depth :: "MailboxMonitor \<Rightarrow> usize \<Rightarrow> MailboxLevel" where
  "level_for_depth m depth =
     (if depth > warning_threshold (mb_actor_type m) then LCritical
      else if depth > normal_threshold (mb_actor_type m) then LWarning
      else LNormal)"

datatype mailbox_log = LogNothing | LogElevated | LogCritical

text \<open>New state, gauge value, and what is logged.\<close>

definition record_enqueue :: "MailboxMonitor \<Rightarrow> MailboxMonitor \<times> usize \<times> mailbox_log" where
  "record_enqueue m =
     (let new_depth = mb_depth m + 1;
          m' = m\<lparr>mb_depth := new_depth, mb_peak_depth := max (mb_peak_depth m) new_depth\<rparr>;
          level = level_for_depth m new_depth;
          log = (if level = LCritical then LogCritical
                 else if level = LWarning \<and> new_depth = normal_threshold (mb_actor_type m)
                 then LogElevated else LogNothing)
      in (m', new_depth, log))"

definition record_dequeue :: "MailboxMonitor \<Rightarrow> MailboxMonitor \<times> usize" where
  "record_dequeue m =
     (m\<lparr>mb_depth := mb_depth m - 1, mb_messages_processed := mb_messages_processed m + 1\<rparr>,
      saturating_sub (mb_depth m) 1)"

definition record_drop :: "MailboxMonitor \<Rightarrow> MailboxMonitor" where
  "record_drop m = m\<lparr>mb_messages_dropped := mb_messages_dropped m + 1\<rparr>"

definition current_level :: "MailboxMonitor \<Rightarrow> MailboxLevel" where
  "current_level m = level_for_depth m (mb_depth m)"

definition reset_peak :: "MailboxMonitor \<Rightarrow> MailboxMonitor" where
  "reset_peak m = m\<lparr>mb_peak_depth := mb_depth m\<rparr>"

text \<open>One turn of an actor loop around a handled message.\<close>

definition loop_turn :: "MailboxMonitor \<Rightarrow> MailboxMonitor" where
  "loop_turn m = fst (record_dequeue (fst (record_enqueue m)))"

record ControllerMetrics =
  current_meetings :: u32
  current_participants :: u32

definition controller_metrics_new :: ControllerMetrics where
  "controller_metrics_new = \<lparr>current_meetings = 0, current_participants = 0\<rparr>"

definition set_meetings :: "u32 \<Rightarrow> ControllerMetrics \<Rightarrow> ControllerMetrics" where
  "set_meetings n m = m\<lparr>current_meetings := n\<rparr>"

definition set_participants :: "u32 \<Rightarrow> ControllerMetrics \<Rightarrow> ControllerMetrics" where
  "set_participants n m = m\<lparr>current_participants := n\<rparr>"

definition increment_meetings :: "ControllerMetrics \<Rightarrow> ControllerMetrics" where
  "increment_meetings m = m\<lparr>current_meetings := current_meetings m + 1\<rparr>"

definition decrement_meetings :: "ControllerMetrics \<Rightarrow> ControllerMetrics" where
  "decrement_meetings m = m\<lparr>current_meetings := current_meetings m - 1\<rparr>"

definition increment_participants :: "ControllerMetrics \<Rightarrow> ControllerMetrics" where
  "increment_participants m = m\<lparr>current_participants := current_participants m + 1\<rparr>"

definition decrement_participants :: "ControllerMetrics \<Rightarrow> ControllerMetrics" where
  "decrement_participants m = m\<lparr>current_participants := current_participants m - 1\<rparr>"

record ActorMetrics =
  active_meetings :: usize
  active_connections_gauge :: usize
  actor_panics :: u64
  total_messages_processed :: u64

definition actor_metrics_new :: ActorMetrics where
  "actor_metrics_new = \<lparr>active_meetings = 0, active_connections_gauge = 0, actor_panics = 0,
     total_messages_processed = 0\<rparr>"

definition meeting_created :: "ActorMetrics \<Rightarrow> ActorMetrics \<times> usize" where
  "meeting_created m = (m\<lparr>active_meetings := active_meetings m + 1\<rparr>, active_meetings m + 1)"

definition meeting_removed :: "ActorMetrics \<Rightarrow> ActorMetrics \<times> usize" where
  "meeting_removed m =
     (m\<lparr>active_meetings := active_meetings m - 1\<rparr>, saturating_sub (active_meetings m) 1)"

definition connection_created :: "ActorMetrics \<Rightarrow> ActorMetrics \<times> usize" where
  "connection_created m =
     (m\<lparr>active_connections_gauge := active_connections_gauge m + 1\<rparr>, active_connections_gauge m + 1)"

definition connection_closed :: "ActorMetrics \<Rightarrow> ActorMetrics \<times> usize" where
  "connection_closed m =
     (m\<lparr>active_connections_gauge := active_connections_gauge m - 1\<rparr>,
      saturating_sub (active_connections_gauge m) 1)"

definition record_panic :: "ActorMetrics \<Rightarrow> ActorMetrics" where
  "record_panic m = m\<lparr>actor_panics := actor_panics m + 1\<rparr>"

definition record_message_processed :: "ActorMetrics \<Rightarrow> ActorMetrics" where
  "record_message_processed m = m\<lparr>total_messages_processed := total_messages_processed m + 1\<rparr>"

section \<open>Lemmas\<close>

lemmas threshold_defs =
  MEETING_MAILBOX_NORMAL_def MEETING_MAILBOX_WARNING_def
  PARTICIPANT_MAILBOX_NORMAL_def PARTICIPANT_MAILBOX_WARNING_def

lemma thresholds_ge: "1 \<le> normal_threshold ty" "normal_threshold ty < warning_threshold ty"
  by (cases ty; simp add: threshold_defs)+

lemma level_small: "level_for_depth m d = LNormal" if "d \<le> 1"
proof -
  have "d \<le> normal_threshold (mb_actor_type m)"
    using that thresholds_ge(1) order_trans by blast
  moreover from this have "d \<le> warning_threshold (mb_actor_type m)"
    using thresholds_ge(2) [of "mb_actor_type m"] by (meson less_imp_le order_trans)
  ultimately show ?thesis by (simp add: level_for_depth_def not_less)
qed

lemma loop_turn_simps [simp]:
  "mb_depth (loop_turn m) = mb_depth m"
  "mb_peak_depth (loop_turn m) = max (mb_peak_depth m) (mb_depth m + 1)"
  "mb_messages_processed (loop_turn m) = mb_messages_processed m + 1"
  "mb_actor_type (loop_turn m) = mb_actor_type m"
  by (simp_all add: loop_turn_def record_enqueue_def record_dequeue_def Let_def)

lemma loop_turns:
  "mb_depth ((loop_turn ^^ n) (mailbox_new ty i)) = 0
     \<and> mb_peak_depth ((loop_turn ^^ n) (mailbox_new ty i)) \<le> 1
     \<and> mb_messages_processed ((loop_turn ^^ n) (mailbox_new ty i)) = of_nat n"
  by (induction n) (auto simp: mailbox_new_def add.commute)

lemma connection_closed_underflow:
  "active_connections_gauge m = 0 \<Longrightarrow>
     active_connections_gauge (fst (connection_closed m)) = - 1 \<and> snd (connection_closed m) = 0"
  by (simp add: connection_closed_def saturating_sub_def)

section \<open>Properties\<close>

text \<open>
  The mailbox monitor of an actor never sees a backlog.  Actors call \<open>record_enqueue\<close> when they
  take a message out of the channel, not when it is put in, so after any number of handled messages
  the recorded depth is 0 and while one is handled it is 1, the peak never passes 1, the level
  reported is always Normal and no backlog is ever logged, however long the queue is; the number of
  processed messages is counted correctly (modulo 2^64).
\<close>

theorem mailbox_monitor_blind:
  "(let m = (loop_turn ^^ n) (mailbox_new ty i); (m', gauge, log) = record_enqueue m
    in mb_depth m = 0 \<and> mb_depth m' = 1 \<and> mb_peak_depth m' \<le> 1
       \<and> current_level m' = LNormal \<and> log = LogNothing
       \<and> mb_messages_processed m = of_nat n)"
  using loop_turns [of n ty i]
  by (simp add: record_enqueue_def Let_def current_level_def level_small)

text \<open>
  The "mailbox depth elevated" message is unreachable: it asks for the level Warning, which
  starts above the normal threshold, and for a depth equal to that threshold.
\<close>

theorem elevated_log_unreachable: "snd (snd (record_enqueue m)) \<noteq> LogElevated"
  by (auto simp: record_enqueue_def Let_def level_for_depth_def)

end
