(* ===== verification/MC_Binding.thy ===== *)
theory MC_Binding
  imports MC_Types
begin

text \<open>
  Session binding tokens of the Meeting Controller (actors/session.rs).

  The cryptography (\<open>ring\<close>: HKDF, HMAC) and the hex coding (\<open>hex\<close>) are not in the repository; they
  are the fields of \<open>crypto_ops\<close>.  The locale \<open>binding_crypto\<close> states the two facts the code relies
  on: verification accepts exactly the tag that signing computes, and decoding inverts encoding.
  Random bytes are arguments.
\<close>

record crypto_ops =
  hkdf_expand :: "u8 list \<Rightarrow> string \<Rightarrow> string \<Rightarrow> u8 list"
  hmac_sign :: "u8 list \<Rightarrow> string \<Rightarrow> u8 list"
  hmac_verify :: "u8 list \<Rightarrow> string \<Rightarrow> u8 list \<Rightarrow> bool"
  hex_encode :: "u8 list \<Rightarrow> string"
  hex_decode :: "string \<Rightarrow> u8 list option"

definition BINDING_TOKEN_TTL :: duration where
  "BINDING_TOKEN_TTL = from_secs 30"

text \<open>\<open>SessionBindingManager::new\<close> panics (\<open>None\<close>) on a secret shorter than 32 bytes.\<close>

definition binding_manager_new :: "u8 list \<Rightarrow> u8 list option" where
  "binding_manager_new master_secret =
     (if 32 \<le> length master_secret then Some master_secret else None)"

definition derive_meeting_key :: "crypto_ops \<Rightarrow> u8 list \<Rightarrow> string \<Rightarrow> u8 list" where
  "derive_meeting_key c secret mid = hkdf_expand c secret mid ''session-binding''"

text \<open>\<open>format!("{}{}{}", correlation_id, participant_id, nonce)\<close>.\<close>

definition binding_message :: "string \<Rightarrow> string \<Rightarrow> string \<Rightarrow> string" where
  "binding_message correlation_id participant_id nonce = correlation_id @ participant_id @ nonce"

definition generate_token ::
  "crypto_ops \<Rightarrow> u8 list \<Rightarrow> u8 list \<Rightarrow> string \<Rightarrow> string \<Rightarrow> string \<Rightarrow> string \<times> string"
where
  "generate_token c secret nonce_bytes mid corr pid =
     (let nonce = hex_encode c nonce_bytes;
          meeting_key = derive_meeting_key c secret mid;
          tag = hmac_sign c meeting_key (binding_message corr pid nonce)
      in (hex_encode c tag, nonce))"

definition validate_token ::
  "crypto_ops \<Rightarrow> u8 list \<Rightarrow> string \<Rightarrow> string \<Rightarrow> string \<Rightarrow> string \<Rightarrow> string \<Rightarrow> bool"
where
  "validate_token c secret mid corr pid nonce binding_token =
     (let meeting_key = derive_meeting_key c secret mid;
          message = binding_message corr pid nonce
      in case hex_decode c binding_token of
           None \<Rightarrow> False
         | Some provided \<Rightarrow> hmac_verify c meeting_key message provided)"

record StoredBinding =
  sb_correlation_id :: string
  sb_participant_id :: string
  sb_user_id :: string
  sb_nonce :: string
  sb_binding_token :: string
  sb_created_at :: instant

definition stored_binding_new ::
  "instant \<Rightarrow> string \<Rightarrow> string \<Rightarrow> string \<Rightarrow> string \<Rightarrow> string \<Rightarrow> StoredBinding"
where
  "stored_binding_new now corr pid uid nonce token =
     \<lparr>sb_correlation_id = corr, sb_participant_id = pid, sb_user_id = uid, sb_nonce = nonce,
      sb_binding_token = token, sb_created_at = now\<rparr>"

definition is_expired :: "instant \<Rightarrow> StoredBinding \<Rightarrow> bool" where
  "is_expired now b \<longleftrightarrow> duration_since now (sb_created_at b) > BINDING_TOKEN_TTL"

section \<open>The contract of the cryptography\<close>

locale binding_crypto =
  fixes c :: crypto_ops
  assumes verify_iff: "hmac_verify c k m t \<longleftrightarrow> t = hmac_sign c k m"
    and decode_encode: "hex_decode c (hex_encode c bs) = Some bs"
begin

lemma generated_validates:
  assumes "generate_token c secret nb mid corr pid = (token, nonce)"
  shows "validate_token c secret mid corr pid nonce token"
  using assms
  by (auto simp: generate_token_def validate_token_def Let_def verify_iff decode_encode)

lemma validates_iff:
  "validate_token c secret mid corr pid nonce token \<longleftrightarrow>
     hex_decode c token =
       Some (hmac_sign c (derive_meeting_key c secret mid) (binding_message corr pid nonce))"
  by (auto simp: validate_token_def Let_def verify_iff split: option.split)

end

lemma binding_message_inj:
  assumes "length corr = length corr'" and "length nonce = length nonce'"
    and "binding_message corr pid nonce = binding_message corr' pid' nonce'"
  shows "corr = corr' \<and> pid = pid' \<and> nonce = nonce'"
  using assms by (simp add: binding_message_def append_eq_append_conv)

section \<open>An instance\<close>

text \<open>Lower-case hex digits, and a keyed tag that is computed from key and message.\<close>

definition hex_digits :: string where
  "hex_digits = ''0123456789abcdef''"

definition hex_byte :: "u8 \<Rightarrow> string" where
  "hex_byte b = [hex_digits ! (unat b div 16), hex_digits ! (unat b mod 16)]"

definition hex_value :: "char \<Rightarrow> nat option" where
  "hex_value ch = (let is = filter (\<lambda>i. hex_digits ! i = ch) [0..<16] in case is of [] \<Rightarrow> None | i # _ \<Rightarrow> Some i)"

fun unhex :: "string \<Rightarrow> u8 list option" where
  "unhex [] = Some []"
| "unhex [_] = None"
| "unhex (a # b # rest) =
     (case (hex_value a, hex_value b, unhex rest) of
        (Some x, Some y, Some bs) \<Rightarrow> Some (of_nat (16 * x + y) # bs)
      | _ \<Rightarrow> None)"

definition demo_crypto :: crypto_ops where
  "demo_crypto = \<lparr>
     hkdf_expand = \<lambda>secret salt info. secret @ map (\<lambda>ch. of_nat (of_char ch)) (salt @ info),
     hmac_sign = \<lambda>k m. k @ map (\<lambda>ch. of_nat (of_char ch)) m,
     hmac_verify = \<lambda>k m t. t = k @ map (\<lambda>ch. of_nat (of_char ch)) m,
     hex_encode = \<lambda>bs. concat (map hex_byte bs),
     hex_decode = unhex\<rparr>"

lemma hex_value_digit: "n < 16 \<Longrightarrow> hex_value (hex_digits ! n) = Some n"
proof -
  assume "n < 16"
  then have "n \<in> set [0..<16]" by simp
  moreover have "\<forall>n \<in> set [0..<16]. hex_value (hex_digits ! n) = Some n" by code_simp
  ultimately show ?thesis by blast
qed

lemma unhex_hex: "unhex (concat (map hex_byte bs)) = Some bs"
proof (induction bs)
  case (Cons b bs)
  have "unat b div 16 < 16" "unat b mod 16 < 16" using unat_u8_lt [of b] by auto
  moreover have "16 * (unat b div 16) + unat b mod 16 = unat b" by simp
  ultimately show ?case using Cons
    by (simp add: hex_byte_def hex_value_digit flip: of_nat_add of_nat_mult)
qed simp

lemma demo_crypto_laws: "binding_crypto demo_crypto"
  by unfold_locales (simp_all add: demo_crypto_def unhex_hex)

interpretation dc: binding_crypto demo_crypto
  by (rule demo_crypto_laws)

section \<open>Properties\<close>

text \<open>
  A token that \<open>generate_token\<close> issued validates for the session it was issued for; and if it
  validates for any other session of the meeting (another correlation identifier, participant or
  nonce of the same lengths) then the keyed hash has collided on two different messages: the
  concatenation without separators does not make sessions interchangeable.
\<close>

theorem binding_token_bound_to_session:
  assumes "binding_crypto c"
    and "generate_token c secret nonce_bytes mid corr pid = (token, nonce)"
    and "length corr' = length corr" and "length nonce' = length nonce"
  shows "validate_token c secret mid corr pid nonce token
    \<and> (validate_token c secret mid corr' pid' nonce' token \<longrightarrow>
      (corr', pid', nonce') = (corr, pid, nonce)
      \<or> (\<exists>m m'. m \<noteq> m' \<and> hmac_sign c (derive_meeting_key c secret mid) m
               = hmac_sign c (derive_meeting_key c secret mid) m'))"
proof (intro conjI impI)
  show v: "validate_token c secret mid corr pid nonce token"
    by (rule binding_crypto.generated_validates [OF assms(1,2)])
  assume v': "validate_token c secret mid corr' pid' nonce' token"
  have "hmac_sign c (derive_meeting_key c secret mid) (binding_message corr pid nonce)
      = hmac_sign c (derive_meeting_key c secret mid) (binding_message corr' pid' nonce')"
    using v v' by (simp add: binding_crypto.validates_iff [OF assms(1)])
  then show "(corr', pid', nonce') = (corr, pid, nonce)
      \<or> (\<exists>m m'. m \<noteq> m' \<and> hmac_sign c (derive_meeting_key c secret mid) m
               = hmac_sign c (derive_meeting_key c secret mid) m')"
    using binding_message_inj [OF assms(3,4), of pid' pid] by metis
qed

theorem binding_token_bound_to_session_witness:
  "validate_token demo_crypto [1] ''m'' ''k1'' ''p''
     (snd (generate_token demo_crypto [1] [9] ''m'' ''k1'' ''p''))
     (fst (generate_token demo_crypto [1] [9] ''m'' ''k1'' ''p''))"
  using binding_token_bound_to_session [OF demo_crypto_laws, of "[1]" "[9]" "''m''" "''k1''" "''p''"
      "fst (generate_token demo_crypto [1] [9] ''m'' ''k1'' ''p'')"
      "snd (generate_token demo_crypto [1] [9] ''m'' ''k1'' ''p'')" "''k1''"]
  by simp

end
