(* ===== verification/MC_Meeting.thy ===== *)
theory MC_Meeting
  imports MC_Metrics MC_Binding
begin

text \<open>
  The meeting actor of the Meeting Controller (actors/meeting.rs): participants, their connections,
  reconnection with binding tokens, mute state, the disconnect grace period and shutdown.

  \<open>Meeting\<close> is the actor's state; each handler takes it and returns the reply, the new state and the
  list of effects in the order the code performs them: messages to participant actors, spawned and
  cancelled actors, and updates of the counters that all actors share.  What a handler takes from its
  environment is the argument \<open>env\<close>: the clock, the random correlation identifier and nonce it
  draws, and the number of the participant actor it spawns.  Whether a participant actor's task has
  finished, and how, is asked of the argument \<open>finished\<close>.
\<close>

section \<open>State\<close>

definition DISCONNECT_GRACE_PERIOD :: duration where
  "DISCONNECT_GRACE_PERIOD = from_secs 30"

record Participant =
  p_participant_id :: string
  p_user_id :: string
  p_display_name :: string
  p_correlation_id :: string
  p_connection :: "ParticipantHandle option"
  p_status :: ParticipantStatus
  p_disconnected_at :: "instant option"
  p_audio_self_muted :: bool
  p_video_self_muted :: bool
  p_audio_host_muted :: bool
  p_video_host_muted :: bool
  p_is_host :: bool

definition to_info :: "Participant \<Rightarrow> ParticipantInfo" where
  "to_info p = \<lparr>pi_participant_id = p_participant_id p, pi_user_id = p_user_id p,
     pi_display_name = p_display_name p,
     pi_audio_self_muted = p_audio_self_muted p, pi_video_self_muted = p_video_self_muted p,
     pi_audio_host_muted = p_audio_host_muted p, pi_video_host_muted = p_video_host_muted p,
     pi_status = p_status p\<rparr>"

record ManagedConnection =
  mg_handle :: ParticipantHandle
  mg_participant_id :: string

record Meeting =
  m_meeting_id :: string
  m_cancelled :: bool
  m_participants :: "(string, Participant) hmap"
  m_connections :: "(string, ManagedConnection) hmap"
  m_correlation_to_participant :: "(string, string) hmap"
  m_secret :: "u8 list"
  m_stored_bindings :: "(string, StoredBinding) hmap"
  m_fencing_generation :: u64
  m_created_at :: int
  m_is_shutting_down :: bool
  m_mailbox :: MailboxMonitor

datatype meeting_effect =
    SendUpdate nat ParticipantStateUpdate
  | SpawnParticipant ParticipantHandle bool
  | CancelParticipant nat
  | CancelSelf
  | ConnCreated
  | ConnClosed
  | PanicRecorded
  | IncParticipants
  | DecParticipants
  | MessageProcessed

record env =
  env_now :: instant
  env_corr :: string
  env_nonce :: "u8 list"
  env_actor :: nat

text \<open>
  The actor \<open>spawn\<close> starts, at wall-clock time \<open>created\<close>, with a master secret of at least 32 bytes: with a shorter one
  \<open>SessionBindingManager::new\<close> panics before the actor exists.
\<close>

definition meeting_spawn :: "string \<Rightarrow> u8 list \<Rightarrow> int \<Rightarrow> Meeting" where
  "meeting_spawn mid secret created =
     \<lparr>m_meeting_id = mid, m_cancelled = False, m_participants = [], m_connections = [],
      m_correlation_to_participant = [], m_secret = secret, m_stored_bindings = [],
      m_fencing_generation = 1, m_created_at = created, m_is_shutting_down = False,
      m_mailbox = mailbox_new AMeeting mid\<rparr>"

section \<open>Handlers\<close>

definition broadcast_update ::
  "string \<Rightarrow> ParticipantStateUpdate \<Rightarrow> (string, Participant) hmap \<Rightarrow> meeting_effect list"
where
  "broadcast_update except upd ps =
     concat (map (\<lambda>p. if p_participant_id p \<noteq> except
                      then (case p_connection p of
                              Some h \<Rightarrow> [SendUpdate (h_actor h) upd] | None \<Rightarrow> [])
                      else []) (hm_values ps))"

definition others_info :: "string \<Rightarrow> (string, Participant) hmap \<Rightarrow> ParticipantInfo list" where
  "others_info pid ps = map to_info (filter (\<lambda>p. p_participant_id p \<noteq> pid) (hm_values ps))"

definition handle_join ::
  "crypto_ops \<Rightarrow> env \<Rightarrow> string \<Rightarrow> string \<Rightarrow> string \<Rightarrow> bool \<Rightarrow> bool \<Rightarrow> Meeting
     \<Rightarrow> (JoinResult, McError) result \<times> Meeting \<times> meeting_effect list"
where
  "handle_join c env connection_id user_id participant_id is_host has_stream m =
     (if m_is_shutting_down m then (Err Draining, m, [])
      else if hm_contains (m_participants m) participant_id
      then (Err (Conflict ''Participant already in meeting''), m, [])
      else
        let corr = env_corr env;
            (token, nonce) = generate_token c (m_secret m) (env_nonce env) (m_meeting_id m) corr participant_id;
            binding = stored_binding_new (env_now env) corr participant_id user_id nonce token;
            handle = \<lparr>h_connection_id = connection_id, h_participant_id = participant_id,
                      h_actor = env_actor env\<rparr>;
            p = \<lparr>p_participant_id = participant_id, p_user_id = user_id,
                 p_display_name = ''Participant '' @ show_nat (hm_len (m_participants m) + 1),
                 p_correlation_id = corr, p_connection = Some handle, p_status = Connected,
                 p_disconnected_at = None,
                 p_audio_self_muted = False, p_video_self_muted = False,
                 p_audio_host_muted = False, p_video_host_muted = False, p_is_host = is_host\<rparr>;
            m' = m\<lparr>m_stored_bindings := hm_insert corr binding (m_stored_bindings m),
                   m_connections := hm_insert connection_id
                     \<lparr>mg_handle = handle, mg_participant_id = participant_id\<rparr> (m_connections m),
                   m_participants := hm_insert participant_id p (m_participants m),
                   m_correlation_to_participant :=
                     hm_insert corr participant_id (m_correlation_to_participant m)\<rparr>
        in (Ok \<lparr>jr_participant_id = participant_id, jr_correlation_id = corr,
                jr_binding_token = token,
                jr_participants = others_info participant_id (m_participants m'),
                jr_fencing_generation = m_fencing_generation m,
                jr_participant_handle = handle\<rparr>,
            m',
            [SpawnParticipant handle has_stream, ConnCreated, IncParticipants]
              @ broadcast_update participant_id (UpdJoined (to_info p)) (m_participants m')))"

definition mark_disconnected :: "instant \<Rightarrow> Participant \<Rightarrow> Participant" where
  "mark_disconnected now p =
     p\<lparr>p_status := Disconnected, p_disconnected_at := Some now, p_connection := None\<rparr>"

definition handle_disconnect ::
  "instant \<Rightarrow> string \<Rightarrow> string \<Rightarrow> Meeting \<Rightarrow> Meeting \<times> meeting_effect list"
where
  "handle_disconnect now connection_id participant_id m =
     (let closed = (if hm_contains (m_connections m) connection_id then [ConnClosed] else []);
          m1 = m\<lparr>m_connections := hm_remove connection_id (m_connections m)\<rparr>
      in if hm_contains (m_participants m1) participant_id
         then let m2 = m1\<lparr>m_participants :=
                         hm_modify participant_id (mark_disconnected now) (m_participants m1)\<rparr>
              in (m2, closed @ broadcast_update participant_id (UpdDisconnected participant_id)
                                 (m_participants m2))
         else (m1, closed))"

definition handle_reconnect ::
  "crypto_ops \<Rightarrow> env \<Rightarrow> string \<Rightarrow> string \<Rightarrow> string \<Rightarrow> Meeting
     \<Rightarrow> (ReconnectResult, McError) result \<times> Meeting \<times> meeting_effect list"
where
  "handle_reconnect c env connection_id correlation_id binding_token m =
     (case hm_get (m_stored_bindings m) correlation_id of
        None \<Rightarrow> (Err (SessionBinding SessionNotFound), m, [])
      | Some b \<Rightarrow>
          if is_expired (env_now env) b
          then (Err (SessionBinding TokenExpired),
                m\<lparr>m_stored_bindings := hm_remove correlation_id (m_stored_bindings m)\<rparr>, [])
          else if \<not> validate_token c (m_secret m) (m_meeting_id m) correlation_id
                     (sb_participant_id b) (sb_nonce b) binding_token
          then (Err (SessionBinding InvalidToken), m, [])
          else (case hm_get (m_correlation_to_participant m) correlation_id of
             None \<Rightarrow> (Err (SessionBinding SessionNotFound), m, [])
           | Some participant_id \<Rightarrow>
               (case hm_get (m_participants m) participant_id of
                  None \<Rightarrow> (Err (SessionBinding SessionNotFound), m, [])
                | Some p \<Rightarrow>
                    let handle = \<lparr>h_connection_id = connection_id, h_participant_id = participant_id,
                                  h_actor = env_actor env\<rparr>;
                        new_corr = env_corr env;
                        (new_token, new_nonce) = generate_token c (m_secret m) (env_nonce env)
                          (m_meeting_id m) new_corr participant_id;
                        new_binding = stored_binding_new (env_now env) new_corr participant_id
                          (p_user_id p) new_nonce new_token;
                        p' = p\<lparr>p_status := Connected, p_disconnected_at := None,
                               p_connection := Some handle, p_correlation_id := new_corr\<rparr>;
                        m' = m\<lparr>m_connections := hm_insert connection_id
                                 \<lparr>mg_handle = handle, mg_participant_id = participant_id\<rparr> (m_connections m),
                               m_participants := hm_insert participant_id p' (m_participants m),
                               m_stored_bindings := hm_insert new_corr new_binding
                                 (hm_remove correlation_id (m_stored_bindings m)),
                               m_correlation_to_participant := hm_insert new_corr participant_id
                                 (hm_remove correlation_id (m_correlation_to_participant m))\<rparr>
                    in (Ok \<lparr>rr_participant_id = participant_id, rr_new_correlation_id = new_corr,
                            rr_new_binding_token = new_token,
                            rr_participants = others_info participant_id (m_participants m')\<rparr>,
                        m',
                        [SpawnParticipant handle False, ConnCreated]
                          @ broadcast_update participant_id (UpdReconnected participant_id)
                              (m_participants m')))))"

definition handle_leave ::
  "string \<Rightarrow> Meeting \<Rightarrow> (unit, McError) result \<times> Meeting \<times> meeting_effect list"
where
  "handle_leave participant_id m =
     (case hm_get (m_participants m) participant_id of
        None \<Rightarrow> (Err (ParticipantNotFound ''Participant not found''), m, [])
      | Some p \<Rightarrow>
          let m' = m\<lparr>m_participants := hm_remove participant_id (m_participants m),
                     m_correlation_to_participant :=
                       hm_remove (p_correlation_id p) (m_correlation_to_participant m),
                     m_stored_bindings := hm_remove (p_correlation_id p) (m_stored_bindings m)\<rparr>;
              cancel = (case p_connection p of Some h \<Rightarrow> [CancelParticipant (h_actor h)] | None \<Rightarrow> [])
          in (Ok (), m', cancel @ [DecParticipants]
                @ broadcast_update participant_id (UpdLeft participant_id Voluntary) (m_participants m')))"

definition handle_self_mute ::
  "string \<Rightarrow> bool \<Rightarrow> bool \<Rightarrow> Meeting \<Rightarrow> Meeting \<times> meeting_effect list"
where
  "handle_self_mute participant_id audio video m =
     (case hm_get (m_participants m) participant_id of
        None \<Rightarrow> (m, [])
      | Some p \<Rightarrow>
          let p' = p\<lparr>p_audio_self_muted := audio, p_video_self_muted := video\<rparr>;
              m' = m\<lparr>m_participants := hm_insert participant_id p' (m_participants m)\<rparr>
          in (m', broadcast_update participant_id
                    (UpdMuteChanged participant_id (p_audio_self_muted p') (p_video_self_muted p')
                       (p_audio_host_muted p') (p_video_host_muted p')) (m_participants m')))"

definition handle_host_mute ::
  "string \<Rightarrow> string \<Rightarrow> bool \<Rightarrow> bool \<Rightarrow> Meeting
     \<Rightarrow> (unit, McError) result \<times> Meeting \<times> meeting_effect list"
where
  "handle_host_mute target muted_by audio video m =
     (let is_host = (case hm_get (m_participants m) muted_by of Some p \<Rightarrow> p_is_host p | None \<Rightarrow> False)
      in if \<not> is_host
         then (Err (PermissionDenied ''Only hosts can mute other participants''), m, [])
         else (case hm_get (m_participants m) target of
                 None \<Rightarrow> (Err (ParticipantNotFound ''Target participant not found''), m, [])
               | Some p \<Rightarrow>
                   let p' = p\<lparr>p_audio_host_muted := audio, p_video_host_muted := video\<rparr>;
                       m' = m\<lparr>m_participants := hm_insert target p' (m_participants m)\<rparr>
                   in (Ok (), m', broadcast_update target
                        (UpdMuteChanged target (p_audio_self_muted p') (p_video_self_muted p')
                           (p_audio_host_muted p') (p_video_host_muted p')) (m_participants m'))))"

definition handle_signaling ::
  "string \<Rightarrow> SignalingPayload \<Rightarrow> Meeting \<Rightarrow> Meeting \<times> meeting_effect list"
where
  "handle_signaling participant_id payload m =
     (if \<not> hm_contains (m_participants m) participant_id then (m, [])
      else (case payload of
              MuteUpdate audio video \<Rightarrow> handle_self_mute participant_id audio video m
            | LayoutSubscribe _ \<Rightarrow> (m, [])
            | Chat _ \<Rightarrow> (m, [])
            | Raw _ _ \<Rightarrow> (m, [])))"

definition get_state :: "Meeting \<Rightarrow> MeetingState" where
  "get_state m = \<lparr>st_meeting_id = m_meeting_id m,
     st_participants = map to_info (hm_values (m_participants m)),
     st_fencing_generation = m_fencing_generation m, st_created_at = m_created_at m,
     st_mailbox_depth = mb_depth (m_mailbox m), st_is_shutting_down = m_is_shutting_down m\<rparr>"

definition cancel_connections :: "Meeting \<Rightarrow> meeting_effect list" where
  "cancel_connections m = map (\<lambda>mg. CancelParticipant (h_actor (mg_handle mg))) (hm_values (m_connections m))"

definition handle_end_meeting ::
  "string \<Rightarrow> Meeting \<Rightarrow> (unit, McError) result \<times> Meeting \<times> meeting_effect list"
where
  "handle_end_meeting reason m =
     (Ok (), m\<lparr>m_is_shutting_down := True, m_cancelled := True\<rparr>,
      concat (map (\<lambda>pid. broadcast_update pid (UpdLeft pid MeetingEnded) (m_participants m))
                  (hm_keys (m_participants m)))
      @ cancel_connections m @ [CancelSelf])"

text \<open>The removal of one timed-out participant, and the loop over all of them.\<close>

definition timed_out :: "instant \<Rightarrow> Participant \<Rightarrow> bool" where
  "timed_out now p \<longleftrightarrow> p_status p = Disconnected \<and>
     (case p_disconnected_at p of
        None \<Rightarrow> False
      | Some at \<Rightarrow> duration_since now at \<ge> DISCONNECT_GRACE_PERIOD)"

definition remove_timed_out :: "string \<Rightarrow> Meeting \<times> meeting_effect list \<Rightarrow> Meeting \<times> meeting_effect list" where
  "remove_timed_out participant_id = (\<lambda>(m, es).
     case hm_get (m_participants m) participant_id of
       None \<Rightarrow> (m, es)
     | Some p \<Rightarrow>
         let m' = m\<lparr>m_participants := hm_remove participant_id (m_participants m),
                    m_correlation_to_participant :=
                      hm_remove (p_correlation_id p) (m_correlation_to_participant m)\<rparr>
         in (m', es @ [DecParticipants]
               @ broadcast_update participant_id (UpdLeft participant_id Timeout) (m_participants m')))"

definition check_disconnect_timeouts :: "instant \<Rightarrow> Meeting \<Rightarrow> Meeting \<times> meeting_effect list" where
  "check_disconnect_timeouts now m =
     fold remove_timed_out (map fst (filter (\<lambda>(pid, p). timed_out now p) (m_participants m))) (m, [])"

text \<open>How a finished task ended.\<close>

datatype task_end = Completed | Panicked

definition reap_connection ::
  "instant \<Rightarrow> (nat \<Rightarrow> task_end option) \<Rightarrow> string \<Rightarrow> Meeting \<times> meeting_effect list
     \<Rightarrow> Meeting \<times> meeting_effect list"
where
  "reap_connection now finished conn_id = (\<lambda>(m, es).
     case hm_get (m_connections m) conn_id of
       None \<Rightarrow> (m, es)
     | Some mg \<Rightarrow>
         let m1 = m\<lparr>m_connections := hm_remove conn_id (m_connections m)\<rparr>;
             panic = (if finished (h_actor (mg_handle mg)) = Some Panicked then [PanicRecorded] else []);
             (m2, es2) = handle_disconnect now conn_id (mg_participant_id mg) m1
         in (m2, es @ panic @ es2))"

definition check_connection_health ::
  "instant \<Rightarrow> (nat \<Rightarrow> task_end option) \<Rightarrow> Meeting \<Rightarrow> Meeting \<times> meeting_effect list"
where
  "check_connection_health now finished m =
     fold (reap_connection now finished)
       (map fst (filter (\<lambda>(cid, mg). finished (h_actor (mg_handle mg)) \<noteq> None) (m_connections m)))
       (m, [])"

definition meeting_graceful_shutdown :: "Meeting \<Rightarrow> Meeting \<times> meeting_effect list" where
  "meeting_graceful_shutdown m =
     (m\<lparr>m_is_shutting_down := True, m_connections := []\<rparr>, cancel_connections m)"

section \<open>Message dispatch and the run loop\<close>

datatype meeting_reply =
    ReJoin "(JoinResult, McError) result"
  | ReReconnect "(ReconnectResult, McError) result"
  | ReUnit "(unit, McError) result"
  | ReState MeetingState
  | ReNone

fun meeting_handle_message ::
  "crypto_ops \<Rightarrow> env \<Rightarrow> MeetingMessage \<Rightarrow> Meeting \<Rightarrow> meeting_reply \<times> Meeting \<times> meeting_effect list"
where
  "meeting_handle_message c env (ConnectionJoin cid uid pid host stream) m =
     (let (r, m', es) = handle_join c env cid uid pid host stream m in (ReJoin r, m', es))"
| "meeting_handle_message c env (ConnectionDisconnected cid pid) m =
     (let (m', es) = handle_disconnect (env_now env) cid pid m in (ReNone, m', es))"
| "meeting_handle_message c env (ConnectionReconnect cid corr token) m =
     (let (r, m', es) = handle_reconnect c env cid corr token m in (ReReconnect r, m', es))"
| "meeting_handle_message c env (ParticipantLeave pid) m =
     (let (r, m', es) = handle_leave pid m in (ReUnit r, m', es))"
| "meeting_handle_message c env (SignalingMessage pid payload) m =
     (let (m', es) = handle_signaling pid payload m in (ReNone, m', es))"
| "meeting_handle_message c env GetState m = (ReState (get_state m), m, [])"
| "meeting_handle_message c env (UpdateSelfMute pid a v) m =
     (let (m', es) = handle_self_mute pid a v m in (ReNone, m', es))"
| "meeting_handle_message c env (HostMute target by a v) m =
     (let (r, m', es) = handle_host_mute target by a v m in (ReUnit r, m', es))"
| "meeting_handle_message c env (EndMeeting reason) m =
     (let (r, m', es) = handle_end_meeting reason m in (ReUnit r, m', es))"

datatype meeting_event = EvCancelled | EvGraceTick | EvMessage MeetingMessage | EvClosed

text \<open>
  One turn of \<open>run\<close>: reap finished connection actors, then whichever event \<open>select!\<close> picks.  The
  Boolean says whether the loop goes on.  The turn has one clock reading, for the health check and for the event.
\<close>

definition meeting_turn ::
  "crypto_ops \<Rightarrow> env \<Rightarrow> (nat \<Rightarrow> task_end option) \<Rightarrow> meeting_event \<Rightarrow> Meeting
     \<Rightarrow> meeting_reply \<times> Meeting \<times> meeting_effect list \<times> bool"
where
  "meeting_turn c env finished ev m =
     (let (m1, es1) = check_connection_health (env_now env) finished m
      in case ev of
           EvCancelled \<Rightarrow>
             (let (m2, es2) = meeting_graceful_shutdown m1 in (ReNone, m2, es1 @ es2, False))
         | EvGraceTick \<Rightarrow>
             (let (m2, es2) = check_disconnect_timeouts (env_now env) m1
              in (ReNone, m2, es1 @ es2, True))
         | EvMessage msg \<Rightarrow>
             (let m2 = m1\<lparr>m_mailbox := fst (record_enqueue (m_mailbox m1))\<rparr>;
                  (r, m3, es3) = meeting_handle_message c env msg m2;
                  m4 = m3\<lparr>m_mailbox := fst (record_dequeue (m_mailbox m3))\<rparr>
              in (r, m4, es1 @ es3 @ [MessageProcessed], True))
         | EvClosed \<Rightarrow> (ReNone, m1, es1, False))"

text \<open>The effects on the counters all actors share.\<close>

fun apply_metric :: "meeting_effect \<Rightarrow> ActorMetrics \<times> ControllerMetrics \<Rightarrow> ActorMetrics \<times> ControllerMetrics" where
  "apply_metric ConnCreated (am, cm) = (fst (connection_created am), cm)"
| "apply_metric ConnClosed (am, cm) = (fst (connection_closed am), cm)"
| "apply_metric PanicRecorded (am, cm) = (record_panic am, cm)"
| "apply_metric IncParticipants (am, cm) = (am, increment_participants cm)"
| "apply_metric DecParticipants (am, cm) = (am, decrement_participants cm)"
| "apply_metric MessageProcessed (am, cm) = (record_message_processed am, cm)"
| "apply_metric _ (am, cm) = (am, cm)"

end
