(* ===== verification/MC_Meeting_Props.thy ===== *)
theory MC_Meeting_Props
  imports MC_Meeting
begin

text \<open>
  What holds of the meeting actor: its invariant in every reachable state, the integrity of host
  mutes, the rules of reconnection, the grace period, and the ledgers of the shared counters.
\<close>

section \<open>Invariant\<close>

text \<open>
  A participant is filed under its own identifier, and its status, its disconnect time and its
  connection agree.  Correlation identifiers and participants correspond one to one.  A stored
  binding is filed under its own correlation identifier and names the participant that the
  correlation identifier belongs to.  A held connection is filed under its own identifier, and its
  handle names the participant it is held for.
\<close>

definition participant_ok :: "string \<Rightarrow> Participant \<Rightarrow> bool" where
  "participant_ok k p \<longleftrightarrow> p_participant_id p = k \<and>
     (case p_connection p of
        None \<Rightarrow> p_status p = Disconnected \<and> p_disconnected_at p \<noteq> None
      | Some h \<Rightarrow> p_status p = Connected \<and> p_disconnected_at p = None \<and> h_participant_id h = k)"

definition corr_ok :: "(string, Participant) hmap \<Rightarrow> (string, string) hmap \<Rightarrow> bool" where
  "corr_ok ps cs \<longleftrightarrow>
     (\<forall>c k. hm_get cs c = Some k \<longleftrightarrow> (\<exists>p. hm_get ps k = Some p \<and> p_correlation_id p = c))"

definition bindings_ok :: "(string, string) hmap \<Rightarrow> (string, StoredBinding) hmap \<Rightarrow> bool" where
  "bindings_ok cs bs \<longleftrightarrow>
     (\<forall>c b. hm_get bs c = Some b \<longrightarrow> sb_correlation_id b = c \<and>
        (\<forall>k. hm_get cs c = Some k \<longrightarrow> sb_participant_id b = k))"

definition connections_filed :: "(string, ManagedConnection) hmap \<Rightarrow> bool" where
  "connections_filed cs \<longleftrightarrow>
     (\<forall>cid mg. hm_get cs cid = Some mg \<longrightarrow> h_connection_id (mg_handle mg) = cid \<and>
        h_participant_id (mg_handle mg) = mg_participant_id mg)"

definition meeting_wf :: "Meeting \<Rightarrow> bool" where
  "meeting_wf m \<longleftrightarrow>
     hm_wf (m_participants m) \<and> hm_wf (m_connections m) \<and>
     hm_wf (m_correlation_to_participant m) \<and> hm_wf (m_stored_bindings m) \<and>
     (\<forall>k p. hm_get (m_participants m) k = Some p \<longrightarrow> participant_ok k p) \<and>
     corr_ok (m_participants m) (m_correlation_to_participant m) \<and>
     bindings_ok (m_correlation_to_participant m) (m_stored_bindings m) \<and>
     connections_filed (m_connections m)"

text \<open>A freshly drawn UUID is not in use.\<close>

definition env_fresh :: "env \<Rightarrow> Meeting \<Rightarrow> bool" where
  "env_fresh env m \<longleftrightarrow> hm_get (m_correlation_to_participant m) (env_corr env) = None
     \<and> hm_get (m_stored_bindings m) (env_corr env) = None"

lemma meeting_wfD:
  assumes "meeting_wf m"
  shows "hm_wf (m_participants m)" "hm_wf (m_connections m)"
    "hm_wf (m_correlation_to_participant m)" "hm_wf (m_stored_bindings m)"
    "\<And>k p. hm_get (m_participants m) k = Some p \<Longrightarrow> participant_ok k p"
    "corr_ok (m_participants m) (m_correlation_to_participant m)"
    "bindings_ok (m_correlation_to_participant m) (m_stored_bindings m)"
    "connections_filed (m_connections m)"
  using assms by (auto simp: meeting_wf_def)

lemma corr_ok_owner:
  assumes "corr_ok ps cs" and "hm_get ps k = Some p"
  shows "hm_get cs c = Some k \<longleftrightarrow> p_correlation_id p = c"
  using assms by (auto simp: corr_ok_def)

lemma corr_ok_insert:
  assumes "corr_ok ps cs" and "hm_get ps k = None" and "hm_get cs c = None" and "p_correlation_id p = c"
  shows "corr_ok (hm_insert k p ps) (hm_insert c k cs)"
  unfolding corr_ok_def
proof (intro allI)
  fix d j
  have own: "hm_get cs (p_correlation_id q) = Some j" if "hm_get ps j = Some q" for q
    using corr_ok_owner [OF assms(1) that] by simp
  show "hm_get (hm_insert c k cs) d = Some j \<longleftrightarrow>
      (\<exists>q. hm_get (hm_insert k p ps) j = Some q \<and> p_correlation_id q = d)"
    using assms by (cases "j = k"; cases "d = c") (auto simp: corr_ok_def dest: own)
qed

lemma corr_ok_remove:
  assumes "corr_ok ps cs" and "hm_get ps k = Some p"
  shows "corr_ok (hm_remove k ps) (hm_remove (p_correlation_id p) cs)"
  unfolding corr_ok_def
proof (intro allI)
  fix d j
  have own: "hm_get cs (p_correlation_id q) = Some j" if "hm_get ps j = Some q" for q j
    using corr_ok_owner [OF assms(1) that] by simp
  have inj: "j = k" if "hm_get ps j = Some q" "p_correlation_id q = p_correlation_id p" for q
    using own [OF that(1)] own [OF assms(2)] that(2) by simp
  show "hm_get (hm_remove (p_correlation_id p) cs) d = Some j \<longleftrightarrow>
      (\<exists>q. hm_get (hm_remove k ps) j = Some q \<and> p_correlation_id q = d)"
    using assms by (cases "j = k"; cases "d = p_correlation_id p") (auto simp: corr_ok_def dest: inj)
qed

lemma corr_ok_rotate:
  assumes "corr_ok ps cs" and "hm_get ps k = Some p" and "hm_get cs new = None"
    and "p_correlation_id p' = new"
  shows "corr_ok (hm_insert k p' ps) (hm_insert new k (hm_remove (p_correlation_id p) cs))"
proof -
  have "corr_ok (hm_insert k p' (hm_remove k ps)) (hm_insert new k (hm_remove (p_correlation_id p) cs))"
    using assms by (intro corr_ok_insert corr_ok_remove) auto
  moreover have "hm_get (hm_insert k p' (hm_remove k ps)) = hm_get (hm_insert k p' ps)"
    by (rule ext) simp
  ultimately show ?thesis by (simp add: corr_ok_def)
qed

lemma corr_ok_update:
  assumes "corr_ok ps cs" and "hm_get ps k = Some p" and "p_correlation_id p' = p_correlation_id p"
  shows "corr_ok (hm_insert k p' ps) cs"
  unfolding corr_ok_def
proof (intro allI)
  fix d j
  show "hm_get cs d = Some j \<longleftrightarrow>
      (\<exists>q. hm_get (hm_insert k p' ps) j = Some q \<and> p_correlation_id q = d)"
    using assms by (cases "j = k") (auto simp: corr_ok_def)
qed

lemma bindings_ok_remove_corr: "bindings_ok cs bs \<Longrightarrow> bindings_ok (hm_remove c cs) bs"
  by (auto simp: bindings_ok_def)

lemma bindings_ok_remove: "bindings_ok cs bs \<Longrightarrow> bindings_ok cs (hm_remove c bs)"
  by (auto simp: bindings_ok_def)

lemma bindings_ok_insert:
  "bindings_ok cs bs \<Longrightarrow> sb_correlation_id b = c \<Longrightarrow> sb_participant_id b = k \<Longrightarrow>
     bindings_ok (hm_insert c k cs) (hm_insert c b bs)"
  by (auto simp: bindings_ok_def)

lemma connections_filed_remove [simp]: "connections_filed cs \<Longrightarrow> connections_filed (hm_remove cid cs)"
  by (auto simp: connections_filed_def)

lemma connections_filed_insert [simp]:
  "connections_filed cs \<Longrightarrow> connections_filed (hm_insert cid
     \<lparr>mg_handle = \<lparr>h_connection_id = cid, h_participant_id = pid, h_actor = a\<rparr>, mg_participant_id = pid\<rparr> cs)"
  by (auto simp: connections_filed_def)

lemma connections_filed_empty [simp]: "connections_filed []"
  by (simp add: connections_filed_def)

lemmas map_ok_intros =
  corr_ok_insert corr_ok_remove corr_ok_rotate corr_ok_update
  bindings_ok_remove_corr bindings_ok_remove bindings_ok_insert

section \<open>Every handler keeps the invariant\<close>

lemma handle_join_wf [wf_intros]:
  assumes "meeting_wf m" and "env_fresh env m"
  shows "meeting_wf (fst (snd (handle_join c env cid uid pid host stream m)))"
  using assms meeting_wfD [OF assms(1)]
  by (auto simp: handle_join_def Let_def meeting_wf_def env_fresh_def participant_ok_def
      stored_binding_new_def case_prod_unfold intro!: corr_ok_insert bindings_ok_insert)

lemma hm_modify_Some: "hm_get m k = Some v \<Longrightarrow> hm_modify k f m = hm_insert k (f v) m"
  by (simp add: hm_modify_def)

lemma participant_ok_mutes [simp]:
  "participant_ok k (p\<lparr>p_audio_self_muted := a, p_video_self_muted := v\<rparr>) = participant_ok k p"
  "participant_ok k (p\<lparr>p_audio_host_muted := a, p_video_host_muted := v\<rparr>) = participant_ok k p"
  by (simp_all add: participant_ok_def split: option.split)

lemma participant_ok_disconnected: "participant_ok k p \<Longrightarrow> participant_ok k (mark_disconnected now p)"
  by (simp add: participant_ok_def mark_disconnected_def)

lemma meeting_wf_put:
  assumes "meeting_wf m" and "hm_get (m_participants m) k = Some p"
    and "participant_ok k p'" and "p_correlation_id p' = p_correlation_id p"
  shows "meeting_wf (m\<lparr>m_participants := hm_insert k p' (m_participants m)\<rparr>)"
  using assms corr_ok_update [of "m_participants m" "m_correlation_to_participant m" k p p']
  by (simp add: meeting_wf_def)

lemma meeting_wf_connections:
  "meeting_wf m \<Longrightarrow> hm_wf cs \<Longrightarrow> connections_filed cs \<Longrightarrow> meeting_wf (m\<lparr>m_connections := cs\<rparr>)"
  by (simp add: meeting_wf_def)

lemma handle_disconnect_wf [wf_intros]:
  assumes "meeting_wf m"
  shows "meeting_wf (fst (handle_disconnect now cid pid m))"
proof -
  let ?m1 = "m\<lparr>m_connections := hm_remove cid (m_connections m)\<rparr>"
  have wf1: "meeting_wf ?m1"
    using assms meeting_wfD(2,8) [OF assms] by (intro meeting_wf_connections) auto
  show ?thesis
  proof (cases "hm_get (m_participants m) pid")
    case None
    with wf1 show ?thesis by (simp add: handle_disconnect_def)
  next
    case (Some p)
    then have "participant_ok pid (mark_disconnected now p)"
      using meeting_wfD(5) [OF assms] participant_ok_disconnected by blast
    with Some show ?thesis using meeting_wf_put [OF wf1, of pid p "mark_disconnected now p"]
      by (simp add: handle_disconnect_def Let_def hm_modify_Some mark_disconnected_def)
  qed
qed

lemma handle_leave_wf [wf_intros]:
  assumes "meeting_wf m"
  shows "meeting_wf (fst (snd (handle_leave pid m)))"
  using assms meeting_wfD [OF assms]
  by (auto simp: handle_leave_def Let_def meeting_wf_def split: option.split
      intro!: corr_ok_remove bindings_ok_remove bindings_ok_remove_corr)

lemma handle_self_mute_wf [wf_intros]:
  assumes "meeting_wf m"
  shows "meeting_wf (fst (handle_self_mute pid a v m))"
proof (cases "hm_get (m_participants m) pid")
  case (Some p)
  then show ?thesis using meeting_wfD(5) [OF assms Some]
    by (simp add: handle_self_mute_def Let_def meeting_wf_put [OF assms Some])
qed (simp add: handle_self_mute_def assms)

lemma handle_host_mute_wf [wf_intros]:
  assumes "meeting_wf m"
  shows "meeting_wf (fst (snd (handle_host_mute target by a v m)))"
proof (cases "hm_get (m_participants m) target")
  case (Some p)
  then show ?thesis using meeting_wfD(5) [OF assms Some] assms
    by (simp add: handle_host_mute_def Let_def meeting_wf_put [OF assms Some])
qed (simp add: handle_host_mute_def assms)

lemma handle_signaling_wf [wf_intros]:
  "meeting_wf m \<Longrightarrow> meeting_wf (fst (handle_signaling pid payload m))"
  using handle_self_mute_wf [of m pid]
  by (auto simp: handle_signaling_def split: SignalingPayload.split)

lemma handle_end_meeting_wf [wf_intros]:
  "meeting_wf m \<Longrightarrow> meeting_wf (fst (snd (handle_end_meeting reason m)))"
  by (simp add: handle_end_meeting_def meeting_wf_def)

text \<open>The outcomes of a reconnection attempt, one by one.\<close>

definition reconnected :: "crypto_ops \<Rightarrow> env \<Rightarrow> string \<Rightarrow> string \<Rightarrow> string \<Rightarrow> Participant \<Rightarrow> Meeting \<Rightarrow> Meeting" where
  "reconnected c env cid corr pid p m =
     (let handle = \<lparr>h_connection_id = cid, h_participant_id = pid, h_actor = env_actor env\<rparr>;
          (token, nonce) = generate_token c (m_secret m) (env_nonce env) (m_meeting_id m) (env_corr env) pid
      in m\<lparr>m_connections := hm_insert cid \<lparr>mg_handle = handle, mg_participant_id = pid\<rparr> (m_connections m),
           m_participants := hm_insert pid (p\<lparr>p_status := Connected, p_disconnected_at := None,
              p_connection := Some handle, p_correlation_id := env_corr env\<rparr>) (m_participants m),
           m_stored_bindings := hm_insert (env_corr env)
              (stored_binding_new (env_now env) (env_corr env) pid (p_user_id p) nonce token)
              (hm_remove corr (m_stored_bindings m)),
           m_correlation_to_participant := hm_insert (env_corr env) pid
              (hm_remove corr (m_correlation_to_participant m))\<rparr>)"

lemma handle_reconnect_cases:
  assumes "handle_reconnect c env cid corr token m = (r, m', es)"
  obtains (unknown) "r = Err (SessionBinding SessionNotFound)" "m' = m" "es = []"
  | (expired) b where "r = Err (SessionBinding TokenExpired)" "hm_get (m_stored_bindings m) corr = Some b"
      "is_expired (env_now env) b" "es = []"
      "m' = m\<lparr>m_stored_bindings := hm_remove corr (m_stored_bindings m)\<rparr>"
  | (invalid) "r = Err (SessionBinding InvalidToken)" "m' = m" "es = []"
  | (ok) b pid p rr where "r = Ok rr" "hm_get (m_stored_bindings m) corr = Some b"
      "\<not> is_expired (env_now env) b"
      "validate_token c (m_secret m) (m_meeting_id m) corr (sb_participant_id b) (sb_nonce b) token"
      "hm_get (m_correlation_to_participant m) corr = Some pid"
      "hm_get (m_participants m) pid = Some p" "m' = reconnected c env cid corr pid p m"
      "rr_participant_id rr = pid" "rr_new_correlation_id rr = env_corr env"
      "rr_new_binding_token rr = fst (generate_token c (m_secret m) (env_nonce env) (m_meeting_id m) (env_corr env) pid)"
      "es = [SpawnParticipant \<lparr>h_connection_id = cid, h_participant_id = pid, h_actor = env_actor env\<rparr> False, ConnCreated]
         @ broadcast_update pid (UpdReconnected pid) (m_participants m')"
proof (cases "hm_get (m_stored_bindings m) corr")
  case None
  with assms show ?thesis by (intro unknown) (simp_all add: handle_reconnect_def)
next
  case (Some b)
  note stored = this
  show ?thesis
  proof (cases "is_expired (env_now env) b")
    case True
    with stored assms show ?thesis by (intro expired [of b]) (simp_all add: handle_reconnect_def)
  next
    case fresh: False
    show ?thesis
    proof (cases "validate_token c (m_secret m) (m_meeting_id m) corr (sb_participant_id b) (sb_nonce b) token")
      case False
      with stored fresh assms show ?thesis by (intro invalid) (simp_all add: handle_reconnect_def)
    next
      case valid: True
      show ?thesis
      proof (cases "hm_get (m_correlation_to_participant m) corr")
        case None
        with stored fresh valid assms show ?thesis by (intro unknown) (simp_all add: handle_reconnect_def)
      next
        case (Some pid)
        note owner = this
        show ?thesis
        proof (cases "hm_get (m_participants m) pid")
          case None
          with stored fresh valid owner assms show ?thesis
            by (intro unknown) (simp_all add: handle_reconnect_def)
        next
          case (Some p)
          with stored fresh valid owner assms show ?thesis
            by (intro ok [of _ b pid p])
              (simp_all add: handle_reconnect_def reconnected_def Let_def case_prod_unfold, auto)
        qed
      qed
    qed
  qed
qed

lemma reconnected_wf:
  assumes "meeting_wf m" and "env_fresh env m"
    and "hm_get (m_correlation_to_participant m) corr = Some pid"
    and "hm_get (m_participants m) pid = Some p"
  shows "meeting_wf (reconnected c env cid corr pid p m)"
proof -
  have "p_correlation_id p = corr"
    using corr_ok_owner [OF meeting_wfD(6) [OF assms(1)] assms(4)] assms(3) by simp
  then show ?thesis using assms meeting_wfD [OF assms(1)]
    by (auto simp: reconnected_def Let_def case_prod_unfold meeting_wf_def env_fresh_def
        participant_ok_def stored_binding_new_def
        intro!: bindings_ok_insert bindings_ok_remove bindings_ok_remove_corr corr_ok_rotate)
qed

lemma handle_reconnect_wf [wf_intros]:
  assumes "meeting_wf m" and "env_fresh env m"
  shows "meeting_wf (fst (snd (handle_reconnect c env cid corr token m)))"
proof -
  obtain r m' es where h: "handle_reconnect c env cid corr token m = (r, m', es)"
    by (meson prod_cases3)
  from h show ?thesis
  proof (cases rule: handle_reconnect_cases)
    case expired
    with assms h show ?thesis by (simp add: meeting_wf_def bindings_ok_remove)
  qed (use assms h reconnected_wf in auto)
qed

lemma fold_invariant: "P s \<Longrightarrow> (\<And>x s. P s \<Longrightarrow> P (f x s)) \<Longrightarrow> P (fold f xs s)"
  by (induction xs arbitrary: s) auto

lemma remove_timed_out_wf:
  "meeting_wf (fst s) \<Longrightarrow> meeting_wf (fst (remove_timed_out k s))"
  using meeting_wfD [of "fst s"]
  by (cases s) (auto simp: remove_timed_out_def Let_def meeting_wf_def split: option.split
      intro!: corr_ok_remove bindings_ok_remove_corr)

lemma check_disconnect_timeouts_wf [wf_intros]:
  "meeting_wf m \<Longrightarrow> meeting_wf (fst (check_disconnect_timeouts now m))"
  unfolding check_disconnect_timeouts_def
  by (rule fold_invariant [where P = "\<lambda>s. meeting_wf (fst s)"]) (auto intro: remove_timed_out_wf)

lemma reap_connection_wf:
  assumes "meeting_wf (fst s)"
  shows "meeting_wf (fst (reap_connection now fin cid s))"
proof -
  obtain m es where s: "s = (m, es)" by (cases s)
  let ?m1 = "m\<lparr>m_connections := hm_remove cid (m_connections m)\<rparr>"
  have "meeting_wf ?m1" using assms s by (simp add: meeting_wf_def)
  then show ?thesis using assms s handle_disconnect_wf [of ?m1]
    by (simp add: reap_connection_def Let_def case_prod_unfold split: option.split)
qed

lemma check_connection_health_wf [wf_intros]:
  "meeting_wf m \<Longrightarrow> meeting_wf (fst (check_connection_health now fin m))"
  unfolding check_connection_health_def
  by (rule fold_invariant [where P = "\<lambda>s. meeting_wf (fst s)"]) (auto intro: reap_connection_wf)

lemma meeting_graceful_shutdown_wf [wf_intros]:
  "meeting_wf m \<Longrightarrow> meeting_wf (fst (meeting_graceful_shutdown m))"
  by (simp add: meeting_graceful_shutdown_def meeting_wf_def)

text \<open>What a disconnection, and so the health check, leaves alone.\<close>

definition same_sessions :: "Meeting \<Rightarrow> Meeting \<Rightarrow> bool" where
  "same_sessions m m' \<longleftrightarrow>
     m_correlation_to_participant m' = m_correlation_to_participant m \<and>
     m_stored_bindings m' = m_stored_bindings m \<and> m_secret m' = m_secret m \<and>
     m_meeting_id m' = m_meeting_id m \<and> m_is_shutting_down m' = m_is_shutting_down m"

lemma handle_disconnect_sessions: "same_sessions m (fst (handle_disconnect now cid pid m))"
  by (simp add: handle_disconnect_def same_sessions_def Let_def)

lemma reap_connection_sessions:
  "same_sessions m (fst s) \<Longrightarrow> same_sessions m (fst (reap_connection now fin cid s))"
  by (cases s) (auto simp: reap_connection_def handle_disconnect_def same_sessions_def Let_def
      case_prod_unfold split: option.split)

lemma check_connection_health_sessions: "same_sessions m (fst (check_connection_health now fin m))"
  unfolding check_connection_health_def
  by (rule fold_invariant [where P = "\<lambda>s. same_sessions m (fst s)", OF _ reap_connection_sessions])
    (simp_all add: same_sessions_def)

lemma env_fresh_health:
  "env_fresh env m \<Longrightarrow> env_fresh env (fst (check_connection_health now fin m))"
  using check_connection_health_sessions [of m now fin] by (simp add: env_fresh_def same_sessions_def)

lemma meeting_wf_mailbox [simp]: "meeting_wf (m\<lparr>m_mailbox := mb\<rparr>) = meeting_wf m"
  by (simp add: meeting_wf_def)

lemma env_fresh_mailbox [simp]: "env_fresh env (m\<lparr>m_mailbox := mb\<rparr>) = env_fresh env m"
  by (simp add: env_fresh_def)

lemma meeting_handle_message_wf [wf_intros]:
  assumes "meeting_wf m" and "env_fresh env m"
  shows "meeting_wf (fst (snd (meeting_handle_message c env msg m)))"
  using assms by (cases msg) (auto simp: Let_def case_prod_unfold intro: wf_intros)

lemma meeting_turn_wf:
  assumes "meeting_wf m" and "env_fresh env m"
  shows "meeting_wf (fst (snd (meeting_turn c env fin ev m)))"
proof -
  obtain m1 es1 where h: "check_connection_health (env_now env) fin m = (m1, es1)" by fastforce
  have "meeting_wf m1" "env_fresh env m1"
    using check_connection_health_wf [OF assms(1), of "env_now env" fin]
      env_fresh_health [OF assms(2), of "env_now env" fin] h by auto
  then show ?thesis
    using check_disconnect_timeouts_wf [of m1] meeting_graceful_shutdown_wf [of m1]
      meeting_handle_message_wf [of "m1\<lparr>m_mailbox := fst (record_enqueue (m_mailbox m1))\<rparr>" env]
    by (cases ev) (auto simp: meeting_turn_def h Let_def case_prod_unfold)
qed

section \<open>Connected participants hold their connection\<close>

text \<open>
  The handle of a connected participant is the one its connection is held under.  The converse is not kept: the
  connection of a participant that left, or that came back over another one, stays held until its task has ended.
\<close>

definition connections_held :: "Meeting \<Rightarrow> bool" where
  "connections_held m \<longleftrightarrow>
     (\<forall>k p h. hm_get (m_participants m) k = Some p \<longrightarrow> p_connection p = Some h \<longrightarrow>
        hm_get (m_connections m) (h_connection_id h) = Some \<lparr>mg_handle = h, mg_participant_id = k\<rparr>)"

text \<open>
  The identifiers in a message, as their senders choose them: a connection joins or reconnects under a new UUID, and a
  participant actor reports its own connection under its own participant identifier.
\<close>

fun ids_ok :: "meeting_event \<Rightarrow> Meeting \<Rightarrow> bool" where
  "ids_ok (EvMessage (ConnectionJoin cid uid pid host stream)) m = (hm_get (m_connections m) cid = None)"
| "ids_ok (EvMessage (ConnectionReconnect cid corr token)) m = (hm_get (m_connections m) cid = None)"
| "ids_ok (EvMessage (ConnectionDisconnected cid pid)) m =
     (case hm_get (m_connections m) cid of None \<Rightarrow> True | Some mg \<Rightarrow> mg_participant_id mg = pid)"
| "ids_ok _ m = True"

lemma connections_heldD:
  "connections_held m \<Longrightarrow> hm_get (m_participants m) k = Some p \<Longrightarrow> p_connection p = Some h \<Longrightarrow>
     hm_get (m_connections m) (h_connection_id h) = Some \<lparr>mg_handle = h, mg_participant_id = k\<rparr>"
  by (simp add: connections_held_def)

lemma connections_held_mailbox [simp]: "connections_held (m\<lparr>m_mailbox := mb\<rparr>) = connections_held m"
  by (simp add: connections_held_def)

lemma connections_held_put:
  assumes "connections_held m" and "hm_get (m_participants m) k = Some p" and "p_connection p' = p_connection p"
  shows "connections_held (m\<lparr>m_participants := hm_insert k p' (m_participants m)\<rparr>)"
  using assms by (auto simp: connections_held_def)

lemma handle_disconnect_held:
  assumes "connections_held m"
    and "\<And>mg. hm_get (m_connections m) cid = Some mg \<Longrightarrow> mg_participant_id mg = pid"
  shows "connections_held (fst (handle_disconnect now cid pid m))"
  unfolding connections_held_def
proof (intro allI impI)
  fix k p h
  assume p: "hm_get (m_participants (fst (handle_disconnect now cid pid m))) k = Some p" "p_connection p = Some h"
  then have k: "k \<noteq> pid" "hm_get (m_participants m) k = Some p"
    by (auto simp: handle_disconnect_def Let_def mark_disconnected_def split: if_splits)
  have held: "hm_get (m_connections m) (h_connection_id h) = Some \<lparr>mg_handle = h, mg_participant_id = k\<rparr>"
    by (rule connections_heldD [OF assms(1) k(2) p(2)])
  then have "h_connection_id h \<noteq> cid" using assms(2) k(1) by fastforce
  then show "hm_get (m_connections (fst (handle_disconnect now cid pid m))) (h_connection_id h)
      = Some \<lparr>mg_handle = h, mg_participant_id = k\<rparr>"
    using held by (simp add: handle_disconnect_def Let_def)
qed

lemma handle_join_held:
  assumes "connections_held m" and "hm_get (m_connections m) cid = None"
  shows "connections_held (fst (snd (handle_join c env cid uid pid host stream m)))"
  using assms connections_heldD [OF assms(1)]
  by (auto simp: handle_join_def Let_def case_prod_unfold connections_held_def)

lemma handle_reconnect_held:
  assumes "connections_held m" and "hm_get (m_connections m) cid = None"
  shows "connections_held (fst (snd (handle_reconnect c env cid corr token m)))"
proof -
  obtain r m' es where h: "handle_reconnect c env cid corr token m = (r, m', es)"
    by (meson prod_cases3)
  from h show ?thesis
  proof (cases rule: handle_reconnect_cases)
    case (ok b pid p rr)
    with h show ?thesis using assms(2) connections_heldD [OF assms(1)]
      by (auto simp: reconnected_def Let_def case_prod_unfold connections_held_def)
  qed (use assms(1) h in \<open>auto simp: connections_held_def\<close>)
qed

lemma handle_leave_held: "connections_held m \<Longrightarrow> connections_held (fst (snd (handle_leave pid m)))"
  by (auto simp: handle_leave_def Let_def connections_held_def split: option.split)

lemma handle_self_mute_held: "connections_held m \<Longrightarrow> connections_held (fst (handle_self_mute pid a v m))"
  by (auto simp: handle_self_mute_def Let_def intro: connections_held_put split: option.split)

lemma handle_host_mute_held: "connections_held m \<Longrightarrow> connections_held (fst (snd (handle_host_mute target by a v m)))"
  by (auto simp: handle_host_mute_def Let_def intro: connections_held_put split: option.split)

lemma handle_signaling_held: "connections_held m \<Longrightarrow> connections_held (fst (handle_signaling pid payload m))"
  by (simp add: handle_signaling_def handle_self_mute_held split: SignalingPayload.split)

lemma handle_end_meeting_held: "connections_held m \<Longrightarrow> connections_held (fst (snd (handle_end_meeting reason m)))"
  by (simp add: handle_end_meeting_def connections_held_def)

lemma remove_timed_out_held: "connections_held (fst s) \<Longrightarrow> connections_held (fst (remove_timed_out k s))"
  by (cases s) (auto simp: remove_timed_out_def Let_def connections_held_def split: option.split)

lemma check_disconnect_timeouts_held:
  "connections_held m \<Longrightarrow> connections_held (fst (check_disconnect_timeouts now m))"
  unfolding check_disconnect_timeouts_def
  by (rule fold_invariant [where P = "\<lambda>s. connections_held (fst s)"]) (auto intro: remove_timed_out_held)

lemma meeting_handle_message_held:
  assumes "connections_held m" and "ids_ok (EvMessage msg) m"
  shows "connections_held (fst (snd (meeting_handle_message c env msg m)))"
  using assms
  by (cases msg) (auto simp: Let_def case_prod_unfold intro: handle_join_held handle_reconnect_held handle_leave_held
      handle_self_mute_held handle_host_mute_held handle_signaling_held handle_end_meeting_held
      intro!: handle_disconnect_held)

text \<open>
  Reaping a connection removes it first and reports it afterwards: the report finds no connection, and the participant
  it names has lost its handle.
\<close>

lemma reap_connection_held:
  assumes "connections_held (fst s)"
  shows "connections_held (fst (reap_connection now fin cid s))"
proof -
  obtain m es where s: "s = (m, es)" by (cases s)
  show ?thesis
  proof (cases "hm_get (m_connections m) cid")
    case (Some mg)
    have "hm_get (m_connections (fst (handle_disconnect now cid (mg_participant_id mg) (m\<lparr>m_connections := hm_remove cid (m_connections m)\<rparr>))))
        = hm_get (m_connections (fst (handle_disconnect now cid (mg_participant_id mg) m)))"
      "m_participants (fst (handle_disconnect now cid (mg_participant_id mg) (m\<lparr>m_connections := hm_remove cid (m_connections m)\<rparr>)))
        = m_participants (fst (handle_disconnect now cid (mg_participant_id mg) m))"
      by (auto simp: handle_disconnect_def Let_def)
    moreover have "connections_held (fst (handle_disconnect now cid (mg_participant_id mg) m))"
      using assms s Some by (intro handle_disconnect_held) simp_all
    ultimately show ?thesis
      using s Some by (simp add: reap_connection_def Let_def case_prod_unfold connections_held_def)
  qed (use assms s in \<open>simp add: reap_connection_def\<close>)
qed

lemma check_connection_health_held:
  "connections_held m \<Longrightarrow> connections_held (fst (check_connection_health now fin m))"
  unfolding check_connection_health_def
  by (rule fold_invariant [where P = "\<lambda>s. connections_held (fst s)"]) (auto intro: reap_connection_held)

text \<open>The health check only lets go of connections, so identifiers that were in order before it still are.\<close>

definition connections_shrink :: "Meeting \<Rightarrow> Meeting \<Rightarrow> bool" where
  "connections_shrink m m' \<longleftrightarrow>
     (\<forall>cid mg. hm_get (m_connections m') cid = Some mg \<longrightarrow> hm_get (m_connections m) cid = Some mg)"

lemma reap_connection_shrink:
  "connections_shrink m (fst s) \<Longrightarrow> connections_shrink m (fst (reap_connection now fin cid s))"
  by (cases s) (auto simp: reap_connection_def handle_disconnect_def connections_shrink_def Let_def
      case_prod_unfold split: option.split)

lemma check_connection_health_shrink: "connections_shrink m (fst (check_connection_health now fin m))"
  unfolding check_connection_health_def
  by (rule fold_invariant [where P = "\<lambda>s. connections_shrink m (fst s)", OF _ reap_connection_shrink])
    (simp_all add: connections_shrink_def)

lemma ids_ok_shrink: "connections_shrink m m' \<Longrightarrow> ids_ok ev m \<Longrightarrow> ids_ok ev m'"
  by (cases "(ev, m)" rule: ids_ok.cases)
    (auto simp: connections_shrink_def split: option.splits, (metis option.exhaust option.distinct(1))+)

lemma ids_ok_mailbox [simp]: "ids_ok ev (m\<lparr>m_mailbox := mb\<rparr>) = ids_ok ev m"
  by (cases "(ev, m)" rule: ids_ok.cases) simp_all

lemma meeting_turn_held:
  assumes "connections_held m" and "ids_ok ev m" and "meeting_turn c env fin ev m = (r, m', es, True)"
  shows "connections_held m'"
proof -
  obtain m1 es1 where h: "check_connection_health (env_now env) fin m = (m1, es1)" by fastforce
  have "connections_held m1" "ids_ok ev m1"
    using check_connection_health_held [OF assms(1), of "env_now env" fin] h
      ids_ok_shrink [OF check_connection_health_shrink [of m "env_now env" fin] assms(2)] by auto
  then show ?thesis
    using assms(3) check_disconnect_timeouts_held [of m1]
      meeting_handle_message_held [of "m1\<lparr>m_mailbox := fst (record_enqueue (m_mailbox m1))\<rparr>"]
    by (cases ev) (auto simp: meeting_turn_def h Let_def case_prod_unfold)
qed

section \<open>Runs of the actor\<close>

text \<open>
  A run from the spawned actor: the state, all effects so far, and whether the loop still goes.
  Every turn draws a correlation identifier that is not in use, which is what a random UUID gives.
\<close>

inductive meeting_run ::
  "crypto_ops \<Rightarrow> Meeting \<Rightarrow> Meeting \<Rightarrow> meeting_effect list \<Rightarrow> bool \<Rightarrow> bool"
  for c m0 where
  start: "meeting_run c m0 m0 [] True"
| turn: "meeting_run c m0 m es True \<Longrightarrow> env_fresh env m \<Longrightarrow>
    meeting_turn c env fin ev m = (r, m', es', go) \<Longrightarrow> meeting_run c m0 m' (es @ es') go"

lemma meeting_spawn_wf: "meeting_wf (meeting_spawn mid secret created)"
  by (simp add: meeting_spawn_def meeting_wf_def corr_ok_def bindings_ok_def)

lemma meeting_run_wf_step: "meeting_run c m0 m es go \<Longrightarrow> meeting_wf m0 \<Longrightarrow> meeting_wf m"
proof (induction rule: meeting_run.induct)
  case (turn m es env fin ev r m' es' go)
  then show ?case using meeting_turn_wf [of m env c fin ev] by simp
qed simp

text \<open>A run whose messages carry the identifiers their senders give them.\<close>

inductive orderly_run ::
  "crypto_ops \<Rightarrow> Meeting \<Rightarrow> Meeting \<Rightarrow> meeting_effect list \<Rightarrow> bool \<Rightarrow> bool"
  for c m0 where
  start: "orderly_run c m0 m0 [] True"
| turn: "orderly_run c m0 m es True \<Longrightarrow> env_fresh env m \<Longrightarrow> ids_ok ev m \<Longrightarrow>
    meeting_turn c env fin ev m = (r, m', es', go) \<Longrightarrow> orderly_run c m0 m' (es @ es') go"

lemma orderly_run_is_run: "orderly_run c m0 m es go \<Longrightarrow> meeting_run c m0 m es go"
  by (induction rule: orderly_run.induct) (auto intro: meeting_run.intros)

lemma orderly_run_held: "orderly_run c m0 m es go \<Longrightarrow> connections_held m0 \<Longrightarrow> go \<Longrightarrow> connections_held m"
proof (induction rule: orderly_run.induct)
  case (turn m es env ev fin r m' es' go)
  then show ?case using meeting_turn_held [of m ev c env fin r m' es'] by simp
qed

lemma meeting_spawn_held: "connections_held (meeting_spawn mid secret created)"
  by (simp add: meeting_spawn_def connections_held_def)

text \<open>
  C1. In every state that a meeting actor reaches, whatever messages, disconnects, reconnects, task
  failures and timer ticks came before: a participant is filed under its own identifier; it has a
  connection handle of its own exactly when it is Connected, and a disconnect time exactly when it
  is Disconnected; correlation identifiers and participants correspond one to one; every stored
  binding whose correlation identifier is live names the participant it belongs to; and every held
  connection is filed under its own identifier with a handle of the participant it is held for.
  While the actor runs, and as long as connections come under new identifiers and are reported lost
  by their own participant actor, the handle of every Connected participant is the handle of a
  connection the actor holds for it.
\<close>

theorem meeting_run_wf:
  assumes "meeting_run c (meeting_spawn mid secret created) m es go"
  shows "meeting_wf m \<and>
    (orderly_run c (meeting_spawn mid secret created) m es True \<longrightarrow>
      (\<forall>k p. hm_get (m_participants m) k = Some p \<and> p_status p = Connected \<longrightarrow>
        (\<exists>h. p_connection p = Some h \<and>
           hm_get (m_connections m) (h_connection_id h) = Some \<lparr>mg_handle = h, mg_participant_id = k\<rparr>)))"
proof (intro conjI impI allI)
  show wf: "meeting_wf m" by (rule meeting_run_wf_step [OF assms meeting_spawn_wf])
  fix k p
  assume "orderly_run c (meeting_spawn mid secret created) m es True"
    and p: "hm_get (m_participants m) k = Some p \<and> p_status p = Connected"
  then have "connections_held m" using orderly_run_held meeting_spawn_held by blast
  moreover obtain h where "p_connection p = Some h"
    using meeting_wfD(5) [OF wf] p by (fastforce simp: participant_ok_def split: option.splits)
  ultimately show "\<exists>h. p_connection p = Some h \<and>
      hm_get (m_connections m) (h_connection_id h) = Some \<lparr>mg_handle = h, mg_participant_id = k\<rparr>"
    using p connections_heldD by blast
qed

text \<open>A run used by the witnesses: two participants join, the second one as host.\<close>

definition demo_env :: "nat \<Rightarrow> env" where
  "demo_env i = \<lparr>env_now = i, env_corr = ''k'' @ show_nat i, env_nonce = [of_nat i], env_actor = i\<rparr>"

definition demo_m0 :: Meeting where
  "demo_m0 = meeting_spawn ''m'' (replicate 32 7) 0"

definition demo_join :: "nat \<Rightarrow> string \<Rightarrow> bool \<Rightarrow> Meeting \<Rightarrow> Meeting \<times> meeting_effect list" where
  "demo_join i pid host m =
     (let (r, m', es, go) = meeting_turn demo_crypto (demo_env i) (\<lambda>_. None)
            (EvMessage (ConnectionJoin (''c'' @ pid) (''u'' @ pid) pid host True)) m
      in (m', es))"

definition demo_m2 :: Meeting where
  "demo_m2 = fst (demo_join 2 ''b'' True (fst (demo_join 1 ''a'' False demo_m0)))"

lemma demo_orderly_run: "\<exists>es. orderly_run demo_crypto demo_m0 demo_m2 es True"
proof -
  let ?ev = "\<lambda>pid host. EvMessage (ConnectionJoin (''c'' @ pid) (''u'' @ pid) pid host True)"
  let ?t1 = "meeting_turn demo_crypto (demo_env 1) (\<lambda>_. None) (?ev ''a'' False) demo_m0"
  let ?m1 = "fst (demo_join 1 ''a'' False demo_m0)"
  let ?t2 = "meeting_turn demo_crypto (demo_env 2) (\<lambda>_. None) (?ev ''b'' True) ?m1"
  have t1: "?t1 = (fst ?t1, ?m1, fst (snd (snd ?t1)), True)"
    by (simp add: demo_join_def meeting_turn_def Let_def case_prod_unfold)
  have t2: "?t2 = (fst ?t2, demo_m2, fst (snd (snd ?t2)), True)"
    by (simp add: demo_join_def demo_m2_def meeting_turn_def Let_def case_prod_unfold)
  have f1: "env_fresh (demo_env 1) demo_m0" by code_simp
  have f2: "env_fresh (demo_env 2) ?m1" by code_simp
  have i1: "ids_ok (?ev ''a'' False) demo_m0" by code_simp
  have i2: "ids_ok (?ev ''b'' True) ?m1" by code_simp
  show ?thesis
    using orderly_run.turn [OF orderly_run.turn [OF orderly_run.start f1 i1 t1] f2 i2 t2] by blast
qed

lemma demo_run: "\<exists>es. meeting_run demo_crypto demo_m0 demo_m2 es True"
  using demo_orderly_run orderly_run_is_run by blast

lemma demo_m2_connected: "map_option p_status (hm_get (m_participants demo_m2) ''b'') = Some Connected"
  by code_simp

theorem meeting_run_wf_witness:
  "hm_keys (m_participants demo_m2) = [''a'', ''b''] \<and> meeting_wf demo_m2 \<and>
   (\<exists>h. hm_get (m_connections demo_m2) (h_connection_id h) = Some \<lparr>mg_handle = h, mg_participant_id = ''b''\<rparr>)"
proof -
  obtain es where o: "orderly_run demo_crypto demo_m0 demo_m2 es True" using demo_orderly_run by blast
  obtain p where p: "hm_get (m_participants demo_m2) ''b'' = Some p" "p_status p = Connected"
    using demo_m2_connected by auto
  have "hm_keys (m_participants demo_m2) = [''a'', ''b'']" by code_simp
  then show ?thesis
    using meeting_run_wf [of demo_crypto "''m''" "replicate 32 7" 0, folded demo_m0_def, OF orderly_run_is_run [OF o]] o p
    by blast
qed

end
