(* ===== verification/MC_Session_Props.thy ===== *)
theory MC_Session_Props
  imports MC_Meeting_Props
begin

text \<open>
  Properties of the meeting actor that concern one participant's session: who may change its mute
  flags, when it can reconnect, when the grace period removes it, and what the others are told.
\<close>

section \<open>What a turn keeps of a participant\<close>

text \<open>Everything of a participant but its connection, status and correlation identifier.\<close>

definition profile :: "Participant \<Rightarrow> (string \<times> string \<times> string \<times> bool) \<times> (bool \<times> bool) \<times> (bool \<times> bool)" where
  "profile p = ((p_participant_id p, p_user_id p, p_display_name p, p_is_host p),
     (p_audio_self_muted p, p_video_self_muted p), (p_audio_host_muted p, p_video_host_muted p))"

abbreviation identity_of :: "Participant \<Rightarrow> string \<times> string \<times> string \<times> bool" where
  "identity_of p \<equiv> fst (profile p)"

abbreviation self_mutes :: "Participant \<Rightarrow> bool \<times> bool" where
  "self_mutes p \<equiv> fst (snd (profile p))"

abbreviation host_mutes :: "Participant \<Rightarrow> bool \<times> bool" where
  "host_mutes p \<equiv> snd (snd (profile p))"

text \<open>The participant filed under an identifier.\<close>

abbreviation member :: "Meeting \<Rightarrow> string \<Rightarrow> Participant option" where
  "member m k \<equiv> hm_get (m_participants m) k"

lemma profile_disconnected [simp]: "profile (mark_disconnected now p) = profile p"
  by (simp add: profile_def mark_disconnected_def)

lemma handle_disconnect_profile:
  "map_option profile (member (fst (handle_disconnect now cid pid m)) k) = map_option profile (member m k)"
  by (auto simp: handle_disconnect_def Let_def option.map_comp comp_def)

lemma reap_connection_profile:
  "map_option profile (member (fst (reap_connection now fin cid s)) k) = map_option profile (member (fst s) k)"
  by (cases s) (simp add: reap_connection_def Let_def case_prod_unfold handle_disconnect_profile split: option.split)

lemma check_connection_health_profile:
  "map_option profile (member (fst (check_connection_health now fin m)) k) = map_option profile (member m k)"
  unfolding check_connection_health_def
  by (rule fold_invariant [where P = "\<lambda>s. map_option profile (member (fst s) k) = map_option profile (member m k)"])
    (simp_all add: reap_connection_profile)

lemma remove_timed_out_member:
  "member (fst (remove_timed_out k s)) j = (if j = k then None else member (fst s) j)"
  by (cases s) (auto simp: remove_timed_out_def Let_def split: option.split)

lemma fold_remove_timed_out_member:
  "member (fst (fold remove_timed_out ks s)) j = (if j \<in> set ks then None else member (fst s) j)"
  by (induction ks arbitrary: s) (auto simp: remove_timed_out_member)

lemma check_disconnect_timeouts_member:
  assumes "hm_wf (m_participants m)"
  shows "member (fst (check_disconnect_timeouts now m)) k =
    (case member m k of Some p \<Rightarrow> if timed_out now p then None else Some p | None \<Rightarrow> None)"
proof -
  have "k \<in> set (map fst (filter (\<lambda>(pid, p). timed_out now p) (m_participants m)))
      \<longleftrightarrow> (\<exists>p. member m k = Some p \<and> timed_out now p)"
    using assms by (force simp: hm_in_set_conv)
  then show ?thesis
    by (auto simp: check_disconnect_timeouts_def fold_remove_timed_out_member split: option.split)
qed

text \<open>
  The effect of a message on the participant filed under \<open>k\<close>: untouched, or changed in the one way
  the message asks for.
\<close>

lemma handle_join_member:
  "member (fst (snd (handle_join c env cid uid pid host stream m))) k = member m k
   \<or> k = pid \<and> member m k = None"
  by (auto simp: handle_join_def Let_def case_prod_unfold)

lemma handle_reconnect_profile:
  "map_option profile (member (fst (snd (handle_reconnect c env cid corr token m))) k)
     = map_option profile (member m k)"
proof -
  obtain r m' es where h: "handle_reconnect c env cid corr token m = (r, m', es)"
    by (meson prod_cases3)
  from h show ?thesis
    by (cases rule: handle_reconnect_cases)
      (auto simp: h reconnected_def Let_def case_prod_unfold profile_def)
qed

lemma handle_leave_member:
  "member (fst (snd (handle_leave pid m))) k = (if k = pid then None else member m k)"
  by (auto simp: handle_leave_def Let_def split: option.split)

lemma handle_self_mute_member:
  "member (fst (handle_self_mute pid a v m)) k =
     (if k = pid then map_option (\<lambda>p. p\<lparr>p_audio_self_muted := a, p_video_self_muted := v\<rparr>) (member m k)
      else member m k)"
  by (auto simp: handle_self_mute_def Let_def split: option.split)

lemma handle_host_mute_member:
  "member (fst (snd (handle_host_mute target by a v m))) k =
     (if k = target \<and> (\<exists>q. member m by = Some q \<and> p_is_host q)
      then map_option (\<lambda>p. p\<lparr>p_audio_host_muted := a, p_video_host_muted := v\<rparr>) (member m k)
      else member m k)"
  by (auto simp: handle_host_mute_def Let_def split: option.splits)

lemma handle_signaling_member:
  "member (fst (handle_signaling pid payload m)) k =
     (case payload of
        MuteUpdate a v \<Rightarrow> member (fst (handle_self_mute pid a v m)) k
      | _ \<Rightarrow> member m k)"
  by (auto simp: handle_signaling_def handle_self_mute_def split: SignalingPayload.split option.split)

lemmas member_simps = handle_leave_member handle_self_mute_member handle_host_mute_member
  handle_signaling_member

lemma health_member:
  assumes "check_connection_health now fin m = (m1, es)" and "member m k = Some p"
  obtains p1 where "member m1 k = Some p1" "profile p1 = profile p"
  using assms check_connection_health_profile [of now fin m k]
  by (cases "member m1 k") auto

lemma profile_mutes:
  "profile (p\<lparr>p_audio_self_muted := a, p_video_self_muted := v\<rparr>) = (identity_of p, (a, v), host_mutes p)"
  "profile (p\<lparr>p_audio_host_muted := a, p_video_host_muted := v\<rparr>) = (identity_of p, self_mutes p, (a, v))"
  by (simp_all add: profile_def)

lemma profile_host: "profile p = profile q \<Longrightarrow> p_is_host p = p_is_host q"
  by (simp add: profile_def)

text \<open>What one message does to the profile of a participant that is there before and after.\<close>

lemma message_profile:
  assumes "member m k = Some p"
    and "member (fst (snd (meeting_handle_message c env msg m))) k = Some p'"
  shows "profile p' = profile p
    \<or> (\<exists>a v. (msg = UpdateSelfMute k a v \<or> msg = SignalingMessage k (MuteUpdate a v))
        \<and> profile p' = (identity_of p, (a, v), host_mutes p))
    \<or> (\<exists>by a v q. msg = HostMute k by a v \<and> member m by = Some q \<and> p_is_host q
        \<and> profile p' = (identity_of p, self_mutes p, (a, v)))"
proof (cases msg)
  case (ConnectionJoin cid uid pid host stream)
  then show ?thesis using assms handle_join_member [of c env cid uid pid host stream m k]
    by (auto simp: Let_def case_prod_unfold)
next
  case (ConnectionDisconnected cid pid)
  then show ?thesis using assms handle_disconnect_profile [of "env_now env" cid pid m k]
    by (simp add: Let_def case_prod_unfold)
next
  case (ConnectionReconnect cid corr token)
  then show ?thesis using assms handle_reconnect_profile [of c env cid corr token m k]
    by (simp add: Let_def case_prod_unfold)
next
  case (SignalingMessage pid payload)
  then show ?thesis using assms
    by (cases payload) (auto simp: Let_def case_prod_unfold member_simps profile_mutes split: if_splits)
next
  case (HostMute target host a v)
  then show ?thesis using assms
    by (auto simp: Let_def case_prod_unfold member_simps profile_mutes split: if_splits)
qed (use assms in \<open>auto simp: Let_def case_prod_unfold member_simps profile_mutes
       handle_end_meeting_def split: if_splits\<close>)

text \<open>
  C2. Over any turn of the actor a participant that stays keeps its identifier, user, display name
  and host right; its own mute flags change only to what it asked for itself; and its host mute
  flags change only by a host-mute request that names it and comes from a participant with the
  host right.
\<close>

theorem turn_mute_integrity:
  assumes "meeting_turn c env fin ev m = (r, m', es, go)"
    and "member m k = Some p" and "member m' k = Some p'"
  shows "identity_of p' = identity_of p
    \<and> (self_mutes p' = self_mutes p
       \<or> ev = EvMessage (UpdateSelfMute k (fst (self_mutes p')) (snd (self_mutes p')))
       \<or> ev = EvMessage (SignalingMessage k (MuteUpdate (fst (self_mutes p')) (snd (self_mutes p')))))
    \<and> (host_mutes p' = host_mutes p
       \<or> (\<exists>by q. member m by = Some q \<and> p_is_host q
            \<and> ev = EvMessage (HostMute k by (fst (host_mutes p')) (snd (host_mutes p')))))"
proof -
  obtain m1 es1 where h: "check_connection_health (env_now env) fin m = (m1, es1)" by fastforce
  obtain p1 where p1: "member m1 k = Some p1" "profile p1 = profile p"
    using health_member [OF h assms(2)] .
  show ?thesis
  proof (cases ev)
    case EvGraceTick
    have "member m' k = None \<or> member m' k = member m1 k"
      using assms(1) EvGraceTick
      by (auto simp: meeting_turn_def h Let_def case_prod_unfold check_disconnect_timeouts_def
          fold_remove_timed_out_member)
    then show ?thesis using p1 assms(3) by auto
  next
    case (EvMessage msg)
    let ?m2 = "m1\<lparr>m_mailbox := fst (record_enqueue (m_mailbox m1))\<rparr>"
    have "member (fst (snd (meeting_handle_message c env msg ?m2))) k = Some p'"
      using assms EvMessage by (auto simp: meeting_turn_def h Let_def case_prod_unfold)
    then have "profile p' = profile p1
      \<or> (\<exists>a v. (msg = UpdateSelfMute k a v \<or> msg = SignalingMessage k (MuteUpdate a v))
          \<and> profile p' = (identity_of p1, (a, v), host_mutes p1))
      \<or> (\<exists>by a v q. msg = HostMute k by a v \<and> member m1 by = Some q \<and> p_is_host q
          \<and> profile p' = (identity_of p1, self_mutes p1, (a, v)))"
      using message_profile [of ?m2 k p1] p1(1) by simp
    moreover have "\<exists>q'. member m by = Some q' \<and> p_is_host q'"
      if "member m1 by = Some q" "p_is_host q" for "by" q
      using that check_connection_health_profile [of "env_now env" fin m "by"] h
      by (cases "member m by") (auto dest: profile_host)
    ultimately show ?thesis using EvMessage p1(2) by auto
  qed (use assms p1 in \<open>auto simp: meeting_turn_def h Let_def meeting_graceful_shutdown_def\<close>)
qed

text \<open>The second participant of the run above, a host, mutes the first one.\<close>

definition demo_mute :: "meeting_reply \<times> Meeting \<times> meeting_effect list \<times> bool" where
  "demo_mute = meeting_turn demo_crypto (demo_env 3) (\<lambda>_. None)
     (EvMessage (HostMute ''a'' ''b'' True False)) demo_m2"

theorem turn_mute_integrity_witness:
  "host_mutes (the (member (fst (snd demo_mute)) ''a'')) = (True, False)
   \<and> host_mutes (the (member demo_m2 ''a'')) = (False, False)
   \<and> identity_of (the (member (fst (snd demo_mute)) ''a'')) = identity_of (the (member demo_m2 ''a''))"
proof -
  have v: "host_mutes (the (member (fst (snd demo_mute)) ''a'')) = (True, False)"
    "host_mutes (the (member demo_m2 ''a'')) = (False, False)"
    "member (fst (snd demo_mute)) ''a'' \<noteq> None" "member demo_m2 ''a'' \<noteq> None"
    by code_simp+
  have "meeting_turn demo_crypto (demo_env 3) (\<lambda>_. None) (EvMessage (HostMute ''a'' ''b'' True False)) demo_m2
      = (fst demo_mute, fst (snd demo_mute), fst (snd (snd demo_mute)), snd (snd (snd demo_mute)))"
    by (simp add: demo_mute_def)
  from turn_mute_integrity [OF this, of "''a''"] v show ?thesis by auto
qed

section \<open>Reconnection\<close>

lemma handle_reconnect_unknown:
  "hm_get (m_stored_bindings m) corr = None \<Longrightarrow>
     handle_reconnect c env cid corr token m = (Err (SessionBinding SessionNotFound), m, [])"
  by (simp add: handle_reconnect_def)

lemma handle_reconnect_expired:
  assumes "hm_get (m_stored_bindings m) corr = Some b" and "is_expired (env_now env) b"
  shows "handle_reconnect c env cid corr token m = (Err (SessionBinding TokenExpired),
      m\<lparr>m_stored_bindings := hm_remove corr (m_stored_bindings m)\<rparr>, [])"
  using assms by (simp add: handle_reconnect_def)

lemma handle_reconnect_accepts:
  assumes "hm_get (m_stored_bindings m) corr = Some b" and "\<not> is_expired (env_now env) b"
    and "validate_token c (m_secret m) (m_meeting_id m) corr (sb_participant_id b) (sb_nonce b) token"
    and "hm_get (m_correlation_to_participant m) corr = Some pid" and "member m pid = Some p"
  shows "\<exists>rr es. handle_reconnect c env cid corr token m = (Ok rr, reconnected c env cid corr pid p m, es)
      \<and> rr_participant_id rr = pid"
  using assms
  by (simp add: handle_reconnect_def reconnected_def Let_def case_prod_unfold)

lemma reconnected_simps [simp]:
  "member (reconnected c env cid corr pid p m) k =
     (if k = pid then Some (p\<lparr>p_status := Connected, p_disconnected_at := None,
        p_connection := Some \<lparr>h_connection_id = cid, h_participant_id = pid, h_actor = env_actor env\<rparr>,
        p_correlation_id := env_corr env\<rparr>) else member m k)"
  "m_secret (reconnected c env cid corr pid p m) = m_secret m"
  "m_meeting_id (reconnected c env cid corr pid p m) = m_meeting_id m"
  "hm_get (m_connections (reconnected c env cid corr pid p m)) cid =
     Some \<lparr>mg_handle = \<lparr>h_connection_id = cid, h_participant_id = pid, h_actor = env_actor env\<rparr>,
           mg_participant_id = pid\<rparr>"
  "hm_get (m_correlation_to_participant (reconnected c env cid corr pid p m)) k2 =
     (if k2 = env_corr env then Some pid else if k2 = corr then None
      else hm_get (m_correlation_to_participant m) k2)"
  "hm_get (m_stored_bindings (reconnected c env cid corr pid p m)) k2 =
     (if k2 = env_corr env
      then Some (stored_binding_new (env_now env) (env_corr env) pid (p_user_id p)
        (snd (generate_token c (m_secret m) (env_nonce env) (m_meeting_id m) (env_corr env) pid))
        (fst (generate_token c (m_secret m) (env_nonce env) (m_meeting_id m) (env_corr env) pid)))
      else if k2 = corr then None else hm_get (m_stored_bindings m) k2)"
  by (simp_all add: reconnected_def Let_def case_prod_unfold)

lemma reconnect_ok_elim:
  assumes "handle_reconnect c env cid corr token m = (Ok rr, m', es)" and "meeting_wf m"
  obtains b p where "hm_get (m_stored_bindings m) corr = Some b" "\<not> is_expired (env_now env) b"
    "validate_token c (m_secret m) (m_meeting_id m) corr (sb_participant_id b) (sb_nonce b) token"
    "sb_participant_id b = rr_participant_id rr"
    "hm_get (m_correlation_to_participant m) corr = Some (rr_participant_id rr)"
    "member m (rr_participant_id rr) = Some p" "p_correlation_id p = corr"
    "m' = reconnected c env cid corr (rr_participant_id rr) p m"
    "rr_new_correlation_id rr = env_corr env"
    "rr_new_binding_token rr = fst (generate_token c (m_secret m) (env_nonce env) (m_meeting_id m)
       (env_corr env) (rr_participant_id rr))"
  using assms(1)
proof (cases rule: handle_reconnect_cases)
  case (ok b pid p rr')
  have "sb_participant_id b = pid"
    using meeting_wfD(7) [OF assms(2)] ok by (auto simp: bindings_ok_def)
  moreover have "p_correlation_id p = corr"
    using corr_ok_owner [OF meeting_wfD(6) [OF assms(2)]] ok by blast
  ultimately show ?thesis using ok by (intro that [of b p]) auto
qed simp_all

text \<open>
  C4. A reconnection succeeds only against a stored, unexpired binding whose token verifies, and it
  restores exactly the participant the binding names: same identity, same host right, same mutes,
  now Connected with the new connection.  The correlation identifier that was used is spent, every
  later attempt with it fails with \<open>SessionNotFound\<close> whatever the token, while the new identifier
  and token handed out are accepted, for the same participant, as long as the new binding is fresh.
\<close>

theorem reconnect_rotates_session:
  assumes "binding_crypto c" and "meeting_wf m" and "env_fresh env m"
    and "handle_reconnect c env cid corr token m = (Ok rr, m', es)"
  shows "(\<exists>b p p'. hm_get (m_stored_bindings m) corr = Some b \<and> \<not> is_expired (env_now env) b
      \<and> validate_token c (m_secret m) (m_meeting_id m) corr (sb_participant_id b) (sb_nonce b) token
      \<and> sb_participant_id b = rr_participant_id rr
      \<and> member m (rr_participant_id rr) = Some p \<and> p_correlation_id p = corr
      \<and> member m' (rr_participant_id rr) = Some p' \<and> profile p' = profile p
      \<and> p_status p' = Connected
      \<and> map_option h_connection_id (p_connection p') = Some cid)
    \<and> (\<forall>env2 cid2 token2. handle_reconnect c env2 cid2 corr token2 m'
          = (Err (SessionBinding SessionNotFound), m', []))
    \<and> (\<forall>env2 cid2. duration_since (env_now env2) (env_now env) \<le> BINDING_TOKEN_TTL \<longrightarrow>
        (\<exists>rr2 m2 es2. handle_reconnect c env2 cid2 (rr_new_correlation_id rr) (rr_new_binding_token rr) m'
            = (Ok rr2, m2, es2) \<and> rr_participant_id rr2 = rr_participant_id rr))"
    (is "?restored \<and> ?spent \<and> ?renewed")
proof -
  obtain b p where o: "hm_get (m_stored_bindings m) corr = Some b" "\<not> is_expired (env_now env) b"
    "validate_token c (m_secret m) (m_meeting_id m) corr (sb_participant_id b) (sb_nonce b) token"
    "sb_participant_id b = rr_participant_id rr" "member m (rr_participant_id rr) = Some p"
    "p_correlation_id p = corr" "m' = reconnected c env cid corr (rr_participant_id rr) p m"
    "rr_new_correlation_id rr = env_corr env"
    "rr_new_binding_token rr = fst (generate_token c (m_secret m) (env_nonce env) (m_meeting_id m)
       (env_corr env) (rr_participant_id rr))"
    by (rule reconnect_ok_elim [OF assms(4,2)]) blast
  have new: "env_corr env \<noteq> corr" using o(1) assms(3) by (auto simp: env_fresh_def)
  have ?restored
    using o by (simp add: profile_def)
  moreover have ?spent
    using o new handle_reconnect_unknown [of m' corr] by simp
  moreover have ?renewed
  proof (intro allI impI)
    fix env2 :: env and cid2
    assume young: "duration_since (env_now env2) (env_now env) \<le> BINDING_TOKEN_TTL"
    let ?g = "generate_token c (m_secret m) (env_nonce env) (m_meeting_id m) (env_corr env) (rr_participant_id rr)"
    have "validate_token c (m_secret m) (m_meeting_id m) (env_corr env) (rr_participant_id rr) (snd ?g) (fst ?g)"
      by (rule binding_crypto.generated_validates [OF assms(1)]) simp
    then show "\<exists>rr2 m2 es2. handle_reconnect c env2 cid2 (rr_new_correlation_id rr) (rr_new_binding_token rr) m'
        = (Ok rr2, m2, es2) \<and> rr_participant_id rr2 = rr_participant_id rr"
      using o young handle_reconnect_accepts [of m' "env_corr env" _ env2 c _ "rr_participant_id rr"]
      by (fastforce simp: is_expired_def stored_binding_new_def)
  qed
  ultimately show ?thesis by blast
qed

text \<open>The first participant of the run above drops off at time 3 and comes back at time 4.\<close>

definition demo_token :: string where
  "demo_token = fst (generate_token demo_crypto (replicate 32 7) [1] ''m'' ''k1'' ''a'')"

definition demo_m3 :: Meeting where
  "demo_m3 = fst (handle_disconnect 3 ''ca'' ''a'' demo_m2)"

lemma demo_m2_wf: "meeting_wf demo_m2"
  using demo_run meeting_run_wf_step meeting_spawn_wf demo_m0_def by metis

lemma demo_m3_wf: "meeting_wf demo_m3"
  unfolding demo_m3_def by (rule handle_disconnect_wf [OF demo_m2_wf])

lemma demo_reconnect:
  "\<exists>rr m' es. handle_reconnect demo_crypto (demo_env 4) ''c2'' ''k1'' demo_token demo_m3 = (Ok rr, m', es)
     \<and> rr_participant_id rr = ''a''"
proof -
  let ?b = "the (hm_get (m_stored_bindings demo_m3) ''k1'')"
  have "hm_get (m_stored_bindings demo_m3) ''k1'' = Some ?b" by code_simp
  moreover have "sb_created_at ?b = 1" by code_simp
  then have "\<not> is_expired (env_now (demo_env 4)) ?b"
    by (simp add: is_expired_def demo_env_def duration_since_def BINDING_TOKEN_TTL_def from_secs_def)
  moreover have "validate_token demo_crypto (m_secret demo_m3) (m_meeting_id demo_m3) ''k1''
      (sb_participant_id ?b) (sb_nonce ?b) demo_token"
    by code_simp
  moreover have "hm_get (m_correlation_to_participant demo_m3) ''k1'' = Some ''a''" by code_simp
  moreover have "member demo_m3 ''a'' = Some (the (member demo_m3 ''a''))" by code_simp
  ultimately show ?thesis by (meson handle_reconnect_accepts)
qed

lemma demo_fresh: "env_fresh (demo_env 4) demo_m3"
  by code_simp

theorem reconnect_rotates_session_witness:
  "\<exists>rr m' es. handle_reconnect demo_crypto (demo_env 4) ''c2'' ''k1'' demo_token demo_m3 = (Ok rr, m', es)
     \<and> handle_reconnect demo_crypto (demo_env 5) ''c3'' ''k1'' demo_token m'
         = (Err (SessionBinding SessionNotFound), m', [])"
proof -
  obtain rr m' es where
    r: "handle_reconnect demo_crypto (demo_env 4) ''c2'' ''k1'' demo_token demo_m3 = (Ok rr, m', es)"
    using demo_reconnect by blast
  show ?thesis
    using reconnect_rotates_session [OF demo_crypto_laws demo_m3_wf demo_fresh r] r by blast
qed

text \<open>
  The lifetime of a binding is counted from the moment the participant joined, not from the
  moment it lost its connection.  A participant that joined more than thirty seconds ago and then
  drops off is still in the meeting and still within its grace period, but presenting the token it
  was given, or any other, is refused as expired: the grace period cannot be used.
\<close>

theorem grace_period_outlives_binding:
  assumes "handle_join c env cid uid pid host stream m = (Ok jr, m1, es1)"
    and "handle_disconnect t cid pid m1 = (m2, es2)"
    and "env_now env + BINDING_TOKEN_TTL < env_now env2"
    and "env_now env2 < t + DISCONNECT_GRACE_PERIOD"
  shows "(\<exists>p. member m2 pid = Some p \<and> p_status p = Disconnected \<and> \<not> timed_out (env_now env2) p)
    \<and> (\<exists>m3. handle_reconnect c env2 cid2 (jr_correlation_id jr) token m2
           = (Err (SessionBinding TokenExpired), m3, []))"
proof -
  have j: "\<not> m_is_shutting_down m" "member m pid = None"
    using assms(1) by (auto simp: handle_join_def split: if_splits)
  then have corr: "jr_correlation_id jr = env_corr env"
    and m1: "m_stored_bindings m1 = hm_insert (env_corr env)
      (stored_binding_new (env_now env) (env_corr env) pid uid
        (snd (generate_token c (m_secret m) (env_nonce env) (m_meeting_id m) (env_corr env) pid))
        (fst (generate_token c (m_secret m) (env_nonce env) (m_meeting_id m) (env_corr env) pid)))
      (m_stored_bindings m)"
    and "\<exists>p. member m1 pid = Some p"
    using assms(1) by (auto simp: handle_join_def Let_def case_prod_unfold)
  then obtain p where p: "member m1 pid = Some p" by blast
  have m2: "m_stored_bindings m2 = m_stored_bindings m1" "member m2 pid = Some (mark_disconnected t p)"
    using assms(2) p by (auto simp: handle_disconnect_def Let_def)
  have "\<not> timed_out (env_now env2) (mark_disconnected t p)"
    using assms(4)
    by (simp add: timed_out_def mark_disconnected_def duration_since_def DISCONNECT_GRACE_PERIOD_def
        from_secs_def)
  moreover have "is_expired (env_now env2) (stored_binding_new (env_now env) (env_corr env) pid uid n k)" for n k
    using assms(3) by (simp add: is_expired_def stored_binding_new_def duration_since_def)
  ultimately show ?thesis
    using m2 m1 corr handle_reconnect_expired [of m2 "jr_correlation_id jr"]
    by (simp add: mark_disconnected_def)
qed

text \<open>
  The participant joins at time 0, loses its connection one minute later and tries again after
  one more second.
\<close>

theorem grace_period_outlives_binding_witness:
  "\<exists>m1 m2 m3. m1 = fst (snd (handle_join demo_crypto (demo_env 0) ''c1'' ''u'' ''a'' False True demo_m0))
     \<and> m2 = fst (handle_disconnect (from_secs 60) ''c1'' ''a'' m1)
     \<and> handle_reconnect demo_crypto ((demo_env 1)\<lparr>env_now := from_secs 61\<rparr>) ''c2'' ''k0''
          (fst (generate_token demo_crypto (replicate 32 7) [0] ''m'' ''k0'' ''a'')) m2
        = (Err (SessionBinding TokenExpired), m3, [])"
proof -
  let ?j = "handle_join demo_crypto (demo_env 0) ''c1'' ''u'' ''a'' False True demo_m0"
  have "\<exists>jr. fst ?j = Ok jr \<and> jr_correlation_id jr = ''k0''"
    by (simp add: handle_join_def Let_def case_prod_unfold demo_m0_def meeting_spawn_def demo_env_def
        show_nat.simps)
  then obtain jr where jr: "fst ?j = Ok jr" "jr_correlation_id jr = ''k0''" by blast
  then have j: "?j = (Ok jr, fst (snd ?j), snd (snd ?j))" by (metis prod.collapse)
  have d: "handle_disconnect (from_secs 60) ''c1'' ''a'' (fst (snd ?j))
      = (fst (handle_disconnect (from_secs 60) ''c1'' ''a'' (fst (snd ?j))),
         snd (handle_disconnect (from_secs 60) ''c1'' ''a'' (fst (snd ?j))))"
    by simp
  show ?thesis
    using grace_period_outlives_binding [OF j d, of "(demo_env 1)\<lparr>env_now := from_secs 61\<rparr>" "''c2''"
        "fst (generate_token demo_crypto (replicate 32 7) [0] ''m'' ''k0'' ''a'')"] jr(2)
    by (simp add: demo_env_def BINDING_TOKEN_TTL_def DISCONNECT_GRACE_PERIOD_def from_secs_def)
qed

text \<open>
  A late notification from the connection that a reconnection replaced disconnects the
  participant again.  After a successful reconnection over \<open>cid\<close>, the message that another, older
  connection of the participant has ended marks it Disconnected and drops its handle although the
  new connection is still held, and a timer tick thirty seconds later removes it from the meeting.
\<close>

theorem stale_disconnect_evicts:
  assumes "meeting_wf m" and "env_fresh env m"
    and "handle_reconnect c env cid corr token m = (Ok rr, m', es)"
    and "old \<noteq> cid"
    and "handle_disconnect t old (rr_participant_id rr) m' = (m2, es2)"
    and "t + DISCONNECT_GRACE_PERIOD \<le> now"
  shows "(\<exists>p. member m2 (rr_participant_id rr) = Some p \<and> p_status p = Disconnected \<and> p_connection p = None)
    \<and> map_option mg_participant_id (hm_get (m_connections m2) cid) = Some (rr_participant_id rr)
    \<and> member (fst (check_disconnect_timeouts now m2)) (rr_participant_id rr) = None"
proof -
  obtain p where o: "member m (rr_participant_id rr) = Some p"
    "m' = reconnected c env cid corr (rr_participant_id rr) p m"
    "hm_get (m_correlation_to_participant m) corr = Some (rr_participant_id rr)"
    by (rule reconnect_ok_elim [OF assms(3,1)]) blast
  then obtain p1 where p1: "member m' (rr_participant_id rr) = Some p1" by simp
  have "meeting_wf m'" using reconnected_wf [OF assms(1,2) o(3,1)] o(2) by simp
  then have wf: "hm_wf (m_participants m2)"
    using assms(5) handle_disconnect_wf [of m' t old "rr_participant_id rr"] by (simp add: meeting_wf_def)
  have m2: "member m2 (rr_participant_id rr) = Some (mark_disconnected t p1)"
    "hm_get (m_connections m2) cid = hm_get (m_connections m') cid"
    using assms(4,5) p1 by (auto simp: handle_disconnect_def Let_def)
  have "timed_out now (mark_disconnected t p1)"
    using assms(6) by (simp add: timed_out_def mark_disconnected_def duration_since_def)
  then show ?thesis
    using m2 o(2) check_disconnect_timeouts_member [OF wf, of now "rr_participant_id rr"]
    by (simp add: mark_disconnected_def)
qed

text \<open>Above, the old connection \<open>ca\<close> is reported lost after the participant came back over \<open>c2\<close>.\<close>

theorem stale_disconnect_evicts_witness:
  "\<exists>rr m' es. handle_reconnect demo_crypto (demo_env 4) ''c2'' ''k1'' demo_token demo_m3 = (Ok rr, m', es)
     \<and> member (fst (check_disconnect_timeouts (from_secs 31) (fst (handle_disconnect 5 ''ca'' ''a'' m')))) ''a''
         = None"
proof -
  obtain rr m' es where
    r: "handle_reconnect demo_crypto (demo_env 4) ''c2'' ''k1'' demo_token demo_m3 = (Ok rr, m', es)"
    and a: "rr_participant_id rr = ''a''"
    using demo_reconnect by blast
  have d: "handle_disconnect 5 ''ca'' (rr_participant_id rr) m'
      = (fst (handle_disconnect 5 ''ca'' ''a'' m'), snd (handle_disconnect 5 ''ca'' ''a'' m'))"
    by (simp add: a)
  have "''ca'' \<noteq> (''c2'' :: string)" "5 + DISCONNECT_GRACE_PERIOD \<le> from_secs 31"
    by (simp_all add: DISCONNECT_GRACE_PERIOD_def from_secs_def)
  then show ?thesis
    using stale_disconnect_evicts [OF demo_m3_wf demo_fresh r _ d, of "from_secs 31"] r a by auto
qed

section \<open>Grace period and leaving\<close>

lemma corr_ok_inj:
  assumes "corr_ok ps cs" and "hm_get ps j = Some q" and "hm_get ps k = Some p"
    and "p_correlation_id q = p_correlation_id p"
  shows "j = k"
  using corr_ok_owner [OF assms(1,2), of "p_correlation_id p"]
    corr_ok_owner [OF assms(1,3), of "p_correlation_id p"] assms(4) by simp

lemma remove_timed_out_bindings:
  "m_stored_bindings (fst (remove_timed_out k s)) = m_stored_bindings (fst s)"
  by (cases s) (auto simp: remove_timed_out_def Let_def split: option.split)

lemma check_disconnect_timeouts_bindings:
  "m_stored_bindings (fst (check_disconnect_timeouts now m)) = m_stored_bindings m"
  unfolding check_disconnect_timeouts_def
  by (rule fold_invariant [where P = "\<lambda>s. m_stored_bindings (fst s) = m_stored_bindings m"])
    (simp_all add: remove_timed_out_bindings)

lemma count_broadcast [simp]:
  "count_list (broadcast_update except u ps) IncParticipants = 0"
  "count_list (broadcast_update except u ps) DecParticipants = 0"
  "count_list (broadcast_update except u ps) ConnCreated = 0"
  "count_list (broadcast_update except u ps) ConnClosed = 0"
  by (auto simp: broadcast_update_def count_list_0_iff split: option.splits if_splits)

lemma remove_timed_out_count:
  assumes "hm_wf (m_participants (fst s))"
  shows "hm_len (m_participants (fst (remove_timed_out k s)))
      + count_list (snd (remove_timed_out k s)) DecParticipants
    = hm_len (m_participants (fst s)) + count_list (snd s) DecParticipants"
proof (cases s)
  case (Pair m es)
  then show ?thesis
    using assms hm_len_remove [of "m_participants m" k]
    by (cases "member m k") (simp_all add: remove_timed_out_def Let_def)
qed

lemma fold_remove_timed_out_count:
  assumes "meeting_wf (fst s)"
  shows "hm_len (m_participants (fst (fold remove_timed_out ks s)))
      + count_list (snd (fold remove_timed_out ks s)) DecParticipants
    = hm_len (m_participants (fst s)) + count_list (snd s) DecParticipants"
  using assms
proof (induction ks arbitrary: s)
  case (Cons k ks)
  then show ?case
    using remove_timed_out_wf [of s k] remove_timed_out_count [of s k] meeting_wfD(1) by simp
qed simp

text \<open>
  C35. A tick of the grace timer removes exactly the participants that have been Disconnected for at
  least thirty seconds, keeps every other participant as it is, and lowers the shared participant
  count once for each one it removes.  A removed participant's correlation identifier is forgotten,
  so no token brings it back; its stored binding, though, stays behind.
\<close>

theorem grace_tick_exact:
  assumes "meeting_wf m" and "check_disconnect_timeouts now m = (m', es)"
  shows "(\<forall>k. member m' k =
        (case member m k of Some p \<Rightarrow> if timed_out now p then None else Some p | None \<Rightarrow> None))
    \<and> hm_len (m_participants m') + count_list es DecParticipants = hm_len (m_participants m)
    \<and> (\<forall>k p. member m k = Some p \<and> timed_out now p \<longrightarrow>
         hm_get (m_correlation_to_participant m') (p_correlation_id p) = None
         \<and> hm_get (m_stored_bindings m') (p_correlation_id p) = hm_get (m_stored_bindings m) (p_correlation_id p)
         \<and> (\<forall>c env cid token. \<exists>e m2. handle_reconnect c env cid (p_correlation_id p) token m' = (Err e, m2, [])))"
proof (intro conjI allI impI)
  show mem: "member m' k =
      (case member m k of Some p \<Rightarrow> if timed_out now p then None else Some p | None \<Rightarrow> None)" for k
    using check_disconnect_timeouts_member [OF meeting_wfD(1) [OF assms(1)], of now k] assms(2) by simp
  show "hm_len (m_participants m') + count_list es DecParticipants = hm_len (m_participants m)"
    using fold_remove_timed_out_count [of "(m, [])"
        "map fst (filter (\<lambda>(pid, p). timed_out now p) (m_participants m))"] assms
    by (simp add: check_disconnect_timeouts_def)
  fix k p
  assume kp: "member m k = Some p \<and> timed_out now p"
  have wf': "meeting_wf m'" using check_disconnect_timeouts_wf [OF assms(1), of now] assms(2) by simp
  have gone: "hm_get (m_correlation_to_participant m') (p_correlation_id p) \<noteq> Some j" for j
  proof
    assume "hm_get (m_correlation_to_participant m') (p_correlation_id p) = Some j"
    then obtain q where q: "member m' j = Some q" "p_correlation_id q = p_correlation_id p"
      using meeting_wfD(6) [OF wf'] by (auto simp: corr_ok_def)
    then have "member m j = Some q" "\<not> timed_out now q"
      using mem [of j] by (auto split: option.splits if_splits)
    moreover have "j = k"
      using corr_ok_inj [OF meeting_wfD(6) [OF assms(1)] calculation(1)] kp q(2) by simp
    ultimately show False using kp by simp
  qed
  then show none: "hm_get (m_correlation_to_participant m') (p_correlation_id p) = None" by auto
  show "hm_get (m_stored_bindings m') (p_correlation_id p) = hm_get (m_stored_bindings m) (p_correlation_id p)"
    using check_disconnect_timeouts_bindings [of now m] assms(2) by simp
  fix c env cid token
  obtain r m2 es2 where h: "handle_reconnect c env cid (p_correlation_id p) token m' = (r, m2, es2)"
    by (meson prod_cases3)
  from h show "\<exists>e m2. handle_reconnect c env cid (p_correlation_id p) token m' = (Err e, m2, [])"
    by (cases rule: handle_reconnect_cases) (simp_all add: h none)
qed

theorem grace_tick_exact_witness:
  "member (fst (check_disconnect_timeouts (from_secs 31) demo_m3)) ''a'' = None
   \<and> (\<exists>p. member (fst (check_disconnect_timeouts (from_secs 31) demo_m3)) ''b'' = Some p)"
proof -
  let ?r = "check_disconnect_timeouts (from_secs 31) demo_m3"
  have pa: "member demo_m3 ''a'' = Some (the (member demo_m3 ''a''))"
    and pb: "member demo_m3 ''b'' = Some (the (member demo_m3 ''b''))"
    and d: "p_disconnected_at (the (member demo_m3 ''a'')) = Some 3"
      "p_status (the (member demo_m3 ''a'')) = Disconnected"
      "p_status (the (member demo_m3 ''b'')) = Connected"
    by code_simp+
  from d have t: "timed_out (from_secs 31) (the (member demo_m3 ''a''))"
    "\<not> timed_out (from_secs 31) (the (member demo_m3 ''b''))"
    by (simp_all add: timed_out_def duration_since_def DISCONNECT_GRACE_PERIOD_def from_secs_def)
  have "?r = (fst ?r, snd ?r)" by simp
  from grace_tick_exact [OF demo_m3_wf this]
  have "member (fst ?r) k = (case member demo_m3 k of
      Some p \<Rightarrow> if timed_out (from_secs 31) p then None else Some p | None \<Rightarrow> None)" for k
    by blast
  from this [of "''a''"] this [of "''b''"] show ?thesis
    by (subst (asm) pa, subst (asm) pb) (simp add: t)
qed

text \<open>
  Leaving removes the participant for good: it is no longer a member, every other member is
  untouched, its connection's actor is cancelled, the shared participant count falls by one, and
  its correlation identifier is unknown to any later reconnection attempt.
\<close>

theorem leave_is_final:
  assumes "member m pid = Some p"
  shows "\<exists>m' es. handle_leave pid m = (Ok (), m', es)
    \<and> (\<forall>k. member m' k = (if k = pid then None else member m k))
    \<and> (\<forall>h. p_connection p = Some h \<longrightarrow> CancelParticipant (h_actor h) \<in> set es)
    \<and> count_list es DecParticipants = 1 \<and> count_list es IncParticipants = 0
    \<and> (\<forall>c env cid token. handle_reconnect c env cid (p_correlation_id p) token m'
         = (Err (SessionBinding SessionNotFound), m', []))"
proof -
  obtain m' es where h: "handle_leave pid m = (Ok (), m', es)"
    and b: "hm_get (m_stored_bindings m') (p_correlation_id p) = None"
    and e: "es = (case p_connection p of Some h \<Rightarrow> [CancelParticipant (h_actor h)] | None \<Rightarrow> [])
      @ [DecParticipants] @ broadcast_update pid (UpdLeft pid Voluntary) (m_participants m')"
    using assms by (simp add: handle_leave_def Let_def)
  have "member m' k = (if k = pid then None else member m k)" for k
    using handle_leave_member [of pid m k] h by simp
  then show ?thesis using h e handle_reconnect_unknown [OF b]
    by (auto split: option.splits)
qed

theorem leave_is_final_witness:
  "\<exists>m' es. handle_leave ''a'' demo_m2 = (Ok (), m', es) \<and> member m' ''a'' = None
     \<and> count_list es DecParticipants = 1"
proof -
  have "member demo_m2 ''a'' = Some (the (member demo_m2 ''a''))" by code_simp
  from leave_is_final [OF this] show ?thesis by auto
qed

section \<open>The shared participant count\<close>

lemma handle_disconnect_counts:
  "hm_len (m_participants (fst (handle_disconnect now cid pid m))) = hm_len (m_participants m)"
  "count_list (snd (handle_disconnect now cid pid m)) IncParticipants = 0"
  "count_list (snd (handle_disconnect now cid pid m)) DecParticipants = 0"
  by (simp_all add: handle_disconnect_def Let_def)

lemma reap_connection_counts:
  "hm_len (m_participants (fst (reap_connection now fin cid s))) = hm_len (m_participants (fst s))"
  "count_list (snd (reap_connection now fin cid s)) IncParticipants = count_list (snd s) IncParticipants"
  "count_list (snd (reap_connection now fin cid s)) DecParticipants = count_list (snd s) DecParticipants"
  by (cases s; simp add: reap_connection_def Let_def case_prod_unfold handle_disconnect_counts split: option.split)+

lemma check_connection_health_counts:
  "hm_len (m_participants (fst (check_connection_health now fin m))) = hm_len (m_participants m)"
  "count_list (snd (check_connection_health now fin m)) IncParticipants = 0"
  "count_list (snd (check_connection_health now fin m)) DecParticipants = 0"
proof -
  let ?P = "\<lambda>s. hm_len (m_participants (fst s)) = hm_len (m_participants m)
    \<and> count_list (snd s) IncParticipants = 0 \<and> count_list (snd s) DecParticipants = 0"
  have "?P (check_connection_health now fin m)"
    unfolding check_connection_health_def
    by (rule fold_invariant [where P = ?P]) (simp_all add: reap_connection_counts)
  then show "hm_len (m_participants (fst (check_connection_health now fin m))) = hm_len (m_participants m)"
    "count_list (snd (check_connection_health now fin m)) IncParticipants = 0"
    "count_list (snd (check_connection_health now fin m)) DecParticipants = 0"
    by simp_all
qed

text \<open>The change of the participant count that a list of effects asks for.\<close>

definition net_participants :: "meeting_effect list \<Rightarrow> int" where
  "net_participants es = int (count_list es IncParticipants) - int (count_list es DecParticipants)"

abbreviation size_of :: "Meeting \<Rightarrow> int" where
  "size_of m \<equiv> int (hm_len (m_participants m))"

lemma net_append: "net_participants (xs @ ys) = net_participants xs + net_participants ys"
  by (simp add: net_participants_def)

lemma net_cancel [simp]: "net_participants (cancel_connections m) = 0"
proof -
  have "e \<notin> set (cancel_connections m)" if "\<forall>n. e \<noteq> CancelParticipant n" for e
    using that by (auto simp: cancel_connections_def)
  then show ?thesis by (simp add: net_participants_def count_list_0_iff)
qed

lemma net_broadcasts:
  "net_participants (concat (map (\<lambda>pid. broadcast_update pid (u pid) ps) ks)) = 0"
  by (induction ks) (simp_all add: net_participants_def)

lemma handle_join_size:
  "size_of (fst (snd (handle_join c env cid uid pid host stream m)))
     = size_of m + net_participants (snd (snd (handle_join c env cid uid pid host stream m)))"
  by (simp add: handle_join_def Let_def case_prod_unfold net_participants_def hm_len_insert_fresh)

lemma handle_reconnect_size:
  "size_of (fst (snd (handle_reconnect c env cid corr token m)))
     = size_of m + net_participants (snd (snd (handle_reconnect c env cid corr token m)))"
proof -
  obtain r m' es where h: "handle_reconnect c env cid corr token m = (r, m', es)"
    by (meson prod_cases3)
  from h show ?thesis
    by (cases rule: handle_reconnect_cases)
      (use h in \<open>auto simp: net_participants_def reconnected_def Let_def case_prod_unfold hm_len_insert_old\<close>)
qed

lemma handle_leave_size:
  assumes "hm_wf (m_participants m)"
  shows "size_of (fst (snd (handle_leave pid m)))
     = size_of m + net_participants (snd (snd (handle_leave pid m)))"
  using hm_len_remove [OF assms, of pid]
  by (auto simp: handle_leave_def Let_def net_participants_def split: option.split)

lemma handle_self_mute_size:
  "size_of (fst (handle_self_mute pid a v m))
     = size_of m + net_participants (snd (handle_self_mute pid a v m))"
  by (auto simp: handle_self_mute_def Let_def net_participants_def hm_len_insert_old split: option.split)

lemma handle_host_mute_size:
  "size_of (fst (snd (handle_host_mute target by a v m)))
     = size_of m + net_participants (snd (snd (handle_host_mute target by a v m)))"
  by (auto simp: handle_host_mute_def Let_def net_participants_def hm_len_insert_old split: option.split)

lemma handle_end_meeting_size:
  "size_of (fst (snd (handle_end_meeting reason m)))
     = size_of m + net_participants (snd (snd (handle_end_meeting reason m)))"
  by (simp add: handle_end_meeting_def net_append net_broadcasts) (simp add: net_participants_def)

lemma message_size:
  assumes "hm_wf (m_participants m)"
  shows "size_of (fst (snd (meeting_handle_message c env msg m)))
     = size_of m + net_participants (snd (snd (meeting_handle_message c env msg m)))"
proof (cases msg)
  case (SignalingMessage pid payload)
  then show ?thesis using handle_self_mute_size [of pid _ _ m]
    by (cases payload) (auto simp: Let_def case_prod_unfold handle_signaling_def net_participants_def)
next
  case (ConnectionDisconnected cid pid)
  then show ?thesis using handle_disconnect_counts [of "env_now env" cid pid m]
    by (simp add: Let_def case_prod_unfold net_participants_def)
qed (simp_all add: Let_def case_prod_unfold handle_join_size handle_reconnect_size
       handle_leave_size [OF assms] handle_self_mute_size handle_host_mute_size handle_end_meeting_size,
     simp add: net_participants_def)

lemma remove_timed_out_no_join:
  "count_list (snd (remove_timed_out k s)) IncParticipants = count_list (snd s) IncParticipants"
  by (cases s) (simp add: remove_timed_out_def Let_def split: option.split)

lemma check_disconnect_timeouts_size:
  assumes "meeting_wf m"
  shows "size_of (fst (check_disconnect_timeouts now m))
     = size_of m + net_participants (snd (check_disconnect_timeouts now m))"
proof -
  have "count_list (snd (check_disconnect_timeouts now m)) IncParticipants = 0"
    unfolding check_disconnect_timeouts_def
    by (rule fold_invariant [where P = "\<lambda>s. count_list (snd s) IncParticipants = 0"])
      (simp_all add: remove_timed_out_no_join)
  then show ?thesis
    using fold_remove_timed_out_count [of "(m, [])"
        "map fst (filter (\<lambda>(pid, p). timed_out now p) (m_participants m))"] assms
    by (simp add: check_disconnect_timeouts_def net_participants_def)
qed

lemma turn_size:
  assumes "meeting_wf m" and "meeting_turn c env fin ev m = (r, m', es, go)"
  shows "size_of m' = size_of m + net_participants es"
proof -
  obtain m1 es1 where h: "check_connection_health (env_now env) fin m = (m1, es1)" by fastforce
  have z: "size_of m1 = size_of m" "net_participants es1 = 0"
    using check_connection_health_counts [of "env_now env" fin m] h by (simp_all add: net_participants_def)
  have wf: "meeting_wf m1" using check_connection_health_wf [OF assms(1), of "env_now env" fin] h by simp
  show ?thesis
  proof (cases ev)
    case EvGraceTick
    have "size_of (fst (check_disconnect_timeouts (env_now env) m1))
        = size_of m1 + net_participants (snd (check_disconnect_timeouts (env_now env) m1))"
      by (rule check_disconnect_timeouts_size [OF wf])
    then show ?thesis using assms(2) z EvGraceTick h
      by (auto simp: meeting_turn_def Let_def case_prod_unfold net_append)
  next
    case (EvMessage msg)
    let ?m2 = "m1\<lparr>m_mailbox := fst (record_enqueue (m_mailbox m1))\<rparr>"
    have "net_participants [MessageProcessed] = 0" by (simp add: net_participants_def)
    then show ?thesis using assms(2) z EvMessage h message_size [of ?m2 c env msg] meeting_wfD(1) [OF wf]
      by (auto simp: meeting_turn_def Let_def case_prod_unfold net_append)
  qed (use assms(2) z h in \<open>auto simp: meeting_turn_def Let_def meeting_graceful_shutdown_def net_append\<close>)
qed

lemma apply_metric_participants:
  "current_participants (snd (fold apply_metric es s))
     = current_participants (snd s) + of_int (net_participants es)"
proof (induction es arbitrary: s)
  case (Cons e es)
  have "current_participants (snd (apply_metric e s))
      = current_participants (snd s) + of_int (net_participants [e])"
    by (cases s; cases e)
      (simp_all add: net_participants_def increment_participants_def decrement_participants_def)
  then show ?case using Cons [of "apply_metric e s"] net_append [of "[e]" es]
    by (simp add: add.assoc)
qed (simp add: net_participants_def)

lemma run_size: "meeting_run c m0 m es go \<Longrightarrow> meeting_wf m0 \<Longrightarrow> size_of m = size_of m0 + net_participants es"
proof (induction rule: meeting_run.induct)
  case (turn m es env fin ev r m' es' go)
  then show ?case using turn_size [of m c env fin ev r m' es' go] meeting_run_wf_step [of c m0 m es True]
    by (simp add: net_append)
qed (simp add: net_participants_def)

text \<open>
  A meeting contributes its number of members to the participant count that the controller
  reports: after any run of its actor the shared counter is what it was plus the number of members,
  also when the run has ended.  So a meeting that stops with members in it leaves them counted.
\<close>

theorem participant_count_ledger:
  assumes "meeting_run c (meeting_spawn mid secret created) m es go"
  shows "current_participants (snd (fold apply_metric es (am, cm)))
     = current_participants cm + of_nat (hm_len (m_participants m))"
proof -
  have "net_participants es = size_of m"
    using run_size [OF assms meeting_spawn_wf] by (simp add: meeting_spawn_def hm_len_def)
  then show ?thesis by (simp add: apply_metric_participants)
qed

text \<open>The run above, followed by the cancellation of the actor.\<close>

lemma demo_stopped_run:
  "\<exists>es. meeting_run demo_crypto demo_m0 (fst (meeting_graceful_shutdown demo_m2)) es False"
proof -
  obtain es where r: "meeting_run demo_crypto demo_m0 demo_m2 es True" using demo_run by blast
  have "env_fresh (demo_env 3) demo_m2" by code_simp
  moreover have "meeting_turn demo_crypto (demo_env 3) (\<lambda>_. None) EvCancelled demo_m2
      = (ReNone, fst (meeting_graceful_shutdown demo_m2), snd (meeting_graceful_shutdown demo_m2), False)"
    by (simp add: meeting_turn_def check_connection_health_def Let_def case_prod_unfold)
  ultimately show ?thesis using meeting_run.turn [OF r] by blast
qed

theorem participant_count_ledger_witness:
  "\<exists>es. meeting_run demo_crypto demo_m0 (fst (meeting_graceful_shutdown demo_m2)) es False
     \<and> current_participants (snd (fold apply_metric es (actor_metrics_new, controller_metrics_new))) = 2"
proof -
  obtain es where r: "meeting_run demo_crypto demo_m0 (fst (meeting_graceful_shutdown demo_m2)) es False"
    using demo_stopped_run by blast
  have "hm_len (m_participants (fst (meeting_graceful_shutdown demo_m2))) = 2" by code_simp
  then show ?thesis
    using participant_count_ledger [OF r [unfolded demo_m0_def], of actor_metrics_new controller_metrics_new] r
    by (auto simp: controller_metrics_new_def)
qed

section \<open>What the others are told\<close>

lemma broadcast_iff:
  assumes "hm_wf ps"
  shows "SendUpdate a u \<in> set (broadcast_update except upd ps) \<longleftrightarrow> u = upd \<and>
    (\<exists>k p h. hm_get ps k = Some p \<and> p_participant_id p \<noteq> except \<and> p_connection p = Some h \<and> h_actor h = a)"
  (is "?l \<longleftrightarrow> ?r")
proof
  assume ?l
  then obtain p where p: "p \<in> set (hm_values ps)" "p_participant_id p \<noteq> except"
    and s: "SendUpdate a u \<in> set (case p_connection p of Some h \<Rightarrow> [SendUpdate (h_actor h) upd] | None \<Rightarrow> [])"
    by (auto simp: broadcast_update_def split: if_splits)
  from s obtain h where "p_connection p = Some h" "u = upd" "h_actor h = a"
    by (cases "p_connection p") auto
  with p show ?r using hm_in_values [OF assms] by blast
next
  assume ?r
  then obtain k p h where "hm_get ps k = Some p" "p_participant_id p \<noteq> except" "p_connection p = Some h"
    "u = upd" "h_actor h = a" by blast
  moreover from this have "p \<in> set (hm_values ps)" using hm_in_values [OF assms] by blast
  ultimately show ?l by (force simp: broadcast_update_def)
qed

text \<open>
  When a participant joins, it is handed exactly the members that were there before it, and the
  notice of its arrival goes to exactly the participant actors of those members that are connected,
  and to nobody else: not to itself and not to a member in its grace period.
\<close>

theorem join_informs_everyone:
  assumes "meeting_wf m" and "handle_join c env cid uid pid host stream m = (Ok jr, m', es)"
  shows "set (jr_participants jr) = {to_info p | k p. member m k = Some p}
    \<and> (\<forall>a u. SendUpdate a u \<in> set es \<longleftrightarrow>
         (\<exists>p'. member m' pid = Some p' \<and> u = UpdJoined (to_info p'))
         \<and> (\<exists>k p h. member m k = Some p \<and> p_connection p = Some h \<and> h_actor h = a))"
proof -
  have new: "member m pid = None" and jr: "jr_participants jr = others_info pid (m_participants m')"
    using assms(2) by (auto simp: handle_join_def Let_def case_prod_unfold split: if_splits)
  define p' where "p' = the (member m' pid)"
  have p': "member m' pid = Some p'" "p_participant_id p' = pid"
    and m': "m_participants m' = hm_insert pid p' (m_participants m)"
    and es: "\<exists>h b. es = [SpawnParticipant h b, ConnCreated, IncParticipants]
      @ broadcast_update pid (UpdJoined (to_info p')) (m_participants m')"
    using assms(2) new by (auto simp: handle_join_def Let_def case_prod_unfold p'_def split: if_splits)
  have wf: "hm_wf (m_participants m')" using m' meeting_wfD(1) [OF assms(1)] by simp
  have ids: "p_participant_id p = k" if "member m k = Some p" for k p
    using meeting_wfD(5) [OF assms(1) that] by (simp add: participant_ok_def)
  have others: "(member m' k = Some p \<and> p_participant_id p \<noteq> pid) \<longleftrightarrow> member m k = Some p" for k p
    using m' p'(2) new ids [of k p] by auto
  have "set (jr_participants jr) = {to_info p | k p. member m' k = Some p \<and> p_participant_id p \<noteq> pid}"
    using hm_in_values [OF wf] by (auto simp: jr others_info_def)
  moreover have "SendUpdate a u \<in> set es \<longleftrightarrow> u = UpdJoined (to_info p')
      \<and> (\<exists>k p h. member m k = Some p \<and> p_connection p = Some h \<and> h_actor h = a)" for a u
  proof -
    have "SendUpdate a u \<in> set es
        \<longleftrightarrow> SendUpdate a u \<in> set (broadcast_update pid (UpdJoined (to_info p')) (m_participants m'))"
      using es by auto
    then show ?thesis
      unfolding broadcast_iff [OF wf] others [symmetric] by blast
  qed
  ultimately show ?thesis using others p'(1) by auto
qed

text \<open>A third participant joins the run above.\<close>

theorem join_informs_everyone_witness:
  "SendUpdate 1 (UpdJoined (to_info (the (member
       (fst (snd (handle_join demo_crypto (demo_env 3) ''c3'' ''u3'' ''d'' False True demo_m2))) ''d''))))
     \<in> set (snd (snd (handle_join demo_crypto (demo_env 3) ''c3'' ''u3'' ''d'' False True demo_m2)))"
proof -
  let ?j = "handle_join demo_crypto (demo_env 3) ''c3'' ''u3'' ''d'' False True demo_m2"
  have "\<not> isl (fst ?j)" "member (fst (snd ?j)) ''d'' \<noteq> None"
    "map_option h_actor (p_connection (the (member demo_m2 ''a''))) = Some 1" "member demo_m2 ''a'' \<noteq> None"
    by code_simp+
  then obtain jr p h where "fst ?j = Ok jr" "member (fst (snd ?j)) ''d'' \<noteq> None"
    "member demo_m2 ''a'' = Some p" "p_connection p = Some h" "h_actor h = 1"
    by (cases "fst ?j") auto
  moreover from this have "?j = (Ok jr, fst (snd ?j), snd (snd ?j))" by (metis prod.collapse)
  ultimately show ?thesis using join_informs_everyone [OF demo_m2_wf, of demo_crypto "demo_env 3"]
    by fastforce
qed

end
