(* ===== verification/MC_Participant.thy ===== *)
theory MC_Participant
  imports MC_Metrics
begin

text \<open>
  The participant actor (actors/participant.rs): it forwards signaling messages and participant
  updates to the client's stream until it is closed or cancelled, and tells the meeting when it
  stops.  Protobuf encoding (\<open>prost\<close>) is the parameter \<open>encode\<close>.  Whether the outbound channel
  takes a message (\<open>try_send\<close>) is part of the event that delivers it.
\<close>

section \<open>The actor\<close>

record ParticipantActor =
  pa_connection_id :: string
  pa_participant_id :: string
  pa_meeting_id :: string
  pa_mailbox :: MailboxMonitor
  pa_is_closing :: bool
  pa_stream_tx :: bool
  pa_meeting_handle :: bool

datatype participant_effect =
    WireSend "u8 list"
  | Pong
  | StreamDropped
  | NotifyDisconnected string string
  | ParticipantMessageProcessed

definition spawn_inner :: "string \<Rightarrow> string \<Rightarrow> string \<Rightarrow> bool \<Rightarrow> bool \<Rightarrow> ParticipantActor" where
  "spawn_inner connection_id participant_id meeting_id stream_tx meeting_handle =
     \<lparr>pa_connection_id = connection_id, pa_participant_id = participant_id, pa_meeting_id = meeting_id,
      pa_mailbox = mailbox_new AParticipant connection_id, pa_is_closing = False,
      pa_stream_tx = stream_tx, pa_meeting_handle = meeting_handle\<rparr>"

definition participant_spawn :: "string \<Rightarrow> string \<Rightarrow> string \<Rightarrow> ParticipantActor" where
  "participant_spawn cid pid mid = spawn_inner cid pid mid False False"

definition spawn_with_meeting :: "string \<Rightarrow> string \<Rightarrow> string \<Rightarrow> ParticipantActor" where
  "spawn_with_meeting cid pid mid = spawn_inner cid pid mid False True"

definition handle_send :: "bool \<Rightarrow> SignalingPayload \<Rightarrow> ParticipantActor \<Rightarrow> participant_effect list" where
  "handle_send takes payload a =
     (if pa_is_closing a then []
      else if \<not> pa_stream_tx a then []
      else (case payload of
              Raw _ bytes \<Rightarrow> if takes then [WireSend bytes] else []
            | _ \<Rightarrow> []))"

definition handle_update ::
  "(ServerMessage \<Rightarrow> u8 list) \<Rightarrow> bool \<Rightarrow> ParticipantStateUpdate \<Rightarrow> ParticipantActor
     \<Rightarrow> participant_effect list"
where
  "handle_update encode takes upd a =
     (if pa_is_closing a then []
      else (case encode_participant_update upd of
              None \<Rightarrow> []
            | Some server_msg \<Rightarrow>
                if pa_stream_tx a then (if takes then [WireSend (encode server_msg)] else []) else []))"

definition graceful_close :: "ParticipantActor \<Rightarrow> ParticipantActor \<times> participant_effect list" where
  "graceful_close a =
     (if pa_is_closing a then (a, [])
      else (a\<lparr>pa_is_closing := True, pa_stream_tx := False\<rparr>,
            if pa_stream_tx a then [StreamDropped] else []))"

text \<open>The Boolean result says that the actor should exit.\<close>

fun participant_handle_message ::
  "(ServerMessage \<Rightarrow> u8 list) \<Rightarrow> bool \<Rightarrow> ParticipantMessage \<Rightarrow> ParticipantActor
     \<Rightarrow> ParticipantActor \<times> participant_effect list \<times> bool"
where
  "participant_handle_message encode takes (PSend payload) a = (a, handle_send takes payload a, False)"
| "participant_handle_message encode takes (PUpdate upd) a = (a, handle_update encode takes upd a, False)"
| "participant_handle_message encode takes (PClose reason) a =
     (let (a', es) = graceful_close a in (a', es, True))"
| "participant_handle_message encode takes PPing a = (a, [Pong], False)"

datatype participant_event = PCancelled | PMessage ParticipantMessage bool | PChannelClosed

definition participant_turn ::
  "(ServerMessage \<Rightarrow> u8 list) \<Rightarrow> participant_event \<Rightarrow> ParticipantActor
     \<Rightarrow> ParticipantActor \<times> participant_effect list \<times> bool"
where
  "participant_turn encode ev a =
     (case ev of
        PCancelled \<Rightarrow> (let (a', es) = graceful_close a in (a', es, True))
      | PMessage msg takes \<Rightarrow>
          (let a1 = a\<lparr>pa_mailbox := fst (record_enqueue (pa_mailbox a))\<rparr>;
               (a2, es, should_exit) = participant_handle_message encode takes msg a1;
               a3 = a2\<lparr>pa_mailbox := fst (record_dequeue (pa_mailbox a2))\<rparr>
           in (a3, es @ [ParticipantMessageProcessed], should_exit))
      | PChannelClosed \<Rightarrow> (a, [], True))"

text \<open>
  The loop over a sequence of events, and the notification after it.  The Boolean result says that
  the actor has stopped.
\<close>

fun participant_run ::
  "(ServerMessage \<Rightarrow> u8 list) \<Rightarrow> participant_event list \<Rightarrow> ParticipantActor
     \<Rightarrow> ParticipantActor \<times> participant_effect list \<times> bool"
where
  "participant_run encode [] a = (a, [], False)"
| "participant_run encode (ev # evs) a =
     (let (a', es, should_exit) = participant_turn encode ev a
      in if should_exit
         then (a', es @ (if pa_meeting_handle a'
                         then [NotifyDisconnected (pa_connection_id a') (pa_participant_id a')] else []), True)
         else let (a'', es', stopped) = participant_run encode evs a'
              in (a'', es @ es', stopped))"

section \<open>Properties\<close>

text \<open>What the code means to send for one event, and the events that stop the actor.\<close>

fun wire_of :: "(ServerMessage \<Rightarrow> u8 list) \<Rightarrow> participant_event \<Rightarrow> u8 list list" where
  "wire_of encode (PMessage (PSend (Raw _ bytes)) True) = [bytes]"
| "wire_of encode (PMessage (PUpdate (UpdJoined info)) True) =
     [encode (SMParticipantJoined (pi_participant_id info) (pi_display_name info))]"
| "wire_of encode (PMessage (PUpdate (UpdLeft pid reason)) True) =
     [encode (SMParticipantLeft pid (proto_leave_reason reason))]"
| "wire_of encode _ = []"

fun stops :: "participant_event \<Rightarrow> bool" where
  "stops (PMessage (PClose _) _) = True"
| "stops (PMessage _ _) = False"
| "stops _ = True"

primrec wire_bytes :: "participant_effect list \<Rightarrow> u8 list list" where
  "wire_bytes [] = []"
| "wire_bytes (e # es) = (case e of WireSend bs \<Rightarrow> bs # wire_bytes es | _ \<Rightarrow> wire_bytes es)"

primrec notices :: "participant_effect list \<Rightarrow> (string \<times> string) list" where
  "notices [] = []"
| "notices (e # es) = (case e of NotifyDisconnected c p \<Rightarrow> (c, p) # notices es | _ \<Rightarrow> notices es)"

lemma wire_bytes_append [simp]: "wire_bytes (xs @ ys) = wire_bytes xs @ wire_bytes ys"
  by (induction xs) (auto split: participant_effect.split)

lemma notices_append [simp]: "notices (xs @ ys) = notices xs @ notices ys"
  by (induction xs) (auto split: participant_effect.split)

text \<open>One turn of an actor that is not closing.\<close>

lemma graceful_close_effects:
  "wire_bytes (snd (graceful_close a)) = []" "notices (snd (graceful_close a)) = []"
  "pa_meeting_handle (fst (graceful_close a)) = pa_meeting_handle a"
  "pa_connection_id (fst (graceful_close a)) = pa_connection_id a"
  "pa_participant_id (fst (graceful_close a)) = pa_participant_id a"
  by (simp_all add: graceful_close_def)

lemma handle_send_effects:
  "\<not> pa_is_closing a \<Longrightarrow>
     wire_bytes (handle_send takes payload a) = (if pa_stream_tx a then wire_of e (PMessage (PSend payload) takes) else [])"
  "notices (handle_send takes payload a) = []"
  by (cases payload; cases takes; simp add: handle_send_def)+

lemma handle_update_effects:
  "\<not> pa_is_closing a \<Longrightarrow>
     wire_bytes (handle_update e takes upd a) = (if pa_stream_tx a then wire_of e (PMessage (PUpdate upd) takes) else [])"
  "notices (handle_update e takes upd a) = []"
  by (cases upd; cases takes; simp add: handle_update_def)+

lemma participant_turn_effects:
  assumes "participant_turn e ev a = (a', es, should_exit)" and "\<not> pa_is_closing a"
  shows "should_exit = stops ev"
    and "wire_bytes es = (if pa_stream_tx a \<and> \<not> stops ev then wire_of e ev else [])"
    and "notices es = []"
    and "pa_meeting_handle a' = pa_meeting_handle a" "pa_connection_id a' = pa_connection_id a"
      "pa_participant_id a' = pa_participant_id a"
    and "should_exit \<or> (\<not> pa_is_closing a' \<and> pa_stream_tx a' = pa_stream_tx a)"
proof -
  have "should_exit = stops ev
    \<and> wire_bytes es = (if pa_stream_tx a \<and> \<not> stops ev then wire_of e ev else [])
    \<and> notices es = [] \<and> pa_meeting_handle a' = pa_meeting_handle a
    \<and> pa_connection_id a' = pa_connection_id a \<and> pa_participant_id a' = pa_participant_id a
    \<and> (should_exit \<or> (\<not> pa_is_closing a' \<and> pa_stream_tx a' = pa_stream_tx a))"
  proof (cases ev)
    case PCancelled
    then show ?thesis using assms graceful_close_effects [of a]
      by (auto simp: participant_turn_def case_prod_unfold Let_def)
  next
    case (PMessage msg takes)
    let ?a = "a\<lparr>pa_mailbox := fst (record_enqueue (pa_mailbox a))\<rparr>"
    show ?thesis using assms PMessage graceful_close_effects [of ?a]
        handle_send_effects(1) [of ?a takes _ e] handle_send_effects(2) [of takes _ ?a]
        handle_update_effects(1) [of ?a e takes] handle_update_effects(2) [of e takes _ ?a]
      by (cases msg) (auto simp: participant_turn_def case_prod_unfold Let_def)
  next
    case PChannelClosed
    then show ?thesis using assms by (auto simp: participant_turn_def)
  qed
  then show "should_exit = stops ev"
    "wire_bytes es = (if pa_stream_tx a \<and> \<not> stops ev then wire_of e ev else [])"
    "notices es = []" "pa_meeting_handle a' = pa_meeting_handle a"
    "pa_connection_id a' = pa_connection_id a" "pa_participant_id a' = pa_participant_id a"
    "should_exit \<or> (\<not> pa_is_closing a' \<and> pa_stream_tx a' = pa_stream_tx a)"
    by blast+
qed

lemma participant_run_effects:
  assumes "participant_run e evs a = (a', es, stopped)" and "\<not> pa_is_closing a"
  shows "stopped = list_ex stops evs
    \<and> wire_bytes es = (if pa_stream_tx a then concat (map (wire_of e) (takeWhile (\<lambda>ev. \<not> stops ev) evs)) else [])
    \<and> (\<exists>body. es = body @ (if stopped \<and> pa_meeting_handle a
          then [NotifyDisconnected (pa_connection_id a) (pa_participant_id a)] else []) \<and> notices body = [])"
  using assms
proof (induction evs arbitrary: a a' es stopped)
  case (Cons ev evs)
  obtain a1 es1 x where t: "participant_turn e ev a = (a1, es1, x)" by (meson prod_cases3)
  note te = participant_turn_effects [OF t Cons.prems(2)]
  show ?case
  proof (cases "stops ev")
    case True
    then show ?thesis using Cons.prems(1) t te by (auto simp: Let_def)
  next
    case False
    obtain a2 es2 st where r: "participant_run e evs a1 = (a2, es2, st)" by (meson prod_cases3)
    have "\<not> pa_is_closing a1" "pa_stream_tx a1 = pa_stream_tx a" using te(1,7) False by auto
    with Cons.IH [OF r] obtain body where
      "st = list_ex stops evs"
      "wire_bytes es2 = (if pa_stream_tx a then concat (map (wire_of e) (takeWhile (\<lambda>ev. \<not> stops ev) evs)) else [])"
      "es2 = body @ (if st \<and> pa_meeting_handle a1
          then [NotifyDisconnected (pa_connection_id a1) (pa_participant_id a1)] else [])" "notices body = []"
      by auto
    moreover have "a' = a2" "es = es1 @ es2" "stopped = st"
      using Cons.prems(1) t r te(1) False by (auto simp: Let_def)
    ultimately show ?thesis using te False by (auto intro!: exI [of _ "es1 @ body"])
  qed
qed auto

lemma spawn_inner_simps [simp]:
  "pa_connection_id (spawn_inner cid pid mid stream meeting) = cid"
  "pa_participant_id (spawn_inner cid pid mid stream meeting) = pid"
  "pa_is_closing (spawn_inner cid pid mid stream meeting) = False"
  "pa_stream_tx (spawn_inner cid pid mid stream meeting) = stream"
  "pa_meeting_handle (spawn_inner cid pid mid stream meeting) = meeting"
  by (simp_all add: spawn_inner_def)

text \<open>
  A participant actor sends its client, in order, exactly the encodings of the raw messages and
  the join and leave notices that arrive before the first close, cancellation or loss of its
  channel and that the outbound channel takes; nothing goes out afterwards.  It stops at the first
  such event, and the last thing it does is to report its connection lost to the meeting, once.
\<close>

theorem participant_actor_output:
  "case participant_run e evs (spawn_inner cid pid mid stream meeting) of (a', es, stopped) \<Rightarrow>
     stopped = list_ex stops evs
     \<and> wire_bytes es = (if stream then concat (map (wire_of e) (takeWhile (\<lambda>ev. \<not> stops ev) evs)) else [])
     \<and> (\<exists>body. es = body @ (if stopped \<and> meeting then [NotifyDisconnected cid pid] else []) \<and> notices body = [])"
proof -
  obtain a' es stopped where r: "participant_run e evs (spawn_inner cid pid mid stream meeting) = (a', es, stopped)"
    by (meson prod_cases3)
  from participant_run_effects [OF r, unfolded spawn_inner_simps]
  show ?thesis unfolding r prod.case by blast
qed

end
