(* ===== verification/MC_Registry.thy ===== *)
theory MC_Registry
  imports Prelude
begin

text \<open>
  The registry of which Media Handlers each participant is connected to (mh_connection_registry.rs)
  and the gRPC service through which Media Handlers update it (grpc/media_coordination.rs).

  The registry is a map from meetings to maps from participants to vectors, behind a lock that every
  operation holds for its whole body, so each operation is a function of the map.  Its abstraction
  is a set of triples; the locale \<open>connection_registry\<close> states the contract in those terms.
\<close>

section \<open>Definitions\<close>

definition MAX_CONNECTIONS_PER_MEETING :: nat where
  "MAX_CONNECTIONS_PER_MEETING = 1000"

definition MAX_ID_LENGTH :: nat where
  "MAX_ID_LENGTH = 256"

record MhConnectionInfo =
  ci_handler_id :: string
  ci_connected_at :: instant

type_synonym registry = "(string, (string, MhConnectionInfo list) hmap) hmap"

definition registry_new :: registry where
  "registry_new = []"

text \<open>\<open>meeting.values().map(|v| v.len()).sum()\<close>.\<close>

definition total_connections :: "(string, MhConnectionInfo list) hmap \<Rightarrow> nat" where
  "total_connections meeting = hm_sum length meeting"

definition add_connection ::
  "instant \<Rightarrow> string \<Rightarrow> string \<Rightarrow> string \<Rightarrow> registry \<Rightarrow> bool \<times> registry"
where
  "add_connection now meeting_id participant_id handler_id connections =
     (let meeting = hm_get_or [] connections meeting_id
      in if total_connections meeting \<ge> MAX_CONNECTIONS_PER_MEETING
         then (False, hm_insert meeting_id meeting connections)
         else
           let cs = hm_get_or [] meeting participant_id
           in if \<exists>c \<in> set cs. ci_handler_id c = handler_id
              then (True, hm_insert meeting_id (hm_insert participant_id cs meeting) connections)
              else (True, hm_insert meeting_id
                      (hm_insert participant_id
                        (cs @ [\<lparr>ci_handler_id = handler_id, ci_connected_at = now\<rparr>]) meeting)
                      connections))"

definition remove_connection ::
  "string \<Rightarrow> string \<Rightarrow> string \<Rightarrow> registry \<Rightarrow> bool \<times> registry"
where
  "remove_connection meeting_id participant_id handler_id connections =
     (case hm_get connections meeting_id of
        None \<Rightarrow> (False, connections)
      | Some meeting \<Rightarrow>
          (case hm_get meeting participant_id of
             None \<Rightarrow> (False, connections)
           | Some cs \<Rightarrow>
               let cs' = filter (\<lambda>c. ci_handler_id c \<noteq> handler_id) cs;
                   removed = (length cs' < length cs);
                   meeting' = (if cs' = [] then hm_remove participant_id meeting
                               else hm_insert participant_id cs' meeting);
                   connections' = (if meeting' = [] then hm_remove meeting_id connections
                                   else hm_insert meeting_id meeting' connections)
               in (removed, connections')))"

definition registry_remove_meeting :: "string \<Rightarrow> registry \<Rightarrow> registry" where
  "registry_remove_meeting meeting_id connections = hm_remove meeting_id connections"

definition get_connections :: "string \<Rightarrow> string \<Rightarrow> registry \<Rightarrow> MhConnectionInfo list" where
  "get_connections meeting_id participant_id connections =
     (case hm_get connections meeting_id of
        None \<Rightarrow> []
      | Some meeting \<Rightarrow> hm_get_or [] meeting participant_id)"

definition registry_meeting_count :: "registry \<Rightarrow> nat" where
  "registry_meeting_count connections = hm_len connections"

subsection \<open>The gRPC service\<close>

text \<open>The status a handler returns on failure: \<open>tonic::Status::invalid_argument\<close>.\<close>

datatype grpc_status = InvalidArgumentStatus string

definition validate_id_field :: "string \<Rightarrow> string \<Rightarrow> (unit, grpc_status) result" where
  "validate_id_field value field_name =
     (if value = [] then Err (InvalidArgumentStatus ''Invalid request'')
      else if length value > MAX_ID_LENGTH then Err (InvalidArgumentStatus ''Invalid request'')
      else Ok ())"

text \<open>The three field checks in the order of the code; the first failure is returned.\<close>

definition validate_ids :: "string \<Rightarrow> string \<Rightarrow> string \<Rightarrow> (unit, grpc_status) result" where
  "validate_ids mid pid hid =
     (case validate_id_field mid ''meeting_id'' of
        Inl e \<Rightarrow> Err e
      | Inr _ \<Rightarrow> (case validate_id_field pid ''participant_id'' of
          Inl e \<Rightarrow> Err e
        | Inr _ \<Rightarrow> validate_id_field hid ''handler_id''))"

text \<open>The reply carries \<open>acknowledged\<close>.\<close>

definition notify_participant_connected ::
  "instant \<Rightarrow> string \<Rightarrow> string \<Rightarrow> string \<Rightarrow> registry \<Rightarrow> (bool, grpc_status) result \<times> registry"
where
  "notify_participant_connected now mid pid hid connections =
     (case validate_ids mid pid hid of
        Inl e \<Rightarrow> (Err e, connections)
      | Inr _ \<Rightarrow> let (added, connections') = add_connection now mid pid hid connections
                 in (Ok True, connections'))"

definition notify_participant_disconnected ::
  "string \<Rightarrow> string \<Rightarrow> string \<Rightarrow> registry \<Rightarrow> (bool, grpc_status) result \<times> registry"
where
  "notify_participant_disconnected mid pid hid connections =
     (case validate_ids mid pid hid of
        Inl e \<Rightarrow> (Err e, connections)
      | Inr _ \<Rightarrow> let (removed, connections') = remove_connection mid pid hid connections
                 in (Ok True, connections'))"

section \<open>The contract\<close>

text \<open>
  What the controller and the notification service rely on: the registry is a set of links between
  a participant of a meeting and a handler, bounded per meeting.
\<close>

locale connection_registry =
  fixes empty :: 'r
    and add :: "instant \<Rightarrow> string \<Rightarrow> string \<Rightarrow> string \<Rightarrow> 'r \<Rightarrow> bool \<times> 'r"
    and remove :: "string \<Rightarrow> string \<Rightarrow> string \<Rightarrow> 'r \<Rightarrow> bool \<times> 'r"
    and drop_meeting :: "string \<Rightarrow> 'r \<Rightarrow> 'r"
    and links :: "'r \<Rightarrow> (string \<times> string \<times> string) set"
    and invar :: "'r \<Rightarrow> bool"
    and bound :: nat
  assumes links_empty: "links empty = {}"
    and invar_empty: "invar empty"
    and invar_add: "invar r \<Longrightarrow> invar (snd (add now m p h r))"
    and invar_remove: "invar r \<Longrightarrow> invar (snd (remove m p h r))"
    and invar_drop: "invar r \<Longrightarrow> invar (drop_meeting m r)"
    and links_add: "invar r \<Longrightarrow> links (snd (add now m p h r)) =
        (if fst (add now m p h r) then Set.insert (m, p, h) (links r) else links r)"
    and add_refused: "invar r \<Longrightarrow> \<not> fst (add now m p h r) \<longleftrightarrow> card {x \<in> links r. fst x = m} \<ge> bound"
    and links_remove: "invar r \<Longrightarrow> links (snd (remove m p h r)) = links r - {(m, p, h)}"
    and remove_found: "invar r \<Longrightarrow> fst (remove m p h r) \<longleftrightarrow> (m, p, h) \<in> links r"
    and links_drop: "invar r \<Longrightarrow> links (drop_meeting m r) = {x \<in> links r. fst x \<noteq> m}"
    and links_bounded: "invar r \<Longrightarrow> finite (links r) \<and> card {x \<in> links r. fst x = m} \<le> bound"
begin

lemma add_then_remove:
  assumes "invar r" and "(m, p, h) \<notin> links r" and "fst (add now m p h r)"
  shows "links (snd (remove m p h (snd (add now m p h r)))) = links r"
  using assms by (simp add: links_remove invar_add links_add)

lemma add_other_meeting:
  assumes "invar r" and "m' \<noteq> m"
  shows "{x \<in> links (snd (add now m p h r)). fst x = m'} = {x \<in> links r. fst x = m'}"
  using assms by (auto simp: links_add)

lemma drop_frees: "invar r \<Longrightarrow> 0 < bound \<Longrightarrow> fst (add now m p h (drop_meeting m r))"
  using add_refused [OF invar_drop, of r now m p h m] by (simp add: links_drop)

lemma add_idempotent:
  assumes "invar r" and "(m, p, h) \<in> links r"
  shows "links (snd (add now m p h r)) = links r"
  using assms by (auto simp: links_add)

end

section \<open>The registry meets the contract\<close>

definition vec_ok :: "MhConnectionInfo list \<Rightarrow> bool" where
  "vec_ok cs \<longleftrightarrow> cs \<noteq> [] \<and> distinct (map ci_handler_id cs)"

definition registry_meeting_ok :: "(string, MhConnectionInfo list) hmap \<Rightarrow> bool" where
  "registry_meeting_ok meeting \<longleftrightarrow> hm_wf meeting
     \<and> total_connections meeting \<le> MAX_CONNECTIONS_PER_MEETING
     \<and> (\<forall>p cs. hm_get meeting p = Some cs \<longrightarrow> vec_ok cs)"

definition registry_wf :: "registry \<Rightarrow> bool" where
  "registry_wf r \<longleftrightarrow> hm_wf r
     \<and> (\<forall>m meeting. hm_get r m = Some meeting \<longrightarrow> meeting \<noteq> [] \<and> registry_meeting_ok meeting)"

definition meeting_links :: "(string, MhConnectionInfo list) hmap \<Rightarrow> (string \<times> string) set" where
  "meeting_links meeting = {(p, h). h \<in> ci_handler_id ` set (hm_get_or [] meeting p)}"

definition registry_links :: "registry \<Rightarrow> (string \<times> string \<times> string) set" where
  "registry_links r = {(m, p, h). (p, h) \<in> meeting_links (hm_get_or [] r m)}"

lemma meeting_links_Nil [simp]: "meeting_links [] = {}"
  by (simp add: meeting_links_def)

lemma meeting_links_insert:
  "meeting_links (hm_insert p cs meeting)
     = {x \<in> meeting_links meeting. fst x \<noteq> p} \<union> {p} \<times> ci_handler_id ` set cs"
  by (auto simp: meeting_links_def split: if_splits)

lemma meeting_links_remove:
  "meeting_links (hm_remove p meeting) = {x \<in> meeting_links meeting. fst x \<noteq> p}"
  by (auto simp: meeting_links_def split: if_splits)

lemma registry_links_insert:
  "registry_links (hm_insert m meeting r)
     = {x \<in> registry_links r. fst x \<noteq> m} \<union> {m} \<times> meeting_links meeting"
  by (auto simp: registry_links_def split: if_splits)

lemma registry_links_remove:
  "registry_links (hm_remove m r) = {x \<in> registry_links r. fst x \<noteq> m}"
  by (auto simp: registry_links_def split: if_splits)

lemma registry_links_of: "{x \<in> registry_links r. fst x = m} = {m} \<times> meeting_links (hm_get_or [] r m)"
  by (auto simp: registry_links_def)

lemma meeting_ok_or: "registry_wf r \<Longrightarrow> registry_meeting_ok (hm_get_or [] r m)"
  by (auto simp: registry_wf_def hm_get_or_def registry_meeting_ok_def total_connections_def split: option.split)

lemma vec_distinct:
  "registry_meeting_ok meeting \<Longrightarrow> distinct (map ci_handler_id (hm_get_or [] meeting p))"
  by (auto simp: registry_meeting_ok_def hm_get_or_def vec_ok_def split: option.split)

lemma card_meeting_links:
  assumes "hm_wf meeting" and "\<And>p cs. hm_get meeting p = Some cs \<Longrightarrow> distinct (map ci_handler_id cs)"
  shows "finite (meeting_links meeting) \<and> card (meeting_links meeting) = total_connections meeting"
  using assms
proof (induction meeting)
  case (Cons e meeting)
  obtain p cs where e: "e = (p, cs)" by fastforce
  have fresh: "hm_get meeting p = None"
    using Cons.prems(1) e by (force simp: hm_wf_def hm_get_def map_of_eq_None_iff)
  have IH: "finite (meeting_links meeting) \<and> card (meeting_links meeting) = total_connections meeting"
  proof (rule Cons.IH)
    show "hm_wf meeting" using Cons.prems(1) by (simp add: hm_wf_def)
    show "distinct (map ci_handler_id ds)" if "hm_get meeting q = Some ds" for q ds
    proof (rule Cons.prems(2))
      show "hm_get (e # meeting) q = Some ds" using that fresh e by (auto simp: hm_get_def)
    qed
  qed
  have split: "meeting_links (e # meeting) = {p} \<times> ci_handler_id ` set cs \<union> meeting_links meeting"
  proof -
    have get: "hm_get_or [] (e # meeting) q = (if q = p then cs else hm_get_or [] meeting q)" for q
      by (simp add: e hm_get_or_def hm_get_def)
    have "hm_get_or [] meeting p = []" using fresh by (simp add: hm_get_or_def)
    then show ?thesis unfolding meeting_links_def get by (auto split: if_splits)
  qed
  have "distinct (map ci_handler_id cs)" using Cons.prems(2) [of p cs] by (simp add: e hm_get_def)
  then have c: "card ({p} \<times> ci_handler_id ` set cs) = length cs"
    using distinct_card [of "map ci_handler_id cs"] by (simp add: card_cartesian_product_singleton)
  have "({p} \<times> ci_handler_id ` set cs) \<inter> meeting_links meeting = {}"
    using fresh by (auto simp: meeting_links_def hm_get_or_def)
  then have "card (meeting_links (e # meeting)) = length cs + total_connections meeting"
    using split IH c by (simp add: card_Un_disjoint)
  then show ?case using IH split
    by (simp add: total_connections_def hm_sum_def hm_values_def e)
qed (simp add: total_connections_def)

lemma card_registry_links:
  assumes "registry_wf r"
  shows "card {x \<in> registry_links r. fst x = m} = total_connections (hm_get_or [] r m)"
proof -
  have ok: "registry_meeting_ok (hm_get_or [] r m)" by (rule meeting_ok_or [OF assms])
  then have "card (meeting_links (hm_get_or [] r m)) = total_connections (hm_get_or [] r m)"
    using card_meeting_links [of "hm_get_or [] r m"] by (auto simp: registry_meeting_ok_def vec_ok_def)
  then show ?thesis by (simp add: registry_links_of card_cartesian_product_singleton)
qed

lemma finite_registry_links:
  assumes "registry_wf r"
  shows "finite (registry_links r)"
proof -
  have "registry_links r = (\<Union>m \<in> set (hm_keys r). {m} \<times> meeting_links (hm_get_or [] r m))"
    by (auto simp: registry_links_def hm_in_set_keys hm_get_or_def split: option.splits)
  moreover have "finite (meeting_links (hm_get_or [] r m))" for m
    using meeting_ok_or [OF assms, of m] card_meeting_links [of "hm_get_or [] r m"]
    by (auto simp: registry_meeting_ok_def vec_ok_def)
  ultimately show ?thesis by simp
qed

lemma registry_wf_put:
  assumes "registry_wf r" and "meeting \<noteq> []" and "registry_meeting_ok meeting"
  shows "registry_wf (hm_insert m meeting r)"
  using assms by (auto simp: registry_wf_def)

lemma hm_insert_not_Nil [simp]: "hm_insert k v m \<noteq> []"
  using hm_get_insert [of k v m k] by (metis hm_get_Nil option.distinct(1))

lemma meeting_ok_put:
  assumes "registry_meeting_ok meeting" and "vec_ok cs"
    and "total_connections (hm_insert p cs meeting) \<le> MAX_CONNECTIONS_PER_MEETING"
  shows "registry_meeting_ok (hm_insert p cs meeting)"
  using assms by (auto simp: registry_meeting_ok_def)

lemma total_put:
  "total_connections (hm_insert p cs meeting) + length (hm_get_or [] meeting p)
     = total_connections meeting + length cs"
  unfolding total_connections_def by (rule hm_sum_insert_or) simp

lemma add_connection_wf [wf_intros]:
  assumes "registry_wf r"
  shows "registry_wf (snd (add_connection now m p h r))"
proof -
  let ?meeting = "hm_get_or [] r m" and ?cs = "hm_get_or [] (hm_get_or [] r m) p"
  let ?new = "?cs @ [\<lparr>ci_handler_id = h, ci_connected_at = now\<rparr>]"
  have ok: "registry_meeting_ok ?meeting" by (rule meeting_ok_or [OF assms])
  note d = vec_distinct [OF ok, of p]
  show ?thesis
  proof (cases "total_connections ?meeting \<ge> MAX_CONNECTIONS_PER_MEETING")
    case True
    then have "?meeting \<noteq> []" by (auto simp: total_connections_def MAX_CONNECTIONS_PER_MEETING_def)
    with True show ?thesis using registry_wf_put [OF assms _ ok]
      by (simp add: add_connection_def Let_def)
  next
    case room: False
    show ?thesis
    proof (cases "\<exists>c \<in> set ?cs. ci_handler_id c = h")
      case True
      then have "vec_ok ?cs" using d by (auto simp: vec_ok_def)
      then have "registry_meeting_ok (hm_insert p ?cs ?meeting)"
        using total_put [of p ?cs ?meeting] ok by (intro meeting_ok_put) (auto simp: registry_meeting_ok_def)
      then show ?thesis using room True registry_wf_put [OF assms]
        by (simp add: add_connection_def Let_def)
    next
      case False
      then have "vec_ok ?new" using d by (auto simp: vec_ok_def)
      then have "registry_meeting_ok (hm_insert p ?new ?meeting)"
        using total_put [of p ?new ?meeting] ok room by (intro meeting_ok_put) auto
      then show ?thesis using room False registry_wf_put [OF assms]
        by (simp add: add_connection_def Let_def)
    qed
  qed
qed

lemma add_connection_fst:
  "fst (add_connection now m p h r)
     \<longleftrightarrow> total_connections (hm_get_or [] r m) < MAX_CONNECTIONS_PER_MEETING"
  by (simp add: add_connection_def Let_def)

lemma add_connection_links:
  "registry_links (snd (add_connection now m p h r)) =
     (if fst (add_connection now m p h r) then Set.insert (m, p, h) (registry_links r) else registry_links r)"
proof -
  have old: "{x \<in> registry_links r. fst x \<noteq> m} \<union> {m} \<times> meeting_links (hm_get_or [] r m) = registry_links r"
    using registry_links_of [of r m] by auto
  have vec: "{x \<in> meeting_links mt. fst x \<noteq> p} \<union> {p} \<times> (ci_handler_id ` set (hm_get_or [] mt p))
      = meeting_links mt" for mt
    by (auto simp: meeting_links_def)
  let ?mt = "hm_get_or [] r m"
  show ?thesis
    using old vec [of ?mt]
    by (auto simp: add_connection_def Let_def registry_links_insert meeting_links_insert)
qed

lemma total_remove: "hm_wf meeting \<Longrightarrow> total_connections (hm_remove p meeting) \<le> total_connections meeting"
  unfolding total_connections_def using hm_sum_remove [of meeting length p] by linarith

text \<open>The inner map that a removal leaves behind.\<close>

definition without_handler ::
  "string \<Rightarrow> string \<Rightarrow> (string, MhConnectionInfo list) hmap \<Rightarrow> (string, MhConnectionInfo list) hmap"
where
  "without_handler p h meeting =
     (let cs' = filter (\<lambda>c. ci_handler_id c \<noteq> h) (hm_get_or [] meeting p)
      in if cs' = [] then hm_remove p meeting else hm_insert p cs' meeting)"

lemma without_handler_ok:
  assumes "registry_meeting_ok meeting"
  shows "registry_meeting_ok (without_handler p h meeting)"
proof (cases "filter (\<lambda>c. ci_handler_id c \<noteq> h) (hm_get_or [] meeting p) = []")
  case True
  then show ?thesis using assms total_remove [of meeting p]
    by (auto simp: without_handler_def registry_meeting_ok_def)
next
  case False
  let ?cs = "filter (\<lambda>c. ci_handler_id c \<noteq> h) (hm_get_or [] meeting p)"
  have "vec_ok ?cs" using False vec_distinct [OF assms, of p] by (simp add: vec_ok_def distinct_map_filter)
  moreover have "total_connections (hm_insert p ?cs meeting) \<le> MAX_CONNECTIONS_PER_MEETING"
    using total_put [of p ?cs meeting] assms length_filter_le [of "\<lambda>c. ci_handler_id c \<noteq> h" "hm_get_or [] meeting p"]
    unfolding registry_meeting_ok_def by linarith
  ultimately show ?thesis using False meeting_ok_put [OF assms] by (simp add: without_handler_def Let_def)
qed

lemma without_handler_links: "meeting_links (without_handler p h meeting) = meeting_links meeting - {(p, h)}"
proof -
  have "{x \<in> meeting_links meeting. fst x \<noteq> p}
      \<union> {p} \<times> ci_handler_id ` set (filter (\<lambda>c. ci_handler_id c \<noteq> h) (hm_get_or [] meeting p))
      = meeting_links meeting - {(p, h)}"
    by (auto simp: meeting_links_def)
  moreover have "meeting_links (without_handler p h meeting) = {x \<in> meeting_links meeting. fst x \<noteq> p}
      \<union> {p} \<times> ci_handler_id ` set (filter (\<lambda>c. ci_handler_id c \<noteq> h) (hm_get_or [] meeting p))"
    by (auto simp: without_handler_def Let_def meeting_links_insert meeting_links_remove filter_empty_conv)
  ultimately show ?thesis by simp
qed

lemma remove_connection_cases:
  obtains (absent) "remove_connection m p h r = (False, r)" "hm_get_or [] (hm_get_or [] r m) p = []"
  | (present) meeting where "hm_get r m = Some meeting" "hm_get_or [] r m = meeting"
      "fst (remove_connection m p h r) \<longleftrightarrow> (p, h) \<in> meeting_links meeting"
      "snd (remove_connection m p h r) =
        (if without_handler p h meeting = [] then hm_remove m r
         else hm_insert m (without_handler p h meeting) r)"
proof (cases "hm_get r m")
  case None
  then show ?thesis by (intro absent) (simp_all add: remove_connection_def hm_get_or_def)
next
  case (Some meeting)
  show ?thesis
  proof (cases "hm_get meeting p")
    case None
    with Some show ?thesis by (intro absent) (simp_all add: remove_connection_def hm_get_or_def)
  next
    case vec: (Some cs)
    have "length (filter (\<lambda>c. ci_handler_id c \<noteq> h) cs) < length cs \<longleftrightarrow> h \<in> ci_handler_id ` set cs"
    proof -
      have "length (filter (\<lambda>c. ci_handler_id c \<noteq> h) cs) < length cs
          \<longleftrightarrow> (\<exists>c \<in> set cs. \<not> ci_handler_id c \<noteq> h)"
        using length_filter_less [of _ cs "\<lambda>c. ci_handler_id c \<noteq> h"] filter_True [of cs "\<lambda>c. ci_handler_id c \<noteq> h"]
        by fastforce
      then show ?thesis by auto
    qed
    with Some vec show ?thesis
      by (intro present [of meeting])
        (auto simp: remove_connection_def without_handler_def Let_def hm_get_or_def meeting_links_def)
  qed
qed

lemma remove_connection_wf [wf_intros]:
  assumes "registry_wf r"
  shows "registry_wf (snd (remove_connection m p h r))"
proof (cases rule: remove_connection_cases [of m p h r])
  case (present meeting)
  have "registry_meeting_ok (without_handler p h meeting)"
    using without_handler_ok assms present(1) by (auto simp: registry_wf_def)
  then show ?thesis using present(4) assms registry_wf_put [OF assms]
    by (auto simp: registry_wf_def)
qed (simp add: assms)

lemma remove_connection_links:
  "registry_links (snd (remove_connection m p h r)) = registry_links r - {(m, p, h)}"
proof (cases rule: remove_connection_cases [of m p h r])
  case absent
  then show ?thesis by (auto simp: registry_links_def meeting_links_def)
next
  case (present meeting)
  let ?w = "without_handler p h meeting"
  have links: "registry_links (snd (remove_connection m p h r))
      = {x \<in> registry_links r. fst x \<noteq> m} \<union> {m} \<times> meeting_links ?w"
    using present(4) by (simp add: registry_links_insert registry_links_remove)
  have "{x \<in> registry_links r. fst x = m} = {m} \<times> meeting_links meeting"
    using registry_links_of [of r m] present(2) by simp
  then have split: "registry_links r = {x \<in> registry_links r. fst x \<noteq> m} \<union> {m} \<times> meeting_links meeting"
    by blast
  show ?thesis
    unfolding links without_handler_links by (subst (2) split) auto
qed

lemma remove_connection_found:
  "fst (remove_connection m p h r) \<longleftrightarrow> (m, p, h) \<in> registry_links r"
proof (cases rule: remove_connection_cases [of m p h r])
  case absent
  then show ?thesis by (simp add: registry_links_def meeting_links_def)
next
  case (present meeting)
  then show ?thesis by (simp add: registry_links_def)
qed

lemma registry_remove_meeting_wf [wf_intros]: "registry_wf r \<Longrightarrow> registry_wf (registry_remove_meeting m r)"
  by (auto simp: registry_wf_def registry_remove_meeting_def)

interpretation reg: connection_registry registry_new add_connection remove_connection
  registry_remove_meeting registry_links registry_wf MAX_CONNECTIONS_PER_MEETING
proof
  fix r :: registry and m p h :: string and now :: instant
  show "registry_links registry_new = {}" by (simp add: registry_links_def registry_new_def)
  show "registry_wf registry_new" by (simp add: registry_wf_def registry_new_def)
  assume wf: "registry_wf r"
  show "registry_wf (snd (add_connection now m p h r))" by (rule add_connection_wf [OF wf])
  show "registry_wf (snd (remove_connection m p h r))" by (rule remove_connection_wf [OF wf])
  show "registry_wf (registry_remove_meeting m r)" by (rule registry_remove_meeting_wf [OF wf])
  show "registry_links (snd (add_connection now m p h r)) = (if fst (add_connection now m p h r)
      then Set.insert (m, p, h) (registry_links r) else registry_links r)"
    by (rule add_connection_links)
  show "\<not> fst (add_connection now m p h r)
      \<longleftrightarrow> card {x \<in> registry_links r. fst x = m} \<ge> MAX_CONNECTIONS_PER_MEETING"
    by (simp add: add_connection_fst card_registry_links [OF wf] not_less)
  show "registry_links (snd (remove_connection m p h r)) = registry_links r - {(m, p, h)}"
    by (rule remove_connection_links)
  show "fst (remove_connection m p h r) \<longleftrightarrow> (m, p, h) \<in> registry_links r"
    by (rule remove_connection_found)
  show "registry_links (registry_remove_meeting m r) = {x \<in> registry_links r. fst x \<noteq> m}"
    by (simp add: registry_remove_meeting_def registry_links_remove)
  show "finite (registry_links r) \<and> card {x \<in> registry_links r. fst x = m} \<le> MAX_CONNECTIONS_PER_MEETING"
    using finite_registry_links [OF wf] card_registry_links [OF wf, of m] meeting_ok_or [OF wf, of m]
    by (simp add: registry_meeting_ok_def)
qed

section \<open>Properties\<close>

text \<open>What reaches the registry over time: notifications from Media Handlers, and meetings removed.\<close>

datatype registry_op =
    NotifyConnected instant string string string
  | NotifyDisconnected string string string
  | MeetingGone string

fun registry_exec :: "registry_op \<Rightarrow> registry \<Rightarrow> registry" where
  "registry_exec (NotifyConnected now m p h) r = snd (notify_participant_connected now m p h r)"
| "registry_exec (NotifyDisconnected m p h) r = snd (notify_participant_disconnected m p h r)"
| "registry_exec (MeetingGone m) r = registry_remove_meeting m r"

text \<open>The same operations on the abstract set of links.\<close>

definition valid_id :: "string \<Rightarrow> bool" where
  "valid_id s \<longleftrightarrow> 0 < length s \<and> length s \<le> MAX_ID_LENGTH"

fun link_exec :: "registry_op \<Rightarrow> (string \<times> string \<times> string) set \<Rightarrow> (string \<times> string \<times> string) set" where
  "link_exec (NotifyConnected now m p h) L =
     (if valid_id m \<and> valid_id p \<and> valid_id h \<and> card {x \<in> L. fst x = m} < MAX_CONNECTIONS_PER_MEETING
      then Set.insert (m, p, h) L else L)"
| "link_exec (NotifyDisconnected m p h) L =
     (if valid_id m \<and> valid_id p \<and> valid_id h then L - {(m, p, h)} else L)"
| "link_exec (MeetingGone m) L = {x \<in> L. fst x \<noteq> m}"

lemma validate_ids_ok: "validate_ids m p h = Ok () \<longleftrightarrow> valid_id m \<and> valid_id p \<and> valid_id h"
  by (auto simp: validate_ids_def validate_id_field_def valid_id_def)

lemma notify_connected_registry:
  "snd (notify_participant_connected now m p h r) =
     (if valid_id m \<and> valid_id p \<and> valid_id h then snd (add_connection now m p h r) else r)"
  using validate_ids_ok [of m p h]
  by (cases "validate_ids m p h") (auto simp: notify_participant_connected_def case_prod_unfold Let_def)

lemma notify_disconnected_registry:
  "snd (notify_participant_disconnected m p h r) =
     (if valid_id m \<and> valid_id p \<and> valid_id h then snd (remove_connection m p h r) else r)"
  using validate_ids_ok [of m p h]
  by (cases "validate_ids m p h") (auto simp: notify_participant_disconnected_def case_prod_unfold Let_def)

lemma registry_exec_refines:
  assumes "registry_wf r"
  shows "registry_wf (registry_exec op r) \<and> registry_links (registry_exec op r) = link_exec op (registry_links r)"
proof (cases op)
  case (NotifyConnected now m p h)
  have "fst (add_connection now m p h r)
      \<longleftrightarrow> card {x \<in> registry_links r. fst x = m} < MAX_CONNECTIONS_PER_MEETING"
    using reg.add_refused [OF assms, of now m p h] by linarith
  then show ?thesis
    using NotifyConnected assms
    by (simp add: notify_connected_registry reg.links_add reg.invar_add)
next
  case (NotifyDisconnected m p h)
  then show ?thesis using assms
    by (simp add: notify_disconnected_registry reg.links_remove reg.invar_remove)
next
  case (MeetingGone m)
  then show ?thesis using reg.invar_drop [OF assms, of m] reg.links_drop [OF assms, of m] by simp
qed

text \<open>
  C29. After any sequence of notifications from Media Handlers and meeting removals, the registry
  holds exactly the links that the sequence calls for: a connect with well-formed identifiers adds
  its link unless the meeting is at its limit, a disconnect removes it, the removal of a meeting
  removes all of its links.  The nested maps never keep an empty meeting or participant, list no
  handler twice and hold at most a thousand connections per meeting.
\<close>

theorem registry_tracks_links:
  "registry_links (fold registry_exec ops registry_new) = fold link_exec ops {}
   \<and> registry_wf (fold registry_exec ops registry_new)"
proof (induction ops rule: rev_induct)
  case Nil
  show ?case using reg.links_empty reg.invar_empty by simp
next
  case (snoc op ops)
  then show ?case using registry_exec_refines [of "fold registry_exec ops registry_new" op] by simp
qed

end
