(* ===== verification/MC_Fencing.thy ===== *)
theory MC_Fencing
  imports MC_Types
begin

text \<open>
  The Meeting Controller's fenced Redis store: the Lua scripts (redis/lua_scripts.rs) and the client
  that runs them (redis/client.rs).

  A Redis server executes one command or script at a time, so each is a function on the keyspace and
  concurrency between controllers is the order in which these functions are applied.  The keyspace
  has string values and hashes.  Lua's conversions between numbers and strings are fields of the
  parameter \<open>lua_ops\<close>; the locale \<open>lua_numbers\<close> says that they are exact on naturals below
  \<open>2 ^ 53\<close>, the integers a Lua number represents.  JSON coding is the parameter \<open>json_ops\<close>.  A
  command may fail before or after it took effect (\<open>fault\<close>).
\<close>

section \<open>The server\<close>

record redis =
  rd_strings :: "(string, string) hmap"
  rd_hashes :: "(string, (string, string) hmap) hmap"

definition redis_get :: "string \<Rightarrow> redis \<Rightarrow> string option" where
  "redis_get k s = hm_get (rd_strings s) k"

definition redis_set :: "string \<Rightarrow> string \<Rightarrow> redis \<Rightarrow> redis" where
  "redis_set k v s = s\<lparr>rd_strings := hm_insert k v (rd_strings s)\<rparr>"

definition redis_del :: "string \<Rightarrow> redis \<Rightarrow> redis" where
  "redis_del k s = s\<lparr>rd_strings := hm_remove k (rd_strings s), rd_hashes := hm_remove k (rd_hashes s)\<rparr>"

definition redis_hset :: "string \<Rightarrow> string \<Rightarrow> string \<Rightarrow> redis \<Rightarrow> redis" where
  "redis_hset k f v s =
     s\<lparr>rd_hashes := hm_insert k (hm_insert f v (hm_get_or [] (rd_hashes s) k)) (rd_hashes s)\<rparr>"

record lua_ops =
  lua_tonumber :: "string \<Rightarrow> int option"
  lua_tostring :: "int \<Rightarrow> string"

section \<open>The scripts\<close>

definition FENCED_WRITE ::
  "lua_ops \<Rightarrow> string \<Rightarrow> string \<Rightarrow> string \<Rightarrow> string \<Rightarrow> redis \<Rightarrow> int \<times> redis"
where
  "FENCED_WRITE L key1 key2 arg1 arg2 s =
     (case lua_tonumber L arg1 of
        None \<Rightarrow> (-1, s)
      | Some expected_gen \<Rightarrow>
          let write = redis_set key2 arg2 (redis_set key1 (lua_tostring L expected_gen) s)
          in (case redis_get key1 s of
                None \<Rightarrow> (1, write)
              | Some current_gen \<Rightarrow>
                  (case lua_tonumber L current_gen of
                     None \<Rightarrow> (-1, s)
                   | Some current \<Rightarrow> if expected_gen \<ge> current then (1, write) else (0, s))))"

definition FENCED_HSET ::
  "lua_ops \<Rightarrow> string \<Rightarrow> string \<Rightarrow> string \<Rightarrow> (string \<times> string) list \<Rightarrow> redis \<Rightarrow> int \<times> redis"
where
  "FENCED_HSET L key1 key2 arg1 pairs s =
     (case lua_tonumber L arg1 of
        None \<Rightarrow> (-1, s)
      | Some expected_gen \<Rightarrow>
          let write = fold (\<lambda>(f, v). redis_hset key2 f v) pairs
                        (redis_set key1 (lua_tostring L expected_gen) s)
          in (case redis_get key1 s of
                None \<Rightarrow> (1, write)
              | Some current_gen \<Rightarrow>
                  (case lua_tonumber L current_gen of
                     None \<Rightarrow> (-1, s)
                   | Some current \<Rightarrow> if expected_gen \<ge> current then (1, write) else (0, s))))"

definition INCREMENT_GENERATION :: "lua_ops \<Rightarrow> string \<Rightarrow> redis \<Rightarrow> int \<times> redis" where
  "INCREMENT_GENERATION L key1 s =
     (let new_gen = (case redis_get key1 s of
                       None \<Rightarrow> 1
                     | Some current \<Rightarrow> (case lua_tonumber L current of None \<Rightarrow> 1 | Some val \<Rightarrow> val + 1))
      in (new_gen, redis_set key1 (lua_tostring L new_gen) s))"

definition FENCED_DELETE :: "lua_ops \<Rightarrow> string \<Rightarrow> string \<Rightarrow> string \<Rightarrow> redis \<Rightarrow> int \<times> redis" where
  "FENCED_DELETE L key1 key2 arg1 s =
     (case lua_tonumber L arg1 of
        None \<Rightarrow> (-1, s)
      | Some expected_gen \<Rightarrow>
          (case redis_get key1 s of
             None \<Rightarrow> (1, s)
           | Some current_gen \<Rightarrow>
               (case lua_tonumber L current_gen of
                  None \<Rightarrow> (-1, s)
                | Some current \<Rightarrow>
                    if expected_gen \<ge> current
                    then (1, redis_del key2 (redis_set key1 (lua_tostring L expected_gen) s))
                    else (0, s))))"

section \<open>The client\<close>

record MhEndpointInfo =
  ep_mh_id :: string
  ep_webtransport_endpoint :: string
  ep_grpc_endpoint :: string

record MhAssignmentData =
  as_handlers :: "MhEndpointInfo list"
  as_assigned_at :: string

text \<open>\<open>serde_json\<close>: encoding can fail, decoding inverts it.\<close>

record json_ops =
  to_json :: "MhAssignmentData \<Rightarrow> (string, string) result"
  from_json :: "string \<Rightarrow> (MhAssignmentData, string) result"

datatype fault = NoFault | FailBefore string | FailAfter string

fun redis_call :: "fault \<Rightarrow> (redis \<Rightarrow> 'a \<times> redis) \<Rightarrow> redis \<Rightarrow> ('a, string) result \<times> redis" where
  "redis_call NoFault f s = (Ok (fst (f s)), snd (f s))"
| "redis_call (FailBefore e) f s = (Err e, s)"
| "redis_call (FailAfter e) f s = (Err e, snd (f s))"

definition gen_key :: "string \<Rightarrow> string" where
  "gen_key mid = ''meeting:'' @ mid @ '':generation''"

definition mh_key :: "string \<Rightarrow> string" where
  "mh_key mid = ''meeting:'' @ mid @ '':mh''"

definition state_key :: "string \<Rightarrow> string" where
  "state_key mid = ''meeting:'' @ mid @ '':state''"

definition participants_key :: "string \<Rightarrow> string" where
  "participants_key mid = ''meeting:'' @ mid @ '':participants''"

definition get_generation :: "fault \<Rightarrow> string \<Rightarrow> redis \<Rightarrow> (u64, McError) result \<times> redis" where
  "get_generation f mid s =
     (case redis_call f (\<lambda>s. (redis_get (gen_key mid) s, s)) s of
        (Inl e, s') \<Rightarrow> (Err (Redis (''Failed to get generation: '' @ e)), s')
      | (Inr r, s') \<Rightarrow>
          (Ok (case r of
                 None \<Rightarrow> 0
               | Some t \<Rightarrow> (case parse_unsigned 64 t of None \<Rightarrow> 0 | Some n \<Rightarrow> of_nat n)), s'))"

text \<open>The local cache of generations is shared by the clones of one client.\<close>

type_synonym gen_cache = "(string, u64) hmap"

definition increment_generation ::
  "lua_ops \<Rightarrow> fault \<Rightarrow> string \<Rightarrow> redis \<times> gen_cache \<Rightarrow> (u64, McError) result \<times> redis \<times> gen_cache"
where
  "increment_generation L f mid = (\<lambda>(s, cache).
     case redis_call f (INCREMENT_GENERATION L (gen_key mid)) s of
       (Inl e, s') \<Rightarrow> (Err (Redis (''Failed to increment generation: '' @ e)), s', cache)
     | (Inr n, s') \<Rightarrow> let new_gen = of_int n in (Ok new_gen, s', hm_insert mid new_gen cache))"

text \<open>The match on a script's reply that \<open>store_mh_assignment\<close> and \<open>store_meeting_state\<close> share.\<close>

definition fenced_reply :: "u64 \<Rightarrow> int \<Rightarrow> (unit, McError) result" where
  "fenced_reply generation result =
     (if result = 1 then Ok ()
      else if result = 0 then Err (FencedOut (''Generation '' @ show_nat (unat generation) @ '' is stale''))
      else Err (Redis ''Invalid generation format''))"

definition store_mh_assignment ::
  "lua_ops \<Rightarrow> json_ops \<Rightarrow> fault \<Rightarrow> fault \<Rightarrow> string \<Rightarrow> string \<Rightarrow> MhEndpointInfo list
     \<Rightarrow> redis \<times> gen_cache \<Rightarrow> (unit, McError) result \<times> redis \<times> gen_cache"
where
  "store_mh_assignment L J f1 f2 now mid handlers st =
     (case increment_generation L f1 mid st of
        (Inl e, st') \<Rightarrow> (Err e, st')
      | (Inr generation, s1, cache1) \<Rightarrow>
          (case to_json J \<lparr>as_handlers = handlers, as_assigned_at = now\<rparr> of
             Inl e \<Rightarrow> (Err (Internal (''serialization failed: '' @ e)), s1, cache1)
           | Inr json \<Rightarrow>
               (case redis_call f2 (FENCED_WRITE L (gen_key mid) (mh_key mid)
                                      (show_nat (unat generation)) json) s1 of
                  (Inl e, s2) \<Rightarrow> (Err (Redis (''Failed to store MH assignment: '' @ e)), s2, cache1)
                | (Inr result, s2) \<Rightarrow> (fenced_reply generation result, s2, cache1))))"

definition get_mh_assignment ::
  "json_ops \<Rightarrow> fault \<Rightarrow> string \<Rightarrow> redis \<Rightarrow> (MhAssignmentData option, McError) result \<times> redis"
where
  "get_mh_assignment J f mid s =
     (case redis_call f (\<lambda>s. (redis_get (mh_key mid) s, s)) s of
        (Inl e, s') \<Rightarrow> (Err (Redis (''Failed to get MH assignment: '' @ e)), s')
      | (Inr None, s') \<Rightarrow> (Ok None, s')
      | (Inr (Some json), s') \<Rightarrow>
          (case from_json J json of
             Inl e \<Rightarrow> (Err (Redis (''Failed to deserialize MH assignment: '' @ e)), s')
           | Inr data \<Rightarrow> (Ok (Some data), s')))"

text \<open>The script call of \<open>delete_mh_assignment\<close>, and the whole of it.\<close>

definition delete_script ::
  "lua_ops \<Rightarrow> fault \<Rightarrow> string \<Rightarrow> u64 \<Rightarrow> redis \<Rightarrow> (unit, McError) result \<times> redis"
where
  "delete_script L f mid generation s =
     (case redis_call f (FENCED_DELETE L (gen_key mid) (mh_key mid) (show_nat (unat (generation + 1)))) s of
        (Inl e, s') \<Rightarrow> (Err (Redis (''Failed to delete MH assignment: '' @ e)), s')
      | (Inr result, s') \<Rightarrow>
          (if result \<ge> 0 then Ok () else Err (Redis ''Failed to delete MH assignment''), s'))"

definition delete_mh_assignment ::
  "lua_ops \<Rightarrow> fault \<Rightarrow> fault \<Rightarrow> string \<Rightarrow> redis \<Rightarrow> (unit, McError) result \<times> redis"
where
  "delete_mh_assignment L f1 f2 mid s =
     (case get_generation f1 mid s of
        (Inl e, s') \<Rightarrow> (Err e, s')
      | (Inr generation, s') \<Rightarrow> delete_script L f2 mid generation s')"

text \<open>
  \<open>EVALSHA\<close> when the server has the script cached, otherwise it answers \<open>NOSCRIPT\<close> and the client
  falls back to \<open>EVAL\<close>; \<open>f1\<close> and \<open>f2\<close> are the faults of the two commands.
\<close>

definition store_meeting_state ::
  "lua_ops \<Rightarrow> bool \<Rightarrow> fault \<Rightarrow> fault \<Rightarrow> string \<Rightarrow> u64 \<Rightarrow> (string \<times> string) list
     \<Rightarrow> redis \<Rightarrow> (unit, McError) result \<times> redis"
where
  "store_meeting_state L cached f1 f2 mid generation pairs s =
     (let run = FENCED_HSET L (gen_key mid) (state_key mid) (show_nat (unat generation)) pairs;
          f = (if cached then f1
               else case f1 of NoFault \<Rightarrow> f2 | FailBefore e \<Rightarrow> FailBefore e | FailAfter e \<Rightarrow> FailBefore e)
      in case redis_call f run s of
           (Inl e, s') \<Rightarrow> (Err (Redis (''Failed to store meeting state: '' @ e)), s')
         | (Inr result, s') \<Rightarrow> (fenced_reply generation result, s'))"

definition delete_meeting ::
  "fault \<Rightarrow> string \<Rightarrow> redis \<times> gen_cache \<Rightarrow> (unit, McError) result \<times> redis \<times> gen_cache"
where
  "delete_meeting f mid = (\<lambda>(s, cache).
     case redis_call f (\<lambda>s. ((), fold redis_del
            [gen_key mid, mh_key mid, state_key mid, participants_key mid] s)) s of
       (Inl e, s') \<Rightarrow> (Err (Redis (''Failed to delete meeting data: '' @ e)), s', cache)
     | (Inr _, s') \<Rightarrow> (Ok (), s', hm_remove mid cache))"

section \<open>Keys\<close>

lemma redis_get_set [simp]: "redis_get k (redis_set k' v s) = (if k = k' then Some v else redis_get k s)"
  by (simp add: redis_get_def redis_set_def)

lemma redis_get_del [simp]: "redis_get k (redis_del k' s) = (if k = k' then None else redis_get k s)"
  by (simp add: redis_get_def redis_del_def)

lemma redis_get_hset [simp]: "redis_get k (redis_hset k' f v s) = redis_get k s"
  by (simp add: redis_get_def redis_hset_def)

lemma redis_get_hsets [simp]: "redis_get k (fold (\<lambda>(f, v). redis_hset k' f v) fs s) = redis_get k s"
  by (induction fs arbitrary: s) auto

lemma append_last_neq: "ys \<noteq> [] \<Longrightarrow> zs \<noteq> [] \<Longrightarrow> last ys \<noteq> last zs \<Longrightarrow> xs @ ys \<noteq> xs' @ zs"
  by (metis last_appendR)

lemma keys_distinct [simp]:
  "gen_key a = gen_key b \<longleftrightarrow> a = b" "mh_key a = mh_key b \<longleftrightarrow> a = b"
  "gen_key a \<noteq> mh_key b" "mh_key b \<noteq> gen_key a" "gen_key a \<noteq> state_key b" "mh_key a \<noteq> state_key b"
proof -
  show "gen_key a = gen_key b \<longleftrightarrow> a = b" "mh_key a = mh_key b \<longleftrightarrow> a = b"
    by (simp_all add: gen_key_def mh_key_def)
  show gm: "gen_key a \<noteq> mh_key b"
    using append_last_neq [of "'':generation''" "'':mh''" "''meeting:'' @ a" "''meeting:'' @ b"]
    by (simp add: gen_key_def mh_key_def)
  then show "mh_key b \<noteq> gen_key a" by metis
  show "gen_key a \<noteq> state_key b"
    using append_last_neq [of "'':generation''" "'':state''" "''meeting:'' @ a" "''meeting:'' @ b"]
    by (simp add: gen_key_def state_key_def)
  show "mh_key a \<noteq> state_key b"
    using append_last_neq [of "'':mh''" "'':state''" "''meeting:'' @ a" "''meeting:'' @ b"]
    by (simp add: mh_key_def state_key_def)
qed

section \<open>The contract of a fenced script\<close>

text \<open>
  A script fenced by the generation under \<open>key\<close>: a token below the generation changes nothing, any
  other token is accepted and becomes the generation.
\<close>

abbreviation exact :: "nat \<Rightarrow> bool" where
  "exact n \<equiv> n < 2 ^ 53"

locale fenced_script =
  fixes script :: "nat \<Rightarrow> redis \<Rightarrow> int \<times> redis" and key :: string
  assumes rejected: "redis_get key s = Some (show_nat g) \<Longrightarrow> exact g \<Longrightarrow> t < g \<Longrightarrow> script t s = (0, s)"
    and accepted: "redis_get key s = Some (show_nat g) \<Longrightarrow> exact t \<Longrightarrow> g \<le> t \<Longrightarrow>
      fst (script t s) = 1 \<and> redis_get key (snd (script t s)) = Some (show_nat t)"
begin

lemma generation_grows:
  assumes "redis_get key s = Some (show_nat g)" and "exact g" and "exact t"
  shows "redis_get key (snd (script t s)) = Some (show_nat (max g t))"
  using rejected [OF assms(1,2), of t] accepted [OF assms(1,3)] assms(1)
  by (cases "t < g") (auto simp: max_def)

lemma last_accepted_wins:
  assumes "redis_get key s = Some (show_nat g)" and "exact t" and "g \<le> t" and "t' < t"
  shows "script t' (snd (script t s)) = (0, snd (script t s))"
  using accepted [OF assms(1,2,3)] rejected [of "snd (script t s)" t t'] assms(2,4) by simp

end

text \<open>Lua's number conversions, exact on the integers that a double represents.\<close>

locale lua_numbers =
  fixes L :: lua_ops
  assumes tonumber_show: "exact n \<Longrightarrow> lua_tonumber L (show_nat n) = Some (int n)"
    and tostring_nat: "exact n \<Longrightarrow> lua_tostring L (int n) = show_nat n"
begin

lemma increment_spec:
  assumes "case redis_get (gen_key mid) s of None \<Rightarrow> n = 0 | Some t \<Rightarrow> t = show_nat n" and "exact (Suc n)"
  shows "INCREMENT_GENERATION L (gen_key mid) s
    = (int (Suc n), redis_set (gen_key mid) (show_nat (Suc n)) s)"
proof -
  have num: "lua_tonumber L (show_nat n) = Some (int n)" using tonumber_show [of n] assms(2) by simp
  have str: "lua_tostring L (int n + 1) = show_nat (Suc n)"
    using tostring_nat [OF assms(2)] by (simp add: add.commute)
  show ?thesis
  proof (cases "redis_get (gen_key mid) s")
    case None
    then show ?thesis using assms(1) str by (simp add: INCREMENT_GENERATION_def)
  next
    case (Some t)
    then show ?thesis using assms(1) num str by (simp add: INCREMENT_GENERATION_def)
  qed
qed

end

sublocale lua_numbers \<subseteq> wr: fenced_script
  "\<lambda>t. FENCED_WRITE L (gen_key mid) (mh_key mid) (show_nat t) v" "gen_key mid" for mid v
  by unfold_locales (simp_all add: FENCED_WRITE_def Let_def tonumber_show tostring_nat)

sublocale lua_numbers \<subseteq> hs: fenced_script
  "\<lambda>t. FENCED_HSET L (gen_key mid) (state_key mid) (show_nat t) fs" "gen_key mid" for mid fs
  by unfold_locales (simp_all add: FENCED_HSET_def Let_def tonumber_show tostring_nat)

sublocale lua_numbers \<subseteq> dl: fenced_script
  "\<lambda>t. FENCED_DELETE L (gen_key mid) (mh_key mid) (show_nat t)" "gen_key mid" for mid
  by unfold_locales (simp_all add: FENCED_DELETE_def Let_def tonumber_show tostring_nat)

section \<open>Any interleaving of scripts\<close>

text \<open>What the controllers sharing a server run, each with whatever token it believes in.\<close>

datatype redis_op =
    OpIncrement string
  | OpWrite string nat string
  | OpHset string nat "(string \<times> string) list"
  | OpDelete string nat

fun op_exec :: "lua_ops \<Rightarrow> redis_op \<Rightarrow> redis \<Rightarrow> redis" where
  "op_exec L (OpIncrement m) s = snd (INCREMENT_GENERATION L (gen_key m) s)"
| "op_exec L (OpWrite m t v) s = snd (FENCED_WRITE L (gen_key m) (mh_key m) (show_nat t) v s)"
| "op_exec L (OpHset m t fs) s = snd (FENCED_HSET L (gen_key m) (state_key m) (show_nat t) fs s)"
| "op_exec L (OpDelete m t) s = snd (FENCED_DELETE L (gen_key m) (mh_key m) (show_nat t) s)"

fun op_token :: "redis_op \<Rightarrow> nat" where
  "op_token (OpIncrement m) = 0"
| "op_token (OpWrite m t v) = t"
| "op_token (OpHset m t fs) = t"
| "op_token (OpDelete m t) = t"

lemma script_frame:
  assumes "m \<noteq> mid"
  shows "redis_get (gen_key mid) (snd (INCREMENT_GENERATION L (gen_key m) s)) = redis_get (gen_key mid) s"
    "redis_get (gen_key mid) (snd (FENCED_WRITE L (gen_key m) (mh_key m) t v s)) = redis_get (gen_key mid) s"
    "redis_get (gen_key mid) (snd (FENCED_HSET L (gen_key m) (state_key m) t fs s)) = redis_get (gen_key mid) s"
    "redis_get (gen_key mid) (snd (FENCED_DELETE L (gen_key m) (mh_key m) t s)) = redis_get (gen_key mid) s"
  using assms
  by (auto simp: INCREMENT_GENERATION_def FENCED_WRITE_def FENCED_HSET_def FENCED_DELETE_def Let_def
      split: option.split)

context lua_numbers
begin

lemma stale_rejected:
  assumes "redis_get (gen_key mid) s = Some (show_nat g)" and "exact g" and "t < g"
  shows "FENCED_WRITE L (gen_key mid) (mh_key mid) (show_nat t) v s = (0, s)
    \<and> FENCED_HSET L (gen_key mid) (state_key mid) (show_nat t) fs s = (0, s)
    \<and> FENCED_DELETE L (gen_key mid) (mh_key mid) (show_nat t) s = (0, s)"
  using wr.rejected [OF assms] hs.rejected [OF assms] dl.rejected [OF assms] by blast

lemma op_exec_generation:
  assumes "redis_get (gen_key mid) s = Some (show_nat g)" and "exact (Suc g)" and "exact (op_token op)"
  shows "\<exists>g'. redis_get (gen_key mid) (op_exec L op s) = Some (show_nat g')
     \<and> g \<le> g' \<and> g' \<le> max (Suc g) (op_token op)"
proof -
  have eg: "exact g" using assms(2) by simp
  show ?thesis
  proof (cases op)
    case (OpIncrement m)
    then show ?thesis using increment_spec [of g mid s] assms(1,2) script_frame(1) [of m mid L s]
      by (cases "m = mid") (auto intro: exI [of _ "Suc g"])
  next
    case (OpWrite m t v)
    then show ?thesis using wr.generation_grows [OF assms(1) eg, of t v] assms(1,3)
        script_frame(2) [of m mid L "show_nat t" v s]
      by (cases "m = mid") (auto intro: exI [of _ "max g t"])
  next
    case (OpHset m t fs)
    then show ?thesis using hs.generation_grows [OF assms(1) eg, of t fs] assms(1,3)
        script_frame(3) [of m mid L "show_nat t" fs s]
      by (cases "m = mid") (auto intro: exI [of _ "max g t"])
  next
    case (OpDelete m t)
    then show ?thesis using dl.generation_grows [OF assms(1) eg, of t] assms(1,3)
        script_frame(4) [of m mid L "show_nat t" s]
      by (cases "m = mid") (auto intro: exI [of _ "max g t"])
  qed
qed

lemma ops_generation:
  assumes "redis_get (gen_key mid) s = Some (show_nat g)" and "g \<le> B"
    and "\<forall>op \<in> set ops. op_token op \<le> B" and "exact (B + length ops)"
  shows "\<exists>g'. redis_get (gen_key mid) (fold (op_exec L) ops s) = Some (show_nat g')
     \<and> g \<le> g' \<and> g' \<le> B + length ops"
  using assms
proof (induction ops arbitrary: s g B)
  case (Cons op ops)
  have "exact (Suc g)" "exact (op_token op)" using Cons.prems(2,3,4) by auto
  from op_exec_generation [OF Cons.prems(1) this] obtain g1 where
    g1: "redis_get (gen_key mid) (op_exec L op s) = Some (show_nat g1)" "g \<le> g1" "g1 \<le> max (Suc g) (op_token op)"
    by blast
  have "g1 \<le> Suc B" "\<forall>op \<in> set ops. op_token op \<le> Suc B" using g1(3) Cons.prems(2,3) by auto
  with Cons.IH [OF g1(1), of "Suc B"] Cons.prems(4) g1(2) show ?case by fastforce
qed auto

end

section \<open>An instance\<close>

definition demo_lua :: lua_ops where
  "demo_lua = \<lparr>lua_tonumber = \<lambda>s. if s = [] then None else map_option int (parse_digits 0 s),
     lua_tostring = \<lambda>i. show_nat (nat i)\<rparr>"

interpretation demo: lua_numbers demo_lua
  by unfold_locales (simp_all add: demo_lua_def parse_show)

definition empty_redis :: redis where
  "empty_redis = \<lparr>rd_strings = [], rd_hashes = []\<rparr>"

definition demo_json :: json_ops where
  "demo_json = \<lparr>to_json = \<lambda>d. Ok ''{}'',
     from_json = \<lambda>t. Ok \<lparr>as_handlers = [\<lparr>ep_mh_id = ''h'', ep_webtransport_endpoint = ''w'', ep_grpc_endpoint = ''g''\<rparr>],
       as_assigned_at = ''t''\<rparr>\<rparr>"

section \<open>Properties\<close>

text \<open>The generation of a meeting: none set counts as 0.\<close>

definition gen_at :: "string \<Rightarrow> redis \<Rightarrow> nat \<Rightarrow> bool" where
  "gen_at mid s n \<longleftrightarrow> (case redis_get (gen_key mid) s of None \<Rightarrow> n = 0 | Some t \<Rightarrow> t = show_nat n)"

text \<open>
  C18. Split-brain protection.  Once some controller has raised a meeting's generation to \<open>g\<close>, then
  after any further sequence of scripts that any controllers run on any meetings, with any tokens, a
  write, a hash write or a delete with a token below \<open>g\<close> is rejected and changes nothing.  (Tokens
  and generations stay below \<open>2 ^ 53\<close>, where Lua's numbers are exact.)
\<close>

theorem stale_controller_fenced:
  assumes "lua_numbers L" and "gen_at mid s n"
    and "INCREMENT_GENERATION L (gen_key mid) s = (int g, s1)"
    and "\<forall>op \<in> set ops. op_token op \<le> B" and "n < B" and "exact (B + length ops)" and "t < g"
  shows "FENCED_WRITE L (gen_key mid) (mh_key mid) (show_nat t) v (fold (op_exec L) ops s1)
      = (0, fold (op_exec L) ops s1)
    \<and> FENCED_HSET L (gen_key mid) (state_key mid) (show_nat t) fs (fold (op_exec L) ops s1)
      = (0, fold (op_exec L) ops s1)
    \<and> FENCED_DELETE L (gen_key mid) (mh_key mid) (show_nat t) (fold (op_exec L) ops s1)
      = (0, fold (op_exec L) ops s1)"
proof -
  note ln = assms(1)
  have "exact (Suc n)" using assms(5,6) by simp
  then have "INCREMENT_GENERATION L (gen_key mid) s = (int (Suc n), redis_set (gen_key mid) (show_nat (Suc n)) s)"
    using lua_numbers.increment_spec [OF ln] assms(2) by (simp add: gen_at_def)
  then have g: "g = Suc n" and s1: "redis_get (gen_key mid) s1 = Some (show_nat g)"
    using assms(3) by (auto simp del: of_nat_Suc)
  obtain g' where g': "redis_get (gen_key mid) (fold (op_exec L) ops s1) = Some (show_nat g')"
    "g \<le> g'" "g' \<le> B + length ops"
    using lua_numbers.ops_generation [OF ln s1 _ assms(4,6)] g assms(5) by auto
  have "exact g'" "t < g'" using g'(2,3) assms(6,7) by auto
  then show ?thesis
    using lua_numbers.stale_rejected [OF ln g'(1)] by blast
qed

text \<open>
  Another controller raises the generation of a fresh meeting to 1 and works on; a write with the
  token 0 comes too late.
\<close>

theorem stale_controller_fenced_witness:
  "fst (FENCED_WRITE demo_lua (gen_key ''m'') (mh_key ''m'') (show_nat 0) ''old''
     (fold (op_exec demo_lua) [OpWrite ''m'' 1 ''x'', OpIncrement ''m'']
       (snd (INCREMENT_GENERATION demo_lua (gen_key ''m'') empty_redis)))) = 0"
proof -
  have "INCREMENT_GENERATION demo_lua (gen_key ''m'') empty_redis
      = (int 1, snd (INCREMENT_GENERATION demo_lua (gen_key ''m'') empty_redis))"
    using demo.increment_spec [of 0 "''m''" empty_redis] by (simp add: empty_redis_def redis_get_def)
  moreover have "gen_at ''m'' empty_redis 0" by (simp add: gen_at_def empty_redis_def redis_get_def)
  moreover have "\<forall>op \<in> set [OpWrite ''m'' 1 ''x'', OpIncrement ''m'']. op_token op \<le> 1" by simp
  ultimately show ?thesis
    using stale_controller_fenced [OF demo.lua_numbers_axioms, of "''m''" empty_redis 0 1 _
        "[OpWrite ''m'' 1 ''x'', OpIncrement ''m'']" 1 0] by simp
qed

lemma unat_of_exact: "exact n \<Longrightarrow> unat (of_nat n :: u64) = n"
  by (simp add: unat_of_nat take_bit_nat_eq_self)

lemma store_mh_assignment_spec:
  assumes "lua_numbers L" and "gen_at mid s n" and "exact (Suc n)"
    and "to_json J \<lparr>as_handlers = hs, as_assigned_at = now\<rparr> = Ok json"
  shows "\<exists>s'. store_mh_assignment L J NoFault NoFault now mid hs (s, cache)
        = (Ok (), s', hm_insert mid (of_nat (Suc n)) cache)
    \<and> redis_get (gen_key mid) s' = Some (show_nat (Suc n)) \<and> redis_get (mh_key mid) s' = Some json"
proof -
  let ?s1 = "redis_set (gen_key mid) (show_nat (Suc n)) s" and ?gen = "of_nat (Suc n) :: u64"
  have inc: "INCREMENT_GENERATION L (gen_key mid) s = (int (Suc n), ?s1)"
    using lua_numbers.increment_spec [OF assms(1) _ assms(3)] assms(2) by (simp add: gen_at_def)
  have num: "lua_tonumber L (show_nat (Suc n)) = Some (int (Suc n))"
    and str: "lua_tostring L (int (Suc n)) = show_nat (Suc n)"
    using lua_numbers.tonumber_show [OF assms(1,3)] lua_numbers.tostring_nat [OF assms(1,3)] by auto
  let ?s2 = "redis_set (mh_key mid) json (redis_set (gen_key mid) (show_nat (Suc n)) ?s1)"
  have wr: "FENCED_WRITE L (gen_key mid) (mh_key mid) (show_nat (Suc n)) json ?s1 = (1, ?s2)"
    using num str by (simp add: FENCED_WRITE_def Let_def del: of_nat_Suc)
  have "increment_generation L NoFault mid (s, cache) = (Ok ?gen, ?s1, hm_insert mid ?gen cache)"
    using inc by (simp add: increment_generation_def Let_def del: of_nat_Suc)
  then have "store_mh_assignment L J NoFault NoFault now mid hs (s, cache) = (Ok (), ?s2, hm_insert mid ?gen cache)"
    using assms(4) wr unat_of_exact [OF assms(3)]
    by (simp add: store_mh_assignment_def fenced_reply_def del: of_nat_Suc)
  then show ?thesis by simp
qed

lemma get_generation_spec:
  "redis_get (gen_key mid) s = Some (show_nat g) \<Longrightarrow> exact g \<Longrightarrow> get_generation NoFault mid s = (Ok (of_nat g), s)"
  using parse_unsigned_show [of g 64] by (simp add: get_generation_def)

lemma delete_mh_assignment_spec:
  assumes "lua_numbers L" and "redis_get (gen_key mid) s = Some (show_nat g)" and "exact (Suc g)"
  shows "\<exists>s'. delete_mh_assignment L NoFault NoFault mid s = (Ok (), s') \<and> redis_get (mh_key mid) s' = None"
proof -
  have u: "unat (of_nat g + 1 :: u64) = Suc g"
    using unat_of_exact [OF assms(3)] by (simp add: add.commute)
  have "lua_tonumber L (show_nat (Suc g)) = Some (int (Suc g))" "lua_tonumber L (show_nat g) = Some (int g)"
    using lua_numbers.tonumber_show [OF assms(1)] assms(3) by auto
  then show ?thesis
    using get_generation_spec [OF assms(2)] assms(2,3) u
    by (simp add: delete_mh_assignment_def delete_script_def FENCED_DELETE_def Let_def)
qed

text \<open>
  Storing an assignment and reading it back: whatever generation the meeting has, and however old
  the storing controller is, \<open>store_mh_assignment\<close> first raises the generation and then writes with
  the raised value, so it succeeds, the stored assignment is what \<open>get_mh_assignment\<close> returns, and
  the generation has grown by exactly one.
\<close>

theorem store_mh_assignment_roundtrip:
  assumes "lua_numbers L" and "gen_at mid s n" and "exact (Suc n)"
    and "to_json J \<lparr>as_handlers = hs, as_assigned_at = now\<rparr> = Ok json"
    and "from_json J json = Ok \<lparr>as_handlers = hs, as_assigned_at = now\<rparr>"
  shows "\<exists>s'. store_mh_assignment L J NoFault NoFault now mid hs (s, cache)
        = (Ok (), s', hm_insert mid (of_nat (Suc n)) cache)
    \<and> get_mh_assignment J NoFault mid s' = (Ok (Some \<lparr>as_handlers = hs, as_assigned_at = now\<rparr>), s')
    \<and> get_generation NoFault mid s' = (Ok (of_nat (Suc n)), s')"
proof -
  obtain s' where s': "store_mh_assignment L J NoFault NoFault now mid hs (s, cache)
      = (Ok (), s', hm_insert mid (of_nat (Suc n)) cache)"
    "redis_get (gen_key mid) s' = Some (show_nat (Suc n))" "redis_get (mh_key mid) s' = Some json"
    using store_mh_assignment_spec [OF assms(1-4)] by blast
  moreover have "get_mh_assignment J NoFault mid s' = (Ok (Some \<lparr>as_handlers = hs, as_assigned_at = now\<rparr>), s')"
    using s'(3) assms(5) by (simp add: get_mh_assignment_def)
  ultimately show ?thesis using get_generation_spec [OF s'(2) assms(3)] by blast
qed

theorem store_mh_assignment_roundtrip_witness:
  "\<exists>s'. store_mh_assignment demo_lua demo_json NoFault NoFault ''t'' ''m''
         [\<lparr>ep_mh_id = ''h'', ep_webtransport_endpoint = ''w'', ep_grpc_endpoint = ''g''\<rparr>] (empty_redis, [])
       = (Ok (), s', [(''m'', 1)])"
  using store_mh_assignment_roundtrip [OF demo.lua_numbers_axioms, of "''m''" empty_redis 0 demo_json
      "[\<lparr>ep_mh_id = ''h'', ep_webtransport_endpoint = ''w'', ep_grpc_endpoint = ''g''\<rparr>]" "''t''" "''{}''" "[]"]
  by (auto simp: gen_at_def empty_redis_def redis_get_def demo_json_def hm_insert_def)

text \<open>
  A delete that is fenced out reports success: between reading the generation and running the
  script another controller may have moved on by two, and the reply 0 is taken for success.
\<close>

lemma fenced_delete_reports_ok:
  assumes "lua_numbers L" and "redis_get (gen_key mid) s = Some (show_nat g)" and "exact g"
    and "unat (generation + 1) < g"
  shows "delete_script L NoFault mid generation s = (Ok (), s)"
  using lua_numbers.stale_rejected [OF assms(1,2,3,4)] by (simp add: delete_script_def)

end
