(* ===== verification/MC_Controller.thy ===== *)
theory MC_Controller
  imports MC_Metrics MC_Registry
begin

text \<open>
  The controller actor (actors/controller.rs): it supervises the meeting actors, creates and removes
  meetings, routes joins and shuts the service down; and the handles through which other tasks talk
  to the controller, meeting and participant actors.

  A meeting actor is known by the number it was spawned with.  The registry of Media Handler
  connections is shared with the notification service; the controller only removes meetings from it.
  Whether a meeting actor's task has finished, and what an actor answers to a state query, are
  arguments.
\<close>

section \<open>Actor handles\<close>

text \<open>
  What becomes of a request put into an actor's mailbox: the mailbox is closed, the actor drops the
  reply channel, or it replies.  Each handle method builds its message and maps the outcome.
\<close>

datatype 'r delivery = NotSent string | NoReply string | Reply 'r

definition tell :: "unit delivery \<Rightarrow> (unit, McError) result" where
  "tell d = (case d of NotSent e \<Rightarrow> Err (Internal (''channel send failed: '' @ e)) | _ \<Rightarrow> Ok ())"

definition ask :: "'r delivery \<Rightarrow> ('r, McError) result" where
  "ask d = (case d of
     NotSent e \<Rightarrow> Err (Internal (''channel send failed: '' @ e))
   | NoReply e \<Rightarrow> Err (Internal (''response receive failed: '' @ e))
   | Reply r \<Rightarrow> Ok r)"

definition ask_result :: "('r, McError) result delivery \<Rightarrow> ('r, McError) result" where
  "ask_result d = (case ask d of Inl e \<Rightarrow> Err e | Inr r \<Rightarrow> r)"

definition connection_join where
  "connection_join send cid uid pid host stream = ask_result (send (ConnectionJoin cid uid pid host stream))"

definition connection_disconnected where
  "connection_disconnected send cid pid = tell (send (ConnectionDisconnected cid pid))"

definition connection_reconnect where
  "connection_reconnect send cid corr token = ask_result (send (ConnectionReconnect cid corr token))"

definition participant_leave where
  "participant_leave send pid = ask_result (send (ParticipantLeave pid))"

definition signaling_message where
  "signaling_message send pid payload = tell (send (SignalingMessage pid payload))"

definition handle_get_state where
  "handle_get_state send = ask (send GetState)"

definition update_self_mute where
  "update_self_mute send pid a v = tell (send (UpdateSelfMute pid a v))"

definition host_mute where
  "host_mute send target muted_by a v = ask_result (send (HostMute target muted_by a v))"

definition end_meeting where
  "end_meeting send reason = ask_result (send (EndMeeting reason))"

definition participant_send where
  "participant_send send payload = tell (send (PSend payload))"

definition participant_send_update where
  "participant_send_update send upd = tell (send (PUpdate upd))"

definition participant_close where
  "participant_close send reason = tell (send (PClose reason))"

definition participant_ping where
  "participant_ping send = ask (send PPing)"

section \<open>State\<close>

record MeetingInfo =
  mi_meeting_id :: string
  mi_participant_count :: nat
  mi_created_at :: int
  mi_fencing_generation :: u64

record ControllerStatus =
  cs_meeting_count :: nat
  cs_connection_count :: usize
  cs_is_draining :: bool
  cs_mailbox_depth :: usize

datatype ControllerMessage =
    CreateMeeting string
  | GetMeeting string
  | RemoveMeeting string
  | GetStatus
  | JoinConnection string string string string bool
  | Shutdown duration

record ManagedMeeting =
  mm_handle :: nat
  mm_created_at :: int

record Controller =
  ct_mc_id :: string
  ct_cancelled :: bool
  ct_meetings :: "(string, ManagedMeeting) hmap"
  ct_accepting_new :: bool
  ct_metrics :: ActorMetrics
  ct_mailbox :: MailboxMonitor
  ct_master_secret :: "u8 list"
  ct_registry :: registry

datatype controller_effect =
    SpawnMeeting nat string
  | CancelMeeting nat
  | CancelRoot
  | ForwardJoin nat MeetingMessage

record controller_env =
  ce_actor :: nat
  ce_created_at :: int

definition controller_new :: "string \<Rightarrow> u8 list \<Rightarrow> ActorMetrics \<Rightarrow> registry \<Rightarrow> Controller" where
  "controller_new mc_id secret metrics reg =
     \<lparr>ct_mc_id = mc_id, ct_cancelled = False, ct_meetings = [], ct_accepting_new = True,
      ct_metrics = metrics, ct_mailbox = mailbox_new AController mc_id, ct_master_secret = secret,
      ct_registry = reg\<rparr>"

section \<open>Operations\<close>

definition create_meeting ::
  "controller_env \<Rightarrow> string \<Rightarrow> Controller \<Rightarrow> (unit, McError) result \<times> Controller \<times> controller_effect list"
where
  "create_meeting env meeting_id c =
     (if \<not> ct_accepting_new c then (Err Draining, c, [])
      else if hm_contains (ct_meetings c) meeting_id then (Err (Conflict ''Meeting already exists''), c, [])
      else (Ok (),
            c\<lparr>ct_meetings := hm_insert meeting_id
                \<lparr>mm_handle = ce_actor env, mm_created_at = ce_created_at env\<rparr> (ct_meetings c),
              ct_metrics := fst (meeting_created (ct_metrics c))\<rparr>,
            [SpawnMeeting (ce_actor env) meeting_id]))"

definition get_meeting_handle :: "string \<Rightarrow> Controller \<Rightarrow> (nat, McError) result" where
  "get_meeting_handle meeting_id c =
     (case hm_get (ct_meetings c) meeting_id of
        Some managed \<Rightarrow> Ok (mm_handle managed)
      | None \<Rightarrow> Err (MeetingNotFound meeting_id))"

definition get_meeting ::
  "(nat \<Rightarrow> (MeetingState, McError) result) \<Rightarrow> string \<Rightarrow> Controller \<Rightarrow> (MeetingInfo, McError) result"
where
  "get_meeting query meeting_id c =
     (case hm_get (ct_meetings c) meeting_id of
        Some managed \<Rightarrow>
          (case query (mm_handle managed) of
             Inr state \<Rightarrow> Ok \<lparr>mi_meeting_id = meeting_id, mi_participant_count = length (st_participants state),
                              mi_created_at = mm_created_at managed,
                              mi_fencing_generation = st_fencing_generation state\<rparr>
           | Inl _ \<Rightarrow> Ok \<lparr>mi_meeting_id = meeting_id, mi_participant_count = 0,
                          mi_created_at = mm_created_at managed, mi_fencing_generation = 0\<rparr>)
      | None \<Rightarrow> Err (MeetingNotFound meeting_id))"

definition remove_meeting ::
  "string \<Rightarrow> Controller \<Rightarrow> (unit, McError) result \<times> Controller \<times> controller_effect list"
where
  "remove_meeting meeting_id c =
     (case hm_get (ct_meetings c) meeting_id of
        Some managed \<Rightarrow>
          (Ok (),
           c\<lparr>ct_meetings := hm_remove meeting_id (ct_meetings c),
             ct_metrics := fst (meeting_removed (ct_metrics c)),
             ct_registry := registry_remove_meeting meeting_id (ct_registry c)\<rparr>,
           [CancelMeeting (mm_handle managed)])
      | None \<Rightarrow> (Err (MeetingNotFound meeting_id), c, []))"

definition get_status :: "Controller \<Rightarrow> ControllerStatus" where
  "get_status c = \<lparr>cs_meeting_count = hm_len (ct_meetings c),
     cs_connection_count = active_connections_gauge (ct_metrics c),
     cs_is_draining = (\<not> ct_accepting_new c), cs_mailbox_depth = mb_depth (ct_mailbox c)\<rparr>"

definition initiate_shutdown ::
  "duration \<Rightarrow> Controller \<Rightarrow> (unit, McError) result \<times> Controller \<times> controller_effect list"
where
  "initiate_shutdown deadline c =
     (Ok (), c\<lparr>ct_accepting_new := False, ct_cancelled := True\<rparr>, [CancelRoot])"

definition controller_graceful_shutdown :: "Controller \<Rightarrow> Controller \<times> controller_effect list" where
  "controller_graceful_shutdown c =
     (c\<lparr>ct_accepting_new := False, ct_meetings := []\<rparr>,
      map (\<lambda>managed. CancelMeeting (mm_handle managed)) (hm_values (ct_meetings c)))"

text \<open>How a meeting actor's task ended: its return, or a panic, or a cancellation of the task.\<close>

datatype join_outcome = JoinOk | JoinPanic | JoinCancelled

definition reap_meeting :: "(nat \<Rightarrow> join_outcome option) \<Rightarrow> string \<Rightarrow> Controller \<Rightarrow> Controller" where
  "reap_meeting finished meeting_id c =
     (case hm_get (ct_meetings c) meeting_id of
        None \<Rightarrow> c
      | Some managed \<Rightarrow>
          let m1 = (if finished (mm_handle managed) = Some JoinPanic
                    then record_panic (ct_metrics c) else ct_metrics c)
          in c\<lparr>ct_meetings := hm_remove meeting_id (ct_meetings c), ct_metrics := fst (meeting_removed m1)\<rparr>)"

definition check_meeting_health :: "(nat \<Rightarrow> join_outcome option) \<Rightarrow> Controller \<Rightarrow> Controller" where
  "check_meeting_health finished c =
     fold (reap_meeting finished)
       (map fst (filter (\<lambda>(mid, managed). finished (mm_handle managed) \<noteq> None) (ct_meetings c))) c"

section \<open>Message dispatch and the run loop\<close>

text \<open>
  The reply to a message; a join is answered by the meeting actor it is forwarded to, unless there
  is no such meeting.
\<close>

datatype controller_reply =
    CrUnit "(unit, McError) result"
  | CrMeeting "(MeetingInfo, McError) result"
  | CrStatus ControllerStatus
  | CrJoinForwarded
  | CrJoin McError
  | CrNone

fun controller_handle_message ::
  "controller_env \<Rightarrow> (nat \<Rightarrow> (MeetingState, McError) result) \<Rightarrow> ControllerMessage \<Rightarrow> Controller
     \<Rightarrow> controller_reply \<times> Controller \<times> controller_effect list"
where
  "controller_handle_message env query (CreateMeeting mid) c =
     (let (r, c', es) = create_meeting env mid c in (CrUnit r, c', es))"
| "controller_handle_message env query (GetMeeting mid) c = (CrMeeting (get_meeting query mid c), c, [])"
| "controller_handle_message env query (JoinConnection mid cid uid pid host) c =
     (case get_meeting_handle mid c of
        Inr a \<Rightarrow> (CrJoinForwarded, c, [ForwardJoin a (ConnectionJoin cid uid pid host True)])
      | Inl e \<Rightarrow> (CrJoin e, c, []))"
| "controller_handle_message env query (RemoveMeeting mid) c =
     (let (r, c', es) = remove_meeting mid c in (CrUnit r, c', es))"
| "controller_handle_message env query GetStatus c = (CrStatus (get_status c), c, [])"
| "controller_handle_message env query (Shutdown deadline) c =
     (let (r, c', es) = initiate_shutdown deadline c in (CrUnit r, c', es))"

datatype controller_event = CtCancelled | CtMessage ControllerMessage | CtChannelClosed

definition controller_turn ::
  "controller_env \<Rightarrow> (nat \<Rightarrow> (MeetingState, McError) result) \<Rightarrow> (nat \<Rightarrow> join_outcome option)
     \<Rightarrow> controller_event \<Rightarrow> Controller \<Rightarrow> controller_reply \<times> Controller \<times> controller_effect list \<times> bool"
where
  "controller_turn env query finished ev c =
     (let c1 = check_meeting_health finished c
      in case ev of
           CtCancelled \<Rightarrow>
             (let (c2, es) = controller_graceful_shutdown c1 in (CrNone, c2, es, False))
         | CtMessage msg \<Rightarrow>
             (let c2 = c1\<lparr>ct_mailbox := fst (record_enqueue (ct_mailbox c1))\<rparr>;
                  (r, c3, es) = controller_handle_message env query msg c2;
                  c4 = c3\<lparr>ct_mailbox := fst (record_dequeue (ct_mailbox c3)),
                          ct_metrics := record_message_processed (ct_metrics c3)\<rparr>
              in (r, c4, es, True))
         | CtChannelClosed \<Rightarrow> (CrNone, c1, [], False))"

section \<open>The controller's handle\<close>

definition handle_create_meeting where
  "handle_create_meeting send mid = ask_result (send (CreateMeeting mid))"

definition handle_get_meeting where
  "handle_get_meeting send mid = ask_result (send (GetMeeting mid))"

text \<open>\<open>join_connection\<close> only puts the request into the mailbox; the caller awaits the reply itself.\<close>

definition handle_join_connection where
  "handle_join_connection send mid cid uid pid host = tell (send (JoinConnection mid cid uid pid host))"

definition handle_remove_meeting where
  "handle_remove_meeting send mid = ask_result (send (RemoveMeeting mid))"

definition handle_get_status where
  "handle_get_status send = ask (send GetStatus)"

definition handle_shutdown where
  "handle_shutdown send deadline = ask_result (send (Shutdown deadline))"

section \<open>The health check\<close>

lemma reap_meeting_simps [simp]:
  "ct_accepting_new (reap_meeting fin mid c) = ct_accepting_new c"
  "ct_registry (reap_meeting fin mid c) = ct_registry c"
  "ct_cancelled (reap_meeting fin mid c) = ct_cancelled c"
  "hm_get (ct_meetings (reap_meeting fin mid c)) k = (if k = mid then None else hm_get (ct_meetings c) k)"
  by (auto simp: reap_meeting_def Let_def split: option.split)

lemma fold_reap_simps:
  "ct_accepting_new (fold (reap_meeting fin) mids c) = ct_accepting_new c"
  "ct_registry (fold (reap_meeting fin) mids c) = ct_registry c"
  "ct_cancelled (fold (reap_meeting fin) mids c) = ct_cancelled c"
  "hm_get (ct_meetings (fold (reap_meeting fin) mids c)) k =
     (if k \<in> set mids then None else hm_get (ct_meetings c) k)"
  by (induction mids arbitrary: c) auto

lemma check_meeting_health_simps [simp]:
  "ct_accepting_new (check_meeting_health fin c) = ct_accepting_new c"
  "ct_registry (check_meeting_health fin c) = ct_registry c"
  "ct_cancelled (check_meeting_health fin c) = ct_cancelled c"
  by (simp_all add: check_meeting_health_def fold_reap_simps)

lemma check_meeting_health_meetings:
  assumes "hm_wf (ct_meetings c)"
  shows "hm_get (ct_meetings (check_meeting_health fin c)) k =
    (case hm_get (ct_meetings c) k of
       Some mm \<Rightarrow> if fin (mm_handle mm) = None then Some mm else None
     | None \<Rightarrow> None)"
proof -
  have "k \<in> set (map fst (filter (\<lambda>(mid, mm). fin (mm_handle mm) \<noteq> None) (ct_meetings c)))
      \<longleftrightarrow> (\<exists>mm. hm_get (ct_meetings c) k = Some mm \<and> fin (mm_handle mm) \<noteq> None)"
    using assms by (force simp: hm_in_set_conv)
  then show ?thesis by (auto simp: check_meeting_health_def fold_reap_simps split: option.split)
qed

section \<open>The gauge of meetings\<close>

text \<open>The supervised meetings are well formed and the shared gauge counts them.\<close>

definition controller_ok :: "Controller \<Rightarrow> bool" where
  "controller_ok c \<longleftrightarrow> hm_wf (ct_meetings c)
     \<and> active_meetings (ct_metrics c) = of_nat (hm_len (ct_meetings c))
     \<and> (ct_cancelled c \<longrightarrow> \<not> ct_accepting_new c)"

lemma controller_okD:
  "controller_ok c \<Longrightarrow> hm_wf (ct_meetings c)"
  by (simp add: controller_ok_def)

lemma of_nat_len_remove:
  assumes "hm_wf m" and "hm_get m k = Some v"
  shows "(of_nat (hm_len (hm_remove k m)) :: usize) = of_nat (hm_len m) - 1"
  by (simp add: hm_len_remove [OF assms, symmetric])

lemma reap_meeting_ok:
  assumes "controller_ok c"
  shows "controller_ok (reap_meeting fin mid c)"
proof (cases "hm_get (ct_meetings c) mid")
  case (Some mm)
  then show ?thesis
    using assms of_nat_len_remove [of "ct_meetings c" mid mm]
    by (auto simp: reap_meeting_def controller_ok_def Let_def meeting_removed_def record_panic_def)
qed (simp add: reap_meeting_def assms)

lemma check_meeting_health_ok: "controller_ok c \<Longrightarrow> controller_ok (check_meeting_health fin c)"
proof -
  have "controller_ok c \<Longrightarrow> controller_ok (fold (reap_meeting fin) mids c)" for mids
    by (induction mids arbitrary: c) (auto intro: reap_meeting_ok)
  then show "controller_ok c \<Longrightarrow> ?thesis" by (simp add: check_meeting_health_def)
qed

lemma create_meeting_ok: "controller_ok c \<Longrightarrow> controller_ok (fst (snd (create_meeting env mid c)))"
  by (auto simp: create_meeting_def controller_ok_def meeting_created_def hm_len_insert_fresh)

lemma remove_meeting_ok:
  assumes "controller_ok c"
  shows "controller_ok (fst (snd (remove_meeting mid c)))"
proof (cases "hm_get (ct_meetings c) mid")
  case (Some mm)
  then show ?thesis
    using assms of_nat_len_remove [of "ct_meetings c" mid mm]
    by (auto simp: remove_meeting_def controller_ok_def meeting_removed_def)
qed (simp add: remove_meeting_def assms)

lemma controller_ok_frame [simp]:
  "controller_ok (c\<lparr>ct_mailbox := mb\<rparr>) = controller_ok c"
  "controller_ok (c\<lparr>ct_mailbox := mb, ct_metrics := record_message_processed (ct_metrics c)\<rparr>) = controller_ok c"
  by (simp_all add: controller_ok_def record_message_processed_def)

lemma controller_handle_message_ok:
  assumes "controller_ok c"
  shows "controller_ok (fst (snd (controller_handle_message env q msg c)))"
proof (cases msg)
  case (JoinConnection mid cid uid pid host)
  then show ?thesis using assms by (simp split: sum.split)
next
  case (Shutdown d)
  then show ?thesis using assms by (simp add: initiate_shutdown_def controller_ok_def)
qed (use assms create_meeting_ok remove_meeting_ok in \<open>simp_all add: Let_def case_prod_unfold\<close>)

lemma controller_turn_ok:
  assumes "controller_ok c" and "controller_turn env q fin ev c = (r, c', es, True)"
  shows "controller_ok c'"
proof (cases ev)
  case (CtMessage msg)
  let ?c2 = "(check_meeting_health fin c)
    \<lparr>ct_mailbox := fst (record_enqueue (ct_mailbox (check_meeting_health fin c)))\<rparr>"
  have "controller_ok (fst (snd (controller_handle_message env q msg ?c2)))"
    using check_meeting_health_ok [OF assms(1), of fin] by (intro controller_handle_message_ok) simp
  then show ?thesis using assms(2) CtMessage by (auto simp: controller_turn_def Let_def case_prod_unfold)
qed (use assms in \<open>auto simp: controller_turn_def Let_def case_prod_unfold\<close>)

inductive controller_run :: "Controller \<Rightarrow> Controller \<Rightarrow> bool" for c0 where
  start: "controller_run c0 c0"
| turn: "controller_run c0 c \<Longrightarrow> controller_turn env q fin ev c = (r, c', es, True) \<Longrightarrow> controller_run c0 c'"

lemma controller_run_ok: "controller_run c0 c \<Longrightarrow> controller_ok c0 \<Longrightarrow> controller_ok c"
  by (induction rule: controller_run.induct) (auto intro: controller_turn_ok)

text \<open>
  As long as the controller runs, whatever requests it served and whichever meeting actors ended
  or panicked in between, the gauge of active meetings equals the number of meetings it supervises,
  and a controller whose root token is cancelled accepts no meetings.
\<close>

theorem meetings_gauge_exact:
  assumes "controller_run (controller_new mc_id secret actor_metrics_new reg) c"
  shows "active_meetings (ct_metrics c) = of_nat (hm_len (ct_meetings c))
    \<and> \<not> (ct_cancelled c \<and> ct_accepting_new c)"
proof -
  have "controller_ok (controller_new mc_id secret actor_metrics_new reg)"
    by (simp add: controller_ok_def controller_new_def actor_metrics_new_def hm_len_def)
  from controller_run_ok [OF assms this] show ?thesis by (auto simp: controller_ok_def)
qed

definition demo_controller :: Controller where
  "demo_controller = controller_new ''mc'' (replicate 32 7) actor_metrics_new registry_new"

definition demo_created :: "controller_reply \<times> Controller \<times> controller_effect list \<times> bool" where
  "demo_created = controller_turn \<lparr>ce_actor = 1, ce_created_at = 0\<rparr> (\<lambda>_. Err NotRegistered) (\<lambda>_. None)
     (CtMessage (CreateMeeting ''m'')) demo_controller"

theorem meetings_gauge_exact_witness:
  "hm_keys (ct_meetings (fst (snd demo_created))) = [''m'']
   \<and> active_meetings (ct_metrics (fst (snd demo_created))) = 1"
proof -
  have "snd (snd (snd demo_created))" and k: "hm_keys (ct_meetings (fst (snd demo_created))) = [''m'']"
    by code_simp+
  then have "controller_turn \<lparr>ce_actor = 1, ce_created_at = 0\<rparr> (\<lambda>_. Err NotRegistered) (\<lambda>_. None)
      (CtMessage (CreateMeeting ''m'')) demo_controller
      = (fst demo_created, fst (snd demo_created), fst (snd (snd demo_created)), True)"
    by (metis demo_created_def prod.collapse)
  then have "controller_run demo_controller (fst (snd demo_created))"
    by (rule controller_run.turn [OF controller_run.start])
  moreover have "hm_len (ct_meetings (fst (snd demo_created))) = 1"
    using k by (metis hm_keys_def hm_len_def length_map length_Cons list.size(3) One_nat_def)
  ultimately show ?thesis
    using meetings_gauge_exact [of "''mc''" "replicate 32 7" registry_new "fst (snd demo_created)"] k
    by (simp add: demo_controller_def)
qed

section \<open>Draining, and the registry when a meeting ends\<close>

text \<open>
  Draining is final.  Once the controller has stopped accepting meetings, every turn keeps it so:
  no meeting is added, no meeting actor is spawned, and a request to create a meeting, whatever its
  identifier, is answered with \<open>Draining\<close>.
\<close>

theorem drain_is_final:
  assumes "\<not> ct_accepting_new c" and "controller_turn env q fin ev c = (r, c', es, go)"
  shows "\<not> ct_accepting_new c'
    \<and> (\<forall>k. hm_get (ct_meetings c') k = None \<or> hm_get (ct_meetings c') k = hm_get (ct_meetings c) k)
    \<and> (\<forall>a mid. SpawnMeeting a mid \<notin> set es)
    \<and> (\<forall>mid. ev = CtMessage (CreateMeeting mid) \<longrightarrow> r = CrUnit (Err Draining))"
proof -
  have h: "\<forall>k. hm_get (ct_meetings (check_meeting_health fin c)) k = None
      \<or> hm_get (ct_meetings (check_meeting_health fin c)) k = hm_get (ct_meetings c) k"
    by (auto simp: check_meeting_health_def fold_reap_simps)
  show ?thesis
  proof (cases ev)
    case CtCancelled
    then show ?thesis using assms
      by (auto simp: controller_turn_def controller_graceful_shutdown_def Let_def)
  next
    case CtChannelClosed
    then show ?thesis using assms h by (auto simp: controller_turn_def)
  next
    case (CtMessage msg)
    then show ?thesis using assms h
      by (cases msg)
        (auto simp: controller_turn_def Let_def case_prod_unfold create_meeting_def remove_meeting_def
          initiate_shutdown_def get_meeting_handle_def split: option.splits; blast)+
  qed
qed

theorem drain_is_final_witness:
  "let d = fst (snd (initiate_shutdown 0 (fst (snd demo_created)))) in
   fst (controller_turn \<lparr>ce_actor = 2, ce_created_at = 0\<rparr> (\<lambda>_. Err NotRegistered) (\<lambda>_. None)
     (CtMessage (CreateMeeting ''n'')) d) = CrUnit (Err Draining)"
proof -
  let ?d = "fst (snd (initiate_shutdown 0 (fst (snd demo_created))))"
  have "\<not> ct_accepting_new ?d" by (simp add: initiate_shutdown_def)
  from drain_is_final [OF this, of "\<lparr>ce_actor = 2, ce_created_at = 0\<rparr>" "\<lambda>_. Err NotRegistered" "\<lambda>_. None"
      "CtMessage (CreateMeeting ''n'')"]
  show ?thesis unfolding Let_def by (metis prod.collapse)
qed

text \<open>
  Removing a meeting drops its Media Handler links only if its actor is still running when the
  request is handled.  If the actor has ended by itself, the health check at the start of the turn
  has already discarded the meeting without touching the registry, the request is answered with
  \<open>MeetingNotFound\<close> and all links of the meeting stay.
\<close>

theorem remove_meeting_links:
  assumes "hm_wf (ct_meetings c)" and "registry_wf (ct_registry c)"
    and "hm_get (ct_meetings c) mid = Some mm"
    and "controller_turn env q fin (CtMessage (RemoveMeeting mid)) c = (r, c', es, go)"
  shows "hm_get (ct_meetings c') mid = None
    \<and> (if fin (mm_handle mm) = None
       then r = CrUnit (Ok ()) \<and> es = [CancelMeeting (mm_handle mm)]
         \<and> registry_links (ct_registry c') = {x \<in> registry_links (ct_registry c). fst x \<noteq> mid}
       else r = CrUnit (Err (MeetingNotFound mid))
         \<and> registry_links (ct_registry c') = registry_links (ct_registry c))"
proof -
  let ?c1 = "check_meeting_health fin c"
  have "hm_get (ct_meetings ?c1) mid = (if fin (mm_handle mm) = None then Some mm else None)"
    using check_meeting_health_meetings [OF assms(1), of fin mid] assms(3) by simp
  note m1 = this
  show ?thesis
  proof (cases "fin (mm_handle mm) = None")
    case True
    with m1 have "hm_get (ct_meetings ?c1) mid = Some mm" by simp
    then have "r = CrUnit (Ok ())" "es = [CancelMeeting (mm_handle mm)]"
      "ct_meetings c' = hm_remove mid (ct_meetings ?c1)" "ct_registry c' = registry_remove_meeting mid (ct_registry c)"
      using assms(4) by (auto simp: controller_turn_def Let_def case_prod_unfold remove_meeting_def)
    with True show ?thesis using reg.links_drop [OF assms(2), of mid] by simp
  next
    case False
    with m1 have "hm_get (ct_meetings ?c1) mid = None" by simp
    then have "r = CrUnit (Err (MeetingNotFound mid))" "ct_meetings c' = ct_meetings ?c1" "ct_registry c' = ct_registry c"
      using assms(4) by (auto simp: controller_turn_def Let_def case_prod_unfold remove_meeting_def)
    with False \<open>hm_get (ct_meetings ?c1) mid = None\<close> show ?thesis by simp
  qed
qed

text \<open>A meeting whose actor has panicked, with one link.\<close>

definition demo_linked :: Controller where
  "demo_linked = (fst (snd demo_created))\<lparr>ct_registry := snd (add_connection 0 ''m'' ''p'' ''h'' registry_new)\<rparr>"

theorem remove_meeting_links_witness:
  "(''m'', ''p'', ''h'') \<in> registry_links (ct_registry (fst (snd
     (controller_turn \<lparr>ce_actor = 2, ce_created_at = 0\<rparr> (\<lambda>_. Err NotRegistered) (\<lambda>_. Some JoinPanic)
       (CtMessage (RemoveMeeting ''m'')) demo_linked))))"
proof -
  let ?t = "controller_turn \<lparr>ce_actor = 2, ce_created_at = 0\<rparr> (\<lambda>_. Err NotRegistered) (\<lambda>_. Some JoinPanic)
    (CtMessage (RemoveMeeting ''m'')) demo_linked"
  have f: "fst (add_connection 0 ''m'' ''p'' ''h'' registry_new)" by code_simp
  have reg: "registry_wf (ct_registry demo_linked)" "(''m'', ''p'', ''h'') \<in> registry_links (ct_registry demo_linked)"
    using reg.invar_add [OF reg.invar_empty] reg.links_add [OF reg.invar_empty, of 0 "''m''" "''p''" "''h''"] f
    by (simp_all add: demo_linked_def)
  have "hm_wf (ct_meetings demo_linked)" "hm_get (ct_meetings demo_linked) ''m'' = Some \<lparr>mm_handle = 1, mm_created_at = 0\<rparr>"
    by code_simp+
  moreover have "?t = (fst ?t, fst (snd ?t), fst (snd (snd ?t)), snd (snd (snd ?t)))" by simp
  ultimately show ?thesis
    using remove_meeting_links [OF _ reg(1)] reg(2) by fastforce
qed

end
