(* ===== verification/MC_Assignment.thy ===== *)
theory MC_Assignment
  imports MC_Fencing MC_Controller
begin

text \<open>
  The gRPC service through which the Global Controller assigns meetings to a Meeting Controller
  (grpc/mc_service.rs).  The request is checked against the service's own counters, the Media Handler
  assignment is stored in Redis, the controller actor is asked to create the meeting, and on failure
  the stored assignment is deleted again.

  The controller is reached through its handle; here it is any state with a \<open>create\<close> operation, and
  the locale \<open>meeting_host\<close> states what is relied on of it.  It is interpreted on the controller
  actor.
\<close>

section \<open>Definitions\<close>

definition ESTIMATED_PARTICIPANTS_PER_MEETING :: u32 where
  "ESTIMATED_PARTICIPANTS_PER_MEETING = 10"

record McAssignmentService =
  sv_max_meetings :: u32
  sv_max_participants :: u32
  sv_current_meetings :: u32
  sv_current_participants :: u32
  sv_is_draining :: bool

definition assignment_service_new :: "u32 \<Rightarrow> u32 \<Rightarrow> McAssignmentService" where
  "assignment_service_new max_meetings max_participants =
     \<lparr>sv_max_meetings = max_meetings, sv_max_participants = max_participants,
      sv_current_meetings = 0, sv_current_participants = 0, sv_is_draining = False\<rparr>"

definition set_meeting_count :: "u32 \<Rightarrow> McAssignmentService \<Rightarrow> McAssignmentService" where
  "set_meeting_count count sv = sv\<lparr>sv_current_meetings := count\<rparr>"

definition set_participant_count :: "u32 \<Rightarrow> McAssignmentService \<Rightarrow> McAssignmentService" where
  "set_participant_count count sv = sv\<lparr>sv_current_participants := count\<rparr>"

definition set_draining :: "bool \<Rightarrow> McAssignmentService \<Rightarrow> McAssignmentService" where
  "set_draining draining sv = sv\<lparr>sv_is_draining := draining\<rparr>"

datatype RejectionReason = RejUnspecified | RejAtCapacity | RejDraining | RejUnhealthy

definition saturating_add :: "'a::len word \<Rightarrow> 'a word \<Rightarrow> 'a word" where
  "saturating_add a b = (if unat a + unat b < 2 ^ LENGTH('a) then a + b else - 1)"

definition can_accept_meeting :: "McAssignmentService \<Rightarrow> RejectionReason option" where
  "can_accept_meeting sv =
     (if sv_is_draining sv then Some RejDraining
      else if sv_current_meetings sv \<ge> sv_max_meetings sv then Some RejAtCapacity
      else if saturating_add (sv_current_participants sv) ESTIMATED_PARTICIPANTS_PER_MEETING
                > sv_max_participants sv then Some RejAtCapacity
      else None)"

record MhAssignment =
  ma_mh_id :: string
  ma_webtransport_endpoint :: string
  ma_grpc_endpoint :: string

definition store_mh_assignments ::
  "lua_ops \<Rightarrow> json_ops \<Rightarrow> fault \<Rightarrow> fault \<Rightarrow> string \<Rightarrow> string \<Rightarrow> MhAssignment list
     \<Rightarrow> redis \<times> gen_cache \<Rightarrow> (unit, McError) result \<times> redis \<times> gen_cache"
where
  "store_mh_assignments L J f1 f2 now mid mh_assignments st =
     (if mh_assignments = [] then (Err (InvalidArgument ''No MH assignments provided''), st)
      else (case filter (\<lambda>a. ma_grpc_endpoint a = []) mh_assignments of
              a # _ \<Rightarrow> (Err (InvalidArgument (''MH assignment for '' @ ma_mh_id a @ '' has empty grpc_endpoint'')), st)
            | [] \<Rightarrow> store_mh_assignment L J f1 f2 now mid
                     (map (\<lambda>a. \<lparr>ep_mh_id = ma_mh_id a, ep_webtransport_endpoint = ma_webtransport_endpoint a,
                               ep_grpc_endpoint = ma_grpc_endpoint a\<rparr>) mh_assignments) st))"

text \<open>The outcomes of the four Redis commands a request may run.\<close>

record assign_faults =
  af_increment :: fault
  af_write :: fault
  af_get :: fault
  af_delete :: fault

record 'c assign_state =
  ax_service :: McAssignmentService
  ax_store :: "redis \<times> gen_cache"
  ax_host :: 'c

record AssignMeetingWithMhResponse =
  rs_accepted :: bool
  rs_rejection_reason :: RejectionReason

definition assign_meeting_with_mh ::
  "lua_ops \<Rightarrow> json_ops \<Rightarrow> assign_faults \<Rightarrow> (string \<Rightarrow> 'c \<Rightarrow> (unit, McError) result \<times> 'c) \<Rightarrow> string
     \<Rightarrow> string \<Rightarrow> MhAssignment list \<Rightarrow> 'c assign_state
     \<Rightarrow> AssignMeetingWithMhResponse \<times> 'c assign_state"
where
  "assign_meeting_with_mh L J fs create now mid mh_assignments x =
     (case can_accept_meeting (ax_service x) of
        Some reason \<Rightarrow> (\<lparr>rs_accepted = False, rs_rejection_reason = reason\<rparr>, x)
      | None \<Rightarrow>
          (case store_mh_assignments L J (af_increment fs) (af_write fs) now mid mh_assignments (ax_store x) of
             (Inl _, st) \<Rightarrow> (\<lparr>rs_accepted = False, rs_rejection_reason = RejUnhealthy\<rparr>, x\<lparr>ax_store := st\<rparr>)
           | (Inr _, st) \<Rightarrow>
               (case create mid (ax_host x) of
                  (Inr _, c') \<Rightarrow>
                    (\<lparr>rs_accepted = True, rs_rejection_reason = RejUnspecified\<rparr>,
                     x\<lparr>ax_store := st, ax_host := c',
                       ax_service := (ax_service x)\<lparr>sv_current_meetings :=
                         sv_current_meetings (ax_service x) + 1\<rparr>\<rparr>)
                | (Inl _, c') \<Rightarrow>
                    (\<lparr>rs_accepted = False, rs_rejection_reason = RejUnhealthy\<rparr>,
                     x\<lparr>ax_store := (snd (delete_mh_assignment L (af_get fs) (af_delete fs) mid (fst st)), snd st),
                       ax_host := c'\<rparr>))))"

section \<open>The controller behind the service\<close>

text \<open>
  What the service relies on of the component that hosts meetings: a meeting that runs cannot be
  created again, and one that was created runs.
\<close>

locale meeting_host =
  fixes create :: "string \<Rightarrow> 'c \<Rightarrow> (unit, McError) result \<times> 'c"
    and runs :: "'c \<Rightarrow> string \<Rightarrow> bool"
  assumes create_again: "runs c mid \<Longrightarrow> \<exists>e. create mid c = (Err e, c)"
    and created_runs: "create mid c = (Ok (), c') \<Longrightarrow> runs c' mid"
begin

lemma create_once: "create mid c = (Ok (), c') \<Longrightarrow> \<exists>e. create mid c' = (Err e, c')"
  using created_runs create_again by blast

end

definition controller_create :: "controller_env \<Rightarrow> string \<Rightarrow> Controller \<Rightarrow> (unit, McError) result \<times> Controller" where
  "controller_create env mid c = (let (r, c', es) = create_meeting env mid c in (r, c'))"

definition controller_runs :: "Controller \<Rightarrow> string \<Rightarrow> bool" where
  "controller_runs c mid \<longleftrightarrow> hm_contains (ct_meetings c) mid"

interpretation ctl: meeting_host "controller_create env" controller_runs for env
  by unfold_locales
    (auto simp: controller_create_def controller_runs_def create_meeting_def split: if_splits)

section \<open>Properties\<close>

definition endpoint_of :: "MhAssignment \<Rightarrow> MhEndpointInfo" where
  "endpoint_of a = \<lparr>ep_mh_id = ma_mh_id a, ep_webtransport_endpoint = ma_webtransport_endpoint a,
     ep_grpc_endpoint = ma_grpc_endpoint a\<rparr>"

definition valid_assignments :: "MhAssignment list \<Rightarrow> bool" where
  "valid_assignments as \<longleftrightarrow> as \<noteq> [] \<and> list_all (\<lambda>a. ma_grpc_endpoint a \<noteq> []) as"

lemma store_mh_assignments_valid:
  assumes "valid_assignments as"
  shows "store_mh_assignments L J f1 f2 now mid as st
    = store_mh_assignment L J f1 f2 now mid (map endpoint_of as) st"
proof -
  have "filter (\<lambda>a. ma_grpc_endpoint a = []) as = []"
    using assms by (auto simp: valid_assignments_def filter_empty_conv list_all_iff)
  then show ?thesis using assms
    by (simp add: store_mh_assignments_def valid_assignments_def endpoint_of_def [abs_def])
qed

lemmas can_accept_simps = can_accept_meeting_def assignment_service_new_def saturating_add_def
  ESTIMATED_PARTICIPANTS_PER_MEETING_def

definition no_faults :: assign_faults where
  "no_faults = \<lparr>af_increment = NoFault, af_write = NoFault, af_get = NoFault, af_delete = NoFault\<rparr>"

lemma assign_accepts:
  assumes "lua_numbers L" and "gen_at mid s n" and "exact (Suc n)" and "valid_assignments as"
    and "to_json J \<lparr>as_handlers = map endpoint_of as, as_assigned_at = now\<rparr> = Ok json"
    and "ax_store x = (s, cache)" and "can_accept_meeting (ax_service x) = None"
    and "fst (create mid (ax_host x)) = Ok ()"
  shows "rs_accepted (fst (assign_meeting_with_mh L J no_faults create now mid as x))"
  using store_mh_assignment_spec [OF assms(1,2,3,5), of cache] store_mh_assignments_valid [OF assms(4)] assms(6-8)
  by (auto simp: assign_meeting_with_mh_def no_faults_def case_prod_unfold split: sum.split)

text \<open>
  C23. Assigning a meeting that this controller already runs destroys the running meeting's Media
  Handler assignment: the request is refused, as it should be, but it has first overwritten the
  stored assignment and then, as cleanup, deletes it, so that afterwards none is stored for the
  meeting although the controller still runs it.
\<close>

theorem duplicate_assignment_wipes:
  assumes "lua_numbers L" and "gen_at mid s n" and "exact (Suc (Suc n))"
    and "valid_assignments as"
    and "to_json J \<lparr>as_handlers = map endpoint_of as, as_assigned_at = now\<rparr> = Ok json"
    and "ax_store x = (s, cache)" and "can_accept_meeting (ax_service x) = None"
    and "controller_runs (ax_host x) mid"
  shows "\<exists>x'. assign_meeting_with_mh L J no_faults (controller_create env) now mid as x
        = (\<lparr>rs_accepted = False, rs_rejection_reason = RejUnhealthy\<rparr>, x')
    \<and> controller_runs (ax_host x') mid
    \<and> get_mh_assignment J NoFault mid (fst (ax_store x')) = (Ok None, fst (ax_store x'))"
proof -
  have e: "exact (Suc n)" using assms(3) by simp
  obtain s1 where s1: "store_mh_assignments L J NoFault NoFault now mid as (s, cache)
      = (Ok (), s1, hm_insert mid (of_nat (Suc n)) cache)" "redis_get (gen_key mid) s1 = Some (show_nat (Suc n))"
    using store_mh_assignment_spec [OF assms(1,2) e assms(5), of cache] store_mh_assignments_valid [OF assms(4)]
    by auto
  obtain s2 where s2: "delete_mh_assignment L NoFault NoFault mid s1 = (Ok (), s2)" "redis_get (mh_key mid) s2 = None"
    using delete_mh_assignment_spec [OF assms(1) s1(2) assms(3)] by blast
  obtain err where "controller_create env mid (ax_host x) = (Err err, ax_host x)"
    using ctl.create_again [OF assms(8)] by blast
  then have "assign_meeting_with_mh L J no_faults (controller_create env) now mid as x
      = (\<lparr>rs_accepted = False, rs_rejection_reason = RejUnhealthy\<rparr>,
         x\<lparr>ax_store := (s2, hm_insert mid (of_nat (Suc n)) cache), ax_host := ax_host x\<rparr>)"
    using s1(1) s2(1) assms(6,7) by (simp add: assign_meeting_with_mh_def no_faults_def)
  then show ?thesis using s2(2) assms(8) by (simp add: get_mh_assignment_def)
qed

text \<open>A controller that runs \<open>m\<close> is assigned \<open>m\<close> again.\<close>

definition demo_assign :: "Controller assign_state" where
  "demo_assign = \<lparr>ax_service = assignment_service_new 10 100, ax_store = (empty_redis, []),
     ax_host = fst (snd demo_created)\<rparr>"

theorem duplicate_assignment_wipes_witness:
  "\<exists>x'. assign_meeting_with_mh demo_lua demo_json no_faults
          (controller_create \<lparr>ce_actor = 2, ce_created_at = 0\<rparr>) ''t'' ''m''
          [\<lparr>ma_mh_id = ''h'', ma_webtransport_endpoint = ''w'', ma_grpc_endpoint = ''g''\<rparr>] demo_assign
        = (\<lparr>rs_accepted = False, rs_rejection_reason = RejUnhealthy\<rparr>, x')
     \<and> controller_runs (ax_host x') ''m''
     \<and> get_mh_assignment demo_json NoFault ''m'' (fst (ax_store x')) = (Ok None, fst (ax_store x'))"
proof (rule duplicate_assignment_wipes [OF demo.lua_numbers_axioms, of _ empty_redis 0 _ _ _ "''{}''" _ "[]"])
  show "can_accept_meeting (ax_service demo_assign) = None"
    by (simp add: demo_assign_def can_accept_simps)
  show "controller_runs (ax_host demo_assign) ''m''" by code_simp
qed (simp_all add: gen_at_def empty_redis_def redis_get_def valid_assignments_def demo_json_def demo_assign_def)

text \<open>
  The life of a service: requests one after the other.  Between two of them anything may happen to
  Redis, to the controller and its meetings; nothing in the service touches the counters.
\<close>

inductive assign_run :: "McAssignmentService \<Rightarrow> nat \<Rightarrow> McAssignmentService \<Rightarrow> bool" for sv0 where
  start: "assign_run sv0 0 sv0"
| request: "assign_run sv0 n sv \<Longrightarrow>
    assign_meeting_with_mh L J fs (controller_create env) now mid as
      \<lparr>ax_service = sv, ax_store = st, ax_host = c\<rparr> = (rs, x') \<Longrightarrow>
    assign_run sv0 (if rs_accepted rs then Suc n else n) (ax_service x')"

lemma assign_service:
  assumes "assign_meeting_with_mh L J fs create now mid as x = (rs, x')"
  shows "ax_service x' = (ax_service x)\<lparr>sv_current_meetings :=
      sv_current_meetings (ax_service x) + (if rs_accepted rs then 1 else 0)\<rparr>"
    and "rs_accepted rs \<Longrightarrow> can_accept_meeting (ax_service x) = None"
  using assms
  by (auto simp: assign_meeting_with_mh_def case_prod_unfold split: option.splits sum.splits prod.splits)

lemma unat_Suc_below:
  fixes w :: "'a::len word"
  assumes "w < v"
  shows "unat (w + 1) = Suc (unat w)" and "unat w < unat v"
proof -
  show lt: "unat w < unat v" using assms by (simp add: word_less_nat_alt)
  moreover have "unat v < 2 ^ LENGTH('a)" by (rule unsigned_less)
  ultimately have "Suc (unat w) < 2 ^ LENGTH('a)" by linarith
  then show "unat (w + 1) = Suc (unat w)" by (simp add: unat_word_ariths)
qed

text \<open>
  Over its whole life a service accepts at most \<open>max_meetings\<close> meetings.  Its meeting counter
  equals the number of requests it has accepted so far, for it is never lowered when a meeting ends;
  so once that many have been accepted every further request is refused, however few meetings run.
  Its participant counter stays 0, so the participant limit never applies to the real load.
\<close>

theorem meeting_slots_never_freed:
  assumes "assign_run (assignment_service_new max_m max_p) n sv"
  shows "unat (sv_current_meetings sv) = n \<and> n \<le> unat max_m \<and> sv_current_participants sv = 0
    \<and> sv_max_meetings sv = max_m \<and> \<not> sv_is_draining sv"
  using assms
proof (induction rule: assign_run.induct)
  case start
  show ?case by (simp add: assignment_service_new_def)
next
  case (request n sv L J fs env now mid as st c rs x')
  note sv' = assign_service [OF request.hyps(2)]
  show ?case
  proof (cases "rs_accepted rs")
    case True
    then have "sv_current_meetings sv < max_m"
      using sv'(2) request.IH by (auto simp: can_accept_meeting_def not_le split: if_splits)
    from unat_Suc_below [OF this] show ?thesis using sv'(1) request.IH True by simp
  next
    case False
    then show ?thesis using sv'(1) request.IH by simp
  qed
qed

text \<open>A service for a single meeting that has accepted one.\<close>

theorem meeting_slots_never_freed_witness:
  "assign_run (assignment_service_new 1 100) 1 ((assignment_service_new 1 100)\<lparr>sv_current_meetings := 1\<rparr>)
   \<and> can_accept_meeting ((assignment_service_new 1 100)\<lparr>sv_current_meetings := 1\<rparr>) = Some RejAtCapacity"
proof -
  let ?sv = "assignment_service_new 1 100"
  let ?as = "[\<lparr>ma_mh_id = ''h'', ma_webtransport_endpoint = ''w'', ma_grpc_endpoint = ''g''\<rparr>]"
  let ?x = "\<lparr>ax_service = ?sv, ax_store = (empty_redis, []), ax_host = demo_controller\<rparr>"
  let ?r = "assign_meeting_with_mh demo_lua demo_json no_faults
    (controller_create \<lparr>ce_actor = 1, ce_created_at = 0\<rparr>) ''t'' ''m'' ?as ?x"
  have a: "rs_accepted (fst ?r)"
  proof (rule assign_accepts [OF demo.lua_numbers_axioms, of _ empty_redis 0])
    show "can_accept_meeting (ax_service ?x) = None" by (simp add: can_accept_simps)
    show "fst (controller_create \<lparr>ce_actor = 1, ce_created_at = 0\<rparr> ''m'' (ax_host ?x)) = Ok ()"
      by (simp add: controller_create_def create_meeting_def demo_controller_def controller_new_def)
  qed (simp_all add: gen_at_def empty_redis_def redis_get_def valid_assignments_def demo_json_def)
  have "assign_run ?sv (if rs_accepted (fst ?r) then Suc 0 else 0) (ax_service (snd ?r))"
    by (rule assign_run.request [OF assign_run.start, where rs = "fst ?r" and x' = "snd ?r"]) simp
  with a have run: "assign_run ?sv 1 (ax_service (snd ?r))" by simp
  have sv: "ax_service (snd ?r) = ?sv\<lparr>sv_current_meetings := 1\<rparr>"
    using assign_service(1) [of demo_lua demo_json no_faults _ "''t''" "''m''" ?as ?x "fst ?r" "snd ?r"] a
    by (simp add: assignment_service_new_def)
  have "sv_max_meetings (ax_service (snd ?r)) = 1 \<and> unat (sv_current_meetings (ax_service (snd ?r))) = 1
      \<and> \<not> sv_is_draining (ax_service (snd ?r))"
    using meeting_slots_never_freed [OF run] by simp
  then have "can_accept_meeting (ax_service (snd ?r)) = Some RejAtCapacity"
    by (simp add: can_accept_meeting_def word_le_nat_alt)
  then show ?thesis using run unfolding sv by blast
qed

end
