(* ===== verification/GC_Database.thy ===== *)
theory GC_Database
  imports Prelude
begin

text \<open>
  The Global Controller's tables of Meeting Controllers, Media Handlers and meeting assignments, and
  the repository functions over them (crates/gc-service/src/repositories).

  A table is a list of rows.  A statement is atomic, so each is a function on the tables at the time
  \<open>now\<close> at which it runs (\<open>NOW()\<close>); concurrency between Global Controllers is the order of these
  functions.  Columns that no statement here reads back (creation and update times, resource usage)
  are left out.  A statement with \<open>LIMIT\<close> and no order takes the rows that come first in the list.
  Floating-point numbers are values of a type \<open>'f\<close> with the operations in the parameter \<open>f64_ops\<close>,
  so that nothing is assumed about rounding.  A statement may fail before or after it took effect.
\<close>

section \<open>Errors and health\<close>

datatype GcError =
    GcDatabase string
  | GcInvalidToken string
  | GcNotFound string
  | GcConflict string
  | GcRateLimitExceeded
  | GcForbidden string
  | GcBadRequest string
  | GcServiceUnavailable string
  | GcInternal string

primrec gc_status_code :: "GcError \<Rightarrow> u16" where
  "gc_status_code (GcDatabase _) = 500"
| "gc_status_code (GcInternal _) = 500"
| "gc_status_code (GcInvalidToken _) = 401"
| "gc_status_code (GcNotFound _) = 404"
| "gc_status_code (GcConflict _) = 409"
| "gc_status_code GcRateLimitExceeded = 429"
| "gc_status_code (GcForbidden _) = 403"
| "gc_status_code (GcBadRequest _) = 400"
| "gc_status_code (GcServiceUnavailable _) = 503"

datatype HealthStatus = HsPending | HsHealthy | HsDegraded | HsUnhealthy | HsDraining

definition health_from_proto :: "int \<Rightarrow> HealthStatus" where
  "health_from_proto v = (if v = 0 then HsPending else if v = 1 then HsHealthy else if v = 2 then HsDegraded
     else if v = 3 then HsUnhealthy else if v = 4 then HsDraining else HsUnhealthy)"

primrec as_db_str :: "HealthStatus \<Rightarrow> string" where
  "as_db_str HsPending = ''pending''"
| "as_db_str HsHealthy = ''healthy''"
| "as_db_str HsDegraded = ''degraded''"
| "as_db_str HsUnhealthy = ''unhealthy''"
| "as_db_str HsDraining = ''draining''"

definition from_db_str :: "string \<Rightarrow> HealthStatus" where
  "from_db_str s = (if s = ''pending'' then HsPending else if s = ''healthy'' then HsHealthy
     else if s = ''degraded'' then HsDegraded else if s = ''unhealthy'' then HsUnhealthy
     else if s = ''draining'' then HsDraining else HsUnhealthy)"

section \<open>Tables\<close>

record McRow =
  mr_controller_id :: string
  mr_region :: string
  mr_grpc_endpoint :: string
  mr_webtransport_endpoint :: "string option"
  mr_max_meetings :: int
  mr_current_meetings :: int
  mr_max_participants :: int
  mr_current_participants :: int
  mr_health_status :: string
  mr_last_heartbeat_at :: instant

record MhRow =
  hr_handler_id :: string
  hr_region :: string
  hr_webtransport_endpoint :: string
  hr_grpc_endpoint :: string
  hr_max_streams :: int
  hr_current_streams :: int
  hr_health_status :: string
  hr_last_heartbeat_at :: instant

record MaRow =
  ar_meeting_id :: string
  ar_controller_id :: string
  ar_region :: string
  ar_assigned_at :: instant
  ar_assigned_by_gc_id :: string
  ar_ended_at :: "instant option"

record gc_db =
  db_mcs :: "McRow list"
  db_mhs :: "MhRow list"
  db_assignments :: "MaRow list"

fun db_exec :: "db_fault \<Rightarrow> (gc_db \<Rightarrow> 'a \<times> gc_db) \<Rightarrow> gc_db \<Rightarrow> ('a, GcError) result \<times> gc_db" where
  "db_exec DbOk f db = (Ok (fst (f db)), snd (f db))"
| "db_exec (DbFailBefore e) f db = (Err (GcDatabase e), db)"
| "db_exec (DbFailAfter e) f db = (Err (GcDatabase e), snd (f db))"

definition DEFAULT_HEARTBEAT_STALENESS_SECONDS :: nat where
  "DEFAULT_HEARTBEAT_STALENESS_SECONDS = 30"

definition LOAD_BALANCING_CANDIDATE_COUNT :: nat where
  "LOAD_BALANCING_CANDIDATE_COUNT = 5"

definition DEFAULT_CLEANUP_BATCH_SIZE :: nat where
  "DEFAULT_CLEANUP_BATCH_SIZE = 1000"

text \<open>\<open>t > NOW() - d\<close> and \<open>t < NOW() - d\<close>, without going below the origin of time.\<close>

definition within :: "instant \<Rightarrow> duration \<Rightarrow> instant \<Rightarrow> bool" where
  "within now d t \<longleftrightarrow> now < t + d"

definition older :: "instant \<Rightarrow> duration \<Rightarrow> instant \<Rightarrow> bool" where
  "older now d t \<longleftrightarrow> t + d < now"

text \<open>\<open>t < NOW() - ($1 || ' seconds')::INTERVAL\<close>, where the parameter is a signed integer.\<close>

definition older_secs :: "instant \<Rightarrow> int \<Rightarrow> instant \<Rightarrow> bool" where
  "older_secs now secs t \<longleftrightarrow> int t + secs * int (from_secs 1) < int now"

section \<open>Meeting Controllers\<close>

definition register_mc ::
  "instant \<Rightarrow> string \<Rightarrow> string \<Rightarrow> string \<Rightarrow> string option \<Rightarrow> int \<Rightarrow> int \<Rightarrow> gc_db \<Rightarrow> unit \<times> gc_db"
where
  "register_mc now cid region grpc wt max_meetings max_participants db =
     ((), if \<exists>r \<in> set (db_mcs db). mr_controller_id r = cid
          then db\<lparr>db_mcs := map (\<lambda>r. if mr_controller_id r = cid
                 then r\<lparr>mr_region := region, mr_grpc_endpoint := grpc, mr_webtransport_endpoint := wt,
                        mr_max_meetings := max_meetings, mr_max_participants := max_participants,
                        mr_health_status := ''pending'', mr_last_heartbeat_at := now\<rparr>
                 else r) (db_mcs db)\<rparr>
          else db\<lparr>db_mcs := db_mcs db @
                 [\<lparr>mr_controller_id = cid, mr_region = region, mr_grpc_endpoint = grpc,
                   mr_webtransport_endpoint = wt, mr_max_meetings = max_meetings, mr_current_meetings = 0,
                   mr_max_participants = max_participants, mr_current_participants = 0,
                   mr_health_status = ''pending'', mr_last_heartbeat_at = now\<rparr>]\<rparr>)"

text \<open>The result says whether a row was updated.\<close>

definition update_heartbeat ::
  "instant \<Rightarrow> string \<Rightarrow> int \<Rightarrow> int \<Rightarrow> HealthStatus \<Rightarrow> gc_db \<Rightarrow> bool \<times> gc_db"
where
  "update_heartbeat now cid meetings participants health db =
     (\<exists>r \<in> set (db_mcs db). mr_controller_id r = cid,
      db\<lparr>db_mcs := map (\<lambda>r. if mr_controller_id r = cid
            then r\<lparr>mr_current_meetings := meetings, mr_current_participants := participants,
                   mr_health_status := as_db_str health, mr_last_heartbeat_at := now\<rparr>
            else r) (db_mcs db)\<rparr>)"

definition stale_controller :: "instant \<Rightarrow> int \<Rightarrow> McRow \<Rightarrow> bool" where
  "stale_controller now threshold r \<longleftrightarrow> older_secs now threshold (mr_last_heartbeat_at r)
     \<and> mr_health_status r \<noteq> ''unhealthy'' \<and> mr_health_status r \<noteq> ''draining''"

definition mark_stale_controllers_unhealthy :: "instant \<Rightarrow> int \<Rightarrow> gc_db \<Rightarrow> nat \<times> gc_db" where
  "mark_stale_controllers_unhealthy now threshold db =
     (length (filter (stale_controller now threshold) (db_mcs db)),
      db\<lparr>db_mcs := map (\<lambda>r. if stale_controller now threshold r
            then r\<lparr>mr_health_status := ''unhealthy''\<rparr> else r) (db_mcs db)\<rparr>)"

section \<open>Media Handlers\<close>

definition register_mh ::
  "instant \<Rightarrow> string \<Rightarrow> string \<Rightarrow> string \<Rightarrow> string \<Rightarrow> int \<Rightarrow> gc_db \<Rightarrow> unit \<times> gc_db"
where
  "register_mh now hid region wt grpc max_streams db =
     ((), if \<exists>r \<in> set (db_mhs db). hr_handler_id r = hid
          then db\<lparr>db_mhs := map (\<lambda>r. if hr_handler_id r = hid
                 then r\<lparr>hr_region := region, hr_webtransport_endpoint := wt, hr_grpc_endpoint := grpc,
                        hr_max_streams := max_streams, hr_health_status := ''pending'',
                        hr_last_heartbeat_at := now\<rparr>
                 else r) (db_mhs db)\<rparr>
          else db\<lparr>db_mhs := db_mhs db @
                 [\<lparr>hr_handler_id = hid, hr_region = region, hr_webtransport_endpoint = wt,
                   hr_grpc_endpoint = grpc, hr_max_streams = max_streams, hr_current_streams = 0,
                   hr_health_status = ''pending'', hr_last_heartbeat_at = now\<rparr>]\<rparr>)"

definition update_load_report ::
  "instant \<Rightarrow> string \<Rightarrow> int \<Rightarrow> HealthStatus \<Rightarrow> gc_db \<Rightarrow> bool \<times> gc_db"
where
  "update_load_report now hid streams health db =
     (\<exists>r \<in> set (db_mhs db). hr_handler_id r = hid,
      db\<lparr>db_mhs := map (\<lambda>r. if hr_handler_id r = hid
            then r\<lparr>hr_current_streams := streams, hr_health_status := as_db_str health,
                   hr_last_heartbeat_at := now\<rparr>
            else r) (db_mhs db)\<rparr>)"

definition stale_handler :: "instant \<Rightarrow> int \<Rightarrow> MhRow \<Rightarrow> bool" where
  "stale_handler now threshold r \<longleftrightarrow> older_secs now threshold (hr_last_heartbeat_at r)
     \<and> hr_health_status r \<noteq> ''unhealthy'' \<and> hr_health_status r \<noteq> ''draining''"

definition mark_stale_handlers_unhealthy :: "instant \<Rightarrow> int \<Rightarrow> gc_db \<Rightarrow> nat \<times> gc_db" where
  "mark_stale_handlers_unhealthy now threshold db =
     (length (filter (stale_handler now threshold) (db_mhs db)),
      db\<lparr>db_mhs := map (\<lambda>r. if stale_handler now threshold r
            then r\<lparr>hr_health_status := ''unhealthy''\<rparr> else r) (db_mhs db)\<rparr>)"

section \<open>Candidates\<close>

record 'f f64_ops =
  f_zero :: 'f
  f_one :: 'f
  f_cap :: 'f
  f_of_int :: "int \<Rightarrow> 'f"
  f_add :: "'f \<Rightarrow> 'f \<Rightarrow> 'f"
  f_sub :: "'f \<Rightarrow> 'f \<Rightarrow> 'f"
  f_mul :: "'f \<Rightarrow> 'f \<Rightarrow> 'f"
  f_div :: "'f \<Rightarrow> 'f \<Rightarrow> 'f"
  f_min :: "'f \<Rightarrow> 'f \<Rightarrow> 'f"
  f_le :: "'f \<Rightarrow> 'f \<Rightarrow> bool"

definition sql_load_ratio :: "'f f64_ops \<Rightarrow> int \<Rightarrow> int \<Rightarrow> 'f" where
  "sql_load_ratio F current maximum =
     (if maximum = 0 then f_one F else f_div F (f_of_int F current) (f_of_int F maximum))"

text \<open>\<open>ORDER BY load_ratio ASC, last_heartbeat_at DESC\<close>.\<close>

fun insert_by :: "('a \<Rightarrow> 'a \<Rightarrow> bool) \<Rightarrow> 'a \<Rightarrow> 'a list \<Rightarrow> 'a list" where
  "insert_by le x [] = [x]"
| "insert_by le x (y # ys) = (if le x y then x # y # ys else y # insert_by le x ys)"

definition sort_by :: "('a \<Rightarrow> 'a \<Rightarrow> bool) \<Rightarrow> 'a list \<Rightarrow> 'a list" where
  "sort_by le xs = foldr (insert_by le) xs []"

definition less_loaded :: "'f f64_ops \<Rightarrow> ('r \<Rightarrow> 'f) \<Rightarrow> ('r \<Rightarrow> instant) \<Rightarrow> 'r \<Rightarrow> 'r \<Rightarrow> bool" where
  "less_loaded F ratio heartbeat a b =
     (if f_le F (ratio a) (ratio b) \<and> f_le F (ratio b) (ratio a) then heartbeat b \<le> heartbeat a
      else f_le F (ratio a) (ratio b))"

record 'f McCandidate =
  mcc_controller_id :: string
  mcc_grpc_endpoint :: string
  mcc_webtransport_endpoint :: "string option"
  mcc_load_ratio :: 'f

definition mc_eligible :: "instant \<Rightarrow> string \<Rightarrow> McRow \<Rightarrow> bool" where
  "mc_eligible now region r \<longleftrightarrow> mr_health_status r = ''healthy'' \<and> mr_region r = region
     \<and> mr_current_meetings r < mr_max_meetings r
     \<and> within now (from_secs DEFAULT_HEARTBEAT_STALENESS_SECONDS) (mr_last_heartbeat_at r)"

definition get_candidate_mcs :: "'f f64_ops \<Rightarrow> instant \<Rightarrow> string \<Rightarrow> gc_db \<Rightarrow> 'f McCandidate list \<times> gc_db" where
  "get_candidate_mcs F now region db =
     (map (\<lambda>r. \<lparr>mcc_controller_id = mr_controller_id r, mcc_grpc_endpoint = mr_grpc_endpoint r,
               mcc_webtransport_endpoint = mr_webtransport_endpoint r,
               mcc_load_ratio = sql_load_ratio F (mr_current_meetings r) (mr_max_meetings r)\<rparr>)
       (take LOAD_BALANCING_CANDIDATE_COUNT
         (sort_by (less_loaded F (\<lambda>r. sql_load_ratio F (mr_current_meetings r) (mr_max_meetings r))
                     mr_last_heartbeat_at)
           (filter (mc_eligible now region) (db_mcs db)))), db)"

record 'f MhCandidate =
  mhc_handler_id :: string
  mhc_webtransport_endpoint :: string
  mhc_grpc_endpoint :: string
  mhc_load_ratio :: 'f

definition mh_eligible :: "instant \<Rightarrow> string \<Rightarrow> MhRow \<Rightarrow> bool" where
  "mh_eligible now region r \<longleftrightarrow> hr_health_status r = ''healthy'' \<and> hr_region r = region
     \<and> hr_current_streams r < hr_max_streams r
     \<and> within now (from_secs DEFAULT_HEARTBEAT_STALENESS_SECONDS) (hr_last_heartbeat_at r)"

definition get_candidate_mhs :: "'f f64_ops \<Rightarrow> instant \<Rightarrow> string \<Rightarrow> gc_db \<Rightarrow> 'f MhCandidate list \<times> gc_db" where
  "get_candidate_mhs F now region db =
     (map (\<lambda>r. \<lparr>mhc_handler_id = hr_handler_id r, mhc_webtransport_endpoint = hr_webtransport_endpoint r,
               mhc_grpc_endpoint = hr_grpc_endpoint r,
               mhc_load_ratio = sql_load_ratio F (hr_current_streams r) (hr_max_streams r)\<rparr>)
       (take LOAD_BALANCING_CANDIDATE_COUNT
         (sort_by (less_loaded F (\<lambda>r. sql_load_ratio F (hr_current_streams r) (hr_max_streams r))
                     hr_last_heartbeat_at)
           (filter (mh_eligible now region) (db_mhs db)))), db)"

section \<open>Meeting assignments\<close>

record McAssignment =
  mca_mc_id :: string
  mca_grpc_endpoint :: string
  mca_webtransport_endpoint :: "string option"

text \<open>The rows of a query, of which \<open>fetch_optional\<close> takes the first.\<close>

definition fetch_optional :: "'a list \<Rightarrow> 'a option" where
  "fetch_optional rows = (case rows of [] \<Rightarrow> None | r # _ \<Rightarrow> Some r)"

definition assignment_of :: "MaRow \<Rightarrow> McRow \<Rightarrow> McAssignment" where
  "assignment_of a c = \<lparr>mca_mc_id = ar_controller_id a, mca_grpc_endpoint = mr_grpc_endpoint c,
     mca_webtransport_endpoint = mr_webtransport_endpoint c\<rparr>"

definition join_rows :: "(MaRow \<Rightarrow> McRow \<Rightarrow> bool) \<Rightarrow> gc_db \<Rightarrow> McAssignment list" where
  "join_rows cond db = [assignment_of a c. a \<leftarrow> db_assignments db, c \<leftarrow> db_mcs db,
     ar_controller_id a = mr_controller_id c \<and> cond a c]"

definition join_assignment :: "(MaRow \<Rightarrow> McRow \<Rightarrow> bool) \<Rightarrow> gc_db \<Rightarrow> McAssignment option" where
  "join_assignment cond db = fetch_optional (join_rows cond db)"

definition controller_live :: "instant \<Rightarrow> McRow \<Rightarrow> bool" where
  "controller_live now c \<longleftrightarrow> mr_health_status c = ''healthy''
     \<and> within now (from_secs DEFAULT_HEARTBEAT_STALENESS_SECONDS) (mr_last_heartbeat_at c)"

definition get_healthy_assignment :: "instant \<Rightarrow> string \<Rightarrow> string \<Rightarrow> gc_db \<Rightarrow> McAssignment option \<times> gc_db" where
  "get_healthy_assignment now mid region db =
     (join_assignment (\<lambda>a c. ar_meeting_id a = mid \<and> ar_region a = region \<and> ar_ended_at a = None
        \<and> controller_live now c) db, db)"

definition get_current_assignment :: "string \<Rightarrow> string \<Rightarrow> gc_db \<Rightarrow> McAssignment option \<times> gc_db" where
  "get_current_assignment mid region db =
     (join_assignment (\<lambda>a c. ar_meeting_id a = mid \<and> ar_region a = region \<and> ar_ended_at a = None) db, db)"

text \<open>
  The upsert of \<open>atomic_assign\<close>: insert, or on a conflict over the primary key update the row when its
  controller is not healthy or stale; the result is the returned row, if any.  A controller that is
  not in its table violates the foreign key.
\<close>

definition controller_failed :: "instant \<Rightarrow> McRow \<Rightarrow> bool" where
  "controller_failed now c \<longleftrightarrow> mr_health_status c \<noteq> ''healthy''
     \<or> older now (from_secs DEFAULT_HEARTBEAT_STALENESS_SECONDS) (mr_last_heartbeat_at c)"

definition upsert_assignment ::
  "instant \<Rightarrow> string \<Rightarrow> string \<Rightarrow> string \<Rightarrow> string \<Rightarrow> gc_db \<Rightarrow> (string option, string) result \<times> gc_db"
where
  "upsert_assignment now mid region cid gc db =
     (let known = (\<exists>c \<in> set (db_mcs db). mr_controller_id c = cid);
          violation = (Err ''foreign key violation'', db);
          hits = (\<lambda>a. ar_meeting_id a = mid \<and> ar_region a = region)
      in case find hits (db_assignments db) of
           None \<Rightarrow>
             if known
             then (Ok (Some cid), db\<lparr>db_assignments := db_assignments db @
                     [\<lparr>ar_meeting_id = mid, ar_controller_id = cid, ar_region = region,
                       ar_assigned_at = now, ar_assigned_by_gc_id = gc, ar_ended_at = None\<rparr>]\<rparr>)
             else violation
         | Some a \<Rightarrow>
             if \<exists>c \<in> set (db_mcs db). mr_controller_id c = ar_controller_id a \<and> controller_failed now c
             then if known
                  then (Ok (Some cid), db\<lparr>db_assignments := map (\<lambda>b. if hits b
                          then b\<lparr>ar_controller_id := cid, ar_assigned_by_gc_id := gc, ar_assigned_at := now\<rparr>
                          else b) (db_assignments db)\<rparr>)
                  else violation
             else (Ok None, db))"

text \<open>
  The two statements of \<open>atomic_assign\<close>; \<open>others\<close> is what other Global Controllers do to the tables
  between them.
\<close>

definition atomic_assign ::
  "db_fault \<Rightarrow> db_fault \<Rightarrow> instant \<Rightarrow> (gc_db \<Rightarrow> gc_db) \<Rightarrow> string \<Rightarrow> string \<Rightarrow> 'f McCandidate \<Rightarrow> string
     \<Rightarrow> gc_db \<Rightarrow> (McAssignment, GcError) result \<times> gc_db"
where
  "atomic_assign f1 f2 now others mid region mc gc db =
     (case db_exec f1 (upsert_assignment now mid region (mcc_controller_id mc) gc) db of
        (Inl e, db1) \<Rightarrow> (Err e, db1)
      | (Inr (Inl e), db1) \<Rightarrow> (Err (GcDatabase e), db1)
      | (Inr (Inr (Some _)), db1) \<Rightarrow>
          (Ok \<lparr>mca_mc_id = mcc_controller_id mc, mca_grpc_endpoint = mcc_grpc_endpoint mc,
               mca_webtransport_endpoint = mcc_webtransport_endpoint mc\<rparr>, db1)
      | (Inr (Inr None), db1) \<Rightarrow>
          (case db_exec f2 (get_current_assignment mid region) (others db1) of
             (Inl e, db2) \<Rightarrow> (Err e, db2)
           | (Inr (Some current), db2) \<Rightarrow> (Ok current, db2)
           | (Inr None, db2) \<Rightarrow>
               (Err (GcServiceUnavailable ''Failed to assign meeting controller - please retry''), db2)))"

definition ends_with :: "string \<Rightarrow> string option \<Rightarrow> MaRow \<Rightarrow> bool" where
  "ends_with mid region a \<longleftrightarrow> ar_meeting_id a = mid \<and> ar_ended_at a = None
     \<and> (case region of None \<Rightarrow> True | Some r \<Rightarrow> ar_region a = r)"

text \<open>The result of the next three is the number of rows affected.\<close>

definition end_assignment :: "instant \<Rightarrow> string \<Rightarrow> string option \<Rightarrow> gc_db \<Rightarrow> nat \<times> gc_db" where
  "end_assignment now mid region db =
     (length (filter (ends_with mid region) (db_assignments db)),
      db\<lparr>db_assignments := map (\<lambda>a. if ends_with mid region a then a\<lparr>ar_ended_at := Some now\<rparr> else a)
           (db_assignments db)\<rparr>)"

definition stale_assignment :: "instant \<Rightarrow> int \<Rightarrow> gc_db \<Rightarrow> MaRow \<Rightarrow> bool" where
  "stale_assignment now hours db a \<longleftrightarrow> ar_ended_at a = None
     \<and> older_secs now (3600 * hours) (ar_assigned_at a)
     \<and> (\<exists>c \<in> set (db_mcs db). mr_controller_id c = ar_controller_id a \<and> mr_health_status c \<noteq> ''healthy'')"

definition end_stale_assignments :: "instant \<Rightarrow> int \<Rightarrow> nat option \<Rightarrow> gc_db \<Rightarrow> nat \<times> gc_db" where
  "end_stale_assignments now hours batch db =
     (let limit = (case batch of None \<Rightarrow> DEFAULT_CLEANUP_BATCH_SIZE | Some n \<Rightarrow> n);
          ids = map ar_meeting_id (take limit (filter (stale_assignment now hours db) (db_assignments db)))
      in (length (filter (\<lambda>a. ar_meeting_id a \<in> set ids) (db_assignments db)),
          db\<lparr>db_assignments := map (\<lambda>a. if ar_meeting_id a \<in> set ids then a\<lparr>ar_ended_at := Some now\<rparr> else a)
               (db_assignments db)\<rparr>))"

definition expired_assignment :: "instant \<Rightarrow> int \<Rightarrow> MaRow \<Rightarrow> bool" where
  "expired_assignment now days a \<longleftrightarrow>
     (case ar_ended_at a of None \<Rightarrow> False | Some t \<Rightarrow> older_secs now (86400 * days) t)"

definition cleanup_old_assignments :: "instant \<Rightarrow> int \<Rightarrow> nat option \<Rightarrow> gc_db \<Rightarrow> nat \<times> gc_db" where
  "cleanup_old_assignments now days batch db =
     (let limit = (case batch of None \<Rightarrow> DEFAULT_CLEANUP_BATCH_SIZE | Some n \<Rightarrow> n);
          ids = map ar_meeting_id (take limit (filter (expired_assignment now days) (db_assignments db)))
      in (length (filter (\<lambda>a. ar_meeting_id a \<in> set ids) (db_assignments db)),
          db\<lparr>db_assignments := filter (\<lambda>a. ar_meeting_id a \<notin> set ids) (db_assignments db)\<rparr>))"

section \<open>Keys\<close>

definition ar_key :: "MaRow \<Rightarrow> string \<times> string" where
  "ar_key a = (ar_meeting_id a, ar_region a)"

definition db_wf :: "gc_db \<Rightarrow> bool" where
  "db_wf db \<longleftrightarrow> distinct (map mr_controller_id (db_mcs db)) \<and> distinct (map ar_key (db_assignments db))
     \<and> (\<forall>a \<in> set (db_assignments db). ar_controller_id a \<in> mr_controller_id ` set (db_mcs db))"

lemma map_update_keys: "(\<And>x. key (g x) = key x) \<Longrightarrow> map key (map g xs) = map key xs"
  by simp

lemma ar_key_updates [simp]:
  "ar_key (a\<lparr>ar_ended_at := t\<rparr>) = ar_key a"
  "ar_key (a\<lparr>ar_controller_id := c, ar_assigned_by_gc_id := g, ar_assigned_at := s\<rparr>) = ar_key a"
  by (simp_all add: ar_key_def)

lemma map_if_keys [simp]:
  "map ar_key (map (\<lambda>a. if P a then a\<lparr>ar_ended_at := t\<rparr> else a) xs) = map ar_key xs"
  "map ar_key (map (\<lambda>a. if P a then a\<lparr>ar_controller_id := c, ar_assigned_by_gc_id := g, ar_assigned_at := s\<rparr> else a) xs)
     = map ar_key xs"
  by (induction xs) (auto simp: ar_key_def)

lemma find_key_None: "find (\<lambda>a. ar_meeting_id a = mid \<and> ar_region a = region) xs = None \<longleftrightarrow> (mid, region) \<notin> ar_key ` set xs"
  by (auto simp: find_None_iff ar_key_def)

lemma upsert_wf [wf_intros]:
  assumes "db_wf db"
  shows "db_wf (snd (upsert_assignment now mid region cid gc db))"
  using assms
  by (auto simp: upsert_assignment_def db_wf_def Let_def find_key_None ar_key_def image_iff
      simp del: map_map split: option.split)

lemma end_assignment_wf [wf_intros]: "db_wf db \<Longrightarrow> db_wf (snd (end_assignment now mid region db))"
  by (auto simp: end_assignment_def db_wf_def simp del: map_map)

lemma end_stale_wf [wf_intros]: "db_wf db \<Longrightarrow> db_wf (snd (end_stale_assignments now h batch db))"
  by (auto simp: end_stale_assignments_def db_wf_def Let_def simp del: map_map)

lemma cleanup_wf [wf_intros]: "db_wf db \<Longrightarrow> db_wf (snd (cleanup_old_assignments now d batch db))"
  by (auto simp: cleanup_old_assignments_def db_wf_def Let_def distinct_map_filter)

lemma mc_update_wf:
  assumes "db_wf db" and "\<And>r. mr_controller_id (g r) = mr_controller_id r"
  shows "db_wf (db\<lparr>db_mcs := map g (db_mcs db)\<rparr>)"
proof -
  have "map mr_controller_id (map g (db_mcs db)) = map mr_controller_id (db_mcs db)"
    by (simp add: assms(2))
  moreover from this have "mr_controller_id ` set (map g (db_mcs db)) = mr_controller_id ` set (db_mcs db)"
    by (metis list.set_map)
  ultimately show ?thesis using assms(1) by (simp add: db_wf_def del: map_map set_map list.set_map)
qed

lemma register_mc_wf [wf_intros]: "db_wf db \<Longrightarrow> db_wf (snd (register_mc now cid region grpc wt mm mp db))"
proof (cases "\<exists>r \<in> set (db_mcs db). mr_controller_id r = cid")
  case True
  assume "db_wf db"
  then show ?thesis using True unfolding register_mc_def
    by (simp only: if_True snd_conv) (rule mc_update_wf, simp_all)
next
  case False
  assume "db_wf db"
  with False show ?thesis by (auto simp: register_mc_def db_wf_def)
qed

lemma update_heartbeat_wf [wf_intros]: "db_wf db \<Longrightarrow> db_wf (snd (update_heartbeat now cid m p h db))"
  unfolding update_heartbeat_def snd_conv by (rule mc_update_wf) simp_all

lemma mark_stale_wf [wf_intros]: "db_wf db \<Longrightarrow> db_wf (snd (mark_stale_controllers_unhealthy now t db))"
  unfolding mark_stale_controllers_unhealthy_def snd_conv by (rule mc_update_wf) simp_all

section \<open>Looking an assignment up\<close>

lemma distinct_map_inj: "distinct (map f xs) \<Longrightarrow> x \<in> set xs \<Longrightarrow> y \<in> set xs \<Longrightarrow> f x = f y \<Longrightarrow> x = y"
  by (meson distinct_map inj_onD)

lemma set_join_rows:
  "set (join_rows cond db) = {assignment_of a c | a c. a \<in> set (db_assignments db) \<and> c \<in> set (db_mcs db)
     \<and> ar_controller_id a = mr_controller_id c \<and> cond a c}"
  by (auto simp: join_rows_def)

lemma fetch_set_empty: "set rows = {} \<Longrightarrow> fetch_optional rows = None"
  by (simp add: fetch_optional_def)

lemma fetch_set_single: "set rows = {x} \<Longrightarrow> fetch_optional rows = Some x"
  by (cases rows) (auto simp: fetch_optional_def)

lemma join_unique:
  assumes "db_wf db" and "a \<in> set (db_assignments db)" and "ar_key a = (mid, region)"
    and "c \<in> set (db_mcs db)" and "mr_controller_id c = ar_controller_id a"
  shows "join_assignment (\<lambda>a c. ar_meeting_id a = mid \<and> ar_region a = region \<and> P a c) db
    = (if P a c then Some (assignment_of a c) else None)"
proof -
  have a: "a' = a" if "a' \<in> set (db_assignments db)" "ar_meeting_id a' = mid" "ar_region a' = region" for a'
    using distinct_map_inj [of ar_key "db_assignments db" a' a] assms(1-3) that by (simp add: db_wf_def ar_key_def)
  have c: "c' = c" if "c' \<in> set (db_mcs db)" "mr_controller_id c' = ar_controller_id a" for c'
    using distinct_map_inj [of mr_controller_id "db_mcs db" c' c] assms(1,4,5) that by (simp add: db_wf_def)
  have key: "ar_meeting_id a = mid" "ar_region a = region" using assms(3) by (simp_all add: ar_key_def)
  have match: "a' \<in> set (db_assignments db) \<and> c' \<in> set (db_mcs db) \<and> ar_controller_id a' = mr_controller_id c'
      \<and> ar_meeting_id a' = mid \<and> ar_region a' = region \<and> P a' c' \<longleftrightarrow> a' = a \<and> c' = c \<and> P a c" for a' c'
  proof
    assume h: "a' \<in> set (db_assignments db) \<and> c' \<in> set (db_mcs db) \<and> ar_controller_id a' = mr_controller_id c'
      \<and> ar_meeting_id a' = mid \<and> ar_region a' = region \<and> P a' c'"
    then have "a' = a" by (intro a) simp_all
    moreover from this h have "c' = c" by (intro c) simp_all
    ultimately show "a' = a \<and> c' = c \<and> P a c" using h by simp
  next
    assume "a' = a \<and> c' = c \<and> P a c"
    then show "a' \<in> set (db_assignments db) \<and> c' \<in> set (db_mcs db) \<and> ar_controller_id a' = mr_controller_id c'
      \<and> ar_meeting_id a' = mid \<and> ar_region a' = region \<and> P a' c'"
      using assms(2,4,5) key by simp
  qed
  have "set (join_rows (\<lambda>a c. ar_meeting_id a = mid \<and> ar_region a = region \<and> P a c) db)
      = (if P a c then {assignment_of a c} else {})"
    unfolding set_join_rows match by auto
  then show ?thesis
    unfolding join_assignment_def using fetch_set_empty fetch_set_single by (auto split: if_splits)
qed

lemma join_none:
  assumes "\<And>a c. a \<in> set (db_assignments db) \<Longrightarrow> ar_key a = (mid, region) \<Longrightarrow> \<not> P a c"
  shows "join_assignment (\<lambda>a c. ar_meeting_id a = mid \<and> ar_region a = region \<and> P a c) db = None"
  unfolding join_assignment_def
  by (rule fetch_set_empty) (auto simp: set_join_rows ar_key_def dest: assms)

lemma find_key:
  assumes "db_wf db" and "a \<in> set (db_assignments db)" and "ar_key a = (mid, region)"
  shows "find (\<lambda>a. ar_meeting_id a = mid \<and> ar_region a = region) (db_assignments db) = Some a"
proof -
  let ?P = "\<lambda>a. ar_meeting_id a = mid \<and> ar_region a = region"
  obtain b where b: "find ?P (db_assignments db) = Some b"
    using assms(2,3) find_None_iff [of ?P "db_assignments db"] by (cases "find ?P (db_assignments db)") (auto simp: ar_key_def)
  then have "b \<in> set (db_assignments db)" "?P b" by (auto simp: find_Some_iff)
  then have "b = a"
    using distinct_map_inj [of ar_key "db_assignments db" b a] assms by (simp add: db_wf_def ar_key_def)
  with b show ?thesis by simp
qed

lemma owner_failed:
  assumes "db_wf db" and "c \<in> set (db_mcs db)" and "mr_controller_id c = k"
  shows "(\<exists>c \<in> set (db_mcs db). mr_controller_id c = k \<and> controller_failed now c) \<longleftrightarrow> controller_failed now c"
  using assms distinct_map_inj [of mr_controller_id "db_mcs db"] by (auto simp: db_wf_def)

section \<open>Properties\<close>

text \<open>The row of a candidate, as the query that found it read it.\<close>

definition candidate_row :: "'f McCandidate \<Rightarrow> McRow \<Rightarrow> bool" where
  "candidate_row mc c \<longleftrightarrow> mr_controller_id c = mcc_controller_id mc
     \<and> mr_grpc_endpoint c = mcc_grpc_endpoint mc \<and> mr_webtransport_endpoint c = mcc_webtransport_endpoint mc"

definition offer_of :: "'f McCandidate \<Rightarrow> McAssignment" where
  "offer_of mc = \<lparr>mca_mc_id = mcc_controller_id mc, mca_grpc_endpoint = mcc_grpc_endpoint mc,
     mca_webtransport_endpoint = mcc_webtransport_endpoint mc\<rparr>"

text \<open>The upsert, by the state of the row it meets.\<close>

lemma upsert_fresh:
  assumes "(mid, region) \<notin> ar_key ` set (db_assignments db)" and "c \<in> set (db_mcs db)" and "mr_controller_id c = cid"
  shows "upsert_assignment now mid region cid gc db = (Ok (Some cid), db\<lparr>db_assignments := db_assignments db @
     [\<lparr>ar_meeting_id = mid, ar_controller_id = cid, ar_region = region, ar_assigned_at = now,
       ar_assigned_by_gc_id = gc, ar_ended_at = None\<rparr>]\<rparr>)"
proof -
  have "\<exists>c \<in> set (db_mcs db). mr_controller_id c = cid" using assms(2,3) by blast
  moreover have "find (\<lambda>a. ar_meeting_id a = mid \<and> ar_region a = region) (db_assignments db) = None"
    using assms(1) by (simp add: find_key_None)
  ultimately show ?thesis by (simp add: upsert_assignment_def Let_def)
qed

definition taken_over :: "instant \<Rightarrow> string \<Rightarrow> string \<Rightarrow> string \<Rightarrow> string \<Rightarrow> gc_db \<Rightarrow> gc_db" where
  "taken_over now mid region cid gc db = db\<lparr>db_assignments := map (\<lambda>b. if ar_meeting_id b = mid \<and> ar_region b = region
     then b\<lparr>ar_controller_id := cid, ar_assigned_by_gc_id := gc, ar_assigned_at := now\<rparr> else b) (db_assignments db)\<rparr>"

lemma upsert_existing:
  assumes "db_wf db" and "a \<in> set (db_assignments db)" and "ar_key a = (mid, region)"
    and "q \<in> set (db_mcs db)" and "mr_controller_id q = ar_controller_id a"
    and "c \<in> set (db_mcs db)" and "mr_controller_id c = cid"
  shows "upsert_assignment now mid region cid gc db =
    (if controller_failed now q then (Ok (Some cid), taken_over now mid region cid gc db) else (Ok None, db))"
proof -
  have "\<exists>c \<in> set (db_mcs db). mr_controller_id c = cid" using assms(6,7) by blast
  then show ?thesis
    using find_key [OF assms(1,2,3)] owner_failed [OF assms(1,4), of "ar_controller_id a" now] assms(5)
    by (simp add: upsert_assignment_def Let_def taken_over_def)
qed

lemma taken_over_row:
  assumes "a \<in> set (db_assignments db)" and "ar_key a = (mid, region)"
  shows "a\<lparr>ar_controller_id := cid, ar_assigned_by_gc_id := gc, ar_assigned_at := now\<rparr>
    \<in> set (db_assignments (taken_over now mid region cid gc db))"
  using assms by (force simp: taken_over_def ar_key_def)

lemma taken_over_origin:
  assumes "b \<in> set (db_assignments (taken_over now mid region cid gc db))"
  obtains b0 where "b0 \<in> set (db_assignments db)" and "ar_key b = ar_key b0" and "ar_ended_at b = ar_ended_at b0"
  using assms by (auto simp: taken_over_def ar_key_def split: if_splits)

lemma taken_over_mcs [simp]: "db_mcs (taken_over now mid region cid gc db) = db_mcs db"
  by (simp add: taken_over_def)

text \<open>One call, on a meeting without a row or with one that has not ended.\<close>

lemma atomic_assign_current:
  assumes "db_wf db" and "c \<in> set (db_mcs db)" and "candidate_row mc c"
    and "\<forall>a \<in> set (db_assignments db). ar_key a = (mid, region) \<longrightarrow> ar_ended_at a = None"
  shows "\<exists>w db'. atomic_assign DbOk DbOk now (\<lambda>d. d) mid region mc gc db = (Ok w, db')
    \<and> db_wf db' \<and> db_mcs db' = db_mcs db
    \<and> (\<forall>a \<in> set (db_assignments db'). ar_key a = (mid, region) \<longrightarrow> ar_ended_at a = None)
    \<and> get_current_assignment mid region db' = (Some w, db')
    \<and> (w = offer_of mc \<or> (db' = db \<and> (\<exists>a \<in> set (db_assignments db). \<exists>q \<in> set (db_mcs db).
          ar_key a = (mid, region) \<and> w = assignment_of a q \<and> \<not> controller_failed now q)))"
proof (cases "(mid, region) \<in> ar_key ` set (db_assignments db)")
  case False
  let ?new = "\<lparr>ar_meeting_id = mid, ar_controller_id = mcc_controller_id mc, ar_region = region, ar_assigned_at = now,
    ar_assigned_by_gc_id = gc, ar_ended_at = None\<rparr>"
  let ?db = "db\<lparr>db_assignments := db_assignments db @ [?new]\<rparr>"
  have cid: "mr_controller_id c = mcc_controller_id mc" using assms(3) by (simp add: candidate_row_def)
  have up: "upsert_assignment now mid region (mcc_controller_id mc) gc db = (Ok (Some (mcc_controller_id mc)), ?db)"
    by (rule upsert_fresh [OF False assms(2) cid])
  have wf: "db_wf ?db" using upsert_wf [OF assms(1), of now mid region "mcc_controller_id mc" gc] up by simp
  have "fst (get_current_assignment mid region ?db) = Some (assignment_of ?new c)"
    using join_unique [OF wf, of ?new mid region c "\<lambda>a c. ar_ended_at a = None"] assms(2) cid
    by (simp add: get_current_assignment_def ar_key_def)
  moreover have "assignment_of ?new c = offer_of mc"
    using assms(3) by (simp add: assignment_of_def offer_of_def candidate_row_def)
  ultimately show ?thesis using up wf assms(4)
    by (auto simp: atomic_assign_def offer_of_def get_current_assignment_def)
next
  case True
  then obtain a where a: "a \<in> set (db_assignments db)" "ar_key a = (mid, region)" by auto
  then obtain q where q: "q \<in> set (db_mcs db)" "mr_controller_id q = ar_controller_id a"
    using assms(1) by (auto simp: db_wf_def)
  have cid: "mr_controller_id c = mcc_controller_id mc" using assms(3) by (simp add: candidate_row_def)
  note up = upsert_existing [OF assms(1) a q assms(2) cid, of now gc]
  show ?thesis
  proof (cases "controller_failed now q")
    case True
    let ?db = "taken_over now mid region (mcc_controller_id mc) gc db"
    let ?a = "a\<lparr>ar_controller_id := mcc_controller_id mc, ar_assigned_by_gc_id := gc, ar_assigned_at := now\<rparr>"
    have wf: "db_wf ?db" using upsert_wf [OF assms(1), of now mid region "mcc_controller_id mc" gc] up True by simp
    have "fst (get_current_assignment mid region ?db) = Some (assignment_of ?a c)"
      using join_unique [OF wf taken_over_row [OF a], of mid region c "\<lambda>a c. ar_ended_at a = None"]
        assms(2,4) a cid by (simp add: get_current_assignment_def taken_over_def ar_key_def)
    moreover have "assignment_of ?a c = offer_of mc"
      using assms(3) by (simp add: assignment_of_def offer_of_def candidate_row_def)
    moreover have "\<forall>a \<in> set (db_assignments ?db). ar_key a = (mid, region) \<longrightarrow> ar_ended_at a = None"
      using assms(4) by (metis taken_over_origin)
    moreover have "atomic_assign DbOk DbOk now (\<lambda>d. d) mid region mc gc db = (Ok (offer_of mc), ?db)"
      using up True by (simp add: atomic_assign_def offer_of_def)
    moreover have "get_current_assignment mid region ?db = (fst (get_current_assignment mid region ?db), ?db)"
      by (simp add: get_current_assignment_def)
    ultimately show ?thesis using wf taken_over_mcs by metis
  next
    case False
    have "get_current_assignment mid region db = (Some (assignment_of a q), db)"
      using join_unique [OF assms(1) a q, of "\<lambda>a c. ar_ended_at a = None"] assms(4) a
      by (simp add: get_current_assignment_def)
    then show ?thesis using up False assms(1,4) a q by (auto simp: atomic_assign_def)
  qed
qed

lemma atomic_assign_live:
  assumes "db_wf db" and "c \<in> set (db_mcs db)" and "candidate_row mc c"
    and "get_current_assignment mid region db = (Some w, db)"
    and "\<And>q. q \<in> set (db_mcs db) \<Longrightarrow> mr_controller_id q = mca_mc_id w \<Longrightarrow> \<not> controller_failed now q"
  shows "atomic_assign DbOk DbOk now (\<lambda>d. d) mid region mc gc db = (Ok w, db)"
proof -
  have "w \<in> set (join_rows (\<lambda>a c. ar_meeting_id a = mid \<and> ar_region a = region \<and> ar_ended_at a = None) db)"
    using assms(4) by (auto simp: get_current_assignment_def join_assignment_def fetch_optional_def split: list.splits)
  then obtain a q where a: "a \<in> set (db_assignments db)" "ar_key a = (mid, region)"
    and q: "q \<in> set (db_mcs db)" "mr_controller_id q = ar_controller_id a" and w: "w = assignment_of a q"
    by (auto simp: set_join_rows ar_key_def)
  have cid: "mr_controller_id c = mcc_controller_id mc" using assms(3) by (simp add: candidate_row_def)
  have "\<not> controller_failed now q" using assms(5) [OF q(1)] q(2) w by (simp add: assignment_of_def)
  then show ?thesis
    using upsert_existing [OF assms(1) a q assms(2) cid, of now gc] assms(4) by (simp add: atomic_assign_def)
qed

text \<open>
  One winner.  Let two Global Controllers assign the same meeting of a region, one after the other
  by their first statements, where the meeting has no row yet or one that has not ended.  Both calls
  succeed; each returns the assignment that is current after it, which is the one it offered or an
  existing one; and as long as the first winner's controller is alive at the second call, both return
  the same assignment and the second changes nothing.
\<close>

theorem atomic_assign_one_winner:
  assumes "db_wf db" and "c1 \<in> set (db_mcs db)" and "candidate_row mc1 c1"
    and "c2 \<in> set (db_mcs db)" and "candidate_row mc2 c2"
    and "\<forall>a \<in> set (db_assignments db). ar_key a = (mid, region) \<longrightarrow> ar_ended_at a = None"
    and "atomic_assign DbOk DbOk now1 (\<lambda>d. d) mid region mc1 gc1 db = (r1, db1)"
    and "atomic_assign DbOk DbOk now2 (\<lambda>d. d) mid region mc2 gc2 db1 = (r2, db2)"
  shows "\<exists>w1 w2. r1 = Ok w1 \<and> r2 = Ok w2 \<and> db_wf db2
    \<and> get_current_assignment mid region db1 = (Some w1, db1)
    \<and> get_current_assignment mid region db2 = (Some w2, db2)
    \<and> (w1 = offer_of mc1 \<or> db1 = db) \<and> (w2 = offer_of mc2 \<or> db2 = db1)
    \<and> ((\<forall>q \<in> set (db_mcs db). mr_controller_id q = mca_mc_id w1 \<longrightarrow> \<not> controller_failed now2 q)
        \<longrightarrow> w2 = w1 \<and> db2 = db1)"
proof -
  obtain w1 where w1: "r1 = Ok w1" "db_wf db1" "db_mcs db1 = db_mcs db"
      "\<forall>a \<in> set (db_assignments db1). ar_key a = (mid, region) \<longrightarrow> ar_ended_at a = None"
      "get_current_assignment mid region db1 = (Some w1, db1)" "w1 = offer_of mc1 \<or> db1 = db"
    using atomic_assign_current [OF assms(1-3,6), of now1 gc1] assms(7) by auto
  have c2: "c2 \<in> set (db_mcs db1)" using assms(4) w1(3) by simp
  obtain w2 where w2: "r2 = Ok w2" "db_wf db2" "get_current_assignment mid region db2 = (Some w2, db2)"
      "w2 = offer_of mc2 \<or> db2 = db1"
    using atomic_assign_current [OF w1(2) c2 assms(5) w1(4), of now2 gc2] assms(8) by auto
  have "w2 = w1 \<and> db2 = db1"
    if "\<forall>q \<in> set (db_mcs db). mr_controller_id q = mca_mc_id w1 \<longrightarrow> \<not> controller_failed now2 q"
    using atomic_assign_live [OF w1(2) c2 assms(5) w1(5), of now2 gc2] that w1(3) assms(8) w2(1) by auto
  then show ?thesis using w1 w2 by blast
qed

text \<open>
  An ended assignment blocks its meeting.  When the row of a meeting and region has ended, which
  is how a meeting's end is recorded, no later call of \<open>atomic_assign\<close> makes the meeting assigned
  again: if the old controller is alive the call fails and changes nothing, and if it has failed the
  call reports the new controller but the row stays ended, so that no lookup finds it.
\<close>

theorem ended_assignment_blocks:
  assumes "db_wf db" and "c \<in> set (db_mcs db)" and "candidate_row mc c"
    and "a \<in> set (db_assignments db)" and "ar_key a = (mid, region)" and "ar_ended_at a \<noteq> None"
    and "q \<in> set (db_mcs db)" and "mr_controller_id q = ar_controller_id a"
    and "atomic_assign DbOk DbOk now (\<lambda>d. d) mid region mc gc db = (r, db')"
  shows "(if controller_failed now q then r = Ok (offer_of mc)
          else r = Err (GcServiceUnavailable ''Failed to assign meeting controller - please retry'') \<and> db' = db)
    \<and> get_current_assignment mid region db' = (None, db')
    \<and> (\<forall>t. get_healthy_assignment t mid region db' = (None, db'))"
proof -
  have cid: "mr_controller_id c = mcc_controller_id mc" using assms(3) by (simp add: candidate_row_def)
  note up = upsert_existing [OF assms(1,4,5,7,8,2) cid, of now gc]
  have ended: "ar_ended_at b \<noteq> None" if "b \<in> set (db_assignments db)" "ar_key b = (mid, region)" for b
    using distinct_map_inj [of ar_key "db_assignments db" b a] assms(1,4,5,6) that by (simp add: db_wf_def)
  have ended': "ar_ended_at b \<noteq> None"
    if "b \<in> set (db_assignments (taken_over now mid region cid2 gc db))" "ar_key b = (mid, region)" for b cid2
  proof -
    from that(1) obtain b0 where b0: "b0 \<in> set (db_assignments db)" and eq: "ar_key b = ar_key b0" "ar_ended_at b = ar_ended_at b0"
      by (rule taken_over_origin)
    with ended [OF b0] that(2) show ?thesis by simp
  qed
  have none: "get_current_assignment mid region d = (None, d)" "get_healthy_assignment t mid region d = (None, d)"
    if "\<And>b. b \<in> set (db_assignments d) \<Longrightarrow> ar_key b = (mid, region) \<Longrightarrow> ar_ended_at b \<noteq> None" for d t
    using join_none [of d mid region "\<lambda>a c. ar_ended_at a = None"]
      join_none [of d mid region "\<lambda>a c. ar_ended_at a = None \<and> controller_live t c"] that
    by (auto simp: get_current_assignment_def get_healthy_assignment_def)
  show ?thesis
  proof (cases "controller_failed now q")
    case True
    then have "r = Ok (offer_of mc)" "db' = taken_over now mid region (mcc_controller_id mc) gc db"
      using up assms(9) by (auto simp: atomic_assign_def offer_of_def)
    then show ?thesis using True none [OF ended'] by simp
  next
    case False
    then have "r = Err (GcServiceUnavailable ''Failed to assign meeting controller - please retry'')" "db' = db"
      using up assms(9) none(1) [OF ended] by (auto simp: atomic_assign_def)
    then show ?thesis using False none [OF ended] by simp
  qed
qed

text \<open>Two controllers, the meeting \<open>m\<close> assigned in one region and ended in another.\<close>

definition demo_mc :: "string \<Rightarrow> McRow" where
  "demo_mc cid = \<lparr>mr_controller_id = cid, mr_region = ''r'', mr_grpc_endpoint = ''g'',
     mr_webtransport_endpoint = None, mr_max_meetings = 10, mr_current_meetings = 0,
     mr_max_participants = 10, mr_current_participants = 0, mr_health_status = ''healthy'',
     mr_last_heartbeat_at = 0\<rparr>"

definition demo_ma :: "string \<Rightarrow> instant option \<Rightarrow> MaRow" where
  "demo_ma region ended = \<lparr>ar_meeting_id = ''m'', ar_controller_id = ''c1'', ar_region = region,
     ar_assigned_at = 0, ar_assigned_by_gc_id = ''gc'', ar_ended_at = ended\<rparr>"

definition demo_db :: gc_db where
  "demo_db = \<lparr>db_mcs = [demo_mc ''c1'', demo_mc ''c2''], db_mhs = [],
     db_assignments = [demo_ma ''r'' None, demo_ma ''s'' (Some 0)]\<rparr>"

definition demo_candidate :: "unit McCandidate" where
  "demo_candidate = \<lparr>mcc_controller_id = ''c2'', mcc_grpc_endpoint = ''g'', mcc_webtransport_endpoint = None,
     mcc_load_ratio = ()\<rparr>"

lemma demo_db_wf: "db_wf demo_db"
  by (simp add: db_wf_def demo_db_def demo_mc_def demo_ma_def ar_key_def)

lemma demo_live: "\<not> controller_failed 1 (demo_mc cid)"
  by (simp add: controller_failed_def older_def demo_mc_def from_secs_def DEFAULT_HEARTBEAT_STALENESS_SECONDS_def)

theorem atomic_assign_one_winner_witness:
  "\<exists>w. fst (atomic_assign DbOk DbOk 1 (\<lambda>d. d) ''m'' ''r'' demo_candidate ''gc'' demo_db) = Ok w
     \<and> fst (atomic_assign DbOk DbOk 1 (\<lambda>d. d) ''m'' ''r'' demo_candidate ''gc2''
         (snd (atomic_assign DbOk DbOk 1 (\<lambda>d. d) ''m'' ''r'' demo_candidate ''gc'' demo_db))) = Ok w"
proof -
  let ?a = "\<lambda>gc. atomic_assign DbOk DbOk 1 (\<lambda>d. d) ''m'' ''r'' demo_candidate gc"
  have facts: "demo_mc ''c2'' \<in> set (db_mcs demo_db)" "candidate_row demo_candidate (demo_mc ''c2'')"
    "\<forall>a \<in> set (db_assignments demo_db). ar_key a = (''m'', ''r'') \<longrightarrow> ar_ended_at a = None"
    by (simp_all add: demo_db_def candidate_row_def demo_mc_def demo_candidate_def demo_ma_def ar_key_def)
  have live: "\<not> controller_failed 1 q" if "q \<in> set (db_mcs demo_db)" for q
    using that demo_live by (auto simp: demo_db_def)
  have split: "x = (fst x, snd x)" for x :: "(McAssignment, GcError) result \<times> gc_db" by simp
  from atomic_assign_one_winner [OF demo_db_wf facts(1,2) facts(1,2,3) split [of "?a ''gc'' demo_db"]
      split [of "?a ''gc2'' (snd (?a ''gc'' demo_db))"]] live
  show ?thesis by blast
qed

theorem ended_assignment_blocks_witness:
  "fst (atomic_assign DbOk DbOk 1 (\<lambda>d. d) ''m'' ''s'' demo_candidate ''gc'' demo_db)
     = Err (GcServiceUnavailable ''Failed to assign meeting controller - please retry'')"
proof -
  let ?r = "atomic_assign DbOk DbOk 1 (\<lambda>d. d) ''m'' ''s'' demo_candidate ''gc'' demo_db"
  have facts: "demo_mc ''c2'' \<in> set (db_mcs demo_db)" "candidate_row demo_candidate (demo_mc ''c2'')"
    "demo_ma ''s'' (Some 0) \<in> set (db_assignments demo_db)" "ar_key (demo_ma ''s'' (Some 0)) = (''m'', ''s'')"
    "ar_ended_at (demo_ma ''s'' (Some 0)) \<noteq> None"
    "demo_mc ''c1'' \<in> set (db_mcs demo_db)" "mr_controller_id (demo_mc ''c1'') = ar_controller_id (demo_ma ''s'' (Some 0))"
    by (simp_all add: demo_db_def candidate_row_def demo_mc_def demo_candidate_def demo_ma_def ar_key_def)
  have "?r = (fst ?r, snd ?r)" by simp
  from ended_assignment_blocks [OF demo_db_wf facts this] demo_live show ?thesis by (simp only: if_False)
qed

text \<open>
  The clean-up statements select rows but act on whole meetings.  If a meeting's row in one region
  is old enough to be purged, the purge deletes the meeting's rows of every region, active ones with
  live controllers included; and if its row in one region is stale, every row of the meeting is
  ended.  (Stated for a batch that is large enough to hold all selected rows.)
\<close>

theorem cleanup_crosses_regions:
  assumes "a \<in> set (db_assignments db)" and "b \<in> set (db_assignments db)"
    and "ar_meeting_id b = ar_meeting_id a" and "ar_ended_at b = None"
    and "length (db_assignments db) \<le> limit"
  shows "(expired_assignment now days a \<longrightarrow>
        b \<notin> set (db_assignments (snd (cleanup_old_assignments now days (Some limit) db))))
    \<and> (stale_assignment now hours db a \<longrightarrow>
        b\<lparr>ar_ended_at := Some now\<rparr> \<in> set (db_assignments (snd (end_stale_assignments now hours (Some limit) db)))
        \<and> b \<notin> set (db_assignments (snd (end_stale_assignments now hours (Some limit) db))))"
proof (intro conjI impI)
  have all: "take limit (filter P (db_assignments db)) = filter P (db_assignments db)" for P
    using le_trans [OF length_filter_le assms(5)] by simp
  show "b \<notin> set (db_assignments (snd (cleanup_old_assignments now days (Some limit) db)))"
    if "expired_assignment now days a"
    using that assms(1,3) by (auto simp: cleanup_old_assignments_def Let_def all)
  assume stale: "stale_assignment now hours db a"
  let ?ids = "ar_meeting_id ` {x \<in> set (db_assignments db). stale_assignment now hours db x}"
  have rows: "db_assignments (snd (end_stale_assignments now hours (Some limit) db))
      = map (\<lambda>a. if ar_meeting_id a \<in> ?ids then a\<lparr>ar_ended_at := Some now\<rparr> else a) (db_assignments db)"
    by (simp add: end_stale_assignments_def Let_def all)
  have hit: "ar_meeting_id b \<in> ?ids" using stale assms(1,3) by auto
  then show "b\<lparr>ar_ended_at := Some now\<rparr> \<in> set (db_assignments (snd (end_stale_assignments now hours (Some limit) db)))"
    unfolding rows using assms(2) by force
  show "b \<notin> set (db_assignments (snd (end_stale_assignments now hours (Some limit) db)))"
  proof
    assume "b \<in> set (db_assignments (snd (end_stale_assignments now hours (Some limit) db)))"
    then obtain x where x: "x \<in> set (db_assignments db)" "b = (if ar_meeting_id x \<in> ?ids then x\<lparr>ar_ended_at := Some now\<rparr> else x)"
      unfolding rows by auto
    show False
    proof (cases "ar_meeting_id x \<in> ?ids")
      case True
      then have "b = x\<lparr>ar_ended_at := Some now\<rparr>" using x(2) by (simp only: if_True)
      then show False using assms(4) by simp
    next
      case False
      then have "b = x" using x(2) by (simp only: if_False)
      then show False using hit False by simp
    qed
  qed
qed

theorem cleanup_crosses_regions_witness:
  "demo_ma ''r'' None \<notin> set (db_assignments (snd (cleanup_old_assignments (from_secs 700000) 7 (Some 1000) demo_db)))"
proof -
  have "demo_ma ''s'' (Some 0) \<in> set (db_assignments demo_db)" "demo_ma ''r'' None \<in> set (db_assignments demo_db)"
    "ar_meeting_id (demo_ma ''r'' None) = ar_meeting_id (demo_ma ''s'' (Some 0))" "ar_ended_at (demo_ma ''r'' None) = None"
    "length (db_assignments demo_db) \<le> 1000"
    by (simp_all add: demo_db_def demo_ma_def)
  moreover have "expired_assignment (from_secs 700000) 7 (demo_ma ''s'' (Some 0))"
    by (simp add: expired_assignment_def demo_ma_def older_def older_secs_def from_secs_def)
  ultimately show ?thesis using cleanup_crosses_regions by blast
qed

end
