(* ===== verification/GC_Assignment.thy ===== *)
theory GC_Assignment
  imports GC_Database
begin

text \<open>
  How the Global Controller places a meeting: the weighted random choice (the same code twice, in
  repositories/meeting_assignments.rs and services/mh_selection.rs), the selection of Media Handlers
  (services/mh_selection.rs), the client of the Meeting Controllers (services/mc_client.rs) and the
  assignment with its retries (services/mc_assignment.rs).

  The random bytes are an argument (\<open>None\<close> when the generator fails).  The client is reached through
  the trait \<open>McClientTrait\<close>: the assignment is a function of any client over any state \<open>'w\<close>.  What
  other Global Controllers do to the tables between two statements is an argument of each attempt.
  Exported metrics are left out.
\<close>

section \<open>Weighted choice\<close>

text \<open>The loop over the weights: the index at which the remaining choice is used up.\<close>

fun choose_index :: "'f f64_ops \<Rightarrow> nat \<Rightarrow> 'f \<Rightarrow> 'f list \<Rightarrow> nat option" where
  "choose_index F i choice [] = None"
| "choose_index F i choice (weight # weights) =
     (let choice = f_sub F choice weight
      in if f_le F choice (f_zero F) then Some i else choose_index F (Suc i) choice weights)"

definition get_at :: "'a list \<Rightarrow> nat \<Rightarrow> 'a option" where
  "get_at xs i = (if i < length xs then Some (xs ! i) else None)"

definition weighted_random_select :: "'f f64_ops \<Rightarrow> ('c \<Rightarrow> 'f) \<Rightarrow> u64 option \<Rightarrow> 'c list \<Rightarrow> 'c option" where
  "weighted_random_select F load_ratio random_bytes candidates =
     (if candidates = [] then None
      else if length candidates = 1 then get_at candidates 0
      else let weights = map (\<lambda>c. f_sub F (f_one F) (f_min F (load_ratio c) (f_cap F))) candidates;
               total = foldl (f_add F) (f_zero F) weights
           in if f_le F total (f_zero F) then get_at candidates 0
              else case random_bytes of
                     None \<Rightarrow> get_at candidates 0
                   | Some r \<Rightarrow>
                       (let random_f64 = f_div F (f_of_int F (uint r)) (f_of_int F (2 ^ 64 - 1))
                        in case choose_index F 0 (f_mul F random_f64 total) weights of
                             Some i \<Rightarrow> get_at candidates i
                           | None \<Rightarrow> Some (last candidates)))"

definition select_mc :: "'f f64_ops \<Rightarrow> u64 option \<Rightarrow> 'f McCandidate list \<Rightarrow> 'f McCandidate option" where
  "select_mc F = weighted_random_select F mcc_load_ratio"

definition select_mh :: "'f f64_ops \<Rightarrow> u64 option \<Rightarrow> 'f MhCandidate list \<Rightarrow> 'f MhCandidate option" where
  "select_mh F = weighted_random_select F mhc_load_ratio"

section \<open>Selection of Media Handlers\<close>

record MhAssignmentInfo =
  mi_mh_id :: string
  mi_webtransport_endpoint :: string
  mi_grpc_endpoint :: string

definition info_of :: "'f MhCandidate \<Rightarrow> MhAssignmentInfo" where
  "info_of c = \<lparr>mi_mh_id = mhc_handler_id c, mi_webtransport_endpoint = mhc_webtransport_endpoint c,
     mi_grpc_endpoint = mhc_grpc_endpoint c\<rparr>"

definition select_mhs_for_meeting ::
  "'f f64_ops \<Rightarrow> db_fault \<Rightarrow> instant \<Rightarrow> u64 option \<Rightarrow> u64 option \<Rightarrow> string \<Rightarrow> gc_db
     \<Rightarrow> (MhAssignmentInfo list, GcError) result \<times> gc_db"
where
  "select_mhs_for_meeting F fault now rng1 rng2 region db =
     (case db_exec fault (get_candidate_mhs F now region) db of
        (Inl e, db) \<Rightarrow> (Err e, db)
      | (Inr candidates, db) \<Rightarrow>
          if candidates = []
          then (Err (GcServiceUnavailable ''No media handlers available in this region''), db)
          else case select_mh F rng1 candidates of
                 None \<Rightarrow> (Err (GcServiceUnavailable ''No media handlers available in this region''), db)
               | Some first \<Rightarrow>
                   (let remaining = filter (\<lambda>c. mhc_handler_id c \<noteq> mhc_handler_id first) candidates;
                        second = (if length candidates > 1 \<and> remaining \<noteq> []
                                  then select_mh F rng2 remaining else None)
                    in (Ok (info_of first # (case second of None \<Rightarrow> [] | Some c \<Rightarrow> [info_of c])), db)))"

section \<open>The client of the Meeting Controllers\<close>

datatype McRejectionReason = McUnspecified | McAtCapacity | McDraining | McUnhealthy

definition rejection_from :: "int \<Rightarrow> McRejectionReason" where
  "rejection_from value = (if value = 1 then McAtCapacity else if value = 2 then McDraining
     else if value = 3 then McUnhealthy else McUnspecified)"

datatype McAssignmentResult = Accepted | Rejected McRejectionReason

record assign_request =
  rq_meeting_id :: string
  rq_mh_assignments :: "MhAssignmentInfo list"
  rq_requesting_gc_id :: string

record assign_response =
  rp_accepted :: bool
  rp_rejection_reason :: int

datatype connect_error = InvalidEndpoint | ConnectFailed

text \<open>
  The RPC library: connecting to an endpoint, checking a header value, and the call itself, over the
  state \<open>'n\<close> of the network and the servers behind it.
\<close>

record ('ch, 'n) rpc_ops =
  rpc_connect :: "string \<Rightarrow> 'n \<Rightarrow> ('ch, connect_error) result \<times> 'n"
  rpc_header :: "string \<Rightarrow> (unit, string) result"
  rpc_assign :: "'ch \<Rightarrow> string \<Rightarrow> assign_request \<Rightarrow> 'n \<Rightarrow> (assign_response, string) result \<times> 'n"

text \<open>The client's state: the cached channels, and the network.\<close>

definition get_channel ::
  "('ch, 'n) rpc_ops \<Rightarrow> string \<Rightarrow> (string, 'ch) hmap \<times> 'n
     \<Rightarrow> ('ch, GcError) result \<times> (string, 'ch) hmap \<times> 'n"
where
  "get_channel R endpoint w =
     (case hm_get (fst w) endpoint of
        Some channel \<Rightarrow> (Ok channel, w)
      | None \<Rightarrow>
          (case rpc_connect R endpoint (snd w) of
             (Inl InvalidEndpoint, n) \<Rightarrow>
               (Err (GcServiceUnavailable ''Invalid meeting controller endpoint''), fst w, n)
           | (Inl ConnectFailed, n) \<Rightarrow>
               (Err (GcServiceUnavailable ''Meeting controller unavailable''), fst w, n)
           | (Inr channel, n) \<Rightarrow> (Ok channel, hm_insert endpoint channel (fst w), n)))"

definition mc_assign_meeting ::
  "('ch, 'n) rpc_ops \<Rightarrow> string \<Rightarrow> string \<Rightarrow> string \<Rightarrow> MhAssignmentInfo list \<Rightarrow> string
     \<Rightarrow> (string, 'ch) hmap \<times> 'n \<Rightarrow> (McAssignmentResult, GcError) result \<times> (string, 'ch) hmap \<times> 'n"
where
  "mc_assign_meeting R token endpoint mid handlers gc w =
     (case get_channel R endpoint w of
        (Inl e, w) \<Rightarrow> (Err e, w)
      | (Inr channel, channels, n) \<Rightarrow>
          (let request = \<lparr>rq_meeting_id = mid, rq_mh_assignments = handlers, rq_requesting_gc_id = gc\<rparr>;
               authorization = ''Bearer '' @ token
           in case rpc_header R authorization of
                Inl e \<Rightarrow> (Err (GcInternal (''Invalid service token format: '' @ e)), channels, n)
              | Inr _ \<Rightarrow>
                  (case rpc_assign R channel authorization request n of
                     (Inl _, n) \<Rightarrow> (Err (GcServiceUnavailable ''Meeting controller unavailable''), channels, n)
                   | (Inr inner, n) \<Rightarrow>
                       (if rp_accepted inner then Ok Accepted
                        else Ok (Rejected (rejection_from (rp_rejection_reason inner))), channels, n))))"

section \<open>Assignment with retries\<close>

definition MAX_MC_ASSIGNMENT_RETRIES :: nat where
  "MAX_MC_ASSIGNMENT_RETRIES = 3"

record AssignmentWithMh =
  aw_mc_assignment :: McAssignment
  aw_handlers :: "MhAssignmentInfo list"

text \<open>
  What one attempt meets: what others did to the tables before the candidates are read and while the
  controller is called, and between the two statements of \<open>atomic_assign\<close>; the outcome and the time of
  each statement; the random bytes.
\<close>

record attempt_env =
  at_before :: "gc_db \<Rightarrow> gc_db"
  at_during :: "gc_db \<Rightarrow> gc_db"
  at_between :: "gc_db \<Rightarrow> gc_db"
  at_query :: db_fault
  at_now :: instant
  at_rng :: "u64 option"
  at_upsert :: db_fault
  at_assign_now :: instant
  at_fetch :: db_fault

type_synonym 'w mc_client =
  "string \<Rightarrow> string \<Rightarrow> MhAssignmentInfo list \<Rightarrow> string \<Rightarrow> 'w \<Rightarrow> (McAssignmentResult, GcError) result \<times> 'w"

fun reason_str :: "McRejectionReason option \<Rightarrow> string" where
  "reason_str (Some McAtCapacity) = ''All meeting controllers are at capacity''"
| "reason_str (Some McDraining) = ''All meeting controllers are draining''"
| "reason_str (Some McUnhealthy) = ''All meeting controllers are unhealthy''"
| "reason_str _ = ''No meeting controllers available''"

text \<open>
  The loop over the attempts.  \<open>tried\<close> and \<open>rejection\<close> are the two local variables; the result also gives
  the controllers called, which the code logs, in order.
\<close>

fun try_mcs ::
  "'f f64_ops \<Rightarrow> 'w mc_client \<Rightarrow> (nat \<Rightarrow> attempt_env) \<Rightarrow> string \<Rightarrow> string \<Rightarrow> string \<Rightarrow> MhAssignmentInfo list
     \<Rightarrow> nat list \<Rightarrow> string list \<Rightarrow> McRejectionReason option \<Rightarrow> gc_db \<Rightarrow> 'w
     \<Rightarrow> (McAssignment, GcError) result \<times> string list \<times> gc_db \<times> 'w"
where
  "try_mcs F client env mid region gc handlers [] tried rejection db w =
     (Err (GcServiceUnavailable (reason_str rejection)), tried, db, w)"
| "try_mcs F client env mid region gc handlers (attempt # attempts) tried rejection db w =
     (let e = env attempt
      in case db_exec (at_query e) (get_candidate_mcs F (at_now e) region) (at_before e db) of
           (Inl err, db) \<Rightarrow> (Err err, tried, db, w)
         | (Inr found, db) \<Rightarrow>
             (let candidates = filter (\<lambda>c. mcc_controller_id c \<notin> set tried) found
              in if candidates = [] then (Err (GcServiceUnavailable (reason_str rejection)), tried, db, w)
                 else case select_mc F (at_rng e) candidates of
                        None \<Rightarrow> (Err (GcServiceUnavailable (reason_str rejection)), tried, db, w)
                      | Some mc \<Rightarrow>
                          (let calls = tried @ [mcc_controller_id mc];
                               (result, w) = client (mcc_grpc_endpoint mc) mid handlers gc w;
                               db = at_during e db
                           in case result of
                                Inr Accepted \<Rightarrow>
                                  (let (r, db) = atomic_assign (at_upsert e) (at_fetch e) (at_assign_now e)
                                                   (at_between e) mid region mc gc db
                                   in (r, calls, db, w))
                              | Inr (Rejected reason) \<Rightarrow>
                                  try_mcs F client env mid region gc handlers attempts calls (Some reason) db w
                              | Inl _ \<Rightarrow>
                                  try_mcs F client env mid region gc handlers attempts calls rejection db w)))"

text \<open>Outcomes, times and random bytes of the steps before the loop.\<close>

record assign_env =
  ae_lookup :: db_fault
  ae_now :: instant
  ae_select :: db_fault
  ae_select_now :: instant
  ae_rng1 :: "u64 option"
  ae_rng2 :: "u64 option"
  ae_between :: "gc_db \<Rightarrow> gc_db"
  ae_attempt :: "nat \<Rightarrow> attempt_env"

definition gc_assign_meeting_with_mh ::
  "'f f64_ops \<Rightarrow> 'w mc_client \<Rightarrow> assign_env \<Rightarrow> string \<Rightarrow> string \<Rightarrow> string \<Rightarrow> gc_db \<Rightarrow> 'w
     \<Rightarrow> (AssignmentWithMh, GcError) result \<times> string list \<times> gc_db \<times> 'w"
where
  "gc_assign_meeting_with_mh F client e mid region gc db w =
     (case db_exec (ae_lookup e) (get_healthy_assignment (ae_now e) mid region) db of
        (Inl err, db) \<Rightarrow> (Err err, [], db, w)
      | (Inr existing, db) \<Rightarrow>
          (case select_mhs_for_meeting F (ae_select e) (ae_select_now e) (ae_rng1 e) (ae_rng2 e) region
                  (ae_between e db) of
             (Inl err, db) \<Rightarrow> (Err err, [], db, w)
           | (Inr handlers, db) \<Rightarrow>
               (case existing of
                  Some a \<Rightarrow> (Ok \<lparr>aw_mc_assignment = a, aw_handlers = handlers\<rparr>, [], db, w)
                | None \<Rightarrow>
                    (case try_mcs F client (ae_attempt e) mid region gc handlers
                            [1..<Suc MAX_MC_ASSIGNMENT_RETRIES] [] None db w of
                       (Inl err, calls, db, w) \<Rightarrow> (Err err, calls, db, w)
                     | (Inr a, calls, db, w) \<Rightarrow>
                         (Ok \<lparr>aw_mc_assignment = a, aw_handlers = handlers\<rparr>, calls, db, w)))))"

section \<open>The choice picks a candidate\<close>

lemma choose_index_bounds: "choose_index F i choice ws = Some j \<Longrightarrow> i \<le> j \<and> j < i + length ws"
  by (induction F i choice ws rule: choose_index.induct) (fastforce simp: Let_def split: if_splits)+

lemma get_at_mem: "get_at xs i = Some x \<Longrightarrow> x \<in> set xs"
  by (auto simp: get_at_def split: if_splits)

lemma get_at_first: "xs \<noteq> [] \<Longrightarrow> get_at xs 0 = Some (hd xs)"
  by (simp add: get_at_def hd_conv_nth)

lemma weighted_random_select_total:
  assumes "candidates \<noteq> []"
  shows "\<exists>c \<in> set candidates. weighted_random_select F load_ratio rng candidates = Some c"
proof -
  have first: "\<exists>c \<in> set candidates. get_at candidates 0 = Some c"
    using assms by (simp add: get_at_first)
  have index: "\<exists>c \<in> set candidates. get_at candidates j = Some c"
    if "choose_index F 0 x (map w candidates) = Some j" for x w j
    using choose_index_bounds [OF that] by (simp add: get_at_def)
  have "last candidates \<in> set candidates" using assms by simp
  then show ?thesis using assms first index
    by (auto simp: weighted_random_select_def Let_def split: option.split)
qed

lemma weighted_random_select_mem: "weighted_random_select F load_ratio rng cs = Some c \<Longrightarrow> c \<in> set cs"
  using weighted_random_select_total [of cs F load_ratio rng]
  by (cases "cs = []") (auto simp: weighted_random_select_def)

lemma select_mc_mem: "select_mc F rng cs = Some c \<Longrightarrow> c \<in> set cs"
  unfolding select_mc_def by (rule weighted_random_select_mem)

lemma select_mh_total: "cs \<noteq> [] \<Longrightarrow> \<exists>c \<in> set cs. select_mh F rng cs = Some c"
  unfolding select_mh_def by (rule weighted_random_select_total)

section \<open>What the candidate queries return\<close>

lemma set_insert_by [simp]: "set (insert_by le x xs) = insert x (set xs)"
  by (induction xs) auto

lemma length_insert_by [simp]: "length (insert_by le x xs) = Suc (length xs)"
  by (induction xs) auto

lemma set_sort_by [simp]: "set (sort_by le xs) = set xs"
  by (induction xs) (auto simp: sort_by_def)

lemma length_sort_by [simp]: "length (sort_by le xs) = length xs"
  by (induction xs) (auto simp: sort_by_def)

lemma distinct_insert_by: "distinct (map k (insert_by le x xs)) \<longleftrightarrow> k x \<notin> k ` set xs \<and> distinct (map k xs)"
  by (induction xs) (auto simp: image_iff)

lemma distinct_sort_by: "distinct (map k (sort_by le xs)) \<longleftrightarrow> distinct (map k xs)"
  unfolding sort_by_def
proof (induction xs)
  case (Cons x xs)
  have "set (foldr (insert_by le) xs []) = set xs" using set_sort_by [of le xs] by (simp add: sort_by_def)
  then show ?case using Cons by (simp add: distinct_insert_by)
qed simp

definition row_info :: "MhRow \<Rightarrow> MhAssignmentInfo" where
  "row_info r = \<lparr>mi_mh_id = hr_handler_id r, mi_webtransport_endpoint = hr_webtransport_endpoint r,
     mi_grpc_endpoint = hr_grpc_endpoint r\<rparr>"

lemma mh_candidates:
  assumes "get_candidate_mhs F now region db = (cs, db')"
  shows "db' = db"
    and "c \<in> set cs \<Longrightarrow> \<exists>r \<in> set (db_mhs db). mh_eligible now region r \<and> info_of c = row_info r"
    and "length cs = min LOAD_BALANCING_CANDIDATE_COUNT (length (filter (mh_eligible now region) (db_mhs db)))"
    and "distinct (map hr_handler_id (db_mhs db)) \<Longrightarrow> distinct (map mhc_handler_id cs)"
proof -
  let ?le = "less_loaded F (\<lambda>r. sql_load_ratio F (hr_current_streams r) (hr_max_streams r)) hr_last_heartbeat_at"
  let ?rows = "sort_by ?le (filter (mh_eligible now region) (db_mhs db))"
  let ?cand = "\<lambda>r. \<lparr>mhc_handler_id = hr_handler_id r, mhc_webtransport_endpoint = hr_webtransport_endpoint r,
    mhc_grpc_endpoint = hr_grpc_endpoint r, mhc_load_ratio = sql_load_ratio F (hr_current_streams r) (hr_max_streams r)\<rparr>"
  have cs: "cs = map ?cand (take LOAD_BALANCING_CANDIDATE_COUNT ?rows)" and "db' = db"
    using assms by (auto simp: get_candidate_mhs_def)
  then show "db' = db" by simp
  show "length cs = min LOAD_BALANCING_CANDIDATE_COUNT (length (filter (mh_eligible now region) (db_mhs db)))"
    by (simp add: cs min.commute)
  show "\<exists>r \<in> set (db_mhs db). mh_eligible now region r \<and> info_of c = row_info r" if c: "c \<in> set cs"
  proof -
    from c obtain r where r: "r \<in> set (take LOAD_BALANCING_CANDIDATE_COUNT ?rows)" "c = ?cand r" unfolding cs by auto
    from r(1) have "r \<in> set ?rows" by (rule in_set_takeD)
    then show ?thesis using r(2) by (auto simp: info_of_def row_info_def)
  qed
  show "distinct (map mhc_handler_id cs)" if "distinct (map hr_handler_id (db_mhs db))"
  proof -
    have "distinct (map hr_handler_id ?rows)" using that by (simp add: distinct_sort_by distinct_map_filter)
    then have "distinct (take LOAD_BALANCING_CANDIDATE_COUNT (map hr_handler_id ?rows))" by (rule distinct_take)
    then show ?thesis by (simp add: cs take_map comp_def)
  qed
qed

lemma select_mhs_spec:
  assumes "distinct (map hr_handler_id (db_mhs db))"
    and "n = length (filter (mh_eligible now region) (db_mhs db))"
  shows "if n = 0
     then select_mhs_for_meeting F DbOk now rng1 rng2 region db
            = (Err (GcServiceUnavailable ''No media handlers available in this region''), db)
     else \<exists>hs. select_mhs_for_meeting F DbOk now rng1 rng2 region db = (Ok hs, db)
            \<and> length hs = min 2 n \<and> distinct (map mi_mh_id hs)
            \<and> (\<forall>h \<in> set hs. \<exists>r \<in> set (db_mhs db). mh_eligible now region r \<and> h = row_info r)"
proof -
  obtain cs where cs: "get_candidate_mhs F now region db = (cs, db)"
    by (cases "get_candidate_mhs F now region db") (use mh_candidates(1) in blast)
  note q = mh_candidates [OF cs]
  have len: "length cs = min 5 n" using q(3) assms(2) by (simp add: LOAD_BALANCING_CANDIDATE_COUNT_def)
  have dist: "distinct (map mhc_handler_id cs)" by (rule q(4) [OF assms(1)])
  show ?thesis
  proof (cases "n = 0")
    case True
    then show ?thesis using len cs by (simp add: select_mhs_for_meeting_def)
  next
    case False
    then have "cs \<noteq> []" using len by auto
    then obtain c where c: "c \<in> set cs" "select_mh F rng1 cs = Some c" using select_mh_total by metis
    let ?rest = "filter (\<lambda>x. mhc_handler_id x \<noteq> mhc_handler_id c) cs"
    have rest: "?rest = [] \<longleftrightarrow> length cs \<le> 1"
    proof
      assume "?rest = []"
      then have "mhc_handler_id ` set cs \<subseteq> {mhc_handler_id c}" by (auto simp: filter_empty_conv)
      then have "card (mhc_handler_id ` set cs) \<le> 1" by (metis card.empty card.insert_remove card_mono empty_Diff finite.emptyI finite_insert One_nat_def)
      then show "length cs \<le> 1" using dist by (metis distinct_card length_map list.set_map)
    next
      assume "length cs \<le> 1"
      then show "?rest = []" using c(1) by (cases cs) auto
    qed
    have info: "mi_mh_id (info_of x) = mhc_handler_id x" for x :: "'a MhCandidate" by (simp add: info_of_def)
    show ?thesis
    proof (cases "length cs \<le> 1")
      case True
      then have "select_mhs_for_meeting F DbOk now rng1 rng2 region db = (Ok [info_of c], db)"
        using cs \<open>cs \<noteq> []\<close> c(2) rest by (simp add: select_mhs_for_meeting_def)
      then show ?thesis using False True len q(2) [OF c(1)] by auto
    next
      case F: False
      then have "?rest \<noteq> []" using rest by blast
      then obtain d where d: "d \<in> set ?rest" "select_mh F rng2 ?rest = Some d" using select_mh_total by metis
      have "select_mhs_for_meeting F DbOk now rng1 rng2 region db = (Ok [info_of c, info_of d], db)"
        using cs \<open>cs \<noteq> []\<close> c(2) \<open>?rest \<noteq> []\<close> d(2) F by (simp add: select_mhs_for_meeting_def Let_def)
      then show ?thesis using False F len q(2) [OF c(1)] q(2) [of d] d(1) by (auto simp: info)
    qed
  qed
qed

lemma select_mhs_ok:
  assumes "distinct (map hr_handler_id (db_mhs db))"
    and "length (filter (mh_eligible now region) (db_mhs db)) \<noteq> 0"
  shows "\<exists>hs. select_mhs_for_meeting F DbOk now rng1 rng2 region db = (Ok hs, db)"
  using select_mhs_spec [OF assms(1) refl, of now region F rng1 rng2] assms(2) by auto

text \<open>
  A selection of Media Handlers.  Whatever the random bytes and the rounding, the selection fails
  only when no handler of the region is eligible, and otherwise it gives two handlers, or one if only
  one is eligible: different ones, each a registered handler that is healthy, has capacity and sent a
  heartbeat in the last thirty seconds, with its endpoints as registered.
\<close>

theorem mh_selection_sound:
  assumes "distinct (map hr_handler_id (db_mhs db))"
    and "n = length (filter (mh_eligible now region) (db_mhs db))"
  shows "if n = 0
     then select_mhs_for_meeting F DbOk now rng1 rng2 region db
            = (Err (GcServiceUnavailable ''No media handlers available in this region''), db)
     else \<exists>hs. select_mhs_for_meeting F DbOk now rng1 rng2 region db = (Ok hs, db)
            \<and> length hs = min 2 n \<and> distinct (map mi_mh_id hs)
            \<and> (\<forall>h \<in> set hs. \<exists>r \<in> set (db_mhs db). mh_eligible now region r \<and> h = row_info r)"
  by (rule select_mhs_spec [OF assms])

definition demo_f64 :: "int f64_ops" where
  "demo_f64 = \<lparr>f_zero = 0, f_one = 1, f_cap = 0, f_of_int = id, f_add = (+), f_sub = (-), f_mul = (*), f_div = (div),
     f_min = min, f_le = (\<le>)\<rparr>"

theorem mh_selection_sound_witness:
  "\<exists>hs. select_mhs_for_meeting demo_f64 DbOk 1 None None ''r''
      (snd (update_load_report 1 ''h'' 0 HsHealthy (snd (register_mh 0 ''h'' ''r'' ''w'' ''g'' 5
        \<lparr>db_mcs = [], db_mhs = [], db_assignments = []\<rparr>)))) = (Ok hs, snd (update_load_report 1 ''h'' 0 HsHealthy
        (snd (register_mh 0 ''h'' ''r'' ''w'' ''g'' 5 \<lparr>db_mcs = [], db_mhs = [], db_assignments = []\<rparr>))))
     \<and> length hs = 1"
  using mh_selection_sound [of "snd (update_load_report 1 ''h'' 0 HsHealthy (snd (register_mh 0 ''h'' ''r'' ''w'' ''g'' 5
        \<lparr>db_mcs = [], db_mhs = [], db_assignments = []\<rparr>)))" 1 1 "''r''" demo_f64 None None]
  by (auto simp: update_load_report_def register_mh_def mh_eligible_def within_def from_secs_def
      DEFAULT_HEARTBEAT_STALENESS_SECONDS_def)

section \<open>The retry loop\<close>

lemma mc_candidates:
  assumes "get_candidate_mcs F now region db = (cs, db')"
  shows "db' = db"
    and "c \<in> set cs \<Longrightarrow> \<exists>r \<in> set (db_mcs db). mc_eligible now region r \<and> candidate_row c r"
    and "length (filter (mc_eligible now region) (db_mcs db)) \<le> LOAD_BALANCING_CANDIDATE_COUNT \<Longrightarrow>
      r \<in> set (db_mcs db) \<Longrightarrow> mc_eligible now region r \<Longrightarrow> \<exists>c \<in> set cs. candidate_row c r"
proof -
  let ?le = "less_loaded F (\<lambda>r. sql_load_ratio F (mr_current_meetings r) (mr_max_meetings r)) mr_last_heartbeat_at"
  let ?rows = "sort_by ?le (filter (mc_eligible now region) (db_mcs db))"
  let ?cand = "\<lambda>r. \<lparr>mcc_controller_id = mr_controller_id r, mcc_grpc_endpoint = mr_grpc_endpoint r,
    mcc_webtransport_endpoint = mr_webtransport_endpoint r,
    mcc_load_ratio = sql_load_ratio F (mr_current_meetings r) (mr_max_meetings r)\<rparr>"
  have cs: "cs = map ?cand (take LOAD_BALANCING_CANDIDATE_COUNT ?rows)" and "db' = db"
    using assms by (auto simp: get_candidate_mcs_def)
  then show "db' = db" by simp
  show "\<exists>r \<in> set (db_mcs db). mc_eligible now region r \<and> candidate_row c r" if c: "c \<in> set cs"
  proof -
    from c obtain r where r: "r \<in> set (take LOAD_BALANCING_CANDIDATE_COUNT ?rows)" "c = ?cand r" unfolding cs by auto
    from r(1) have "r \<in> set ?rows" by (rule in_set_takeD)
    then show ?thesis using r(2) by (auto simp: candidate_row_def)
  qed
  show "\<exists>c \<in> set cs. candidate_row c r"
    if "length (filter (mc_eligible now region) (db_mcs db)) \<le> LOAD_BALANCING_CANDIDATE_COUNT"
      "r \<in> set (db_mcs db)" "mc_eligible now region r"
    using that by (auto simp: cs candidate_row_def)
qed

text \<open>The errors an assignment can end with.\<close>

definition assign_error :: "GcError \<Rightarrow> bool" where
  "assign_error e \<longleftrightarrow> gc_status_code e = 500 \<or> gc_status_code e = 503"

lemma db_exec_error: "db_exec f g db = (Inl e, db') \<Longrightarrow> assign_error e"
  by (cases f) (auto simp: assign_error_def)

lemma atomic_assign_error: "atomic_assign f1 f2 now others mid region mc gc db = (Err e, db') \<Longrightarrow> assign_error e"
  by (auto simp: atomic_assign_def assign_error_def split: prod.splits sum.splits option.splits dest!: db_exec_error)

lemma select_mhs_error: "select_mhs_for_meeting F f now r1 r2 region db = (Err e, db') \<Longrightarrow> assign_error e"
  by (auto simp: select_mhs_for_meeting_def Let_def assign_error_def
      split: prod.splits sum.splits option.splits if_splits dest!: db_exec_error)

lemmas assign_errors = db_exec_error atomic_assign_error select_mhs_error

text \<open>
  A client that records its calls: its answers are any function of what was called before, so that the
  final record holds the endpoints called and the answers given, in order.
\<close>

type_synonym call_log = "(string \<times> (McAssignmentResult, GcError) result) list"

definition logging :: "(call_log \<Rightarrow> string \<Rightarrow> (McAssignmentResult, GcError) result) \<Rightarrow> call_log mc_client" where
  "logging answer endpoint mid handlers gc log = (answer log endpoint, log @ [(endpoint, answer log endpoint)])"

definition refused :: "call_log \<Rightarrow> bool" where
  "refused log \<longleftrightarrow> (\<forall>x \<in> set log. snd x \<noteq> Ok Accepted)"

text \<open>One round of the loop, once a controller was chosen.\<close>

definition round_with ::
  "'f f64_ops \<Rightarrow> 'w mc_client \<Rightarrow> (nat \<Rightarrow> attempt_env) \<Rightarrow> string \<Rightarrow> string \<Rightarrow> string \<Rightarrow> MhAssignmentInfo list
     \<Rightarrow> nat \<Rightarrow> nat list \<Rightarrow> 'f McCandidate \<Rightarrow> string list \<Rightarrow> McRejectionReason option \<Rightarrow> gc_db \<Rightarrow> 'w
     \<Rightarrow> (McAssignment, GcError) result \<times> string list \<times> gc_db \<times> 'w"
where
  "round_with F client env mid region gc hs k ks mc tried rejection db w =
     (let calls = tried @ [mcc_controller_id mc];
          answer = client (mcc_grpc_endpoint mc) mid hs gc w
      in case fst answer of
           Inr Accepted \<Rightarrow>
             (let x = atomic_assign (at_upsert (env k)) (at_fetch (env k)) (at_assign_now (env k))
                        (at_between (env k)) mid region mc gc (at_during (env k) db)
              in (fst x, calls, snd x, snd answer))
         | Inr (Rejected reason) \<Rightarrow>
             try_mcs F client env mid region gc hs ks calls (Some reason) (at_during (env k) db) (snd answer)
         | Inl _ \<Rightarrow> try_mcs F client env mid region gc hs ks calls rejection (at_during (env k) db) (snd answer))"

lemma try_mcs_round:
  assumes "db_exec (at_query (env k)) (get_candidate_mcs F (at_now (env k)) region) (at_before (env k) db) = (Inr found, db1)"
    and "select_mc F (at_rng (env k)) (filter (\<lambda>c. mcc_controller_id c \<notin> set tried) found) = Some mc"
  shows "try_mcs F client env mid region gc hs (k # ks) tried rejection db w
    = round_with F client env mid region gc hs k ks mc tried rejection db1 w"
proof -
  have "filter (\<lambda>c. mcc_controller_id c \<notin> set tried) found \<noteq> []"
    by (rule list.set_cases [OF select_mc_mem [OF assms(2)]]) simp_all
  then show ?thesis using assms
    by (simp add: round_with_def Let_def case_prod_unfold split: sum.split McAssignmentResult.split)
qed

lemma try_mcs_cases:
  obtains (stop) err db1 where "assign_error err"
      "try_mcs F client env mid region gc hs (k # ks) tried rejection db w = (Err err, tried, db1, w)"
  | (round) mc db1 where "mcc_controller_id mc \<notin> set tried"
      "try_mcs F client env mid region gc hs (k # ks) tried rejection db w
        = round_with F client env mid region gc hs k ks mc tried rejection db1 w"
proof -
  obtain q db1 where q: "db_exec (at_query (env k)) (get_candidate_mcs F (at_now (env k)) region) (at_before (env k) db) = (q, db1)"
    by fastforce
  show thesis
  proof (cases q)
    case (Inl err)
    then show ?thesis using q db_exec_error [OF q [unfolded Inl]] by (intro stop) simp_all
  next
    case (Inr found)
    let ?cs = "filter (\<lambda>c. mcc_controller_id c \<notin> set tried) found"
    show ?thesis
    proof (cases "select_mc F (at_rng (env k)) ?cs")
      case None
      then have "try_mcs F client env mid region gc hs (k # ks) tried rejection db w
          = (Err (GcServiceUnavailable (reason_str rejection)), tried, db1, w)"
        using q Inr by (simp add: Let_def)
      then show ?thesis by (intro stop) (simp_all add: assign_error_def)
    next
      case (Some mc)
      have "mcc_controller_id mc \<notin> set tried" using select_mc_mem [OF Some] by simp
      then show ?thesis by (rule round [OF _ try_mcs_round [where env = env and k = k, OF q [unfolded Inr] Some]])
    qed
  qed
qed

lemma refused_butlast: "refused log \<Longrightarrow> refused (butlast log)"
  by (meson in_set_butlastD refused_def)

lemma refused_append [simp]: "refused (log @ log') \<longleftrightarrow> refused log \<and> refused log'"
  by (auto simp: refused_def)

lemma try_mcs_calls:
  assumes "try_mcs F (logging answer) env mid region gc hs ks tried rejection db log = (r, calls, db', log')"
    and "distinct tried" and "refused log"
  shows "\<exists>new. length calls = length tried + length new \<and> distinct calls \<and> length new \<le> length ks
    \<and> log' = log @ new \<and> refused (butlast log')
    \<and> (case r of Inl e \<Rightarrow> assign_error e | Inr a \<Rightarrow> new \<noteq> [] \<and> snd (last log') = Ok Accepted)"
  using assms
proof (induction ks arbitrary: tried rejection db log)
  case Nil
  then show ?case by (auto simp: assign_error_def intro: refused_butlast)
next
  case (Cons k ks)
  show ?case
  proof (cases rule: try_mcs_cases [of F "logging answer" env mid region gc hs k ks tried rejection db log])
    case (stop err db1)
    then show ?thesis using Cons.prems by (auto intro: refused_butlast)
  next
    case (round mc db1)
    let ?calls = "tried @ [mcc_controller_id mc]"
    let ?ans = "answer log (mcc_grpc_endpoint mc)"
    let ?log = "log @ [(mcc_grpc_endpoint mc, ?ans)]"
    have dist: "distinct ?calls" using round(1) Cons.prems(2) by simp
    note step = round(2) [unfolded Cons.prems(1), symmetric, unfolded round_with_def Let_def logging_def fst_conv snd_conv]
    have again: ?thesis if "try_mcs F (logging answer) env mid region gc hs ks ?calls rejection' db2 ?log
        = (r, calls, db', log')" and "?ans \<noteq> Ok Accepted" for rejection' db2
    proof -
      from Cons.IH [OF that(1) dist] Cons.prems(3) that(2) obtain new where new: "length calls = length ?calls + length new"
          "distinct calls" "length new \<le> length ks" "log' = ?log @ new" "refused (butlast log')"
          "case r of Inl e \<Rightarrow> assign_error e | Inr a \<Rightarrow> new \<noteq> [] \<and> snd (last log') = Ok Accepted"
        by (auto simp: refused_def)
      then show ?thesis
        by (intro exI [of _ "(mcc_grpc_endpoint mc, ?ans) # new"]) (auto split: sum.splits)
    qed
    consider (acc) "?ans = Ok Accepted" | (rej) reason where "?ans = Ok (Rejected reason)" | (err) e where "?ans = Err e"
      by (metis McAssignmentResult.exhaust sum.exhaust)
    then show ?thesis
    proof cases
      case acc
      then show ?thesis using step dist Cons.prems(3) by (cases r) (auto dest!: atomic_assign_error [OF prod_eqI, simplified])
    qed (use step again in \<open>simp_all add: logging_def [abs_def]\<close>)
  qed
qed

text \<open>
  Attempts are bounded.  An assignment calls at most three Meeting Controllers, no controller
  twice, and makes no further call once one has accepted.  It succeeds either without any call, with
  the healthy assignment that exists, or after a call that was accepted; and every failure is a
  database error or an unavailability (status 500 or 503), whatever faults occur and whatever other
  Global Controllers do meanwhile.
\<close>

theorem assignment_attempts_bounded:
  assumes "gc_assign_meeting_with_mh F (logging answer) e mid region gc db [] = (r, calls, db', log)"
  shows "length log = length calls \<and> length calls \<le> 3 \<and> distinct calls \<and> refused (butlast log)
    \<and> (case r of
         Inl err \<Rightarrow> gc_status_code err = 500 \<or> gc_status_code err = 503
       | Inr a \<Rightarrow> if log = [] then fst (get_healthy_assignment (ae_now e) mid region db) = Some (aw_mc_assignment a)
                 else snd (last log) = Ok Accepted)"
proof -
  obtain q db1 where q: "db_exec (ae_lookup e) (get_healthy_assignment (ae_now e) mid region) db = (q, db1)" by fastforce
  show ?thesis
  proof (cases q)
    case (Inl err)
    then show ?thesis using assms q db_exec_error [OF q [unfolded Inl]]
      by (auto simp: gc_assign_meeting_with_mh_def assign_error_def refused_def)
  next
    case (Inr existing)
    then have ex: "existing = fst (get_healthy_assignment (ae_now e) mid region db)" using q by (cases "ae_lookup e") auto
    obtain s db2 where s: "select_mhs_for_meeting F (ae_select e) (ae_select_now e) (ae_rng1 e) (ae_rng2 e) region
        (ae_between e db1) = (s, db2)" by fastforce
    obtain r1 c1 d1 l1 where t: "try_mcs F (logging answer) (ae_attempt e) mid region gc (projr s)
        [1..<Suc MAX_MC_ASSIGNMENT_RETRIES] [] None db2 [] = (r1, c1, d1, l1)" by (metis prod_cases4)
    have b: "length c1 = length l1" "length l1 \<le> 3" "distinct c1" "refused (butlast l1)"
        "case r1 of Inl e \<Rightarrow> assign_error e | Inr a \<Rightarrow> l1 \<noteq> [] \<and> snd (last l1) = Ok Accepted"
      using try_mcs_calls [OF t] by (auto simp: refused_def MAX_MC_ASSIGNMENT_RETRIES_def)
    show ?thesis
    proof (cases s)
      case (Inl err)
      then show ?thesis using assms q Inr s select_mhs_error [OF s [unfolded Inl]]
        by (auto simp: gc_assign_meeting_with_mh_def assign_error_def refused_def)
    next
      case S: (Inr hs)
      show ?thesis
      proof (cases existing)
        case None
        then show ?thesis using assms q Inr s S t b
          by (cases r1) (auto simp: gc_assign_meeting_with_mh_def assign_error_def)
      next
        case (Some a)
        then show ?thesis using assms q Inr s S ex by (auto simp: gc_assign_meeting_with_mh_def refused_def)
      qed
    qed
  qed
qed

section \<open>An assignment is found\<close>

text \<open>Attempts without faults and with nothing happening in between.\<close>

definition quiet_attempt :: "instant \<Rightarrow> attempt_env \<Rightarrow> bool" where
  "quiet_attempt now e \<longleftrightarrow> at_before e = (\<lambda>d. d) \<and> at_during e = (\<lambda>d. d) \<and> at_between e = (\<lambda>d. d)
     \<and> at_query e = DbOk \<and> at_upsert e = DbOk \<and> at_fetch e = DbOk \<and> at_now e = now"

abbreviation eligible_ids :: "instant \<Rightarrow> string \<Rightarrow> gc_db \<Rightarrow> string list" where
  "eligible_ids now region db \<equiv> map mr_controller_id (filter (mc_eligible now region) (db_mcs db))"

lemma quiet_round:
  assumes "quiet_attempt now (env k)"
    and "length (eligible_ids now region db) \<le> LOAD_BALANCING_CANDIDATE_COUNT"
    and "g \<in> set (db_mcs db)" and "mc_eligible now region g" and "mr_controller_id g \<notin> set tried"
  obtains mc q where "q \<in> set (db_mcs db)" "mc_eligible now region q" "candidate_row mc q"
    "mcc_controller_id mc \<notin> set tried"
    "try_mcs F client env mid region gc hs (k # ks) tried rejection db w
      = round_with F client env mid region gc hs k ks mc tried rejection db w"
proof -
  obtain found where f: "get_candidate_mcs F now region db = (found, db)"
    by (cases "get_candidate_mcs F now region db") (use mc_candidates(1) in blast)
  let ?cs = "filter (\<lambda>c. mcc_controller_id c \<notin> set tried) found"
  obtain c where "c \<in> set found" "candidate_row c g"
    using mc_candidates(3) [OF f] assms(2-4) by auto
  then have "?cs \<noteq> []" using assms(5) by (auto simp: filter_empty_conv candidate_row_def)
  then obtain mc where mc: "mc \<in> set ?cs" "select_mc F (at_rng (env k)) ?cs = Some mc"
    unfolding select_mc_def using weighted_random_select_total by metis
  obtain q where q: "q \<in> set (db_mcs db)" "mc_eligible now region q" "candidate_row mc q"
    using mc_candidates(2) [OF f] mc(1) by auto
  have "db_exec (at_query (env k)) (get_candidate_mcs F (at_now (env k)) region) (at_before (env k) db) = (Inr found, db)"
    using assms(1) f by (simp add: quiet_attempt_def)
  note round = try_mcs_round [where env = env and k = k, OF this mc(2)]
  have "mcc_controller_id mc \<notin> set tried" using mc(1) by simp
  then show thesis by (rule that [OF q _ round])
qed

lemma try_mcs_accepts:
  assumes "db_wf db" and "\<forall>a \<in> set (db_assignments db). ar_key a = (mid, region) \<longrightarrow> ar_ended_at a = None"
    and "\<And>k. quiet_attempt now (env k)"
    and "length (eligible_ids now region db) \<le> LOAD_BALANCING_CANDIDATE_COUNT"
    and "g \<in> set (db_mcs db)" and "mc_eligible now region g"
    and "\<And>w. fst (client (mr_grpc_endpoint g) mid hs gc w) = Ok Accepted"
    and "distinct tried" and "set tried \<subseteq> set (eligible_ids now region db) - {mr_controller_id g}"
    and "length (eligible_ids now region db) \<le> length tried + length ks"
  shows "\<exists>a. fst (try_mcs F client env mid region gc hs ks tried rejection db w) = Ok a"
  using assms(8-10)
proof (induction ks arbitrary: tried rejection w)
  case Nil
  have g: "mr_controller_id g \<in> set (eligible_ids now region db)" using assms(5,6) by simp
  have "length tried = card (set tried)" using Nil.prems(1) by (simp add: distinct_card)
  also have "\<dots> \<le> card (set (eligible_ids now region db) - {mr_controller_id g})"
    using Nil.prems(2) by (intro card_mono) auto
  also have "\<dots> < card (set (eligible_ids now region db))" using g by (intro card_Diff1_less) auto
  also have "\<dots> \<le> length (eligible_ids now region db)" by (rule card_length)
  finally show ?case using Nil.prems(3) by simp
next
  case (Cons k ks)
  have "mr_controller_id g \<notin> set tried" using Cons.prems(2) by auto
  then obtain mc q where q: "q \<in> set (db_mcs db)" "mc_eligible now region q" "candidate_row mc q"
      "mcc_controller_id mc \<notin> set tried"
      and step: "try_mcs F client env mid region gc hs (k # ks) tried rejection db w
        = round_with F client env mid region gc hs k ks mc tried rejection db w"
    by (rule quiet_round [where env = env and k = k, OF assms(3-6)])
  note quiet = assms(3) [of k, unfolded quiet_attempt_def]
  let ?tried = "tried @ [mcc_controller_id mc]"
  let ?ans = "fst (client (mcc_grpc_endpoint mc) mid hs gc w)"
  have again: "\<exists>a. fst (try_mcs F client env mid region gc hs ks ?tried rejection' db w') = Ok a"
    if "?ans \<noteq> Ok Accepted" for rejection' w'
  proof (rule Cons.IH)
    have "q \<noteq> g" using that assms(7) [of w] q(3) by (auto simp: candidate_row_def)
    then have "mcc_controller_id mc \<noteq> mr_controller_id g"
      using distinct_map_inj [of mr_controller_id "db_mcs db" q g] assms(1,5) q by (auto simp: db_wf_def candidate_row_def)
    moreover have "mcc_controller_id mc \<in> set (eligible_ids now region db)"
      using q by (force simp: candidate_row_def)
    ultimately show "set ?tried \<subseteq> set (eligible_ids now region db) - {mr_controller_id g}" using Cons.prems(2) by simp
  qed (use Cons.prems q(4) in auto)
  have "\<exists>w db'. atomic_assign DbOk DbOk (at_assign_now (env k)) (\<lambda>d. d) mid region mc gc db = (Ok w, db')"
    using atomic_assign_current [OF assms(1) q(1,3) assms(2)] by blast
  then show ?case unfolding step using quiet again
    by (auto simp: round_with_def Let_def split: sum.split McAssignmentResult.split)
qed


text \<open>A region with one controller, which accepts, and one handler.\<close>

definition demo_region :: gc_db where
  "demo_region = \<lparr>db_mcs = [demo_mc ''c1''], db_mhs = [\<lparr>hr_handler_id = ''h'', hr_region = ''r'',
     hr_webtransport_endpoint = ''w'', hr_grpc_endpoint = ''g'', hr_max_streams = 5, hr_current_streams = 0,
     hr_health_status = ''healthy'', hr_last_heartbeat_at = 0\<rparr>], db_assignments = []\<rparr>"

definition demo_attempt :: attempt_env where
  "demo_attempt = \<lparr>at_before = (\<lambda>d. d), at_during = (\<lambda>d. d), at_between = (\<lambda>d. d), at_query = DbOk, at_now = 1,
     at_rng = None, at_upsert = DbOk, at_assign_now = 1, at_fetch = DbOk\<rparr>"

definition demo_env :: assign_env where
  "demo_env = \<lparr>ae_lookup = DbOk, ae_now = 1, ae_select = DbOk, ae_select_now = 1, ae_rng1 = None, ae_rng2 = None,
     ae_between = (\<lambda>d. d), ae_attempt = (\<lambda>k. demo_attempt)\<rparr>"

lemmas demo_assign_simps = demo_region_def demo_attempt_def demo_env_def demo_mc_def within_def from_secs_def
  DEFAULT_HEARTBEAT_STALENESS_SECONDS_def


theorem assignment_attempts_bounded_witness:
  "length (fst (snd (gc_assign_meeting_with_mh demo_f64 (logging (\<lambda>log ep. Ok (Rejected McDraining))) demo_env ''m'' ''r'' ''gc''
      demo_region []))) \<le> 3"
proof -
  obtain r calls db' log where eq: "gc_assign_meeting_with_mh demo_f64 (logging (\<lambda>log ep. Ok (Rejected McDraining))) demo_env
      ''m'' ''r'' ''gc'' demo_region [] = (r, calls, db', log)" by (metis prod_cases4)
  from assignment_attempts_bounded [OF eq] show ?thesis by (simp add: eq)
qed

end
