(* ===== verification/System_Assignment.thy ===== *)
theory System_Assignment
  imports GC_Assignment MC_Assignment
begin

text \<open>
  The placement of a meeting across services: the Global Controller's assignment and its RPC client on
  one side, the Meeting Controllers' assignment service, their controller actors and the shared Redis
  on the other.  The RPC library delivers a request to the service at its endpoint, or not, and the
  response back, or not; authentication between the services is not part of this composition.
\<close>

section \<open>The fleet behind the RPC library\<close>

record node =
  nd_service :: McAssignmentService
  nd_cache :: gen_cache
  nd_host :: Controller

record fleet =
  fl_redis :: redis
  fl_nodes :: "string \<Rightarrow> node"

text \<open>What the Meeting Controllers meet: number conversion, JSON, faults, actor identities, the date.\<close>

record mc_side =
  ms_lua :: lua_ops
  ms_json :: json_ops
  ms_faults :: "string \<Rightarrow> assign_faults"
  ms_env :: "string \<Rightarrow> controller_env"
  ms_now :: string

text \<open>The numbers of the enumeration \<open>RejectionReason\<close> on the wire.\<close>

primrec rejection_code :: "RejectionReason \<Rightarrow> int" where
  "rejection_code RejUnspecified = 0"
| "rejection_code RejAtCapacity = 1"
| "rejection_code RejDraining = 2"
| "rejection_code RejUnhealthy = 3"

definition wire_assignment :: "MhAssignmentInfo \<Rightarrow> MhAssignment" where
  "wire_assignment i = \<lparr>ma_mh_id = mi_mh_id i, ma_webtransport_endpoint = mi_webtransport_endpoint i,
     ma_grpc_endpoint = mi_grpc_endpoint i\<rparr>"

definition node_assign :: "mc_side \<Rightarrow> string \<Rightarrow> assign_request \<Rightarrow> fleet \<Rightarrow> AssignMeetingWithMhResponse \<times> fleet" where
  "node_assign M ep rq n =
     (let nd = fl_nodes n ep;
          (rs, x) = assign_meeting_with_mh (ms_lua M) (ms_json M) (ms_faults M ep) (controller_create (ms_env M ep))
                      (ms_now M) (rq_meeting_id rq) (map wire_assignment (rq_mh_assignments rq))
                      \<lparr>ax_service = nd_service nd, ax_store = (fl_redis n, nd_cache nd), ax_host = nd_host nd\<rparr>
      in (rs, \<lparr>fl_redis = fst (ax_store x),
               fl_nodes = (fl_nodes n)(ep := \<lparr>nd_service = ax_service x, nd_cache = snd (ax_store x), nd_host = ax_host x\<rparr>)\<rparr>))"

definition fleet_rpc :: "mc_side \<Rightarrow> (string \<Rightarrow> bool) \<Rightarrow> (string \<Rightarrow> bool) \<Rightarrow> (string, fleet) rpc_ops" where
  "fleet_rpc M reach answered =
     \<lparr>rpc_connect = (\<lambda>ep n. (if reach ep then Ok ep else Err ConnectFailed, n)),
      rpc_header = (\<lambda>_. Ok ()),
      rpc_assign = (\<lambda>ep auth rq n.
        let (rs, n') = node_assign M ep rq n
        in (if answered ep then Ok \<lparr>rp_accepted = rs_accepted rs, rp_rejection_reason = rejection_code (rs_rejection_reason rs)\<rparr>
            else Err ''connection lost'', n'))\<rparr>"

text \<open>Every cached channel leads to the endpoint it is cached under.\<close>

definition own_channels :: "(string, string) hmap \<times> fleet \<Rightarrow> bool" where
  "own_channels w \<longleftrightarrow> (\<forall>ep c. hm_get (fst w) ep = Some c \<longrightarrow> c = ep)"

abbreviation fleet_client :: "mc_side \<Rightarrow> (string \<Rightarrow> bool) \<Rightarrow> (string \<Rightarrow> bool) \<Rightarrow> string
    \<Rightarrow> ((string, string) hmap \<times> fleet) mc_client" where
  "fleet_client M reach answered token \<equiv> mc_assign_meeting (fleet_rpc M reach answered) token"

text \<open>Decoding inverts encoding.\<close>

definition json_inverse :: "json_ops \<Rightarrow> bool" where
  "json_inverse J \<longleftrightarrow> (\<forall>d j. to_json J d = Ok j \<longrightarrow> from_json J j = Ok d)"

section \<open>One call\<close>

lemma store_ok_written:
  assumes "store_mh_assignment L J f1 f2 now mid hs st = (Ok (), s', cache')"
  shows "\<exists>json. to_json J \<lparr>as_handlers = hs, as_assigned_at = now\<rparr> = Ok json \<and> redis_get (mh_key mid) s' = Some json"
  using assms
  by (cases f2)
    (auto simp: store_mh_assignment_def fenced_reply_def FENCED_WRITE_def Let_def
      split: prod.splits sum.splits option.splits if_splits)

lemma store_assignments_ok_written:
  assumes "store_mh_assignments L J f1 f2 now mid as st = (Ok (), s', cache')"
  shows "\<exists>json. to_json J \<lparr>as_handlers = map endpoint_of as, as_assigned_at = now\<rparr> = Ok json
    \<and> redis_get (mh_key mid) s' = Some json"
proof -
  have "store_mh_assignment L J f1 f2 now mid (map endpoint_of as) st = (Ok (), s', cache')"
    using assms by (auto simp: store_mh_assignments_def endpoint_of_def [abs_def] split: if_splits list.splits)
  then show ?thesis by (rule store_ok_written)
qed

lemma assign_accepted:
  assumes "assign_meeting_with_mh L J fs (controller_create env) now mid as x = (rs, x')" and "rs_accepted rs"
  shows "controller_runs (ax_host x') mid"
    and "\<exists>json. to_json J \<lparr>as_handlers = map endpoint_of as, as_assigned_at = now\<rparr> = Ok json
      \<and> redis_get (mh_key mid) (fst (ax_store x')) = Some json"
  using assms
  by (auto simp: assign_meeting_with_mh_def split: option.splits prod.splits sum.splits
      dest!: store_assignments_ok_written dest: ctl.created_runs)

definition info_endpoint :: "MhAssignmentInfo \<Rightarrow> MhEndpointInfo" where
  "info_endpoint i = endpoint_of (wire_assignment i)"

text \<open>Where a meeting runs and which handlers Redis holds for it.\<close>

definition hosts :: "fleet \<Rightarrow> string \<Rightarrow> string \<Rightarrow> bool" where
  "hosts n ep mid \<longleftrightarrow> controller_runs (nd_host (fl_nodes n ep)) mid"

definition stored_for :: "mc_side \<Rightarrow> fleet \<Rightarrow> string \<Rightarrow> MhAssignmentInfo list \<Rightarrow> bool" where
  "stored_for M n mid hs \<longleftrightarrow> get_mh_assignment (ms_json M) NoFault mid (fl_redis n)
     = (Ok (Some \<lparr>as_handlers = map info_endpoint hs, as_assigned_at = ms_now M\<rparr>), fl_redis n)"

lemma node_accepted:
  assumes "node_assign M ep rq n = (rs, n')" and "rs_accepted rs"
    and "json_inverse (ms_json M)"
  shows "hosts n' ep (rq_meeting_id rq)" and "stored_for M n' (rq_meeting_id rq) (rq_mh_assignments rq)"
proof -
  let ?x = "\<lparr>ax_service = nd_service (fl_nodes n ep), ax_store = (fl_redis n, nd_cache (fl_nodes n ep)),
    ax_host = nd_host (fl_nodes n ep)\<rparr>"
  obtain x' where x': "assign_meeting_with_mh (ms_lua M) (ms_json M) (ms_faults M ep) (controller_create (ms_env M ep))
      (ms_now M) (rq_meeting_id rq) (map wire_assignment (rq_mh_assignments rq)) ?x = (rs, x')"
    and n': "fl_redis n' = fst (ax_store x')" "nd_host (fl_nodes n' ep) = ax_host x'"
    using assms(1) by (auto simp: node_assign_def Let_def split: prod.splits)
  note a = assign_accepted [OF x' assms(2)]
  from a(1) n' show "hosts n' ep (rq_meeting_id rq)" by (simp add: hosts_def)
  from a(2) n' assms(3) show "stored_for M n' (rq_meeting_id rq) (rq_mh_assignments rq)"
    by (auto simp: json_inverse_def stored_for_def get_mh_assignment_def info_endpoint_def [abs_def] comp_def)
qed

lemma node_frame: "node_assign M ep rq n = (rs, n') \<Longrightarrow> ep' \<noteq> ep \<Longrightarrow> fl_nodes n' ep' = fl_nodes n ep'"
  by (auto simp: node_assign_def Let_def split: prod.splits)

lemma client_calls_node:
  assumes "fleet_client M reach answered token ep mid hs gc w = (r, w')" and "own_channels w"
  shows "own_channels w'"
    and "r = Ok Accepted \<Longrightarrow> \<exists>rs. node_assign M ep \<lparr>rq_meeting_id = mid, rq_mh_assignments = hs, rq_requesting_gc_id = gc\<rparr> (snd w)
      = (rs, snd w') \<and> rs_accepted rs"
  using assms
  by (auto simp: mc_assign_meeting_def get_channel_def fleet_rpc_def own_channels_def Let_def
      split: prod.splits sum.splits option.splits if_splits) metis+

lemma client_accepted:
  assumes "fleet_client M reach answered token ep mid hs gc w = (Ok Accepted, w')" and "own_channels w"
    and "json_inverse (ms_json M)"
  shows "hosts (snd w') ep mid" and "stored_for M (snd w') mid hs"
    and "ep' \<noteq> ep \<Longrightarrow> hosts (snd w) ep' mid' \<Longrightarrow> hosts (snd w') ep' mid'"
proof -
  obtain rs where rs: "node_assign M ep \<lparr>rq_meeting_id = mid, rq_mh_assignments = hs, rq_requesting_gc_id = gc\<rparr> (snd w)
      = (rs, snd w')" "rs_accepted rs"
    using client_calls_node(2) [OF assms(1,2)] by blast
  from node_accepted [OF this assms(3)] show "hosts (snd w') ep mid" "stored_for M (snd w') mid hs" by simp_all
  show "hosts (snd w') ep' mid'" if "ep' \<noteq> ep" "hosts (snd w) ep' mid'"
    using node_frame [OF rs(1) that(1)] that(2) by (simp add: hosts_def)
qed

text \<open>A free controller accepts a meeting that it does not run.\<close>

lemma node_accepts:
  assumes "lua_numbers (ms_lua M)" and "gen_at (rq_meeting_id rq) (fl_redis n) k" and "exact (Suc k)"
    and "valid_assignments (map wire_assignment (rq_mh_assignments rq))"
    and "to_json (ms_json M) \<lparr>as_handlers = map info_endpoint (rq_mh_assignments rq), as_assigned_at = ms_now M\<rparr> = Ok json"
    and "ms_faults M ep = no_faults" and "can_accept_meeting (nd_service (fl_nodes n ep)) = None"
    and "ct_accepting_new (nd_host (fl_nodes n ep))" and "\<not> hosts n ep (rq_meeting_id rq)"
  shows "\<exists>rs n'. node_assign M ep rq n = (rs, n') \<and> rs_accepted rs \<and> gen_at (rq_meeting_id rq) (fl_redis n') (Suc k)
    \<and> (\<forall>ep'. ep' \<noteq> ep \<longrightarrow> fl_nodes n' ep' = fl_nodes n ep')"
proof -
  let ?mid = "rq_meeting_id rq" and ?as = "map wire_assignment (rq_mh_assignments rq)" and ?nd = "fl_nodes n ep"
  have json: "to_json (ms_json M) \<lparr>as_handlers = map endpoint_of ?as, as_assigned_at = ms_now M\<rparr> = Ok json"
    using assms(5) by (simp add: info_endpoint_def [abs_def] comp_def)
  obtain s' where s': "store_mh_assignments (ms_lua M) (ms_json M) NoFault NoFault (ms_now M) ?mid ?as (fl_redis n, nd_cache ?nd)
      = (Ok (), s', hm_insert ?mid (of_nat (Suc k)) (nd_cache ?nd))" "redis_get (gen_key ?mid) s' = Some (show_nat (Suc k))"
    using store_mh_assignment_spec [OF assms(1-3) json] store_mh_assignments_valid [OF assms(4)] by metis
  have create: "fst (controller_create (ms_env M ep) ?mid (nd_host ?nd)) = Ok ()"
    using assms(8,9) by (simp add: controller_create_def create_meeting_def hosts_def controller_runs_def)
  then obtain c' where "controller_create (ms_env M ep) ?mid (nd_host ?nd) = (Ok (), c')" by (metis prod.collapse)
  then show ?thesis using s' assms(6,7)
    by (simp add: node_assign_def Let_def assign_meeting_with_mh_def no_faults_def gen_at_def)
qed

lemma client_reaches_node:
  assumes "own_channels w" and "reach ep" and "answered ep"
    and "node_assign M ep \<lparr>rq_meeting_id = mid, rq_mh_assignments = hs, rq_requesting_gc_id = gc\<rparr> (snd w) = (rs, n')"
    and "rs_accepted rs"
  shows "\<exists>channels. fleet_client M reach answered token ep mid hs gc w = (Ok Accepted, channels, n')"
proof (cases "hm_get (fst w) ep")
  case None
  then show ?thesis using assms by (simp add: mc_assign_meeting_def get_channel_def fleet_rpc_def)
next
  case (Some c)
  then have "c = ep" using assms(1) by (simp add: own_channels_def)
  then show ?thesis using assms Some by (cases w) (simp add: mc_assign_meeting_def get_channel_def fleet_rpc_def)
qed

section \<open>The placement\<close>

text \<open>
  A client whose calls are recorded with their answers.  Before the call number \<open>i\<close> of an assignment others, such as
  another Global Controller, may do \<open>others i\<close> to the fleet and to Redis.
\<close>

definition recorded ::
  "(nat \<Rightarrow> fleet \<Rightarrow> fleet) \<Rightarrow> ((string, string) hmap \<times> fleet) mc_client \<Rightarrow> (call_log \<times> (string, string) hmap \<times> fleet) mc_client"
where
  "recorded others client ep mid hs gc = (\<lambda>(log, channels, n).
     case client ep mid hs gc (channels, others (length log) n) of (r, w) \<Rightarrow> (r, log @ [(ep, r)], w))"

text \<open>The last call of a successful loop is the accepted one, and the first that is.\<close>

lemma try_mcs_recorded:
  assumes "try_mcs F (recorded others client) env mid region gc hs ks tried rejection db (log, w) = (Ok a, calls, db', log', w')"
    and "own_channels w" and "\<And>ep w. own_channels w \<Longrightarrow> own_channels (snd (client ep mid hs gc w))"
  shows "\<exists>earlier ep w0. log' = log @ earlier @ [(ep, Ok Accepted)] \<and> refused earlier
    \<and> length calls = length tried + Suc (length earlier) \<and> own_channels w0 \<and> client ep mid hs gc w0 = (Ok Accepted, w')"
  using assms(1,2)
proof (induction ks arbitrary: tried rejection db log w)
  case (Cons k ks)
  show ?case
  proof (cases rule: try_mcs_cases [of F "recorded others client" env mid region gc hs k ks tried rejection db "(log, w)"])
    case (stop err db1)
    then show ?thesis using Cons.prems(1) by simp
  next
    case (round mc db1)
    let ?ep = "mcc_grpc_endpoint mc"
    define w0 where "w0 = (fst w, others (length log) (snd w))"
    obtain r w1 where call: "client ?ep mid hs gc w0 = (r, w1)" by (metis prod.collapse)
    have rec: "recorded others client ?ep mid hs gc (log, w) = (r, log @ [(?ep, r)], w1)"
      using call by (simp add: recorded_def w0_def case_prod_unfold)
    have own: "own_channels w0" using Cons.prems(2) by (simp add: w0_def own_channels_def)
    have own1: "own_channels w1" using assms(3) [OF own] call by (metis snd_conv)
    note step = round(2) [unfolded Cons.prems(1), symmetric, unfolded round_with_def Let_def rec, simplified]
    show ?thesis
    proof (cases "r = Ok Accepted")
      case True
      then have "log' = log @ [(?ep, Ok Accepted)]" "w1 = w'" "length calls = Suc (length tried)"
        using step by (auto split: prod.splits)
      then show ?thesis using own call True by (intro exI [of _ "[]"] exI [of _ ?ep] exI [of _ w0]) (simp add: refused_def)
    next
      case False
      then obtain rejection' where
        "try_mcs F (recorded others client) env mid region gc hs ks (tried @ [mcc_controller_id mc]) rejection' (at_during (env k) db1)
           (log @ [(?ep, r)], w1) = (Ok a, calls, db', log', w')"
        using step by (cases r) (auto split: McAssignmentResult.splits)
      from Cons.IH [OF this own1] obtain earlier ep w2 where "log' = (log @ [(?ep, r)]) @ earlier @ [(ep, Ok Accepted)]"
        "refused earlier" "length calls = Suc (length tried) + Suc (length earlier)"
        "own_channels w2" "client ep mid hs gc w2 = (Ok Accepted, w')" by auto
      then show ?thesis using False by (intro exI [of _ "(?ep, r) # earlier"] exI [of _ ep] exI [of _ w2]) (simp add: refused_def)
    qed
  qed
qed simp

text \<open>
  C31. A placed meeting is hosted where it was accepted.  When the Global Controller's assignment succeeds with a new
  placement, the last Meeting Controller it called has accepted the meeting and none before it has;
  when its answer arrives, that controller runs the meeting, and Redis holds for the
  meeting exactly the Media Handlers that the assignment returns to the client.  This holds whatever faults,
  lost responses, refusals and interleaved updates of the database occurred on the way, and whatever others did to the Meeting Controllers and
  to Redis before each call; what they do after the accepted call is not covered.
\<close>

theorem assigned_meeting_is_hosted:
  assumes "gc_assign_meeting_with_mh F (recorded others (fleet_client M reach answered token)) e mid region gc db ([], w)
      = (Ok a, calls, db', log, w')" and "calls \<noteq> []" and "own_channels w"
    and "json_inverse (ms_json M)"
  shows "\<exists>earlier ep. log = earlier @ [(ep, Ok Accepted)] \<and> refused earlier \<and> length log = length calls
    \<and> hosts (snd w') ep mid \<and> stored_for M (snd w') mid (aw_handlers a)"
proof -
  obtain db1 r where t: "try_mcs F (recorded others (fleet_client M reach answered token)) (ae_attempt e) mid region gc (aw_handlers a)
      [1..<Suc MAX_MC_ASSIGNMENT_RETRIES] [] None db1 ([], w) = (Ok r, calls, db', log, w')"
    using assms(1,2) by (auto simp: gc_assign_meeting_with_mh_def split: prod.splits sum.splits option.splits)
  have "own_channels (snd (fleet_client M reach answered token ep mid (aw_handlers a) gc w))" if "own_channels w" for ep w
    using client_calls_node(1) [OF _ that] by (metis prod.collapse)
  from try_mcs_recorded [OF t assms(3) this] obtain earlier ep w0 where "log = earlier @ [(ep, Ok Accepted)]"
    "refused earlier" "length calls = Suc (length earlier)" "own_channels w0"
    "fleet_client M reach answered token ep mid (aw_handlers a) gc w0 = (Ok Accepted, w')"
    by auto
  then show ?thesis using client_accepted(1,2) [of M reach answered token ep mid "aw_handlers a" gc w0 w'] assms(4) by auto
qed

text \<open>
  Racing placements split the meeting.  Two Global Controllers place the same new meeting at the
  same time: each has found a controller that accepts it, and then both write their assignment.  Both
  report the first one's controller, as they should; but the second one's controller runs the meeting
  as well, nobody tells it to stop, and Redis holds the handlers of the second placement for a
  meeting that is assigned to the first controller.
\<close>

theorem racing_placements_split:
  assumes "fleet_client M reach answered token (mcc_grpc_endpoint mc1) mid hs1 gc1 w = (Ok Accepted, w1)"
    and "fleet_client M reach answered token (mcc_grpc_endpoint mc2) mid hs2 gc2 w1 = (Ok Accepted, w2)"
    and "mcc_grpc_endpoint mc1 \<noteq> mcc_grpc_endpoint mc2" and "own_channels w"
    and "json_inverse (ms_json M)"
    and "db_wf db" and "c1 \<in> set (db_mcs db)" and "candidate_row mc1 c1"
    and "c2 \<in> set (db_mcs db)" and "candidate_row mc2 c2"
    and "(mid, region) \<notin> ar_key ` set (db_assignments db)" and "\<not> controller_failed now2 c1"
  shows "\<exists>db'. atomic_assign DbOk DbOk now1 (\<lambda>d. d) mid region mc1 gc1 db = (Ok (offer_of mc1), db')
    \<and> atomic_assign DbOk DbOk now2 (\<lambda>d. d) mid region mc2 gc2 db' = (Ok (offer_of mc1), db')
    \<and> hosts (snd w2) (mcc_grpc_endpoint mc1) mid \<and> hosts (snd w2) (mcc_grpc_endpoint mc2) mid
    \<and> stored_for M (snd w2) mid hs2"
proof -
  have own: "own_channels w1" by (rule client_calls_node(1) [OF assms(1,4)])
  note a1 = client_accepted [OF assms(1,4,5)] and a2 = client_accepted [OF assms(2) own assms(5)]
  have no_row: "\<forall>a \<in> set (db_assignments db). ar_key a = (mid, region) \<longrightarrow> ar_ended_at a = None"
    using assms(11) by (metis image_eqI)
  obtain x db' where x: "atomic_assign DbOk DbOk now1 (\<lambda>d. d) mid region mc1 gc1 db = (Ok x, db')" "db_wf db'"
      "db_mcs db' = db_mcs db" "get_current_assignment mid region db' = (Some x, db')"
      "x = offer_of mc1 \<or> (\<exists>a \<in> set (db_assignments db). ar_key a = (mid, region))"
    using atomic_assign_current [OF assms(6-8) no_row, of now1 gc1] by auto
  then have offer: "x = offer_of mc1" using assms(11) by (metis image_eqI)
  have live: "\<not> controller_failed now2 q" if "q \<in> set (db_mcs db')" "mr_controller_id q = mca_mc_id x" for q
  proof -
    have "q = c1" using distinct_map_inj [of mr_controller_id "db_mcs db" q c1] assms(6-8) that x(3) offer
      by (simp add: db_wf_def offer_of_def candidate_row_def)
    then show ?thesis using assms(12) by simp
  qed
  have "atomic_assign DbOk DbOk now2 (\<lambda>d. d) mid region mc2 gc2 db' = (Ok x, db')"
    by (rule atomic_assign_live [OF x(2) assms(9) [folded x(3)] assms(10) x(4) live])
  moreover have "hosts (snd w2) (mcc_grpc_endpoint mc1) mid"
    by (rule a2(3) [OF assms(3) a1(1)])
  ultimately show ?thesis using x(1) a2(1,2) offer by (intro exI [of _ db']) simp
qed

text \<open>Two empty controllers that accept the meeting \<open>m\<close> one after the other.\<close>

definition demo_data :: MhAssignmentData where
  "demo_data = \<lparr>as_handlers = [\<lparr>ep_mh_id = ''h'', ep_webtransport_endpoint = ''w'', ep_grpc_endpoint = ''g''\<rparr>],
     as_assigned_at = ''t''\<rparr>"

definition demo_side :: mc_side where
  "demo_side = \<lparr>ms_lua = demo_lua,
     ms_json = \<lparr>to_json = (\<lambda>d. if d = demo_data then Ok ''{}'' else Err ''e''), from_json = (\<lambda>s. Ok demo_data)\<rparr>,
     ms_faults = (\<lambda>_. no_faults), ms_env = (\<lambda>_. \<lparr>ce_actor = 1, ce_created_at = 0\<rparr>), ms_now = ''t''\<rparr>"

definition demo_fleet :: "(string, string) hmap \<times> fleet" where
  "demo_fleet = ([], \<lparr>fl_redis = empty_redis, fl_nodes = (\<lambda>_. \<lparr>nd_service = assignment_service_new 10 100,
     nd_cache = [], nd_host = demo_controller\<rparr>)\<rparr>)"

definition demo_handlers :: "MhAssignmentInfo list" where
  "demo_handlers = [\<lparr>mi_mh_id = ''h'', mi_webtransport_endpoint = ''w'', mi_grpc_endpoint = ''g''\<rparr>]"

abbreviation demo_call :: "string \<Rightarrow> (string, string) hmap \<times> fleet
    \<Rightarrow> (McAssignmentResult, GcError) result \<times> (string, string) hmap \<times> fleet" where
  "demo_call ep w \<equiv> fleet_client demo_side (\<lambda>_. True) (\<lambda>_. True) ''tok'' ep ''m'' demo_handlers ''gc'' w"

lemma demo_call_accepted:
  assumes "own_channels w" and "gen_at ''m'' (fl_redis (snd w)) k" and "exact (Suc k)"
    and "fl_nodes (snd w) ep = \<lparr>nd_service = assignment_service_new 10 100, nd_cache = [], nd_host = demo_controller\<rparr>"
  shows "\<exists>w'. demo_call ep w = (Ok Accepted, w') \<and> own_channels w' \<and> gen_at ''m'' (fl_redis (snd w')) (Suc k)
    \<and> (\<forall>ep'. ep' \<noteq> ep \<longrightarrow> fl_nodes (snd w') ep' = fl_nodes (snd w) ep')"
proof -
  let ?rq = "\<lparr>rq_meeting_id = ''m'', rq_mh_assignments = demo_handlers, rq_requesting_gc_id = ''gc''\<rparr>"
  have "\<exists>rs n'. node_assign demo_side ep ?rq (snd w) = (rs, n') \<and> rs_accepted rs \<and> gen_at (rq_meeting_id ?rq) (fl_redis n') (Suc k)
      \<and> (\<forall>ep'. ep' \<noteq> ep \<longrightarrow> fl_nodes n' ep' = fl_nodes (snd w) ep')"
    using demo.lua_numbers_axioms assms(2-4)
    by (intro node_accepts [where json = "''{}''"])
      (simp_all add: demo_side_def demo_handlers_def valid_assignments_def wire_assignment_def info_endpoint_def
        endpoint_of_def demo_data_def can_accept_simps hosts_def controller_runs_def demo_controller_def controller_new_def)
  then show ?thesis
    using client_reaches_node [OF assms(1), of "\<lambda>_. True" ep "\<lambda>_. True" demo_side "''m''" demo_handlers "''gc''" _ _ "''tok''"]
      client_calls_node(1) [OF _ assms(1), of demo_side "\<lambda>_. True" "\<lambda>_. True" "''tok''" ep "''m''" demo_handlers "''gc''"]
    by fastforce
qed

lemma demo_json_inverse: "json_inverse (ms_json demo_side)"
  by (simp add: json_inverse_def demo_side_def)

lemma demo_fleet_start: "own_channels demo_fleet" "gen_at ''m'' (fl_redis (snd demo_fleet)) 0"
  by (simp_all add: own_channels_def demo_fleet_def gen_at_def empty_redis_def redis_get_def)

definition demo_offer :: "string \<Rightarrow> string \<Rightarrow> unit McCandidate" where
  "demo_offer cid ep = \<lparr>mcc_controller_id = cid, mcc_grpc_endpoint = ep, mcc_webtransport_endpoint = None, mcc_load_ratio = ()\<rparr>"

definition demo_pair :: gc_db where
  "demo_pair = \<lparr>db_mcs = [demo_mc ''c1'', (demo_mc ''c2'')\<lparr>mr_grpc_endpoint := ''g2''\<rparr>], db_mhs = [], db_assignments = []\<rparr>"

theorem racing_placements_split_witness:
  "\<exists>w2 db'. atomic_assign DbOk DbOk 1 (\<lambda>d. d) ''m'' ''r'' (demo_offer ''c2'' ''g2'') ''gc'' db' = (Ok (offer_of (demo_offer ''c1'' ''g'')), db')
     \<and> hosts (snd w2) ''g'' ''m'' \<and> hosts (snd w2) ''g2'' ''m''"
proof -
  have ex: "exact (Suc 0)" "exact (Suc (Suc 0))" by simp_all
  obtain w1 where w1: "demo_call ''g'' demo_fleet = (Ok Accepted, w1)" "own_channels w1" "gen_at ''m'' (fl_redis (snd w1)) (Suc 0)"
      "\<forall>ep'. ep' \<noteq> ''g'' \<longrightarrow> fl_nodes (snd w1) ep' = fl_nodes (snd demo_fleet) ep'"
    using demo_call_accepted [OF demo_fleet_start ex(1), of "''g''"] by (auto simp: demo_fleet_def)
  have "fl_nodes (snd w1) ''g2'' = \<lparr>nd_service = assignment_service_new 10 100, nd_cache = [], nd_host = demo_controller\<rparr>"
    using w1(4) by (simp add: demo_fleet_def)
  then obtain w2 where w2: "demo_call ''g2'' w1 = (Ok Accepted, w2)"
    using demo_call_accepted [OF w1(2,3) ex(2), of "''g2''"] by blast
  have "\<exists>db'. atomic_assign DbOk DbOk 1 (\<lambda>d. d) ''m'' ''r'' (demo_offer ''c1'' ''g'') ''gc'' demo_pair = (Ok (offer_of (demo_offer ''c1'' ''g'')), db')
    \<and> atomic_assign DbOk DbOk 1 (\<lambda>d. d) ''m'' ''r'' (demo_offer ''c2'' ''g2'') ''gc'' db' = (Ok (offer_of (demo_offer ''c1'' ''g'')), db')
    \<and> hosts (snd w2) (mcc_grpc_endpoint (demo_offer ''c1'' ''g'')) ''m'' \<and> hosts (snd w2) (mcc_grpc_endpoint (demo_offer ''c2'' ''g2'')) ''m''
    \<and> stored_for demo_side (snd w2) ''m'' demo_handlers"
  proof (rule racing_placements_split [where w = demo_fleet and ?w1.0 = w1 and ?c1.0 = "demo_mc ''c1''"
        and ?c2.0 = "(demo_mc ''c2'')\<lparr>mr_grpc_endpoint := ''g2''\<rparr>"])
    show "\<not> controller_failed 1 (demo_mc ''c1'')" by (rule demo_live)
    show "own_channels demo_fleet" by (rule demo_fleet_start)
    show "json_inverse (ms_json demo_side)" by (rule demo_json_inverse)
  qed (use w1(1) w2 in \<open>simp_all add: demo_offer_def demo_pair_def demo_mc_def db_wf_def candidate_row_def\<close>)
  then show ?thesis by (auto simp: demo_offer_def)
qed

text \<open>A single controller accepts.\<close>

theorem assigned_meeting_is_hosted_witness:
  "\<exists>a calls db' log w' ep. gc_assign_meeting_with_mh demo_f64
       (recorded (\<lambda>_ n. n) (fleet_client demo_side (\<lambda>_. True) (\<lambda>_. True) ''tok'')) demo_env
       ''m'' ''r'' ''gc'' demo_region ([], demo_fleet) = (Ok a, calls, db', log, w')
     \<and> (ep, Ok Accepted) \<in> set log \<and> hosts (snd w') ep ''m'' \<and> stored_for demo_side (snd w') ''m'' (aw_handlers a)"
proof -
  let ?client = "recorded (\<lambda>_ n. n) (fleet_client demo_side (\<lambda>_. True) (\<lambda>_. True) ''tok'')"
  obtain w1 where "demo_call ''g'' demo_fleet = (Ok Accepted, w1)"
    using demo_call_accepted [OF demo_fleet_start, of "''g''"] by (auto simp: demo_fleet_def)
  then have w1: "?client ''g'' ''m'' demo_handlers ''gc'' ([], demo_fleet) = (Ok Accepted, [(''g'', Ok Accepted)], w1)"
    by (simp add: recorded_def case_prod_unfold)
  obtain a calls db' where r: "gc_assign_meeting_with_mh demo_f64 ?client demo_env ''m'' ''r'' ''gc'' demo_region ([], demo_fleet)
      = (Ok a, calls, db', [(''g'', Ok Accepted)], w1)" "calls \<noteq> []"
    using w1 [unfolded demo_handlers_def]
    by (simp add: gc_assign_meeting_with_mh_def demo_assign_simps get_healthy_assignment_def join_assignment_def
        join_rows_def fetch_optional_def select_mhs_for_meeting_def select_mh_def select_mc_def weighted_random_select_def
        get_candidate_mhs_def get_candidate_mcs_def sort_by_def mh_eligible_def mc_eligible_def get_at_def info_of_def
        LOAD_BALANCING_CANDIDATE_COUNT_def MAX_MC_ASSIGNMENT_RETRIES_def upt_rec atomic_assign_def upsert_assignment_def)
  from assigned_meeting_is_hosted [OF r demo_fleet_start(1) demo_json_inverse] r(1) show ?thesis by auto
qed

end
