(* ===== verification/Auth_Token.thy ===== *)
theory Auth_Token
  imports Prelude
begin

text \<open>
  Tokens as every service reads them (crates/common/src/jwt.rs): the claims and their JSON form, the
  key identifier of a token, the cache of the Auth Controller's public keys and the validator.

  The \<open>jsonwebtoken\<close> and \<open>base64\<close> crates and the JSON text parser are the parameter \<open>jwt_lib\<close>: decoding
  checks algorithm, signature and expiry and returns the payload.  Strings are byte strings; white
  space is ASCII white space.  Times of tokens are seconds since the epoch (\<open>int\<close>), times of the cache
  are instants.
\<close>

section \<open>Strings\<close>

fun split_on :: "(char \<Rightarrow> bool) \<Rightarrow> string \<Rightarrow> string list" where
  "split_on p [] = [[]]"
| "split_on p (c # cs) =
     (if p c then [] # split_on p cs
      else case split_on p cs of [] \<Rightarrow> [[c]] | w # ws \<Rightarrow> (c # w) # ws)"

definition is_whitespace :: "char \<Rightarrow> bool" where
  "is_whitespace c \<longleftrightarrow> c \<in> {CHR 0x20, CHR 0x09, CHR 0x0A, CHR 0x0B, CHR 0x0C, CHR 0x0D}"

definition split_whitespace :: "string \<Rightarrow> string list" where
  "split_whitespace s = filter (\<lambda>w. w \<noteq> []) (split_on is_whitespace s)"

definition trim_text :: "string \<Rightarrow> string" where
  "trim_text s = rev (dropWhile is_whitespace (rev (dropWhile is_whitespace s)))"

fun join_with :: "string \<Rightarrow> string list \<Rightarrow> string" where
  "join_with sep [] = []"
| "join_with sep [w] = w"
| "join_with sep (w # ws) = w @ sep @ join_with sep ws"

section \<open>JSON\<close>

text \<open>A parsed JSON document.  \<open>JFloat\<close> is a number that is not an integer, by its text.\<close>

datatype json = JNull | JBool bool | JNum int | JFloat string | JStr string | JArr "json list"
  | JObj "(string, json) hmap"

fun json_get :: "string \<Rightarrow> json \<Rightarrow> json option" where
  "json_get k (JObj m) = hm_get m k"
| "json_get k _ = None"

fun as_str :: "json \<Rightarrow> string option" where
  "as_str (JStr s) = Some s"
| "as_str _ = None"

fun as_i64 :: "json \<Rightarrow> int option" where
  "as_i64 (JNum n) = (if - (2 ^ 63) \<le> n \<and> n < 2 ^ 63 then Some n else None)"
| "as_i64 _ = None"

fun as_bool :: "json \<Rightarrow> bool option" where
  "as_bool (JBool b) = Some b"
| "as_bool _ = None"

fun all_some :: "'a option list \<Rightarrow> 'a list option" where
  "all_some [] = Some []"
| "all_some (x # xs) = (case x of None \<Rightarrow> None | Some a \<Rightarrow> map_option ((#) a) (all_some xs))"

fun as_strings :: "json \<Rightarrow> string list option" where
  "as_strings (JArr xs) = all_some (map as_str xs)"
| "as_strings _ = None"

text \<open>The fields of a derived \<open>Deserialize\<close>: required ones, and optional ones, absent or \<open>null\<close>.\<close>

definition field :: "(json \<Rightarrow> 'a option) \<Rightarrow> string \<Rightarrow> json \<Rightarrow> 'a option" where
  "field as k j = Option.bind (json_get k j) as"

definition opt_field :: "(json \<Rightarrow> 'a option) \<Rightarrow> string \<Rightarrow> json \<Rightarrow> 'a option option" where
  "opt_field as k j =
     (case j of
        JObj m \<Rightarrow> (case hm_get m k of None \<Rightarrow> Some None | Some JNull \<Rightarrow> Some None | Some v \<Rightarrow> map_option Some (as v))
      | _ \<Rightarrow> None)"

section \<open>Claims\<close>

record ServiceClaims =
  sc_sub :: string
  sc_exp :: int
  sc_iat :: int
  sc_scope :: string
  sc_service_type :: "string option"

definition service_claims_new :: "string \<Rightarrow> int \<Rightarrow> int \<Rightarrow> string \<Rightarrow> string option \<Rightarrow> ServiceClaims" where
  "service_claims_new sub exp iat scope service_type =
     \<lparr>sc_sub = sub, sc_exp = exp, sc_iat = iat, sc_scope = scope, sc_service_type = service_type\<rparr>"

definition has_scope :: "ServiceClaims \<Rightarrow> string \<Rightarrow> bool" where
  "has_scope c scope \<longleftrightarrow> list_ex (\<lambda>s. s = scope) (split_whitespace (sc_scope c))"

definition scopes :: "ServiceClaims \<Rightarrow> string list" where
  "scopes c = split_whitespace (sc_scope c)"

definition service_claims_json :: "ServiceClaims \<Rightarrow> json" where
  "service_claims_json c = JObj ([(''sub'', JStr (sc_sub c)), (''exp'', JNum (sc_exp c)), (''iat'', JNum (sc_iat c)),
     (''scope'', JStr (sc_scope c))]
     @ (case sc_service_type c of None \<Rightarrow> [] | Some t \<Rightarrow> [(''service_type'', JStr t)]))"

definition service_claims_of :: "json \<Rightarrow> ServiceClaims option" where
  "service_claims_of j =
     (case (field as_str ''sub'' j, field as_i64 ''exp'' j, field as_i64 ''iat'' j, field as_str ''scope'' j,
            opt_field as_str ''service_type'' j) of
        (Some sub, Some exp, Some iat, Some scope, Some t) \<Rightarrow> Some (service_claims_new sub exp iat scope t)
      | _ \<Rightarrow> None)"

record UserClaims =
  uc_sub :: string
  uc_org_id :: string
  uc_email :: string
  uc_roles :: "string list"
  uc_iat :: int
  uc_exp :: int
  uc_jti :: string

definition user_claims_json :: "UserClaims \<Rightarrow> json" where
  "user_claims_json c = JObj [(''sub'', JStr (uc_sub c)), (''org_id'', JStr (uc_org_id c)), (''email'', JStr (uc_email c)),
     (''roles'', JArr (map JStr (uc_roles c))), (''iat'', JNum (uc_iat c)), (''exp'', JNum (uc_exp c)),
     (''jti'', JStr (uc_jti c))]"

definition user_claims_of :: "json \<Rightarrow> UserClaims option" where
  "user_claims_of j =
     (case (field as_str ''sub'' j, field as_str ''org_id'' j, field as_str ''email'' j, field as_strings ''roles'' j,
            field as_i64 ''iat'' j, field as_i64 ''exp'' j, field as_str ''jti'' j) of
        (Some sub, Some org, Some email, Some roles, Some iat, Some exp, Some jti) \<Rightarrow>
          Some \<lparr>uc_sub = sub, uc_org_id = org, uc_email = email, uc_roles = roles, uc_iat = iat, uc_exp = exp, uc_jti = jti\<rparr>
      | _ \<Rightarrow> None)"

datatype ParticipantType = Member | External

datatype MeetingRole = Host | MrParticipant

fun as_participant_type :: "json \<Rightarrow> ParticipantType option" where
  "as_participant_type (JStr s) =
     (if s = ''member'' then Some Member else if s = ''external'' then Some External else None)"
| "as_participant_type _ = None"

fun as_meeting_role :: "json \<Rightarrow> MeetingRole option" where
  "as_meeting_role (JStr s) =
     (if s = ''host'' then Some Host else if s = ''participant'' then Some MrParticipant else None)"
| "as_meeting_role _ = None"

record MeetingTokenClaims =
  mt_sub :: string
  mt_token_type :: string
  mt_meeting_id :: string
  mt_home_org_id :: "string option"
  mt_meeting_org_id :: string
  mt_participant_type :: ParticipantType
  mt_role :: MeetingRole
  mt_capabilities :: "string list"
  mt_iat :: int
  mt_exp :: int
  mt_jti :: string

definition meeting_claims_of :: "json \<Rightarrow> MeetingTokenClaims option" where
  "meeting_claims_of j =
     (case (field as_str ''sub'' j, field as_str ''token_type'' j, field as_str ''meeting_id'' j,
            opt_field as_str ''home_org_id'' j, field as_str ''meeting_org_id'' j,
            field as_participant_type ''participant_type'' j, field as_meeting_role ''role'' j) of
        (Some sub, Some tt, Some mid, Some home, Some org, Some pt, Some role) \<Rightarrow>
          (case (field as_strings ''capabilities'' j, field as_i64 ''iat'' j, field as_i64 ''exp'' j, field as_str ''jti'' j) of
             (Some caps, Some iat, Some exp, Some jti) \<Rightarrow>
               Some \<lparr>mt_sub = sub, mt_token_type = tt, mt_meeting_id = mid, mt_home_org_id = home, mt_meeting_org_id = org,
                     mt_participant_type = pt, mt_role = role, mt_capabilities = caps, mt_iat = iat, mt_exp = exp, mt_jti = jti\<rparr>
           | _ \<Rightarrow> None)
      | _ \<Rightarrow> None)"

record GuestTokenClaims =
  gt_sub :: string
  gt_token_type :: string
  gt_meeting_id :: string
  gt_meeting_org_id :: string
  gt_participant_type :: string
  gt_role :: string
  gt_display_name :: string
  gt_waiting_room :: bool
  gt_capabilities :: "string list"
  gt_iat :: int
  gt_exp :: int
  gt_jti :: string

definition guest_claims_json :: "GuestTokenClaims \<Rightarrow> json" where
  "guest_claims_json c = JObj [(''sub'', JStr (gt_sub c)), (''token_type'', JStr (gt_token_type c)),
     (''meeting_id'', JStr (gt_meeting_id c)), (''meeting_org_id'', JStr (gt_meeting_org_id c)),
     (''participant_type'', JStr (gt_participant_type c)), (''role'', JStr (gt_role c)),
     (''display_name'', JStr (gt_display_name c)), (''waiting_room'', JBool (gt_waiting_room c)),
     (''capabilities'', JArr (map JStr (gt_capabilities c))), (''iat'', JNum (gt_iat c)), (''exp'', JNum (gt_exp c)),
     (''jti'', JStr (gt_jti c))]"

definition guest_claims_of :: "json \<Rightarrow> GuestTokenClaims option" where
  "guest_claims_of j =
     (case (field as_str ''sub'' j, field as_str ''token_type'' j, field as_str ''meeting_id'' j,
            field as_str ''meeting_org_id'' j, field as_str ''participant_type'' j, field as_str ''role'' j) of
        (Some sub, Some tt, Some mid, Some org, Some pt, Some role) \<Rightarrow>
          (case (field as_str ''display_name'' j, field as_bool ''waiting_room'' j, field as_strings ''capabilities'' j,
                 field as_i64 ''iat'' j, field as_i64 ''exp'' j, field as_str ''jti'' j) of
             (Some name, Some wait, Some caps, Some iat, Some exp, Some jti) \<Rightarrow>
               Some \<lparr>gt_sub = sub, gt_token_type = tt, gt_meeting_id = mid, gt_meeting_org_id = org, gt_participant_type = pt,
                     gt_role = role, gt_display_name = name, gt_waiting_room = wait, gt_capabilities = caps, gt_iat = iat,
                     gt_exp = exp, gt_jti = jti\<rparr>
           | _ \<Rightarrow> None)
      | _ \<Rightarrow> None)"

definition quoted :: "string \<Rightarrow> string" where
  "quoted s = CHR 0x27 # s @ [CHR 0x27]"

definition guest_validate :: "GuestTokenClaims \<Rightarrow> (unit, string) result" where
  "guest_validate c =
     (if gt_token_type c \<noteq> ''guest'' then Err (''Guest token must have token_type '' @ quoted ''guest'')
      else if gt_participant_type c \<noteq> ''guest'' then Err (''Guest token must have participant_type '' @ quoted ''guest'')
      else if gt_role c \<noteq> ''guest'' then Err (''Guest token must have role '' @ quoted ''guest'')
      else Ok ())"

section \<open>Errors, and the library\<close>

datatype JwtError = TokenTooLarge | MalformedToken | MissingKid | IatTooFarInFuture | InvalidSignature | KeyNotFound
  | JwtServiceUnavailable string

definition MAX_JWT_SIZE_BYTES :: nat where
  "MAX_JWT_SIZE_BYTES = 8192"

definition MAX_CLOCK_SKEW :: int where
  "MAX_CLOCK_SKEW = 600"

definition DEFAULT_CACHE_TTL_SECONDS :: nat where
  "DEFAULT_CACHE_TTL_SECONDS = 300"

text \<open>
  \<open>jl_decode\<close> is \<open>jsonwebtoken::decode\<close> with the algorithm EdDSA and expiry checked, at a time, giving
  the payload; the leeway for expiry is the library's default, 60 seconds.
\<close>

record jwt_lib =
  jl_b64_encode :: "u8 list \<Rightarrow> string"
  jl_b64_decode :: "string \<Rightarrow> u8 list option"
  jl_b64url_encode :: "u8 list \<Rightarrow> string"
  jl_b64url_decode :: "string \<Rightarrow> u8 list option"
  jl_json_parse :: "u8 list \<Rightarrow> json option"
  jl_encode :: "string \<Rightarrow> json \<Rightarrow> u8 list \<Rightarrow> (string, string) result"
  jl_decode :: "string \<Rightarrow> u8 list \<Rightarrow> int \<Rightarrow> json option"

section \<open>Reading a token\<close>

definition extract_kid :: "jwt_lib \<Rightarrow> string \<Rightarrow> (string, JwtError) result" where
  "extract_kid K token =
     (if length token > MAX_JWT_SIZE_BYTES then Err TokenTooLarge
      else let parts = split_on (\<lambda>c. c = CHR ''.'') token
           in if length parts \<noteq> 3 then Err MalformedToken
              else case jl_b64url_decode K (parts ! 0) of
                     None \<Rightarrow> Err MalformedToken
                   | Some header_bytes \<Rightarrow>
                       (case jl_json_parse K header_bytes of
                          None \<Rightarrow> Err MalformedToken
                        | Some header \<Rightarrow>
                            (case Option.bind (json_get ''kid'' header) as_str of
                               None \<Rightarrow> Err MissingKid
                             | Some kid \<Rightarrow> if kid = [] then Err MissingKid else Ok kid)))"

text \<open>\<open>now + clock_skew_secs\<close> does not overflow: both are far below \<open>2 ^ 62\<close>.\<close>

definition validate_iat_at :: "int \<Rightarrow> int \<Rightarrow> int \<Rightarrow> (unit, JwtError) result" where
  "validate_iat_at iat clock_skew_secs now =
     (let max_iat = now + clock_skew_secs in if iat > max_iat then Err IatTooFarInFuture else Ok ())"

definition lines_of :: "string \<Rightarrow> string list" where
  "lines_of s = (let ls = split_on (\<lambda>c. c = CHR 0x0A) s
     in map (\<lambda>l. if l \<noteq> [] \<and> last l = CHR 0x0D then butlast l else l) (if last ls = [] then butlast ls else ls))"

definition starts_with :: "string \<Rightarrow> string \<Rightarrow> bool" where
  "starts_with prefix s \<longleftrightarrow> take (length prefix) s = prefix"

definition pem_body :: "string \<Rightarrow> string" where
  "pem_body pem = concat (filter (\<lambda>l. \<not> starts_with ''-----'' l) (lines_of pem))"

definition decode_ed25519_public_key_pem :: "jwt_lib \<Rightarrow> string \<Rightarrow> u8 list option" where
  "decode_ed25519_public_key_pem K pem = jl_b64_decode K (pem_body pem)"

definition decode_ed25519_public_key_jwk :: "jwt_lib \<Rightarrow> string \<Rightarrow> u8 list option" where
  "decode_ed25519_public_key_jwk K x = jl_b64url_decode K x"

section \<open>The key cache\<close>

record Jwk =
  jk_kty :: string
  jk_kid :: string
  jk_crv :: "string option"
  jk_x :: "string option"
  jk_alg :: "string option"
  jk_use :: "string option"

record CachedJwks =
  cj_keys :: "(string, Jwk) hmap"
  cj_expires_at :: instant

record JwksClient =
  jc_cache :: "CachedJwks option"
  jc_cache_ttl :: duration

definition jwks_client_new :: "duration \<Rightarrow> JwksClient" where
  "jwks_client_new ttl = \<lparr>jc_cache = None, jc_cache_ttl = ttl\<rparr>"

text \<open>What comes back from the Auth Controller.\<close>

datatype jwks_reply = SendFailed | ErrorStatus | BadBody | Keys "Jwk list"

definition key_map :: "Jwk list \<Rightarrow> (string, Jwk) hmap" where
  "key_map ks = fold (\<lambda>k m. hm_insert (jk_kid k) k m) ks []"

definition refresh_cache :: "jwks_reply \<Rightarrow> instant \<Rightarrow> JwksClient \<Rightarrow> (unit, JwtError) result \<times> JwksClient" where
  "refresh_cache reply now c =
     (case reply of
        Keys ks \<Rightarrow> (Ok (), c\<lparr>jc_cache := Some \<lparr>cj_keys = key_map ks, cj_expires_at = now + jc_cache_ttl c\<rparr>\<rparr>)
      | _ \<Rightarrow> (Err (JwtServiceUnavailable ''Authentication service unavailable''), c))"

definition force_refresh :: "jwks_reply \<Rightarrow> instant \<Rightarrow> JwksClient \<Rightarrow> (unit, JwtError) result \<times> JwksClient" where
  "force_refresh reply now c = refresh_cache reply now c"

text \<open>
  \<open>others\<close> is what other tasks that share the client did to it between the refresh and the second
  look; \<open>t1\<close> is the time of the first look and \<open>t2\<close> that of the refresh.
\<close>

definition get_key ::
  "instant \<Rightarrow> jwks_reply \<Rightarrow> instant \<Rightarrow> (JwksClient \<Rightarrow> JwksClient) \<Rightarrow> string \<Rightarrow> JwksClient
     \<Rightarrow> (Jwk, JwtError) result \<times> JwksClient"
where
  "get_key t1 reply t2 others kid c =
     (let fetch =
        (case refresh_cache reply t2 c of
           (Inl e, c) \<Rightarrow> (Err e, c)
         | (Inr _, c) \<Rightarrow>
             (let c = others c
              in case jc_cache c of
                   None \<Rightarrow> (Err KeyNotFound, c)
                 | Some cached \<Rightarrow>
                     (case hm_get (cj_keys cached) kid of None \<Rightarrow> (Err KeyNotFound, c) | Some key \<Rightarrow> (Ok key, c))))
      in case jc_cache c of
           None \<Rightarrow> fetch
         | Some cached \<Rightarrow>
             if cj_expires_at cached > t1
             then case hm_get (cj_keys cached) kid of None \<Rightarrow> (Err KeyNotFound, c) | Some key \<Rightarrow> (Ok key, c)
             else fetch)"

section \<open>Verification and validation\<close>

definition verify_token :: "jwt_lib \<Rightarrow> (json \<Rightarrow> 'c option) \<Rightarrow> int \<Rightarrow> string \<Rightarrow> Jwk \<Rightarrow> ('c, JwtError) result" where
  "verify_token K claims_of now token jwk =
     (if jk_kty jwk \<noteq> ''OKP'' then Err InvalidSignature
      else if (case jk_alg jwk of None \<Rightarrow> False | Some alg \<Rightarrow> alg \<noteq> ''EdDSA'') then Err InvalidSignature
      else case jk_x jwk of
             None \<Rightarrow> Err InvalidSignature
           | Some x \<Rightarrow>
               (case decode_ed25519_public_key_jwk K x of
                  None \<Rightarrow> Err InvalidSignature
                | Some public_key_bytes \<Rightarrow>
                    (case Option.bind (jl_decode K token public_key_bytes now) claims_of of
                       None \<Rightarrow> Err InvalidSignature
                     | Some claims \<Rightarrow> Ok claims)))"

record JwtValidator =
  jv_client :: JwksClient
  jv_clock_skew_seconds :: int

definition jwt_validator_new :: "JwksClient \<Rightarrow> int \<Rightarrow> JwtValidator" where
  "jwt_validator_new client clock_skew_seconds =
     \<lparr>jv_client = client, jv_clock_skew_seconds = min (max clock_skew_seconds 0) MAX_CLOCK_SKEW\<rparr>"

text \<open>The times and the reply one validation meets.\<close>

record validate_env =
  ve_look :: instant
  ve_reply :: jwks_reply
  ve_refresh :: instant
  ve_others :: "JwksClient \<Rightarrow> JwksClient"
  ve_decode_now :: int
  ve_iat_now :: int

definition jwt_validate ::
  "jwt_lib \<Rightarrow> (json \<Rightarrow> 'c option) \<Rightarrow> ('c \<Rightarrow> int) \<Rightarrow> validate_env \<Rightarrow> string \<Rightarrow> JwtValidator
     \<Rightarrow> ('c, JwtError) result \<times> JwtValidator"
where
  "jwt_validate K claims_of iat e token v =
     (case extract_kid K token of
        Inl err \<Rightarrow> (Err err, v)
      | Inr kid \<Rightarrow>
          (case get_key (ve_look e) (ve_reply e) (ve_refresh e) (ve_others e) kid (jv_client v) of
             (Inl err, c) \<Rightarrow> (Err err, v\<lparr>jv_client := c\<rparr>)
           | (Inr jwk, c) \<Rightarrow>
               (case verify_token K claims_of (ve_decode_now e) token jwk of
                  Inl err \<Rightarrow> (Err err, v\<lparr>jv_client := c\<rparr>)
                | Inr claims \<Rightarrow>
                    (case validate_iat_at (iat claims) (jv_clock_skew_seconds v) (ve_iat_now e) of
                       Inl err \<Rightarrow> (Err err, v\<lparr>jv_client := c\<rparr>)
                     | Inr _ \<Rightarrow> (Ok claims, v\<lparr>jv_client := c\<rparr>)))))"

section \<open>Claims are read back\<close>

definition i64 :: "int \<Rightarrow> bool" where
  "i64 n \<longleftrightarrow> - (2 ^ 63) \<le> n \<and> n < 2 ^ 63"

named_theorems json_simps \<open>reading fields of JSON objects\<close>

lemmas [json_simps] = field_def opt_field_def hm_get_def i64_def

lemma all_some_strings [simp]: "all_some (map (as_str \<circ> JStr) ss) = Some ss"
  by (induction ss) simp_all

lemma service_claims_roundtrip:
  "i64 (sc_exp c) \<Longrightarrow> i64 (sc_iat c) \<Longrightarrow> service_claims_of (service_claims_json c) = Some c"
  by (cases "sc_service_type c") (simp_all add: service_claims_of_def service_claims_json_def service_claims_new_def json_simps)

lemma user_claims_roundtrip:
  "i64 (uc_exp c) \<Longrightarrow> i64 (uc_iat c) \<Longrightarrow> user_claims_of (user_claims_json c) = Some c"
  by (simp add: user_claims_of_def user_claims_json_def json_simps)

lemma guest_claims_roundtrip:
  "i64 (gt_exp c) \<Longrightarrow> i64 (gt_iat c) \<Longrightarrow> guest_claims_of (guest_claims_json c) = Some c"
  by (simp add: guest_claims_of_def guest_claims_json_def json_simps)

section \<open>Words of a text\<close>

lemma split_on_not_Nil [simp]: "split_on p s \<noteq> []"
  by (induction s) (auto split: list.split)

lemma split_on_append_sep: "p c \<Longrightarrow> split_on p (a @ c # b) = split_on p a @ split_on p b"
proof (induction a)
  case (Cons x a)
  then show ?case by (cases "split_on p a") (auto split: list.split)
qed simp

lemma split_on_clean: "\<forall>c \<in> set s. \<not> p c \<Longrightarrow> split_on p s = [s]"
  by (induction s) auto

lemma split_on_words: "w \<in> set (split_on p s) \<Longrightarrow> c \<in> set w \<Longrightarrow> \<not> p c"
proof (induction s arbitrary: w)
  case (Cons x s)
  obtain v vs where s: "split_on p s = v # vs" by (cases "split_on p s") simp_all
  show ?case
  proof (cases "p x \<or> w \<in> set vs")
    case True
    then show ?thesis using Cons s by (auto split: if_splits)
  next
    case False
    then have "w = x # v" "\<not> p x" using Cons.prems(1) s by auto
    then show ?thesis using Cons.IH [of v] Cons.prems(2) s by auto
  qed
qed simp

lemma split_whitespace_space:
  "split_whitespace (a @ '' '' @ b) = split_whitespace a @ split_whitespace b"
  by (simp add: split_whitespace_def split_on_append_sep is_whitespace_def)

lemma split_whitespace_join:
  "split_whitespace (join_with '' '' ws) = concat (map split_whitespace ws)"
proof (induction "'' ''" ws rule: join_with.induct)
  case (3 w v vs)
  then show ?case using split_whitespace_space [of w "join_with '' '' (v # vs)"] by simp
qed (simp_all add: split_whitespace_def)

text \<open>A word has no white space and is not empty.\<close>

definition is_word :: "string \<Rightarrow> bool" where
  "is_word w \<longleftrightarrow> w \<noteq> [] \<and> list_all (\<lambda>c. \<not> is_whitespace c) w"

lemma split_whitespace_word: "is_word w \<Longrightarrow> split_whitespace w = [w]"
  by (simp add: is_word_def split_whitespace_def split_on_clean list_all_iff)

lemma split_whitespace_words: "w \<in> set (split_whitespace s) \<Longrightarrow> is_word w"
  by (auto simp: is_word_def split_whitespace_def list_all_iff dest: split_on_words)

lemma split_join_words: "list_all is_word ws \<Longrightarrow> split_whitespace (join_with '' '' ws) = ws"
  unfolding split_whitespace_join by (induction ws) (simp_all add: split_whitespace_word)

section \<open>The validator\<close>

lemma get_key_cached:
  assumes "get_key t1 reply t2 others kid c = (Ok jwk, c')"
  shows "\<exists>cached. jc_cache c' = Some cached \<and> hm_get (cj_keys cached) kid = Some jwk"
  using assms by (auto simp: get_key_def refresh_cache_def Let_def split: option.splits if_splits sum.splits prod.splits jwks_reply.splits)

lemma extract_kid_ok:
  assumes "extract_kid K token = Ok kid"
  shows "length token \<le> 8192 \<and> length (split_on (\<lambda>c. c = CHR ''.'') token) = 3 \<and> kid \<noteq> []"
  using assms by (auto simp: extract_kid_def MAX_JWT_SIZE_BYTES_def Let_def split: option.splits if_splits)

lemma verify_token_ok:
  assumes "verify_token K claims_of now token jwk = Ok claims"
  shows "jk_kty jwk = ''OKP'' \<and> jk_alg jwk \<in> {None, Some ''EdDSA''}
    \<and> (\<exists>x key payload. jk_x jwk = Some x \<and> jl_b64url_decode K x = Some key
          \<and> jl_decode K token key now = Some payload \<and> claims_of payload = Some claims)"
  using assms by (auto simp: verify_token_def decode_ed25519_public_key_jwk_def split: option.splits if_splits bind_splits)

definition cached_key :: "JwtValidator \<Rightarrow> string \<Rightarrow> Jwk option" where
  "cached_key v kid = Option.bind (jc_cache (jv_client v)) (\<lambda>c. hm_get (cj_keys c) kid)"

lemma jwt_validate_ok:
  assumes "jwt_validate K claims_of iat e token v = (Ok claims, v')"
  obtains kid jwk c where "extract_kid K token = Ok kid"
    "get_key (ve_look e) (ve_reply e) (ve_refresh e) (ve_others e) kid (jv_client v) = (Ok jwk, c)"
    "v' = v\<lparr>jv_client := c\<rparr>" "verify_token K claims_of (ve_decode_now e) token jwk = Ok claims"
    "validate_iat_at (iat claims) (jv_clock_skew_seconds v) (ve_iat_now e) = Ok ()"
  using assms by (auto simp: jwt_validate_def split: sum.splits prod.splits)

lemma validate_iat_at_ok [simp]: "validate_iat_at t skew now = Ok () \<longleftrightarrow> t \<le> now + skew"
  by (simp add: validate_iat_at_def)

section \<open>The library's contract\<close>

text \<open>
  What the model relies on: base64 is read back and has none of the marks of a PEM file, an encoded token
  has three parts of which the first is a header with the key's identifier, and decoding gives the
  payload back under the key's public half until 60 seconds after expiry.
\<close>

definition b64_ok :: "jwt_lib \<Rightarrow> bool" where
  "b64_ok K \<longleftrightarrow>
     (\<forall>bs. jl_b64_decode K (jl_b64_encode K bs) = Some bs \<and> jl_b64url_decode K (jl_b64url_encode K bs) = Some bs
        \<and> set (jl_b64_encode K bs) \<inter> {CHR ''-'', CHR 0x0A, CHR 0x0D} = {})"

definition header_kid :: "jwt_lib \<Rightarrow> string \<Rightarrow> string option" where
  "header_kid K h =
     Option.bind (jl_b64url_decode K h) (\<lambda>bs. Option.bind (jl_json_parse K bs) (\<lambda>j. Option.bind (json_get ''kid'' j) as_str))"

definition signing_ok :: "jwt_lib \<Rightarrow> (u8 list \<Rightarrow> (u8 list, string) result) \<Rightarrow> bool" where
  "signing_ok K public_of \<longleftrightarrow>
     (\<forall>kid payload priv token. jl_encode K kid payload priv = Ok token \<longrightarrow>
        (\<exists>h p s. split_on (\<lambda>c. c = CHR ''.'') token = [h, p, s] \<and> header_kid K h = Some kid)
        \<and> (\<forall>pub exp now. public_of priv = Ok pub \<longrightarrow> field as_i64 ''exp'' payload = Some exp \<longrightarrow> now \<le> exp + 60 \<longrightarrow>
             jl_decode K token pub now = Some payload))"

text \<open>A decoded token was not expired; an expiry time that is not an integer is left out.\<close>

definition expiry_ok :: "jwt_lib \<Rightarrow> bool" where
  "expiry_ok K \<longleftrightarrow>
     (\<forall>token pub now payload. jl_decode K token pub now = Some payload \<longrightarrow>
        (\<exists>exp. field as_i64 ''exp'' payload = Some exp \<and> now \<le> exp + 60))"

text \<open>A library for examples: base64 is unary, and one token is known.\<close>

definition unary :: "u8 list \<Rightarrow> string" where
  "unary bs = concat (map (\<lambda>b. replicate (unat b) (CHR ''a'') @ ''b'') bs)"

fun of_unary :: "nat \<Rightarrow> string \<Rightarrow> u8 list option" where
  "of_unary n [] = (if n = 0 then Some [] else None)"
| "of_unary n (c # cs) =
     (if c = CHR ''a'' then of_unary (Suc n) cs
      else if c = CHR ''b'' then map_option ((#) (of_nat n)) (of_unary 0 cs)
      else None)"

lemma of_unary_replicate:
  "of_unary n (replicate k (CHR ''a'') @ CHR ''b'' # cs) = map_option ((#) (of_nat (n + k))) (of_unary 0 cs)"
  by (induction k arbitrary: n) (simp_all add: add.assoc)

lemma of_unary_unary [simp]: "of_unary 0 (unary bs) = Some bs"
  by (induction bs) (simp_all add: unary_def of_unary_replicate)

lemma unary_chars: "c \<in> set (unary bs) \<Longrightarrow> c \<in> {CHR ''a'', CHR ''b''}"
  by (auto simp: unary_def split: if_splits)

definition demo_lib :: "string \<Rightarrow> u8 list \<Rightarrow> u8 list \<Rightarrow> json \<Rightarrow> jwt_lib" where
  "demo_lib kid0 priv0 pub0 payload0 =
     \<lparr>jl_b64_encode = unary, jl_b64_decode = of_unary 0, jl_b64url_encode = unary, jl_b64url_decode = of_unary 0,
      jl_json_parse = (\<lambda>bs. if bs = [1] then Some (JObj [(''kid'', JStr kid0)]) else None),
      jl_encode = (\<lambda>kid payload priv.
        if kid = kid0 \<and> priv = priv0 \<and> payload = payload0 then Ok ''ab.b.b'' else Err ''not known''),
      jl_decode = (\<lambda>token pub now.
        case field as_i64 ''exp'' payload0 of
          None \<Rightarrow> None
        | Some exp \<Rightarrow> if token = ''ab.b.b'' \<and> pub = pub0 \<and> now \<le> exp + 60 then Some payload0 else None)\<rparr>"

lemma demo_lib_b64: "b64_ok (demo_lib kid0 priv0 pub0 payload0)"
  using unary_chars by (fastforce simp: b64_ok_def demo_lib_def)

lemma demo_lib_signing: "public_of priv0 = Ok pub0 \<Longrightarrow> signing_ok (demo_lib kid0 priv0 pub0 payload0) public_of"
  by (auto simp: signing_ok_def demo_lib_def header_kid_def hm_get_def numeral_eq_Suc split: if_splits)

lemma demo_lib_expiry: "expiry_ok (demo_lib kid0 priv0 pub0 payload0)"
  by (auto simp: expiry_ok_def demo_lib_def split: if_splits option.splits)

text \<open>
  C6. A token that a validator accepts is at most 8192 bytes long and names a key; the validator's cache holds an
  Ed25519 key of that name, under which the token decodes to the claims it returns; the token has not been expired for
  more than 60 seconds, and was issued at most the validator's tolerance, never more than ten minutes, in the future.
\<close>

theorem accepted_token_sound:
  assumes "jwt_validate K claims_of iat e token (jwt_validator_new client skew) = (Ok claims, v')" and "expiry_ok K"
  shows "length token \<le> 8192
    \<and> (\<exists>kid jwk x key payload exp. extract_kid K token = Ok kid \<and> kid \<noteq> [] \<and> cached_key v' kid = Some jwk
         \<and> jk_kty jwk = ''OKP'' \<and> jk_alg jwk \<in> {None, Some ''EdDSA''} \<and> jk_x jwk = Some x
         \<and> jl_b64url_decode K x = Some key \<and> jl_decode K token key (ve_decode_now e) = Some payload
         \<and> claims_of payload = Some claims \<and> field as_i64 ''exp'' payload = Some exp \<and> ve_decode_now e \<le> exp + 60)
    \<and> iat claims \<le> ve_iat_now e + max 0 (min skew 600)"
proof -
  obtain kid jwk c where ok: "extract_kid K token = Ok kid"
    "get_key (ve_look e) (ve_reply e) (ve_refresh e) (ve_others e) kid client = (Ok jwk, c)"
    "v' = (jwt_validator_new client skew)\<lparr>jv_client := c\<rparr>" "verify_token K claims_of (ve_decode_now e) token jwk = Ok claims"
    "iat claims \<le> ve_iat_now e + min (max skew 0) 600"
    using assms(1) by (rule jwt_validate_ok) (simp_all add: jwt_validator_new_def MAX_CLOCK_SKEW_def)
  have "cached_key v' kid = Some jwk" using get_key_cached [OF ok(2)] ok(3) by (auto simp: cached_key_def)
  then show ?thesis
    using ok extract_kid_ok [OF ok(1)] verify_token_ok [OF ok(4)] assms(2) unfolding expiry_ok_def by (auto simp: min_def max_def)
qed

definition demo_claims :: ServiceClaims where
  "demo_claims = service_claims_new ''gc'' 4600 1000 ''a b'' (Some ''global-controller'')"

definition demo_jwk :: Jwk where
  "demo_jwk = \<lparr>jk_kty = ''OKP'', jk_kid = ''k'', jk_crv = Some ''Ed25519'', jk_x = Some ''aab'', jk_alg = Some ''EdDSA'', jk_use = Some ''sig''\<rparr>"

definition demo_validate_env :: "int \<Rightarrow> validate_env" where
  "demo_validate_env now = \<lparr>ve_look = 0, ve_reply = Keys [demo_jwk], ve_refresh = 0, ve_others = (\<lambda>c. c), ve_decode_now = now, ve_iat_now = now\<rparr>"

abbreviation "demo_K \<equiv> demo_lib ''k'' [7] [2] (service_claims_json demo_claims)"

theorem accepted_token_sound_witness:
  "fst (jwt_validate demo_K service_claims_of sc_iat (demo_validate_env 2000) ''ab.b.b''
     (jwt_validator_new (jwks_client_new 300) 1000)) = Ok demo_claims
   \<and> sc_iat demo_claims \<le> 2000 + max 0 (min 1000 600)"
proof -
  let ?v = "jwt_validate demo_K service_claims_of sc_iat (demo_validate_env 2000) ''ab.b.b'' (jwt_validator_new (jwks_client_new 300) 1000)"
  have ok: "fst ?v = Ok demo_claims" by code_simp
  then have v: "?v = (Ok demo_claims, snd ?v)" by (metis prod.collapse)
  from accepted_token_sound [OF v demo_lib_expiry] ok show ?thesis by (simp add: demo_validate_env_def)
qed

end
