(* ===== verification/AC_Store.thy ===== *)
theory AC_Store
  imports Auth_Token
begin

text \<open>
  The Auth Controller's tables and the repository functions over them (crates/ac-service/src:
  repositories/service_credentials.rs, signing_keys.rs, auth_events.rs, users.rs, with models/mod.rs and
  errors.rs).  A statement is an atomic function on the tables at the time \<open>now\<close>; constraints of the
  schema that a statement can violate make it fail.  Identifiers drawn by the database are arguments.
  The lookups that no service calls are left out.
\<close>

section \<open>Errors\<close>

datatype AcError = AcDatabase string | AcCrypto string | InvalidCredentials
  | InsufficientScope string "string list" | InvalidToken string | AcNotFound string
  | RateLimitExceeded | TooManyRequests int string | AcInternal

primrec ac_status_code :: "AcError \<Rightarrow> u16" where
  "ac_status_code (AcDatabase _) = 500"
| "ac_status_code (AcCrypto _) = 500"
| "ac_status_code AcInternal = 500"
| "ac_status_code InvalidCredentials = 401"
| "ac_status_code (InvalidToken _) = 401"
| "ac_status_code (InsufficientScope _ _) = 403"
| "ac_status_code (AcNotFound _) = 404"
| "ac_status_code RateLimitExceeded = 429"
| "ac_status_code (TooManyRequests _ _) = 429"

record ErrorDetail =
  er_code :: string
  er_message :: string
  er_required_scope :: "string option"
  er_provided_scopes :: "string list option"
  er_retry_after_seconds :: "int option"

definition error_detail :: "string \<Rightarrow> string \<Rightarrow> ErrorDetail" where
  "error_detail code message =
     \<lparr>er_code = code, er_message = message, er_required_scope = None, er_provided_scopes = None, er_retry_after_seconds = None\<rparr>"

primrec ac_error_body :: "AcError \<Rightarrow> u16 \<times> ErrorDetail" where
  "ac_error_body (AcDatabase _) = (500, error_detail ''DATABASE_ERROR'' ''An internal database error occurred'')"
| "ac_error_body (AcCrypto _) = (500, error_detail ''CRYPTO_ERROR'' ''An internal error occurred'')"
| "ac_error_body InvalidCredentials = (401, error_detail ''INVALID_CREDENTIALS'' ''Invalid client credentials'')"
| "ac_error_body (InsufficientScope required provided) =
     (403, (error_detail ''INSUFFICIENT_SCOPE'' (''Requires scope: '' @ required))
             \<lparr>er_required_scope := Some required, er_provided_scopes := Some provided\<rparr>)"
| "ac_error_body (InvalidToken reason) = (401, error_detail ''INVALID_TOKEN'' reason)"
| "ac_error_body (AcNotFound resource) = (404, error_detail ''NOT_FOUND'' resource)"
| "ac_error_body RateLimitExceeded = (429, error_detail ''RATE_LIMIT_EXCEEDED'' ''Too many requests. Please try again later.'')"
| "ac_error_body (TooManyRequests retry_after message) =
     (429, (error_detail ''TOO_MANY_REQUESTS'' message)\<lparr>er_retry_after_seconds := Some retry_after\<rparr>)"
| "ac_error_body AcInternal = (500, error_detail ''INTERNAL_ERROR'' ''An internal error occurred'')"

definition show_int :: "int \<Rightarrow> string" where
  "show_int n = (if n < 0 then ''-'' @ show_nat (nat (- n)) else show_nat (nat n))"

text \<open>
  The response: status, body and headers.  A header whose text is not a header value (\<open>header_ok\<close>, the HTTP library's
  parser) is left out; the quote marks are the characters of code 34.
\<close>

definition ac_into_response :: "(string \<Rightarrow> bool) \<Rightarrow> AcError \<Rightarrow> u16 \<times> ErrorDetail \<times> (string \<times> string) list" where
  "ac_into_response header_ok e =
     (case ac_error_body e of
        (status, detail) \<Rightarrow>
          (let q = (\<lambda>s. CHR 0x22 # s @ [CHR 0x22]);
               www = ''Bearer realm='' @ q ''dark-tower-api'' @ '', error=''
                 @ (case er_required_scope detail of
                      Some scope \<Rightarrow> q ''insufficient_scope'' @ '', error_description='' @ q (''Requires scope: '' @ scope)
                    | None \<Rightarrow> q ''invalid_token'');
               auth = (if (status = 401 \<or> status = 403) \<and> header_ok www then [(''WWW-Authenticate'', www)] else []);
               retry = (case er_retry_after_seconds detail of
                          Some n \<Rightarrow> if header_ok (show_int n) then [(''Retry-After'', show_int n)] else []
                        | None \<Rightarrow> [])
           in (status, detail, auth @ retry)))"

section \<open>Tables\<close>

record ServiceCredential =
  cd_credential_id :: string
  cd_client_id :: string
  cd_client_secret_hash :: string
  cd_service_type :: string
  cd_region :: "string option"
  cd_scopes :: "string list"
  cd_is_active :: bool
  cd_created_at :: instant
  cd_updated_at :: instant

record SigningKey =
  ky_key_id :: string
  ky_public_key :: string
  ky_private_key_encrypted :: "u8 list"
  ky_encryption_nonce :: "u8 list"
  ky_encryption_tag :: "u8 list"
  ky_is_active :: bool
  ky_valid_from :: instant
  ky_valid_until :: instant
  ky_created_at :: instant

record AuthEvent =
  ev_event_type :: string
  ev_user_id :: "string option"
  ev_credential_id :: "string option"
  ev_success :: bool
  ev_failure_reason :: "string option"
  ev_ip_address :: "string option"
  ev_created_at :: instant

record User =
  us_user_id :: string
  us_org_id :: string
  us_email :: string
  us_password_hash :: string
  us_display_name :: string
  us_is_active :: bool
  us_last_login_at :: "instant option"

record Organization =
  og_org_id :: string
  og_subdomain :: string
  og_is_active :: bool

record ac_db =
  ad_orgs :: "Organization list"
  ad_credentials :: "ServiceCredential list"
  ad_keys :: "SigningKey list"
  ad_events :: "AuthEvent list"
  ad_users :: "User list"
  ad_roles :: "(string \<times> string) list"

text \<open>A statement under a fault; every failure becomes a database error with the text of the call.\<close>

fun ac_exec :: "string \<Rightarrow> db_fault \<Rightarrow> (ac_db \<Rightarrow> ('a, string) result \<times> ac_db) \<Rightarrow> ac_db \<Rightarrow> ('a, AcError) result \<times> ac_db" where
  "ac_exec msg DbOk f db =
     (case f db of (Inl e, db') \<Rightarrow> (Err (AcDatabase (msg @ e)), db') | (Inr a, db') \<Rightarrow> (Ok a, db'))"
| "ac_exec msg (DbFailBefore e) f db = (Err (AcDatabase (msg @ e)), db)"
| "ac_exec msg (DbFailAfter e) f db = (Err (AcDatabase (msg @ e)), snd (f db))"

text \<open>\<open>ORDER BY t DESC\<close>: newest first.\<close>

fun insert_newest :: "('a \<Rightarrow> instant) \<Rightarrow> 'a \<Rightarrow> 'a list \<Rightarrow> 'a list" where
  "insert_newest t k [] = [k]"
| "insert_newest t k (x # xs) = (if t x \<le> t k then k # x # xs else x # insert_newest t k xs)"

definition newest_first :: "('a \<Rightarrow> instant) \<Rightarrow> 'a list \<Rightarrow> 'a list" where
  "newest_first t rows = foldr (insert_newest t) rows []"

section \<open>Audit events\<close>

datatype AuthEventType = UserLogin | UserLoginFailed | ServiceTokenIssued | ServiceTokenFailed | ServiceRegistered
  | KeyGenerated | KeyRotated | KeyExpired | TokenValidationFailed | EvRateLimitExceeded

primrec event_str :: "AuthEventType \<Rightarrow> string" where
  "event_str UserLogin = ''user_login''"
| "event_str UserLoginFailed = ''user_login_failed''"
| "event_str ServiceTokenIssued = ''service_token_issued''"
| "event_str ServiceTokenFailed = ''service_token_failed''"
| "event_str ServiceRegistered = ''service_registered''"
| "event_str KeyGenerated = ''key_generated''"
| "event_str KeyRotated = ''key_rotated''"
| "event_str KeyExpired = ''key_expired''"
| "event_str TokenValidationFailed = ''token_validation_failed''"
| "event_str EvRateLimitExceeded = ''rate_limit_exceeded''"

text \<open>
  Inserting an event: the type is one of those the schema lists, its subjects exist, only key events
  have none, and the address is an internet address (\<open>inet_ok\<close>, the database's parser).
\<close>

definition event_allowed :: "(string \<Rightarrow> bool) \<Rightarrow> AuthEvent \<Rightarrow> ac_db \<Rightarrow> bool" where
  "event_allowed inet_ok ev db \<longleftrightarrow>
     ev_event_type ev \<in> event_str ` set [UserLogin, UserLoginFailed, ServiceTokenIssued, ServiceTokenFailed,
       ServiceRegistered, KeyGenerated, KeyRotated, KeyExpired, TokenValidationFailed, EvRateLimitExceeded]
     \<and> (ev_user_id ev \<noteq> None \<or> ev_credential_id ev \<noteq> None
        \<or> ev_event_type ev \<in> {''key_generated'', ''key_rotated'', ''key_expired''})
     \<and> (case ev_user_id ev of None \<Rightarrow> True | Some u \<Rightarrow> u \<in> us_user_id ` set (ad_users db))
     \<and> (case ev_credential_id ev of None \<Rightarrow> True | Some c \<Rightarrow> c \<in> cd_credential_id ` set (ad_credentials db))
     \<and> (case ev_ip_address ev of None \<Rightarrow> True | Some ip \<Rightarrow> inet_ok ip)"

definition log_event ::
  "(string \<Rightarrow> bool) \<Rightarrow> db_fault \<Rightarrow> instant \<Rightarrow> string \<Rightarrow> string option \<Rightarrow> string option \<Rightarrow> bool \<Rightarrow> string option
     \<Rightarrow> string option \<Rightarrow> ac_db \<Rightarrow> (unit, AcError) result \<times> ac_db"
where
  "log_event inet_ok f now ty user cred success reason ip =
     ac_exec ''Failed to log auth event: '' f (\<lambda>db.
       let ev = \<lparr>ev_event_type = ty, ev_user_id = user, ev_credential_id = cred, ev_success = success,
                 ev_failure_reason = reason, ev_ip_address = ip, ev_created_at = now\<rparr>
       in if event_allowed inet_ok ev db then (Ok (), db\<lparr>ad_events := ad_events db @ [ev]\<rparr>)
          else (Err ''constraint violated'', db))"

definition since :: "instant \<Rightarrow> nat \<Rightarrow> instant \<Rightarrow> bool" where
  "since now minutes t \<longleftrightarrow> now \<le> t + from_secs (60 * minutes)"

definition failed_for_credential :: "instant \<Rightarrow> nat \<Rightarrow> string \<Rightarrow> AuthEvent \<Rightarrow> bool" where
  "failed_for_credential now minutes cred ev \<longleftrightarrow>
     ev_credential_id ev = Some cred \<and> \<not> ev_success ev \<and> since now minutes (ev_created_at ev)"

definition get_failed_attempts_count ::
  "db_fault \<Rightarrow> instant \<Rightarrow> nat \<Rightarrow> string \<Rightarrow> ac_db \<Rightarrow> (nat, AcError) result \<times> ac_db"
where
  "get_failed_attempts_count f now minutes cred =
     ac_exec ''Failed to count failed attempts: '' f
       (\<lambda>db. (Ok (length (filter (failed_for_credential now minutes cred) (ad_events db))), db))"

definition failed_for_user :: "instant \<Rightarrow> nat \<Rightarrow> string \<Rightarrow> AuthEvent \<Rightarrow> bool" where
  "failed_for_user now minutes user ev \<longleftrightarrow>
     ev_user_id ev = Some user \<and> \<not> ev_success ev \<and> since now minutes (ev_created_at ev)"

definition get_failed_attempts_count_by_user ::
  "db_fault \<Rightarrow> instant \<Rightarrow> nat \<Rightarrow> string \<Rightarrow> ac_db \<Rightarrow> (nat, AcError) result \<times> ac_db"
where
  "get_failed_attempts_count_by_user f now minutes user =
     ac_exec ''Failed to count failed user attempts: '' f
       (\<lambda>db. (Ok (length (filter (failed_for_user now minutes user) (ad_events db))), db))"

section \<open>Credentials\<close>

definition cred_by_client_id ::
  "db_fault \<Rightarrow> string \<Rightarrow> ac_db \<Rightarrow> (ServiceCredential option, AcError) result \<times> ac_db" where
  "cred_by_client_id f client_id =
     ac_exec ''Failed to fetch service credential: '' f
       (\<lambda>db. (Ok (find (\<lambda>c. cd_client_id c = client_id) (ad_credentials db)), db))"

definition cred_by_id :: "db_fault \<Rightarrow> string \<Rightarrow> ac_db \<Rightarrow> (ServiceCredential option, AcError) result \<times> ac_db" where
  "cred_by_id f cred =
     ac_exec ''Failed to fetch service credential: '' f
       (\<lambda>db. (Ok (find (\<lambda>c. cd_credential_id c = cred) (ad_credentials db)), db))"

definition get_all_credentials :: "db_fault \<Rightarrow> ac_db \<Rightarrow> (ServiceCredential list, AcError) result \<times> ac_db" where
  "get_all_credentials f =
     ac_exec ''Failed to fetch all credentials: '' f (\<lambda>db. (Ok (newest_first cd_created_at (ad_credentials db)), db))"

definition create_service_credential ::
  "db_fault \<Rightarrow> instant \<Rightarrow> string \<Rightarrow> string \<Rightarrow> string \<Rightarrow> string \<Rightarrow> string option \<Rightarrow> string list \<Rightarrow> ac_db
     \<Rightarrow> (ServiceCredential, AcError) result \<times> ac_db"
where
  "create_service_credential f now new_id client_id hash service_type region scope_list =
     ac_exec ''Failed to create service credential: '' f (\<lambda>db.
       let row = \<lparr>cd_credential_id = new_id, cd_client_id = client_id, cd_client_secret_hash = hash,
                  cd_service_type = service_type, cd_region = region, cd_scopes = scope_list, cd_is_active = True,
                  cd_created_at = now, cd_updated_at = now\<rparr>
       in if new_id \<in> cd_credential_id ` set (ad_credentials db) \<or> client_id \<in> cd_client_id ` set (ad_credentials db)
             \<or> service_type \<notin> {''global-controller'', ''meeting-controller'', ''media-handler''}
             \<or> (case region of None \<Rightarrow> False | Some r \<Rightarrow> length r > 50)
          then (Err ''constraint violated'', db)
          else (Ok row, db\<lparr>ad_credentials := ad_credentials db @ [row]\<rparr>))"

text \<open>\<open>UPDATE ... RETURNING\<close> of one credential; no such row is an error of \<open>fetch_one\<close>.\<close>

definition update_credential ::
  "instant \<Rightarrow> string \<Rightarrow> (ServiceCredential \<Rightarrow> ServiceCredential) \<Rightarrow> ac_db \<Rightarrow> (ServiceCredential, string) result \<times> ac_db"
where
  "update_credential now cred g db =
     (let set_row = (\<lambda>c. (g c)\<lparr>cd_updated_at := now\<rparr>)
      in case find (\<lambda>c. cd_credential_id c = cred) (ad_credentials db) of
           None \<Rightarrow> (Err ''no rows returned'', db)
         | Some c \<Rightarrow>
             (Ok (set_row c),
              db\<lparr>ad_credentials := map (\<lambda>c. if cd_credential_id c = cred then set_row c else c) (ad_credentials db)\<rparr>))"

definition update_scopes ::
  "db_fault \<Rightarrow> instant \<Rightarrow> string \<Rightarrow> string list \<Rightarrow> ac_db \<Rightarrow> (ServiceCredential, AcError) result \<times> ac_db" where
  "update_scopes f now cred scope_list =
     ac_exec ''Failed to update scopes: '' f (update_credential now cred (\<lambda>c. c\<lparr>cd_scopes := scope_list\<rparr>))"

definition update_metadata ::
  "db_fault \<Rightarrow> instant \<Rightarrow> string \<Rightarrow> string list \<Rightarrow> ac_db \<Rightarrow> (ServiceCredential, AcError) result \<times> ac_db" where
  "update_metadata f now cred scope_list =
     ac_exec ''Failed to update metadata: '' f (update_credential now cred (\<lambda>c. c\<lparr>cd_scopes := scope_list\<rparr>))"

definition deactivate_credential ::
  "db_fault \<Rightarrow> instant \<Rightarrow> string \<Rightarrow> ac_db \<Rightarrow> (ServiceCredential, AcError) result \<times> ac_db" where
  "deactivate_credential f now cred =
     ac_exec ''Failed to deactivate credential: '' f (update_credential now cred (\<lambda>c. c\<lparr>cd_is_active := False\<rparr>))"

definition rotate_secret ::
  "db_fault \<Rightarrow> instant \<Rightarrow> string \<Rightarrow> string \<Rightarrow> ac_db \<Rightarrow> (ServiceCredential, AcError) result \<times> ac_db" where
  "rotate_secret f now cred hash =
     ac_exec ''Failed to rotate secret: '' f (update_credential now cred (\<lambda>c. c\<lparr>cd_client_secret_hash := hash\<rparr>))"

text \<open>A credential that events refer to cannot be deleted: the foreign key has no action.\<close>

definition delete_credential :: "db_fault \<Rightarrow> string \<Rightarrow> ac_db \<Rightarrow> (unit, AcError) result \<times> ac_db" where
  "delete_credential f cred db =
     (case ac_exec ''Failed to delete credential: '' f (\<lambda>db.
             if Some cred \<in> ev_credential_id ` set (ad_events db) \<and> cred \<in> cd_credential_id ` set (ad_credentials db)
             then (Err ''foreign key violation'', db)
             else (Ok (length (filter (\<lambda>c. cd_credential_id c = cred) (ad_credentials db))),
                   db\<lparr>ad_credentials := filter (\<lambda>c. cd_credential_id c \<noteq> cred) (ad_credentials db)\<rparr>)) db of
        (Inl e, db) \<Rightarrow> (Err e, db)
      | (Inr n, db) \<Rightarrow> (if n = 0 then Err (AcDatabase ''Credential not found'') else Ok (), db))"

section \<open>Signing keys\<close>

definition key_usable :: "instant \<Rightarrow> SigningKey \<Rightarrow> bool" where
  "key_usable now k \<longleftrightarrow> ky_is_active k \<and> ky_valid_from k \<le> now \<and> now < ky_valid_until k"

definition usable_keys :: "instant \<Rightarrow> ac_db \<Rightarrow> SigningKey list" where
  "usable_keys now db = newest_first ky_valid_from (filter (key_usable now) (ad_keys db))"

definition get_active_key :: "db_fault \<Rightarrow> instant \<Rightarrow> ac_db \<Rightarrow> (SigningKey option, AcError) result \<times> ac_db" where
  "get_active_key f now =
     ac_exec ''Failed to fetch active key: '' f
       (\<lambda>db. (Ok (case usable_keys now db of [] \<Rightarrow> None | k # _ \<Rightarrow> Some k), db))"

definition get_all_active_keys :: "db_fault \<Rightarrow> instant \<Rightarrow> ac_db \<Rightarrow> (SigningKey list, AcError) result \<times> ac_db" where
  "get_all_active_keys f now = ac_exec ''Failed to fetch active keys: '' f (\<lambda>db. (Ok (usable_keys now db), db))"

definition get_by_key_id :: "db_fault \<Rightarrow> string \<Rightarrow> ac_db \<Rightarrow> (SigningKey option, AcError) result \<times> ac_db" where
  "get_by_key_id f kid =
     ac_exec ''Failed to fetch key by id: '' f (\<lambda>db. (Ok (find (\<lambda>k. ky_key_id k = kid) (ad_keys db)), db))"

definition insert_key :: "SigningKey \<Rightarrow> ac_db \<Rightarrow> (SigningKey, string) result \<times> ac_db" where
  "insert_key k db =
     (if ky_key_id k \<in> ky_key_id ` set (ad_keys db) \<or> length (ky_key_id k) > 50
         \<or> length (ky_encryption_nonce k) \<noteq> 12 \<or> length (ky_encryption_tag k) \<noteq> 16
         \<or> \<not> ky_valid_from k < ky_valid_until k
      then (Err ''constraint violated'', db)
      else (Ok k, db\<lparr>ad_keys := ad_keys db @ [k]\<rparr>))"

definition create_signing_key :: "db_fault \<Rightarrow> SigningKey \<Rightarrow> ac_db \<Rightarrow> (SigningKey, AcError) result \<times> ac_db" where
  "create_signing_key f k = ac_exec ''Failed to create signing key: '' f (insert_key k)"

text \<open>The two updates of a rotation, in one transaction; a fault carries the text of the statement that failed.\<close>

definition activate_only :: "string \<Rightarrow> ac_db \<Rightarrow> ac_db" where
  "activate_only kid db =
     db\<lparr>ad_keys := map (\<lambda>k. if ky_key_id k = kid then k\<lparr>ky_is_active := True\<rparr> else k)
         (map (\<lambda>k. if ky_is_active k then k\<lparr>ky_is_active := False\<rparr> else k) (ad_keys db))\<rparr>"

definition rotate_key :: "db_fault \<Rightarrow> string \<Rightarrow> ac_db \<Rightarrow> (unit, AcError) result \<times> ac_db" where
  "rotate_key f kid = ac_exec [] f (\<lambda>db. (Ok (), activate_only kid db))"

definition deactivate_key :: "db_fault \<Rightarrow> string \<Rightarrow> ac_db \<Rightarrow> (unit, AcError) result \<times> ac_db" where
  "deactivate_key f kid =
     ac_exec ''Failed to deactivate key: '' f (\<lambda>db. (Ok (),
       db\<lparr>ad_keys := map (\<lambda>k. if ky_key_id k = kid then k\<lparr>ky_is_active := False\<rparr> else k) (ad_keys db)\<rparr>))"

section \<open>Organizations\<close>

definition org_by_subdomain :: "db_fault \<Rightarrow> string \<Rightarrow> ac_db \<Rightarrow> (Organization option, AcError) result \<times> ac_db" where
  "org_by_subdomain f subdomain =
     ac_exec ''Failed to fetch organization by subdomain: '' f
       (\<lambda>db. (Ok (find (\<lambda>org. og_subdomain org = subdomain \<and> og_is_active org) (ad_orgs db)), db))"

section \<open>Users\<close>

definition user_by_email :: "db_fault \<Rightarrow> string \<Rightarrow> string \<Rightarrow> ac_db \<Rightarrow> (User option, AcError) result \<times> ac_db" where
  "user_by_email f org email =
     ac_exec ''Failed to fetch user by email: '' f
       (\<lambda>db. (Ok (find (\<lambda>u. us_org_id u = org \<and> us_email u = email) (ad_users db)), db))"

definition create_user ::
  "db_fault \<Rightarrow> string \<Rightarrow> string \<Rightarrow> string \<Rightarrow> string \<Rightarrow> string \<Rightarrow> ac_db \<Rightarrow> (User, AcError) result \<times> ac_db" where
  "create_user f new_id org email hash name =
     ac_exec ''Failed to create user: '' f (\<lambda>db.
       let u = \<lparr>us_user_id = new_id, us_org_id = org, us_email = email, us_password_hash = hash,
                us_display_name = name, us_is_active = True, us_last_login_at = None\<rparr>
       in if new_id \<in> us_user_id ` set (ad_users db) \<or> org \<notin> og_org_id ` set (ad_orgs db)
             \<or> length email > 255 \<or> length name > 255 \<or> length hash > 255
             \<or> (\<exists>u \<in> set (ad_users db). us_org_id u = org \<and> us_email u = email)
          then (Err ''constraint violated'', db)
          else (Ok u, db\<lparr>ad_users := ad_users db @ [u]\<rparr>))"

definition update_last_login :: "db_fault \<Rightarrow> instant \<Rightarrow> string \<Rightarrow> ac_db \<Rightarrow> (unit, AcError) result \<times> ac_db" where
  "update_last_login f now user =
     ac_exec ''Failed to update last login: '' f (\<lambda>db. (Ok (),
       db\<lparr>ad_users := map (\<lambda>u. if us_user_id u = user then u\<lparr>us_last_login_at := Some now\<rparr> else u) (ad_users db)\<rparr>))"

text \<open>\<open>ORDER BY role\<close> is the order \<open>role_order\<close> of the database's collation.\<close>

definition get_user_roles ::
  "(string list \<Rightarrow> string list) \<Rightarrow> db_fault \<Rightarrow> string \<Rightarrow> ac_db \<Rightarrow> (string list, AcError) result \<times> ac_db" where
  "get_user_roles role_order f user =
     ac_exec ''Failed to fetch user roles: '' f
       (\<lambda>db. (Ok (role_order (map snd (filter (\<lambda>r. fst r = user) (ad_roles db)))), db))"

definition add_user_role :: "db_fault \<Rightarrow> string \<Rightarrow> string \<Rightarrow> ac_db \<Rightarrow> (unit, AcError) result \<times> ac_db" where
  "add_user_role f user role db =
     (if role \<notin> {''user'', ''admin'', ''org_admin''} then (Err (AcDatabase (''Invalid role: '' @ role)), db)
      else ac_exec ''Failed to add user role: '' f (\<lambda>db.
             if user \<notin> us_user_id ` set (ad_users db) then (Err ''foreign key violation'', db)
             else (Ok (), if (user, role) \<in> set (ad_roles db) then db
                          else db\<lparr>ad_roles := ad_roles db @ [(user, role)]\<rparr>)) db)"

definition remove_user_role :: "db_fault \<Rightarrow> string \<Rightarrow> string \<Rightarrow> ac_db \<Rightarrow> (unit, AcError) result \<times> ac_db" where
  "remove_user_role f user role =
     ac_exec ''Failed to remove user role: '' f
       (\<lambda>db. (Ok (), db\<lparr>ad_roles := filter (\<lambda>r. r \<noteq> (user, role)) (ad_roles db)\<rparr>))"

definition email_exists_in_org :: "db_fault \<Rightarrow> string \<Rightarrow> string \<Rightarrow> ac_db \<Rightarrow> (bool, AcError) result \<times> ac_db" where
  "email_exists_in_org f org email =
     ac_exec ''Failed to check email existence: '' f
       (\<lambda>db. (Ok (\<exists>u \<in> set (ad_users db). us_org_id u = org \<and> us_email u = email), db))"

section \<open>Reading leaves the tables alone\<close>

lemma set_insert_newest [simp]: "set (insert_newest t k xs) = insert k (set xs)"
  by (induction xs) auto

lemma set_newest_first [simp]: "set (newest_first t xs) = set xs"
  by (induction xs) (simp_all add: newest_first_def)

lemma newest_first_Nil [simp]: "newest_first t [] = []"
  by (simp add: newest_first_def)

lemma newest_first_single [simp]: "newest_first t [x] = [x]"
  by (simp add: newest_first_def)

lemma set_usable_keys: "set (usable_keys t db) = {k \<in> set (ad_keys db). key_usable t k}"
  by (auto simp: usable_keys_def)

lemma ac_exec_read: "(\<And>db. snd (g db) = db) \<Longrightarrow> snd (ac_exec msg f g db) = db"
  by (cases f; cases "g db"; cases "fst (g db)") (auto, (metis snd_conv)+)

lemma ac_exec_ok: "ac_exec msg f g db = (Ok a, db') \<longleftrightarrow> f = DbOk \<and> g db = (Ok a, db')"
  by (cases f) (auto split: prod.split sum.split)

lemma get_by_key_id_snd [simp]: "snd (get_by_key_id f kid db) = db"
  by (simp add: get_by_key_id_def ac_exec_read)

lemma get_active_key_snd [simp]: "snd (get_active_key f now db) = db"
  by (simp add: get_active_key_def ac_exec_read)

lemma get_by_key_id_db: "get_by_key_id f kid db = (r, db') \<Longrightarrow> db' = db"
  by (metis get_by_key_id_snd snd_conv)

lemma get_active_key_db: "get_active_key f now db = (r, db') \<Longrightarrow> db' = db"
  by (metis get_active_key_snd snd_conv)

lemma get_by_key_id_ok:
  "get_by_key_id f kid db = (Ok r, db') \<longleftrightarrow> f = DbOk \<and> db' = db \<and> r = find (\<lambda>k. ky_key_id k = kid) (ad_keys db)"
  by (auto simp: get_by_key_id_def ac_exec_ok)

lemma get_active_key_ok:
  "get_active_key f now db = (Ok r, db') \<longleftrightarrow>
     f = DbOk \<and> db' = db \<and> r = (case usable_keys now db of [] \<Rightarrow> None | k # _ \<Rightarrow> Some k)"
  by (auto simp: get_active_key_def ac_exec_ok)

section \<open>Responses\<close>

lemma ac_response_status: "fst (ac_into_response header_ok e) = ac_status_code e"
  by (cases e) (simp_all add: ac_into_response_def Let_def)

text \<open>The text of an internal failure never reaches the caller.\<close>

lemma ac_response_hides_internals:
  assumes "ac_status_code e = 500"
  shows "er_message (fst (snd (ac_into_response header_ok e))) \<in> {''An internal database error occurred'', ''An internal error occurred''}"
  using assms by (cases e) (simp_all add: ac_into_response_def Let_def error_detail_def)

end
