(* ===== verification/AC_Keys.thy ===== *)
theory AC_Keys
  imports AC_Store
begin

text \<open>
  The Auth Controller's cryptography (crates/ac-service/src/crypto/mod.rs), its signing keys
  (services/key_management_service.rs), the middleware that authenticates its callers
  (middleware/auth.rs) and the rotation endpoint (handlers/admin_handler.rs).

  Ed25519, AES-256-GCM and bcrypt are the parameter \<open>crypto_lib\<close>; what the random generator draws is
  an argument.  The application's clock and the database's (\<open>NOW()\<close>, the start of the transaction)
  are separate arguments.  Gauges, metrics and log lines are left out.
\<close>

section \<open>Cryptography\<close>

text \<open>
  \<open>cl_public\<close> parses a PKCS8 key pair and gives its public key; \<open>cl_seal\<close> appends the tag to the
  cipher text; \<open>cl_hash\<close> takes the salt that bcrypt draws.
\<close>

record crypto_lib =
  cl_public :: "u8 list \<Rightarrow> (u8 list, string) result"
  cl_seal :: "u8 list \<Rightarrow> u8 list \<Rightarrow> u8 list \<Rightarrow> (u8 list, string) result"
  cl_open :: "u8 list \<Rightarrow> u8 list \<Rightarrow> u8 list \<Rightarrow> (u8 list, string) result"
  cl_hash :: "u8 list \<Rightarrow> string \<Rightarrow> nat \<Rightarrow> (string, string) result"
  cl_verify :: "string \<Rightarrow> string \<Rightarrow> (bool, string) result"

type_synonym draw = "(u8 list, string) result"

definition crypto_err :: "string \<Rightarrow> ('a, string) result \<Rightarrow> ('a, AcError) result" where
  "crypto_err msg r = (case r of Inl e \<Rightarrow> Err (AcCrypto (msg @ e)) | Inr a \<Rightarrow> Ok a)"

record EncryptedKey =
  ek_data :: "u8 list"
  ek_nonce :: "u8 list"
  ek_tag :: "u8 list"

definition newline :: string where
  "newline = [CHR 0x0A]"

definition public_key_pem :: "jwt_lib \<Rightarrow> u8 list \<Rightarrow> string" where
  "public_key_pem K public =
     ''-----BEGIN PUBLIC KEY-----'' @ newline @ jl_b64_encode K public @ newline @ ''-----END PUBLIC KEY-----''"

definition generate_signing_key :: "jwt_lib \<Rightarrow> crypto_lib \<Rightarrow> draw \<Rightarrow> (string \<times> u8 list, AcError) result" where
  "generate_signing_key K L pkcs8 =
     (case crypto_err ''Keypair generation failed: '' pkcs8 of
        Inl e \<Rightarrow> Err e
      | Inr pkcs8_bytes \<Rightarrow>
          (case crypto_err ''Keypair parsing failed: '' (cl_public L pkcs8_bytes) of
             Inl e \<Rightarrow> Err e
           | Inr public \<Rightarrow> Ok (public_key_pem K public, pkcs8_bytes)))"

definition bad_length :: "string \<Rightarrow> nat \<Rightarrow> nat \<Rightarrow> ('a, AcError) result" where
  "bad_length what n expected =
     Err (AcCrypto (''Invalid '' @ what @ '' length: '' @ show_nat n @ '' (expected '' @ show_nat expected @ '')''))"

definition encrypt_private_key :: "crypto_lib \<Rightarrow> draw \<Rightarrow> u8 list \<Rightarrow> u8 list \<Rightarrow> (EncryptedKey, AcError) result" where
  "encrypt_private_key L nonce private_key master_key =
     (if length master_key \<noteq> 32 then bad_length ''master key'' (length master_key) 32
      else case crypto_err ''Nonce generation failed: '' nonce of
             Inl e \<Rightarrow> Err e
           | Inr nonce_bytes \<Rightarrow>
               (case crypto_err ''Encryption operation failed: '' (cl_seal L master_key nonce_bytes private_key) of
                  Inl e \<Rightarrow> Err e
                | Inr in_out \<Rightarrow>
                    if length in_out < 16 then Err (AcCrypto ''Encryption produced invalid output'')
                    else let tag_start = length in_out - 16
                         in Ok \<lparr>ek_data = take tag_start in_out, ek_nonce = nonce_bytes, ek_tag = drop tag_start in_out\<rparr>))"

definition decrypt_private_key :: "crypto_lib \<Rightarrow> EncryptedKey \<Rightarrow> u8 list \<Rightarrow> (u8 list, AcError) result" where
  "decrypt_private_key L encrypted master_key =
     (if length master_key \<noteq> 32 then bad_length ''master key'' (length master_key) 32
      else if length (ek_nonce encrypted) \<noteq> 12 then bad_length ''nonce'' (length (ek_nonce encrypted)) 12
      else if length (ek_tag encrypted) \<noteq> 16 then bad_length ''tag'' (length (ek_tag encrypted)) 16
      else crypto_err ''Decryption operation failed: ''
             (cl_open L master_key (ek_nonce encrypted) (ek_data encrypted @ ek_tag encrypted)))"

text \<open>
  \<open>sign_jwt\<close>, \<open>sign_user_jwt\<close> and the two signers of internal_tokens.rs have one body; they differ in
  the type of the claims, here their JSON form.
\<close>

definition sign_jwt :: "jwt_lib \<Rightarrow> crypto_lib \<Rightarrow> json \<Rightarrow> u8 list \<Rightarrow> string \<Rightarrow> (string, AcError) result" where
  "sign_jwt K L claims private_key_pkcs8 key_id =
     (case crypto_err ''Invalid private key format: '' (cl_public L private_key_pkcs8) of
        Inl e \<Rightarrow> Err e
      | Inr _ \<Rightarrow> crypto_err ''JWT signing operation failed: '' (jl_encode K key_id claims private_key_pkcs8))"

definition sign_user_jwt :: "jwt_lib \<Rightarrow> crypto_lib \<Rightarrow> UserClaims \<Rightarrow> u8 list \<Rightarrow> string \<Rightarrow> (string, AcError) result" where
  "sign_user_jwt K L claims = sign_jwt K L (user_claims_json claims)"

definition invalid_token :: AcError where
  "invalid_token = InvalidToken ''The access token is invalid or expired''"

text \<open>The bodies of \<open>verify_jwt\<close> and \<open>verify_user_jwt\<close>, at the two times they read the clock.\<close>

definition verify_claims ::
  "jwt_lib \<Rightarrow> (json \<Rightarrow> 'c option) \<Rightarrow> ('c \<Rightarrow> int) \<Rightarrow> int \<Rightarrow> int \<Rightarrow> string \<Rightarrow> string \<Rightarrow> int \<Rightarrow> ('c, AcError) result"
where
  "verify_claims K claims_of iat t_exp t_iat token pem skew =
     (if length token > MAX_JWT_SIZE_BYTES then Err invalid_token
      else case decode_ed25519_public_key_pem K pem of
             None \<Rightarrow> Err invalid_token
           | Some public_key_bytes \<Rightarrow>
               (case Option.bind (jl_decode K token public_key_bytes t_exp) claims_of of
                  None \<Rightarrow> Err invalid_token
                | Some claims \<Rightarrow>
                    (case validate_iat_at (iat claims) skew t_iat of
                       Inl _ \<Rightarrow> Err invalid_token
                     | Inr _ \<Rightarrow> Ok claims)))"

definition verify_jwt :: "jwt_lib \<Rightarrow> int \<Rightarrow> int \<Rightarrow> string \<Rightarrow> string \<Rightarrow> int \<Rightarrow> (ServiceClaims, AcError) result" where
  "verify_jwt K = verify_claims K service_claims_of sc_iat"

definition verify_user_jwt :: "jwt_lib \<Rightarrow> int \<Rightarrow> int \<Rightarrow> string \<Rightarrow> string \<Rightarrow> int \<Rightarrow> (UserClaims, AcError) result" where
  "verify_user_jwt K = verify_claims K user_claims_of uc_iat"

definition MIN_BCRYPT_COST :: nat where "MIN_BCRYPT_COST = 10"
definition MAX_BCRYPT_COST :: nat where "MAX_BCRYPT_COST = 14"

definition hash_client_secret :: "crypto_lib \<Rightarrow> u8 list \<Rightarrow> string \<Rightarrow> nat \<Rightarrow> (string, AcError) result" where
  "hash_client_secret L salt secret cost =
     (if \<not> (MIN_BCRYPT_COST \<le> cost \<and> cost \<le> MAX_BCRYPT_COST)
      then Err (AcCrypto (''Invalid bcrypt cost: '' @ show_nat cost @ '' (must be '' @ show_nat MIN_BCRYPT_COST @ ''-''
             @ show_nat MAX_BCRYPT_COST @ '')''))
      else crypto_err ''Password hashing failed: '' (cl_hash L salt secret cost))"

definition verify_client_secret :: "crypto_lib \<Rightarrow> string \<Rightarrow> string \<Rightarrow> (bool, AcError) result" where
  "verify_client_secret L secret hash = crypto_err ''Password verification failed: '' (cl_verify L secret hash)"

text \<open>\<open>bytes\<close> is what \<open>generate_random_bytes(32)\<close> draws.\<close>

definition generate_client_secret :: "jwt_lib \<Rightarrow> draw \<Rightarrow> (string, AcError) result" where
  "generate_client_secret K bytes =
     (case crypto_err ''Random bytes generation failed: '' bytes of
        Inl e \<Rightarrow> Err e
      | Inr bs \<Rightarrow> Ok (jl_b64_encode K bs))"

section \<open>Key management\<close>

definition KEY_VALIDITY :: duration where
  "KEY_VALIDITY = from_secs (365 * 86400)"

text \<open>SQL's \<open>LIKE\<close>: \<open>%\<close> any text, \<open>_\<close> any character, a backslash quotes the next character.\<close>

fun like :: "string \<Rightarrow> string \<Rightarrow> bool" where
  "like [] s = (s = [])"
| "like (p # ps) s =
     (if p = CHR ''%'' then (case s of [] \<Rightarrow> like ps [] | c # cs \<Rightarrow> like ps s \<or> like (p # ps) cs)
      else case s of
             [] \<Rightarrow> False
           | c # cs \<Rightarrow>
               if p = CHR 0x5C then (case ps of [] \<Rightarrow> False | q # qs \<Rightarrow> c = q \<and> like qs cs)
               else (p = CHR ''_'' \<or> c = p) \<and> like ps cs)"

definition count_keys_like :: "string \<Rightarrow> ac_db \<Rightarrow> nat" where
  "count_keys_like prefix db = length (filter (\<lambda>k. like (prefix @ ''%'') (ky_key_id k)) (ad_keys db))"

definition get_next_key_sequence :: "db_fault \<Rightarrow> string \<Rightarrow> ac_db \<Rightarrow> (nat, AcError) result \<times> ac_db" where
  "get_next_key_sequence f prefix =
     ac_exec ''Failed to count keys: '' f (\<lambda>db. (Ok ((count_keys_like prefix db + 1) mod 2 ^ 32), db))"

text \<open>The year as chrono prints it is the parameter \<open>year\<close>.\<close>

definition key_prefix :: "(instant \<Rightarrow> string) \<Rightarrow> string \<Rightarrow> instant \<Rightarrow> string" where
  "key_prefix year cluster_name now = ''auth-'' @ cluster_name @ ''-'' @ year now @ ''-''"

definition show_nat2 :: "nat \<Rightarrow> string" where
  "show_nat2 n = (if n < 10 then ''0'' @ show_nat n else show_nat n)"

text \<open>What one generation of a key meets: two draws, the clocks, and the fate of its statements.\<close>

record key_env =
  ke_pkcs8 :: draw
  ke_nonce :: draw
  ke_now :: instant
  ke_db_now :: instant
  ke_inet_ok :: "string \<Rightarrow> bool"
  ke_active_fault :: db_fault
  ke_count_fault :: db_fault
  ke_create_fault :: db_fault
  ke_rotate_fault :: db_fault
  ke_log_fault :: db_fault

definition new_key ::
  "jwt_lib \<Rightarrow> crypto_lib \<Rightarrow> key_env \<Rightarrow> u8 list \<Rightarrow> string \<Rightarrow> (SigningKey, AcError) result" where
  "new_key K L e master_key key_id =
     (case generate_signing_key K L (ke_pkcs8 e) of
        Inl err \<Rightarrow> Err err
      | Inr (pem, pkcs8) \<Rightarrow>
          (case encrypt_private_key L (ke_nonce e) pkcs8 master_key of
             Inl err \<Rightarrow> Err err
           | Inr encrypted \<Rightarrow>
               Ok \<lparr>ky_key_id = key_id, ky_public_key = pem, ky_private_key_encrypted = ek_data encrypted,
                   ky_encryption_nonce = ek_nonce encrypted, ky_encryption_tag = ek_tag encrypted, ky_is_active = True,
                   ky_valid_from = ke_now e, ky_valid_until = ke_now e + KEY_VALIDITY, ky_created_at = ke_db_now e\<rparr>))"

definition log_key_event :: "key_env \<Rightarrow> AuthEventType \<Rightarrow> ac_db \<Rightarrow> ac_db" where
  "log_key_event e ty db = snd (log_event (ke_inet_ok e) (ke_log_fault e) (ke_db_now e) (event_str ty) None None True None None db)"

definition initialize_signing_key ::
  "jwt_lib \<Rightarrow> crypto_lib \<Rightarrow> (instant \<Rightarrow> string) \<Rightarrow> key_env \<Rightarrow> u8 list \<Rightarrow> string \<Rightarrow> ac_db
     \<Rightarrow> (unit, AcError) result \<times> ac_db"
where
  "initialize_signing_key K L year e master_key cluster_name db =
     (case get_active_key (ke_active_fault e) (ke_db_now e) db of
        (Inl err, db) \<Rightarrow> (Err err, db)
      | (Inr (Some _), db) \<Rightarrow> (Ok (), db)
      | (Inr None, db) \<Rightarrow>
          (let prefix = key_prefix year cluster_name (ke_now e)
           in case get_next_key_sequence (ke_count_fault e) prefix db of
                (Inl err, db) \<Rightarrow> (Err err, db)
              | (Inr sequence, db) \<Rightarrow>
                  (case new_key K L e master_key (prefix @ show_nat2 sequence) of
                     Inl err \<Rightarrow> (Err err, db)
                   | Inr k \<Rightarrow>
                       (case create_signing_key (ke_create_fault e) k db of
                          (Inl err, db) \<Rightarrow> (Err err, db)
                        | (Inr _, db) \<Rightarrow> (Ok (), log_key_event e KeyGenerated db)))))"

definition rotate_signing_key ::
  "jwt_lib \<Rightarrow> crypto_lib \<Rightarrow> (instant \<Rightarrow> string) \<Rightarrow> key_env \<Rightarrow> u8 list \<Rightarrow> string \<Rightarrow> ac_db
     \<Rightarrow> (string, AcError) result \<times> ac_db"
where
  "rotate_signing_key K L year e master_key cluster_name db =
     (let prefix = key_prefix year cluster_name (ke_now e)
      in case get_next_key_sequence (ke_count_fault e) prefix db of
           (Inl err, db) \<Rightarrow> (Err err, db)
         | (Inr sequence, db) \<Rightarrow>
             (let key_id = prefix @ show_nat2 sequence
              in case new_key K L e master_key key_id of
                   Inl err \<Rightarrow> (Err err, db)
                 | Inr k \<Rightarrow>
                     (case create_signing_key (ke_create_fault e) k db of
                        (Inl err, db) \<Rightarrow> (Err err, db)
                      | (Inr _, db) \<Rightarrow>
                          (case rotate_key (ke_rotate_fault e) key_id db of
                             (Inl err, db) \<Rightarrow> (Err err, db)
                           | (Inr _, db) \<Rightarrow> (Ok key_id, log_key_event e KeyRotated db)))))"

text \<open>The same within a transaction, whose changes a failure undoes.\<close>

definition rotate_signing_key_tx ::
  "jwt_lib \<Rightarrow> crypto_lib \<Rightarrow> (instant \<Rightarrow> string) \<Rightarrow> key_env \<Rightarrow> u8 list \<Rightarrow> string \<Rightarrow> ac_db
     \<Rightarrow> (string \<times> ac_db, AcError) result"
where
  "rotate_signing_key_tx K L year e master_key cluster_name db =
     (let prefix = key_prefix year cluster_name (ke_now e);
          sequence = (count_keys_like prefix db + 1) mod 2 ^ 32;
          key_id = prefix @ show_nat2 sequence
      in case new_key K L e master_key key_id of
           Inl err \<Rightarrow> Err err
         | Inr k \<Rightarrow>
             (case insert_key k db of
                (Inl msg, _) \<Rightarrow> Err (AcDatabase (''Failed to create signing key: '' @ msg))
              | (Inr _, db) \<Rightarrow> Ok (key_id, activate_only key_id db)))"

text \<open>\<open>Jwks\<close> is its list of keys, in the form the validators read.\<close>

definition json_web_key :: "jwt_lib \<Rightarrow> SigningKey \<Rightarrow> Jwk option" where
  "json_web_key K key =
     (case jl_b64_decode K (pem_body (ky_public_key key)) of
        None \<Rightarrow> None
      | Some public_key_bytes \<Rightarrow>
          Some \<lparr>jk_kty = ''OKP'', jk_kid = ky_key_id key, jk_crv = Some ''Ed25519'',
                jk_x = Some (jl_b64url_encode K public_key_bytes), jk_alg = Some ''EdDSA'', jk_use = Some ''sig''\<rparr>)"

definition get_jwks :: "jwt_lib \<Rightarrow> db_fault \<Rightarrow> instant \<Rightarrow> ac_db \<Rightarrow> (Jwk list, AcError) result \<times> ac_db" where
  "get_jwks K f now db =
     (case get_all_active_keys f now db of
        (Inl e, db) \<Rightarrow> (Err e, db)
      | (Inr keys, db) \<Rightarrow> (Ok (List.map_filter (json_web_key K) keys), db))"

text \<open>
  One key after the other is deactivated and the event logged; an error leaves the earlier ones
  deactivated.  \<open>fs\<close> gives the fate of the update and of the log entry of each key.
\<close>

fun expire_each ::
  "(string \<Rightarrow> bool) \<Rightarrow> instant \<Rightarrow> (string \<Rightarrow> db_fault \<times> db_fault) \<Rightarrow> string list \<Rightarrow> ac_db
     \<Rightarrow> (string list, AcError) result \<times> ac_db"
where
  "expire_each inet_ok now fs [] db = (Ok [], db)"
| "expire_each inet_ok now fs (kid # kids) db =
     (case deactivate_key (fst (fs kid)) kid db of
        (Inl e, db) \<Rightarrow> (Err e, db)
      | (Inr _, db) \<Rightarrow>
          (case expire_each inet_ok now fs kids
                  (snd (log_event inet_ok (snd (fs kid)) now (event_str KeyExpired) None None True None None db)) of
             (Inl e, db) \<Rightarrow> (Err e, db)
           | (Inr deactivated, db) \<Rightarrow> (Ok (kid # deactivated), db)))"

definition expire_old_keys ::
  "(string \<Rightarrow> bool) \<Rightarrow> db_fault \<Rightarrow> instant \<Rightarrow> (string \<Rightarrow> db_fault \<times> db_fault) \<Rightarrow> ac_db
     \<Rightarrow> (string list, AcError) result \<times> ac_db"
where
  "expire_old_keys inet_ok f now fs db =
     (case ac_exec ''Failed to query expired keys: '' f
             (\<lambda>db. (Ok (map ky_key_id (filter (\<lambda>k. ky_valid_until k < now \<and> ky_is_active k) (ad_keys db))), db)) db of
        (Inl e, db) \<Rightarrow> (Err e, db)
      | (Inr kids, db) \<Rightarrow> expire_each inet_ok now fs kids db)"

section \<open>Who is calling\<close>

definition strip_prefix :: "string \<Rightarrow> string \<Rightarrow> string option" where
  "strip_prefix prefix s = (if starts_with prefix s then Some (drop (length prefix) s) else None)"

definition bearer_token :: "string option \<Rightarrow> (string, AcError) result" where
  "bearer_token header =
     (case header of
        None \<Rightarrow> Err (InvalidToken ''Missing Authorization header'')
      | Some h \<Rightarrow> (case strip_prefix ''Bearer '' h of
                     None \<Rightarrow> Err (InvalidToken ''Invalid Authorization header format'')
                   | Some token \<Rightarrow> Ok token))"

record auth_env =
  ae_fault :: db_fault
  ae_db_now :: instant
  ae_exp_now :: int
  ae_iat_now :: int
  ae_skew :: int

definition require_service_auth ::
  "jwt_lib \<Rightarrow> auth_env \<Rightarrow> string option \<Rightarrow> ac_db \<Rightarrow> (ServiceClaims, AcError) result \<times> ac_db" where
  "require_service_auth K e header db =
     (case bearer_token header of
        Inl err \<Rightarrow> (Err err, db)
      | Inr token \<Rightarrow>
          (case get_active_key (ae_fault e) (ae_db_now e) db of
             (Inl err, db) \<Rightarrow> (Err err, db)
           | (Inr None, db) \<Rightarrow> (Err (AcCrypto ''No active signing key available''), db)
           | (Inr (Some key), db) \<Rightarrow>
               (verify_jwt K (ae_exp_now e) (ae_iat_now e) token (ky_public_key key) (ae_skew e), db)))"

definition require_admin_scope ::
  "jwt_lib \<Rightarrow> auth_env \<Rightarrow> string option \<Rightarrow> ac_db \<Rightarrow> (ServiceClaims, AcError) result \<times> ac_db" where
  "require_admin_scope K e header db =
     (case require_service_auth K e header db of
        (Inl err, db) \<Rightarrow> (Err err, db)
      | (Inr claims, db) \<Rightarrow>
          (let token_scopes = split_whitespace (sc_scope claims)
           in if ''admin:services'' \<notin> set token_scopes then (Err (InsufficientScope ''admin:services'' token_scopes), db)
              else (Ok claims, db)))"

section \<open>The rotation endpoint\<close>

record RotateKeysResponse =
  rr_rotated :: bool
  rr_new_key_id :: string
  rr_old_key_id :: string
  rr_old_key_valid_until :: instant

text \<open>\<open>ro_tx\<close> is the fate of the transaction, with the text of the statement that failed.\<close>

record rotate_env =
  ro_lookup_fault :: db_fault
  ro_lookup_now :: instant
  ro_exp_now :: int
  ro_iat_now :: int
  ro_skew :: int
  ro_check_now :: instant
  ro_tx :: db_fault
  ro_key :: key_env
  ro_final_fault :: db_fault

definition authorize_rotation ::
  "jwt_lib \<Rightarrow> rotate_env \<Rightarrow> string option \<Rightarrow> ac_db \<Rightarrow> (bool, AcError) result \<times> ac_db" where
  "authorize_rotation K e header db =
     (case bearer_token header of
        Inl err \<Rightarrow> (Err err, db)
      | Inr token \<Rightarrow>
          (case extract_kid K token of
             Inl _ \<Rightarrow> (Err (InvalidToken ''Missing or invalid key ID in token header''), db)
           | Inr kid \<Rightarrow>
               (case get_by_key_id (ro_lookup_fault e) kid db of
                  (Inl err, db) \<Rightarrow> (Err err, db)
                | (Inr None, db) \<Rightarrow> (Err invalid_token, db)
                | (Inr (Some key), db) \<Rightarrow>
                    if ro_lookup_now e < ky_valid_from key \<or> ro_lookup_now e \<ge> ky_valid_until key
                    then (Err invalid_token, db)
                    else case verify_jwt K (ro_exp_now e) (ro_iat_now e) token (ky_public_key key) (ro_skew e) of
                           Inl err \<Rightarrow> (Err err, db)
                         | Inr claims \<Rightarrow>
                             if sc_service_type claims = None
                             then (Err (InvalidToken ''User tokens are not authorized for key rotation''), db)
                             else let token_scopes = split_whitespace (sc_scope claims);
                                      normal = ''service.rotate-keys.ac'' \<in> set token_scopes;
                                      force = ''admin.force-rotate-keys.ac'' \<in> set token_scopes
                                  in if \<not> normal \<and> \<not> force
                                     then (Err (InsufficientScope ''service.rotate-keys.ac'' token_scopes), db)
                                     else (Ok force, db))))"

definition last_rotation :: "ac_db \<Rightarrow> instant option" where
  "last_rotation db = (if ad_keys db = [] then None else Some (Max (set (map ky_created_at (ad_keys db)))))"

definition min_interval :: "bool \<Rightarrow> duration" where
  "min_interval force = (if force then from_secs 3600 else from_secs (6 * 86400))"

text \<open>
  The body of the transaction, under the advisory lock: \<open>elapsed\<close> is signed, and seconds are rounded
  towards zero, which for a positive remainder is down.
\<close>

definition rotation_tx ::
  "jwt_lib \<Rightarrow> crypto_lib \<Rightarrow> (instant \<Rightarrow> string) \<Rightarrow> rotate_env \<Rightarrow> u8 list \<Rightarrow> string \<Rightarrow> bool \<Rightarrow> ac_db
     \<Rightarrow> ((SigningKey \<times> string) \<times> ac_db, AcError) result"
where
  "rotation_tx K L year e master_key cluster_name force db =
     (let rotate =
        (case usable_keys (ke_db_now (ro_key e)) db of
           [] \<Rightarrow> Err (AcCrypto ''No active signing key available'')
         | old_key # _ \<Rightarrow>
             (case rotate_signing_key_tx K L year (ro_key e) master_key cluster_name db of
                Inl err \<Rightarrow> Err err
              | Inr (new_key_id, db) \<Rightarrow> Ok ((old_key, new_key_id), db)))
      in case last_rotation db of
           None \<Rightarrow> rotate
         | Some prev \<Rightarrow>
             (let elapsed = int (ro_check_now e) - int prev; min_duration = int (min_interval force)
              in if elapsed < min_duration
                 then Err (TooManyRequests ((min_duration - elapsed) div 1000000000) ''Key rotation temporarily unavailable'')
                 else rotate))"

definition run_tx :: "db_fault \<Rightarrow> (ac_db \<Rightarrow> ('a \<times> ac_db, AcError) result) \<Rightarrow> ac_db \<Rightarrow> ('a, AcError) result \<times> ac_db" where
  "run_tx f body db =
     (case f of
        DbFailBefore msg \<Rightarrow> (Err (AcDatabase msg), db)
      | DbOk \<Rightarrow> (case body db of Inl err \<Rightarrow> (Err err, db) | Inr (a, db') \<Rightarrow> (Ok a, db'))
      | DbFailAfter msg \<Rightarrow> (case body db of Inl err \<Rightarrow> (Err err, db) | Inr (a, db') \<Rightarrow> (Err (AcDatabase msg), db')))"

text \<open>
  The handler: authorization, the transaction under its lock and the final read, with no other change of the tables in between.
\<close>

definition handle_rotate_keys ::
  "jwt_lib \<Rightarrow> crypto_lib \<Rightarrow> (instant \<Rightarrow> string) \<Rightarrow> rotate_env \<Rightarrow> u8 list \<Rightarrow> string \<Rightarrow> string option \<Rightarrow> ac_db
     \<Rightarrow> (RotateKeysResponse, AcError) result \<times> ac_db"
where
  "handle_rotate_keys K L year e master_key cluster_name header db =
     (case authorize_rotation K e header db of
        (Inl err, db) \<Rightarrow> (Err err, db)
      | (Inr force, db) \<Rightarrow>
          (case run_tx (ro_tx e) (rotation_tx K L year e master_key cluster_name force) db of
             (Inl err, db) \<Rightarrow> (Err err, db)
           | (Inr (old_key, new_key_id), db) \<Rightarrow>
               (case get_by_key_id (ro_final_fault e) (ky_key_id old_key) db of
                  (Inl err, db) \<Rightarrow> (Err err, db)
                | (Inr None, db) \<Rightarrow> (Err (AcCrypto ''Failed to retrieve old key after rotation''), db)
                | (Inr (Some old_key_updated), db) \<Rightarrow>
                    (Ok \<lparr>rr_rotated = True, rr_new_key_id = new_key_id, rr_old_key_id = ky_key_id old_key,
                         rr_old_key_valid_until = ky_valid_until old_key_updated\<rparr>, db))))"

end
