(* ===== verification/AC_Tokens.thy ===== *)
theory AC_Tokens
  imports AC_Keys
begin

text \<open>
  Issuing tokens (crates/ac-service/src/services/token_service.rs, handlers/internal_tokens.rs and the
  credential extraction of handlers/auth_handler.rs), registering services and users
  (services/registration_service.rs, user_service.rs), managing clients (handlers/admin_handler.rs) and
  the organization a request is for (middleware/org_extraction.rs).

  Other requests run between the statements of one request: what they do before its \<open>n\<close>-th statement
  is the argument \<open>others n\<close>.  Texts are ASCII.
\<close>

section \<open>Service tokens\<close>

record TokenResponse =
  tr_access_token :: string
  tr_token_type :: string
  tr_expires_in :: nat
  tr_scope :: string

definition TOKEN_EXPIRY_SECONDS :: nat where
  "TOKEN_EXPIRY_SECONDS = 3600"

definition dummy_hash :: string where
  "dummy_hash = ''$2b$12$LQv3c1yqBWVHxkd0LHAkCOYz6TtxMQJqhN8/LewY5GyYqExt7YD3a''"

text \<open>What one request for a token meets: the fate of its statements, the clocks, and what it draws.\<close>

record issue_env =
  ie_others :: "nat \<Rightarrow> ac_db \<Rightarrow> ac_db"
  ie_inet_ok :: "string \<Rightarrow> bool"
  ie_role_order :: "string list \<Rightarrow> string list"
  ie_subject_fault :: db_fault
  ie_count_fault :: db_fault
  ie_roles_fault :: db_fault
  ie_key_fault :: db_fault
  ie_log_fault :: db_fault
  ie_login_fault :: db_fault
  ie_window_now :: instant
  ie_db_now :: instant
  ie_now :: int
  ie_jti :: string

text \<open>The active key and its private part, as every issuer loads it.\<close>

definition load_signing_key ::
  "crypto_lib \<Rightarrow> issue_env \<Rightarrow> u8 list \<Rightarrow> ac_db \<Rightarrow> (string \<times> u8 list, AcError) result \<times> ac_db" where
  "load_signing_key L e master_key db =
     (case get_active_key (ie_key_fault e) (ie_db_now e) db of
        (Inl err, db) \<Rightarrow> (Err err, db)
      | (Inr None, db) \<Rightarrow> (Err (AcCrypto ''No active signing key available''), db)
      | (Inr (Some key), db) \<Rightarrow>
          (case decrypt_private_key L
                  \<lparr>ek_data = ky_private_key_encrypted key, ek_nonce = ky_encryption_nonce key,
                   ek_tag = ky_encryption_tag key\<rparr> master_key of
             Inl err \<Rightarrow> (Err err, db)
           | Inr private_key_pkcs8 \<Rightarrow> (Ok (ky_key_id key, private_key_pkcs8), db)))"

text \<open>The scopes of the token: those asked for, if the credential has them all, else all it has.\<close>

definition granted_scopes :: "string list option \<Rightarrow> string list \<Rightarrow> (string list, AcError) result" where
  "granted_scopes requested allowed =
     (case requested of
        Some req_scopes \<Rightarrow>
          if list_all (\<lambda>s. s \<in> set allowed) req_scopes then Ok req_scopes
          else Err (InsufficientScope (join_with '' '' req_scopes) allowed)
      | None \<Rightarrow> Ok allowed)"

definition log_service_event :: "issue_env \<Rightarrow> AuthEventType \<Rightarrow> string \<Rightarrow> bool \<Rightarrow> string option \<Rightarrow> string option \<Rightarrow> ac_db \<Rightarrow> ac_db" where
  "log_service_event e ty cred success reason ip db =
     snd (log_event (ie_inet_ok e) (ie_log_fault e) (ie_db_now e) (event_str ty) None (Some cred) success reason ip db)"

text \<open>From the verdict on the secret on: what a credential that is not locked gets.\<close>

definition issue_to_credential ::
  "jwt_lib \<Rightarrow> crypto_lib \<Rightarrow> issue_env \<Rightarrow> u8 list \<Rightarrow> string \<Rightarrow> string list option \<Rightarrow> string option
     \<Rightarrow> ServiceCredential \<Rightarrow> bool \<Rightarrow> ac_db \<Rightarrow> (TokenResponse, AcError) result \<times> ac_db"
where
  "issue_to_credential K L e master_key client_id requested_scopes ip credential is_valid db =
     (if \<not> cd_is_active credential \<or> \<not> is_valid
      then (Err InvalidCredentials,
            log_service_event e ServiceTokenFailed (cd_credential_id credential) False
              (Some (if \<not> cd_is_active credential then ''Credential is inactive'' else ''Invalid client secret''))
              ip (ie_others e 2 db))
      else case granted_scopes requested_scopes (cd_scopes credential) of
             Inl err \<Rightarrow> (Err err, db)
           | Inr scope_list \<Rightarrow>
               (case load_signing_key L e master_key (ie_others e 2 db) of
                  (Inl err, db) \<Rightarrow> (Err err, db)
                | (Inr (key_id, private_key_pkcs8), db) \<Rightarrow>
                    (let claims = service_claims_new client_id (ie_now e + int TOKEN_EXPIRY_SECONDS) (ie_now e)
                                    (join_with '' '' scope_list) (Some (cd_service_type credential))
                     in case sign_jwt K L (service_claims_json claims) private_key_pkcs8 key_id of
                          Inl err \<Rightarrow> (Err err, db)
                        | Inr token \<Rightarrow>
                            (Ok \<lparr>tr_access_token = token, tr_token_type = ''Bearer'', tr_expires_in = TOKEN_EXPIRY_SECONDS,
                                 tr_scope = join_with '' '' scope_list\<rparr>,
                             log_service_event e ServiceTokenIssued (cd_credential_id credential) True None ip
                               (ie_others e 3 db)))))"

definition issue_service_token ::
  "jwt_lib \<Rightarrow> crypto_lib \<Rightarrow> issue_env \<Rightarrow> u8 list \<Rightarrow> string \<Rightarrow> string \<Rightarrow> string \<Rightarrow> string list option \<Rightarrow> string option
     \<Rightarrow> nat \<Rightarrow> nat \<Rightarrow> ac_db \<Rightarrow> (TokenResponse, AcError) result \<times> ac_db"
where
  "issue_service_token K L e master_key client_id client_secret grant_type requested_scopes ip window max_attempts db =
     (if grant_type \<noteq> ''client_credentials'' then (Err InvalidCredentials, db)
      else case cred_by_client_id (ie_subject_fault e) client_id (ie_others e 0 db) of
             (Inl err, db) \<Rightarrow> (Err err, db)
           | (Inr None, db) \<Rightarrow>
               (case verify_client_secret L client_secret dummy_hash of
                  Inl err \<Rightarrow> (Err err, db)
                | Inr _ \<Rightarrow> (Err InvalidCredentials, db))
           | (Inr (Some cred), db) \<Rightarrow>
               (case get_failed_attempts_count (ie_count_fault e) (ie_window_now e) window (cd_credential_id cred)
                       (ie_others e 1 db) of
                  (Inl err, db) \<Rightarrow> (Err err, db)
                | (Inr failed_count, db) \<Rightarrow>
                    if failed_count \<ge> max_attempts then (Err RateLimitExceeded, db)
                    else case verify_client_secret L client_secret (cd_client_secret_hash cred) of
                           Inl err \<Rightarrow> (Err err, db)
                         | Inr is_valid \<Rightarrow>
                             issue_to_credential K L e master_key client_id requested_scopes ip cred is_valid db))"

section \<open>User tokens\<close>

record UserTokenResponse =
  ut_access_token :: string
  ut_token_type :: string
  ut_expires_in :: nat

definition log_user_auth_event :: "issue_env \<Rightarrow> string \<Rightarrow> bool \<Rightarrow> string option \<Rightarrow> string option \<Rightarrow> ac_db \<Rightarrow> ac_db" where
  "log_user_auth_event e user_id success reason ip db =
     snd (log_event (ie_inet_ok e) (ie_log_fault e) (ie_db_now e)
            (event_str (if success then UserLogin else UserLoginFailed)) (Some user_id) None success reason ip db)"

definition issue_to_user ::
  "jwt_lib \<Rightarrow> crypto_lib \<Rightarrow> issue_env \<Rightarrow> u8 list \<Rightarrow> string option \<Rightarrow> User \<Rightarrow> bool \<Rightarrow> ac_db
     \<Rightarrow> (UserTokenResponse, AcError) result \<times> ac_db"
where
  "issue_to_user K L e master_key ip user is_valid db =
     (if \<not> us_is_active user
      then (Err InvalidCredentials,
            log_user_auth_event e (us_user_id user) False (Some ''User account is inactive'') ip (ie_others e 2 db))
      else if \<not> is_valid
      then (Err InvalidCredentials,
            log_user_auth_event e (us_user_id user) False (Some ''Invalid password'') ip (ie_others e 2 db))
      else case get_user_roles (ie_role_order e) (ie_roles_fault e) (us_user_id user) (ie_others e 2 db) of
             (Inl err, db) \<Rightarrow> (Err err, db)
           | (Inr roles, db) \<Rightarrow>
               (case load_signing_key L e master_key (ie_others e 3 db) of
                  (Inl err, db) \<Rightarrow> (Err err, db)
                | (Inr (key_id, private_key_pkcs8), db) \<Rightarrow>
                    (let claims = \<lparr>uc_sub = us_user_id user, uc_org_id = us_org_id user, uc_email = us_email user,
                                   uc_roles = roles, uc_iat = ie_now e, uc_exp = ie_now e + int TOKEN_EXPIRY_SECONDS,
                                   uc_jti = ie_jti e\<rparr>
                     in case sign_user_jwt K L claims private_key_pkcs8 key_id of
                          Inl err \<Rightarrow> (Err err, db)
                        | Inr token \<Rightarrow>
                            (let db = log_user_auth_event e (us_user_id user) True None ip (ie_others e 4 db);
                                 db = snd (update_last_login (ie_login_fault e) (ie_db_now e) (us_user_id user) (ie_others e 5 db))
                             in (Ok \<lparr>ut_access_token = token, ut_token_type = ''Bearer'',
                                     ut_expires_in = TOKEN_EXPIRY_SECONDS\<rparr>, db)))))"

definition unwrap_or :: "'a \<Rightarrow> ('a, 'e) result \<Rightarrow> 'a" where
  "unwrap_or d r = (case r of Inl _ \<Rightarrow> d | Inr a \<Rightarrow> a)"

definition issue_user_token ::
  "jwt_lib \<Rightarrow> crypto_lib \<Rightarrow> issue_env \<Rightarrow> u8 list \<Rightarrow> string \<Rightarrow> string \<Rightarrow> string \<Rightarrow> string option \<Rightarrow> nat \<Rightarrow> nat \<Rightarrow> ac_db
     \<Rightarrow> (UserTokenResponse, AcError) result \<times> ac_db"
where
  "issue_user_token K L e master_key org_id email password ip window max_attempts db =
     (case user_by_email (ie_subject_fault e) org_id email (ie_others e 0 db) of
        (Inl err, db) \<Rightarrow> (Err err, db)
      | (Inr None, db) \<Rightarrow>
          (case verify_client_secret L password dummy_hash of
             Inl err \<Rightarrow> (Err err, db)
           | Inr _ \<Rightarrow> (Err InvalidCredentials, db))
      | (Inr (Some user), db) \<Rightarrow>
          (case get_failed_attempts_count_by_user (ie_count_fault e) (ie_window_now e) window (us_user_id user)
                  (ie_others e 1 db) of
             (counted, db) \<Rightarrow>
               if unwrap_or 0 counted \<ge> max_attempts
               then (Err (TooManyRequests (int window * 60) ''Too many failed login attempts. Please try again later.''), db)
               else case verify_client_secret L password (us_password_hash user) of
                      Inl err \<Rightarrow> (Err err, db)
                    | Inr is_valid \<Rightarrow> issue_to_user K L e master_key ip user is_valid db))"

section \<open>Meeting and guest tokens\<close>

text \<open>The request types of common/src/meeting_token.rs; its enums have a guest where those of the claims have none.\<close>

datatype ReqParticipantType = ReqMember | ReqExternal | ReqGuest

datatype ReqMeetingRole = ReqHost | ReqParticipant | ReqGuestRole

primrec participant_type_str :: "ReqParticipantType \<Rightarrow> string" where
  "participant_type_str ReqMember = ''member''"
| "participant_type_str ReqExternal = ''external''"
| "participant_type_str ReqGuest = ''guest''"

primrec meeting_role_str :: "ReqMeetingRole \<Rightarrow> string" where
  "meeting_role_str ReqHost = ''host''"
| "meeting_role_str ReqParticipant = ''participant''"
| "meeting_role_str ReqGuestRole = ''guest''"

record MeetingTokenRequest =
  mr_subject_user_id :: string
  mr_meeting_id :: string
  mr_meeting_org_id :: string
  mr_home_org_id :: string
  mr_participant_type :: ReqParticipantType
  mr_role :: ReqMeetingRole
  mr_capabilities :: "string list"
  mr_ttl_seconds :: u32

record GuestTokenRequest =
  gr_guest_id :: string
  gr_display_name :: string
  gr_meeting_id :: string
  gr_meeting_org_id :: string
  gr_waiting_room :: bool
  gr_ttl_seconds :: u32

record InternalTokenResponse =
  it_token :: string
  it_expires_in :: u32

definition MAX_TOKEN_TTL_SECONDS :: u32 where
  "MAX_TOKEN_TTL_SECONDS = 900"

definition REQUIRED_SCOPE :: string where
  "REQUIRED_SCOPE = ''internal:meeting-token''"

text \<open>The claims the Auth Controller writes into a meeting token, as JSON.\<close>

definition meeting_token_json :: "MeetingTokenRequest \<Rightarrow> int \<Rightarrow> u32 \<Rightarrow> string \<Rightarrow> json" where
  "meeting_token_json payload now ttl jti = JObj [(''sub'', JStr (mr_subject_user_id payload)),
     (''token_type'', JStr ''meeting''), (''meeting_id'', JStr (mr_meeting_id payload)),
     (''home_org_id'', JStr (mr_home_org_id payload)), (''meeting_org_id'', JStr (mr_meeting_org_id payload)),
     (''participant_type'', JStr (participant_type_str (mr_participant_type payload))),
     (''role'', JStr (meeting_role_str (mr_role payload))),
     (''capabilities'', JArr (map JStr (mr_capabilities payload))), (''iat'', JNum now),
     (''exp'', JNum (now + uint ttl)), (''jti'', JStr jti)]"

definition guest_token_claims :: "GuestTokenRequest \<Rightarrow> int \<Rightarrow> u32 \<Rightarrow> string \<Rightarrow> GuestTokenClaims" where
  "guest_token_claims payload now ttl jti =
     \<lparr>gt_sub = gr_guest_id payload, gt_token_type = ''guest'', gt_meeting_id = gr_meeting_id payload,
      gt_meeting_org_id = gr_meeting_org_id payload, gt_participant_type = ''guest'', gt_role = ''guest'',
      gt_display_name = gr_display_name payload, gt_waiting_room = gr_waiting_room payload,
      gt_capabilities = [''video'', ''audio''], gt_iat = now, gt_exp = now + uint ttl, gt_jti = jti\<rparr>"

text \<open>Both internal issuers sign the claims they build in the same way.\<close>

definition issue_internal_token ::
  "jwt_lib \<Rightarrow> crypto_lib \<Rightarrow> issue_env \<Rightarrow> u8 list \<Rightarrow> json \<Rightarrow> u32 \<Rightarrow> ac_db
     \<Rightarrow> (InternalTokenResponse, AcError) result \<times> ac_db"
where
  "issue_internal_token K L e master_key claims ttl db =
     (case load_signing_key L e master_key (ie_others e 0 db) of
        (Inl err, db) \<Rightarrow> (Err err, db)
      | (Inr (key_id, private_key_pkcs8), db) \<Rightarrow>
          (case sign_jwt K L claims private_key_pkcs8 key_id of
             Inl err \<Rightarrow> (Err err, db)
           | Inr token \<Rightarrow> (Ok \<lparr>it_token = token, it_expires_in = ttl\<rparr>, db)))"

definition issue_meeting_token_internal ::
  "jwt_lib \<Rightarrow> crypto_lib \<Rightarrow> issue_env \<Rightarrow> u8 list \<Rightarrow> MeetingTokenRequest \<Rightarrow> u32 \<Rightarrow> ac_db
     \<Rightarrow> (InternalTokenResponse, AcError) result \<times> ac_db"
where
  "issue_meeting_token_internal K L e master_key payload ttl =
     issue_internal_token K L e master_key (meeting_token_json payload (ie_now e) ttl (ie_jti e)) ttl"

definition issue_guest_token_internal ::
  "jwt_lib \<Rightarrow> crypto_lib \<Rightarrow> issue_env \<Rightarrow> u8 list \<Rightarrow> GuestTokenRequest \<Rightarrow> u32 \<Rightarrow> ac_db
     \<Rightarrow> (InternalTokenResponse, AcError) result \<times> ac_db"
where
  "issue_guest_token_internal K L e master_key payload ttl =
     issue_internal_token K L e master_key (guest_claims_json (guest_token_claims payload (ie_now e) ttl (ie_jti e))) ttl"

definition handle_meeting_token ::
  "jwt_lib \<Rightarrow> crypto_lib \<Rightarrow> issue_env \<Rightarrow> u8 list \<Rightarrow> ServiceClaims \<Rightarrow> MeetingTokenRequest \<Rightarrow> ac_db
     \<Rightarrow> (InternalTokenResponse, AcError) result \<times> ac_db"
where
  "handle_meeting_token K L e master_key claims payload db =
     (let token_scopes = split_whitespace (sc_scope claims)
      in if REQUIRED_SCOPE \<notin> set token_scopes then (Err (InsufficientScope REQUIRED_SCOPE token_scopes), db)
         else let ttl = min (mr_ttl_seconds payload) MAX_TOKEN_TTL_SECONDS
              in issue_meeting_token_internal K L e master_key payload ttl db)"

definition handle_guest_token ::
  "jwt_lib \<Rightarrow> crypto_lib \<Rightarrow> issue_env \<Rightarrow> u8 list \<Rightarrow> ServiceClaims \<Rightarrow> GuestTokenRequest \<Rightarrow> ac_db
     \<Rightarrow> (InternalTokenResponse, AcError) result \<times> ac_db"
where
  "handle_guest_token K L e master_key claims payload db =
     (let token_scopes = split_whitespace (sc_scope claims)
      in if REQUIRED_SCOPE \<notin> set token_scopes then (Err (InsufficientScope REQUIRED_SCOPE token_scopes), db)
         else let ttl = min (gr_ttl_seconds payload) MAX_TOKEN_TTL_SECONDS
              in issue_guest_token_internal K L e master_key payload ttl db)"

section \<open>Kinds of tokens\<close>

datatype token_kind = ServiceToken | UserToken | MeetingToken | GuestToken

text \<open>The kinds of claims that a signed payload can be read as.\<close>

definition token_kinds :: "json \<Rightarrow> token_kind set" where
  "token_kinds j =
     (if service_claims_of j = None then {} else {ServiceToken}) \<union> (if user_claims_of j = None then {} else {UserToken})
     \<union> (if meeting_claims_of j = None then {} else {MeetingToken}) \<union> (if guest_claims_of j = None then {} else {GuestToken})"

lemma service_payload_kinds:
  "i64 (sc_exp c) \<Longrightarrow> i64 (sc_iat c) \<Longrightarrow> token_kinds (service_claims_json c) = {ServiceToken}"
  using service_claims_roundtrip [of c]
  by (cases "sc_service_type c")
    (simp_all add: token_kinds_def user_claims_of_def meeting_claims_of_def guest_claims_of_def service_claims_json_def json_simps)

lemma user_payload_kinds:
  "i64 (uc_exp c) \<Longrightarrow> i64 (uc_iat c) \<Longrightarrow> token_kinds (user_claims_json c) = {UserToken}"
  using user_claims_roundtrip [of c]
  by (simp add: token_kinds_def service_claims_of_def meeting_claims_of_def guest_claims_of_def user_claims_json_def json_simps)

lemma guest_payload_kinds:
  "i64 (gt_exp c) \<Longrightarrow> i64 (gt_iat c) \<Longrightarrow> gt_participant_type c = ''guest'' \<Longrightarrow> token_kinds (guest_claims_json c) = {GuestToken}"
  using guest_claims_roundtrip [of c]
  by (simp add: token_kinds_def service_claims_of_def user_claims_of_def meeting_claims_of_def guest_claims_json_def json_simps)

lemma meeting_payload_kinds:
  assumes "i64 now" "i64 (now + uint ttl)"
  shows "token_kinds (meeting_token_json r now ttl jti) =
    (if mr_participant_type r = ReqGuest \<or> mr_role r = ReqGuestRole then {} else {MeetingToken})"
  using assms by (cases "mr_participant_type r"; cases "mr_role r")
    (simp_all add: token_kinds_def service_claims_of_def user_claims_of_def meeting_claims_of_def guest_claims_of_def
      meeting_token_json_def json_simps)

lemma i64_ttl: "0 \<le> now \<Longrightarrow> now < 2 ^ 62 \<Longrightarrow> i64 (now + uint (ttl :: u32))"
proof -
  assume "0 \<le> now" "now < 2 ^ 62"
  then have "0 \<le> u \<Longrightarrow> u < 2 ^ 32 \<Longrightarrow> i64 (now + u)" for u by (simp add: i64_def)
  then show ?thesis using uint_lt2p [of ttl] by simp
qed

text \<open>
  C40. A token is of one kind: what the Auth Controller signs for a service, a user or a guest is read by the
  services as claims of that kind and of no other, and what it signs for a meeting is read as a meeting token or, when
  the request asked for the type or the role of a guest, as nothing at all.
\<close>

theorem token_kinds_disjoint:
  assumes "0 \<le> now" "now < 2 ^ 62"
  shows "token_kinds (service_claims_json (service_claims_new sub (now + 3600) now scope st)) = {ServiceToken}
    \<and> token_kinds (user_claims_json \<lparr>uc_sub = sub, uc_org_id = org, uc_email = email, uc_roles = roles, uc_iat = now,
        uc_exp = now + 3600, uc_jti = jti\<rparr>) = {UserToken}
    \<and> token_kinds (guest_claims_json (guest_token_claims g now ttl jti)) = {GuestToken}
    \<and> token_kinds (meeting_token_json r now ttl jti) =
        (if mr_participant_type r = ReqGuest \<or> mr_role r = ReqGuestRole then {} else {MeetingToken})"
proof -
  have i: "i64 now" "i64 (now + 3600)" "i64 (now + uint ttl)"
    using assms i64_ttl [of now ttl] by (auto simp: i64_def)
  show ?thesis
    using i service_payload_kinds user_payload_kinds guest_payload_kinds meeting_payload_kinds
    by (simp add: service_claims_new_def guest_token_claims_def)
qed

definition demo_meeting_request :: MeetingTokenRequest where
  "demo_meeting_request = \<lparr>mr_subject_user_id = ''u'', mr_meeting_id = ''m'', mr_meeting_org_id = ''o'', mr_home_org_id = ''o'',
     mr_participant_type = ReqMember, mr_role = ReqHost, mr_capabilities = [''video''], mr_ttl_seconds = 600\<rparr>"

theorem token_kinds_disjoint_witness:
  "token_kinds (meeting_token_json demo_meeting_request 1000 600 ''j'') = {MeetingToken}"
  using token_kinds_disjoint [of 1000] by (simp add: demo_meeting_request_def)

end
