(* ===== verification/GC_Meetings.thy ===== *)
theory GC_Meetings
  imports GC_Assignment AC_Tokens
begin

text \<open>
  Meetings at the Global Controller: the request and row types (models/mod.rs), the tables of
  organisations, meetings, participants and the audit log (repositories/meetings.rs,
  repositories/participants.rs), the client of the Auth Controller (services/ac_client.rs) and the
  handlers that create, join and change meetings (handlers/meetings.rs).

  A UUID is its canonical text; the \<open>uuid\<close>, \<open>hex\<close> and \<open>chrono\<close> crates are the parameter \<open>text_lib\<close>.
  A statement runs in PostgreSQL's default isolation (read committed): it reads a snapshot, and what
  other transactions committed after the snapshot (\<open>late\<close>) is there when it writes.  Columns that are
  only stored (audit details, leave reason) are left out.  A handler gives its result, the
  labels of the metric it records (status and error type) and the new state.
\<close>

section \<open>Models\<close>

type_synonym uuid = string

record text_lib =
  tl_uuid_parse :: "string \<Rightarrow> uuid option"
  tl_uuid_from_bytes :: "u8 list \<Rightarrow> uuid"
  tl_hex_encode :: "u8 list \<Rightarrow> string"
  tl_time_parse :: "string \<Rightarrow> int option"

record MeetingRow =
  mw_meeting_id :: uuid
  mw_org_id :: uuid
  mw_created_by_user_id :: uuid
  mw_display_name :: string
  mw_meeting_code :: string
  mw_join_token_secret :: string
  mw_max_participants :: int
  mw_enable_e2e_encryption :: bool
  mw_require_auth :: bool
  mw_recording_enabled :: bool
  mw_meeting_controller_id :: "string option"
  mw_meeting_controller_region :: "string option"
  mw_status :: string
  mw_scheduled_start_time :: "int option"
  mw_actual_start_time :: "int option"
  mw_actual_end_time :: "int option"
  mw_created_at :: int
  mw_updated_at :: int
  mw_allow_guests :: bool
  mw_allow_external_participants :: bool
  mw_waiting_room_enabled :: bool

datatype MeetingStatus = Scheduled | Active | Ended | Cancelled

primrec meeting_status_str :: "MeetingStatus \<Rightarrow> string" where
  "meeting_status_str Scheduled = ''scheduled''"
| "meeting_status_str Active = ''active''"
| "meeting_status_str Ended = ''ended''"
| "meeting_status_str Cancelled = ''cancelled''"

record ParticipantRow =
  pt_participant_id :: uuid
  pt_meeting_id :: uuid
  pt_user_id :: "uuid option"
  pt_display_name :: string
  pt_participant_type :: string
  pt_role :: string
  pt_joined_at :: int
  pt_left_at :: "int option"

definition MAX_GUEST_DISPLAY_NAME_LENGTH :: nat where "MAX_GUEST_DISPLAY_NAME_LENGTH = 100"
definition MIN_GUEST_DISPLAY_NAME_LENGTH :: nat where "MIN_GUEST_DISPLAY_NAME_LENGTH = 2"

record GuestJoinRequest =
  gj_display_name :: string
  gj_captcha_token :: string

definition validate_guest :: "GuestJoinRequest \<Rightarrow> (unit, string) result" where
  "validate_guest r =
     (let display_name = trim_text (gj_display_name r)
      in if length display_name < MIN_GUEST_DISPLAY_NAME_LENGTH then Err ''Display name must be at least 2 characters''
         else if length display_name > MAX_GUEST_DISPLAY_NAME_LENGTH then Err ''Display name must be at most 100 characters''
         else if gj_captcha_token r = [] then Err ''Captcha token is required''
         else Ok ())"

record UpdateMeetingSettingsRequest =
  us_allow_guests :: "bool option"
  us_allow_external_participants :: "bool option"
  us_waiting_room_enabled :: "bool option"

definition has_changes :: "UpdateMeetingSettingsRequest \<Rightarrow> bool" where
  "has_changes r \<longleftrightarrow> us_allow_guests r \<noteq> None \<or> us_allow_external_participants r \<noteq> None
     \<or> us_waiting_room_enabled r \<noteq> None"

record MeetingResponse =
  mp_meeting_id :: uuid
  mp_display_name :: string
  mp_meeting_code :: string
  mp_status :: string
  mp_allow_guests :: bool
  mp_allow_external_participants :: bool
  mp_waiting_room_enabled :: bool
  mp_updated_at :: int

definition meeting_response :: "MeetingRow \<Rightarrow> MeetingResponse" where
  "meeting_response row = \<lparr>mp_meeting_id = mw_meeting_id row, mp_display_name = mw_display_name row,
     mp_meeting_code = mw_meeting_code row, mp_status = mw_status row, mp_allow_guests = mw_allow_guests row,
     mp_allow_external_participants = mw_allow_external_participants row,
     mp_waiting_room_enabled = mw_waiting_room_enabled row, mp_updated_at = mw_updated_at row\<rparr>"

definition MAX_MEETING_DISPLAY_NAME_LENGTH :: nat where "MAX_MEETING_DISPLAY_NAME_LENGTH = 255"
definition MIN_MEETING_DISPLAY_NAME_LENGTH :: nat where "MIN_MEETING_DISPLAY_NAME_LENGTH = 1"
definition MIN_PARTICIPANTS :: int where "MIN_PARTICIPANTS = 2"
definition DEFAULT_MAX_PARTICIPANTS :: int where "DEFAULT_MAX_PARTICIPANTS = 100"

record CreateMeetingRequest =
  cr_display_name :: string
  cr_max_participants :: "int option"
  cr_scheduled_start_time :: "int option"
  cr_enable_e2e_encryption :: "bool option"
  cr_require_auth :: "bool option"
  cr_recording_enabled :: "bool option"
  cr_allow_guests :: "bool option"
  cr_allow_external_participants :: "bool option"
  cr_waiting_room_enabled :: "bool option"

text \<open>
  The derived \<open>Deserialize\<close> with unknown fields denied: an object with each known field at most once, or
  an array with every field in order.
\<close>

definition create_fields :: "string list" where
  "create_fields = [''display_name'', ''max_participants'', ''scheduled_start_time'', ''enable_e2e_encryption'',
     ''require_auth'', ''recording_enabled'', ''allow_guests'', ''allow_external_participants'', ''waiting_room_enabled'']"

definition struct_object :: "string list \<Rightarrow> json \<Rightarrow> json option" where
  "struct_object names j =
     (case j of
        JObj m \<Rightarrow> if distinct (map fst m) \<and> set (map fst m) \<subseteq> set names then Some j else None
      | JArr xs \<Rightarrow> if length xs = length names then Some (JObj (zip names xs)) else None
      | _ \<Rightarrow> None)"

fun as_i32 :: "json \<Rightarrow> int option" where
  "as_i32 (JNum n) = (if - (2 ^ 31) \<le> n \<and> n < 2 ^ 31 then Some n else None)"
| "as_i32 _ = None"

definition create_request_of :: "text_lib \<Rightarrow> json \<Rightarrow> CreateMeetingRequest option" where
  "create_request_of T j =
     (case struct_object create_fields j of
        None \<Rightarrow> None
      | Some j \<Rightarrow>
          (case (field as_str ''display_name'' j, opt_field as_i32 ''max_participants'' j,
                 opt_field (\<lambda>v. Option.bind (as_str v) (tl_time_parse T)) ''scheduled_start_time'' j) of
             (Some name, Some limit, Some start) \<Rightarrow>
               (case (opt_field as_bool ''enable_e2e_encryption'' j, opt_field as_bool ''require_auth'' j,
                      opt_field as_bool ''recording_enabled'' j, opt_field as_bool ''allow_guests'' j,
                      opt_field as_bool ''allow_external_participants'' j, opt_field as_bool ''waiting_room_enabled'' j) of
                  (Some e2e, Some auth, Some recording, Some guests, Some external, Some waiting) \<Rightarrow>
                    Some \<lparr>cr_display_name = name, cr_max_participants = limit, cr_scheduled_start_time = start,
                          cr_enable_e2e_encryption = e2e, cr_require_auth = auth, cr_recording_enabled = recording,
                          cr_allow_guests = guests, cr_allow_external_participants = external,
                          cr_waiting_room_enabled = waiting\<rparr>
                | _ \<Rightarrow> None)
           | _ \<Rightarrow> None))"

definition validate_create :: "CreateMeetingRequest \<Rightarrow> (unit, string) result" where
  "validate_create r =
     (let display_name = trim_text (cr_display_name r)
      in if length display_name < MIN_MEETING_DISPLAY_NAME_LENGTH then Err ''Display name is required''
         else if length display_name > MAX_MEETING_DISPLAY_NAME_LENGTH
         then Err ''Display name must be at most 255 characters''
         else case cr_max_participants r of
                None \<Rightarrow> Ok ()
              | Some max_participants \<Rightarrow>
                  if max_participants < MIN_PARTICIPANTS then Err ''Maximum participants must be at least 2'' else Ok ())"

record CreateMeetingResponse =
  cp_meeting_id :: uuid
  cp_meeting_code :: string
  cp_display_name :: string
  cp_status :: string
  cp_max_participants :: int
  cp_enable_e2e_encryption :: bool
  cp_require_auth :: bool
  cp_recording_enabled :: bool
  cp_allow_guests :: bool
  cp_allow_external_participants :: bool
  cp_waiting_room_enabled :: bool
  cp_created_at :: int

definition create_response :: "MeetingRow \<Rightarrow> CreateMeetingResponse" where
  "create_response row = \<lparr>cp_meeting_id = mw_meeting_id row, cp_meeting_code = mw_meeting_code row,
     cp_display_name = mw_display_name row, cp_status = mw_status row, cp_max_participants = mw_max_participants row,
     cp_enable_e2e_encryption = mw_enable_e2e_encryption row, cp_require_auth = mw_require_auth row,
     cp_recording_enabled = mw_recording_enabled row, cp_allow_guests = mw_allow_guests row,
     cp_allow_external_participants = mw_allow_external_participants row,
     cp_waiting_room_enabled = mw_waiting_room_enabled row, cp_created_at = mw_created_at row\<rparr>"

section \<open>Tables\<close>

record OrgRow =
  og_org_id :: uuid
  og_max_concurrent_meetings :: int
  og_max_participants_per_meeting :: int
  og_is_active :: bool

record AuditRow =
  al_org_id :: uuid
  al_user_id :: "uuid option"
  al_action :: string
  al_resource_id :: uuid

record meet_db =
  md_orgs :: "OrgRow list"
  md_users :: "uuid list"
  md_meetings :: "MeetingRow list"
  md_participants :: "ParticipantRow list"
  md_audit :: "AuditRow list"

text \<open>A statement gives its rows or the text of a violated constraint.\<close>

fun md_exec :: "db_fault \<Rightarrow> (meet_db \<Rightarrow> ('a, string) result \<times> meet_db) \<Rightarrow> meet_db \<Rightarrow> ('a, GcError) result \<times> meet_db" where
  "md_exec DbOk f db = (case f db of (Inl e, db) \<Rightarrow> (Err (GcDatabase e), db) | (Inr a, db) \<Rightarrow> (Ok a, db))"
| "md_exec (DbFailBefore e) f db = (Err (GcDatabase e), db)"
| "md_exec (DbFailAfter e) f db = (Err (GcDatabase e), snd (f db))"

definition duplicate_key :: string where
  "duplicate_key = ''error returned from database: duplicate key value violates unique constraint''"

definition foreign_key :: string where
  "foreign_key = ''error returned from database: insert or update violates foreign key constraint''"

definition check_violation :: string where
  "check_violation = ''error returned from database: new row violates check constraint''"

definition open_meeting :: "uuid \<Rightarrow> MeetingRow \<Rightarrow> bool" where
  "open_meeting org m \<longleftrightarrow> mw_org_id m = org \<and> mw_status m \<in> {''scheduled'', ''active''}"

definition current_count :: "uuid \<Rightarrow> meet_db \<Rightarrow> int" where
  "current_count org db = int (length (filter (open_meeting org) (md_meetings db)))"

definition org_limits :: "uuid \<Rightarrow> meet_db \<Rightarrow> OrgRow list" where
  "org_limits org db = filter (\<lambda>o'. og_org_id o' = org \<and> og_is_active o') (md_orgs db)"

text \<open>
  The statement of \<open>create_meeting_with_limit_check\<close>: limits and count come from the snapshot, keys are
  checked against what is there when the row is inserted.  \<open>new_id\<close> is \<open>gen_random_uuid()\<close>.
\<close>

definition insert_meeting_stmt ::
  "int \<Rightarrow> uuid \<Rightarrow> (meet_db \<Rightarrow> meet_db) \<Rightarrow> uuid \<Rightarrow> uuid \<Rightarrow> string \<Rightarrow> string \<Rightarrow> string \<Rightarrow> int \<Rightarrow> bool \<Rightarrow> bool \<Rightarrow> bool
     \<Rightarrow> bool \<Rightarrow> bool \<Rightarrow> bool \<Rightarrow> int option \<Rightarrow> meet_db \<Rightarrow> (MeetingRow option, string) result \<times> meet_db"
where
  "insert_meeting_stmt now new_id late org user name code secret max_participants e2e auth recording guests
       external waiting start snapshot =
     (let db = late snapshot
      in case filter (\<lambda>l. current_count org snapshot < og_max_concurrent_meetings l) (org_limits org snapshot) of
           [] \<Rightarrow> (Ok None, db)
         | l # _ \<Rightarrow>
             (let row = \<lparr>mw_meeting_id = new_id, mw_org_id = org, mw_created_by_user_id = user,
                         mw_display_name = name, mw_meeting_code = code, mw_join_token_secret = secret,
                         mw_max_participants = min max_participants (og_max_participants_per_meeting l),
                         mw_enable_e2e_encryption = e2e, mw_require_auth = auth, mw_recording_enabled = recording,
                         mw_meeting_controller_id = None, mw_meeting_controller_region = None,
                         mw_status = ''scheduled'', mw_scheduled_start_time = start, mw_actual_start_time = None,
                         mw_actual_end_time = None, mw_created_at = now, mw_updated_at = now,
                         mw_allow_guests = guests, mw_allow_external_participants = external,
                         mw_waiting_room_enabled = waiting\<rparr>
              in if \<exists>m \<in> set (md_meetings db). mw_meeting_id m = new_id
                     \<or> mw_org_id m = org \<and> mw_meeting_code m = code then (Err duplicate_key, db)
                 else if user \<notin> set (md_users db) \<or> org \<notin> og_org_id ` set (md_orgs db) then (Err foreign_key, db)
                 else (Ok (Some row), db\<lparr>md_meetings := md_meetings db @ [row]\<rparr>)))"

definition log_audit_stmt ::
  "uuid \<Rightarrow> uuid option \<Rightarrow> uuid \<Rightarrow> string \<Rightarrow> meet_db \<Rightarrow> (unit, string) result \<times> meet_db"
where
  "log_audit_stmt org user meeting action db =
     (if org \<notin> og_org_id ` set (md_orgs db) \<or> (case user of None \<Rightarrow> False | Some u \<Rightarrow> u \<notin> set (md_users db))
      then (Err foreign_key, db)
      else (Ok (), db\<lparr>md_audit := md_audit db @ [\<lparr>al_org_id = org, al_user_id = user, al_action = action,
             al_resource_id = meeting\<rparr>]\<rparr>))"

definition log_audit_event ::
  "db_fault \<Rightarrow> uuid \<Rightarrow> uuid option \<Rightarrow> uuid \<Rightarrow> string \<Rightarrow> meet_db \<Rightarrow> (unit, GcError) result \<times> meet_db"
where
  "log_audit_event fault org user meeting action = md_exec fault (log_audit_stmt org user meeting action)"

definition activate_stmt :: "int \<Rightarrow> uuid \<Rightarrow> meet_db \<Rightarrow> ((uuid \<times> uuid) option, string) result \<times> meet_db" where
  "activate_stmt now meeting db =
     (let hit = (\<lambda>m. mw_meeting_id m = meeting \<and> mw_status m = ''scheduled'')
      in (Ok (map_option (\<lambda>m. (mw_meeting_id m, mw_org_id m)) (fetch_optional (filter hit (md_meetings db)))),
          db\<lparr>md_meetings := map (\<lambda>m. if hit m then m\<lparr>mw_status := ''active'', mw_actual_start_time := Some now,
               mw_updated_at := now\<rparr> else m) (md_meetings db)\<rparr>))"

definition activate_meeting :: "db_fault \<Rightarrow> int \<Rightarrow> uuid \<Rightarrow> meet_db \<Rightarrow> ((uuid \<times> uuid) option, GcError) result \<times> meet_db" where
  "activate_meeting fault now meeting = md_exec fault (activate_stmt now meeting)"

text \<open>Participants.  Two active rows of a meeting never have the same user; a missing user differs from every other.\<close>

definition active_participant :: "uuid \<Rightarrow> ParticipantRow \<Rightarrow> bool" where
  "active_participant meeting p \<longleftrightarrow> pt_meeting_id p = meeting \<and> pt_left_at p = None"

definition count_active_participants :: "db_fault \<Rightarrow> uuid \<Rightarrow> meet_db \<Rightarrow> (nat, GcError) result \<times> meet_db" where
  "count_active_participants fault meeting =
     md_exec fault (\<lambda>db. (Ok (length (filter (active_participant meeting) (md_participants db))), db))"

definition add_participant_stmt ::
  "int \<Rightarrow> uuid \<Rightarrow> uuid \<Rightarrow> uuid option \<Rightarrow> string \<Rightarrow> string \<Rightarrow> string \<Rightarrow> meet_db \<Rightarrow> (ParticipantRow, string) result \<times> meet_db"
where
  "add_participant_stmt now new_id meeting user name participant_type role db =
     (let row = \<lparr>pt_participant_id = new_id, pt_meeting_id = meeting, pt_user_id = user, pt_display_name = name,
                 pt_participant_type = participant_type, pt_role = role, pt_joined_at = now, pt_left_at = None\<rparr>
      in if participant_type \<notin> {''member'', ''external'', ''guest''} \<or> role \<notin> {''host'', ''participant'', ''guest''}
         then (Err check_violation, db)
         else if \<exists>p \<in> set (md_participants db). pt_participant_id p = new_id
                   \<or> active_participant meeting p \<and> user \<noteq> None \<and> pt_user_id p = user
         then (Err duplicate_key, db)
         else if meeting \<notin> mw_meeting_id ` set (md_meetings db)
                   \<or> (case user of None \<Rightarrow> False | Some u \<Rightarrow> u \<notin> set (md_users db))
         then (Err foreign_key, db)
         else (Ok row, db\<lparr>md_participants := md_participants db @ [row]\<rparr>))"

definition add_participant ::
  "db_fault \<Rightarrow> int \<Rightarrow> uuid \<Rightarrow> uuid \<Rightarrow> uuid option \<Rightarrow> string \<Rightarrow> string \<Rightarrow> string \<Rightarrow> meet_db \<Rightarrow> (ParticipantRow, GcError) result \<times> meet_db"
where
  "add_participant fault now new_id meeting user name participant_type role =
     md_exec fault (add_participant_stmt now new_id meeting user name participant_type role)"

definition remove_participant_stmt :: "int \<Rightarrow> uuid \<Rightarrow> uuid \<Rightarrow> meet_db \<Rightarrow> (bool, string) result \<times> meet_db" where
  "remove_participant_stmt now meeting user db =
     (let hit = (\<lambda>p. active_participant meeting p \<and> pt_user_id p = Some user)
      in (Ok (length (filter hit (md_participants db)) > 0),
          db\<lparr>md_participants := map (\<lambda>p. if hit p then p\<lparr>pt_left_at := Some now\<rparr> else p) (md_participants db)\<rparr>))"

definition remove_participant :: "db_fault \<Rightarrow> int \<Rightarrow> uuid \<Rightarrow> uuid \<Rightarrow> meet_db \<Rightarrow> (bool, GcError) result \<times> meet_db" where
  "remove_participant fault now meeting user = md_exec fault (remove_participant_stmt now meeting user)"

section \<open>Looking meetings up, and their settings\<close>

definition find_meeting_by_code :: "db_fault \<Rightarrow> string \<Rightarrow> meet_db \<Rightarrow> (MeetingRow, GcError) result \<times> meet_db" where
  "find_meeting_by_code fault code db =
     (case md_exec fault (\<lambda>db. (Ok (fetch_optional (filter (\<lambda>m. mw_meeting_code m = code) (md_meetings db))), db)) db of
        (Inl e, db) \<Rightarrow> (Err e, db)
      | (Inr None, db) \<Rightarrow> (Err (GcNotFound ''Meeting not found''), db)
      | (Inr (Some m), db) \<Rightarrow> (Ok m, db))"

definition find_meeting_by_id :: "db_fault \<Rightarrow> uuid \<Rightarrow> meet_db \<Rightarrow> (MeetingRow, GcError) result \<times> meet_db" where
  "find_meeting_by_id fault meeting db =
     (case md_exec fault (\<lambda>db. (Ok (fetch_optional (filter (\<lambda>m. mw_meeting_id m = meeting) (md_meetings db))), db)) db of
        (Inl e, db) \<Rightarrow> (Err e, db)
      | (Inr None, db) \<Rightarrow> (Err (GcNotFound ''Meeting not found''), db)
      | (Inr (Some m), db) \<Rightarrow> (Ok m, db))"

definition coalesce :: "'a option \<Rightarrow> 'a \<Rightarrow> 'a" where
  "coalesce new old = (case new of None \<Rightarrow> old | Some v \<Rightarrow> v)"

definition apply_settings :: "int \<Rightarrow> UpdateMeetingSettingsRequest \<Rightarrow> MeetingRow \<Rightarrow> MeetingRow" where
  "apply_settings now r m = m\<lparr>mw_allow_guests := coalesce (us_allow_guests r) (mw_allow_guests m),
     mw_allow_external_participants := coalesce (us_allow_external_participants r) (mw_allow_external_participants m),
     mw_waiting_room_enabled := coalesce (us_waiting_room_enabled r) (mw_waiting_room_enabled m),
     mw_updated_at := now\<rparr>"

definition update_settings_stmt ::
  "int \<Rightarrow> uuid \<Rightarrow> UpdateMeetingSettingsRequest \<Rightarrow> meet_db \<Rightarrow> (MeetingRow option, string) result \<times> meet_db"
where
  "update_settings_stmt now meeting r db =
     (Ok (map_option (apply_settings now r) (fetch_optional (filter (\<lambda>m. mw_meeting_id m = meeting) (md_meetings db)))),
      db\<lparr>md_meetings := map (\<lambda>m. if mw_meeting_id m = meeting then apply_settings now r m else m) (md_meetings db)\<rparr>)"

definition update_meeting_settings_in_db ::
  "db_fault \<Rightarrow> int \<Rightarrow> uuid \<Rightarrow> UpdateMeetingSettingsRequest \<Rightarrow> meet_db \<Rightarrow> (MeetingRow, GcError) result \<times> meet_db"
where
  "update_meeting_settings_in_db fault now meeting r db =
     (case md_exec fault (update_settings_stmt now meeting r) db of
        (Inl e, db) \<Rightarrow> (Err e, db)
      | (Inr None, db) \<Rightarrow> (Err (GcNotFound ''Meeting not found''), db)
      | (Inr (Some m), db) \<Rightarrow> (Ok m, db))"

section \<open>Identifiers and secrets\<close>

definition parse_user_id :: "text_lib \<Rightarrow> string \<Rightarrow> (uuid, GcError) result" where
  "parse_user_id T sub =
     (case tl_uuid_parse T (case strip_prefix ''user:'' sub of None \<Rightarrow> sub | Some s \<Rightarrow> s) of
        None \<Rightarrow> Err (GcInvalidToken ''Invalid user identifier in token'')
      | Some u \<Rightarrow> Ok u)"

text \<open>The random bytes of a \<open>SystemRandom\<close>, or the text of its failure, are a \<open>draw\<close>.\<close>

definition generate_guest_id :: "text_lib \<Rightarrow> draw \<Rightarrow> (uuid, GcError) result" where
  "generate_guest_id T rng =
     (case rng of
        Inl e \<Rightarrow> Err (GcInternal (''RNG failure: '' @ e))
      | Inr bytes \<Rightarrow>
          (let bytes = bytes[6 := or (and (bytes ! 6) 0x0f) 0x40];
               bytes = bytes[8 := or (and (bytes ! 8) 0x3f) 0x80]
           in Ok (tl_uuid_from_bytes T bytes)))"

definition BASE62_CHARS :: string where
  "BASE62_CHARS = ''0123456789ABCDEFGHIJKLMNOPQRSTUVWXYZabcdefghijklmnopqrstuvwxyz''"

definition MEETING_CODE_LENGTH :: nat where "MEETING_CODE_LENGTH = 12"
definition MEETING_CODE_RANDOM_BYTES :: nat where "MEETING_CODE_RANDOM_BYTES = 9"
definition JOIN_TOKEN_SECRET_BYTES :: nat where "JOIN_TOKEN_SECRET_BYTES = 32"

type_synonym u128 = "128 word"

definition code_value :: "u8 list \<Rightarrow> u128" where
  "code_value bytes = foldl (\<lambda>value b. or (push_bit 8 value) (ucast b)) 0 bytes"

text \<open>The digits the loop pushes, least significant first; \<open>None\<close> when an index is out of range.\<close>

fun code_digits :: "nat \<Rightarrow> u128 \<Rightarrow> string option" where
  "code_digits 0 value = Some []"
| "code_digits (Suc n) value =
     (case get_at BASE62_CHARS (unat (value mod 62)) of
        None \<Rightarrow> None
      | Some ch \<Rightarrow> map_option ((#) ch) (code_digits n (value div 62)))"

definition generate_meeting_code :: "draw \<Rightarrow> (string, GcError) result" where
  "generate_meeting_code rng =
     (case rng of
        Inl e \<Rightarrow> Err (GcInternal ''RNG failure'')
      | Inr bytes \<Rightarrow>
          (case code_digits MEETING_CODE_LENGTH (code_value bytes) of
             None \<Rightarrow> Err (GcInternal ''Base62 index out of range'')
           | Some code \<Rightarrow> Ok (rev code)))"

definition generate_join_token_secret :: "text_lib \<Rightarrow> draw \<Rightarrow> (string, GcError) result" where
  "generate_join_token_secret T rng =
     (case rng of Inl e \<Rightarrow> Err (GcInternal ''RNG failure'') | Inr bytes \<Rightarrow> Ok (tl_hex_encode T bytes))"

section \<open>The client of the Auth Controller\<close>

datatype ac_body = AcMeetingRequest MeetingTokenRequest | AcGuestRequest GuestTokenRequest

text \<open>What comes back: nothing, or a status with its text and a body that was read or failed to be read.\<close>

datatype ac_reply = AcSendFailed | AcReply nat string "(InternalTokenResponse, string) result"

text \<open>Posting a body to a URL with an authorization header, over the state \<open>'a\<close> of the Auth Controller.\<close>

type_synonym 'a ac_http = "string \<Rightarrow> string \<Rightarrow> ac_body \<Rightarrow> 'a \<Rightarrow> ac_reply \<times> 'a"

definition handle_response :: "nat \<Rightarrow> string \<Rightarrow> (InternalTokenResponse, string) result \<Rightarrow> (InternalTokenResponse, GcError) result" where
  "handle_response status status_text body =
     (if 200 \<le> status \<and> status < 300
      then case body of Inl e \<Rightarrow> Err (GcInternal (''Failed to parse AC response: '' @ e)) | Inr t \<Rightarrow> Ok t
      else if 500 \<le> status \<and> status < 600 then Err (GcServiceUnavailable ''Auth Controller is unavailable'')
      else if status = 403 then Err (GcForbidden ''Request denied by Auth Controller'')
      else if status = 400 then Err (GcBadRequest ''Invalid token request'')
      else if status = 401 then Err (GcInternal ''GC service token rejected by AC'')
      else Err (GcInternal (''Unexpected AC response: '' @ status_text)))"

definition ac_request ::
  "'a ac_http \<Rightarrow> string \<Rightarrow> string \<Rightarrow> ac_body \<Rightarrow> 'a \<Rightarrow> (InternalTokenResponse, GcError) result \<times> 'a"
where
  "ac_request http url token body a =
     (case http url (''Bearer '' @ token) body a of
        (AcSendFailed, a) \<Rightarrow> (Err (GcServiceUnavailable ''Auth Controller is unavailable''), a)
      | (AcReply status text reply, a) \<Rightarrow> (handle_response status text reply, a))"

definition request_meeting_token ::
  "'a ac_http \<Rightarrow> string \<Rightarrow> string \<Rightarrow> MeetingTokenRequest \<Rightarrow> 'a \<Rightarrow> (InternalTokenResponse, GcError) result \<times> 'a"
where
  "request_meeting_token http base_url token r =
     ac_request http (base_url @ ''/api/v1/auth/internal/meeting-token'') token (AcMeetingRequest r)"

definition request_guest_token ::
  "'a ac_http \<Rightarrow> string \<Rightarrow> string \<Rightarrow> GuestTokenRequest \<Rightarrow> 'a \<Rightarrow> (InternalTokenResponse, GcError) result \<times> 'a"
where
  "request_guest_token http base_url token r =
     ac_request http (base_url @ ''/api/v1/auth/internal/guest-token'') token (AcGuestRequest r)"

section \<open>Creating a meeting\<close>

definition DEFAULT_TOKEN_TTL_SECONDS :: u32 where "DEFAULT_TOKEN_TTL_SECONDS = 900"

definition DEFAULT_PARTICIPANT_CAPABILITIES :: "string list" where
  "DEFAULT_PARTICIPANT_CAPABILITIES = [''audio'', ''video'', ''screen_share'', ''chat'']"

definition MEETING_CREATE_ROLES :: "string list" where
  "MEETING_CREATE_ROLES = [''user'', ''admin'', ''org_admin'']"

definition MAX_CODE_COLLISION_RETRIES :: nat where "MAX_CODE_COLLISION_RETRIES = 3"

text \<open>The labels of \<open>record_meeting_creation\<close> and \<open>record_meeting_join\<close>.\<close>

type_synonym labels = "string \<times> string option"

abbreviation failed :: "string \<Rightarrow> labels" where
  "failed error_type \<equiv> (''error'', Some error_type)"

abbreviation succeeded :: labels where
  "succeeded \<equiv> (''success'', None)"

text \<open>
  What an attempt to insert meets: its random bytes, what others did to the tables before it and
  between its snapshot and its write, its outcome, its time and the generated key.
\<close>

record create_attempt =
  ca_rng :: draw
  ca_before :: "meet_db \<Rightarrow> meet_db"
  ca_late :: "meet_db \<Rightarrow> meet_db"
  ca_fault :: db_fault
  ca_now :: int
  ca_new_id :: uuid

record create_env =
  ce_secret_rng :: draw
  ce_attempt :: "nat \<Rightarrow> create_attempt"
  ce_audit_before :: "meet_db \<Rightarrow> meet_db"
  ce_audit_fault :: db_fault

fun str_contains :: "string \<Rightarrow> string \<Rightarrow> bool" where
  "str_contains pat [] \<longleftrightarrow> pat = []"
| "str_contains pat (c # cs) \<longleftrightarrow> starts_with pat (c # cs) \<or> str_contains pat cs"

definition is_collision :: "string \<Rightarrow> bool" where
  "is_collision e \<longleftrightarrow> str_contains ''unique constraint'' e \<or> str_contains ''duplicate key'' e"

definition create_meeting_with_limit_check ::
  "create_attempt \<Rightarrow> uuid \<Rightarrow> uuid \<Rightarrow> string \<Rightarrow> string \<Rightarrow> string \<Rightarrow> int \<Rightarrow> bool \<Rightarrow> bool \<Rightarrow> bool \<Rightarrow> bool \<Rightarrow> bool \<Rightarrow> bool
     \<Rightarrow> int option \<Rightarrow> meet_db \<Rightarrow> (MeetingRow option, GcError) result \<times> meet_db"
where
  "create_meeting_with_limit_check a org user name code secret max_participants e2e auth recording guests external
       waiting start =
     md_exec (ca_fault a) (insert_meeting_stmt (ca_now a) (ca_new_id a) (ca_late a) org user name code secret
       max_participants e2e auth recording guests external waiting start)"

text \<open>The loop over the attempts; \<open>ins\<close> is the call with everything but the attempt and the code fixed.\<close>

fun create_loop ::
  "(create_attempt \<Rightarrow> string \<Rightarrow> meet_db \<Rightarrow> (MeetingRow option, GcError) result \<times> meet_db) \<Rightarrow> (nat \<Rightarrow> create_attempt)
     \<Rightarrow> nat list \<Rightarrow> meet_db \<Rightarrow> (MeetingRow, GcError) result \<times> labels \<times> meet_db"
where
  "create_loop ins env [] db =
     (Err (GcInternal ''Failed to generate unique meeting code''), failed ''code_collision'', db)"
| "create_loop ins env (attempt # attempts) db =
     (case generate_meeting_code (ca_rng (env attempt)) of
        Inl e \<Rightarrow> (Err e, failed ''internal'', db)
      | Inr code \<Rightarrow>
          (case ins (env attempt) code (ca_before (env attempt) db) of
             (Inr (Some row), db) \<Rightarrow> (Ok row, succeeded, db)
           | (Inr None, db) \<Rightarrow> (Err (GcForbidden ''Organization meeting limit exceeded''), failed ''forbidden'', db)
           | (Inl e, db) \<Rightarrow>
               (case e of
                  GcDatabase msg \<Rightarrow>
                    if is_collision msg
                    then if attempt = MAX_CODE_COLLISION_RETRIES - 1
                         then (Err (GcInternal ''Failed to generate unique meeting code''), failed ''code_collision'', db)
                         else create_loop ins env attempts db
                    else (Err e, failed ''db_error'', db)
                | _ \<Rightarrow> (Err e, failed ''db_error'', db))))"

definition create_checked ::
  "text_lib \<Rightarrow> create_env \<Rightarrow> CreateMeetingRequest \<Rightarrow> uuid \<Rightarrow> uuid \<Rightarrow> meet_db
     \<Rightarrow> (CreateMeetingResponse, GcError) result \<times> labels \<times> meet_db"
where
  "create_checked T e r user org db =
     (let display_name = trim_text (cr_display_name r);
          max_participants = coalesce (cr_max_participants r) DEFAULT_MAX_PARTICIPANTS
      in if max_participants < MIN_PARTICIPANTS
         then (Err (GcBadRequest ''Maximum participants must be at least 2''), failed ''bad_request'', db)
         else case generate_join_token_secret T (ce_secret_rng e) of
                Inl err \<Rightarrow> (Err err, failed ''internal'', db)
              | Inr secret \<Rightarrow>
                  (case create_loop
                          (\<lambda>a code. create_meeting_with_limit_check a org user display_name code secret max_participants
                             (coalesce (cr_enable_e2e_encryption r) True) (coalesce (cr_require_auth r) True)
                             (coalesce (cr_recording_enabled r) False) (coalesce (cr_allow_guests r) False)
                             (coalesce (cr_allow_external_participants r) False)
                             (coalesce (cr_waiting_room_enabled r) True) (cr_scheduled_start_time r))
                          (ce_attempt e) [0..<MAX_CODE_COLLISION_RETRIES] db of
                     (Inl err, l, db) \<Rightarrow> (Err err, l, db)
                   | (Inr row, l, db) \<Rightarrow>
                       (Ok (create_response row), succeeded,
                        snd (log_audit_event (ce_audit_fault e) org (Some user) (mw_meeting_id row) ''meeting_created''
                               (ce_audit_before e db)))))"

definition gc_create_meeting ::
  "text_lib \<Rightarrow> create_env \<Rightarrow> UserClaims \<Rightarrow> json option \<Rightarrow> meet_db
     \<Rightarrow> (CreateMeetingResponse, GcError) result \<times> labels \<times> meet_db"
where
  "gc_create_meeting T e claims body db =
     (case Option.bind body (create_request_of T) of
        None \<Rightarrow> (Err (GcBadRequest ''Invalid request body''), failed ''bad_request'', db)
      | Some r \<Rightarrow>
          if \<not> list_ex (\<lambda>role. role \<in> set MEETING_CREATE_ROLES) (uc_roles claims)
          then (Err (GcForbidden ''Insufficient permissions to create meetings''), failed ''forbidden'', db)
          else case validate_create r of
                 Inl msg \<Rightarrow> (Err (GcBadRequest msg), failed ''bad_request'', db)
               | Inr _ \<Rightarrow>
                   (case parse_user_id T (uc_sub claims) of
                      Inl err \<Rightarrow> (Err err, failed ''unauthorized'', db)
                    | Inr user \<Rightarrow>
                        (case tl_uuid_parse T (uc_org_id claims) of
                           None \<Rightarrow> (Err (GcInvalidToken ''Invalid organization identifier in token''),
                                    failed ''unauthorized'', db)
                         | Some org \<Rightarrow> create_checked T e r user org db)))"

section \<open>Joining a meeting\<close>

record McAssignmentInfo =
  ma_mc_id :: string
  ma_webtransport_endpoint :: "string option"
  ma_grpc_endpoint :: string

definition assignment_info :: "McAssignment \<Rightarrow> McAssignmentInfo" where
  "assignment_info a = \<lparr>ma_mc_id = mca_mc_id a, ma_webtransport_endpoint = mca_webtransport_endpoint a,
     ma_grpc_endpoint = mca_grpc_endpoint a\<rparr>"

record JoinMeetingResponse =
  jr_token :: string
  jr_expires_in :: u32
  jr_meeting_id :: uuid
  jr_meeting_name :: string
  jr_mc_assignment :: McAssignmentInfo

definition join_response :: "InternalTokenResponse \<Rightarrow> MeetingRow \<Rightarrow> AssignmentWithMh \<Rightarrow> JoinMeetingResponse" where
  "join_response t m a = \<lparr>jr_token = it_token t, jr_expires_in = it_expires_in t, jr_meeting_id = mw_meeting_id m,
     jr_meeting_name = mw_display_name m, jr_mc_assignment = assignment_info (aw_mc_assignment a)\<rparr>"

text \<open>The tables, the Meeting Controllers behind the client, and the Auth Controller.\<close>

record ('w, 'a) gc_world =
  gw_meet :: meet_db
  gw_db :: gc_db
  gw_mcs :: 'w
  gw_ac :: 'a

text \<open>Configuration, the client of the Meeting Controllers and the connection to the Auth Controller.\<close>

record ('f, 'w, 'a) gc_app =
  ga_f64 :: "'f f64_ops"
  ga_client :: "'w mc_client"
  ga_http :: "'a ac_http"
  ga_region :: string
  ga_gc_id :: string
  ga_ac_internal_url :: string

text \<open>
  What a join meets: the outcome of the lookup, the assignment's environment, whether the HTTP client
  can be built, the service token at that time and, for a guest, random bytes.
\<close>

record join_env =
  je_find :: db_fault
  je_assign :: assign_env
  je_http_client :: "(unit, string) result"
  je_token :: string
  je_rng :: draw

definition create_ac_client :: "join_env \<Rightarrow> (unit, GcError) result" where
  "create_ac_client e =
     (case je_http_client e of Inl msg \<Rightarrow> Err (GcInternal (''Failed to build HTTP client: '' @ msg)) | Inr _ \<Rightarrow> Ok ())"

definition joinable :: "MeetingRow \<Rightarrow> bool" where
  "joinable m \<longleftrightarrow> \<not> (mw_status m \<noteq> ''active'' \<and> mw_status m \<noteq> ''scheduled'')"

text \<open>
  The part the two ways of joining share: place the meeting, build the client and ask for a token.
\<close>

definition place_and_request ::
  "('f, 'w, 'a) gc_app \<Rightarrow> join_env \<Rightarrow> MeetingRow
     \<Rightarrow> ('a \<Rightarrow> (InternalTokenResponse, GcError) result \<times> 'a) \<Rightarrow> ('w, 'a) gc_world
     \<Rightarrow> (JoinMeetingResponse, GcError) result \<times> labels \<times> ('w, 'a) gc_world"
where
  "place_and_request A e m request g =
     (case gc_assign_meeting_with_mh (ga_f64 A) (ga_client A) (je_assign e) (mw_meeting_id m) (ga_region A) (ga_gc_id A)
             (gw_db g) (gw_mcs g) of
        (Inl err, _, db, w) \<Rightarrow> (Err err, failed ''mc_assignment'', g\<lparr>gw_db := db, gw_mcs := w\<rparr>)
      | (Inr assignment, _, db, w) \<Rightarrow>
          (let g = g\<lparr>gw_db := db, gw_mcs := w\<rparr>
           in case create_ac_client e of
                Inl err \<Rightarrow> (Err err, failed ''internal'', g)
              | Inr _ \<Rightarrow>
                  (case request (gw_ac g) of
                     (Inl err, a) \<Rightarrow> (Err err, failed ''ac_request'', g\<lparr>gw_ac := a\<rparr>)
                   | (Inr t, a) \<Rightarrow> (Ok (join_response t m assignment), succeeded, g\<lparr>gw_ac := a\<rparr>))))"

definition join_token_request :: "MeetingRow \<Rightarrow> uuid \<Rightarrow> uuid \<Rightarrow> MeetingTokenRequest" where
  "join_token_request m user org =
     \<lparr>mr_subject_user_id = user, mr_meeting_id = mw_meeting_id m, mr_meeting_org_id = mw_org_id m, mr_home_org_id = org,
      mr_participant_type = (if org = mw_org_id m then ReqMember else ReqExternal),
      mr_role = (if mw_created_by_user_id m = user then ReqHost else ReqParticipant),
      mr_capabilities = DEFAULT_PARTICIPANT_CAPABILITIES, mr_ttl_seconds = DEFAULT_TOKEN_TTL_SECONDS\<rparr>"

definition join_meeting ::
  "text_lib \<Rightarrow> ('f, 'w, 'a) gc_app \<Rightarrow> join_env \<Rightarrow> UserClaims \<Rightarrow> string \<Rightarrow> ('w, 'a) gc_world
     \<Rightarrow> (JoinMeetingResponse, GcError) result \<times> labels \<times> ('w, 'a) gc_world"
where
  "join_meeting T A e claims code g =
     (case find_meeting_by_code (je_find e) code (gw_meet g) of
        (Inl err, md) \<Rightarrow> (Err err, failed ''not_found'', g\<lparr>gw_meet := md\<rparr>)
      | (Inr m, md) \<Rightarrow>
          (let g = g\<lparr>gw_meet := md\<rparr>
           in if \<not> joinable m then (Err (GcNotFound ''Meeting not found or has ended''), failed ''bad_status'', g)
              else case parse_user_id T (uc_sub claims) of
                     Inl err \<Rightarrow> (Err err, failed ''unauthorized'', g)
                   | Inr user \<Rightarrow>
                       (case tl_uuid_parse T (uc_org_id claims) of
                          None \<Rightarrow> (Err (GcInvalidToken ''Invalid organization identifier in token''),
                                   failed ''unauthorized'', g)
                        | Some org \<Rightarrow>
                            if org \<noteq> mw_org_id m \<and> \<not> mw_allow_external_participants m
                            then (Err (GcForbidden ''External participants are not allowed in this meeting''),
                                  failed ''forbidden'', g)
                            else place_and_request A e m
                                   (request_meeting_token (ga_http A) (ga_ac_internal_url A) (je_token e)
                                      (join_token_request m user org)) g)))"

definition get_guest_token ::
  "text_lib \<Rightarrow> ('f, 'w, 'a) gc_app \<Rightarrow> join_env \<Rightarrow> string \<Rightarrow> GuestJoinRequest \<Rightarrow> ('w, 'a) gc_world
     \<Rightarrow> (JoinMeetingResponse, GcError) result \<times> labels \<times> ('w, 'a) gc_world"
where
  "get_guest_token T A e code r g =
     (case validate_guest r of
        Inl msg \<Rightarrow> (Err (GcBadRequest msg), failed ''bad_request'', g)
      | Inr _ \<Rightarrow>
          (case find_meeting_by_code (je_find e) code (gw_meet g) of
             (Inl err, md) \<Rightarrow> (Err err, failed ''not_found'', g\<lparr>gw_meet := md\<rparr>)
           | (Inr m, md) \<Rightarrow>
               (let g = g\<lparr>gw_meet := md\<rparr>
                in if \<not> joinable m then (Err (GcNotFound ''Meeting not found or has ended''), failed ''bad_status'', g)
                   else if \<not> mw_allow_guests m
                   then (Err (GcForbidden ''Guest access is not allowed in this meeting''), failed ''guests_disabled'', g)
                   else case generate_guest_id T (je_rng e) of
                          Inl err \<Rightarrow> (Err err, failed ''internal'', g)
                        | Inr guest \<Rightarrow>
                            place_and_request A e m
                              (request_guest_token (ga_http A) (ga_ac_internal_url A) (je_token e)
                                 \<lparr>gr_guest_id = guest, gr_display_name = trim_text (gj_display_name r),
                                  gr_meeting_id = mw_meeting_id m, gr_meeting_org_id = mw_org_id m,
                                  gr_waiting_room = mw_waiting_room_enabled m,
                                  gr_ttl_seconds = DEFAULT_TOKEN_TTL_SECONDS\<rparr>) g)))"

section \<open>Changing the settings\<close>

record settings_env =
  se_find :: db_fault
  se_between :: "meet_db \<Rightarrow> meet_db"
  se_update :: db_fault
  se_now :: int

definition update_meeting_settings ::
  "text_lib \<Rightarrow> settings_env \<Rightarrow> UserClaims \<Rightarrow> uuid \<Rightarrow> UpdateMeetingSettingsRequest \<Rightarrow> meet_db
     \<Rightarrow> (MeetingResponse, GcError) result \<times> meet_db"
where
  "update_meeting_settings T e claims meeting r db =
     (if \<not> has_changes r then (Err (GcBadRequest ''No changes provided''), db)
      else case find_meeting_by_id (se_find e) meeting db of
             (Inl err, db) \<Rightarrow> (Err err, db)
           | (Inr m, db) \<Rightarrow>
               (case parse_user_id T (uc_sub claims) of
                  Inl err \<Rightarrow> (Err err, db)
                | Inr user \<Rightarrow>
                    if mw_created_by_user_id m \<noteq> user
                    then (Err (GcForbidden ''Only the meeting host can update settings''), db)
                    else case update_meeting_settings_in_db (se_update e) (se_now e) meeting r (se_between e db) of
                           (Inl err, db) \<Rightarrow> (Err err, db)
                         | (Inr updated, db) \<Rightarrow> (Ok (meeting_response updated), db)))"

end
