(* ===== verification/GC_Meeting_Props.thy ===== *)
theory GC_Meeting_Props
  imports GC_Meetings
begin

text \<open>
  What holds of meetings at the Global Controller (\<open>GC_Meetings\<close>): the codes, the quota of an
  organisation, what creating, joining and changing a meeting does and who may, and the participants' table.
\<close>

section \<open>Meeting codes\<close>

text \<open>The numeral of \<open>n\<close> in base 62 with \<open>k\<close> digits, most significant first.\<close>

fun base62 :: "nat \<Rightarrow> nat \<Rightarrow> string" where
  "base62 0 n = []"
| "base62 (Suc k) n = base62 k (n div 62) @ [BASE62_CHARS ! (n mod 62)]"

lemma length_BASE62 [simp]: "length BASE62_CHARS = 62"
  by (simp add: BASE62_CHARS_def)

lemma distinct_BASE62: "distinct BASE62_CHARS"
  by code_simp

lemma base62_digit_inj: "i < 62 \<Longrightarrow> j < 62 \<Longrightarrow> BASE62_CHARS ! i = BASE62_CHARS ! j \<longleftrightarrow> i = j"
  using distinct_BASE62 by (simp add: nth_eq_iff_index_eq)

lemma base62_length [simp]: "length (base62 k n) = k"
  by (induction k arbitrary: n) auto

lemma base62_chars: "set (base62 k n) \<subseteq> set BASE62_CHARS"
  by (induction k arbitrary: n) (auto simp: subset_iff)

lemma mod_mult_split: "m mod (62 * b) = n mod (62 * b) \<longleftrightarrow> m mod 62 = n mod 62 \<and> m div 62 mod b = n div 62 mod b"
  for m n b :: nat
proof -
  have e: "x mod (62 * b) = 62 * (x div 62 mod b) + x mod 62" for x by (rule mod_mult2_eq)
  show ?thesis
  proof
    assume a: "m mod (62 * b) = n mod (62 * b)"
    have "m mod 62 = m mod (62 * b) mod 62" by (simp add: mod_mod_cancel)
    also have "\<dots> = n mod 62" by (simp add: a mod_mod_cancel)
    finally show "m mod 62 = n mod 62 \<and> m div 62 mod b = n div 62 mod b" using a e by simp
  qed (simp add: e)
qed

lemma base62_eq_iff: "base62 k m = base62 k n \<longleftrightarrow> m mod 62 ^ k = n mod 62 ^ k"
proof (induction k arbitrary: m n)
  case (Suc k)
  show ?case by (auto simp: Suc base62_digit_inj mod_mult_split)
qed simp

lemma code_digits_base62: "code_digits n v = Some (rev (base62 n (unat v)))"
proof (induction n arbitrary: v)
  case (Suc n)
  have m: "unat (v mod 62) = unat v mod 62" by (simp add: unat_mod_distrib)
  have d: "unat (v div 62) = unat v div 62" by (simp add: unat_div_distrib)
  show ?case by (simp add: get_at_def m d Suc)
qed simp

lemma code_value_step:
  fixes v :: u128
  assumes "unat v * 256 + unat b < 2 ^ 128"
  shows "unat (or (push_bit 8 v) (ucast (b :: u8))) = unat v * 256 + unat b"
proof -
  have disj: "and (push_bit 8 v) (ucast b) = (0 :: u128)"
    by (rule bit_word_eqI) (auto simp: bit_simps dest: bit_imp_le_length)
  have "or (push_bit 8 v) (ucast b) = push_bit 8 v + (ucast b :: u128)"
    by (rule disjunctive_add_eq_or [OF disj, symmetric])
  also have "\<dots> = of_nat (unat v * 256 + unat b)"
    by (simp add: push_bit_eq_mult unat_word_ariths mult.commute)
  finally show ?thesis using assms by (simp only: unat_of_nat) simp
qed

lemma code_value_foldl:
  fixes v :: u128
  assumes "unat v * 256 ^ length bs + be_val bs < 2 ^ 128"
  shows "unat (foldl (\<lambda>value b. or (push_bit 8 value) (ucast b)) v bs) = unat v * 256 ^ length bs + be_val bs"
  using assms
proof (induction bs arbitrary: v)
  case (Cons b bs)
  let ?w = "or (push_bit 8 v) (ucast b) :: u128"
  have le: "(unat v * 256 + unat b) * 256 ^ length bs + be_val bs < 2 ^ 128"
    using Cons.prems by (simp add: algebra_simps)
  have "unat v * 256 + unat b \<le> (unat v * 256 + unat b) * 256 ^ length bs" by simp
  then have "unat v * 256 + unat b < 2 ^ 128" using le by linarith
  then have w: "unat ?w = unat v * 256 + unat b" by (rule code_value_step)
  have "unat (foldl (\<lambda>value b. or (push_bit 8 value) (ucast b)) ?w bs) = unat ?w * 256 ^ length bs + be_val bs"
    by (rule Cons.IH) (use le w in simp)
  then show ?case by (simp add: w algebra_simps)
qed simp

lemma code_value_be: "length bytes = MEETING_CODE_RANDOM_BYTES \<Longrightarrow> unat (code_value bytes) = be_val bytes"
  using code_value_foldl [of 0 bytes] be_val_lt [of bytes]
  by (simp add: code_value_def MEETING_CODE_RANDOM_BYTES_def)

lemma generate_meeting_code_base62:
  assumes "length bytes = MEETING_CODE_RANDOM_BYTES"
  shows "generate_meeting_code (Ok bytes) = Ok (base62 MEETING_CODE_LENGTH (be_val bytes))"
  by (simp add: generate_meeting_code_def code_digits_base62 code_value_be assms)

lemma meeting_codes_collide:
  "\<exists>a b. length a = MEETING_CODE_RANDOM_BYTES \<and> length b = MEETING_CODE_RANDOM_BYTES \<and> a \<noteq> b
     \<and> generate_meeting_code (Ok a) = generate_meeting_code (Ok b)"
proof (intro exI conjI)
  let ?a = "be_bytes 9 0" and ?b = "be_bytes 9 (62 ^ 12)"
  have v: "be_val ?a = 0" "be_val ?b = 62 ^ 12" by (rule be_val_be_bytes, simp)+
  then show "?a \<noteq> ?b" by (metis power_eq_0_iff zero_neq_numeral)
  show l: "length ?a = MEETING_CODE_RANDOM_BYTES" "length ?b = MEETING_CODE_RANDOM_BYTES"
    by (simp_all only: length_be_bytes MEETING_CODE_RANDOM_BYTES_def)
  show "generate_meeting_code (Ok ?a) = generate_meeting_code (Ok ?b)"
    unfolding generate_meeting_code_base62 [OF l(1)] generate_meeting_code_base62 [OF l(2)]
    by (simp only: sum.inject base62_eq_iff v MEETING_CODE_LENGTH_def mod_self mod_0)
qed

text \<open>
  A meeting code is the twelve-digit base-62 numeral of the random number modulo 62^12: drawing
  never fails on nine random bytes, the code has twelve characters of the alphabet, and two draws give the same
  code exactly when they agree modulo 62^12.  Since 62^12 is less than 2^72, different draws do
  collide: the nine bytes are not all in the code.
\<close>

theorem meeting_code_is_numeral:
  assumes "length bytes = MEETING_CODE_RANDOM_BYTES" and "length other = MEETING_CODE_RANDOM_BYTES"
  shows "(\<exists>code. generate_meeting_code (Ok bytes) = Ok code \<and> code = base62 MEETING_CODE_LENGTH (be_val bytes mod 62 ^ 12)
      \<and> length code = MEETING_CODE_LENGTH \<and> set code \<subseteq> set BASE62_CHARS)
    \<and> (generate_meeting_code (Ok bytes) = generate_meeting_code (Ok other)
      \<longleftrightarrow> be_val bytes mod 62 ^ 12 = be_val other mod 62 ^ 12)
    \<and> (\<exists>a b. length a = MEETING_CODE_RANDOM_BYTES \<and> length b = MEETING_CODE_RANDOM_BYTES \<and> a \<noteq> b
      \<and> generate_meeting_code (Ok a) = generate_meeting_code (Ok b))"
proof (intro conjI)
  have l: "MEETING_CODE_LENGTH = 12" by (simp add: MEETING_CODE_LENGTH_def)
  show "\<exists>code. generate_meeting_code (Ok bytes) = Ok code \<and> code = base62 MEETING_CODE_LENGTH (be_val bytes mod 62 ^ 12)
      \<and> length code = MEETING_CODE_LENGTH \<and> set code \<subseteq> set BASE62_CHARS"
    using base62_chars by (simp add: generate_meeting_code_base62 assms(1) base62_eq_iff l)
  show "generate_meeting_code (Ok bytes) = generate_meeting_code (Ok other)
      \<longleftrightarrow> be_val bytes mod 62 ^ 12 = be_val other mod 62 ^ 12"
    by (simp only: generate_meeting_code_base62 assms sum.inject base62_eq_iff l)
  show "\<exists>a b. length a = MEETING_CODE_RANDOM_BYTES \<and> length b = MEETING_CODE_RANDOM_BYTES \<and> a \<noteq> b
      \<and> generate_meeting_code (Ok a) = generate_meeting_code (Ok b)"
    by (rule meeting_codes_collide)
qed

theorem meeting_code_is_numeral_witness:
  "\<exists>code. generate_meeting_code (Ok (replicate 9 0)) = Ok code \<and> length code = 12"
  using meeting_code_is_numeral [of "replicate 9 0" "replicate 9 1"]
  by (auto simp: MEETING_CODE_RANDOM_BYTES_def MEETING_CODE_LENGTH_def)

section \<open>What happens to the tables\<close>

text \<open>
  The states the program's statements on these tables lead to.  An insertion reads a snapshot, after which
  others may have written.
\<close>

inductive meet_run :: "meet_db \<Rightarrow> meet_db \<Rightarrow> bool" where
  start: "meet_run s s"
| insert_meeting: "meet_run s snapshot \<Longrightarrow> meet_run snapshot db \<Longrightarrow>
    meet_run s (snd (insert_meeting_stmt now nid (\<lambda>_. db) org user name code secret n e2e auth rec guests external waiting t snapshot))"
| settings: "meet_run s db \<Longrightarrow> meet_run s (snd (update_settings_stmt now meeting r db))"
| activate: "meet_run s db \<Longrightarrow> meet_run s (snd (activate_stmt now meeting db))"
| audit: "meet_run s db \<Longrightarrow> meet_run s (snd (log_audit_stmt org' user' meeting action db))"
| add: "meet_run s db \<Longrightarrow> meet_run s (snd (add_participant_stmt now nid meeting user' name ptype role db))"
| remove: "meet_run s db \<Longrightarrow> meet_run s (snd (remove_participant_stmt now meeting user db))"

definition quota_used :: "uuid \<Rightarrow> meet_db \<Rightarrow> bool" where
  "quota_used org db \<longleftrightarrow> (\<forall>l \<in> set (org_limits org db). og_max_concurrent_meetings l \<le> current_count org db)"

lemma count_map_open:
  "(\<And>m. open_meeting org m \<Longrightarrow> open_meeting org (g m)) \<Longrightarrow>
    length (filter (open_meeting org) ms) \<le> length (filter (open_meeting org \<circ> g) ms)"
  by (induction ms) auto

lemma update_settings_keeps:
  "md_orgs (snd (update_settings_stmt now meeting r db)) = md_orgs db"
  "current_count org db \<le> current_count org (snd (update_settings_stmt now meeting r db))"
  by (simp_all add: update_settings_stmt_def current_count_def)
     (rule count_map_open, simp add: open_meeting_def apply_settings_def)

lemma activate_keeps:
  "md_orgs (snd (activate_stmt now meeting db)) = md_orgs db"
  "current_count org db \<le> current_count org (snd (activate_stmt now meeting db))"
  by (simp_all add: activate_stmt_def current_count_def Let_def)
     (rule count_map_open, simp add: open_meeting_def)

lemma insert_keeps:
  "md_orgs (snd (insert_meeting_stmt now nid late org' user name code secret n e2e auth rec guests external waiting t snapshot))
     = md_orgs (late snapshot)"
  "current_count org (late snapshot)
     \<le> current_count org (snd (insert_meeting_stmt now nid late org' user name code secret n e2e auth rec guests external waiting t snapshot))"
  by (auto simp: insert_meeting_stmt_def current_count_def Let_def split: list.split)

lemma other_keeps:
  "md_orgs (snd (log_audit_stmt org' user' meeting action db)) = md_orgs db"
  "current_count org (snd (log_audit_stmt org' user' meeting action db)) = current_count org db"
  "md_orgs (snd (add_participant_stmt now nid meeting user' name ptype role db)) = md_orgs db"
  "current_count org (snd (add_participant_stmt now nid meeting user' name ptype role db)) = current_count org db"
  "md_orgs (snd (remove_participant_stmt now meeting user db)) = md_orgs db"
  "current_count org (snd (remove_participant_stmt now meeting user db)) = current_count org db"
  by (simp_all add: log_audit_stmt_def add_participant_stmt_def remove_participant_stmt_def current_count_def Let_def)

lemma meet_run_monotone: "meet_run s db \<Longrightarrow> md_orgs db = md_orgs s \<and> current_count org s \<le> current_count org db"
proof (induction rule: meet_run.induct)
  case (insert_meeting s snapshot db)
  then show ?case by (simp add: insert_keeps(1)) (meson insert_keeps(2) order_trans)
next
  case (settings s db)
  then show ?case by (simp add: update_settings_keeps(1)) (meson update_settings_keeps(2) order_trans)
next
  case (activate s db)
  then show ?case by (simp add: activate_keeps(1)) (meson activate_keeps(2) order_trans)
qed (simp_all add: other_keeps)

lemma meet_run_quota:
  assumes "meet_run s db" and "quota_used org s"
  shows "quota_used org db"
proof -
  have "org_limits org db = org_limits org s"
    using meet_run_monotone [OF assms(1)] by (simp add: org_limits_def)
  moreover have "current_count org s \<le> current_count org db" using meet_run_monotone [OF assms(1)] by simp
  ultimately show ?thesis using assms(2) by (fastforce simp: quota_used_def)
qed

section \<open>The quota\<close>

lemma insert_over_quota:
  "quota_used org snapshot \<Longrightarrow>
     insert_meeting_stmt now nid late org user name code secret n e2e auth rec guests external waiting t snapshot
       = (Ok None, late snapshot)"
  by (auto simp: insert_meeting_stmt_def quota_used_def Let_def not_less filter_empty_conv split: list.split)

lemma create_loop_over_quota:
  assumes ins: "\<And>a code db. quota_used org db \<Longrightarrow> quota_used org (snd (ins (env a) code db))"
      "\<And>a code db row. quota_used org db \<Longrightarrow> fst (ins (env a) code db) \<noteq> Ok (Some row)"
    and before: "\<And>i db. quota_used org db \<Longrightarrow> quota_used org (ca_before (env i) db)"
  shows "quota_used org db \<Longrightarrow> fst (create_loop ins env is db) \<noteq> Ok row"
proof (induction "is" arbitrary: db)
  case (Cons i "is")
  have q: "quota_used org (ca_before (env i) db)" by (rule before [OF Cons.prems])
  show ?case using ins(1) [OF q, of i] ins(2) [OF q, of i]
    by (auto simp: Cons.IH split: sum.split prod.split option.split GcError.split) (metis fst_conv snd_conv Cons.IH)+
qed simp

lemma md_exec_keeps:
  assumes "P db" and "P (snd (f db))"
  shows "P (snd (md_exec fault f db))"
  using assms by (cases fault) (auto split: prod.split sum.split)

lemma create_over_quota:
  assumes "quota_used org db" and "\<And>i x. meet_run x (ca_before (ce_attempt e i) x)" and "\<And>i x. meet_run x (ca_late (ce_attempt e i) x)"
  shows "fst (create_checked T e r user org db) \<noteq> Ok resp"
proof -
  have run: "quota_used org x \<Longrightarrow> quota_used org (ca_before (ce_attempt e i) x)"
      "quota_used org x \<Longrightarrow> quota_used org (ca_late (ce_attempt e i) x)" for i x
    using assms(2,3) meet_run_quota by blast+
  have ins: "quota_used org (snd (create_meeting_with_limit_check (ce_attempt e i) org user name code secret n e2e auth rec guests
        external waiting t x))"
      "fst (create_meeting_with_limit_check (ce_attempt e i) org user name code secret n e2e auth rec guests
        external waiting t x) \<noteq> Ok (Some row)"
    if "quota_used org x" for i name code secret n e2e auth rec guests external waiting t x row
  proof -
    show "quota_used org (snd (create_meeting_with_limit_check (ce_attempt e i) org user name code secret n e2e auth rec guests
        external waiting t x))"
      unfolding create_meeting_with_limit_check_def
      by (rule md_exec_keeps [where P = "quota_used org", OF that]) (simp add: insert_over_quota that run)
    show "fst (create_meeting_with_limit_check (ce_attempt e i) org user name code secret n e2e auth rec guests
        external waiting t x) \<noteq> Ok (Some row)"
      using that by (cases "ca_fault (ce_attempt e i)") (auto simp: create_meeting_with_limit_check_def insert_over_quota)
  qed
  have "fst (create_loop (\<lambda>a code. create_meeting_with_limit_check a org user name code secret n e2e auth rec guests external
      waiting t) (ce_attempt e) is db) \<noteq> Ok row" for name secret n e2e auth rec guests external waiting t "is" row
    by (rule create_loop_over_quota [where org = org, OF _ _ _ assms(1)]) (erule ins run(1))+
  then show ?thesis
    by (auto simp: create_checked_def Let_def split: sum.split prod.split) (metis fst_conv)
qed

text \<open>
  The limit on concurrent meetings is used up for good: no statement of the program ends or
  deletes a meeting, so once an organisation has as many scheduled and active meetings as its limit, then
  after anything the program does to these tables every request to create a meeting for it fails.
\<close>

theorem meeting_quota_is_for_life:
  assumes "quota_used org db" and "meet_run db db'"
    and "\<And>i x. meet_run x (ca_before (ce_attempt e i) x)" and "\<And>i x. meet_run x (ca_late (ce_attempt e i) x)"
    and "tl_uuid_parse T (uc_org_id claims) = Some org"
  shows "fst (gc_create_meeting T e claims body db') \<noteq> Ok resp"
  using create_over_quota [OF meet_run_quota [OF assms(2,1)] assms(3,4)] assms(5)
  by (auto simp: gc_create_meeting_def split: sum.split option.split)

definition demo_text :: text_lib where
  "demo_text = \<lparr>tl_uuid_parse = Some, tl_uuid_from_bytes = (\<lambda>_. ''g''), tl_hex_encode = (\<lambda>_. ''s''), tl_time_parse = (\<lambda>_. None)\<rparr>"

definition demo_row :: "uuid \<Rightarrow> uuid \<Rightarrow> string \<Rightarrow> MeetingRow" where
  "demo_row mid org code = \<lparr>mw_meeting_id = mid, mw_org_id = org, mw_created_by_user_id = ''u'', mw_display_name = ''Demo'',
     mw_meeting_code = code, mw_join_token_secret = ''s'', mw_max_participants = 10, mw_enable_e2e_encryption = True,
     mw_require_auth = True, mw_recording_enabled = False, mw_meeting_controller_id = None,
     mw_meeting_controller_region = None, mw_status = ''scheduled'', mw_scheduled_start_time = None,
     mw_actual_start_time = None, mw_actual_end_time = None, mw_created_at = 0, mw_updated_at = 0,
     mw_allow_guests = True, mw_allow_external_participants = False, mw_waiting_room_enabled = True\<rparr>"

definition demo_tables :: "MeetingRow list \<Rightarrow> meet_db" where
  "demo_tables ms = \<lparr>md_orgs = [\<lparr>og_org_id = ''o'', og_max_concurrent_meetings = 1, og_max_participants_per_meeting = 50,
     og_is_active = True\<rparr>], md_users = [''u'', ''v''], md_meetings = ms, md_participants = [], md_audit = []\<rparr>"

definition demo_user_claims :: UserClaims where
  "demo_user_claims = \<lparr>uc_sub = ''u'', uc_org_id = ''o'', uc_email = ''u@o'', uc_roles = [''user''], uc_iat = 0, uc_exp = 9,
     uc_jti = ''j''\<rparr>"

definition demo_create_env :: create_env where
  "demo_create_env = \<lparr>ce_secret_rng = Ok (replicate 32 1), ce_attempt = (\<lambda>i. \<lparr>ca_rng = Ok (replicate 9 (of_nat i)),
     ca_before = id, ca_late = id, ca_fault = DbOk, ca_now = 5, ca_new_id = ''new''\<rparr>), ce_audit_before = id,
     ce_audit_fault = DbOk\<rparr>"

definition demo_body :: json where
  "demo_body = JObj [(''display_name'', JStr '' Planning ''), (''max_participants'', JNum 80)]"

theorem meeting_quota_is_for_life_witness:
  "quota_used ''o'' (demo_tables [demo_row ''m'' ''o'' ''c''])
   \<and> (\<forall>resp. fst (gc_create_meeting demo_text demo_create_env demo_user_claims (Some demo_body) (demo_tables [demo_row ''m'' ''o'' ''c''])) \<noteq> Ok resp)"
proof -
  have q: "quota_used ''o'' (demo_tables [demo_row ''m'' ''o'' ''c''])"
    by (simp add: quota_used_def org_limits_def demo_tables_def current_count_def open_meeting_def demo_row_def)
  have "fst (gc_create_meeting demo_text demo_create_env demo_user_claims (Some demo_body) (demo_tables [demo_row ''m'' ''o'' ''c''])) \<noteq> Ok resp" for resp
    by (rule meeting_quota_is_for_life [OF q start])
       (simp_all add: demo_create_env_def demo_text_def demo_user_claims_def start)
  with q show ?thesis by simp
qed

section \<open>A created meeting\<close>

lemma insert_created:
  assumes "insert_meeting_stmt now nid late org user name code secret n e2e auth rec guests external waiting t db = (Ok (Some row), db')"
  shows "\<exists>l \<in> set (org_limits org db). current_count org db < og_max_concurrent_meetings l
      \<and> mw_max_participants row = min n (og_max_participants_per_meeting l)"
    and "db' = (late db)\<lparr>md_meetings := md_meetings (late db) @ [row]\<rparr>"
    and "\<forall>m \<in> set (md_meetings (late db)). mw_meeting_id m \<noteq> mw_meeting_id row \<and> (mw_org_id m = org \<longrightarrow> mw_meeting_code m \<noteq> mw_meeting_code row)"
    and "mw_org_id row = org" "mw_created_by_user_id row = user" "mw_display_name row = name" "mw_meeting_code row = code"
    and "mw_enable_e2e_encryption row = e2e" "mw_require_auth row = auth" "mw_recording_enabled row = rec"
    and "mw_allow_guests row = guests" "mw_allow_external_participants row = external" "mw_waiting_room_enabled row = waiting"
    and "mw_status row = ''scheduled''"
  using assms
  by (auto simp: insert_meeting_stmt_def Let_def split: list.splits if_splits dest: filter_eq_ConsD)

text \<open>The attempt that succeeded; if nobody else is at the tables and no attempt that failed has changed them, it met them as they were.\<close>

lemma create_loop_Ok:
  assumes "create_loop ins env is db = (Ok row, l, db')"
  shows "\<exists>i code x. i \<in> set is \<and> generate_meeting_code (ca_rng (env i)) = Ok code \<and> ins (env i) code x = (Ok (Some row), db')
    \<and> ((\<forall>i. ca_before (env i) = id) \<and> (\<forall>i code y err. fst (ins (env i) code y) = Err err \<longrightarrow> snd (ins (env i) code y) = y) \<longrightarrow> x = db)"
  using assms
proof (induction "is" arbitrary: db)
  case (Cons i "is")
  then obtain code where code: "generate_meeting_code (ca_rng (env i)) = Ok code" by (auto split: sum.splits)
  obtain res x where ins: "ins (env i) code (ca_before (env i) db) = (res, x)" by fastforce
  show ?case
  proof (cases res)
    case (Inr found)
    then have "ins (env i) code (ca_before (env i) db) = (Ok (Some row), db')"
      using Cons.prems code ins by (auto split: option.splits)
    then show ?thesis using code by (intro exI [of _ i] exI [of _ code] exI [of _ "ca_before (env i) db"]) simp
  next
    case (Inl err)
    then have "create_loop ins env is x = (Ok row, l, db')"
      using Cons.prems code ins by (auto split: GcError.splits if_splits)
    from Cons.IH [OF this] obtain i' code' x' where later: "i' \<in> set is" "generate_meeting_code (ca_rng (env i')) = Ok code'"
        "ins (env i') code' x' = (Ok (Some row), db')"
        "(\<forall>i. ca_before (env i) = id) \<and> (\<forall>i code y err. fst (ins (env i) code y) = Err err \<longrightarrow> snd (ins (env i) code y) = y) \<longrightarrow> x' = x"
      by blast
    have "x = db" if "\<forall>i. ca_before (env i) = id" "\<forall>i code y err. fst (ins (env i) code y) = Err err \<longrightarrow> snd (ins (env i) code y) = y"
      using that(2) [rule_format, of i code db err] ins Inl that(1) by simp
    then show ?thesis using later by (intro exI [of _ i'] exI [of _ code'] exI [of _ x']) auto
  qed
qed simp

lemma generated_code: "generate_meeting_code rng = Ok code \<Longrightarrow> length code = MEETING_CODE_LENGTH \<and> set code \<subseteq> set BASE62_CHARS"
  using base62_chars by (auto simp: generate_meeting_code_def code_digits_base62 split: sum.splits)

lemma md_exec_ok: "md_exec DbOk f db = (case f db of (Inl e, db) \<Rightarrow> (Err (GcDatabase e), db) | (Inr a, db) \<Rightarrow> (Ok a, db))"
  by simp

lemma log_audit_keeps: "md_meetings (snd (log_audit_event fault org user meeting action db)) = md_meetings db"
  by (cases fault) (auto simp: log_audit_event_def log_audit_stmt_def split: sum.split prod.split)

text \<open>The row an insertion creates, with the limits as the insertion found them in \<open>db\<close>.\<close>

definition created_row :: "CreateMeetingRequest \<Rightarrow> uuid \<Rightarrow> uuid \<Rightarrow> meet_db \<Rightarrow> MeetingRow \<Rightarrow> bool" where
  "created_row r user org db row \<longleftrightarrow> mw_org_id row = org \<and> mw_created_by_user_id row = user \<and> mw_status row = ''scheduled''
     \<and> mw_display_name row = trim_text (cr_display_name r)
     \<and> length (mw_meeting_code row) = MEETING_CODE_LENGTH \<and> set (mw_meeting_code row) \<subseteq> set BASE62_CHARS
     \<and> mw_enable_e2e_encryption row = coalesce (cr_enable_e2e_encryption r) True
     \<and> mw_require_auth row = coalesce (cr_require_auth r) True
     \<and> mw_recording_enabled row = coalesce (cr_recording_enabled r) False
     \<and> mw_allow_guests row = coalesce (cr_allow_guests r) False
     \<and> mw_allow_external_participants row = coalesce (cr_allow_external_participants r) False
     \<and> mw_waiting_room_enabled row = coalesce (cr_waiting_room_enabled r) True
     \<and> (\<exists>l \<in> set (org_limits org db). current_count org db < og_max_concurrent_meetings l
          \<and> mw_max_participants row =
              min (coalesce (cr_max_participants r) DEFAULT_MAX_PARTICIPANTS) (og_max_participants_per_meeting l))"

text \<open>The insertion of \<open>row\<close> by one attempt, which counted in \<open>snapshot\<close>: the row is new among those there when it is written.\<close>

definition row_inserted :: "create_attempt \<Rightarrow> meet_db \<Rightarrow> MeetingRow \<Rightarrow> meet_db \<Rightarrow> bool" where
  "row_inserted a snapshot row db' \<longleftrightarrow>
     (\<forall>m \<in> set (md_meetings (ca_late a snapshot)). mw_meeting_id m \<noteq> mw_meeting_id row
        \<and> (mw_org_id m = mw_org_id row \<longrightarrow> mw_meeting_code m \<noteq> mw_meeting_code row))
     \<and> db' = (ca_late a snapshot)\<lparr>md_meetings := md_meetings (ca_late a snapshot) @ [row]\<rparr>"

text \<open>Nobody else changes the tables during the request, and no statement fails.\<close>

definition nobody_else :: "create_env \<Rightarrow> bool" where
  "nobody_else e \<longleftrightarrow> (\<forall>i. ca_before (ce_attempt e i) = id \<and> ca_late (ce_attempt e i) = id \<and> ca_fault (ce_attempt e i) = DbOk)
     \<and> ce_audit_before e = id"

lemma create_checked_effect:
  assumes run: "create_checked T e r user org db = (Ok resp, l, db')"
  shows "\<exists>row i snapshot db1. i < MAX_CODE_COLLISION_RETRIES \<and> resp = create_response row \<and> created_row r user org snapshot row
    \<and> row_inserted (ce_attempt e i) snapshot row db1 \<and> md_meetings db' = md_meetings (ce_audit_before e db1) \<and> (nobody_else e \<longrightarrow> snapshot = db)"
proof -
  let ?ins = "\<lambda>secret a code. create_meeting_with_limit_check a org user (trim_text (cr_display_name r)) code secret
      (coalesce (cr_max_participants r) DEFAULT_MAX_PARTICIPANTS)
      (coalesce (cr_enable_e2e_encryption r) True) (coalesce (cr_require_auth r) True)
      (coalesce (cr_recording_enabled r) False) (coalesce (cr_allow_guests r) False)
      (coalesce (cr_allow_external_participants r) False)
      (coalesce (cr_waiting_room_enabled r) True) (cr_scheduled_start_time r)"
  obtain secret row l' db1 where loop: "create_loop (?ins secret) (ce_attempt e) [0..<MAX_CODE_COLLISION_RETRIES] db = (Ok row, l', db1)"
      and resp: "resp = create_response row" and db': "md_meetings db' = md_meetings (ce_audit_before e db1)"
    using run by (auto simp: create_checked_def Let_def log_audit_keeps split: if_splits sum.splits prod.splits)
  have unchanged: "snd (?ins secret (ce_attempt e i) code x) = x" if "nobody_else e" "fst (?ins secret (ce_attempt e i) code x) = Err err" for i code x err
    using that by (auto simp: nobody_else_def create_meeting_with_limit_check_def insert_meeting_stmt_def Let_def
        split: sum.splits prod.splits list.splits if_splits)
  from create_loop_Ok [OF loop] obtain i code x where i: "i \<in> set [0..<MAX_CODE_COLLISION_RETRIES]"
    and code: "generate_meeting_code (ca_rng (ce_attempt e i)) = Ok code"
    and ins: "?ins secret (ce_attempt e i) code x = (Ok (Some row), db1)"
    and met: "(\<forall>i. ca_before (ce_attempt e i) = id) \<and> (\<forall>i code y err. fst (?ins secret (ce_attempt e i) code y) = Err err \<longrightarrow>
      snd (?ins secret (ce_attempt e i) code y) = y) \<longrightarrow> x = db"
    by blast
  have x: "x = db" if "nobody_else e"
  proof (rule met [THEN mp], intro conjI allI impI)
    show "ca_before (ce_attempt e i) = id" for i using that by (simp add: nobody_else_def)
  qed (rule unchanged [OF that])
  from ins have stmt: "insert_meeting_stmt (ca_now (ce_attempt e i)) (ca_new_id (ce_attempt e i)) (ca_late (ce_attempt e i)) org user
      (trim_text (cr_display_name r)) code secret (coalesce (cr_max_participants r) DEFAULT_MAX_PARTICIPANTS)
      (coalesce (cr_enable_e2e_encryption r) True) (coalesce (cr_require_auth r) True)
      (coalesce (cr_recording_enabled r) False) (coalesce (cr_allow_guests r) False)
      (coalesce (cr_allow_external_participants r) False)
      (coalesce (cr_waiting_room_enabled r) True) (cr_scheduled_start_time r) x = (Ok (Some row), db1)"
    by (cases "ca_fault (ce_attempt e i)") (auto simp: create_meeting_with_limit_check_def split: sum.splits prod.splits)
  note facts = insert_created [OF stmt]
  have "created_row r user org x row"
    using facts(1,4-) generated_code [OF code] by (simp add: created_row_def)
  moreover have "row_inserted (ce_attempt e i) x row db1" using facts(2-4) by (simp add: row_inserted_def)
  moreover have "i < MAX_CODE_COLLISION_RETRIES" using i by simp
  ultimately show ?thesis using resp db' x by blast
qed

text \<open>
  C15. A successful request to create a meeting was made by a user with one of the roles allowed, and has inserted the
  row it answers with, in the caller's organisation and with the caller as creator: scheduled, under an identifier and a code
  that no meeting there had, with at most the organisation's number of participants, and with the secure
  default for every setting the request leaves out.  This holds whatever other transactions do meanwhile and whatever
  statements fail.  The limit of concurrent meetings is kept in the snapshot that the insertion counted in, which other insertions may have outdated; if
  nobody else changes the tables and no statement fails, that snapshot is the tables as they were, and they gain exactly this row.
\<close>

theorem create_meeting_effect:
  assumes "gc_create_meeting T e claims body db = (Ok resp, l, db')"
  shows "\<exists>r user org row i snapshot db1. Option.bind body (create_request_of T) = Some r \<and> validate_create r = Ok ()
    \<and> (\<exists>role \<in> set MEETING_CREATE_ROLES. role \<in> set (uc_roles claims))
    \<and> parse_user_id T (uc_sub claims) = Ok user \<and> tl_uuid_parse T (uc_org_id claims) = Some org
    \<and> resp = create_response row \<and> created_row r user org snapshot row
    \<and> i < MAX_CODE_COLLISION_RETRIES \<and> row_inserted (ce_attempt e i) snapshot row db1
    \<and> md_meetings db' = md_meetings (ce_audit_before e db1)
    \<and> (nobody_else e \<longrightarrow> snapshot = db \<and> md_meetings db' = md_meetings db @ [row])"
proof -
  obtain r user org where req: "Option.bind body (create_request_of T) = Some r" "validate_create r = Ok ()"
    "\<exists>role \<in> set MEETING_CREATE_ROLES. role \<in> set (uc_roles claims)"
    "parse_user_id T (uc_sub claims) = Ok user" "tl_uuid_parse T (uc_org_id claims) = Some org"
    "create_checked T e r user org db = (Ok resp, l, db')"
    using assms by (auto simp: gc_create_meeting_def list_ex_iff split: option.splits if_splits sum.splits)
  obtain row i snapshot db1 where made: "i < MAX_CODE_COLLISION_RETRIES" "resp = create_response row" "created_row r user org snapshot row"
    "row_inserted (ce_attempt e i) snapshot row db1" "md_meetings db' = md_meetings (ce_audit_before e db1)" "nobody_else e \<Longrightarrow> snapshot = db"
    using create_checked_effect [OF req(6)] by blast
  then have "nobody_else e \<Longrightarrow> md_meetings db' = md_meetings db @ [row]" by (simp add: nobody_else_def row_inserted_def)
  with req made show ?thesis by blast
qed

lemma demo_create:
  "\<exists>resp l db'. gc_create_meeting demo_text demo_create_env demo_user_claims (Some demo_body) (demo_tables []) = (Ok resp, l, db')"
proof -
  have "isl (fst (gc_create_meeting demo_text demo_create_env demo_user_claims (Some demo_body) (demo_tables []))) = False"
    by code_simp
  then show ?thesis by (cases "gc_create_meeting demo_text demo_create_env demo_user_claims (Some demo_body) (demo_tables [])"; cases "fst (gc_create_meeting demo_text demo_create_env demo_user_claims (Some demo_body) (demo_tables []))") auto
qed

theorem create_meeting_effect_witness:
  "\<exists>row resp l db'. gc_create_meeting demo_text demo_create_env demo_user_claims (Some demo_body) (demo_tables []) = (Ok resp, l, db')
     \<and> md_meetings db' = [row] \<and> mw_status row = ''scheduled'' \<and> mw_created_by_user_id row = ''u''"
proof -
  obtain resp l db' where run:
    "gc_create_meeting demo_text demo_create_env demo_user_claims (Some demo_body) (demo_tables []) = (Ok resp, l, db')"
    using demo_create by blast
  have p: "parse_user_id demo_text (uc_sub demo_user_claims) = Ok ''u''" by code_simp
  have "nobody_else demo_create_env" by (simp add: nobody_else_def demo_create_env_def)
  with create_meeting_effect [OF run] obtain r user org row where
    "parse_user_id demo_text (uc_sub demo_user_claims) = Ok user" "created_row r user org (demo_tables []) row"
    "md_meetings db' = md_meetings (demo_tables []) @ [row]" by blast
  moreover have "md_meetings (demo_tables []) = []" by (simp add: demo_tables_def)
  ultimately show ?thesis using run p by (auto simp: created_row_def)
qed

section \<open>Two insertions at once\<close>

text \<open>
  The limit is not checked against insertions that are under way: when two requests for the last free
  place of an organisation run at the same time, the second committing after the first has read its
  snapshot, both succeed and the organisation has one open meeting more than its limit.
\<close>

theorem racing_creations_exceed_limit:
  assumes "org_limits org db = [limit]" and "current_count org db + 1 = og_max_concurrent_meetings limit"
    and "userA \<in> set (md_users db)" and "userB \<in> set (md_users db)" and "idA \<noteq> idB" and "codeA \<noteq> codeB"
    and "\<And>m. m \<in> set (md_meetings db) \<Longrightarrow> mw_meeting_id m \<notin> {idA, idB} \<and> mw_meeting_code m \<notin> {codeA, codeB}"
  shows "\<exists>row1 row2 db'.
      fst (insert_meeting_stmt tB idB id org userB nameB codeB secretB nB aB bB cB dB eB fB sB db) = Ok (Some row2)
    \<and> insert_meeting_stmt tA idA
        (\<lambda>x. snd (insert_meeting_stmt tB idB id org userB nameB codeB secretB nB aB bB cB dB eB fB sB x))
        org userA nameA codeA secretA nA aA bA cA dA eA fA sA db = (Ok (Some row1), db')
    \<and> current_count org db' = og_max_concurrent_meetings limit + 1"
proof -
  have org: "org \<in> og_org_id ` set (md_orgs db)"
    using assms(1) by (auto simp: org_limits_def dest: filter_eq_ConsD)
  have lt: "current_count org db < og_max_concurrent_meetings limit" using assms(2) by simp
  show ?thesis
    using assms(3-) org lt
    by (auto simp: insert_meeting_stmt_def Let_def assms(1) current_count_def open_meeting_def
        assms(2) [symmetric])
qed

theorem racing_creations_exceed_limit_witness:
  "\<exists>row1 row2 db'. fst (insert_meeting_stmt 0 ''n'' id ''o'' ''v'' ''B'' ''c2'' ''s'' 5 True True True True True True None (demo_tables []))
       = Ok (Some row2)
    \<and> insert_meeting_stmt 0 ''m'' (\<lambda>x. snd (insert_meeting_stmt 0 ''n'' id ''o'' ''v'' ''B'' ''c2'' ''s'' 5 True True True True True True None x))
        ''o'' ''u'' ''A'' ''c1'' ''s'' 5 True True True True True True None (demo_tables []) = (Ok (Some row1), db')
    \<and> current_count ''o'' db' = 2"
proof -
  let ?l = "\<lparr>og_org_id = ''o'', og_max_concurrent_meetings = 1, og_max_participants_per_meeting = 50, og_is_active = True\<rparr>"
  show ?thesis
    using racing_creations_exceed_limit [where org = "''o''" and db = "demo_tables []" and limit = ?l
        and userA = "''u''" and userB = "''v''" and idA = "''m''" and idB = "''n''" and codeA = "''c1''" and codeB = "''c2''"
        and tA = 0 and tB = 0 and nameA = "''A''" and nameB = "''B''" and secretA = "''s''" and secretB = "''s''"
        and nA = 5 and nB = 5 and aA = True and aB = True and bA = True and bB = True and cA = True and cB = True
        and dA = True and dB = True and eA = True and eB = True and fA = True and fB = True
        and sA = None and sB = None]
    by (simp add: org_limits_def demo_tables_def current_count_def)
qed

section \<open>Joining\<close>

lemma find_by_code_ok:
  "find_meeting_by_code fault code db = (Ok m, db') \<Longrightarrow>
     db' = db \<and> m \<in> set (md_meetings db) \<and> mw_meeting_code m = code \<and> fault = DbOk"
  by (cases fault) (auto simp: find_meeting_by_code_def fetch_optional_def split: option.splits list.splits dest: filter_eq_ConsD)

lemma find_by_code_keeps: "snd (find_meeting_by_code fault code db) = db"
  by (cases fault) (auto simp: find_meeting_by_code_def split: option.split)

lemma place_and_request_ok:
  "place_and_request A e m req g = (Ok resp, l, g') \<Longrightarrow>
     \<exists>a t calls db w. gc_assign_meeting_with_mh (ga_f64 A) (ga_client A) (je_assign e) (mw_meeting_id m) (ga_region A)
         (ga_gc_id A) (gw_db g) (gw_mcs g) = (Ok a, calls, db, w)
       \<and> req (gw_ac g) = (Ok t, gw_ac g') \<and> resp = join_response t m a \<and> gw_meet g' = gw_meet g \<and> gw_db g' = db \<and> gw_mcs g' = w"
  by (auto simp: place_and_request_def Let_def split: prod.splits sum.splits)

lemma ac_request_ok:
  "ac_request http url token body a = (Ok t, a') \<Longrightarrow>
     \<exists>status text. http url (''Bearer '' @ token) body a = (AcReply status text (Ok t), a') \<and> 200 \<le> status \<and> status < 300"
  by (auto simp: ac_request_def handle_response_def split: prod.splits ac_reply.splits if_splits sum.splits)

lemma joinable_iff: "joinable m \<longleftrightarrow> mw_status m \<in> {''scheduled'', ''active''}"
  by (auto simp: joinable_def)

text \<open>
  C7. A user who gets into a meeting was allowed to: the meeting has the code given and is scheduled or
  active, and belongs to the user's organisation or admits external participants.  The token in the
  answer is the one the Auth Controller issued on a request that names the user, the meeting and both
  organisations, asks for the role of host exactly for the user who created the meeting, and for membership exactly for
  a user of the meeting's organisation; and the meeting is placed on the controller named in the answer.
\<close>

theorem join_meeting_authorized:
  assumes "join_meeting T A e claims code g = (Ok resp, l, g')"
  shows "\<exists>m user org a calls status text t. m \<in> set (md_meetings (gw_meet g)) \<and> mw_meeting_code m = code
    \<and> mw_status m \<in> {''scheduled'', ''active''}
    \<and> parse_user_id T (uc_sub claims) = Ok user \<and> tl_uuid_parse T (uc_org_id claims) = Some org
    \<and> (org = mw_org_id m \<or> mw_allow_external_participants m)
    \<and> gc_assign_meeting_with_mh (ga_f64 A) (ga_client A) (je_assign e) (mw_meeting_id m) (ga_region A) (ga_gc_id A)
        (gw_db g) (gw_mcs g) = (Ok a, calls, gw_db g', gw_mcs g')
    \<and> ga_http A (ga_ac_internal_url A @ ''/api/v1/auth/internal/meeting-token'') (''Bearer '' @ je_token e)
        (AcMeetingRequest \<lparr>mr_subject_user_id = user, mr_meeting_id = mw_meeting_id m, mr_meeting_org_id = mw_org_id m,
           mr_home_org_id = org, mr_participant_type = (if org = mw_org_id m then ReqMember else ReqExternal),
           mr_role = (if mw_created_by_user_id m = user then ReqHost else ReqParticipant),
           mr_capabilities = DEFAULT_PARTICIPANT_CAPABILITIES, mr_ttl_seconds = DEFAULT_TOKEN_TTL_SECONDS\<rparr>) (gw_ac g)
        = (AcReply status text (Ok t), gw_ac g')
    \<and> resp = join_response t m a \<and> gw_meet g' = gw_meet g"
proof -
  obtain m user org where m: "find_meeting_by_code (je_find e) code (gw_meet g) = (Ok m, gw_meet g)"
      and j: "joinable m" "parse_user_id T (uc_sub claims) = Ok user" "tl_uuid_parse T (uc_org_id claims) = Some org"
        "org = mw_org_id m \<or> mw_allow_external_participants m"
      and p: "place_and_request A e m (request_meeting_token (ga_http A) (ga_ac_internal_url A) (je_token e)
         (join_token_request m user org)) g = (Ok resp, l, g')"
    using assms find_by_code_keeps [of "je_find e" code "gw_meet g"]
    by (auto simp: join_meeting_def Let_def split: prod.splits sum.splits if_splits option.splits)
  from place_and_request_ok [OF p] obtain a t calls where
    a: "gc_assign_meeting_with_mh (ga_f64 A) (ga_client A) (je_assign e) (mw_meeting_id m) (ga_region A) (ga_gc_id A)
        (gw_db g) (gw_mcs g) = (Ok a, calls, gw_db g', gw_mcs g')" and
    t: "request_meeting_token (ga_http A) (ga_ac_internal_url A) (je_token e) (join_token_request m user org) (gw_ac g) = (Ok t, gw_ac g')"
    and r: "resp = join_response t m a" "gw_meet g' = gw_meet g" by auto
  from ac_request_ok [OF t [unfolded request_meeting_token_def]] find_by_code_ok [OF m] j a r
  show ?thesis by (auto simp: joinable_iff join_token_request_def)
qed

text \<open>
  A guest gets in only if the meeting has the code given, is scheduled or active and admits guests; the
  token requested is a guest token with the trimmed name, of two to a hundred bytes, and it sends the guest
  to the waiting room exactly when the meeting has one.
\<close>

theorem guest_token_authorized:
  assumes "get_guest_token T A e code r g = (Ok resp, l, g')"
  shows "\<exists>m guest a status text t. m \<in> set (md_meetings (gw_meet g)) \<and> mw_meeting_code m = code
    \<and> mw_status m \<in> {''scheduled'', ''active''} \<and> mw_allow_guests m
    \<and> 2 \<le> length (trim_text (gj_display_name r)) \<and> length (trim_text (gj_display_name r)) \<le> 100 \<and> gj_captcha_token r \<noteq> []
    \<and> ga_http A (ga_ac_internal_url A @ ''/api/v1/auth/internal/guest-token'') (''Bearer '' @ je_token e)
        (AcGuestRequest \<lparr>gr_guest_id = guest, gr_display_name = trim_text (gj_display_name r),
           gr_meeting_id = mw_meeting_id m, gr_meeting_org_id = mw_org_id m, gr_waiting_room = mw_waiting_room_enabled m,
           gr_ttl_seconds = DEFAULT_TOKEN_TTL_SECONDS\<rparr>) (gw_ac g) = (AcReply status text (Ok t), gw_ac g')
    \<and> resp = join_response t m a \<and> gw_meet g' = gw_meet g"
proof -
  obtain m guest where m: "find_meeting_by_code (je_find e) code (gw_meet g) = (Ok m, gw_meet g)"
      and j: "joinable m" "mw_allow_guests m" "validate_guest r = Ok ()"
      and p: "place_and_request A e m (request_guest_token (ga_http A) (ga_ac_internal_url A) (je_token e)
         \<lparr>gr_guest_id = guest, gr_display_name = trim_text (gj_display_name r), gr_meeting_id = mw_meeting_id m,
          gr_meeting_org_id = mw_org_id m, gr_waiting_room = mw_waiting_room_enabled m,
          gr_ttl_seconds = DEFAULT_TOKEN_TTL_SECONDS\<rparr>) g = (Ok resp, l, g')"
    using assms find_by_code_keeps [of "je_find e" code "gw_meet g"]
    by (auto simp: get_guest_token_def Let_def split: prod.splits sum.splits if_splits)
  have v: "2 \<le> length (trim_text (gj_display_name r))" "length (trim_text (gj_display_name r)) \<le> 100" "gj_captcha_token r \<noteq> []"
    using j(3) by (auto simp: validate_guest_def Let_def MIN_GUEST_DISPLAY_NAME_LENGTH_def MAX_GUEST_DISPLAY_NAME_LENGTH_def
        split: if_splits)
  from place_and_request_ok [OF p] obtain a t where
    t: "request_guest_token (ga_http A) (ga_ac_internal_url A) (je_token e)
         \<lparr>gr_guest_id = guest, gr_display_name = trim_text (gj_display_name r), gr_meeting_id = mw_meeting_id m,
          gr_meeting_org_id = mw_org_id m, gr_waiting_room = mw_waiting_room_enabled m,
          gr_ttl_seconds = DEFAULT_TOKEN_TTL_SECONDS\<rparr> (gw_ac g) = (Ok t, gw_ac g')"
    and r: "resp = join_response t m a" "gw_meet g' = gw_meet g" by auto
  from ac_request_ok [OF t [unfolded request_guest_token_def]] obtain status msg where
    "ga_http A (ga_ac_internal_url A @ ''/api/v1/auth/internal/guest-token'') (''Bearer '' @ je_token e)
        (AcGuestRequest \<lparr>gr_guest_id = guest, gr_display_name = trim_text (gj_display_name r),
           gr_meeting_id = mw_meeting_id m, gr_meeting_org_id = mw_org_id m, gr_waiting_room = mw_waiting_room_enabled m,
           gr_ttl_seconds = DEFAULT_TOKEN_TTL_SECONDS\<rparr>) (gw_ac g) = (AcReply status msg (Ok t), gw_ac g')" by blast
  then show ?thesis using find_by_code_ok [OF m] j(1,2) v r
    by (intro exI [of _ m] exI [of _ guest] exI [of _ a] exI [of _ status] exI [of _ msg] exI [of _ t])
       (simp add: joinable_iff)
qed

text \<open>The Auth Controller of the examples issues the token \<open>t\<close>, and a Meeting Controller already has the meeting.\<close>

definition demo_http :: "unit ac_http" where
  "demo_http url auth body a = (AcReply 200 ''200 OK'' (Ok \<lparr>it_token = ''t'', it_expires_in = 900\<rparr>), a)"

definition demo_app :: "(int, unit, unit) gc_app" where
  "demo_app = \<lparr>ga_f64 = \<lparr>f_zero = 0, f_one = 1, f_cap = 1, f_of_int = id, f_add = (+), f_sub = (-), f_mul = (*), f_div = (div),
     f_min = min, f_le = (\<le>)\<rparr>, ga_client = (\<lambda>_ _ _ _ w. (Ok Accepted, w)), ga_http = demo_http, ga_region = ''eu'',
     ga_gc_id = ''gc'', ga_ac_internal_url = ''ac''\<rparr>"

definition demo_gc_db :: gc_db where
  "demo_gc_db = \<lparr>db_mcs = [\<lparr>mr_controller_id = ''mc'', mr_region = ''eu'', mr_grpc_endpoint = ''g'', mr_webtransport_endpoint = None,
       mr_max_meetings = 5, mr_current_meetings = 1, mr_max_participants = 9, mr_current_participants = 0,
       mr_health_status = ''healthy'', mr_last_heartbeat_at = 100\<rparr>],
     db_mhs = [\<lparr>hr_handler_id = ''mh'', hr_region = ''eu'', hr_webtransport_endpoint = ''w'', hr_grpc_endpoint = ''h'',
       hr_max_streams = 5, hr_current_streams = 0, hr_health_status = ''healthy'', hr_last_heartbeat_at = 100\<rparr>],
     db_assignments = [\<lparr>ar_meeting_id = ''m'', ar_controller_id = ''mc'', ar_region = ''eu'', ar_assigned_at = 50,
       ar_assigned_by_gc_id = ''gc'', ar_ended_at = None\<rparr>]\<rparr>"

definition demo_world :: "(unit, unit) gc_world" where
  "demo_world = \<lparr>gw_meet = demo_tables [demo_row ''m'' ''o'' ''c''], gw_db = demo_gc_db, gw_mcs = (), gw_ac = ()\<rparr>"

definition demo_join_env :: join_env where
  "demo_join_env = \<lparr>je_find = DbOk, je_assign = \<lparr>ae_lookup = DbOk, ae_now = 101, ae_select = DbOk, ae_select_now = 101,
     ae_rng1 = None, ae_rng2 = None, ae_between = id, ae_attempt = undefined\<rparr>, je_http_client = Ok (), je_token = ''s'',
     je_rng = Ok (replicate 16 0)\<rparr>"

lemma demo_assigned:
  "\<exists>a. gc_assign_meeting_with_mh (ga_f64 demo_app) (ga_client demo_app) (je_assign demo_join_env) ''m'' (ga_region demo_app)
     (ga_gc_id demo_app) demo_gc_db () = (Ok a, [], demo_gc_db, ())"
  by (simp add: gc_assign_meeting_with_mh_def demo_join_env_def demo_app_def demo_gc_db_def get_healthy_assignment_def
      join_assignment_def join_rows_def fetch_optional_def controller_live_def within_def from_secs_def
      DEFAULT_HEARTBEAT_STALENESS_SECONDS_def select_mhs_for_meeting_def get_candidate_mhs_def mh_eligible_def sort_by_def
      LOAD_BALANCING_CANDIDATE_COUNT_def select_mh_def weighted_random_select_def get_at_def)

lemma demo_place:
  assumes "\<exists>t. req () = (Ok t, ())"
  shows "\<exists>resp. fst (place_and_request demo_app demo_join_env (demo_row ''m'' ''o'' ''c'') req
     (demo_world\<lparr>gw_meet := demo_tables [demo_row ''m'' ''o'' ''c'']\<rparr>)) = Ok resp"
proof -
  have m: "mw_meeting_id (demo_row ''m'' ''o'' ''c'') = ''m''" by (simp add: demo_row_def)
  from demo_assigned assms show ?thesis
    by (auto simp: place_and_request_def Let_def m demo_world_def create_ac_client_def) (simp_all add: demo_join_env_def)
qed

lemma demo_find: "find_meeting_by_code DbOk ''c'' (demo_tables [demo_row ''m'' ''o'' ''c''])
    = (Ok (demo_row ''m'' ''o'' ''c''), demo_tables [demo_row ''m'' ''o'' ''c''])"
  by (simp add: find_meeting_by_code_def fetch_optional_def demo_tables_def demo_row_def)

lemma demo_row_open: "joinable (demo_row mid org code)" "mw_allow_guests (demo_row mid org code)" "mw_org_id (demo_row mid org code) = org"
  by (simp_all add: joinable_def demo_row_def)

lemma demo_request: "\<exists>t. ac_request (ga_http demo_app) url token body () = (Ok t, ())"
  by (simp add: ac_request_def demo_app_def demo_http_def handle_response_def)

theorem join_meeting_authorized_witness:
  "\<exists>resp l g'. join_meeting demo_text demo_app demo_join_env demo_user_claims ''c'' demo_world = (Ok resp, l, g')
     \<and> jr_meeting_id resp = ''m''"
proof -
  have w: "gw_meet demo_world = demo_tables [demo_row ''m'' ''o'' ''c'']" "je_find demo_join_env = DbOk"
    by (simp_all add: demo_world_def demo_join_env_def)
  have "parse_user_id demo_text ''u'' = Ok ''u''" by code_simp
  then have "\<exists>resp. fst (join_meeting demo_text demo_app demo_join_env demo_user_claims ''c'' demo_world) = Ok resp"
    unfolding join_meeting_def w demo_find
    by (simp add: demo_row_open demo_user_claims_def) (simp add: demo_text_def demo_row_open demo_place demo_request request_meeting_token_def)
  then obtain resp l g' where run:
    "join_meeting demo_text demo_app demo_join_env demo_user_claims ''c'' demo_world = (Ok resp, l, g')"
    by (metis prod.collapse)
  from join_meeting_authorized [OF run] have "jr_meeting_id resp = ''m''"
    by (auto simp: w join_response_def demo_tables_def demo_row_def)
  with run show ?thesis by blast
qed

theorem guest_token_authorized_witness:
  "\<exists>resp l g'. get_guest_token demo_text demo_app demo_join_env ''c'' \<lparr>gj_display_name = '' Guest '', gj_captcha_token = ''x''\<rparr>
       demo_world = (Ok resp, l, g') \<and> gw_meet g' = gw_meet demo_world"
proof -
  let ?r = "\<lparr>gj_display_name = '' Guest '', gj_captcha_token = ''x''\<rparr>"
  have w: "gw_meet demo_world = demo_tables [demo_row ''m'' ''o'' ''c'']" "je_find demo_join_env = DbOk"
    by (simp_all add: demo_world_def demo_join_env_def)
  have v: "validate_guest ?r = Ok ()" by code_simp
  have "generate_guest_id demo_text (je_rng demo_join_env) = Ok ''g''"
    by (simp add: generate_guest_id_def demo_text_def demo_join_env_def)
  then have "\<exists>resp. fst (get_guest_token demo_text demo_app demo_join_env ''c'' ?r demo_world) = Ok resp"
    unfolding get_guest_token_def w demo_find v
    by (simp add: demo_row_open demo_place demo_request request_guest_token_def)
  then obtain resp l g' where run: "get_guest_token demo_text demo_app demo_join_env ''c'' ?r demo_world = (Ok resp, l, g')"
    by (metis prod.collapse)
  from guest_token_authorized [OF run] have "gw_meet g' = gw_meet demo_world" by blast
  with run show ?thesis by blast
qed

text \<open>
  Nothing asks for the setting that authentication is required: whatever it is in the meetings' rows, a guest
  gets the same answer.
\<close>

lemma find_by_code_map:
  assumes "\<And>m. mw_meeting_code (h m) = mw_meeting_code m"
  shows "fst (find_meeting_by_code fault code (db\<lparr>md_meetings := map h (md_meetings db)\<rparr>))
    = map_sum id h (fst (find_meeting_by_code fault code db))"
proof -
  have "filter (\<lambda>m. mw_meeting_code m = code) (map h ms) = map h (filter (\<lambda>m. mw_meeting_code m = code) ms)" for ms
    by (simp add: filter_map comp_def assms)
  then show ?thesis
    by (cases fault) (auto simp: find_meeting_by_code_def fetch_optional_def split: list.split)
qed

lemma guest_ignores_require_auth:
  "fst (get_guest_token T A e code r (g\<lparr>gw_meet := (gw_meet g)\<lparr>md_meetings :=
       map (\<lambda>m. m\<lparr>mw_require_auth := b\<rparr>) (md_meetings (gw_meet g))\<rparr>\<rparr>)) = fst (get_guest_token T A e code r g)"
proof -
  let ?h = "\<lambda>m. m\<lparr>mw_require_auth := b\<rparr>"
  let ?md = "(gw_meet g)\<lparr>md_meetings := map ?h (md_meetings (gw_meet g))\<rparr>"
  have place: "fst (place_and_request A e (?h m) req (g\<lparr>gw_meet := x\<rparr>)) = fst (place_and_request A e m req g)" for m req x
    by (auto simp: place_and_request_def Let_def join_response_def split: prod.splits sum.splits)
  have f: "fst (find_meeting_by_code (je_find e) code ?md) = map_sum id ?h (fst (find_meeting_by_code (je_find e) code (gw_meet g)))"
    by (rule find_by_code_map) simp
  show ?thesis
    using f find_by_code_keeps [of "je_find e" code "gw_meet g"] find_by_code_keeps [of "je_find e" code ?md]
    by (cases "find_meeting_by_code (je_find e) code (gw_meet g)"; cases "find_meeting_by_code (je_find e) code ?md")
       (auto simp: get_guest_token_def Let_def joinable_def place split: sum.splits)
qed

text \<open>
  A code is unique within an organisation only, and a join looks it up without one: of two meetings with
  the same code the second cannot be joined.
\<close>

lemma shared_code_shadows:
  assumes "md_meetings db = ms @ [m1] @ ms' @ [m2] @ ms''" and "mw_meeting_code m1 = code" "mw_meeting_code m2 = code"
    and "code \<notin> mw_meeting_code ` set ms"
  shows "find_meeting_by_code DbOk code db = (Ok m1, db)"
proof -
  have "filter (\<lambda>m. mw_meeting_code m = code) ms = []" using assms(4) by (auto simp: filter_empty_conv)
  then show ?thesis by (simp add: find_meeting_by_code_def fetch_optional_def assms(1,2))
qed

section \<open>Settings, and what is measured\<close>

lemma find_by_id_ok:
  "find_meeting_by_id fault meeting db = (Ok m, db') \<Longrightarrow> m \<in> set (md_meetings db) \<and> mw_meeting_id m = meeting \<and> db' = db"
  by (cases fault) (auto simp: find_meeting_by_id_def fetch_optional_def split: option.splits list.splits dest: filter_eq_ConsD)

lemma find_by_id_keeps: "snd (find_meeting_by_id fault meeting db) = db"
  by (cases fault) (auto simp: find_meeting_by_id_def split: option.split)

lemma update_in_db_meetings:
  "md_meetings (snd (update_meeting_settings_in_db fault now meeting r db)) \<in>
     {md_meetings db, map (\<lambda>m. if mw_meeting_id m = meeting then apply_settings now r m else m) (md_meetings db)}"
  by (cases fault) (auto simp: update_meeting_settings_in_db_def update_settings_stmt_def split: option.split)

text \<open>
  C38. Only its creator changes a meeting's settings: after a request the rows are what they were, or the
  caller created a meeting with the identifier given and exactly its three settings that the request names, and its
  time of change, are replaced; identity, owner, code, secret, limits and status never change.
\<close>

theorem settings_changed_only_by_host:
  assumes "update_meeting_settings T e claims meeting r db = (res, db')" and "se_between e = id"
  shows "md_meetings db' = md_meetings db
    \<or> (\<exists>m user. m \<in> set (md_meetings db) \<and> mw_meeting_id m = meeting \<and> parse_user_id T (uc_sub claims) = Ok user
        \<and> mw_created_by_user_id m = user
        \<and> md_meetings db' = map (\<lambda>m. if mw_meeting_id m = meeting
             then m\<lparr>mw_allow_guests := coalesce (us_allow_guests r) (mw_allow_guests m),
                    mw_allow_external_participants := coalesce (us_allow_external_participants r) (mw_allow_external_participants m),
                    mw_waiting_room_enabled := coalesce (us_waiting_room_enabled r) (mw_waiting_room_enabled m),
                    mw_updated_at := se_now e\<rparr>
             else m) (md_meetings db))"
proof (cases "fst (find_meeting_by_id (se_find e) meeting db)")
  case (Inl err)
  then show ?thesis using assms find_by_id_keeps [of "se_find e" meeting db]
    by (auto simp: update_meeting_settings_def split: prod.splits if_splits)
next
  case (Inr m)
  then have f: "find_meeting_by_id (se_find e) meeting db = (Ok m, db)"
    by (metis find_by_id_keeps prod.collapse)
  have "md_meetings db' = md_meetings db \<or> (parse_user_id T (uc_sub claims) = Ok (mw_created_by_user_id m)
      \<and> db' = snd (update_meeting_settings_in_db (se_update e) (se_now e) meeting r db))"
    using assms by (auto simp: update_meeting_settings_def f split: prod.splits if_splits sum.splits)
  then show ?thesis using find_by_id_ok [OF f] update_in_db_meetings [of "se_update e" "se_now e" meeting r db]
    by (auto simp: apply_settings_def cong: map_cong if_cong)
qed

theorem settings_changed_only_by_host_witness:
  "md_meetings (snd (update_meeting_settings demo_text \<lparr>se_find = DbOk, se_between = id, se_update = DbOk, se_now = 7\<rparr>
     demo_user_claims ''m'' \<lparr>us_allow_guests = Some False, us_allow_external_participants = None, us_waiting_room_enabled = None\<rparr>
     (demo_tables [demo_row ''m'' ''o'' ''c'']))) = [(demo_row ''m'' ''o'' ''c'')\<lparr>mw_allow_guests := False, mw_updated_at := 7\<rparr>]"
proof -
  let ?e = "\<lparr>se_find = DbOk, se_between = id, se_update = DbOk, se_now = 7\<rparr>"
  let ?r = "\<lparr>us_allow_guests = Some False, us_allow_external_participants = None, us_waiting_room_enabled = None\<rparr>"
  let ?db = "demo_tables [demo_row ''m'' ''o'' ''c'']"
  obtain res db' where run: "update_meeting_settings demo_text ?e demo_user_claims ''m'' ?r ?db = (res, db')" by fastforce
  have p: "parse_user_id demo_text ''u'' = Ok ''u''" by code_simp
  have "md_meetings db' \<noteq> md_meetings ?db"
    using run p by (auto simp: update_meeting_settings_def has_changes_def find_meeting_by_id_def fetch_optional_def demo_tables_def
        demo_row_def demo_user_claims_def update_meeting_settings_in_db_def update_settings_stmt_def apply_settings_def coalesce_def)
  with settings_changed_only_by_host [OF run] have "md_meetings db' = [(demo_row ''m'' ''o'' ''c'')\<lparr>mw_allow_guests := False, mw_updated_at := 7\<rparr>]"
    by (auto simp: demo_tables_def demo_row_def coalesce_def)
  then show ?thesis unfolding run by simp
qed

text \<open>Every handler records success exactly when it succeeds.\<close>

lemma create_loop_labels: "create_loop ins env is db = (res, l, db') \<Longrightarrow> fst l = ''success'' \<longleftrightarrow> \<not> isl res"
  by (induction ins env "is" db rule: create_loop.induct)
     (auto split: sum.splits prod.splits option.splits GcError.splits if_splits)

lemma create_meeting_labels: "gc_create_meeting T e claims body db = (res, l, db') \<Longrightarrow> fst l = ''success'' \<longleftrightarrow> \<not> isl res"
  by (auto simp: gc_create_meeting_def create_checked_def Let_def split: option.splits if_splits sum.splits prod.splits
      dest: create_loop_labels)

lemma place_and_request_labels: "place_and_request A e m req g = (res, l, g') \<Longrightarrow> fst l = ''success'' \<longleftrightarrow> \<not> isl res"
  by (auto simp: place_and_request_def Let_def split: sum.splits prod.splits)

lemma join_meeting_labels: "join_meeting T A e claims code g = (res, l, g') \<Longrightarrow> fst l = ''success'' \<longleftrightarrow> \<not> isl res"
  by (auto simp: join_meeting_def Let_def split: sum.splits prod.splits if_splits option.splits dest: place_and_request_labels)

lemma guest_token_labels: "get_guest_token T A e code r g = (res, l, g') \<Longrightarrow> fst l = ''success'' \<longleftrightarrow> \<not> isl res"
  by (auto simp: get_guest_token_def Let_def split: sum.splits prod.splits if_splits dest: place_and_request_labels)

text \<open>A lookup that fails in the database is measured as a meeting that is not there.\<close>

lemma database_failure_measured_as_not_found:
  "je_find e = DbFailBefore msg \<Longrightarrow>
     join_meeting T A e claims code g = (Err (GcDatabase msg), failed ''not_found'', g\<lparr>gw_meet := gw_meet g\<rparr>)"
  by (simp add: join_meeting_def find_meeting_by_code_def)

section \<open>Participants\<close>

text \<open>No user is active twice in a meeting, whatever is added and removed.\<close>

definition one_active :: "meet_db \<Rightarrow> bool" where
  "one_active db \<longleftrightarrow> (\<forall>meeting user. length (filter (\<lambda>p. active_participant meeting p \<and> pt_user_id p = Some user)
     (md_participants db)) \<le> 1)"

lemma add_participant_one_active: "one_active db \<Longrightarrow> one_active (snd (add_participant_stmt now nid meeting user name pt role db))"
proof -
  assume a: "one_active db"
  let ?hit = "\<lambda>m u p. active_participant m p \<and> pt_user_id p = Some u"
  let ?row = "\<lparr>pt_participant_id = nid, pt_meeting_id = meeting, pt_user_id = user, pt_display_name = name,
     pt_participant_type = pt, pt_role = role, pt_joined_at = now, pt_left_at = None\<rparr>"
  show ?thesis
  proof (cases "\<exists>p \<in> set (md_participants db). pt_participant_id p = nid \<or> active_participant meeting p \<and> user \<noteq> None \<and> pt_user_id p = user")
    case True
    then show ?thesis using a by (simp add: add_participant_stmt_def Let_def)
  next
    case False
    have "filter (?hit m u) (md_participants db) = []" if "?hit m u ?row" for m u
      using False that by (auto simp: filter_empty_conv active_participant_def)
    then have "length (filter (?hit m u) (md_participants db @ [?row])) \<le> 1" for m u
      using a by (cases "?hit m u ?row") (auto simp: one_active_def)
    then show ?thesis using a by (simp add: one_active_def add_participant_stmt_def Let_def)
  qed
qed

lemma remove_participant_effect:
  assumes "remove_participant_stmt now meeting user db = (Ok b, db')"
  shows "b \<longleftrightarrow> (\<exists>p \<in> set (md_participants db). active_participant meeting p \<and> pt_user_id p = Some user)"
    and "p \<in> set (md_participants db') \<Longrightarrow> \<not> (active_participant meeting p \<and> pt_user_id p = Some user)"
proof -
  have db': "md_participants db' = map (\<lambda>p. if active_participant meeting p \<and> pt_user_id p = Some user
      then p\<lparr>pt_left_at := Some now\<rparr> else p) (md_participants db)"
    using arg_cong [where f = "\<lambda>x. md_participants (snd x)", OF assms] by (simp add: remove_participant_stmt_def Let_def)
  show "b \<longleftrightarrow> (\<exists>p \<in> set (md_participants db). active_participant meeting p \<and> pt_user_id p = Some user)"
    using arg_cong [where f = fst, OF assms] by (auto simp: remove_participant_stmt_def Let_def filter_empty_conv)
  show "\<not> (active_participant meeting p \<and> pt_user_id p = Some user)" if "p \<in> set (md_participants db')"
  proof -
    from that obtain q where q: "p = (if active_participant meeting q \<and> pt_user_id q = Some user then q\<lparr>pt_left_at := Some now\<rparr> else q)"
      unfolding db' set_map by blast
    show ?thesis unfolding q by (simp add: active_participant_def)
  qed
qed

end
