(* ===== verification/AC_Accounts.thy ===== *)
theory AC_Accounts
  imports AC_Tokens
begin

text \<open>
  The accounts of the Auth Controller: the endpoint for service tokens and the credentials it reads
  (crates/ac-service/src/handlers/auth_handler.rs), registration of services and users
  (services/registration_service.rs, user_service.rs), the management of clients
  (handlers/admin_handler.rs) and the organization of a request (middleware/org_extraction.rs).
\<close>

section \<open>The service token endpoint\<close>

fun utf8_ok :: "nat list \<Rightarrow> bool" where
  "utf8_ok [] = True"
| "utf8_ok (a # bs) =
     (let cont = (\<lambda>b. 0x80 \<le> b \<and> b \<le> 0xBF)
      in if a < 0x80 then utf8_ok bs
         else case bs of
                [] \<Rightarrow> False
              | b # bs1 \<Rightarrow>
                  if 0xC2 \<le> a \<and> a \<le> 0xDF then cont b \<and> utf8_ok bs1
                  else case bs1 of
                         [] \<Rightarrow> False
                       | c # bs2 \<Rightarrow>
                           if 0xE0 \<le> a \<and> a \<le> 0xEF
                           then cont b \<and> (a = 0xE0 \<longrightarrow> 0xA0 \<le> b) \<and> (a = 0xED \<longrightarrow> b \<le> 0x9F) \<and> cont c \<and> utf8_ok bs2
                           else case bs2 of
                                  [] \<Rightarrow> False
                                | d # bs3 \<Rightarrow>
                                    0xF0 \<le> a \<and> a \<le> 0xF4 \<and> cont b \<and> (a = 0xF0 \<longrightarrow> 0x90 \<le> b) \<and> (a = 0xF4 \<longrightarrow> b \<le> 0x8F)
                                    \<and> cont c \<and> cont d \<and> utf8_ok bs3)"

definition from_utf8 :: "u8 list \<Rightarrow> string option" where
  "from_utf8 bytes = (if utf8_ok (map unat bytes) then Some (map (char_of \<circ> unat) bytes) else None)"

text \<open>\<open>splitn(2, c)\<close>.\<close>

definition splitn2 :: "char \<Rightarrow> string \<Rightarrow> string list" where
  "splitn2 c s =
     (case dropWhile (\<lambda>x. x \<noteq> c) s of [] \<Rightarrow> [s] | _ # rest \<Rightarrow> [takeWhile (\<lambda>x. x \<noteq> c) s, rest])"

record ServiceTokenRequest =
  sr_grant_type :: string
  sr_client_id :: "string option"
  sr_client_secret :: "string option"
  sr_scope :: "string option"

text \<open>The header is absent, or not text (\<open>Some None\<close>), or text.\<close>

definition extract_client_credentials ::
  "jwt_lib \<Rightarrow> string option option \<Rightarrow> ServiceTokenRequest \<Rightarrow> (string \<times> string, AcError) result" where
  "extract_client_credentials K header payload =
     (let body =
        (case (sr_client_id payload, sr_client_secret payload) of
           (Some client_id, Some secret) \<Rightarrow> Ok (client_id, secret)
         | _ \<Rightarrow> Err InvalidCredentials)
      in case header of
           None \<Rightarrow> body
         | Some None \<Rightarrow> Err InvalidCredentials
         | Some (Some auth_str) \<Rightarrow>
             (case strip_prefix ''Basic '' auth_str of
                None \<Rightarrow> body
              | Some basic_auth \<Rightarrow>
                  (case Option.bind (jl_b64_decode K basic_auth) from_utf8 of
                     None \<Rightarrow> Err InvalidCredentials
                   | Some credentials \<Rightarrow>
                       (case splitn2 (CHR '':'') credentials of
                          [username, password] \<Rightarrow> Ok (username, password)
                        | _ \<Rightarrow> Err InvalidCredentials))))"

definition handle_service_token ::
  "jwt_lib \<Rightarrow> crypto_lib \<Rightarrow> issue_env \<Rightarrow> u8 list \<Rightarrow> string option option \<Rightarrow> string \<Rightarrow> ServiceTokenRequest \<Rightarrow> nat \<Rightarrow> nat
     \<Rightarrow> ac_db \<Rightarrow> (TokenResponse, AcError) result \<times> ac_db"
where
  "handle_service_token K L e master_key header ip payload window max_attempts db =
     (if sr_grant_type payload \<noteq> ''client_credentials'' then (Err InvalidCredentials, db)
      else case extract_client_credentials K header payload of
             Inl err \<Rightarrow> (Err err, db)
           | Inr (client_id, client_secret) \<Rightarrow>
               issue_service_token K L e master_key client_id client_secret (sr_grant_type payload)
                 (map_option split_whitespace (sr_scope payload)) (Some ip) window max_attempts db)"

section \<open>Services\<close>

datatype ServiceType = GlobalController | MeetingController | MediaHandler

primrec service_type_str :: "ServiceType \<Rightarrow> string" where
  "service_type_str GlobalController = ''global-controller''"
| "service_type_str MeetingController = ''meeting-controller''"
| "service_type_str MediaHandler = ''media-handler''"

definition service_type_from_str :: "string \<Rightarrow> (ServiceType, string) result" where
  "service_type_from_str s =
     (if s = ''global-controller'' then Ok GlobalController
      else if s = ''meeting-controller'' then Ok MeetingController
      else if s = ''media-handler'' then Ok MediaHandler
      else Err (''Invalid service type: '' @ s))"

primrec default_scopes :: "ServiceType \<Rightarrow> string list" where
  "default_scopes GlobalController = [''service.write.mc'', ''internal:meeting-token'']"
| "default_scopes MeetingController = [''service.write.mh'', ''service.write.gc'']"
| "default_scopes MediaHandler = [''service.write.mc'', ''service.write.gc'']"

record RegisterServiceResponse =
  rs_client_id :: string
  rs_client_secret :: string
  rs_service_type :: string
  rs_scopes :: "string list"

text \<open>What a change to a credential meets: draws, fates of its statements in their order, the time.\<close>

record account_env =
  ac_others :: "nat \<Rightarrow> ac_db \<Rightarrow> ac_db"
  ac_inet_ok :: "string \<Rightarrow> bool"
  ac_client_id :: string
  ac_new_id :: string
  ac_secret_bytes :: draw
  ac_salt :: "u8 list"
  ac_db_now :: instant
  ac_fetch_fault :: db_fault
  ac_write_fault :: db_fault
  ac_log_fault :: db_fault
  ac_refetch_fault :: db_fault

definition log_account_event :: "account_env \<Rightarrow> AuthEventType \<Rightarrow> string \<Rightarrow> ac_db \<Rightarrow> ac_db" where
  "log_account_event e ty cred db =
     snd (log_event (ac_inet_ok e) (ac_log_fault e) (ac_db_now e) (event_str ty) None (Some cred) True None None db)"

definition register_service ::
  "jwt_lib \<Rightarrow> crypto_lib \<Rightarrow> account_env \<Rightarrow> string \<Rightarrow> string option \<Rightarrow> nat \<Rightarrow> ac_db
     \<Rightarrow> (RegisterServiceResponse, AcError) result \<times> ac_db"
where
  "register_service K L e service_type region bcrypt_cost db =
     (case service_type_from_str service_type of
        Inl msg \<Rightarrow> (Err (AcDatabase (''Invalid service_type: '' @ quoted service_type @ ''. '' @ msg)), db)
      | Inr svc_type \<Rightarrow>
          (case generate_client_secret K (ac_secret_bytes e) of
             Inl err \<Rightarrow> (Err err, db)
           | Inr client_secret \<Rightarrow>
               (case hash_client_secret L (ac_salt e) client_secret bcrypt_cost of
                  Inl err \<Rightarrow> (Err err, db)
                | Inr client_secret_hash \<Rightarrow>
                    (let scope_list = default_scopes svc_type
                     in case create_service_credential (ac_write_fault e) (ac_db_now e) (ac_new_id e) (ac_client_id e)
                               client_secret_hash service_type region scope_list (ac_others e 0 db) of
                          (Inl err, db) \<Rightarrow> (Err err, db)
                        | (Inr credential, db) \<Rightarrow>
                            (Ok \<lparr>rs_client_id = ac_client_id e, rs_client_secret = client_secret,
                                 rs_service_type = service_type, rs_scopes = scope_list\<rparr>,
                             log_account_event e ServiceRegistered (cd_credential_id credential) (ac_others e 1 db))))))"

definition update_service_scopes ::
  "account_env \<Rightarrow> string \<Rightarrow> string list \<Rightarrow> ac_db \<Rightarrow> (unit, AcError) result \<times> ac_db" where
  "update_service_scopes e client_id new_scopes db =
     (case cred_by_client_id (ac_fetch_fault e) client_id db of
        (Inl err, db) \<Rightarrow> (Err err, db)
      | (Inr None, db) \<Rightarrow> (Err (AcDatabase ''Service credential not found''), db)
      | (Inr (Some credential), db) \<Rightarrow>
          (case update_scopes (ac_write_fault e) (ac_db_now e) (cd_credential_id credential) new_scopes (ac_others e 0 db) of
             (Inl err, db) \<Rightarrow> (Err err, db)
           | (Inr _, db) \<Rightarrow>
               (Ok (), log_account_event e ServiceTokenIssued (cd_credential_id credential) (ac_others e 1 db))))"

definition deactivate_service :: "account_env \<Rightarrow> string \<Rightarrow> ac_db \<Rightarrow> (unit, AcError) result \<times> ac_db" where
  "deactivate_service e client_id db =
     (case cred_by_client_id (ac_fetch_fault e) client_id db of
        (Inl err, db) \<Rightarrow> (Err err, db)
      | (Inr None, db) \<Rightarrow> (Err (AcDatabase ''Service credential not found''), db)
      | (Inr (Some credential), db) \<Rightarrow>
          (case deactivate_credential (ac_write_fault e) (ac_db_now e) (cd_credential_id credential) (ac_others e 0 db) of
             (Inl err, db) \<Rightarrow> (Err err, db)
           | (Inr _, db) \<Rightarrow>
               (Ok (), log_account_event e ServiceTokenFailed (cd_credential_id credential) (ac_others e 1 db))))"

section \<open>Clients\<close>

definition valid_types :: "string list" where
  "valid_types = [''global-controller'', ''meeting-controller'', ''media-handler'']"

definition bad_service_type :: "string \<Rightarrow> AcError" where
  "bad_service_type s =
     AcDatabase (''Invalid service_type: '' @ quoted s @ ''. Must be one of: '' @ join_with '', '' valid_types)"

definition handle_register_service ::
  "jwt_lib \<Rightarrow> crypto_lib \<Rightarrow> account_env \<Rightarrow> string \<Rightarrow> string option \<Rightarrow> nat \<Rightarrow> ac_db
     \<Rightarrow> (RegisterServiceResponse, AcError) result \<times> ac_db"
where
  "handle_register_service K L e service_type region bcrypt_cost db =
     (if service_type \<notin> set valid_types then (Err (bad_service_type service_type), db)
      else register_service K L e service_type region bcrypt_cost db)"

record ClientListItem =
  li_id :: string
  li_client_id :: string
  li_service_type :: string
  li_scopes :: "string list"
  li_is_active :: bool
  li_created_at :: instant

definition handle_list_clients :: "account_env \<Rightarrow> ac_db \<Rightarrow> (ClientListItem list, AcError) result \<times> ac_db" where
  "handle_list_clients e db =
     (case get_all_credentials (ac_fetch_fault e) db of
        (Inl err, db) \<Rightarrow> (Err err, db)
      | (Inr credentials, db) \<Rightarrow>
          (Ok (map (\<lambda>c. \<lparr>li_id = cd_credential_id c, li_client_id = cd_client_id c, li_service_type = cd_service_type c,
                        li_scopes = cd_scopes c, li_is_active = cd_is_active c, li_created_at = cd_created_at c\<rparr>) credentials), db))"

record ClientDetailResponse =
  dr_id :: string
  dr_client_id :: string
  dr_service_type :: string
  dr_region :: "string option"
  dr_scopes :: "string list"
  dr_is_active :: bool
  dr_created_at :: instant
  dr_updated_at :: instant

definition client_detail :: "ServiceCredential \<Rightarrow> ClientDetailResponse" where
  "client_detail c =
     \<lparr>dr_id = cd_credential_id c, dr_client_id = cd_client_id c, dr_service_type = cd_service_type c, dr_region = cd_region c,
      dr_scopes = cd_scopes c, dr_is_active = cd_is_active c, dr_created_at = cd_created_at c, dr_updated_at = cd_updated_at c\<rparr>"

definition client_not_found :: "string \<Rightarrow> AcError" where
  "client_not_found cred = AcNotFound (''Client with ID '' @ cred @ '' not found'')"

definition handle_get_client :: "account_env \<Rightarrow> string \<Rightarrow> ac_db \<Rightarrow> (ClientDetailResponse, AcError) result \<times> ac_db" where
  "handle_get_client e cred db =
     (case cred_by_id (ac_fetch_fault e) cred db of
        (Inl err, db) \<Rightarrow> (Err err, db)
      | (Inr None, db) \<Rightarrow> (Err (client_not_found cred), db)
      | (Inr (Some c), db) \<Rightarrow> (Ok (client_detail c), db))"

record CreateClientResponse =
  cc_id :: string
  cc_client_id :: string
  cc_client_secret :: string
  cc_service_type :: string
  cc_scopes :: "string list"

definition handle_create_client ::
  "jwt_lib \<Rightarrow> crypto_lib \<Rightarrow> account_env \<Rightarrow> string \<Rightarrow> string option \<Rightarrow> nat \<Rightarrow> ac_db
     \<Rightarrow> (CreateClientResponse, AcError) result \<times> ac_db"
where
  "handle_create_client K L e service_type region bcrypt_cost db =
     (if service_type \<notin> set valid_types then (Err (bad_service_type service_type), db)
      else case register_service K L e service_type region bcrypt_cost db of
             (Inl err, db) \<Rightarrow> (Err err, db)
           | (Inr registration, db) \<Rightarrow>
               (case cred_by_client_id (ac_refetch_fault e) (rs_client_id registration) (ac_others e 2 db) of
                  (Inl err, db) \<Rightarrow> (Err err, db)
                | (Inr None, db) \<Rightarrow> (Err (AcDatabase ''Failed to retrieve created credential''), db)
                | (Inr (Some credential), db) \<Rightarrow>
                    (Ok \<lparr>cc_id = cd_credential_id credential, cc_client_id = rs_client_id registration,
                         cc_client_secret = rs_client_secret registration, cc_service_type = rs_service_type registration,
                         cc_scopes = rs_scopes registration\<rparr>, db)))"

definition scope_char :: "char \<Rightarrow> bool" where
  "scope_char c \<longleftrightarrow>
     (let n = of_char c :: nat
      in 48 \<le> n \<and> n \<le> 57 \<or> 65 \<le> n \<and> n \<le> 90 \<or> 97 \<le> n \<and> n \<le> 122 \<or> c = CHR ''-'' \<or> c = CHR ''.'' \<or> c = CHR '':'')"

fun check_scopes :: "string list \<Rightarrow> (unit, AcError) result" where
  "check_scopes [] = Ok ()"
| "check_scopes (s # ss) =
     (if s = [] then Err (AcDatabase ''Scope cannot be empty'')
      else if length s > 100
      then Err (AcDatabase (''Scope '' @ quoted s @ '' exceeds maximum length of 100 characters''))
      else if \<not> list_all scope_char s
      then Err (AcDatabase (''Scope '' @ quoted s
             @ '' contains invalid characters. Only alphanumeric, hyphens, dots, and colons are allowed''))
      else check_scopes ss)"

definition handle_update_client ::
  "account_env \<Rightarrow> string \<Rightarrow> string list option \<Rightarrow> ac_db \<Rightarrow> (ClientDetailResponse, AcError) result \<times> ac_db" where
  "handle_update_client e cred new_scopes db =
     (case cred_by_id (ac_fetch_fault e) cred db of
        (Inl err, db) \<Rightarrow> (Err err, db)
      | (Inr None, db) \<Rightarrow> (Err (client_not_found cred), db)
      | (Inr (Some credential), db) \<Rightarrow>
          (case new_scopes of
             None \<Rightarrow> (Ok (client_detail credential), db)
           | Some ss \<Rightarrow>
               (case check_scopes ss of
                  Inl err \<Rightarrow> (Err err, db)
                | Inr _ \<Rightarrow>
                    (case update_metadata (ac_write_fault e) (ac_db_now e) cred ss (ac_others e 0 db) of
                       (Inl err, db) \<Rightarrow> (Err err, db)
                     | (Inr updated, db) \<Rightarrow> (Ok (client_detail updated), db)))))"

definition handle_delete_client :: "account_env \<Rightarrow> string \<Rightarrow> ac_db \<Rightarrow> (unit, AcError) result \<times> ac_db" where
  "handle_delete_client e cred db =
     (case cred_by_id (ac_fetch_fault e) cred db of
        (Inl err, db) \<Rightarrow> (Err err, db)
      | (Inr None, db) \<Rightarrow> (Err (client_not_found cred), db)
      | (Inr (Some _), db) \<Rightarrow> delete_credential (ac_write_fault e) cred (ac_others e 0 db))"

record RotateSecretResponse =
  sx_client_id :: string
  sx_client_secret :: string

definition handle_rotate_client_secret ::
  "jwt_lib \<Rightarrow> crypto_lib \<Rightarrow> account_env \<Rightarrow> string \<Rightarrow> nat \<Rightarrow> ac_db \<Rightarrow> (RotateSecretResponse, AcError) result \<times> ac_db" where
  "handle_rotate_client_secret K L e cred bcrypt_cost db =
     (case cred_by_id (ac_fetch_fault e) cred db of
        (Inl err, db) \<Rightarrow> (Err err, db)
      | (Inr None, db) \<Rightarrow> (Err (client_not_found cred), db)
      | (Inr (Some credential), db) \<Rightarrow>
          (case generate_client_secret K (ac_secret_bytes e) of
             Inl err \<Rightarrow> (Err err, db)
           | Inr secret \<Rightarrow>
               (case hash_client_secret L (ac_salt e) secret bcrypt_cost of
                  Inl err \<Rightarrow> (Err err, db)
                | Inr hash \<Rightarrow>
                    (case rotate_secret (ac_write_fault e) (ac_db_now e) cred hash (ac_others e 0 db) of
                       (Inl err, db) \<Rightarrow> (Err err, db)
                     | (Inr _, db) \<Rightarrow> (Ok \<lparr>sx_client_id = cd_client_id credential, sx_client_secret = secret\<rparr>, db)))))"

section \<open>Users\<close>

definition is_valid_email :: "string \<Rightarrow> bool" where
  "is_valid_email email =
     (case split_on (\<lambda>c. c = CHR ''@'') email of
        [local, domain] \<Rightarrow>
          local \<noteq> [] \<and> (let domain_parts = split_on (\<lambda>c. c = CHR ''.'') domain
                         in length domain_parts \<ge> 2 \<and> list_all (\<lambda>p. p \<noteq> []) domain_parts)
      | _ \<Rightarrow> False)"

record RegistrationRequest =
  rq_email :: string
  rq_password :: string
  rq_display_name :: string

record RegistrationResponse =
  rp_user_id :: string
  rp_email :: string
  rp_display_name :: string
  rp_access_token :: string
  rp_token_type :: string
  rp_expires_in :: nat

definition MIN_PASSWORD_LENGTH :: nat where
  "MIN_PASSWORD_LENGTH = 8"

definition login_from :: "instant \<Rightarrow> nat \<Rightarrow> string \<Rightarrow> AuthEvent \<Rightarrow> bool" where
  "login_from now minutes ip ev \<longleftrightarrow>
     ev_ip_address ev = Some ip \<and> ev_event_type ev = ''user_login'' \<and> ev_success ev \<and> since now minutes (ev_created_at ev)"

definition count_registrations_from_ip :: "db_fault \<Rightarrow> instant \<Rightarrow> nat \<Rightarrow> string \<Rightarrow> ac_db \<Rightarrow> nat" where
  "count_registrations_from_ip f now minutes ip db =
     (if f = DbOk then length (filter (login_from now minutes ip) (ad_events db)) else 0)"

record register_env =
  rv_others :: "nat \<Rightarrow> ac_db \<Rightarrow> ac_db"
  rv_user_id :: string
  rv_salt :: "u8 list"
  rv_window_now :: instant
  rv_db_now :: instant
  rv_count_fault :: db_fault
  rv_exists_fault :: db_fault
  rv_create_fault :: db_fault
  rv_role_fault :: db_fault
  rv_log_fault :: db_fault
  rv_issue :: issue_env

record register_config =
  rc_bcrypt_cost :: nat
  rc_registration_window :: nat
  rc_registration_max :: nat
  rc_window :: nat
  rc_max_attempts :: nat

text \<open>Steps 5 to 9: the account is made and the user logged in.\<close>

definition register_checked ::
  "jwt_lib \<Rightarrow> crypto_lib \<Rightarrow> register_env \<Rightarrow> register_config \<Rightarrow> u8 list \<Rightarrow> string \<Rightarrow> RegistrationRequest \<Rightarrow> string option
     \<Rightarrow> ac_db \<Rightarrow> (RegistrationResponse, AcError) result \<times> ac_db"
where
  "register_checked K L e cfg master_key org_id request ip db =
     (case hash_client_secret L (rv_salt e) (rq_password request) (rc_bcrypt_cost cfg) of
        Inl err \<Rightarrow> (Err err, db)
      | Inr password_hash \<Rightarrow>
          (case create_user (rv_create_fault e) (rv_user_id e) org_id (rq_email request) password_hash
                  (trim_text (rq_display_name request)) (rv_others e 2 db) of
             (Inl _, db) \<Rightarrow> (Err AcInternal, db)
           | (Inr user, db) \<Rightarrow>
               (case add_user_role (rv_role_fault e) (us_user_id user) ''user'' (rv_others e 3 db) of
                  (Inl _, db) \<Rightarrow> (Err AcInternal, db)
                | (Inr _, db) \<Rightarrow>
                    (let db = snd (log_event (ie_inet_ok (rv_issue e)) (rv_log_fault e) (rv_db_now e) ''user_login''
                                     (Some (us_user_id user)) None True None ip (rv_others e 4 db))
                     in case issue_user_token K L (rv_issue e) master_key org_id (rq_email request) (rq_password request) ip
                               (rc_window cfg) (rc_max_attempts cfg) db of
                          (Inl err, db) \<Rightarrow> (Err err, db)
                        | (Inr token, db) \<Rightarrow>
                            (Ok \<lparr>rp_user_id = us_user_id user, rp_email = us_email user, rp_display_name = us_display_name user,
                                 rp_access_token = ut_access_token token, rp_token_type = ut_token_type token,
                                 rp_expires_in = ut_expires_in token\<rparr>, db)))))"

definition register_user ::
  "jwt_lib \<Rightarrow> crypto_lib \<Rightarrow> register_env \<Rightarrow> register_config \<Rightarrow> u8 list \<Rightarrow> string \<Rightarrow> RegistrationRequest \<Rightarrow> string option
     \<Rightarrow> ac_db \<Rightarrow> (RegistrationResponse, AcError) result \<times> ac_db"
where
  "register_user K L e cfg master_key org_id request ip db =
     (let db = rv_others e 0 db
      in if (case ip of
               None \<Rightarrow> False
             | Some a \<Rightarrow> count_registrations_from_ip (rv_count_fault e) (rv_window_now e) (rc_registration_window cfg) a db
                            \<ge> rc_registration_max cfg)
         then (Err (TooManyRequests (int (rc_registration_window cfg) * 60)
                 ''Too many registration attempts. Please try again later.''), db)
         else if \<not> is_valid_email (rq_email request) then (Err (InvalidToken ''Invalid email format''), db)
         else if length (rq_password request) < MIN_PASSWORD_LENGTH
         then (Err (InvalidToken (''Password must be at least '' @ show_nat MIN_PASSWORD_LENGTH @ '' characters'')), db)
         else if trim_text (rq_display_name request) = [] then (Err (InvalidToken ''Display name cannot be empty''), db)
         else case email_exists_in_org (rv_exists_fault e) org_id (rq_email request) (rv_others e 1 db) of
                (Inl err, db) \<Rightarrow> (Err err, db)
              | (Inr True, db) \<Rightarrow> (Err (InvalidToken ''An account with this email already exists''), db)
              | (Inr False, db) \<Rightarrow> register_checked K L e cfg master_key org_id request ip db)"

section \<open>Organizations\<close>

definition subdomain_char :: "char \<Rightarrow> bool" where
  "subdomain_char c \<longleftrightarrow>
     (let n = of_char c :: nat in 97 \<le> n \<and> n \<le> 122 \<or> 48 \<le> n \<and> n \<le> 57 \<or> c = CHR ''-'')"

definition extract_subdomain :: "string \<Rightarrow> string option" where
  "extract_subdomain host =
     (let host_without_port = hd (split_on (\<lambda>c. c = CHR '':'') host);
          parts = split_on (\<lambda>c. c = CHR ''.'') host_without_port
      in if length parts < 2 then None
         else if list_all (\<lambda>p. parse_unsigned 8 p \<noteq> None) parts then None
         else let subdomain = hd parts
              in if subdomain = [] \<or> hd subdomain = CHR ''-'' \<or> last subdomain = CHR ''-''
                    \<or> \<not> list_all subdomain_char subdomain
                 then None else Some subdomain)"

definition require_org_context :: "db_fault \<Rightarrow> string option \<Rightarrow> ac_db \<Rightarrow> (string \<times> string, AcError) result \<times> ac_db" where
  "require_org_context f host db =
     (case host of
        None \<Rightarrow> (Err (InvalidToken ''Missing or invalid Host header''), db)
      | Some h \<Rightarrow>
          (case extract_subdomain h of
             None \<Rightarrow> (Err (InvalidToken ''Invalid subdomain''), db)
           | Some subdomain \<Rightarrow>
               (case org_by_subdomain f subdomain db of
                  (Inl err, db) \<Rightarrow> (Err err, db)
                | (Inr None, db) \<Rightarrow> (Err (AcNotFound ''Organization not found''), db)
                | (Inr (Some org), db) \<Rightarrow> (Ok (og_org_id org, subdomain), db))))"

end
