(* ===== verification/Access.thy ===== *)
theory Access
  imports AC_Accounts MC_Types MH_Connection GC_Database
begin

text \<open>
  Who is let in: the authentication layers of the three gRPC servers (\<open>gc-service/src/grpc/auth_layer.rs\<close>,
  \<open>mc-service/src/grpc/auth_interceptor.rs\<close>, \<open>mh-service/src/grpc/auth_interceptor.rs\<close>), the HTTP middleware and
  the answers of the Global Controller (\<open>middleware/auth.rs\<close>, \<open>auth/jwt.rs\<close>, \<open>errors.rs\<close>, \<open>handlers/me.rs\<close>,
  \<open>handlers/health.rs\<close>), and the meeting token checks of the services that clients connect to
  (\<open>mc-service/src/auth/mod.rs\<close>, \<open>mh-service/src/auth/mod.rs\<close>).  The layers are stated against one contract, the
  locale \<open>service_gate\<close>, which all three interpret.
\<close>

section \<open>The gRPC gates\<close>

datatype StatusCode = StUnauthenticated | StPermissionDenied | StInvalidArgument | StNotFound | StInternal

type_synonym Status = "StatusCode \<times> string"

text \<open>The first refusal of a sequence of checks.\<close>

fun checks :: "(unit, 'e) result list \<Rightarrow> (unit, 'e) result" where
  "checks [] = Ok ()"
| "checks (Inl err # rs) = Err err"
| "checks (Inr _ # rs) = checks rs"

lemma checks_Ok_iff: "checks rs = Ok () \<longleftrightarrow> (\<forall>r \<in> set rs. r = Ok ())"
  by (induction rs rule: checks.induct) auto

lemma checks_Ok: "checks rs = Ok u \<longleftrightarrow> (\<forall>r \<in> set rs. r = Ok ())"
  using checks_Ok_iff by (cases u) simp

text \<open>The authorization header: absent, not ASCII, or a text; and the path called.\<close>

datatype auth_header = NoHeader | NotAscii | HeaderText string

record rpc_request =
  rq_header :: auth_header
  rq_path :: string

text \<open>What is recorded: \<open>record_jwt_validation\<close> and \<open>record_caller_type_rejected\<close>.\<close>

datatype auth_metric = JwtValidated string string | CallerTypeRejected string string string

primrec classify_jwt_error :: "JwtError \<Rightarrow> string" where
  "classify_jwt_error TokenTooLarge = ''malformed''"
| "classify_jwt_error MalformedToken = ''malformed''"
| "classify_jwt_error MissingKid = ''malformed''"
| "classify_jwt_error InvalidSignature = ''signature_invalid''"
| "classify_jwt_error KeyNotFound = ''signature_invalid''"
| "classify_jwt_error IatTooFarInFuture = ''expired''"
| "classify_jwt_error (JwtServiceUnavailable _) = ''signature_invalid''"

text \<open>
  The three layers are the same code with another scope and other routes: a route gives, for a path, the
  label of the service and the type of caller it expects.
\<close>

type_synonym routes = "string \<Rightarrow> (string \<times> string) option"

definition grpc_gate ::
  "string \<Rightarrow> routes \<Rightarrow> jwt_lib \<Rightarrow> validate_env \<Rightarrow> rpc_request \<Rightarrow> JwtValidator
     \<Rightarrow> (ServiceClaims, Status) result \<times> auth_metric list \<times> JwtValidator"
where
  "grpc_gate scope routes K e r v =
     (let unauthenticated = Err (StUnauthenticated, ''Invalid token'');
          denied = Err (StPermissionDenied, ''Access denied'')
      in case rq_header r of
           NoHeader \<Rightarrow> (unauthenticated, [], v)
         | NotAscii \<Rightarrow> (unauthenticated, [], v)
         | HeaderText h \<Rightarrow>
             (case strip_prefix ''Bearer '' h of
                None \<Rightarrow> (unauthenticated, [], v)
              | Some token \<Rightarrow>
                  if token = [] then (unauthenticated, [], v)
                  else if length token > MAX_JWT_SIZE_BYTES then (unauthenticated, [], v)
                  else case jwt_validate K service_claims_of sc_iat e token v of
                         (Inl err, v) \<Rightarrow> (unauthenticated, [JwtValidated ''failure'' (classify_jwt_error err)], v)
                       | (Inr claims, v) \<Rightarrow>
                           (let ok = JwtValidated ''success'' ''none''
                            in if \<not> has_scope claims scope
                               then (unauthenticated, [ok, JwtValidated ''failure'' ''scope_mismatch''], v)
                               else case routes (rq_path r) of
                                      None \<Rightarrow> (denied, [ok], v)
                                    | Some (service, expected_type) \<Rightarrow>
                                        (let actual_type = (case sc_service_type claims of None \<Rightarrow> ''unknown'' | Some t \<Rightarrow> t)
                                         in if actual_type \<noteq> expected_type
                                            then (denied, [ok, CallerTypeRejected service expected_type actual_type], v)
                                            else (Ok claims, [ok], v)))))"

definition gc_routes :: routes where
  "gc_routes path =
     (if starts_with ''/dark_tower.internal.v1.GlobalControllerService/'' path
      then Some (''GlobalControllerService'', ''meeting-controller'')
      else if starts_with ''/dark_tower.internal.v1.MediaHandlerRegistryService/'' path
      then Some (''MediaHandlerRegistryService'', ''media-handler'')
      else None)"

definition gc_grpc_auth ::
  "jwt_lib \<Rightarrow> validate_env \<Rightarrow> rpc_request \<Rightarrow> JwtValidator
     \<Rightarrow> (ServiceClaims, Status) result \<times> auth_metric list \<times> JwtValidator" where
  "gc_grpc_auth = grpc_gate ''service.write.gc'' gc_routes"

definition mc_routes :: routes where
  "mc_routes path =
     (if starts_with ''/dark_tower.internal.v1.MeetingControllerService/'' path
      then Some (''MeetingControllerService'', ''global-controller'')
      else if starts_with ''/dark_tower.internal.v1.MediaCoordinationService/'' path
      then Some (''MediaCoordinationService'', ''media-handler'')
      else None)"

definition mc_grpc_auth ::
  "jwt_lib \<Rightarrow> validate_env \<Rightarrow> rpc_request \<Rightarrow> JwtValidator
     \<Rightarrow> (ServiceClaims, Status) result \<times> auth_metric list \<times> JwtValidator" where
  "mc_grpc_auth = grpc_gate ''service.write.mc'' mc_routes"

definition mh_routes :: routes where
  "mh_routes path =
     (if starts_with ''/dark_tower.internal.v1.MediaHandlerService/'' path
      then Some (''MediaHandlerService'', ''meeting-controller'')
      else None)"

definition mh_grpc_auth ::
  "jwt_lib \<Rightarrow> validate_env \<Rightarrow> rpc_request \<Rightarrow> JwtValidator
     \<Rightarrow> (ServiceClaims, Status) result \<times> auth_metric list \<times> JwtValidator" where
  "mh_grpc_auth = grpc_gate ''service.write.mh'' mh_routes"

section \<open>HTTP at the Global Controller\<close>

primrec gc_error_type_label :: "GcError \<Rightarrow> string" where
  "gc_error_type_label (GcDatabase _) = ''database''"
| "gc_error_type_label (GcInvalidToken _) = ''invalid_token''"
| "gc_error_type_label (GcNotFound _) = ''not_found''"
| "gc_error_type_label (GcConflict _) = ''conflict''"
| "gc_error_type_label GcRateLimitExceeded = ''rate_limit''"
| "gc_error_type_label (GcForbidden _) = ''forbidden''"
| "gc_error_type_label (GcBadRequest _) = ''bad_request''"
| "gc_error_type_label (GcServiceUnavailable _) = ''service_unavailable''"
| "gc_error_type_label (GcInternal _) = ''internal''"

text \<open>Status, code and message of the body, and the value of the \<open>WWW-Authenticate\<close> header.\<close>

primrec gc_error_body :: "GcError \<Rightarrow> u16 \<times> string \<times> string" where
  "gc_error_body (GcDatabase err) = (500, ''DATABASE_ERROR'', ''An internal database error occurred'')"
| "gc_error_body (GcInvalidToken reason) = (401, ''INVALID_TOKEN'', reason)"
| "gc_error_body (GcNotFound resource) = (404, ''NOT_FOUND'', resource)"
| "gc_error_body (GcConflict reason) = (409, ''CONFLICT'', reason)"
| "gc_error_body GcRateLimitExceeded = (429, ''RATE_LIMIT_EXCEEDED'', ''Too many requests. Please try again later.'')"
| "gc_error_body (GcForbidden reason) = (403, ''FORBIDDEN'', reason)"
| "gc_error_body (GcBadRequest reason) = (400, ''BAD_REQUEST'', reason)"
| "gc_error_body (GcServiceUnavailable reason) = (503, ''SERVICE_UNAVAILABLE'', ''Service temporarily unavailable'')"
| "gc_error_body (GcInternal reason) = (500, ''INTERNAL_ERROR'', ''An internal error occurred'')"

definition gc_into_response :: "GcError \<Rightarrow> (u16 \<times> string \<times> string) \<times> string option" where
  "gc_into_response err =
     (gc_error_body err,
      if fst (gc_error_body err) = 401
      then Some (''Bearer realm='' @ [CHR 0x22] @ ''dark-tower-api'' @ [CHR 0x22] @ '', error='' @ [CHR 0x22] @ ''invalid_token'' @ [CHR 0x22])
      else None)"

fun gc_from_jwt_error :: "JwtError \<Rightarrow> GcError" where
  "gc_from_jwt_error (JwtServiceUnavailable msg) = GcServiceUnavailable msg"
| "gc_from_jwt_error _ = GcInvalidToken ''The access token is invalid or expired''"

definition extract_bearer_token :: "auth_header \<Rightarrow> (string, GcError) result" where
  "extract_bearer_token h =
     (case h of
        HeaderText s \<Rightarrow>
          (case strip_prefix ''Bearer '' s of
             None \<Rightarrow> Err (GcInvalidToken ''Invalid Authorization header format'')
           | Some token \<Rightarrow> Ok token)
      | _ \<Rightarrow> Err (GcInvalidToken ''Missing Authorization header''))"

definition gc_validate ::
  "jwt_lib \<Rightarrow> validate_env \<Rightarrow> string \<Rightarrow> JwtValidator \<Rightarrow> (ServiceClaims, GcError) result \<times> JwtValidator" where
  "gc_validate K e token v = map_prod (map_sum gc_from_jwt_error id) id (jwt_validate K service_claims_of sc_iat e token v)"

definition gc_validate_user ::
  "jwt_lib \<Rightarrow> validate_env \<Rightarrow> string \<Rightarrow> JwtValidator \<Rightarrow> (UserClaims, GcError) result \<times> JwtValidator" where
  "gc_validate_user K e token v = map_prod (map_sum gc_from_jwt_error id) id (jwt_validate K user_claims_of uc_iat e token v)"

text \<open>The middleware: the claims it puts into the request, or the error it answers with.\<close>

definition require_auth ::
  "jwt_lib \<Rightarrow> validate_env \<Rightarrow> auth_header \<Rightarrow> JwtValidator \<Rightarrow> (ServiceClaims, GcError) result \<times> JwtValidator" where
  "require_auth K e h v = (case extract_bearer_token h of Inl err \<Rightarrow> (Err err, v) | Inr token \<Rightarrow> gc_validate K e token v)"

definition require_user_auth ::
  "jwt_lib \<Rightarrow> validate_env \<Rightarrow> auth_header \<Rightarrow> JwtValidator \<Rightarrow> (UserClaims, GcError) result \<times> JwtValidator" where
  "require_user_auth K e h v =
     (case extract_bearer_token h of Inl err \<Rightarrow> (Err err, v) | Inr token \<Rightarrow> gc_validate_user K e token v)"

record MeResponse =
  me_sub :: string
  me_scopes :: "string list"
  me_service_type :: "string option"
  me_exp :: int
  me_iat :: int

definition get_me :: "ServiceClaims \<Rightarrow> MeResponse" where
  "get_me c = \<lparr>me_sub = sc_sub c, me_scopes = scopes c, me_service_type = sc_service_type c, me_exp = sc_exp c, me_iat = sc_iat c\<rparr>"

record ReadinessResponse =
  rd_status :: string
  rd_database :: "string option"
  rd_ac_jwks :: "string option"
  rd_error :: "string option"

definition readiness_check :: "(unit, string) result \<Rightarrow> string \<Rightarrow> u16 \<times> ReadinessResponse" where
  "readiness_check db_check ac_jwks_url =
     (case db_check of
        Inl _ \<Rightarrow> (503, \<lparr>rd_status = ''not_ready'', rd_database = Some ''unhealthy'', rd_ac_jwks = None,
                    rd_error = Some ''Service dependencies unavailable''\<rparr>)
      | Inr _ \<Rightarrow>
          if ac_jwks_url = []
          then (503, \<lparr>rd_status = ''not_ready'', rd_database = Some ''healthy'', rd_ac_jwks = Some ''unavailable'',
                     rd_error = Some ''Service dependencies unavailable''\<rparr>)
          else (200, \<lparr>rd_status = ''ready'', rd_database = Some ''healthy'', rd_ac_jwks = Some ''available'', rd_error = None\<rparr>))"

section \<open>Meeting tokens at the Meeting Controller and the Media Handler\<close>

fun mc_from_jwt_error :: "JwtError \<Rightarrow> McError" where
  "mc_from_jwt_error (JwtServiceUnavailable _) = MC_Types.Internal ''Authentication service unavailable''"
| "mc_from_jwt_error _ = MC_Types.JwtValidation ''The access token is invalid or expired''"

definition mc_validate_meeting_token ::
  "jwt_lib \<Rightarrow> validate_env \<Rightarrow> string \<Rightarrow> JwtValidator \<Rightarrow> (MeetingTokenClaims, McError) result \<times> JwtValidator" where
  "mc_validate_meeting_token K e token v =
     (case jwt_validate K meeting_claims_of mt_iat e token v of
        (Inl err, v) \<Rightarrow> (Err (mc_from_jwt_error err), v)
      | (Inr claims, v) \<Rightarrow>
          if mt_token_type claims \<noteq> ''meeting''
          then (Err (MC_Types.JwtValidation ''The access token is invalid or expired''), v)
          else (Ok claims, v))"

definition mc_validate_guest_token ::
  "jwt_lib \<Rightarrow> validate_env \<Rightarrow> string \<Rightarrow> JwtValidator \<Rightarrow> (GuestTokenClaims, McError) result \<times> JwtValidator" where
  "mc_validate_guest_token K e token v =
     (case jwt_validate K guest_claims_of gt_iat e token v of
        (Inl err, v) \<Rightarrow> (Err (mc_from_jwt_error err), v)
      | (Inr claims, v) \<Rightarrow>
          (case guest_validate claims of
             Inl reason \<Rightarrow> (Err (MC_Types.JwtValidation ''The access token is invalid or expired''), v)
           | Inr _ \<Rightarrow> (Ok claims, v)))"


fun mh_from_jwt_error :: "JwtError \<Rightarrow> MhError" where
  "mh_from_jwt_error (JwtServiceUnavailable _) = MH_Connection.Internal ''Authentication service unavailable''"
| "mh_from_jwt_error _ = MH_Connection.JwtValidation ''The access token is invalid or expired''"

definition mh_validate_meeting_token ::
  "jwt_lib \<Rightarrow> validate_env \<Rightarrow> string \<Rightarrow> JwtValidator \<Rightarrow> (MeetingTokenClaims, MhError) result \<times> JwtValidator" where
  "mh_validate_meeting_token K e token v =
     (case jwt_validate K meeting_claims_of mt_iat e token v of
        (Inl err, v) \<Rightarrow> (Err (mh_from_jwt_error err), v)
      | (Inr claims, v) \<Rightarrow>
          if mt_token_type claims \<noteq> ''meeting''
          then (Err (MH_Connection.JwtValidation ''The access token is invalid or expired''), v)
          else (Ok claims, v))"

section \<open>What a gate admits\<close>

lemma strip_prefix_eq_Some [simp]: "strip_prefix p s = Some t \<longleftrightarrow> s = p @ t"
  by (auto simp: strip_prefix_def starts_with_def) (metis append_eq_conv_conj)

lemma strip_prefix_eq_None [simp]: "strip_prefix p s = None \<longleftrightarrow> (\<forall>t. s \<noteq> p @ t)"
  by (auto simp: strip_prefix_def starts_with_def) (metis append_take_drop_id)

definition presented :: "rpc_request \<Rightarrow> string \<Rightarrow> bool" where
  "presented r token \<longleftrightarrow> rq_header r = HeaderText (''Bearer '' @ token) \<and> token \<noteq> [] \<and> length token \<le> MAX_JWT_SIZE_BYTES"

lemma presented_unique: "presented r t \<Longrightarrow> presented r t' \<Longrightarrow> t = t'"
  by (simp add: presented_def)

text \<open>
  The contract of a layer: it lets a call through exactly when the call carries a token of admissible size that
  validates, the token has the scope of the layer, and its type is the caller's type of the path.  It answers
  ``denied'' exactly to valid tokens of the scope on the wrong path, and ``unauthenticated'' to all other calls.
\<close>

locale service_gate =
  fixes gate :: "jwt_lib \<Rightarrow> validate_env \<Rightarrow> rpc_request \<Rightarrow> JwtValidator
      \<Rightarrow> (ServiceClaims, Status) result \<times> auth_metric list \<times> JwtValidator"
    and scope :: string
    and routes :: routes
  assumes admits: "fst (gate K e r v) = Ok c \<longleftrightarrow>
      (\<exists>token. presented r token \<and> fst (jwt_validate K service_claims_of sc_iat e token v) = Ok c)
      \<and> has_scope c scope \<and> (\<exists>svc ty. routes (rq_path r) = Some (svc, ty) \<and> sc_service_type c = Some ty)"
    and denies: "fst (gate K e r v) = Err (StPermissionDenied, msg) \<longleftrightarrow> msg = ''Access denied'' \<and>
      (\<exists>token c. presented r token \<and> fst (jwt_validate K service_claims_of sc_iat e token v) = Ok c
         \<and> has_scope c scope \<and> (\<forall>svc ty. routes (rq_path r) = Some (svc, ty) \<longrightarrow> sc_service_type c \<noteq> Some ty))"
    and refuses: "fst (gate K e r v) = Err s \<Longrightarrow> s \<in> {(StUnauthenticated, ''Invalid token''), (StPermissionDenied, ''Access denied'')}"
begin

lemma decides_valid:
  assumes "presented r token" "fst (jwt_validate K service_claims_of sc_iat e token v) = Ok c"
  shows "fst (gate K e r v) =
    (if \<not> has_scope c scope then Err (StUnauthenticated, ''Invalid token'')
     else if \<exists>svc ty. routes (rq_path r) = Some (svc, ty) \<and> sc_service_type c = Some ty then Ok c
     else Err (StPermissionDenied, ''Access denied''))"
proof (cases "fst (gate K e r v)")
  case (Inl s)
  then show ?thesis
    using refuses [OF Inl] admits [of K e r v c] denies [of K e r v "''Access denied''"] assms by (auto dest: presented_unique)
next
  case (Inr c')
  then show ?thesis using admits [of K e r v c'] assms by (auto dest: presented_unique)
qed

lemma unknown_path: "routes (rq_path r) = None \<Longrightarrow> fst (gate K e r v) \<noteq> Ok c"
  by (simp add: admits)

lemma caller_type: "fst (gate K e r v) = Ok c \<Longrightarrow> routes (rq_path r) = Some (svc, ty) \<Longrightarrow> sc_service_type c = Some ty"
  by (auto simp: admits)

end

lemma grpc_gate_absent:
  assumes "\<nexists>token. presented r token"
  shows "fst (grpc_gate scope routes K e r v) = Err (StUnauthenticated, ''Invalid token'')"
  using assms unfolding grpc_gate_def Let_def presented_def by (auto split: auth_header.split option.split)

lemma grpc_gate_presented:
  assumes "presented r token" "\<And>p svc. routes p \<noteq> Some (svc, ''unknown'')"
  shows "fst (grpc_gate scope routes K e r v) =
    (case fst (jwt_validate K service_claims_of sc_iat e token v) of
       Inl _ \<Rightarrow> Err (StUnauthenticated, ''Invalid token'')
     | Inr c \<Rightarrow> if \<not> has_scope c scope then Err (StUnauthenticated, ''Invalid token'')
               else if \<exists>svc ty. routes (rq_path r) = Some (svc, ty) \<and> sc_service_type c = Some ty then Ok c
               else Err (StPermissionDenied, ''Access denied''))"
proof -
  have "strip_prefix ''Bearer '' (''Bearer '' @ token) = Some token" by (simp add: strip_prefix_def starts_with_def)
  then show ?thesis
    using assms unfolding grpc_gate_def Let_def presented_def
    by (auto split: option.split prod.split sum.split)
qed

lemma grpc_gate_cases:
  assumes "\<And>p svc. routes p \<noteq> Some (svc, ''unknown'')"
  obtains "\<And>t. \<not> presented r t" "fst (grpc_gate scope routes K e r v) = Err (StUnauthenticated, ''Invalid token'')"
  | token where "\<And>t. presented r t \<longleftrightarrow> t = token" "fst (grpc_gate scope routes K e r v) =
      (case fst (jwt_validate K service_claims_of sc_iat e token v) of
         Inl _ \<Rightarrow> Err (StUnauthenticated, ''Invalid token'')
       | Inr c \<Rightarrow> if \<not> has_scope c scope then Err (StUnauthenticated, ''Invalid token'')
                 else if \<exists>svc ty. routes (rq_path r) = Some (svc, ty) \<and> sc_service_type c = Some ty then Ok c
                 else Err (StPermissionDenied, ''Access denied''))"
proof (cases "\<exists>token. presented r token")
  case True
  then obtain token where "presented r token" by blast
  moreover from this have "presented r t \<longleftrightarrow> t = token" for t by (auto dest: presented_unique)
  ultimately show ?thesis by (intro that(2) grpc_gate_presented assms)
next
  case False
  then show ?thesis by (intro that(1) grpc_gate_absent) auto
qed

lemma grpc_gate_contract:
  assumes "\<And>p svc. routes p \<noteq> Some (svc, ''unknown'')"
  shows "service_gate (grpc_gate scope routes) scope routes"
proof
  fix K e r v and c :: ServiceClaims and msg :: string and s :: Status
  note cases = grpc_gate_cases [where routes = routes and r = r and scope = scope and K = K and e = e and v = v, OF assms]
  show "fst (grpc_gate scope routes K e r v) = Ok c \<longleftrightarrow>
      (\<exists>token. presented r token \<and> fst (jwt_validate K service_claims_of sc_iat e token v) = Ok c)
      \<and> has_scope c scope \<and> (\<exists>svc ty. routes (rq_path r) = Some (svc, ty) \<and> sc_service_type c = Some ty)"
    by (rule cases) (auto split: sum.split)
  show "fst (grpc_gate scope routes K e r v) = Err (StPermissionDenied, msg) \<longleftrightarrow> msg = ''Access denied'' \<and>
      (\<exists>token c. presented r token \<and> fst (jwt_validate K service_claims_of sc_iat e token v) = Ok c
         \<and> has_scope c scope \<and> (\<forall>svc ty. routes (rq_path r) = Some (svc, ty) \<longrightarrow> sc_service_type c \<noteq> Some ty))"
    by (rule cases) (auto split: sum.split)
  show "s \<in> {(StUnauthenticated, ''Invalid token''), (StPermissionDenied, ''Access denied'')}"
    if "fst (grpc_gate scope routes K e r v) = Err s"
    by (rule cases) (use that in \<open>auto split: sum.splits if_splits\<close>)
qed

interpretation gc_gate: service_gate gc_grpc_auth "''service.write.gc''" gc_routes
  unfolding gc_grpc_auth_def by (rule grpc_gate_contract) (simp add: gc_routes_def)

interpretation mc_gate: service_gate mc_grpc_auth "''service.write.mc''" mc_routes
  unfolding mc_grpc_auth_def by (rule grpc_gate_contract) (simp add: mc_routes_def)

interpretation mh_gate: service_gate mh_grpc_auth "''service.write.mh''" mh_routes
  unfolding mh_grpc_auth_def by (rule grpc_gate_contract) (simp add: mh_routes_def)

text \<open>A token without the scope of the layer is counted as a success and as a failure.\<close>

lemma scope_mismatch_counted_twice:
  assumes "presented r token" "fst (jwt_validate K service_claims_of sc_iat e token v) = Ok c" "\<not> has_scope c scope"
  shows "fst (snd (grpc_gate scope routes K e r v)) = [JwtValidated ''success'' ''none'', JwtValidated ''failure'' ''scope_mismatch'']"
proof -
  obtain w where "jwt_validate K service_claims_of sc_iat e token v = (Ok c, w)" using assms(2) by (metis prod.collapse)
  then show ?thesis
    using assms(1,3) unfolding grpc_gate_def Let_def presented_def by (auto split: option.split)
qed

section \<open>Who may call whom\<close>

abbreviation called :: "string \<Rightarrow> string \<Rightarrow> bool" where
  "called svc path \<equiv> starts_with (''/dark_tower.internal.v1.'' @ svc @ ''/'') path"

lemma starts_with_disjoint: "starts_with p s \<Longrightarrow> starts_with q s \<Longrightarrow> take (length p) q = p \<or> take (length q) p = q"
  unfolding starts_with_def by (metis min.absorb1 min.absorb2 nat_le_linear take_take)

lemma default_scopes_granted:
  assumes "sc_scope c = join_with '' '' (default_scopes svc)"
  shows "has_scope c s \<longleftrightarrow> s \<in> set (default_scopes svc)"
proof -
  have "list_all is_word (default_scopes svc)" by (cases svc) (simp_all add: is_word_def is_whitespace_def)
  then show ?thesis using assms by (auto simp: has_scope_def split_join_words list_ex_iff)
qed

text \<open>
  C11. The scopes a service gets when it registers and the checks of the three gRPC servers agree: with a valid token of
  a registered service the Global Controller lets through exactly Meeting Controllers on its own service and Media
  Handlers on the registry, the Meeting Controller exactly Global Controllers on its own service and Media Handlers on
  the coordination service, and the Media Handler exactly Meeting Controllers; every other call is refused, whatever
  the path.
\<close>

theorem default_grants_match_gates:
  assumes "presented r token" "fst (jwt_validate K service_claims_of sc_iat e token v) = Ok c"
    and "sc_scope c = join_with '' '' (default_scopes svc)" "sc_service_type c = Some (service_type_str svc)"
  shows "(fst (gc_grpc_auth K e r v) = Ok c \<longleftrightarrow>
      svc = MeetingController \<and> called ''GlobalControllerService'' (rq_path r)
      \<or> svc = MediaHandler \<and> called ''MediaHandlerRegistryService'' (rq_path r))
    \<and> (fst (mc_grpc_auth K e r v) = Ok c \<longleftrightarrow>
      svc = GlobalController \<and> called ''MeetingControllerService'' (rq_path r)
      \<or> svc = MediaHandler \<and> called ''MediaCoordinationService'' (rq_path r))
    \<and> (fst (mh_grpc_auth K e r v) = Ok c \<longleftrightarrow> svc = MeetingController \<and> called ''MediaHandlerService'' (rq_path r))"
proof (intro conjI)
  note scopes = default_scopes_granted [OF assms(3)]
  have no: "\<not> (called ''GlobalControllerService'' p \<and> called ''MediaHandlerRegistryService'' p)"
    "\<not> (called ''MeetingControllerService'' p \<and> called ''MediaCoordinationService'' p)" for p
    using starts_with_disjoint by fastforce+
  show "fst (gc_grpc_auth K e r v) = Ok c \<longleftrightarrow>
      svc = MeetingController \<and> called ''GlobalControllerService'' (rq_path r)
      \<or> svc = MediaHandler \<and> called ''MediaHandlerRegistryService'' (rq_path r)"
    using gc_gate.decides_valid [OF assms(1,2)] assms(4) no(1) [of "rq_path r"] by (cases svc) (simp_all add: scopes gc_routes_def)
  show "fst (mc_grpc_auth K e r v) = Ok c \<longleftrightarrow>
      svc = GlobalController \<and> called ''MeetingControllerService'' (rq_path r)
      \<or> svc = MediaHandler \<and> called ''MediaCoordinationService'' (rq_path r)"
    using mc_gate.decides_valid [OF assms(1,2)] assms(4) no(2) [of "rq_path r"] by (cases svc) (simp_all add: scopes mc_routes_def)
  show "fst (mh_grpc_auth K e r v) = Ok c \<longleftrightarrow> svc = MeetingController \<and> called ''MediaHandlerService'' (rq_path r)"
    using mh_gate.decides_valid [OF assms(1,2)] assms(4) by (cases svc) (simp_all add: scopes mh_routes_def)
qed

definition demo_handler_claims :: ServiceClaims where
  "demo_handler_claims = service_claims_new ''mh-1'' 4600 1000 ''service.write.mc service.write.gc'' (Some ''media-handler'')"

definition demo_registry_call :: rpc_request where
  "demo_registry_call = \<lparr>rq_header = HeaderText ''Bearer ab.b.b'',
     rq_path = ''/dark_tower.internal.v1.MediaHandlerRegistryService/RegisterMH''\<rparr>"

definition demo_validator :: JwtValidator where
  "demo_validator = jwt_validator_new (jwks_client_new 300) 300"

abbreviation "demo_handler_lib \<equiv> demo_lib ''k'' [7] [2] (service_claims_json demo_handler_claims)"

theorem default_grants_match_gates_witness:
  "fst (gc_grpc_auth demo_handler_lib (demo_validate_env 2000) demo_registry_call demo_validator) = Ok demo_handler_claims
   \<and> fst (mc_grpc_auth demo_handler_lib (demo_validate_env 2000) demo_registry_call demo_validator) \<noteq> Ok demo_handler_claims
   \<and> fst (mh_grpc_auth demo_handler_lib (demo_validate_env 2000) demo_registry_call demo_validator) \<noteq> Ok demo_handler_claims"
proof -
  have "fst (jwt_validate demo_handler_lib service_claims_of sc_iat (demo_validate_env 2000) ''ab.b.b'' demo_validator) = Ok demo_handler_claims"
    by code_simp
  moreover have "presented demo_registry_call ''ab.b.b''" by code_simp
  moreover have "sc_scope demo_handler_claims = join_with '' '' (default_scopes MediaHandler)"
    "sc_service_type demo_handler_claims = Some (service_type_str MediaHandler)" by code_simp+
  ultimately show ?thesis
    using default_grants_match_gates [of demo_registry_call "''ab.b.b''" demo_handler_lib "demo_validate_env 2000" demo_validator demo_handler_claims MediaHandler]
    by (simp add: demo_registry_call_def starts_with_def)
qed

section \<open>Kinds of tokens\<close>

lemma jwt_validate_claims:
  assumes "jwt_validate K claims_of iat e token v = (Ok claims, v')"
  shows "\<exists>key payload. jl_decode K token key (ve_decode_now e) = Some payload \<and> claims_of payload = Some claims"
  using assms by (auto simp: jwt_validate_def verify_token_def Option.bind_eq_Some_conv
      split: sum.splits prod.splits option.splits if_splits)

text \<open>Whether a token, under whatever key it decodes, carries a payload of the given kind.\<close>

definition carries :: "jwt_lib \<Rightarrow> string \<Rightarrow> (json \<Rightarrow> bool) \<Rightarrow> bool" where
  "carries K token p \<longleftrightarrow> (\<forall>key now payload. jl_decode K token key now = Some payload \<longrightarrow> p payload)"

text \<open>
  Both services that clients connect to accept meeting tokens only: a token of another kind is refused, the tokens
  that the Auth Controller signs for guests among them.
\<close>

lemma other_tokens_refused:
  assumes "carries K token (\<lambda>p. MeetingToken \<notin> token_kinds p)"
  shows "fst (mc_validate_meeting_token K e token v) \<noteq> Ok c" and "fst (mh_validate_meeting_token K e token v) \<noteq> Ok c"
proof -
  have "fst (jwt_validate K meeting_claims_of mt_iat e token v) \<noteq> Ok c"
    using jwt_validate_claims [of K meeting_claims_of mt_iat e token v c] assms
    by (fastforce simp: carries_def token_kinds_def prod_eq_iff)
  then show "fst (mc_validate_meeting_token K e token v) \<noteq> Ok c" "fst (mh_validate_meeting_token K e token v) \<noteq> Ok c"
    by (auto simp: mc_validate_meeting_token_def mh_validate_meeting_token_def split: prod.splits sum.splits)
qed

lemma guest_token_refused:
  assumes "0 \<le> now" "now < 2 ^ 62" "carries K token (\<lambda>p. p = guest_claims_json (guest_token_claims g now ttl jti))"
  shows "fst (mc_validate_meeting_token K e token v) \<noteq> Ok c \<and> fst (mh_validate_meeting_token K e token v) \<noteq> Ok c"
proof -
  have "i64 now" "i64 (now + uint ttl)" using assms(1,2) i64_ttl by (auto simp: i64_def)
  then have "token_kinds (guest_claims_json (guest_token_claims g now ttl jti)) = {GuestToken}"
    by (intro guest_payload_kinds) (simp_all add: guest_token_claims_def)
  then have "carries K token (\<lambda>p. MeetingToken \<notin> token_kinds p)" using assms(3) by (auto simp: carries_def)
  then show ?thesis using other_tokens_refused by blast
qed

lemma mc_validate_meeting_token_ok:
  assumes "fst (mc_validate_meeting_token K e token v) = Ok c"
  shows "fst (jwt_validate K meeting_claims_of mt_iat e token v) = Ok c \<and> mt_token_type c = ''meeting''"
  using assms by (auto simp: mc_validate_meeting_token_def split: prod.splits sum.splits if_splits)

section \<open>The answers of the Global Controller\<close>

text \<open>
  What a client is told of an error: details of the database, of other services and of internal errors never leave
  the service; clients are asked to authenticate exactly when their token was refused.
\<close>

lemma gc_response_hides_internals:
  "gc_into_response (GcDatabase a) = gc_into_response (GcDatabase b)"
  "gc_into_response (GcServiceUnavailable a) = gc_into_response (GcServiceUnavailable b)"
  "gc_into_response (GcInternal a) = gc_into_response (GcInternal b)"
  "snd (gc_into_response err) \<noteq> None \<longleftrightarrow> (\<exists>m. err = GcInvalidToken m)"
  by (simp_all add: gc_into_response_def) (cases err; simp)

lemma gc_from_jwt_error_status: "fst (gc_error_body (gc_from_jwt_error err)) = (if \<exists>m. err = JwtServiceUnavailable m then 503 else 401)"
  by (cases err) simp_all

lemma extract_bearer_token_status: "extract_bearer_token h = Err err \<Longrightarrow> fst (gc_error_body err) = 401"
  by (auto simp: extract_bearer_token_def split: auth_header.splits option.splits)

lemma require_auth_refuses:
  "fst (require_auth K e h v) = Err err \<Longrightarrow> fst (gc_error_body err) \<in> {401, 503}"
  "fst (require_user_auth K e h v) = Err err \<Longrightarrow> fst (gc_error_body err) \<in> {401, 503}"
  by (auto simp: require_auth_def require_user_auth_def gc_validate_def gc_validate_user_def gc_from_jwt_error_status
      extract_bearer_token_status map_sum_def split: sum.splits)

text \<open>The service answers ``ready'' without asking for the keys: it only looks whether a URL was configured.\<close>

lemma ready_without_keys: "fst (readiness_check db url) = 200 \<longleftrightarrow> \<not> isl db \<and> url \<noteq> []"
  by (cases db) (simp_all add: readiness_check_def)

end
