(* ===== verification/GC_Services.thy ===== *)
theory GC_Services
  imports Access GC_Assignment
begin

text \<open>
  The gRPC services of the Global Controller and its background tasks: registration and heartbeats of Meeting
  Controllers and the end of meetings (\<open>gc-service/src/grpc/mc_service.rs\<close>), registration and load reports of Media
  Handlers (\<open>grpc/mh_service.rs\<close>), the health checkers and the clean-up of assignments (\<open>tasks/*.rs\<close>), and the gauge
  of registered controllers (\<open>observability/metrics.rs\<close>).  Strings are UTF-8; which characters beyond ASCII count as
  alphanumeric is a parameter.  Usage percentages are stored but never read and are left out.
\<close>

section \<open>Requests and answers\<close>

record Capacity =
  cap_current_meetings :: u32
  cap_current_participants :: u32

record RegisterMcRequest =
  rm_id :: string
  rm_region :: string
  rm_grpc_endpoint :: string
  rm_webtransport_endpoint :: string
  rm_max_meetings :: u32
  rm_max_participants :: u32

record RegisterMcResponse =
  rmr_accepted :: bool
  rmr_message :: string
  rmr_fast_heartbeat_interval_ms :: u64
  rmr_comprehensive_heartbeat_interval_ms :: u64

record HeartbeatRequest =
  hb_controller_id :: string
  hb_capacity :: "Capacity option"
  hb_health :: int

record HeartbeatResponse =
  hbr_acknowledged :: bool
  hbr_timestamp :: u64

record NotifyMeetingEndedRequest =
  ne_meeting_id :: string
  ne_region :: string

record RegisterMhRequest =
  rh_handler_id :: string
  rh_region :: string
  rh_webtransport_endpoint :: string
  rh_grpc_endpoint :: string
  rh_max_streams :: u32

record RegisterMhResponse =
  rhr_accepted :: bool
  rhr_message :: string
  rhr_load_report_interval_ms :: u64

record SendLoadReportRequest =
  lr_handler_id :: string
  lr_current_streams :: u32
  lr_health :: int

text \<open>
  What a call meets: which characters beyond ASCII are alphanumeric, the clock of the database, how its statement
  goes, what others change before the count of the controllers and how the count goes, the clock of the service.
\<close>

record grpc_env =
  ge_alnum :: "string \<Rightarrow> bool"
  ge_now :: instant
  ge_fault :: db_fault
  ge_others :: "gc_db \<Rightarrow> gc_db"
  ge_count_fault :: db_fault
  ge_unix :: int

section \<open>Validation\<close>

definition DEFAULT_FAST_HEARTBEAT_INTERVAL_MS :: u64 where "DEFAULT_FAST_HEARTBEAT_INTERVAL_MS = 10000"
definition DEFAULT_COMPREHENSIVE_HEARTBEAT_INTERVAL_MS :: u64 where "DEFAULT_COMPREHENSIVE_HEARTBEAT_INTERVAL_MS = 30000"
definition DEFAULT_LOAD_REPORT_INTERVAL_MS :: u64 where "DEFAULT_LOAD_REPORT_INTERVAL_MS = 10000"
definition MAX_CONTROLLER_ID_LENGTH :: nat where "MAX_CONTROLLER_ID_LENGTH = 255"
definition MAX_MEETING_ID_LENGTH :: nat where "MAX_MEETING_ID_LENGTH = 255"
definition MAX_HANDLER_ID_LENGTH :: nat where "MAX_HANDLER_ID_LENGTH = 255"
definition MAX_REGION_LENGTH :: nat where "MAX_REGION_LENGTH = 50"
definition MAX_ENDPOINT_LENGTH :: nat where "MAX_ENDPOINT_LENGTH = 255"

text \<open>The characters of a UTF-8 text: a leading byte and the continuation bytes after it.\<close>

definition is_continuation :: "char \<Rightarrow> bool" where
  "is_continuation c \<longleftrightarrow> 128 \<le> (of_char c :: nat) \<and> (of_char c :: nat) < 192"

function utf8_chars :: "string \<Rightarrow> string list" where
  "utf8_chars [] = []"
| "utf8_chars (c # cs) = (c # takeWhile is_continuation cs) # utf8_chars (dropWhile is_continuation cs)"
  by pat_completeness auto
termination by (relation "measure length") (auto simp: le_imp_less_Suc length_dropWhile_le)

definition is_ascii_alphanumeric :: "char \<Rightarrow> bool" where
  "is_ascii_alphanumeric c \<longleftrightarrow>
     (let n = (of_char c :: nat) in 48 \<le> n \<and> n \<le> 57 \<or> 65 \<le> n \<and> n \<le> 90 \<or> 97 \<le> n \<and> n \<le> 122)"

definition is_alphanumeric :: "(string \<Rightarrow> bool) \<Rightarrow> string \<Rightarrow> bool" where
  "is_alphanumeric alnum ch = (case ch of [c] \<Rightarrow> is_ascii_alphanumeric c | _ \<Rightarrow> alnum ch)"

definition id_chars :: "(string \<Rightarrow> bool) \<Rightarrow> string \<Rightarrow> bool" where
  "id_chars alnum s = list_all (\<lambda>ch. is_alphanumeric alnum ch \<or> ch = ''-'' \<or> ch = ''_'') (utf8_chars s)"

definition validate_identifier :: "string \<Rightarrow> nat \<Rightarrow> (string \<Rightarrow> bool) \<Rightarrow> string \<Rightarrow> (unit, Status) result" where
  "validate_identifier field_name max_length alnum s =
     (if s = [] then Err (StInvalidArgument, field_name @ '' is required'')
      else if length s > max_length then Err (StInvalidArgument, field_name @ '' is too long'')
      else if \<not> id_chars alnum s then Err (StInvalidArgument, field_name @ '' contains invalid characters'')
      else Ok ())"

definition validate_controller_id :: "(string \<Rightarrow> bool) \<Rightarrow> string \<Rightarrow> (unit, Status) result" where
  "validate_controller_id = validate_identifier ''controller_id'' MAX_CONTROLLER_ID_LENGTH"

definition validate_meeting_id :: "(string \<Rightarrow> bool) \<Rightarrow> string \<Rightarrow> (unit, Status) result" where
  "validate_meeting_id = validate_identifier ''meeting_id'' MAX_MEETING_ID_LENGTH"

definition validate_handler_id :: "(string \<Rightarrow> bool) \<Rightarrow> string \<Rightarrow> (unit, Status) result" where
  "validate_handler_id = validate_identifier ''handler_id'' MAX_HANDLER_ID_LENGTH"

definition validate_region :: "string \<Rightarrow> (unit, Status) result" where
  "validate_region region =
     (if region = [] then Err (StInvalidArgument, ''region is required'')
      else if length region > MAX_REGION_LENGTH then Err (StInvalidArgument, ''region is too long'')
      else Ok ())"

definition validate_endpoint :: "string \<Rightarrow> string \<Rightarrow> (unit, Status) result" where
  "validate_endpoint endpoint field_name =
     (if endpoint = [] then Err (StInvalidArgument, field_name @ '' is required'')
      else if length endpoint > MAX_ENDPOINT_LENGTH then Err (StInvalidArgument, field_name @ '' is too long'')
      else if \<not> starts_with ''http://'' endpoint \<and> \<not> starts_with ''https://'' endpoint
      then Err (StInvalidArgument, field_name @ '' must be a valid URL'')
      else Ok ())"

definition validate_mh_endpoint :: "string \<Rightarrow> string \<Rightarrow> (unit, Status) result" where
  "validate_mh_endpoint endpoint field_name =
     (if endpoint = [] then Err (StInvalidArgument, field_name @ '' is required'')
      else if length endpoint > MAX_ENDPOINT_LENGTH then Err (StInvalidArgument, field_name @ '' is too long'')
      else if \<not> starts_with ''http://'' endpoint \<and> \<not> starts_with ''https://'' endpoint \<and> \<not> starts_with ''grpc://'' endpoint
      then Err (StInvalidArgument, field_name @ '' must be a valid URL with http, https, or grpc scheme'')
      else Ok ())"

definition validate_capacity :: "u32 \<Rightarrow> u32 \<Rightarrow> (unit, Status) result" where
  "validate_capacity max_meetings max_participants =
     (if max_meetings = 0 then Err (StInvalidArgument, ''max_meetings must be greater than 0'')
      else if max_participants = 0 then Err (StInvalidArgument, ''max_participants must be greater than 0'')
      else Ok ())"

text \<open>\<open>i32::try_from\<close> and \<open>as i32\<close> on a \<open>u32\<close>.\<close>

definition i32_try_from :: "u32 \<Rightarrow> int option" where
  "i32_try_from w = (if uint w < 2 ^ 31 then Some (uint w) else None)"

definition i32_saturating :: "u32 \<Rightarrow> int" where
  "i32_saturating w = (case i32_try_from w of Some n \<Rightarrow> n | None \<Rightarrow> 2 ^ 31 - 1)"

definition as_i32 :: "u32 \<Rightarrow> int" where
  "as_i32 w = sint w"

section \<open>The gauge of registered controllers\<close>

definition CONTROLLER_STATUSES :: "string list" where
  "CONTROLLER_STATUSES = [''pending'', ''healthy'', ''degraded'', ''unhealthy'', ''draining'']"

type_synonym gauge_update = "string \<times> string \<times> nat"

definition get_controller_counts_by_status :: "gc_db \<Rightarrow> (HealthStatus \<times> nat) list \<times> gc_db" where
  "get_controller_counts_by_status db =
     (map (\<lambda>s. (from_db_str s, length (filter (\<lambda>r. mr_health_status r = s) (db_mcs db))))
        (remdups (map mr_health_status (db_mcs db))), db)"

definition update_registered_controller_gauges :: "string \<Rightarrow> (string \<times> nat) list \<Rightarrow> gauge_update list" where
  "update_registered_controller_gauges controller_type counts =
     (let count_map = fold (\<lambda>(status, count) m. hm_insert status count m) counts []
      in map (\<lambda>status. (controller_type, status, case hm_get count_map status of Some n \<Rightarrow> n | None \<Rightarrow> 0)) CONTROLLER_STATUSES)"

definition refresh_controller_metrics :: "db_fault \<Rightarrow> gc_db \<Rightarrow> gauge_update list" where
  "refresh_controller_metrics fault db =
     (case fst (db_exec fault get_controller_counts_by_status db) of
        Inl _ \<Rightarrow> []
      | Inr counts \<Rightarrow> update_registered_controller_gauges ''meeting'' (map (\<lambda>(s, n). (as_db_str s, n)) counts))"

section \<open>The service of the Meeting Controllers\<close>

definition check_mc_request :: "(string \<Rightarrow> bool) \<Rightarrow> RegisterMcRequest \<Rightarrow> (unit, Status) result" where
  "check_mc_request alnum req = checks
     [validate_controller_id alnum (rm_id req), validate_region (rm_region req),
      validate_endpoint (rm_grpc_endpoint req) ''grpc_endpoint'',
      if rm_webtransport_endpoint req \<noteq> [] then validate_endpoint (rm_webtransport_endpoint req) ''webtransport_endpoint'' else Ok (),
      validate_capacity (rm_max_meetings req) (rm_max_participants req)]"

definition gc_register_mc ::
  "grpc_env \<Rightarrow> RegisterMcRequest \<Rightarrow> gc_db \<Rightarrow> (RegisterMcResponse, Status) result \<times> gauge_update list \<times> gc_db"
where
  "gc_register_mc e req db =
     (case check_mc_request (ge_alnum e) req of
        Inl s \<Rightarrow> (Err s, [], db)
      | Inr _ \<Rightarrow>
          (case i32_try_from (rm_max_meetings req) of
             None \<Rightarrow> (Err (StInvalidArgument, ''max_meetings value too large: out of range integral type conversion attempted''), [], db)
           | Some max_meetings \<Rightarrow>
               (case i32_try_from (rm_max_participants req) of
                  None \<Rightarrow> (Err (StInvalidArgument, ''max_participants value too large: out of range integral type conversion attempted''), [], db)
                | Some max_participants \<Rightarrow>
                    (let webtransport_endpoint = (if rm_webtransport_endpoint req = [] then None else Some (rm_webtransport_endpoint req))
                     in case db_exec (ge_fault e)
                               (register_mc (ge_now e) (rm_id req) (rm_region req) (rm_grpc_endpoint req) webtransport_endpoint
                                  max_meetings max_participants) db of
                          (Inl _, db) \<Rightarrow> (Err (StInternal, ''Registration failed''), [], db)
                        | (Inr _, db) \<Rightarrow>
                            (let db = ge_others e db
                             in (Ok \<lparr>rmr_accepted = True, rmr_message = ''Registration successful'',
                                     rmr_fast_heartbeat_interval_ms = DEFAULT_FAST_HEARTBEAT_INTERVAL_MS,
                                     rmr_comprehensive_heartbeat_interval_ms = DEFAULT_COMPREHENSIVE_HEARTBEAT_INTERVAL_MS\<rparr>,
                                 refresh_controller_metrics (ge_count_fault e) db, db))))))"

text \<open>The two heartbeats differ in what they log only.\<close>

definition fast_heartbeat ::
  "grpc_env \<Rightarrow> HeartbeatRequest \<Rightarrow> gc_db \<Rightarrow> (HeartbeatResponse, Status) result \<times> gauge_update list \<times> gc_db"
where
  "fast_heartbeat e req db =
     (case validate_controller_id (ge_alnum e) (hb_controller_id req) of
        Inl s \<Rightarrow> (Err s, [], db)
      | Inr _ \<Rightarrow>
          (case hb_capacity req of
             None \<Rightarrow> (Err (StInvalidArgument, ''capacity is required''), [], db)
           | Some capacity \<Rightarrow>
               (let current_meetings = i32_saturating (cap_current_meetings capacity);
                    current_participants = i32_saturating (cap_current_participants capacity);
                    health_status = health_from_proto (hb_health req)
                in case db_exec (ge_fault e)
                          (update_heartbeat (ge_now e) (hb_controller_id req) current_meetings current_participants health_status) db of
                     (Inl _, db) \<Rightarrow> (Err (StInternal, ''Heartbeat update failed''), [], db)
                   | (Inr updated, db) \<Rightarrow>
                       if \<not> updated then (Err (StNotFound, ''Controller not registered''), [], db)
                       else (let db = ge_others e db
                             in (Ok \<lparr>hbr_acknowledged = True, hbr_timestamp = word_of_int (ge_unix e)\<rparr>,
                                 refresh_controller_metrics (ge_count_fault e) db, db)))))"

definition comprehensive_heartbeat ::
  "grpc_env \<Rightarrow> HeartbeatRequest \<Rightarrow> gc_db \<Rightarrow> (HeartbeatResponse, Status) result \<times> gauge_update list \<times> gc_db"
where
  "comprehensive_heartbeat = fast_heartbeat"

definition notify_meeting_ended ::
  "grpc_env \<Rightarrow> NotifyMeetingEndedRequest \<Rightarrow> gc_db \<Rightarrow> (bool, Status) result \<times> gauge_update list \<times> gc_db"
where
  "notify_meeting_ended e req db =
     (case checks [validate_meeting_id (ge_alnum e) (ne_meeting_id req), validate_region (ne_region req)] of
        Inl s \<Rightarrow> (Err s, [], db)
      | Inr _ \<Rightarrow>
          (case db_exec (ge_fault e) (end_assignment (ge_now e) (ne_meeting_id req) (Some (ne_region req))) db of
             (Inl _, db) \<Rightarrow> (Err (StInternal, ''Failed to end meeting assignment''), [], db)
           | (Inr ended, db) \<Rightarrow> (Ok True, [], db)))"

section \<open>The registry of the Media Handlers\<close>

definition check_mh_request :: "(string \<Rightarrow> bool) \<Rightarrow> RegisterMhRequest \<Rightarrow> (unit, Status) result" where
  "check_mh_request alnum req = checks
     [validate_handler_id alnum (rh_handler_id req), validate_region (rh_region req),
      validate_mh_endpoint (rh_webtransport_endpoint req) ''webtransport_endpoint'',
      validate_mh_endpoint (rh_grpc_endpoint req) ''grpc_endpoint'',
      if rh_max_streams req = 0 then Err (StInvalidArgument, ''max_streams must be greater than 0'') else Ok ()]"

definition gc_register_mh ::
  "grpc_env \<Rightarrow> RegisterMhRequest \<Rightarrow> gc_db \<Rightarrow> (RegisterMhResponse, Status) result \<times> gauge_update list \<times> gc_db"
where
  "gc_register_mh e req db =
     (case check_mh_request (ge_alnum e) req of
        Inl s \<Rightarrow> (Err s, [], db)
      | Inr _ \<Rightarrow>
          (case db_exec (ge_fault e)
                  (register_mh (ge_now e) (rh_handler_id req) (rh_region req) (rh_webtransport_endpoint req) (rh_grpc_endpoint req)
                     (as_i32 (rh_max_streams req))) db of
             (Inl _, db) \<Rightarrow> (Err (StInternal, ''Registration failed''), [], db)
           | (Inr _, db) \<Rightarrow>
               (Ok \<lparr>rhr_accepted = True, rhr_message = ''Registered successfully'',
                    rhr_load_report_interval_ms = DEFAULT_LOAD_REPORT_INTERVAL_MS\<rparr>, [], db)))"

definition load_health :: "int \<Rightarrow> HealthStatus" where
  "load_health n = (if n = 0 then HsPending else if n = 1 then HsHealthy else if n = 2 then HsDegraded
     else if n = 3 then HsUnhealthy else if n = 4 then HsDraining else HsPending)"

definition send_load_report ::
  "grpc_env \<Rightarrow> SendLoadReportRequest \<Rightarrow> gc_db \<Rightarrow> (HeartbeatResponse, Status) result \<times> gauge_update list \<times> gc_db"
where
  "send_load_report e req db =
     (case validate_handler_id (ge_alnum e) (lr_handler_id req) of
        Inl s \<Rightarrow> (Err s, [], db)
      | Inr _ \<Rightarrow>
          (case db_exec (ge_fault e)
                  (update_load_report (ge_now e) (lr_handler_id req) (as_i32 (lr_current_streams req)) (load_health (lr_health req))) db of
             (Inl _, db) \<Rightarrow> (Err (StInternal, ''Load report update failed''), [], db)
           | (Inr updated, db) \<Rightarrow>
               if \<not> updated then (Err (StNotFound, ''Handler not registered''), [], db)
               else (Ok \<lparr>hbr_acknowledged = True, hbr_timestamp = word_of_int (ge_unix e)\<rparr>, [], db)))"

section \<open>Background tasks\<close>

definition DEFAULT_CHECK_INTERVAL_SECONDS :: nat where "DEFAULT_CHECK_INTERVAL_SECONDS = 5"

text \<open>
  A task sees a sequence of events: its interval fires, with the clock of the database and the fate of its statements,
  or it is cancelled.  Between two events others change the database.
\<close>

record tick =
  tk_now :: instant
  tk_fault :: db_fault
  tk_others :: "gc_db \<Rightarrow> gc_db"
  tk_second_now :: instant
  tk_second_fault :: db_fault

datatype task_event = Tick tick | Cancelled | OthersChange "gc_db \<Rightarrow> gc_db"

text \<open>The state at the end of the events, and whether the task has returned.\<close>

fun task_loop :: "(tick \<Rightarrow> gc_db \<Rightarrow> 'a \<times> gc_db) \<Rightarrow> task_event list \<Rightarrow> gc_db \<Rightarrow> bool \<times> 'a list \<times> gc_db" where
  "task_loop body [] db = (False, [], db)"
| "task_loop body (Tick t # es) db =
     (let (a, db) = body t db; (stopped, as, db) = task_loop body es db in (stopped, a # as, db))"
| "task_loop body (Cancelled # es) db = (True, [], db)"
| "task_loop body (OthersChange f # es) db = task_loop body es (f db)"

definition start_generic_health_checker ::
  "u64 \<Rightarrow> (tick \<Rightarrow> int \<Rightarrow> gc_db \<Rightarrow> 'a \<times> gc_db) \<Rightarrow> task_event list \<Rightarrow> gc_db \<Rightarrow> bool \<times> 'a list \<times> gc_db"
where
  "start_generic_health_checker staleness_threshold_seconds mark_stale_fn =
     task_loop (\<lambda>t. mark_stale_fn t (sint staleness_threshold_seconds))"

definition start_health_checker :: "u64 \<Rightarrow> task_event list \<Rightarrow> gc_db \<Rightarrow> bool \<times> gauge_update list list \<times> gc_db" where
  "start_health_checker staleness_threshold_seconds =
     start_generic_health_checker staleness_threshold_seconds
       (\<lambda>t threshold db.
          case db_exec (tk_fault t) (mark_stale_controllers_unhealthy (tk_now t) threshold) db of
            (Inl _, db) \<Rightarrow> ([], db)
          | (Inr _, db) \<Rightarrow> (let db = tk_others t db in (refresh_controller_metrics (tk_second_fault t) db, db)))"

definition start_mh_health_checker :: "u64 \<Rightarrow> task_event list \<Rightarrow> gc_db \<Rightarrow> bool \<times> unit list \<times> gc_db" where
  "start_mh_health_checker staleness_threshold_seconds =
     start_generic_health_checker staleness_threshold_seconds
       (\<lambda>t threshold db. ((), snd (db_exec (tk_fault t) (mark_stale_handlers_unhealthy (tk_now t) threshold) db)))"

subsection \<open>Clean-up of assignments\<close>

record AssignmentCleanupConfig =
  cu_check_interval_seconds :: nat
  cu_inactivity_hours :: int
  cu_retention_days :: int

definition DEFAULT_CLEANUP_INTERVAL_SECONDS :: nat where "DEFAULT_CLEANUP_INTERVAL_SECONDS = 3600"
definition DEFAULT_INACTIVITY_HOURS :: int where "DEFAULT_INACTIVITY_HOURS = 1"
definition DEFAULT_RETENTION_DAYS :: int where "DEFAULT_RETENTION_DAYS = 7"

text \<open>\<open>str::parse::<i32>\<close>: an optional sign and digits, in range.\<close>

definition parse_i32 :: "string \<Rightarrow> int option" where
  "parse_i32 s =
     (case s of
        CHR ''-'' # ds \<Rightarrow>
          if ds = [] then None
          else (case parse_digits 0 ds of Some n \<Rightarrow> if n \<le> 2 ^ 31 then Some (- int n) else None | None \<Rightarrow> None)
      | _ \<Rightarrow> map_option int (parse_unsigned 31 s))"

definition cleanup_config_from_env :: "(string \<Rightarrow> string option) \<Rightarrow> AssignmentCleanupConfig" where
  "cleanup_config_from_env env =
     \<lparr>cu_check_interval_seconds =
        (case Option.bind (env ''GC_CLEANUP_INTERVAL_SECONDS'') (parse_unsigned 64) of Some n \<Rightarrow> n | None \<Rightarrow> DEFAULT_CLEANUP_INTERVAL_SECONDS),
      cu_inactivity_hours =
        (case Option.bind (env ''GC_INACTIVITY_HOURS'') parse_i32 of Some n \<Rightarrow> n | None \<Rightarrow> DEFAULT_INACTIVITY_HOURS),
      cu_retention_days =
        (case Option.bind (env ''GC_RETENTION_DAYS'') parse_i32 of Some n \<Rightarrow> n | None \<Rightarrow> DEFAULT_RETENTION_DAYS)\<rparr>"

definition run_cleanup :: "AssignmentCleanupConfig \<Rightarrow> tick \<Rightarrow> gc_db \<Rightarrow> unit \<times> gc_db" where
  "run_cleanup config t db =
     (let db = snd (db_exec (tk_fault t) (end_stale_assignments (tk_now t) (cu_inactivity_hours config) None) db);
          db = tk_others t db
      in ((), snd (db_exec (tk_second_fault t) (cleanup_old_assignments (tk_second_now t) (cu_retention_days config) None) db)))"

text \<open>\<open>tokio::time::interval\<close> panics when the period is zero: the task dies before its first clean-up.\<close>

definition start_assignment_cleanup :: "AssignmentCleanupConfig \<Rightarrow> task_event list \<Rightarrow> gc_db \<Rightarrow> (bool \<times> unit list \<times> gc_db) option" where
  "start_assignment_cleanup config es db =
     (if cu_check_interval_seconds config = 0 then None else Some (task_loop (run_cleanup config) es db))"

section \<open>Calls through the gate\<close>

definition gc_call ::
  "jwt_lib \<Rightarrow> validate_env \<Rightarrow> JwtValidator \<Rightarrow> rpc_request
     \<Rightarrow> (gc_db \<Rightarrow> ('r, Status) result \<times> gauge_update list \<times> gc_db) \<Rightarrow> gc_db \<Rightarrow> ('r, Status) result \<times> gauge_update list \<times> gc_db"
where
  "gc_call K ve v r handler db =
     (case fst (gc_grpc_auth K ve r v) of Inl s \<Rightarrow> (Err s, [], db) | Inr claims \<Rightarrow> handler db)"

text \<open>
  The claims of the caller never reach a handler: whatever two services are admitted on a path, the same request has
  the same effect, whichever controller or handler it names.
\<close>

lemma caller_identity_ignored:
  assumes "fst (gc_grpc_auth K ve r v) = Ok c" "fst (gc_grpc_auth K' ve' r' v') = Ok c'"
  shows "gc_call K ve v r handler db = gc_call K' ve' v' r' handler db"
  using assms by (simp add: gc_call_def)

end
