(* ===== verification/GC_Service_Props.thy ===== *)
theory GC_Service_Props
  imports GC_Services
begin

text \<open>
  What the gRPC services and the tasks of the Global Controller guarantee: the tables of controllers and handlers stay
  well formed, silent controllers leave the pool, load reports of handlers wrap around, the gauges are exact.
\<close>


section \<open>What the checks establish\<close>

lemma validate_identifier_Ok:
  "validate_identifier f n alnum s = Ok u \<longleftrightarrow> s \<noteq> [] \<and> length s \<le> n \<and> id_chars alnum s"
  by (simp add: validate_identifier_def)

lemma validate_region_Ok: "validate_region s = Ok u \<longleftrightarrow> s \<noteq> [] \<and> length s \<le> 50"
  by (auto simp: validate_region_def MAX_REGION_LENGTH_def)

lemma validate_capacity_Ok: "validate_capacity m p = Ok u \<longleftrightarrow> m \<noteq> 0 \<and> p \<noteq> 0"
  by (simp add: validate_capacity_def)

lemmas validate_ids = validate_controller_id_def validate_meeting_id_def validate_handler_id_def MAX_CONTROLLER_ID_LENGTH_def
  MAX_MEETING_ID_LENGTH_def MAX_HANDLER_ID_LENGTH_def validate_identifier_Ok

lemma i32_try_from_eq: "i32_try_from w = Some n \<longleftrightarrow> n = uint w \<and> n < 2 ^ 31"
  by (auto simp: i32_try_from_def)

lemma i32_saturating_eq: "i32_saturating w = min (uint w) (2 ^ 31 - 1)"
  by (simp add: i32_saturating_def i32_try_from_def min_def)

lemma as_i32_eq: "as_i32 w = (if uint w < 2 ^ 31 then uint w else uint w - 2 ^ 32)"
proof -
  have s: "sint w = (uint w + 2 ^ 31) mod 2 ^ 32 - 2 ^ 31"
    by (simp add: sint_uint signed_take_bit_eq_take_bit_shift take_bit_eq_mod)
  have u: "0 \<le> uint w" "uint w < 2 ^ 32" using uint_lt2p [of w] by simp_all
  have "(uint w + 2 ^ 31) mod 2 ^ 32 = (if uint w < 2 ^ 31 then uint w + 2 ^ 31 else uint w - 2 ^ 31)"
  proof (cases "uint w < 2 ^ 31")
    case False
    have "(uint w + 2 ^ 31) mod 2 ^ 32 = (uint w - 2 ^ 31) mod 2 ^ 32"
      using mod_add_self2 [of "uint w - 2 ^ 31" "2 ^ 32"] by (simp add: add.commute)
    then show ?thesis using u False by simp
  qed (use u in simp)
  then show ?thesis using s by (simp add: as_i32_def)
qed

lemma as_db_str_status [simp]: "as_db_str h \<in> set CONTROLLER_STATUSES"
  by (cases h) (simp_all add: CONTROLLER_STATUSES_def)

section \<open>The registry\<close>

text \<open>
  What happens to the tables of controllers and handlers, one committed statement at a time: the calls of the two
  services, the placement of a meeting, the checks of the tasks and the two statements of the clean-up.  What others do
  between the statements of a call is another event.
\<close>

datatype gc_event =
    RegisterMcCall grpc_env RegisterMcRequest
  | HeartbeatCall grpc_env HeartbeatRequest
  | EndedCall grpc_env NotifyMeetingEndedRequest
  | RegisterMhCall grpc_env RegisterMhRequest
  | LoadReportCall grpc_env SendLoadReportRequest
  | Assign db_fault instant string string string string
  | CheckControllers u64 tick
  | CheckHandlers u64 tick
  | EndStale instant db_fault int
  | DropOld instant db_fault int

definition alone :: "grpc_env \<Rightarrow> grpc_env" where
  "alone e = e\<lparr>ge_others := (\<lambda>d. d)\<rparr>"

fun happens :: "gc_event \<Rightarrow> gc_db \<Rightarrow> gc_db" where
  "happens (RegisterMcCall e q) db = snd (snd (gc_register_mc (alone e) q db))"
| "happens (HeartbeatCall e q) db = snd (snd (fast_heartbeat (alone e) q db))"
| "happens (EndedCall e q) db = snd (snd (notify_meeting_ended (alone e) q db))"
| "happens (RegisterMhCall e q) db = snd (snd (gc_register_mh e q db))"
| "happens (LoadReportCall e q) db = snd (snd (send_load_report e q db))"
| "happens (Assign fault now mid region cid gc) db = snd (db_exec fault (upsert_assignment now mid region cid gc) db)"
| "happens (CheckControllers threshold t) db = snd (snd (start_health_checker threshold [Tick (t\<lparr>tk_others := (\<lambda>d. d)\<rparr>)] db))"
| "happens (CheckHandlers threshold t) db = snd (snd (start_mh_health_checker threshold [Tick t] db))"
| "happens (EndStale now fault hours) db = snd (db_exec fault (end_stale_assignments now hours None) db)"
| "happens (DropOld now fault days) db = snd (db_exec fault (cleanup_old_assignments now days None) db)"

definition empty_gc_db :: gc_db where
  "empty_gc_db = \<lparr>db_mcs = [], db_mhs = [], db_assignments = []\<rparr>"

definition controller_row_ok :: "McRow \<Rightarrow> bool" where
  "controller_row_ok r \<longleftrightarrow> mr_controller_id r \<noteq> [] \<and> length (mr_controller_id r) \<le> 255
     \<and> mr_region r \<noteq> [] \<and> length (mr_region r) \<le> 50
     \<and> 0 < mr_max_meetings r \<and> mr_max_meetings r < 2 ^ 31 \<and> 0 < mr_max_participants r \<and> mr_max_participants r < 2 ^ 31
     \<and> 0 \<le> mr_current_meetings r \<and> mr_current_meetings r < 2 ^ 31
     \<and> 0 \<le> mr_current_participants r \<and> mr_current_participants r < 2 ^ 31
     \<and> mr_health_status r \<in> set CONTROLLER_STATUSES"

definition handler_row_ok :: "MhRow \<Rightarrow> bool" where
  "handler_row_ok r \<longleftrightarrow> hr_handler_id r \<noteq> [] \<and> length (hr_handler_id r) \<le> 255
     \<and> hr_region r \<noteq> [] \<and> length (hr_region r) \<le> 50
     \<and> - (2 ^ 31) \<le> hr_max_streams r \<and> hr_max_streams r < 2 ^ 31 \<and> hr_max_streams r \<noteq> 0
     \<and> - (2 ^ 31) \<le> hr_current_streams r \<and> hr_current_streams r < 2 ^ 31
     \<and> hr_health_status r \<in> set CONTROLLER_STATUSES"

definition registry_ok :: "gc_db \<Rightarrow> bool" where
  "registry_ok db \<longleftrightarrow> (\<forall>r \<in> set (db_mcs db). controller_row_ok r) \<and> distinct (map mr_controller_id (db_mcs db))
     \<and> (\<forall>r \<in> set (db_mhs db). handler_row_ok r) \<and> distinct (map hr_handler_id (db_mhs db))"

text \<open>A statement that fails leaves the table as it was or as the statement makes it.\<close>

lemma db_exec_keeps: "I db \<Longrightarrow> I (snd (f db)) \<Longrightarrow> I (snd (db_exec fault f db))"
  by (cases fault) simp_all

lemma db_exec_cases: "snd (db_exec fault f db) \<in> {db, snd (f db)}"
  by (cases fault) simp_all

lemma registry_ok_mcs:
  assumes "registry_ok db" "\<And>r. mr_controller_id (f r) = mr_controller_id r"
    "\<And>r. controller_row_ok r \<Longrightarrow> controller_row_ok (f r)"
  shows "registry_ok (db\<lparr>db_mcs := map f (db_mcs db)\<rparr>)"
  using assms by (auto simp: registry_ok_def comp_def)

lemma registry_ok_mhs:
  assumes "registry_ok db" "\<And>r. hr_handler_id (f r) = hr_handler_id r"
    "\<And>r. handler_row_ok r \<Longrightarrow> handler_row_ok (f r)"
  shows "registry_ok (db\<lparr>db_mhs := map f (db_mhs db)\<rparr>)"
  using assms by (auto simp: registry_ok_def comp_def)

lemma register_mc_ok:
  assumes "registry_ok db" "cid \<noteq> []" "length cid \<le> 255" "region \<noteq> []" "length region \<le> 50"
    "0 < m" "m < 2 ^ 31" "0 < p" "p < 2 ^ 31"
  shows "registry_ok (snd (register_mc now cid region grpc wt m p db))"
proof (cases "\<exists>r \<in> set (db_mcs db). mr_controller_id r = cid")
  case True
  then show ?thesis unfolding register_mc_def
    using assms by (simp, intro registry_ok_mcs) (auto simp: controller_row_ok_def CONTROLLER_STATUSES_def)
next
  case False
  then show ?thesis using assms by (auto simp: register_mc_def registry_ok_def controller_row_ok_def CONTROLLER_STATUSES_def)
qed

lemma register_mh_ok:
  assumes "registry_ok db" "hid \<noteq> []" "length hid \<le> 255" "region \<noteq> []" "length region \<le> 50"
    "- (2 ^ 31) \<le> m" "m < 2 ^ 31" "m \<noteq> 0"
  shows "registry_ok (snd (register_mh now hid region wt grpc m db))"
proof (cases "\<exists>r \<in> set (db_mhs db). hr_handler_id r = hid")
  case True
  then show ?thesis unfolding register_mh_def
    using assms by (simp, intro registry_ok_mhs) (auto simp: handler_row_ok_def CONTROLLER_STATUSES_def)
next
  case False
  then show ?thesis using assms by (auto simp: register_mh_def registry_ok_def handler_row_ok_def CONTROLLER_STATUSES_def)
qed

lemma update_heartbeat_ok:
  assumes "registry_ok db" "0 \<le> m" "m < 2 ^ 31" "0 \<le> p" "p < 2 ^ 31"
  shows "registry_ok (snd (update_heartbeat now cid m p h db))"
  unfolding update_heartbeat_def using assms by (simp, intro registry_ok_mcs) (auto simp: controller_row_ok_def)

lemma update_load_report_ok:
  assumes "registry_ok db" "- (2 ^ 31) \<le> n" "n < 2 ^ 31"
  shows "registry_ok (snd (update_load_report now hid n h db))"
  unfolding update_load_report_def using assms by (simp, intro registry_ok_mhs) (auto simp: handler_row_ok_def)

lemma mark_stale_ok:
  assumes "registry_ok db"
  shows "registry_ok (snd (mark_stale_controllers_unhealthy now s db))" "registry_ok (snd (mark_stale_handlers_unhealthy now s db))"
  using assms
  by (simp_all add: mark_stale_controllers_unhealthy_def mark_stale_handlers_unhealthy_def)
    (auto intro!: registry_ok_mcs registry_ok_mhs simp: controller_row_ok_def handler_row_ok_def CONTROLLER_STATUSES_def)

lemma assignments_only:
  "db_mcs (snd (upsert_assignment now mid region cid gc db)) = db_mcs db" "db_mhs (snd (upsert_assignment now mid region cid gc db)) = db_mhs db"
  "db_mcs (snd (end_assignment now mid rg db)) = db_mcs db" "db_mhs (snd (end_assignment now mid rg db)) = db_mhs db"
  "db_mcs (snd (end_stale_assignments now hours b db)) = db_mcs db" "db_mhs (snd (end_stale_assignments now hours b db)) = db_mhs db"
  "db_mcs (snd (cleanup_old_assignments now days b db)) = db_mcs db" "db_mhs (snd (cleanup_old_assignments now days b db)) = db_mhs db"
  by (auto simp: upsert_assignment_def end_assignment_def end_stale_assignments_def cleanup_old_assignments_def Let_def split: option.split)

lemma registry_ok_cong: "db_mcs d = db_mcs db \<Longrightarrow> db_mhs d = db_mhs db \<Longrightarrow> registry_ok db \<Longrightarrow> registry_ok d"
  by (simp add: registry_ok_def)

lemma snd_case_result [simp]:
  "snd (snd (case x of (Inl s, d) \<Rightarrow> (a s d, g s d, d) | (Inr r, d) \<Rightarrow> (b r d, c r d, d))) = snd x"
  by (auto split: prod.split sum.split)

lemma alone_simps [simp]:
  "ge_alnum (alone e) = ge_alnum e" "ge_now (alone e) = ge_now e" "ge_fault (alone e) = ge_fault e" "ge_others (alone e) = (\<lambda>d. d)"
  "ge_count_fault (alone e) = ge_count_fault e" "ge_unix (alone e) = ge_unix e"
  by (simp_all add: alone_def)

lemma gc_register_mc_db:
  obtains "snd (snd (gc_register_mc (alone e) q db)) = db"
  | m p wt where "rm_id q \<noteq> []" "length (rm_id q) \<le> 255" "rm_region q \<noteq> []" "length (rm_region q) \<le> 50" "0 < m" "m < 2 ^ 31" "0 < p" "p < 2 ^ 31"
    "snd (snd (gc_register_mc (alone e) q db))
       = snd (db_exec (ge_fault e) (register_mc (ge_now e) (rm_id q) (rm_region q) (rm_grpc_endpoint q) wt m p) db)"
proof (cases "check_mc_request (ge_alnum e) q")
  case (Inl s)
  then show ?thesis by (intro that(1)) (simp add: gc_register_mc_def)
next
  case (Inr u)
  then have v: "rm_id q \<noteq> []" "length (rm_id q) \<le> 255" "rm_region q \<noteq> []" "length (rm_region q) \<le> 50"
    "0 < uint (rm_max_meetings q)" "0 < uint (rm_max_participants q)"
    by (auto simp: check_mc_request_def checks_Ok validate_ids validate_region_Ok validate_capacity_Ok word_neq_0_conv word_less_def)
  note unfold = gc_register_mc_def alone_simps Inr sum.case
  show ?thesis
  proof (cases "uint (rm_max_meetings q) < 2 ^ 31 \<and> uint (rm_max_participants q) < 2 ^ 31")
    case True
    then show ?thesis
      by (intro that(2) [OF v(1-5) _ v(6), where wt = "if rm_webtransport_endpoint q = [] then None else Some (rm_webtransport_endpoint q)"])
        (simp_all only: unfold i32_try_from_def option.case if_True Let_def snd_case_result)
  next
    case False
    then show ?thesis by (intro that(1)) (auto simp only: unfold i32_try_from_def option.case if_True if_False snd_conv split: if_split)
  qed
qed

lemma gc_register_mh_db:
  obtains "snd (snd (gc_register_mh e q db)) = db"
  | "rh_handler_id q \<noteq> []" "length (rh_handler_id q) \<le> 255" "rh_region q \<noteq> []" "length (rh_region q) \<le> 50" "rh_max_streams q \<noteq> 0"
    "snd (snd (gc_register_mh e q db)) = snd (db_exec (ge_fault e) (register_mh (ge_now e) (rh_handler_id q) (rh_region q)
       (rh_webtransport_endpoint q) (rh_grpc_endpoint q) (as_i32 (rh_max_streams q))) db)"
proof (cases "check_mh_request (ge_alnum e) q")
  case (Inl s)
  then show ?thesis by (intro that(1)) (simp add: gc_register_mh_def)
next
  case (Inr u)
  then have v: "rh_handler_id q \<noteq> []" "length (rh_handler_id q) \<le> 255" "rh_region q \<noteq> []" "length (rh_region q) \<le> 50" "rh_max_streams q \<noteq> 0"
    by (auto simp: check_mh_request_def checks_Ok validate_ids validate_region_Ok split: if_splits)
  show ?thesis by (rule that(2) [OF v]) (simp only: gc_register_mh_def Inr sum.case snd_case_result)
qed

lemma fast_heartbeat_db:
  obtains "snd (snd (fast_heartbeat (alone e) q db)) = db"
  | m p h where "0 \<le> m" "m < 2 ^ 31" "0 \<le> p" "p < 2 ^ 31" "snd (snd (fast_heartbeat (alone e) q db))
      = snd (db_exec (ge_fault e) (update_heartbeat (ge_now e) (hb_controller_id q) m p h) db)"
proof (cases "\<exists>c. validate_controller_id (ge_alnum e) (hb_controller_id q) = Ok () \<and> hb_capacity q = Some c")
  case True
  then obtain c where c: "validate_controller_id (ge_alnum e) (hb_controller_id q) = Ok ()" "hb_capacity q = Some c" by blast
  show ?thesis
    by (rule that(2) [of "i32_saturating (cap_current_meetings c)" "i32_saturating (cap_current_participants c)" "health_from_proto (hb_health q)"])
      (auto simp: i32_saturating_eq fast_heartbeat_def c Let_def split: prod.split sum.split)
next
  case False
  then show ?thesis by (intro that(1)) (auto simp: fast_heartbeat_def split: sum.split option.split)
qed

lemma send_load_report_db:
  obtains "snd (snd (send_load_report e q db)) = db"
  | "snd (snd (send_load_report e q db)) = snd (db_exec (ge_fault e)
      (update_load_report (ge_now e) (lr_handler_id q) (as_i32 (lr_current_streams q)) (load_health (lr_health q))) db)"
  by (cases "validate_handler_id (ge_alnum e) (lr_handler_id q)") (auto simp: send_load_report_def split: prod.splits sum.splits)

lemma u32_nat:
  fixes w :: u32
  obtains n where "unat w = n" "uint w = int n" "n < 2 ^ 32"
  using unsigned_less [of w, where ?'a = nat] by simp

lemma as_i32_range: "- (2 ^ 31) \<le> as_i32 w" "as_i32 w < 2 ^ 31" "as_i32 w = 0 \<longleftrightarrow> w = 0"
proof -
  obtain n where n: "unat w = n" "uint w = int n" "n < 2 ^ 32" by (rule u32_nat)
  show "- (2 ^ 31) \<le> as_i32 w" "as_i32 w < 2 ^ 31" using n(3) by (simp_all add: as_i32_eq n(2))
  have "as_i32 w = 0 \<longleftrightarrow> n = 0" using n(3) by (auto simp: as_i32_eq n(2))
  then show "as_i32 w = 0 \<longleftrightarrow> w = 0" using n(1) unat_eq_0 [of w] by simp
qed

lemma as_i32_less: "as_i32 v < as_i32 w \<longleftrightarrow>
    (if unat w < 2 ^ 31 then unat v < unat w \<or> 2 ^ 31 \<le> unat v else 2 ^ 31 \<le> unat v \<and> unat v < unat w)"
proof -
  obtain n where n: "unat w = n" "uint w = int n" "n < 2 ^ 32" by (rule u32_nat)
  obtain m where m: "unat v = m" "uint v = int m" "m < 2 ^ 32" by (rule u32_nat)
  show ?thesis using n(3) m(3) by (auto simp: as_i32_eq n(1,2) m(1,2))
qed

lemma registry_exec: "registry_ok db \<Longrightarrow> registry_ok (snd (f db)) \<Longrightarrow> registry_ok (snd (db_exec fault f db))"
  by (rule db_exec_keeps)

lemma check_controllers_db:
  "happens (CheckControllers s t) db = snd (db_exec (tk_fault t) (mark_stale_controllers_unhealthy (tk_now t) (sint s)) db)"
  by (auto simp: start_health_checker_def start_generic_health_checker_def Let_def split: prod.split sum.split)

lemma check_handlers_db:
  "happens (CheckHandlers s t) db = snd (db_exec (tk_fault t) (mark_stale_handlers_unhealthy (tk_now t) (sint s)) db)"
  by (simp add: start_mh_health_checker_def start_generic_health_checker_def)

lemma notify_meeting_ended_db: "db_mcs (happens (EndedCall e q) db) = db_mcs db" "db_mhs (happens (EndedCall e q) db) = db_mhs db"
  using db_exec_cases [of "ge_fault e" "end_assignment (ge_now e) (ne_meeting_id q) (Some (ne_region q))" db]
  by (auto simp: notify_meeting_ended_def assignments_only split: sum.split)

lemma happens_ok: "registry_ok db \<Longrightarrow> registry_ok (happens ev db)"
proof (cases ev)
  case (RegisterMcCall e q)
  assume "registry_ok db"
  then show ?thesis unfolding RegisterMcCall happens.simps
    by (cases rule: gc_register_mc_db [of e q db]) (simp_all only: registry_exec register_mc_ok not_False_eq_True)
next
  case (HeartbeatCall e q)
  assume "registry_ok db"
  then show ?thesis unfolding HeartbeatCall happens.simps
    by (cases rule: fast_heartbeat_db [of e q db]) (simp_all only: registry_exec update_heartbeat_ok)
next
  case (RegisterMhCall e q)
  assume "registry_ok db"
  then show ?thesis unfolding RegisterMhCall happens.simps
    by (cases rule: gc_register_mh_db [of e q db]) (simp_all only: registry_exec register_mh_ok as_i32_range not_False_eq_True)
next
  case (LoadReportCall e q)
  assume "registry_ok db"
  then show ?thesis unfolding LoadReportCall happens.simps
    by (cases rule: send_load_report_db [of e q db]) (simp_all only: registry_exec update_load_report_ok as_i32_range)
next
  case (CheckControllers s t)
  assume "registry_ok db"
  then show ?thesis unfolding CheckControllers check_controllers_db by (intro registry_exec mark_stale_ok)
next
  case (CheckHandlers s t)
  assume "registry_ok db"
  then show ?thesis unfolding CheckHandlers check_handlers_db by (intro registry_exec mark_stale_ok)
next
  case (EndedCall e q)
  assume "registry_ok db"
  then show ?thesis unfolding EndedCall by (rule registry_ok_cong [rotated 2]) (rule notify_meeting_ended_db)+
qed (auto intro: registry_exec registry_ok_cong [OF assignments_only(1,2)] registry_ok_cong [OF assignments_only(5,6)]
       registry_ok_cong [OF assignments_only(7,8)])

text \<open>
  C20. Whatever calls reach the Global Controller and however its tasks interleave with them, starting from an empty
  database: controllers and handlers keep one row each, with an identifier of 1 to 255 bytes, a region of 1 to 50 and a
  known health; a controller's limits are positive and its counters not negative, all below \<open>2 ^ 31\<close>.  Of a handler
  only the range of the numbers is guaranteed: its limit and its load may be negative.
\<close>

theorem registry_always_ok: "registry_ok (fold happens evs empty_gc_db)"
proof -
  have "registry_ok db \<Longrightarrow> registry_ok (fold happens evs db)" for db
  proof (induction evs arbitrary: db)
    case (Cons ev evs)
    show ?case unfolding fold_Cons comp_def using Cons.IH happens_ok [OF Cons.prems] by blast
  qed simp
  moreover have "registry_ok empty_gc_db" by (simp add: registry_ok_def empty_gc_db_def)
  ultimately show ?thesis by blast
qed

section \<open>Load reports wrap around\<close>

lemma db_exec_Ok: "db_exec fault f db = (Ok a, d) \<longleftrightarrow> fault = DbOk \<and> a = fst (f db) \<and> d = snd (f db)"
  by (cases fault) auto

lemma send_load_report_ok:
  assumes "send_load_report e q db = (Ok resp, g, db')"
  shows "db' = snd (update_load_report (ge_now e) (lr_handler_id q) (as_i32 (lr_current_streams q)) (load_health (lr_health q)) db)"
  using assms by (auto simp: send_load_report_def db_exec_Ok split: sum.splits prod.splits if_splits)

lemma gc_register_mh_okD:
  assumes "gc_register_mh e q db = (Ok resp, g, db')"
  shows "db' = snd (register_mh (ge_now e) (rh_handler_id q) (rh_region q) (rh_webtransport_endpoint q) (rh_grpc_endpoint q)
      (as_i32 (rh_max_streams q)) db)"
  using assms by (auto simp: gc_register_mh_def db_exec_Ok split: sum.splits prod.splits)

lemma registered_row: "r \<in> set (db_mhs (snd (register_mh now hid region wt grpc m db))) \<Longrightarrow> hr_handler_id r = hid
   \<Longrightarrow> hr_region r = region \<and> hr_max_streams r = m"
  by (simp add: register_mh_def image_iff split: if_splits) (elim bexE disjE; simp split: if_splits)+

lemma reported_row:
  assumes "r \<in> set (db_mhs (snd (update_load_report now hid n h db)))" "hr_handler_id r = hid"
  shows "(\<exists>r0 \<in> set (db_mhs db). hr_handler_id r0 = hid \<and> hr_region r = hr_region r0 \<and> hr_max_streams r = hr_max_streams r0)
    \<and> hr_current_streams r = n \<and> hr_health_status r = as_db_str h \<and> hr_last_heartbeat_at r = now"
proof -
  have "\<exists>x \<in> set (db_mhs db) \<inter> {r. hr_handler_id r = hid}.
      r = x\<lparr>hr_current_streams := n, hr_health_status := as_db_str h, hr_last_heartbeat_at := now\<rparr>"
    using assms by (simp add: update_load_report_def image_iff)
  then obtain r0 where r0: "r0 \<in> set (db_mhs db)" "hr_handler_id r0 = hid"
    "r = r0\<lparr>hr_current_streams := n, hr_health_status := as_db_str h, hr_last_heartbeat_at := now\<rparr>" by blast
  show ?thesis unfolding r0(3) using r0(1,2) by (intro conjI bexI [of _ r0]) simp_all
qed

text \<open>
  The load that a Media Handler reports is stored as a signed number without a check: a handler that registered with
  a limit of \<open>M\<close> streams and then reports itself healthy with \<open>n\<close> streams is offered for new meetings if
  \<open>n\<close> is below \<open>M\<close>, as intended, but also whenever \<open>n\<close> is \<open>2 ^ 31\<close> or more and \<open>M\<close> is not; and a handler with a
  limit of \<open>2 ^ 31\<close> or more is refused all load below \<open>2 ^ 31\<close>.
\<close>

theorem handler_load_wraps:
  assumes "gc_register_mh e q db = (Ok resp, g, db1)" "send_load_report e' q' db1 = (Ok resp', g', db2)"
    and "lr_handler_id q' = rh_handler_id q" "lr_health q' = 1"
    and "r \<in> set (db_mhs db2)" "hr_handler_id r = rh_handler_id q"
  shows "mh_eligible (ge_now e') (rh_region q) r \<longleftrightarrow>
    (let n = unat (lr_current_streams q'); M = unat (rh_max_streams q)
     in if M < 2 ^ 31 then n < M \<or> 2 ^ 31 \<le> n else 2 ^ 31 \<le> n \<and> n < M)"
proof -
  have "load_health (lr_health q') = HsHealthy" using assms(4) by (simp add: load_health_def)
  then obtain r0 where r0: "r0 \<in> set (db_mhs db1)" "hr_handler_id r0 = rh_handler_id q" "hr_region r = hr_region r0"
    "hr_max_streams r = hr_max_streams r0" "hr_current_streams r = as_i32 (lr_current_streams q')" "hr_health_status r = ''healthy''"
    "hr_last_heartbeat_at r = ge_now e'"
    using reported_row [of r "ge_now e'" "lr_handler_id q'" "as_i32 (lr_current_streams q')" "load_health (lr_health q')" db1]
      assms(3,5,6) send_load_report_ok [OF assms(2)] by auto
  have "hr_region r0 = rh_region q \<and> hr_max_streams r0 = as_i32 (rh_max_streams q)"
    using registered_row r0(1,2) gc_register_mh_okD [OF assms(1)] by blast
  then have "mh_eligible (ge_now e') (rh_region q) r \<longleftrightarrow> as_i32 (lr_current_streams q') < as_i32 (rh_max_streams q)"
    using r0 by (simp add: mh_eligible_def within_def DEFAULT_HEARTBEAT_STALENESS_SECONDS_def from_secs_def)
  then show ?thesis by (simp add: as_i32_less Let_def)
qed

definition demo_gc_env :: grpc_env where
  "demo_gc_env = \<lparr>ge_alnum = (\<lambda>_. False), ge_now = 5, ge_fault = DbOk, ge_others = (\<lambda>d. d), ge_count_fault = DbOk, ge_unix = 0\<rparr>"

definition demo_mh_request :: RegisterMhRequest where
  "demo_mh_request = \<lparr>rh_handler_id = ''mh-1'', rh_region = ''eu'', rh_webtransport_endpoint = ''https://mh'',
     rh_grpc_endpoint = ''http://mh'', rh_max_streams = 100\<rparr>"

definition demo_load_report :: SendLoadReportRequest where
  "demo_load_report = \<lparr>lr_handler_id = ''mh-1'', lr_current_streams = 3000000000, lr_health = 1\<rparr>"

definition demo_reported_row :: MhRow where
  "demo_reported_row = \<lparr>hr_handler_id = ''mh-1'', hr_region = ''eu'', hr_webtransport_endpoint = ''https://mh'', hr_grpc_endpoint = ''http://mh'',
     hr_max_streams = 100, hr_current_streams = - 1294967296, hr_health_status = ''healthy'', hr_last_heartbeat_at = 5\<rparr>"

lemma demo_handler_registered:
  "gc_register_mh demo_gc_env demo_mh_request empty_gc_db =
    (Ok \<lparr>rhr_accepted = True, rhr_message = ''Registered successfully'', rhr_load_report_interval_ms = 10000\<rparr>, [],
     snd (register_mh 5 ''mh-1'' ''eu'' ''https://mh'' ''http://mh'' 100 empty_gc_db))"
proof -
  have "check_mh_request (\<lambda>_. False) demo_mh_request = Ok ()" by code_simp
  then show ?thesis
    by (simp add: gc_register_mh_def demo_gc_env_def demo_mh_request_def as_i32_eq DEFAULT_LOAD_REPORT_INTERVAL_MS_def)
qed

lemma demo_reported:
  "send_load_report demo_gc_env demo_load_report (snd (register_mh 5 ''mh-1'' ''eu'' ''https://mh'' ''http://mh'' 100 empty_gc_db)) =
    (Ok \<lparr>hbr_acknowledged = True, hbr_timestamp = 0\<rparr>, [], \<lparr>db_mcs = [], db_mhs = [demo_reported_row], db_assignments = []\<rparr>)"
proof -
  have "validate_handler_id (\<lambda>_. False) ''mh-1'' = Ok ()" by code_simp
  then show ?thesis
    by (simp add: send_load_report_def demo_gc_env_def demo_load_report_def as_i32_eq register_mh_def update_load_report_def
        empty_gc_db_def demo_reported_row_def load_health_def)
qed

theorem handler_load_wraps_witness:
  "mh_eligible 5 ''eu'' demo_reported_row \<and> unat (lr_current_streams demo_load_report) > 100"
  using handler_load_wraps [OF demo_handler_registered demo_reported, of demo_reported_row]
  by (simp add: demo_load_report_def demo_mh_request_def demo_reported_row_def demo_gc_env_def)

text \<open>Meeting Controllers are different: their counters saturate, so a controller with that many meetings is never offered.\<close>

lemma controller_load_saturates:
  assumes "registry_ok db" "2 ^ 31 \<le> uint w" "r \<in> set (db_mcs (snd (update_heartbeat now cid (i32_saturating w) p h db)))"
    "mr_controller_id r = cid"
  shows "\<not> mc_eligible now' region r"
proof -
  have w: "i32_saturating w = 2 ^ 31 - 1" using assms(2) by (simp add: i32_saturating_eq min_def)
  have "\<exists>x \<in> set (db_mcs db) \<inter> {r. mr_controller_id r = cid}.
      r = x\<lparr>mr_current_meetings := i32_saturating w, mr_current_participants := p, mr_health_status := as_db_str h, mr_last_heartbeat_at := now\<rparr>"
    using assms(3,4) by (simp add: update_heartbeat_def image_iff)
  then obtain x where x: "x \<in> set (db_mcs db)"
    "r = x\<lparr>mr_current_meetings := i32_saturating w, mr_current_participants := p, mr_health_status := as_db_str h, mr_last_heartbeat_at := now\<rparr>"
    by blast
  have "mr_max_meetings x < 2 ^ 31" using assms(1) x(1) by (simp add: registry_ok_def controller_row_ok_def)
  then show ?thesis unfolding x(2) mc_eligible_def w by simp
qed

section \<open>Controllers that fall silent\<close>

text \<open>The events that write the row of a controller on its behalf.\<close>

fun speaks_for :: "string \<Rightarrow> gc_event \<Rightarrow> bool" where
  "speaks_for cid (RegisterMcCall e q) \<longleftrightarrow> rm_id q = cid"
| "speaks_for cid (HeartbeatCall e q) \<longleftrightarrow> hb_controller_id q = cid"
| "speaks_for cid _ \<longleftrightarrow> False"

definition controller :: "string \<Rightarrow> gc_db \<Rightarrow> McRow option" where
  "controller cid db = find (\<lambda>r. mr_controller_id r = cid) (db_mcs db)"

lemma find_map_keeps: "(\<And>x. P (f x) = P x) \<Longrightarrow> find P (map f xs) = map_option f (find P xs)"
  by (induction xs) auto

lemma find_map_other: "(\<And>x. P x \<Longrightarrow> f x = x) \<Longrightarrow> (\<And>x. P (f x) = P x) \<Longrightarrow> find P (map f xs) = find P xs"
  by (induction xs) auto

lemma find_snoc_other: "\<not> P y \<Longrightarrow> find P (xs @ [y]) = find P xs"
  by (induction xs) auto

lemma controller_register_other: "cid \<noteq> c \<Longrightarrow> controller cid (snd (register_mc now c region grpc wt m p db)) = controller cid db"
  by (auto simp: controller_def register_mc_def find_snoc_other intro!: find_map_other)

lemma controller_heartbeat_other: "cid \<noteq> c \<Longrightarrow> controller cid (snd (update_heartbeat now c m p h db)) = controller cid db"
  by (auto simp: controller_def update_heartbeat_def intro!: find_map_other)

lemma controller_mark_stale: "controller cid (snd (mark_stale_controllers_unhealthy now s db)) =
    map_option (\<lambda>r. if stale_controller now s r then r\<lparr>mr_health_status := ''unhealthy''\<rparr> else r) (controller cid db)"
  by (simp add: controller_def mark_stale_controllers_unhealthy_def) (rule find_map_keeps, simp)

lemma controller_cong: "db_mcs d = db_mcs db \<Longrightarrow> controller cid d = controller cid db"
  by (simp add: controller_def)

lemma mhs_only: "db_mcs (snd (register_mh now hid region wt grpc m db)) = db_mcs db"
  "db_mcs (snd (update_load_report now hid n h db)) = db_mcs db" "db_mcs (snd (mark_stale_handlers_unhealthy now s db)) = db_mcs db"
  by (simp_all add: register_mh_def update_load_report_def mark_stale_handlers_unhealthy_def)

lemmas controller_others = mhs_only [THEN controller_cong] assignments_only(1,3,5,7) [THEN controller_cong]

lemma controller_exec:
  "controller cid (snd (f db)) = controller cid db \<Longrightarrow> controller cid (snd (db_exec fault f db)) = controller cid db"
  by (cases fault) simp_all

text \<open>An event that does not speak for a controller leaves its row or marks it unhealthy.\<close>

lemma silent_event:
  assumes "\<not> speaks_for cid ev" "controller cid db = Some r"
  shows "controller cid (happens ev db) \<in> {Some r, Some (r\<lparr>mr_health_status := ''unhealthy''\<rparr>)}
    \<and> (controller cid (happens ev db) \<noteq> Some r \<longrightarrow> mr_health_status r \<noteq> ''draining'')"
proof -
  have "controller cid (happens ev db) = controller cid db" if "\<forall>s t. ev \<noteq> CheckControllers s t"
  proof (cases ev)
    case (RegisterMcCall e q)
    then have "cid \<noteq> rm_id q" using assms(1) by auto
    then show ?thesis unfolding RegisterMcCall happens.simps
      by (cases rule: gc_register_mc_db [of e q db]) (simp_all only: controller_exec controller_register_other not_False_eq_True)
  next
    case (HeartbeatCall e q)
    then have "cid \<noteq> hb_controller_id q" using assms(1) by auto
    then show ?thesis unfolding HeartbeatCall happens.simps
      by (cases rule: fast_heartbeat_db [of e q db]) (simp_all only: controller_exec controller_heartbeat_other not_False_eq_True)
  next
    case (RegisterMhCall e q)
    show ?thesis unfolding RegisterMhCall happens.simps
      by (cases rule: gc_register_mh_db [of e q db]) (simp_all only: controller_exec controller_others)
  next
    case (LoadReportCall e q)
    show ?thesis unfolding LoadReportCall happens.simps
      by (cases rule: send_load_report_db [of e q db]) (simp_all only: controller_exec controller_others)
  next
    case (CheckHandlers s t)
    show ?thesis unfolding CheckHandlers check_handlers_db by (intro controller_exec controller_others)
  next
    case (EndedCall e q)
    show ?thesis unfolding EndedCall by (intro controller_cong notify_meeting_ended_db)
  next
    case (CheckControllers s t)
    then show ?thesis using that by blast
  qed (simp_all only: happens.simps controller_exec controller_others)
  moreover have "?thesis" if "ev = CheckControllers s t" for s t
    unfolding that check_controllers_db using assms(2) controller_mark_stale [of cid "tk_now t" "sint s" db]
    by (cases "tk_fault t") (auto simp: stale_controller_def)
  ultimately show ?thesis
    using assms(2) by (cases "\<exists>s t. ev = CheckControllers s t") (auto simp del: happens.simps)
qed

lemma silent_events:
  assumes "\<forall>ev \<in> set evs. \<not> speaks_for cid ev" "controller cid db = Some r"
  shows "\<exists>r'. controller cid (fold happens evs db) = Some r' \<and> mr_last_heartbeat_at r' = mr_last_heartbeat_at r
    \<and> (mr_health_status r' = mr_health_status r \<or> mr_health_status r' = ''unhealthy'')
    \<and> (mr_health_status r \<in> {''unhealthy'', ''draining''} \<longrightarrow> mr_health_status r' \<in> {''unhealthy'', ''draining''})"
  using assms
proof (induction evs arbitrary: db r)
  case (Cons ev evs)
  then obtain r1 where r1: "controller cid (happens ev db) = Some r1" "r1 \<in> {r, r\<lparr>mr_health_status := ''unhealthy''\<rparr>}"
    using silent_event [of cid ev db r] by fastforce
  then obtain r' where "controller cid (fold happens evs (happens ev db)) = Some r'" "mr_last_heartbeat_at r' = mr_last_heartbeat_at r1"
    "mr_health_status r' = mr_health_status r1 \<or> mr_health_status r' = ''unhealthy''"
    "mr_health_status r1 \<in> {''unhealthy'', ''draining''} \<longrightarrow> mr_health_status r' \<in> {''unhealthy'', ''draining''}"
    using Cons.IH [of "happens ev db" r1] Cons.prems by auto
  then show ?case using r1(2) by (auto simp del: happens.simps)
qed simp

text \<open>
  C22. A Meeting Controller that stops sending heartbeats leaves the pool: after a check of the health checker that runs
  later than its threshold after the last heartbeat, whatever else happens before and after it as long as nothing
  speaks for the controller, the controller is unhealthy or draining and is offered for no meeting in any region at
  any time.
\<close>

theorem silent_controller_leaves_pool:
  assumes "controller cid db = Some r" "\<forall>ev \<in> set (before @ after). \<not> speaks_for cid ev"
    and "tk_fault t = DbOk" "int (mr_last_heartbeat_at r) + sint threshold * 1000000000 < int (tk_now t)"
  shows "\<exists>r'. controller cid (fold happens (before @ CheckControllers threshold t # after) db) = Some r'
    \<and> mr_health_status r' \<in> {''unhealthy'', ''draining''} \<and> (\<forall>now region. \<not> mc_eligible now region r')"
proof -
  obtain r1 where r1: "controller cid (fold happens before db) = Some r1" "mr_last_heartbeat_at r1 = mr_last_heartbeat_at r"
    using silent_events [of before cid db r] assms(1,2) by auto
  then have "controller cid (happens (CheckControllers threshold t) (fold happens before db)) =
      Some (if stale_controller (tk_now t) (sint threshold) r1 then r1\<lparr>mr_health_status := ''unhealthy''\<rparr> else r1)"
    unfolding check_controllers_db using assms(3) controller_mark_stale by simp
  moreover have "mr_health_status (if stale_controller (tk_now t) (sint threshold) r1
      then r1\<lparr>mr_health_status := ''unhealthy''\<rparr> else r1) \<in> {''unhealthy'', ''draining''}"
    using assms(4) r1(2) by (auto simp: stale_controller_def older_secs_def from_secs_def)
  ultimately obtain r' where "controller cid (fold happens after (happens (CheckControllers threshold t) (fold happens before db))) = Some r'"
    "mr_health_status r' \<in> {''unhealthy'', ''draining''}"
    using silent_events [of after cid] assms(2) by fastforce
  then show ?thesis by (auto simp: mc_eligible_def simp del: happens.simps)
qed

definition demo_silent_db :: gc_db where
  "demo_silent_db = \<lparr>db_mcs = [demo_mc ''mc-1''], db_mhs = [], db_assignments = []\<rparr>"

definition demo_tick :: "instant \<Rightarrow> tick" where
  "demo_tick now = \<lparr>tk_now = now, tk_fault = DbOk, tk_others = (\<lambda>d. d), tk_second_now = now, tk_second_fault = DbOk\<rparr>"

theorem silent_controller_leaves_pool_witness:
  "mr_health_status (demo_mc ''mc-1'') = ''healthy''
   \<and> (\<exists>r'. controller ''mc-1'' (fold happens ([] @ CheckControllers 30 (demo_tick (mr_last_heartbeat_at (demo_mc ''mc-1'') + 31000000000)) # []) demo_silent_db) = Some r'
        \<and> mr_health_status r' \<in> {''unhealthy'', ''draining''} \<and> (\<forall>now region. \<not> mc_eligible now region r'))"
proof (intro conjI silent_controller_leaves_pool)
  show "controller ''mc-1'' demo_silent_db = Some (demo_mc ''mc-1'')" by (simp add: controller_def demo_silent_db_def demo_mc_def)
qed (simp_all add: demo_mc_def demo_tick_def)

section \<open>Gauges and configuration\<close>

lemma hm_get_fold_insert:
  "distinct (map fst kvs) \<Longrightarrow> hm_get (fold (\<lambda>(k, v) m. hm_insert k v m) kvs m) k =
    (case map_of kvs k of Some v \<Rightarrow> Some v | None \<Rightarrow> hm_get m k)"
proof (induction kvs arbitrary: m)
  case (Cons kv kvs)
  obtain a b where kv: "kv = (a, b)" by fastforce
  have "map_of kvs a = None" using Cons.prems kv by (simp add: map_of_eq_None_iff)
  then show ?case using Cons kv by (auto split: option.split)
qed simp

lemma as_from_db_str: "s \<in> set CONTROLLER_STATUSES \<Longrightarrow> as_db_str (from_db_str s) = s"
  by (auto simp: CONTROLLER_STATUSES_def from_db_str_def)

text \<open>After a refresh the gauge of every status is the number of rows of that status, also when it is zero.\<close>

lemma gauges_exact:
  assumes "\<forall>r \<in> set (db_mcs db). mr_health_status r \<in> set CONTROLLER_STATUSES"
  shows "refresh_controller_metrics DbOk db =
    map (\<lambda>s. (''meeting'', s, length (filter (\<lambda>r. mr_health_status r = s) (db_mcs db)))) CONTROLLER_STATUSES"
proof -
  let ?n = "\<lambda>s. length (filter (\<lambda>r. mr_health_status r = s) (db_mcs db))"
  let ?ss = "remdups (map mr_health_status (db_mcs db))"
  have "map (\<lambda>(s, n). (as_db_str s, n)) (fst (get_controller_counts_by_status db)) = map (\<lambda>s. (s, ?n s)) ?ss"
    using assms by (auto simp: get_controller_counts_by_status_def as_from_db_str)
  moreover have "hm_get (fold (\<lambda>(k, v) m. hm_insert k v m) (map (\<lambda>s. (s, ?n s)) ?ss) []) s =
      (if s \<in> mr_health_status ` set (db_mcs db) then Some (?n s) else None)" for s
    by (subst hm_get_fold_insert) (auto simp: comp_def map_of_map_restrict restrict_map_def)
  moreover have "?n s = 0" if "s \<notin> mr_health_status ` set (db_mcs db)" for s
    using that by (auto simp: filter_empty_conv)
  ultimately show ?thesis
    by (auto simp: refresh_controller_metrics_def update_registered_controller_gauges_def Let_def)
qed

text \<open>A controller and a handler that report a health the service does not know are treated differently.\<close>

lemma unknown_health: "n \<notin> {0, 1, 2, 3, 4} \<Longrightarrow> health_from_proto n = HsUnhealthy \<and> load_health n = HsPending"
  by (simp add: health_from_proto_def load_health_def)

text \<open>The configured interval may be zero, which kills the task, and the ages may be negative: then every ended assignment is deleted at once.\<close>

lemma zero_interval_accepted:
  assumes "env ''GC_CLEANUP_INTERVAL_SECONDS'' = Some ''0''"
  shows "start_assignment_cleanup (cleanup_config_from_env env) es db = None"
proof -
  have "parse_unsigned 64 ''0'' = Some 0" by (simp add: parse_unsigned_def digit_value_def)
  then show ?thesis using assms by (simp add: cleanup_config_from_env_def start_assignment_cleanup_def)
qed

lemma negative_retention_deletes_now:
  assumes "env ''GC_RETENTION_DAYS'' = Some ''-1''" "ar_ended_at a = Some t" "t \<le> now"
  shows "expired_assignment now (cu_retention_days (cleanup_config_from_env env)) a"
proof -
  have "parse_i32 ''-1'' = Some (- 1)" by (simp add: parse_i32_def digit_value_def)
  then show ?thesis using assms by (simp add: cleanup_config_from_env_def expired_assignment_def older_secs_def from_secs_def)
qed

text \<open>A task returns at its cancellation and only then, and does not touch the database afterwards.\<close>

lemma task_stops: "fst (task_loop body es db) \<longleftrightarrow> Cancelled \<in> set es"
  by (induction body es db rule: task_loop.induct) (auto split: prod.splits)

lemma task_ignores_rest: "task_loop body (es @ Cancelled # rest) db = task_loop body (es @ [Cancelled]) db"
  by (induction body es db rule: task_loop.induct) (auto split: prod.splits)

end
