(* ===== verification/MC_Connection.thy ===== *)
theory MC_Connection
  imports Access MC_Meeting MC_Participant MC_Fencing
begin

text \<open>
  The connection task of the Meeting Controller (\<open>mc-service/src/webtransport/connection.rs\<close>): the handshake, the token
  check, the join through the controller, the answer, the registration of the meeting with its Media Handlers by the
  first participant (with the client of \<open>grpc/mh_client.rs\<close>), and the loop that bridges the participant actor and the
  stream.  Tracing is left out; the order of everything else the task does is its list of events.
\<close>

section \<open>Messages and environment\<close>

record JoinRequest =
  jq_meeting_id :: string
  jq_join_token :: string
  jq_participant_name :: string

text \<open>The variants of a client message that the code tells apart.\<close>

datatype client_variant = JoinRequestMsg JoinRequest | MediaConnectionUpdateMsg | OtherClientMsg

record ProtoParticipant =
  pp_participant_id :: string
  pp_name :: string

record JoinResponse =
  js_participant_id :: string
  js_existing_participants :: "ProtoParticipant list"
  js_media_servers :: "string list"
  js_correlation_id :: string
  js_binding_token :: string

datatype signaling_message = SmJoinResponse JoinResponse | SmError int string

definition MAX_PARTICIPANT_NAME_LEN :: nat where "MAX_PARTICIPANT_NAME_LEN = 256"
definition MAX_REGISTER_ATTEMPTS :: nat where "MAX_REGISTER_ATTEMPTS = 3"
definition REGISTER_BACKOFF_DELAYS :: "duration list" where "REGISTER_BACKOFF_DELAYS = [from_secs 1, from_secs 2]"

definition INVALID_REQUEST :: int where "INVALID_REQUEST = 1"
definition UNAUTHORIZED :: int where "UNAUTHORIZED = 2"
definition INTERNAL_ERROR :: int where "INTERNAL_ERROR = 6"

text \<open>What the task does, in order, apart from what it returns.\<close>

datatype conn_event =
    SessionJoin string "string option"
  | MeetingJwt string string
  | SendError int string
  | SendJoinResponse JoinResponse
  | SpawnRegisterMeeting MhAssignmentData
  | WriteFrame "u8 list"
  | ClientMessageHandled "u8 list"
  | ParticipantCancel nat

text \<open>
  What a connection meets: the steps of the transport that may fail, the stream of the client, the protobuf codec
  (\<open>prost\<close>), the token library with the clock and the key server, the identifiers drawn, how the answer is written,
  and the fate of the read from Redis.  Asking the controller and the meeting is the argument \<open>join\<close> of the definitions.
\<close>

record 's conn_env =
  cx_request_err :: "string option"
  cx_accept_err :: "string option"
  cx_bi_err :: "string option"
  cx_read_exact :: "nat \<Rightarrow> 's \<Rightarrow> (u8 list \<times> 's) option"
  cx_decode :: "u8 list \<Rightarrow> client_variant option option"
  cx_encode :: "signaling_message \<Rightarrow> u8 list"
  cx_jwt :: jwt_lib
  cx_jwt_env :: validate_env
  cx_validator :: JwtValidator
  cx_connection_id :: string
  cx_participant_id :: string
  cx_write_err :: "u8 list \<Rightarrow> string option"
  cx_json :: json_ops
  cx_redis_fault :: fault

text \<open>The answers to a join: not sent, the reply channel dropped, or the meeting's reply.\<close>

datatype join_reply = JoinNotSent McError | JoinDropped | JoinReplied "(JoinResult, McError) result"

section \<open>Framing\<close>

definition mc_read_framed_message ::
  "(nat \<Rightarrow> 's \<Rightarrow> (u8 list \<times> 's) option) \<Rightarrow> 's \<Rightarrow> (u8 list \<times> 's, McError) result" where
  "mc_read_framed_message = read_framed MC_Types.Internal"

definition write_framed :: "(u8 list \<Rightarrow> string option) \<Rightarrow> u8 list \<Rightarrow> (unit, McError) result" where
  "write_framed write_err data =
     (case write_raw_framed MC_Types.Internal data of
        Inl err \<Rightarrow> Err err
      | Inr frame \<Rightarrow> (case write_err frame of Some e \<Rightarrow> Err (MC_Types.Internal (''Stream write failed: '' @ e)) | None \<Rightarrow> Ok ()))"

definition write_framed_message :: "'s conn_env \<Rightarrow> signaling_message \<Rightarrow> (unit, McError) result" where
  "write_framed_message e msg = write_framed (cx_write_err e) (cx_encode e msg)"

section \<open>The join\<close>

definition build_join_response ::
  "json_ops \<Rightarrow> fault \<Rightarrow> JoinResult \<Rightarrow> string \<Rightarrow> redis \<Rightarrow> (JoinResponse \<times> MhAssignmentData, McError) result" where
  "build_join_response J f r meeting_id s =
     (let existing_participants = map (\<lambda>p. \<lparr>pp_participant_id = pi_participant_id p, pp_name = pi_display_name p\<rparr>) (jr_participants r)
      in case fst (get_mh_assignment J f meeting_id s) of
           Inl err \<Rightarrow> Err err
         | Inr None \<Rightarrow> Err (MhAssignmentMissing meeting_id)
         | Inr (Some mh_data) \<Rightarrow>
             Ok (\<lparr>js_participant_id = jr_participant_id r, js_existing_participants = existing_participants,
                  js_media_servers = map ep_webtransport_endpoint (as_handlers mh_data),
                  js_correlation_id = jr_correlation_id r, js_binding_token = jr_binding_token r\<rparr>, mh_data))"

text \<open>\<open>fail\<close> is a failure after the session was accepted: the error is counted, after \<open>steps\<close>.\<close>

definition fail :: "conn_event list \<Rightarrow> McError \<Rightarrow> 'w \<Rightarrow> ('a, McError) result \<times> conn_event list \<times> 'w" where
  "fail steps err w = (Err err, steps @ [SessionJoin ''failure'' (Some (mc_error_type_label err))], w)"

definition receive_join :: "'s conn_env \<Rightarrow> 's \<Rightarrow> (JoinRequest \<times> 's, McError) result \<times> conn_event list \<times> unit" where
  "receive_join e stream =
     (case cx_request_err e of
        Some err \<Rightarrow> (Err (MC_Types.Internal (''Session request failed: '' @ err)), [], ())
      | None \<Rightarrow>
     (case cx_accept_err e of
        Some err \<Rightarrow> (Err (MC_Types.Internal (''Session accept failed: '' @ err)), [], ())
      | None \<Rightarrow>
     (case cx_bi_err e of
        Some err \<Rightarrow> fail [] (MC_Types.Internal (''BiStream accept failed: '' @ err)) ()
      | None \<Rightarrow>
     (case mc_read_framed_message (cx_read_exact e) stream of
        Inl err \<Rightarrow> fail [] err ()
      | Inr (client_msg, stream) \<Rightarrow>
     (case cx_decode e client_msg of
        None \<Rightarrow> fail [] (MC_Types.Internal ''Invalid message format'') ()
      | Some (Some (JoinRequestMsg join_request)) \<Rightarrow>
          if length (jq_participant_name join_request) > MAX_PARTICIPANT_NAME_LEN
          then fail [SendError INVALID_REQUEST ''Participant name too long''] (MC_Types.Internal ''Participant name too long'') ()
          else (Ok (join_request, stream), [], ())
      | _ \<Rightarrow> fail [SendError INVALID_REQUEST ''First message must be JoinRequest'']
               (MC_Types.Internal ''Expected JoinRequest as first message'') ())))))"

definition authorize_join :: "'s conn_env \<Rightarrow> JoinRequest \<Rightarrow> (MeetingTokenClaims, McError) result \<times> conn_event list \<times> JwtValidator" where
  "authorize_join e q =
     (case mc_validate_meeting_token (cx_jwt e) (cx_jwt_env e) (jq_join_token q) (cx_validator e) of
        (Inl err, v) \<Rightarrow> fail [MeetingJwt ''failure'' ''signature_invalid'', SendError UNAUTHORIZED ''Invalid or expired token''] err v
      | (Inr claims, v) \<Rightarrow>
          if mt_meeting_id claims \<noteq> jq_meeting_id q
          then fail [MeetingJwt ''success'' ''none'', SendError UNAUTHORIZED ''Invalid or expired token'']
                 (MC_Types.JwtValidation ''Token meeting_id mismatch'') v
          else (Ok claims, [MeetingJwt ''success'' ''none''], v))"

text \<open>From the call of the controller to the answer; the result is what the bridge loop and the registration need.\<close>

definition perform_join ::
  "'s conn_env \<Rightarrow> (string \<Rightarrow> string \<Rightarrow> string \<Rightarrow> string \<Rightarrow> bool \<Rightarrow> 'w \<Rightarrow> join_reply \<times> 'w) \<Rightarrow> redis \<Rightarrow> JoinRequest \<Rightarrow> MeetingTokenClaims
     \<Rightarrow> 'w \<Rightarrow> (JoinResult \<times> MhAssignmentData, McError) result \<times> conn_event list \<times> 'w"
where
  "perform_join e join s q claims w =
     (let is_host = (mt_role claims = Host);
          (reply, w) = join (jq_meeting_id q) (cx_connection_id e) (mt_sub claims) (cx_participant_id e) is_host w
      in case reply of
           JoinNotSent err \<Rightarrow> fail [SendError (error_code err) (mc_client_message err)] err w
         | JoinDropped \<Rightarrow> fail [SendError INTERNAL_ERROR ''Internal error''] (MC_Types.Internal ''Join response channel dropped'') w
         | JoinReplied (Inl err) \<Rightarrow> fail [SendError (error_code err) (mc_client_message err)] err w
         | JoinReplied (Inr r) \<Rightarrow>
             (case build_join_response (cx_json e) (cx_redis_fault e) r (jq_meeting_id q) s of
                Inl err \<Rightarrow>
                  fail [ParticipantCancel (h_actor (jr_participant_handle r)), SendError (error_code err) (mc_client_message err)] err w
              | Inr (join_response, mh_data) \<Rightarrow>
                  (case write_framed_message e (SmJoinResponse join_response) of
                     Inl err \<Rightarrow> fail [SendJoinResponse join_response] err w
                   | Inr _ \<Rightarrow>
                       (Ok (r, mh_data),
                        [SendJoinResponse join_response, SessionJoin ''success'' None]
                          @ (if jr_participants r = [] then [SpawnRegisterMeeting mh_data] else []), w))))"

section \<open>The bridge loop\<close>

text \<open>
  What the loop can select: its cancellation, a message of the participant actor with the error its write meets, the
  closing of that channel, or the completion of the pending read.  A branch that wins drops the pending read, and with
  it the \<open>n\<close> bytes that the read had already taken from the stream.
\<close>

datatype bridge_event =
    BridgeCancelled
  | Outbound "u8 list" nat
  | OutboundClosed
  | ReadCompletes

definition handle_client_message :: "u8 list \<Rightarrow> conn_event list" where
  "handle_client_message data = [ClientMessageHandled data]"

text \<open>\<open>None\<close>: the loop waits for more events.\<close>

fun run_bridge_loop ::
  "(u8 list \<Rightarrow> string option) \<Rightarrow> bridge_event list \<Rightarrow> u8 list \<Rightarrow> (unit, McError) result option \<times> conn_event list \<times> u8 list"
where
  "run_bridge_loop write_err [] stream = (None, [], stream)"
| "run_bridge_loop write_err (BridgeCancelled # es) stream = (Some (Ok ()), [], stream)"
| "run_bridge_loop write_err (OutboundClosed # es) stream = (Some (Ok ()), [], stream)"
| "run_bridge_loop write_err (Outbound data n # es) stream =
     (case write_framed write_err data of
        Inl err \<Rightarrow> (Some (Err err), [WriteFrame data], drop n stream)
      | Inr _ \<Rightarrow> (let (r, tr, stream) = run_bridge_loop write_err es (drop n stream) in (r, WriteFrame data # tr, stream)))"
| "run_bridge_loop write_err (ReadCompletes # es) stream =
     (case mc_read_framed_message read_exact_bytes stream of
        Inr (data, stream) \<Rightarrow>
          (let (r, tr, stream) = run_bridge_loop write_err es stream in (r, handle_client_message data @ tr, stream))
      | Inl _ \<Rightarrow> (Some (Ok ()), [], stream))"

text \<open>The whole task; the bytes after the join request are what the bridge loop reads.\<close>

definition handle_connection ::
  "'s conn_env \<Rightarrow> ('s \<Rightarrow> u8 list) \<Rightarrow> (string \<Rightarrow> string \<Rightarrow> string \<Rightarrow> string \<Rightarrow> bool \<Rightarrow> 'w \<Rightarrow> join_reply \<times> 'w) \<Rightarrow> redis \<Rightarrow> bridge_event list
     \<Rightarrow> 's \<Rightarrow> 'w \<Rightarrow> (unit, McError) result option \<times> conn_event list \<times> 'w"
where
  "handle_connection e rest join s evs stream w =
     (case receive_join e stream of
        (Inl err, tr, _) \<Rightarrow> (Some (Err err), tr, w)
      | (Inr (q, stream), tr, _) \<Rightarrow>
     (case authorize_join e q of
        (Inl err, tr', _) \<Rightarrow> (Some (Err err), tr @ tr', w)
      | (Inr claims, tr', _) \<Rightarrow>
     (case perform_join e join s q claims w of
        (Inl err, tr'', w) \<Rightarrow> (Some (Err err), tr @ tr' @ tr'', w)
      | (Inr (r, _), tr'', w) \<Rightarrow>
          (let (bridge_result, tr''', _) = run_bridge_loop (cx_write_err e) evs (rest stream)
           in (bridge_result,
               tr @ tr' @ tr'' @ tr''' @ (if bridge_result = None then [] else [ParticipantCancel (h_actor (jr_participant_handle r))]),
               w)))))"

section \<open>Registration of the meeting with its Media Handlers\<close>

text \<open>
  What happens at each call: whether the token is cancelled before it, and whether it is cancelled during the wait after it.
  The state \<open>w\<close> is that of the handlers called.
\<close>

record reg_env =
  re_cancelled :: "nat \<Rightarrow> bool"
  re_cancelled_waiting :: "nat \<Rightarrow> bool"

text \<open>The state of the task: the calls made, with their outcome, and the time waited.\<close>

record 'w reg_state =
  rg_calls :: "(string \<times> (unit, McError) result) list"
  rg_waited :: duration
  rg_world :: 'w

text \<open>The attempts of one handler from the given one on; the Boolean says whether the task goes on.\<close>

function register_attempts ::
  "reg_env \<Rightarrow> (string \<Rightarrow> 'w \<Rightarrow> (unit, McError) result \<times> 'w) \<Rightarrow> string \<Rightarrow> nat \<Rightarrow> 'w reg_state \<Rightarrow> bool \<times> 'w reg_state"
where
  "register_attempts e call endpoint attempt st =
     (if attempt > MAX_REGISTER_ATTEMPTS then (True, st)
      else if re_cancelled e (length (rg_calls st)) then (False, st)
      else let (r, w) = call endpoint (rg_world st);
               n = length (rg_calls st);
               st = st\<lparr>rg_calls := rg_calls st @ [(endpoint, r)], rg_world := w\<rparr>
           in case r of
                Inr _ \<Rightarrow> (True, st)
              | Inl err \<Rightarrow>
                  if attempt - 1 < length REGISTER_BACKOFF_DELAYS
                  then if re_cancelled_waiting e n then (False, st)
                       else register_attempts e call endpoint (attempt + 1)
                              (st\<lparr>rg_waited := rg_waited st + REGISTER_BACKOFF_DELAYS ! (attempt - 1)\<rparr>)
                  else register_attempts e call endpoint (attempt + 1) st)"
  by pat_completeness auto
termination
  by (relation "measure (\<lambda>(e, call, endpoint, attempt, st). Suc MAX_REGISTER_ATTEMPTS - attempt)") auto

fun register_each ::
  "reg_env \<Rightarrow> (string \<Rightarrow> 'w \<Rightarrow> (unit, McError) result \<times> 'w) \<Rightarrow> MhEndpointInfo list \<Rightarrow> 'w reg_state \<Rightarrow> 'w reg_state"
where
  "register_each e call [] st = st"
| "register_each e call (h # hs) st =
     (case register_attempts e call (ep_grpc_endpoint h) 1 st of
        (True, st) \<Rightarrow> register_each e call hs st
      | (False, st) \<Rightarrow> st)"

definition register_meeting_with_handlers ::
  "reg_env \<Rightarrow> (string \<Rightarrow> 'w \<Rightarrow> (unit, McError) result \<times> 'w) \<Rightarrow> MhAssignmentData \<Rightarrow> 'w \<Rightarrow> 'w reg_state" where
  "register_meeting_with_handlers e call mh_data w =
     register_each e call (as_handlers mh_data) \<lparr>rg_calls = [], rg_waited = 0, rg_world = w\<rparr>"

text \<open>
  The client (\<open>grpc/mh_client.rs\<close>): endpoint parsing, connecting and the call are the transport's, with the timeouts the
  client sets on them.  Connecting and calling take the state of the handlers and return what became of it, whatever the
  answer: a call may fail after the handler has carried it out.
\<close>

record 'w rpc_transport =
  rt_endpoint_err :: "string \<Rightarrow> string option"
  rt_connect :: "string \<Rightarrow> 'w \<Rightarrow> string option \<times> 'w"
  rt_header_err :: "string \<Rightarrow> string option"
  rt_call :: "string \<Rightarrow> string \<Rightarrow> string \<times> string \<times> string \<Rightarrow> 'w \<Rightarrow> (bool, string) result \<times> 'w"

definition mh_client_register_meeting ::
  "'w rpc_transport \<Rightarrow> string \<Rightarrow> string \<Rightarrow> string \<Rightarrow> string \<Rightarrow> string \<Rightarrow> 'w \<Rightarrow> (unit, McError) result \<times> 'w"
where
  "mh_client_register_meeting X token meeting_id my_id my_endpoint endpoint w =
     (case rt_endpoint_err X endpoint of
        Some e \<Rightarrow> (Err (MC_Types.Config (''Invalid MH endpoint: '' @ e)), w)
      | None \<Rightarrow>
     (case rt_connect X endpoint w of
        (Some e, w) \<Rightarrow> (Err (MC_Types.Grpc (''Failed to connect to MH: '' @ e)), w)
      | (None, w) \<Rightarrow>
     (let authorization = ''Bearer '' @ token
      in case rt_header_err X authorization of
           Some e \<Rightarrow> (Err (MC_Types.Config (''Authorization header parse failed: '' @ e)), w)
         | None \<Rightarrow>
             (case rt_call X endpoint authorization (meeting_id, my_id, my_endpoint) w of
                (Inr accepted, w) \<Rightarrow>
                  (if accepted then (Ok (), w) else (Err (MC_Types.Grpc ''MH rejected meeting registration''), w))
              | (Inl e, w) \<Rightarrow> (Err (MC_Types.Grpc (''RegisterMeeting RPC failed: '' @ e)), w)))))"

end
