(* ===== verification/MC_Connection_Props.thy ===== *)
theory MC_Connection_Props
  imports MC_Connection
begin

text \<open>
  What a connection guarantees: only the holder of a token for the meeting joins it, every session is counted once,
  registration with the Media Handlers ends and reaches every handler; and what is left behind when the answer cannot
  be written or a read is interrupted.
\<close>

section \<open>Who joins\<close>

definition meeting_join ::
  "crypto_ops \<Rightarrow> env \<Rightarrow> string \<Rightarrow> string \<Rightarrow> string \<Rightarrow> string \<Rightarrow> bool \<Rightarrow> Meeting \<Rightarrow> join_reply \<times> Meeting" where
  "meeting_join c env mid cid uid pid host m = (let (r, m', es) = handle_join c env cid uid pid host True m in (JoinReplied r, m'))"

lemma receive_join_world: "receive_join e stream = (r, tr, u) \<Longrightarrow> SendJoinResponse js \<notin> set tr"
  by (auto simp: receive_join_def fail_def split: option.splits sum.splits prod.splits client_variant.splits if_splits)

lemma authorize_join_cases:
  obtains claims v where "authorize_join e q = (Ok claims, [MeetingJwt ''success'' ''none''], v)"
    "fst (mc_validate_meeting_token (cx_jwt e) (cx_jwt_env e) (jq_join_token q) (cx_validator e)) = Ok claims"
    "mt_meeting_id claims = jq_meeting_id q"
  | err steps v where "authorize_join e q = fail steps err v" "set steps \<subseteq> range (\<lambda>(a, b). MeetingJwt a b) \<union> range (\<lambda>(a, b). SendError a b)"
proof (cases "mc_validate_meeting_token (cx_jwt e) (cx_jwt_env e) (jq_join_token q) (cx_validator e)")
  case (Pair r v)
  show ?thesis
  proof (cases r)
    case (Inl err)
    show ?thesis
      by (rule that(2) [of "[MeetingJwt ''failure'' ''signature_invalid'', SendError UNAUTHORIZED ''Invalid or expired token'']" err v])
        (auto simp: authorize_join_def Pair Inl image_iff)
  next
    case (Inr claims)
    show ?thesis
    proof (cases "mt_meeting_id claims = jq_meeting_id q")
      case True
      then show ?thesis by (intro that(1) [of claims v]) (simp_all add: authorize_join_def Pair Inr)
    next
      case False
      then show ?thesis
        by (intro that(2) [of "[MeetingJwt ''success'' ''none'', SendError UNAUTHORIZED ''Invalid or expired token'']"
              "MC_Types.JwtValidation ''Token meeting_id mismatch''" v])
          (auto simp: authorize_join_def Pair Inr image_iff)
    qed
  qed
qed

lemma perform_join_world:
  "snd (snd (perform_join e join s q claims w)) =
    snd (join (jq_meeting_id q) (cx_connection_id e) (mt_sub claims) (cx_participant_id e) (mt_role claims = Host) w)"
  by (auto simp: perform_join_def fail_def Let_def split: prod.splits join_reply.splits sum.splits)

text \<open>
  C9. Nobody joins without a token for the meeting: when a connection has touched the controller or a join answer was
  written, the client had sent a join request of which the token is valid, is a meeting token and names the requested
  meeting, and the controller was asked once, to join the holder of the token, as a host exactly if the token says so.
\<close>

theorem connection_join_authorized:
  assumes "handle_connection e rest join s evs stream w = (r, tr, w')" and "w' \<noteq> w \<or> SendJoinResponse js \<in> set tr"
  shows "\<exists>q stream' claims. fst (receive_join e stream) = Ok (q, stream') \<and> length (jq_participant_name q) \<le> 256
    \<and> fst (jwt_validate (cx_jwt e) meeting_claims_of mt_iat (cx_jwt_env e) (jq_join_token q) (cx_validator e)) = Ok claims
    \<and> mt_token_type claims = ''meeting'' \<and> mt_meeting_id claims = jq_meeting_id q
    \<and> w' = snd (join (mt_meeting_id claims) (cx_connection_id e) (mt_sub claims) (cx_participant_id e) (mt_role claims = Host) w)"
proof -
  obtain r1 tr1 u where rec: "receive_join e stream = (r1, tr1, u)" by (rule prod_cases3)
  show ?thesis
  proof (cases r1)
    case (Inl err)
    then show ?thesis using assms rec receive_join_world [OF rec] by (auto simp: handle_connection_def)
  next
    case (Inr qs)
    obtain q stream' where qs: "qs = (q, stream')" by fastforce
    have name: "length (jq_participant_name q) \<le> 256"
      using rec Inr qs by (auto simp: receive_join_def fail_def MAX_PARTICIPANT_NAME_LEN_def
          split: option.splits sum.splits prod.splits client_variant.splits if_splits)
    show ?thesis
    proof (cases rule: authorize_join_cases [of e q])
      case (1 claims v)
      have "w' = snd (snd (perform_join e join s q claims w))"
        using assms(1) rec Inr qs 1(1) by (auto simp: handle_connection_def Let_def split: prod.splits sum.splits)
      then show ?thesis
        using rec Inr qs name 1(3) mc_validate_meeting_token_ok [OF 1(2)] by (auto simp: perform_join_world)
    next
      case (2 err steps v)
      then show ?thesis
        using assms rec Inr qs receive_join_world [OF rec] by (auto simp: handle_connection_def fail_def)
    qed
  qed
qed

section \<open>Joins are counted once\<close>

fun is_session_join :: "conn_event \<Rightarrow> bool" where
  "is_session_join (SessionJoin _ _) = True"
| "is_session_join _ = False"

definition joins_counted :: "conn_event list \<Rightarrow> nat" where
  "joins_counted tr = length (filter is_session_join tr)"

lemma joins_counted_simps [simp]:
  "joins_counted [] = 0" "joins_counted (ev # tr) = (if is_session_join ev then 1 else 0) + joins_counted tr"
  "joins_counted (tr @ tr') = joins_counted tr + joins_counted tr'"
  by (simp_all add: joins_counted_def)

lemma bridge_not_counted: "joins_counted (fst (snd (run_bridge_loop we evs stream))) = 0"
  by (induction we evs stream rule: run_bridge_loop.induct) (auto simp: handle_client_message_def split: sum.splits prod.splits)

lemma receive_join_counted:
  "joins_counted (fst (snd (receive_join e stream))) =
    (if cx_request_err e = None \<and> cx_accept_err e = None \<and> isl (fst (receive_join e stream)) then 1 else 0)"
  by (auto simp: receive_join_def fail_def split: option.splits sum.splits prod.splits client_variant.splits if_splits)

lemma perform_join_counted: "joins_counted (fst (snd (perform_join e join s q claims w))) = 1"
  by (auto simp: perform_join_def fail_def Let_def split: prod.splits join_reply.splits sum.splits)

lemma receive_join_accepted: "\<not> isl (fst (receive_join e stream)) \<Longrightarrow> cx_request_err e = None \<and> cx_accept_err e = None"
  by (auto simp: receive_join_def split: option.splits)

text \<open>Every session that was accepted is counted exactly once, as a success or as a failure; one that was not is not counted.\<close>

lemma sessions_counted_once:
  "joins_counted (fst (snd (handle_connection e rest join s evs stream w))) =
    (if cx_request_err e = None \<and> cx_accept_err e = None then 1 else 0)"
proof -
  obtain r1 tr1 u where rec: "receive_join e stream = (r1, tr1, u)" by (rule prod_cases3)
  show ?thesis
  proof (cases r1)
    case (Inl err)
    then show ?thesis using rec receive_join_counted [of e stream] by (auto simp: handle_connection_def)
  next
    case (Inr qs)
    obtain q stream' where qs: "qs = (q, stream')" by fastforce
    have ok: "cx_request_err e = None \<and> cx_accept_err e = None" "joins_counted tr1 = 0"
      using rec Inr receive_join_accepted [of e stream] receive_join_counted [of e stream] by auto
    show ?thesis
    proof (cases rule: authorize_join_cases [of e q])
      case (1 claims v)
      obtain r2 tr2 w2 where perf: "perform_join e join s q claims w = (r2, tr2, w2)" by (rule prod_cases3)
      have "joins_counted tr2 = 1" using perform_join_counted [of e join s q claims w] perf by simp
      then show ?thesis
        using rec Inr qs 1(1) perf ok bridge_not_counted [of "cx_write_err e" evs "rest stream'"]
        by (cases r2) (auto simp: handle_connection_def Let_def split: prod.splits)
    next
      case (2 err steps v)
      then have "joins_counted steps = 0" by (auto simp: joins_counted_def filter_empty_conv)
      then show ?thesis using rec Inr qs 2 ok by (auto simp: handle_connection_def fail_def)
    qed
  qed
qed

section \<open>Registration ends, and reaches every handler\<close>

definition no_cancel :: "reg_env \<Rightarrow> bool" where
  "no_cancel e \<longleftrightarrow> (\<forall>n. \<not> re_cancelled e n \<and> \<not> re_cancelled_waiting e n)"

declare register_attempts.simps [simp del]

definition backoff_from :: "nat \<Rightarrow> duration" where
  "backoff_from k = sum_list (drop (k - 1) REGISTER_BACKOFF_DELAYS)"

lemma backoff_step: "k - 1 < length REGISTER_BACKOFF_DELAYS \<Longrightarrow> 0 < k
    \<Longrightarrow> backoff_from k = REGISTER_BACKOFF_DELAYS ! (k - 1) + backoff_from (k + 1)"
  unfolding backoff_from_def using Cons_nth_drop_Suc [of "k - 1" REGISTER_BACKOFF_DELAYS] by (metis Suc_diff_1 add_diff_cancel_right' sum_list.Cons)

definition attempts_made :: "reg_env \<Rightarrow> string \<Rightarrow> nat \<Rightarrow> 'w reg_state \<Rightarrow> bool \<Rightarrow> 'w reg_state \<Rightarrow> (unit, McError) result list \<Rightarrow> bool" where
  "attempts_made e ep k st go st' rs \<longleftrightarrow> rg_calls st' = rg_calls st @ map (Pair ep) rs \<and> length rs \<le> 4 - k
     \<and> rg_waited st' \<le> rg_waited st + backoff_from k
     \<and> (go \<longrightarrow> Ok () \<in> set rs \<or> length rs = 4 - k \<and> list_all isl rs) \<and> (no_cancel e \<longrightarrow> go)"

lemma attempts_end: "k > 3 \<or> re_cancelled e (length (rg_calls st)) \<Longrightarrow> register_attempts e call ep k st = (k > 3, st)"
  by (subst register_attempts.simps) (auto simp: MAX_REGISTER_ATTEMPTS_def)

lemma attempts_ok:
  "k \<le> 3 \<Longrightarrow> \<not> re_cancelled e (length (rg_calls st)) \<Longrightarrow> call ep (rg_world st) = (Ok u, w)
   \<Longrightarrow> register_attempts e call ep k st = (True, st\<lparr>rg_calls := rg_calls st @ [(ep, Ok ())], rg_world := w\<rparr>)"
  by (subst register_attempts.simps) (simp add: MAX_REGISTER_ATTEMPTS_def)

lemma attempts_err:
  "k \<le> 3 \<Longrightarrow> \<not> re_cancelled e (length (rg_calls st)) \<Longrightarrow> call ep (rg_world st) = (Err err, w)
   \<Longrightarrow> register_attempts e call ep k st =
     (let st1 = st\<lparr>rg_calls := rg_calls st @ [(ep, Err err)], rg_world := w\<rparr>
      in if k - 1 < 2
         then if re_cancelled_waiting e (length (rg_calls st)) then (False, st1)
              else register_attempts e call ep (k + 1) (st1\<lparr>rg_waited := rg_waited st + REGISTER_BACKOFF_DELAYS ! (k - 1)\<rparr>)
         else register_attempts e call ep (k + 1) st1)"
  by (subst register_attempts.simps) (simp add: MAX_REGISTER_ATTEMPTS_def REGISTER_BACKOFF_DELAYS_def Let_def)

lemma attempts_made_Cons:
  assumes "attempts_made e ep (k + 1) st1 go st' rs" "k \<le> 3" "rg_calls st1 = rg_calls st @ [(ep, Err err)]"
    "rg_waited st1 + backoff_from (k + 1) \<le> rg_waited st + backoff_from k"
  shows "attempts_made e ep k st go st' (Err err # rs)"
  using assms by (auto simp: attempts_made_def)

lemma register_attempts_made:
  "0 < k \<Longrightarrow> 4 \<le> k + d \<Longrightarrow> \<exists>rs. attempts_made e ep k st (fst (register_attempts e call ep k st)) (snd (register_attempts e call ep k st)) rs"
proof (induction d arbitrary: k st)
  case 0
  then have "attempts_made e ep k st (fst (register_attempts e call ep k st)) (snd (register_attempts e call ep k st)) []"
    by (simp add: attempts_end attempts_made_def)
  then show ?case ..
next
  case (Suc d)
  let ?made = "\<lambda>k st. attempts_made e ep k st (fst (register_attempts e call ep k st)) (snd (register_attempts e call ep k st))"
  show ?case
  proof (cases "k > 3 \<or> re_cancelled e (length (rg_calls st))")
    case True
    then have "?made k st []" by (auto simp: attempts_end attempts_made_def no_cancel_def)
    then show ?thesis ..
  next
    case False
    obtain r w where call: "call ep (rg_world st) = (r, w)" by fastforce
    show ?thesis
    proof (cases r)
      case (Inr u)
      moreover have "k \<le> 3" "\<not> re_cancelled e (length (rg_calls st))" using False by simp_all
      ultimately have "?made k st [Ok ()]" using call by (simp add: attempts_ok attempts_made_def)
      then show ?thesis ..
    next
      case (Inl err)
      define st1 where "st1 = st\<lparr>rg_calls := rg_calls st @ [(ep, Err err)], rg_world := w\<rparr>"
      define st2 where "st2 = st1\<lparr>rg_waited := rg_waited st + REGISTER_BACKOFF_DELAYS ! (k - 1)\<rparr>"
      have step: "register_attempts e call ep k st =
          (if k - 1 < 2 then if re_cancelled_waiting e (length (rg_calls st)) then (False, st1) else register_attempts e call ep (k + 1) st2
           else register_attempts e call ep (k + 1) st1)"
        using attempts_err [of k e st call ep err w] False call Inl by (simp only: st1_def st2_def Let_def) simp
      have len: "length REGISTER_BACKOFF_DELAYS = 2" by (simp add: REGISTER_BACKOFF_DELAYS_def)
      have IH: "\<exists>rs. ?made (k + 1) st' rs" for st' using Suc by simp
      consider "k - 1 < 2" "re_cancelled_waiting e (length (rg_calls st))" | "k - 1 < 2" "\<not> re_cancelled_waiting e (length (rg_calls st))" | "\<not> k - 1 < 2"
        by blast
      then show ?thesis
      proof cases
        case 1
        then have "?made k st [Err err]" using False unfolding step by (auto simp: attempts_made_def no_cancel_def st1_def)
        then show ?thesis ..
      next
        case 2
        obtain rs where "?made (k + 1) st2 rs" using IH by blast
        then have "attempts_made e ep k st (fst (register_attempts e call ep (k + 1) st2)) (snd (register_attempts e call ep (k + 1) st2)) (Err err # rs)"
          by (rule attempts_made_Cons) (use False backoff_step [of k] Suc.prems(1) 2(1) len in \<open>simp_all add: st1_def st2_def\<close>)
        then show ?thesis unfolding step using 2 by auto
      next
        case 3
        obtain rs where "?made (k + 1) st1 rs" using IH by blast
        then have "attempts_made e ep k st (fst (register_attempts e call ep (k + 1) st1)) (snd (register_attempts e call ep (k + 1) st1)) (Err err # rs)"
          by (rule attempts_made_Cons) (use False 3 len in \<open>simp_all add: st1_def backoff_from_def\<close>)
        then show ?thesis unfolding step using 3 by auto
      qed
    qed
  qed
qed

text \<open>The handlers of which every attempt failed, and those that were reached.\<close>

definition tried :: "(string \<times> (unit, McError) result) list \<Rightarrow> string \<Rightarrow> bool" where
  "tried calls ep \<longleftrightarrow> (ep, Ok ()) \<in> set calls \<or> length (filter (\<lambda>(ep', r). ep' = ep \<and> isl r) calls) \<ge> 3"

lemma tried_append: "tried a ep \<or> tried b ep \<Longrightarrow> tried (a @ b) ep"
  by (auto simp: tried_def)

lemma tried_attempts: "Ok () \<in> set rs \<or> length rs = 3 \<and> list_all isl rs \<Longrightarrow> tried (map (Pair ep) rs) ep"
proof (erule disjE)
  assume "length rs = 3 \<and> list_all isl rs"
  then have "filter (\<lambda>(ep', r). ep' = ep \<and> isl r) (map (Pair ep) rs) = map (Pair ep) rs" "length rs = 3"
    by (auto simp: filter_id_conv list_all_iff)
  then show ?thesis by (simp only: tried_def) simp
qed (auto simp: tried_def)

lemma register_each_calls:
  "\<exists>calls. rg_calls (register_each e call hs st) = rg_calls st @ calls \<and> length calls \<le> 3 * length hs
    \<and> rg_waited (register_each e call hs st) \<le> rg_waited st + from_secs (3 * length hs)
    \<and> (no_cancel e \<longrightarrow> (\<forall>h \<in> set hs. tried calls (ep_grpc_endpoint h)))"
proof (induction hs arbitrary: st)
  case (Cons h hs)
  obtain go st1 where run: "register_attempts e call (ep_grpc_endpoint h) 1 st = (go, st1)" by fastforce
  have three: "backoff_from 1 = from_secs 3" by (simp add: backoff_from_def REGISTER_BACKOFF_DELAYS_def from_secs_def)
  obtain rs where rs: "rg_calls st1 = rg_calls st @ map (Pair (ep_grpc_endpoint h)) rs" "length rs \<le> 3" "rg_waited st1 \<le> rg_waited st + from_secs 3"
    "go \<Longrightarrow> Ok () \<in> set rs \<or> length rs = 3 \<and> list_all isl rs" "no_cancel e \<Longrightarrow> go"
    using register_attempts_made [of 1 3 e "ep_grpc_endpoint h" st call] run three by (auto simp: attempts_made_def)
  show ?case
  proof (cases go)
    case True
    obtain calls where calls: "rg_calls (register_each e call hs st1) = rg_calls st1 @ calls" "length calls \<le> 3 * length hs"
      "rg_waited (register_each e call hs st1) \<le> rg_waited st1 + from_secs (3 * length hs)"
      "no_cancel e \<Longrightarrow> \<forall>h \<in> set hs. tried calls (ep_grpc_endpoint h)"
      using Cons by blast
    have "tried (map (Pair (ep_grpc_endpoint h)) rs) (ep_grpc_endpoint h)" by (intro tried_attempts rs(4) True)
    then show ?thesis
      using run True rs(1-3) calls
      by (intro exI [of _ "map (Pair (ep_grpc_endpoint h)) rs @ calls"]) (auto simp: from_secs_def intro: tried_append)
  next
    case False
    then show ?thesis
      using run rs by (intro exI [of _ "map (Pair (ep_grpc_endpoint h)) rs"]) (auto simp: from_secs_def)
  qed
qed (simp add: from_secs_def)

text \<open>
  C25. Registering a meeting with its Media Handlers always comes to an end, whatever the handlers answer: it makes at
  most three calls and waits at most three seconds for each handler; and unless the service shuts down, every handler
  has accepted the registration or has failed three calls, so a handler that is down keeps no other from being told.
\<close>

theorem registration_terminates:
  assumes "R = register_meeting_with_handlers e call mh_data w"
  shows "length (rg_calls R) \<le> 3 * length (as_handlers mh_data) \<and> rg_waited R \<le> from_secs (3 * length (as_handlers mh_data))
    \<and> (no_cancel e \<longrightarrow> (\<forall>h \<in> set (as_handlers mh_data). tried (rg_calls R) (ep_grpc_endpoint h)))"
  using register_each_calls [of e call "as_handlers mh_data" "\<lparr>rg_calls = [], rg_waited = 0, rg_world = w\<rparr>"]
  unfolding assms register_meeting_with_handlers_def by auto

definition demo_handlers :: MhAssignmentData where
  "demo_handlers = \<lparr>as_handlers = [\<lparr>ep_mh_id = ''a'', ep_webtransport_endpoint = ''https://a'', ep_grpc_endpoint = ''http://a''\<rparr>,
     \<lparr>ep_mh_id = ''b'', ep_webtransport_endpoint = ''https://b'', ep_grpc_endpoint = ''http://b''\<rparr>], as_assigned_at = ''t''\<rparr>"

definition demo_reg_env :: reg_env where
  "demo_reg_env = \<lparr>re_cancelled = (\<lambda>_. False), re_cancelled_waiting = (\<lambda>_. False)\<rparr>"

definition demo_reg_call :: "string \<Rightarrow> unit \<Rightarrow> (unit, McError) result \<times> unit" where
  "demo_reg_call ep w = (if ep = ''http://a'' then Err (MC_Types.Grpc ''down'') else Ok (), w)"

theorem registration_terminates_witness:
  "tried (rg_calls (register_meeting_with_handlers demo_reg_env demo_reg_call demo_handlers ())) ''http://b''
   \<and> rg_waited (register_meeting_with_handlers demo_reg_env demo_reg_call demo_handlers ()) \<le> from_secs 6"
  using registration_terminates [OF refl, of demo_reg_env demo_reg_call demo_handlers "()"]
  by (simp add: demo_handlers_def demo_reg_env_def no_cancel_def)

section \<open>An answer that cannot be written\<close>

lemma perform_join_write_failed:
  assumes "handle_join c env (cx_connection_id e) (mt_sub claims) (cx_participant_id e) (mt_role claims = Host) True m = (Ok r, m', es)"
    and "build_join_response (cx_json e) (cx_redis_fault e) r (jq_meeting_id q) s = Ok (js, mh_data)"
    and "write_framed_message e (SmJoinResponse js) = Err err"
  shows "perform_join e (meeting_join c env) s q claims m = fail [SendJoinResponse js] err m'"
  using assms by (simp add: perform_join_def meeting_join_def)

lemma handle_join_ok:
  assumes "handle_join c env cid uid pid host True m = (Ok r, m', es)"
  shows "\<not> m_is_shutting_down m \<and> \<not> hm_contains (m_participants m) pid \<and> m_is_shutting_down m' = m_is_shutting_down m
    \<and> (\<exists>p. m_participants m' = hm_insert pid p (m_participants m) \<and> p_participant_id p = pid \<and> p_status p = Connected)
    \<and> jr_participants r = others_info pid (m_participants m')"
  using assms by (auto simp: handle_join_def Let_def split: if_splits prod.splits)

lemma handle_join_total:
  "\<not> m_is_shutting_down m \<Longrightarrow> hm_get (m_participants m) pid = None \<Longrightarrow> \<exists>r m' es. handle_join c env cid uid pid host stream m = (Ok r, m', es)"
  by (cases "generate_token c (m_secret m) (env_nonce env) (m_meeting_id m) (env_corr env) pid") (simp add: handle_join_def Let_def)

lemma later_join_not_first:
  assumes "hm_get (m_participants m) pid = Some p" "p_participant_id p = pid" "pid \<noteq> pid2"
    and "handle_join c env cid2 uid2 pid2 host2 True m = (Ok r2, m2, es2)"
  shows "jr_participants r2 \<noteq> []"
proof -
  obtain p2 where j: "m_participants m2 = hm_insert pid2 p2 (m_participants m)" "jr_participants r2 = others_info pid2 (m_participants m2)"
    using handle_join_ok [OF assms(4)] by blast
  have "hm_get (m_participants m2) pid = Some p" using assms(1,3) j(1) by simp
  then have "p \<in> set (hm_values (m_participants m2))" by (force simp: hm_get_def hm_values_def dest: map_of_SomeD)
  then show ?thesis using j(2) assms(2,3) by (auto simp: others_info_def filter_empty_conv)
qed

text \<open>The participant actor does not notice that nobody reads its messages any more: it stops only when it is told to.\<close>

lemma unread_actor_stays:
  assumes "\<forall>ev \<in> set evs. \<exists>msg. ev = PMessage msg False \<and> (\<forall>why. msg \<noteq> PClose why)"
  shows "snd (snd (participant_run encode evs a)) = False"
  using assms
proof (induction evs arbitrary: a)
  case (Cons ev evs)
  then obtain msg where msg: "ev = PMessage msg False" "\<forall>why. msg \<noteq> PClose why" by auto
  have "snd (snd (participant_turn encode ev a)) = False"
    using msg by (cases msg) (auto simp: participant_turn_def split: prod.splits)
  then obtain a' es where "participant_turn encode ev a = (a', es, False)" by (metis prod.collapse)
  then show ?case using Cons.IH [of a'] Cons.prems by (auto split: prod.splits)
qed simp

text \<open>
  When the answer to the first participant of a meeting cannot be written, the connection ends without cancelling
  the participant: the meeting keeps it as connected, and no later participant is the first one, so that while it
  stays in the meeting no connection ever registers the meeting with its Media Handlers.
\<close>

theorem lost_answer_leaves_ghost:
  assumes "handle_join c env (cx_connection_id e) (mt_sub claims) (cx_participant_id e) (mt_role claims = Host) True m = (Ok r, m', es)"
    and "build_join_response (cx_json e) (cx_redis_fault e) r (jq_meeting_id q) s = Ok (js, mh_data)"
    and "write_framed_message e (SmJoinResponse js) = Err err"
    and "hm_get (m_participants m2) (cx_participant_id e) = hm_get (m_participants m') (cx_participant_id e)"
    and "cx_participant_id e2 \<noteq> cx_participant_id e"
  shows "(\<exists>p. hm_get (m_participants (snd (snd (perform_join e (meeting_join c env) s q claims m)))) (cx_participant_id e) = Some p
        \<and> p_status p = Connected)
    \<and> (\<forall>a. ParticipantCancel a \<notin> set (fst (snd (perform_join e (meeting_join c env) s q claims m))))
    \<and> (\<forall>d. SpawnRegisterMeeting d \<notin> set (fst (snd (perform_join e (meeting_join c env) s q claims m))))
    \<and> (\<forall>d. SpawnRegisterMeeting d \<notin> set (fst (snd (perform_join e2 (meeting_join c2 env2) s2 q2 claims2 m2))))"
proof -
  obtain p where p: "m_participants m' = hm_insert (cx_participant_id e) p (m_participants m)" "p_participant_id p = cx_participant_id e"
    "p_status p = Connected"
    using handle_join_ok [OF assms(1)] by blast
  have here: "hm_get (m_participants m2) (cx_participant_id e) = Some p" using assms(4) p(1) by simp
  have "jr_participants x \<noteq> []" if "handle_join c2 env2 (cx_connection_id e2) (mt_sub claims2) (cx_participant_id e2)
      (mt_role claims2 = Host) True m2 = (Ok x, a, b)" for x a b
    using later_join_not_first [OF here p(2) _ that] assms(5) by simp
  then have "SpawnRegisterMeeting d \<notin> set (fst (snd (perform_join e2 (meeting_join c2 env2) s2 q2 claims2 m2)))" for d
    by (auto simp: perform_join_def meeting_join_def fail_def Let_def split: prod.splits sum.splits if_splits)
  then show ?thesis
    using perform_join_write_failed [OF assms(1-3)] p by (auto simp: fail_def)
qed

definition demo_conn_env :: "string \<Rightarrow> u8 list conn_env" where
  "demo_conn_env pid = \<lparr>cx_request_err = None, cx_accept_err = None, cx_bi_err = None, cx_read_exact = read_exact_bytes,
     cx_decode = (\<lambda>_. Some (Some (JoinRequestMsg \<lparr>jq_meeting_id = ''m'', jq_join_token = ''ab.b.b'', jq_participant_name = ''Ann''\<rparr>))),
     cx_encode = (\<lambda>_. [1]), cx_jwt = demo_lib ''k'' [7] [2] (meeting_token_json demo_meeting_request 1000 600 ''j''),
     cx_jwt_env = demo_validate_env 1100, cx_validator = jwt_validator_new (jwks_client_new 300) 300, cx_connection_id = ''c'',
     cx_participant_id = pid, cx_write_err = (\<lambda>_. Some ''reset''), cx_json = demo_json, cx_redis_fault = NoFault\<rparr>"

definition demo_meeting_claims :: MeetingTokenClaims where
  "demo_meeting_claims = \<lparr>mt_sub = ''u'', mt_token_type = ''meeting'', mt_meeting_id = ''m'', mt_home_org_id = Some ''o'', mt_meeting_org_id = ''o'',
     mt_participant_type = Member, mt_role = Host, mt_capabilities = [''video''], mt_iat = 1000, mt_exp = 1600, mt_jti = ''j''\<rparr>"

definition demo_join_env :: env where
  "demo_join_env = \<lparr>env_now = 0, env_corr = ''k'', env_nonce = [], env_actor = 1\<rparr>"

abbreviation "demo_ghost \<equiv> perform_join (demo_conn_env ''p'') (meeting_join demo_crypto demo_join_env)
  (redis_set (mh_key ''m'') ''{}'' empty_redis) \<lparr>jq_meeting_id = ''m'', jq_join_token = [], jq_participant_name = []\<rparr> demo_meeting_claims
  (meeting_spawn ''m'' [] 0)"

theorem lost_answer_leaves_ghost_witness:
  "(\<exists>p. hm_get (m_participants (snd (snd demo_ghost))) ''p'' = Some p \<and> p_status p = Connected)
   \<and> (\<forall>d. SpawnRegisterMeeting d \<notin> set (fst (snd (perform_join (demo_conn_env ''p2'') (meeting_join demo_crypto demo_join_env)
         (redis_set (mh_key ''m'') ''{}'' empty_redis) \<lparr>jq_meeting_id = ''m'', jq_join_token = [], jq_participant_name = []\<rparr>
         demo_meeting_claims (snd (snd demo_ghost))))))"
proof -
  let ?q = "\<lparr>jq_meeting_id = ''m'', jq_join_token = [], jq_participant_name = []\<rparr>"
  let ?s = "redis_set (mh_key ''m'') ''{}'' empty_redis"
  obtain r m' es where j: "handle_join demo_crypto demo_join_env ''c'' ''u'' ''p'' True True (meeting_spawn ''m'' [] 0) = (Ok r, m', es)"
    using handle_join_total [of "meeting_spawn ''m'' [] 0" "''p''" demo_crypto demo_join_env "''c''" "''u''" True True]
    by (auto simp: meeting_spawn_def)
  obtain js d where b: "build_join_response demo_json NoFault r ''m'' ?s = Ok (js, d)"
    by (simp add: build_join_response_def get_mh_assignment_def redis_get_def redis_set_def demo_json_def Let_def)
  have w: "write_framed_message (demo_conn_env ''p'') (SmJoinResponse js) = Err (MC_Types.Internal ''Stream write failed: reset'')"
    by (simp add: write_framed_message_def write_framed_def write_raw_framed_def demo_conn_env_def)
  have sel: "cx_connection_id (demo_conn_env p) = ''c''" "cx_participant_id (demo_conn_env p) = p" "cx_json (demo_conn_env p) = demo_json"
    "cx_redis_fault (demo_conn_env p) = NoFault" "mt_sub demo_meeting_claims = ''u''" "mt_role demo_meeting_claims = Host" for p
    by (simp_all add: demo_conn_env_def demo_meeting_claims_def)
  have j': "handle_join demo_crypto demo_join_env (cx_connection_id (demo_conn_env ''p'')) (mt_sub demo_meeting_claims)
      (cx_participant_id (demo_conn_env ''p'')) (mt_role demo_meeting_claims = Host) True (meeting_spawn ''m'' [] 0) = (Ok r, m', es)"
    using j by (simp add: sel)
  have b': "build_join_response (cx_json (demo_conn_env ''p'')) (cx_redis_fault (demo_conn_env ''p'')) r (jq_meeting_id ?q) ?s = Ok (js, d)"
    using b by (simp add: sel)
  have "snd (snd demo_ghost) = m'" using perform_join_write_failed [OF j' b' w] by (simp add: fail_def)
  then show ?thesis
    using lost_answer_leaves_ghost [OF j' b' w, of "snd (snd demo_ghost)" "demo_conn_env ''p2''" demo_crypto demo_join_env ?s ?q demo_meeting_claims]
    by (simp add: sel)
qed

lemma demo_received:
  "receive_join (demo_conn_env pid) (be_bytes 4 2 @ [7, 7]) =
    (Ok (\<lparr>jq_meeting_id = ''m'', jq_join_token = ''ab.b.b'', jq_participant_name = ''Ann''\<rparr>, []), [], ())"
proof -
  have "mc_read_framed_message read_exact_bytes (be_bytes 4 2 @ [7, 7]) = Ok ([7, 7], [])"
    using rb.read_framed_ok [of "be_bytes 4 2 @ [7, 7]" "[7, 7]" "[]" MC_Types.Internal] by (auto simp: mc_read_framed_message_def MAX_MESSAGE_SIZE_def numeral_2_eq_2)
  then show ?thesis by (simp add: receive_join_def demo_conn_env_def MAX_PARTICIPANT_NAME_LEN_def)
qed

lemma demo_authorized_join:
  "fst (authorize_join (demo_conn_env pid) \<lparr>jq_meeting_id = ''m'', jq_join_token = ''ab.b.b'', jq_participant_name = ''Ann''\<rparr>) = Ok demo_meeting_claims"
  unfolding demo_conn_env_def by code_simp

theorem connection_join_authorized_witness:
  "\<exists>q stream' claims. fst (receive_join (demo_conn_env ''p'') (be_bytes 4 2 @ [7, 7])) = Ok (q, stream')
     \<and> fst (jwt_validate (cx_jwt (demo_conn_env ''p'')) meeting_claims_of mt_iat (cx_jwt_env (demo_conn_env ''p'')) (jq_join_token q)
         (cx_validator (demo_conn_env ''p''))) = Ok claims
     \<and> mt_meeting_id claims = jq_meeting_id q"
proof -
  let ?join = "\<lambda>mid cid uid pid host n. (JoinReplied (Err Draining), Suc n)"
  let ?h = "handle_connection (demo_conn_env ''p'') (\<lambda>s. s) ?join empty_redis [] (be_bytes 4 2 @ [7, 7]) 0"
  obtain tr v where a: "authorize_join (demo_conn_env ''p'') \<lparr>jq_meeting_id = ''m'', jq_join_token = ''ab.b.b'', jq_participant_name = ''Ann''\<rparr>
      = (Ok demo_meeting_claims, tr, v)"
    using demo_authorized_join [of "''p''"] by (metis prod.collapse)
  have "snd (snd ?h) = 1"
    by (simp add: handle_connection_def demo_received a perform_join_def fail_def)
  then have "?h = (fst ?h, fst (snd ?h), 1)" by (metis prod.collapse)
  from connection_join_authorized [OF this] show ?thesis by auto
qed

section \<open>An interrupted read\<close>

lemma bridge_read:
  assumes "msg \<noteq> []" "length msg \<le> MAX_MESSAGE_SIZE"
  shows "run_bridge_loop we (ReadCompletes # es) (be_bytes 4 (length msg) @ msg @ rest) =
    (let (r, tr, stream) = run_bridge_loop we es rest in (r, ClientMessageHandled msg # tr, stream))"
proof -
  have "mc_read_framed_message read_exact_bytes (be_bytes 4 (length msg) @ msg @ rest) = Ok (msg, rest)"
    using rb.read_framed_ok [of "be_bytes 4 (length msg) @ msg @ rest" msg rest MC_Types.Internal] assms
    by (auto simp: mc_read_framed_message_def)
  then show ?thesis by (simp add: handle_client_message_def)
qed

text \<open>
  As long as no message to the client interrupts a read that has begun, the messages of the client are handled
  whole and in order.  A message that is written while a read has taken the length of a frame drops that length: the
  loop then takes the contents of the frame for a length and, when these four bytes are more than 64 KiB, closes the
  connection of a client that did nothing wrong.
\<close>

theorem interrupted_read_closes_connection:
  assumes "length msg \<le> MAX_MESSAGE_SIZE" "4 \<le> length msg" "MAX_MESSAGE_SIZE < be_val (take 4 msg)"
    and "write_framed we data = Ok ()"
  shows "fst (run_bridge_loop we [Outbound data 0, ReadCompletes] (be_bytes 4 (length msg) @ msg)) = None
    \<and> fst (snd (run_bridge_loop we [Outbound data 0, ReadCompletes] (be_bytes 4 (length msg) @ msg))) = [WriteFrame data, ClientMessageHandled msg]
    \<and> fst (run_bridge_loop we [Outbound data 4, ReadCompletes] (be_bytes 4 (length msg) @ msg)) = Some (Ok ())
    \<and> fst (snd (run_bridge_loop we [Outbound data 4, ReadCompletes] (be_bytes 4 (length msg) @ msg))) = [WriteFrame data]"
proof -
  have "msg \<noteq> []" using assms(2) by auto
  then have good: "run_bridge_loop we [ReadCompletes] (be_bytes 4 (length msg) @ msg) = (None, [ClientMessageHandled msg], [])"
    using bridge_read [of msg we "[]" "[]"] assms(1) by simp
  have "read_exact_bytes 4 msg = Some (take 4 msg, drop 4 msg)" using assms(2) by (simp add: read_exact_bytes_def)
  then have "mc_read_framed_message read_exact_bytes msg = Err (MC_Types.Internal ''Message too large'')"
    using assms(3) by (simp add: mc_read_framed_message_def read_framed_def)
  then have bad: "run_bridge_loop we [ReadCompletes] msg = (Some (Ok ()), [], msg)" by simp
  have "drop 4 (be_bytes 4 (length msg) @ msg) = msg" by (simp add: length_be_bytes)
  then show ?thesis using good bad assms(4) by simp
qed

theorem interrupted_read_closes_connection_witness:
  "fst (run_bridge_loop (\<lambda>_. None) [Outbound [1] 4, ReadCompletes] (be_bytes 4 4 @ [8, 1, 18, 4])) = Some (Ok ())"
proof -
  have "MAX_MESSAGE_SIZE < be_val (take 4 [8, 1, 18, 4])" by (simp add: MAX_MESSAGE_SIZE_def)
  moreover have "write_framed (\<lambda>_. None) [1] = Ok ()" by (simp add: write_framed_def write_raw_framed_def)
  ultimately show ?thesis
    using interrupted_read_closes_connection [of "[8, 1, 18, 4]" "\<lambda>_. None" "[1]"] by (simp add: MAX_MESSAGE_SIZE_def)
qed

end
