(* ===== verification/MH_Service.thy ===== *)
theory MH_Service
  imports Access MH_Session
begin

text \<open>
  The gRPC service of the Media Handler (\<open>mh-service/src/grpc/mh_service.rs\<close>): the registration of meetings, which
  goes to the session manager, and the calls that are stubs.
\<close>

section \<open>Requests\<close>

record RegisterMeetingRequest =
  rgm_meeting_id :: string
  rgm_mc_id :: string
  rgm_mc_grpc_endpoint :: string

record RegisterRequest =
  rgr_participant_id :: string
  rgr_meeting_id :: string

record RegisterResponse =
  rgp_connection_token :: string
  rgp_media_handler_url :: string

text \<open>The labels of \<open>record_grpc_request\<close>.\<close>

type_synonym rpc_metric = "string \<times> string"

definition MAX_MH_ID_LENGTH :: nat where "MAX_MH_ID_LENGTH = 256"
definition MAX_MC_ENDPOINT_LENGTH :: nat where "MAX_MC_ENDPOINT_LENGTH = 2048"

definition stub_placeholder :: string where
  "stub_placeholder = ''STUB-PLACEHOLDER''"

section \<open>Handlers\<close>

definition mh_register :: "RegisterRequest \<Rightarrow> (RegisterResponse, Status) result \<times> rpc_metric" where
  "mh_register req =
     (if rgr_participant_id req = [] then (Err (StInvalidArgument, ''participant_id is required''), (''register'', ''error''))
      else if rgr_meeting_id req = [] then (Err (StInvalidArgument, ''meeting_id is required''), (''register'', ''error''))
      else (Ok \<lparr>rgp_connection_token = stub_placeholder, rgp_media_handler_url = ''stub://localhost''\<rparr>, (''register'', ''success'')))"

definition check_register_meeting :: "RegisterMeetingRequest \<Rightarrow> (unit, Status) result" where
  "check_register_meeting req =
     (let reject = (\<lambda>bad msg. if bad then Err (StInvalidArgument, msg) else Ok ())
      in checks
        [reject (rgm_meeting_id req = []) ''meeting_id is required'',
         reject (rgm_mc_id req = []) ''mc_id is required'',
         reject (rgm_mc_grpc_endpoint req = []) ''mc_grpc_endpoint is required'',
         reject (length (rgm_meeting_id req) > MAX_MH_ID_LENGTH) ''meeting_id exceeds maximum length'',
         reject (length (rgm_mc_id req) > MAX_MH_ID_LENGTH) ''mc_id exceeds maximum length'',
         reject (length (rgm_mc_grpc_endpoint req) > MAX_MC_ENDPOINT_LENGTH) ''mc_grpc_endpoint exceeds maximum length'',
         reject (\<not> starts_with ''http://'' (rgm_mc_grpc_endpoint req) \<and> \<not> starts_with ''https://'' (rgm_mc_grpc_endpoint req)
                 \<and> \<not> starts_with ''grpc://'' (rgm_mc_grpc_endpoint req))
           ''mc_grpc_endpoint must use http://, https://, or grpc:// scheme''])"

text \<open>The session manager answers a registration with the connections that were waiting for it, and wakes their tasks.\<close>

definition mh_register_meeting ::
  "instant \<Rightarrow> RegisterMeetingRequest \<Rightarrow> SessionState \<Rightarrow> (bool, Status) result \<times> rpc_metric \<times> notify option \<times> SessionState"
where
  "mh_register_meeting now req s =
     (case check_register_meeting req of
        Inl err \<Rightarrow> (Err err, (''register_meeting'', ''error''), None, s)
      | Inr _ \<Rightarrow>
          (let (promoted, s, woken) = handle_register_meeting (rgm_meeting_id req)
                 \<lparr>mc_id = rgm_mc_id req, mc_grpc_endpoint = rgm_mc_grpc_endpoint req, registered_at = now\<rparr> s
           in (Ok True, (''register_meeting'', ''success''), woken, s)))"

definition route_media :: "(bool \<times> string) \<times> rpc_metric" where
  "route_media = ((True, []), (''route_media'', ''success''))"

text \<open>The items of the stream until it ends or fails; the number counted saturates.\<close>

fun stream_telemetry :: "(unit, Status) result list \<Rightarrow> u64 \<Rightarrow> (bool, Status) result \<times> u64 \<times> rpc_metric" where
  "stream_telemetry [] received = (Ok True, received, (''stream_telemetry'', ''success''))"
| "stream_telemetry (Inr _ # items) received = stream_telemetry items (if received = - 1 then received else received + 1)"
| "stream_telemetry (Inl err # items) received = (Err err, received, (''stream_telemetry'', ''error''))"

section \<open>What a registration checks\<close>

lemma check_register_meeting_Ok:
  "check_register_meeting req = Ok u \<longleftrightarrow>
    rgm_meeting_id req \<noteq> [] \<and> length (rgm_meeting_id req) \<le> 256 \<and> rgm_mc_id req \<noteq> [] \<and> length (rgm_mc_id req) \<le> 256
    \<and> rgm_mc_grpc_endpoint req \<noteq> [] \<and> length (rgm_mc_grpc_endpoint req) \<le> 2048
    \<and> (\<exists>scheme \<in> {''http://'', ''https://'', ''grpc://''}. starts_with scheme (rgm_mc_grpc_endpoint req))"
  by (auto simp: check_register_meeting_def checks_Ok Let_def MAX_MH_ID_LENGTH_def MAX_MC_ENDPOINT_LENGTH_def split: if_splits)

lemma mh_register_meeting_ok:
  assumes "check_register_meeting req = Ok ()"
  shows "fst (mh_register_meeting now req s) = Ok True"
    and "snd (snd (snd (mh_register_meeting now req s))) = fst (snd (handle_register_meeting (rgm_meeting_id req)
      \<lparr>mc_id = rgm_mc_id req, mc_grpc_endpoint = rgm_mc_grpc_endpoint req, registered_at = now\<rparr> s))"
  using assms by (simp_all add: mh_register_meeting_def Let_def split: prod.split)

lemma mh_register_meeting_refused:
  "check_register_meeting req \<noteq> Ok () \<Longrightarrow> snd (snd (snd (mh_register_meeting now req s))) = s \<and> isl (fst (mh_register_meeting now req s))"
  by (cases "check_register_meeting req") (auto simp: mh_register_meeting_def)

end
