(* ===== verification/System_Media.thy ===== *)
theory System_Media
  imports MC_Connection_Props MH_Service
begin

text \<open>
  The Meeting Controller and the Media Handlers of a meeting: the registration task of the first participant calls,
  through its client, the authentication layer and the service of every handler.  A handler is found by its endpoint;
  its state is its token validator and its sessions.  What the network makes of each call is given by the argument
  \<open>net\<close>, attempt by attempt: a handler may be down for one attempt and back for the next, and a call may time out before
  or after the handler has carried it out.
\<close>

section \<open>A fleet of Media Handlers\<close>

text \<open>
  The fate of a call: no connection within \<open>MH_CONNECT_TIMEOUT\<close>; the request does not get there, or the reply does not get
  back, within \<open>MH_RPC_TIMEOUT\<close>; or both do.  A request that is carried out is carried out before its timeout: the
  client's channel is gone after it.
\<close>

datatype call_fate = Unreachable string | RequestLost string | ReplyLost string | Delivered

fun arrives :: "call_fate \<Rightarrow> bool" where
  "arrives (ReplyLost _) = True"
| "arrives Delivered = True"
| "arrives _ = False"

record handler_node =
  hn_validator :: JwtValidator
  hn_session :: SessionState
  hn_calls :: "call_fate list"

type_synonym handler_fleet = "string \<Rightarrow> handler_node"

text \<open>
  For the call number \<open>i\<close> to an endpoint: its fate, the handler's clock, and what its token validation meets.  Whether
  an endpoint parses and whether the token can be a header value does not depend on the call.
\<close>

record network =
  nw_fate :: "string \<Rightarrow> nat \<Rightarrow> call_fate"
  nw_now :: "string \<Rightarrow> nat \<Rightarrow> instant"
  nw_validate :: "string \<Rightarrow> nat \<Rightarrow> validate_env"
  nw_endpoint_err :: "string \<Rightarrow> string option"
  nw_header_err :: "string \<Rightarrow> string option"

abbreviation register_meeting_path :: string where
  "register_meeting_path \<equiv> ''/dark_tower.internal.v1.MediaHandlerService/RegisterMeeting''"

text \<open>What a handler does with a request that arrives: its authentication layer, then its service.\<close>

definition handler_answer ::
  "jwt_lib \<Rightarrow> validate_env \<Rightarrow> instant \<Rightarrow> string \<Rightarrow> string \<times> string \<times> string \<Rightarrow> handler_node
     \<Rightarrow> (bool, string) result \<times> handler_node"
where
  "handler_answer K ve now authorization req node =
     (let (meeting_id, my_id, my_endpoint) = req
      in case mh_grpc_auth K ve \<lparr>rq_header = HeaderText authorization, rq_path = register_meeting_path\<rparr> (hn_validator node) of
           (Inl (code, msg), _, v) \<Rightarrow> (Err msg, node\<lparr>hn_validator := v\<rparr>)
         | (Inr claims, _, v) \<Rightarrow>
             (case mh_register_meeting now
                     \<lparr>rgm_meeting_id = meeting_id, rgm_mc_id = my_id, rgm_mc_grpc_endpoint = my_endpoint\<rparr> (hn_session node) of
                (Inl (code, msg), _, _, s) \<Rightarrow> (Err msg, node\<lparr>hn_validator := v, hn_session := s\<rparr>)
              | (Inr accepted, _, _, s) \<Rightarrow> (Ok accepted, node\<lparr>hn_validator := v, hn_session := s\<rparr>)))"

definition add_fate :: "call_fate \<Rightarrow> handler_node \<Rightarrow> handler_node" where
  "add_fate f node = node\<lparr>hn_calls := hn_calls node @ [f]\<rparr>"

definition next_fate :: "network \<Rightarrow> string \<Rightarrow> handler_node \<Rightarrow> call_fate" where
  "next_fate net endpoint node = nw_fate net endpoint (length (hn_calls node))"

definition fleet_connect :: "network \<Rightarrow> string \<Rightarrow> handler_fleet \<Rightarrow> string option \<times> handler_fleet" where
  "fleet_connect net endpoint w =
     (case next_fate net endpoint (w endpoint) of
        Unreachable e \<Rightarrow> (Some e, w(endpoint := add_fate (Unreachable e) (w endpoint)))
      | _ \<Rightarrow> (None, w))"

definition fleet_call ::
  "jwt_lib \<Rightarrow> network \<Rightarrow> string \<Rightarrow> string \<Rightarrow> string \<times> string \<times> string \<Rightarrow> handler_fleet
     \<Rightarrow> (bool, string) result \<times> handler_fleet"
where
  "fleet_call K net endpoint authorization req w =
     (let node = w endpoint;
          i = length (hn_calls node);
          fate = next_fate net endpoint node;
          (answer, node') = handler_answer K (nw_validate net endpoint i) (nw_now net endpoint i) authorization req node
      in case fate of
           Delivered \<Rightarrow> (answer, w(endpoint := add_fate fate node'))
         | ReplyLost e \<Rightarrow> (Err e, w(endpoint := add_fate fate node'))
         | RequestLost e \<Rightarrow> (Err e, w(endpoint := add_fate fate node))
         | Unreachable e \<Rightarrow> (Err e, w(endpoint := add_fate fate node)))"

text \<open>The transport of a Meeting Controller whose calls go to the fleet.\<close>

definition fleet_transport :: "jwt_lib \<Rightarrow> network \<Rightarrow> handler_fleet rpc_transport" where
  "fleet_transport K net = \<lparr>rt_endpoint_err = nw_endpoint_err net, rt_connect = fleet_connect net,
     rt_header_err = nw_header_err net, rt_call = fleet_call K net\<rparr>"

section \<open>Invariants of the registration\<close>

lemma register_attempts_inv:
  assumes step: "\<And>calls w r w'. I calls w \<Longrightarrow> call ep w = (r, w') \<Longrightarrow> I (calls @ [(ep, r)]) w'"
  shows "0 < k \<Longrightarrow> 4 \<le> k + d \<Longrightarrow> I (rg_calls st) (rg_world st) \<Longrightarrow>
    I (rg_calls (snd (register_attempts e call ep k st))) (rg_world (snd (register_attempts e call ep k st)))"
proof (induction d arbitrary: k st)
  case 0
  then show ?case by (simp add: attempts_end)
next
  case (Suc d)
  show ?case
  proof (cases "k > 3 \<or> re_cancelled e (length (rg_calls st))")
    case True
    then show ?thesis using Suc.prems(3) by (simp add: attempts_end)
  next
    case False
    obtain r w where call: "call ep (rg_world st) = (r, w)" by fastforce
    have I: "I (rg_calls st @ [(ep, r)]) w" using step Suc.prems(3) call by blast
    show ?thesis
    proof (cases r)
      case (Inr u)
      then show ?thesis using False call I by (simp add: attempts_ok)
    next
      case (Inl err)
      then show ?thesis
        using attempts_err [of k e st call ep err w] False call I Suc.IH [of "k + 1"] Suc.prems(2) by (simp add: Let_def)
    qed
  qed
qed

lemma register_each_inv:
  assumes step: "\<And>calls w h r w'. h \<in> set hs \<Longrightarrow> I calls w \<Longrightarrow> call (ep_grpc_endpoint h) w = (r, w')
      \<Longrightarrow> I (calls @ [(ep_grpc_endpoint h, r)]) w'"
  shows "I (rg_calls st) (rg_world st) \<Longrightarrow> I (rg_calls (register_each e call hs st)) (rg_world (register_each e call hs st))"
  using step
proof (induction hs arbitrary: st)
  case (Cons h hs)
  obtain go st1 where run: "register_attempts e call (ep_grpc_endpoint h) 1 st = (go, st1)" by fastforce
  have "I (rg_calls st1) (rg_world st1)"
    using register_attempts_inv [of I call "ep_grpc_endpoint h" 1 3 st e] Cons.prems run by simp
  then show ?case using Cons.IH [of st1] Cons.prems(2) run by (cases go) simp_all
qed simp

lemma attempts_go_on: "no_cancel e \<Longrightarrow> \<exists>st'. register_attempts e call ep 1 st = (True, st')"
  using register_attempts_made [of 1 3 e ep st call] by (cases "register_attempts e call ep 1 st") (auto simp: attempts_made_def)

lemma register_each_append:
  "no_cancel e \<Longrightarrow> register_each e call (xs @ ys) st = register_each e call ys (register_each e call xs st)"
proof (induction xs arbitrary: st)
  case (Cons x xs)
  then show ?case using attempts_go_on [of e call "ep_grpc_endpoint x" st] by auto
qed simp

text \<open>
  A handler that some attempt reaches: the attempts before the one at \<open>i\<close> fail, the one at \<open>i\<close> establishes \<open>Q\<close>, and
  the attempts after it, which are made when its reply is lost, keep \<open>Q\<close>.
\<close>

lemma attempts_reach:
  assumes "no_cancel e" and "i < 3"
    and miss: "\<And>j w. j < i \<Longrightarrow> P j w \<Longrightarrow> \<exists>err w'. call ep w = (Err err, w') \<and> P (Suc j) w'"
    and hit: "\<And>calls w r w'. P i w \<Longrightarrow> call ep w = (r, w') \<Longrightarrow> Q (calls @ [(ep, r)]) w'"
    and keep: "\<And>calls w r w'. Q calls w \<Longrightarrow> call ep w = (r, w') \<Longrightarrow> Q (calls @ [(ep, r)]) w'"
  shows "i = j + d \<Longrightarrow> P j (rg_world st) \<Longrightarrow>
    Q (rg_calls (snd (register_attempts e call ep (Suc j) st))) (rg_world (snd (register_attempts e call ep (Suc j) st)))"
proof (induction d arbitrary: j st)
  case 0
  obtain r w where call: "call ep (rg_world st) = (r, w)" by fastforce
  have Q: "Q (rg_calls st @ [(ep, r)]) w" using hit [OF _ call] 0 by simp
  have later: "Q (rg_calls st2) (rg_world st2) \<Longrightarrow> Q (rg_calls (snd (register_attempts e call ep (Suc (Suc j)) st2)))
      (rg_world (snd (register_attempts e call ep (Suc (Suc j)) st2)))" for st2
    by (rule register_attempts_inv [of Q call ep _ 3, OF keep]) simp_all
  have "Suc j \<le> 3" "\<not> re_cancelled e (length (rg_calls st))" "\<not> re_cancelled_waiting e (length (rg_calls st))"
    using assms(1,2) 0 by (simp_all add: no_cancel_def)
  then show ?case
    using call Q later attempts_ok [of "Suc j" e st call ep] attempts_err [of "Suc j" e st call ep] by (cases r) (auto simp: Let_def)
next
  case (Suc d)
  obtain err w where call: "call ep (rg_world st) = (Err err, w)" "P (Suc j) w" using miss [of j] Suc.prems by force
  have "Suc j \<le> 3" "\<not> re_cancelled e (length (rg_calls st))" "\<not> re_cancelled_waiting e (length (rg_calls st))"
    using assms(1,2) Suc.prems(1) by (simp_all add: no_cancel_def)
  then show ?case
    using call attempts_err [of "Suc j" e st call ep err w] Suc.IH [of "Suc j"] Suc.prems(1) by (auto simp: Let_def)
qed

section \<open>What a call does to the fleet\<close>

abbreviation registration :: "string \<Rightarrow> string \<Rightarrow> instant \<Rightarrow> MeetingRegistration" where
  "registration my_id my_endpoint now \<equiv> \<lparr>mc_id = my_id, mc_grpc_endpoint = my_endpoint, registered_at = now\<rparr>"

definition registered_as :: "string \<Rightarrow> MeetingRegistration \<Rightarrow> handler_node \<Rightarrow> bool" where
  "registered_as mid reg n \<longleftrightarrow> hm_get (registered_meetings (hn_session n)) mid = Some reg
     \<and> hm_get (pending_connections (hn_session n)) mid = None"

text \<open>The handler knows the meeting since one of the calls, and its other meetings are as in \<open>node\<close>.\<close>

definition knows_meeting :: "network \<Rightarrow> string \<Rightarrow> string \<Rightarrow> string \<Rightarrow> string \<Rightarrow> handler_node \<Rightarrow> handler_node \<Rightarrow> bool" where
  "knows_meeting net ep mid my_id my_endpoint node n \<longleftrightarrow>
     (\<exists>i. registered_as mid (registration my_id my_endpoint (nw_now net ep i)) n)
     \<and> other_meetings_kept mid (hn_session node) (hn_session n)"

lemma handle_register_meeting_registered:
  "hm_get (registered_meetings (fst (snd (handle_register_meeting mid reg s)))) mid = Some reg"
  "hm_get (pending_connections (fst (snd (handle_register_meeting mid reg s)))) mid = None"
  by (simp_all add: handle_register_meeting_def Let_def)

lemma handler_answer_cases:
  assumes "handler_answer K ve now authorization (mid, my_id, my_endpoint) node = (r, n)"
  shows "hn_calls n = hn_calls node \<and>
    (r = Ok True \<and> registered_as mid (registration my_id my_endpoint now) n
        \<and> other_meetings_kept mid (hn_session node) (hn_session n)
     \<or> r \<noteq> Ok True \<and> hn_session n = hn_session node)"
proof -
  let ?req = "\<lparr>rgm_meeting_id = mid, rgm_mc_id = my_id, rgm_mc_grpc_endpoint = my_endpoint\<rparr>"
  let ?reg = "mh_register_meeting now ?req (hn_session node)"
  have "isl (fst ?reg) \<and> snd (snd (snd ?reg)) = hn_session node
      \<or> fst ?reg = Ok True \<and> hm_get (registered_meetings (snd (snd (snd ?reg)))) mid = Some (registration my_id my_endpoint now)
        \<and> hm_get (pending_connections (snd (snd (snd ?reg)))) mid = None
        \<and> other_meetings_kept mid (hn_session node) (snd (snd (snd ?reg)))"
    using mh_register_meeting_refused [of ?req now "hn_session node"] mh_register_meeting_ok [of ?req now "hn_session node"]
    by (cases "check_register_meeting ?req = Ok ()")
      (simp_all add: handle_register_meeting_registered handle_register_meeting_kept)
  then show ?thesis
    using assms unfolding handler_answer_def Let_def registered_as_def by (auto split: prod.splits sum.splits)
qed

lemma add_fate_simps [simp]:
  "hn_calls (add_fate f n) = hn_calls n @ [f]" "hn_session (add_fate f n) = hn_session n"
  "hn_validator (add_fate f n) = hn_validator n" "registered_as mid reg (add_fate f n) = registered_as mid reg n"
  by (simp_all add: add_fate_def registered_as_def)

lemma client_call_fate:
  assumes "nw_endpoint_err net ep = None" "nw_header_err net (''Bearer '' @ token) = None"
    and "handler_answer K (nw_validate net ep (length (hn_calls (w ep)))) (nw_now net ep (length (hn_calls (w ep))))
      (''Bearer '' @ token) (mid, my_id, my_endpoint) (w ep) = (a, n)"
    and "mh_client_register_meeting (fleet_transport K net) token mid my_id my_endpoint ep w = (r, w')"
  shows "case next_fate net ep (w ep) of
        Delivered \<Rightarrow> (case a of Inr b \<Rightarrow> b = (r = Ok ()) | Inl _ \<Rightarrow> r \<noteq> Ok ()) \<and> w' = w(ep := add_fate Delivered n)
      | ReplyLost e \<Rightarrow> r \<noteq> Ok () \<and> w' = w(ep := add_fate (ReplyLost e) n)
      | f \<Rightarrow> r \<noteq> Ok () \<and> w' = w(ep := add_fate f (w ep))"
  using assms by (auto simp: mh_client_register_meeting_def fleet_transport_def fleet_connect_def fleet_call_def Let_def
      split: call_fate.splits sum.splits if_splits)

text \<open>Either a call fails without a trace in the handler's sessions, or the handler takes the meeting, and the call
  succeeds exactly when the reply gets back.\<close>

lemma client_call_cases:
  assumes "mh_client_register_meeting (fleet_transport K net) token mid my_id my_endpoint ep w = (r, w')"
  obtains (failed) n where "w' = w(ep := n)" "r \<noteq> Ok ()" "hn_session n = hn_session (w ep)"
      "set (hn_calls (w ep)) \<subseteq> set (hn_calls n)"
  | (taken) n where "w' = w(ep := n)" "knows_meeting net ep mid my_id my_endpoint (w ep) n"
      "hn_calls n = hn_calls (w ep) @ [next_fate net ep (w ep)]" "arrives (next_fate net ep (w ep))"
      "r = Ok () \<longleftrightarrow> next_fate net ep (w ep) = Delivered"
proof -
  let ?i = "length (hn_calls (w ep))"
  have same: "w = w(ep := w ep)" by simp
  obtain a n where ans: "handler_answer K (nw_validate net ep ?i) (nw_now net ep ?i) (''Bearer '' @ token) (mid, my_id, my_endpoint) (w ep) = (a, n)"
    by fastforce
  note cases = handler_answer_cases [OF ans]
  show ?thesis
  proof (cases "nw_endpoint_err net ep = None \<and> nw_header_err net (''Bearer '' @ token) = None")
    case False
    then have "(w' = w \<or> w' = w(ep := add_fate (next_fate net ep (w ep)) (w ep))) \<and> r \<noteq> Ok ()"
      using assms by (auto simp: mh_client_register_meeting_def fleet_transport_def fleet_connect_def Let_def
          split: option.splits call_fate.splits)
    then show ?thesis using failed [of "w ep"] failed [of "add_fate (next_fate net ep (w ep)) (w ep)"] same by auto
  next
    case True
    then have run: "(case next_fate net ep (w ep) of
        Delivered \<Rightarrow> (case a of Inr b \<Rightarrow> b = (r = Ok ()) | Inl _ \<Rightarrow> r \<noteq> Ok ()) \<and> w' = w(ep := add_fate Delivered n)
      | ReplyLost e \<Rightarrow> r \<noteq> Ok () \<and> w' = w(ep := add_fate (ReplyLost e) n)
      | f \<Rightarrow> r \<noteq> Ok () \<and> w' = w(ep := add_fate f (w ep)))"
      using client_call_fate [OF _ _ ans assms] by simp
    show ?thesis
    proof (cases "a = Ok True \<and> arrives (next_fate net ep (w ep))")
      case True
      then have "w' = w(ep := add_fate (next_fate net ep (w ep)) n)" "r = Ok () \<longleftrightarrow> next_fate net ep (w ep) = Delivered"
        using run by (auto split: call_fate.splits)
      then show ?thesis
        using True cases by (intro taken [of "add_fate (next_fate net ep (w ep)) n"]) (auto simp: knows_meeting_def)
    next
      case False
      then have "r \<noteq> Ok () \<and> (w' = w(ep := add_fate (next_fate net ep (w ep)) (w ep))
          \<or> w' = w(ep := add_fate (next_fate net ep (w ep)) n) \<and> hn_session n = hn_session (w ep))"
        using run cases by (auto split: call_fate.splits sum.splits)
      then show ?thesis using cases failed [of "add_fate (next_fate net ep (w ep)) (w ep)"] failed [of "add_fate (next_fate net ep (w ep)) n"] by auto
    qed
  qed
qed

lemma knows_meeting_trans:
  "other_meetings_kept mid (hn_session node) (hn_session n) \<Longrightarrow> knows_meeting net ep mid my_id my_endpoint n n' \<Longrightarrow>
     knows_meeting net ep mid my_id my_endpoint node n'"
  by (auto simp: knows_meeting_def intro: other_meetings_kept_trans)

lemma knows_meeting_session:
  "hn_session n' = hn_session n \<Longrightarrow> knows_meeting net ep mid my_id my_endpoint node n' = knows_meeting net ep mid my_id my_endpoint node n"
  by (simp add: knows_meeting_def registered_as_def)

section \<open>The meeting reaches its handlers\<close>

text \<open>What the log of the task says of a handler that was \<open>before\<close> and is \<open>now\<close>.\<close>

definition log_tells ::
  "network \<Rightarrow> string \<Rightarrow> string \<Rightarrow> string \<Rightarrow> string \<Rightarrow> (string \<times> (unit, McError) result) list \<Rightarrow> handler_node \<Rightarrow> handler_node \<Rightarrow> bool"
where
  "log_tells net ep mid my_id my_endpoint calls before now \<longleftrightarrow>
     (if (ep, Ok ()) \<in> set calls then knows_meeting net ep mid my_id my_endpoint before now
      else hn_session now = hn_session before
        \<or> knows_meeting net ep mid my_id my_endpoint before now \<and> (\<exists>e. ReplyLost e \<in> set (hn_calls now)))"

lemma log_tells_step:
  assumes "log_tells net ep mid my_id my_endpoint calls before (w ep)"
    and "mh_client_register_meeting (fleet_transport K net) token mid my_id my_endpoint ep w = (r, w')"
  shows "log_tells net ep mid my_id my_endpoint (calls @ [(ep, r)]) before (w' ep)"
  using assms(2)
proof (cases rule: client_call_cases)
  case (failed n)
  then show ?thesis using assms(1) knows_meeting_session [of n "w ep"] by (auto simp: log_tells_def split: if_splits)
next
  case (taken n)
  have "other_meetings_kept mid (hn_session before) (hn_session (w ep))"
    using assms(1) by (auto simp: log_tells_def knows_meeting_def split: if_splits)
  then have "knows_meeting net ep mid my_id my_endpoint before n" using taken(2) by (rule knows_meeting_trans)
  then show ?thesis using taken by (cases "next_fate net ep (w ep)") (auto simp: log_tells_def)
qed

text \<open>
  C24. What the log of the first participant's task tells about the Media Handlers, as far as their sessions change
  through its calls only.  When the registration of a meeting ends, whether or not the service is shutting down: a
  handler to which a call succeeded knows the meeting under this controller's name and callback address, with no
  connection left waiting for it and its other meetings untouched.  A handler to which no call succeeded has its sessions
  exactly as they were, whatever calls failed and however often, unless the reply to one of them was lost: then it may know the meeting
  all the same, and its other meetings are untouched.
\<close>

theorem registration_log_exact:
  "\<forall>ep. let R = register_meeting_with_handlers e
          (mh_client_register_meeting (fleet_transport K net) token mid my_id my_endpoint) mh_data fleet;
          known = knows_meeting net ep mid my_id my_endpoint (fleet ep) (rg_world R ep)
        in if (ep, Ok ()) \<in> set (rg_calls R) then known
           else hn_session (rg_world R ep) = hn_session (fleet ep)
             \<or> known \<and> (\<exists>err. ReplyLost err \<in> set (hn_calls (rg_world R ep)))"
proof
  fix ep
  let ?call = "mh_client_register_meeting (fleet_transport K net) token mid my_id my_endpoint"
  let ?st = "\<lparr>rg_calls = [], rg_waited = 0, rg_world = fleet\<rparr>"
  define I where "I calls w = log_tells net ep mid my_id my_endpoint calls (fleet ep) (w ep)" for calls and w :: handler_fleet
  have step: "I (calls @ [(epa, r)]) w'" if inv: "I calls w" and run: "?call epa w = (r, w')" for calls w epa r w'
  proof (cases "epa = ep")
    case True
    then show ?thesis using log_tells_step inv run by (simp add: I_def)
  next
    case False
    from run have "w' ep = w ep" by (cases rule: client_call_cases) (use False in auto)
    then show ?thesis using inv False by (simp add: I_def log_tells_def)
  qed
  have "I (rg_calls ?st) (rg_world ?st)" by (simp add: I_def log_tells_def)
  then have "I (rg_calls (register_each e ?call (as_handlers mh_data) ?st)) (rg_world (register_each e ?call (as_handlers mh_data) ?st))"
    using register_each_inv [of "as_handlers mh_data" I ?call ?st e] step by blast
  then show "let R = register_meeting_with_handlers e ?call mh_data fleet;
          known = knows_meeting net ep mid my_id my_endpoint (fleet ep) (rg_world R ep)
        in if (ep, Ok ()) \<in> set (rg_calls R) then known
           else hn_session (rg_world R ep) = hn_session (fleet ep)
             \<or> known \<and> (\<exists>err. ReplyLost err \<in> set (hn_calls (rg_world R ep)))"
    by (simp add: I_def log_tells_def register_meeting_with_handlers_def Let_def)
qed

text \<open>An attempt that does not arrive, and one that does and whose token the handler accepts.\<close>

lemma missed_call:
  assumes "nw_endpoint_err net ep = None" "nw_header_err net (''Bearer '' @ token) = None" "\<not> arrives (next_fate net ep (w ep))"
  shows "\<exists>err. mh_client_register_meeting (fleet_transport K net) token mid my_id my_endpoint ep w
    = (Err err, w(ep := add_fate (next_fate net ep (w ep)) (w ep)))"
  using assms by (cases "next_fate net ep (w ep)")
    (simp_all add: mh_client_register_meeting_def fleet_transport_def fleet_connect_def fleet_call_def Let_def case_prod_unfold)

lemma accepted_answer:
  assumes "fst (jwt_validate K service_claims_of sc_iat ve token (hn_validator node)) = Ok c"
    and "token \<noteq> []" "length token \<le> 8192" "has_scope c ''service.write.mh''" "sc_service_type c = Some ''meeting-controller''"
    and "mid \<noteq> []" "length mid \<le> 256" "my_id \<noteq> []" "length my_id \<le> 256" "length my_endpoint \<le> 2048" "starts_with ''http://'' my_endpoint"
  shows "fst (handler_answer K ve now (''Bearer '' @ token) (mid, my_id, my_endpoint) node) = Ok True"
proof -
  let ?rq = "\<lparr>rq_header = HeaderText (''Bearer '' @ token), rq_path = register_meeting_path\<rparr>"
  let ?req = "\<lparr>rgm_meeting_id = mid, rgm_mc_id = my_id, rgm_mc_grpc_endpoint = my_endpoint\<rparr>"
  have req: "check_register_meeting ?req = Ok ()" using assms(6-11) by (auto simp: check_register_meeting_Ok starts_with_def)
  have "presented ?rq token" using assms(2,3) by (simp add: presented_def MAX_JWT_SIZE_BYTES_def)
  then have "fst (mh_grpc_auth K ve ?rq (hn_validator node)) = Ok c"
    using mh_gate.decides_valid [of ?rq token K ve "hn_validator node" c] assms(1,4,5) by (simp add: mh_routes_def starts_with_def)
  then obtain gm gv where "mh_grpc_auth K ve ?rq (hn_validator node) = (Ok c, gm, gv)" by (metis prod.collapse)
  moreover obtain l u s' where "mh_register_meeting now ?req (hn_session node) = (Ok True, l, u, s')"
    using mh_register_meeting_ok(1) [OF req, of now "hn_session node"] by (metis prod.collapse)
  ultimately show ?thesis by (simp add: handler_answer_def)
qed

lemma arriving_call:
  assumes "nw_endpoint_err net ep = None" "nw_header_err net (''Bearer '' @ token) = None" "arrives (next_fate net ep (w ep))"
    and ans: "fst (handler_answer K (nw_validate net ep (length (hn_calls (w ep)))) (nw_now net ep (length (hn_calls (w ep))))
      (''Bearer '' @ token) (mid, my_id, my_endpoint) (w ep)) = Ok True"
    and call: "mh_client_register_meeting (fleet_transport K net) token mid my_id my_endpoint ep w = (r, w')"
  shows "knows_meeting net ep mid my_id my_endpoint (w ep) (w' ep) \<and> (next_fate net ep (w ep) = Delivered \<longrightarrow> r = Ok ())"
proof -
  obtain n where n: "handler_answer K (nw_validate net ep (length (hn_calls (w ep)))) (nw_now net ep (length (hn_calls (w ep))))
      (''Bearer '' @ token) (mid, my_id, my_endpoint) (w ep) = (Ok True, n)"
    using ans by (metis prod.collapse)
  have "w' = w(ep := add_fate (next_fate net ep (w ep)) n)" "next_fate net ep (w ep) = Delivered \<longrightarrow> r = Ok ()"
    using client_call_fate [OF assms(1,2) n call] assms(3) by (auto split: call_fate.splits)
  then show ?thesis using handler_answer_cases [OF n] by (auto simp: knows_meeting_def)
qed

text \<open>
  C12. A Media Handler of the assignment that one of the three attempts reaches learns of the meeting, whatever becomes of
  the other handlers.  If the service is not shutting down, no call was made to the handler's endpoint before, the endpoint parses, the
  first attempt that arrives there finds the controller's service token accepted, and the identifiers are within the
  limits of the handler's checks, then when the task of the first participant ends the handler knows the meeting
  under this controller's name and callback address, with no connection left waiting for it; and if that attempt's
  reply gets back, the task has seen it succeed.
\<close>

theorem meeting_registered_everywhere:
  assumes "no_cancel e" "h \<in> set (as_handlers mh_data)" "ep = ep_grpc_endpoint h" "hn_calls (fleet ep) = []"
    and "nw_endpoint_err net ep = None" "nw_header_err net (''Bearer '' @ token) = None"
    and "i < 3" "arrives (nw_fate net ep i)" "\<forall>j < i. \<not> arrives (nw_fate net ep j)"
    and "fst (jwt_validate K service_claims_of sc_iat (nw_validate net ep i) token (hn_validator (fleet ep))) = Ok c"
    and "token \<noteq> []" "length token \<le> 8192" "has_scope c ''service.write.mh''" "sc_service_type c = Some ''meeting-controller''"
    and "mid \<noteq> []" "length mid \<le> 256" "my_id \<noteq> []" "length my_id \<le> 256" "length my_endpoint \<le> 2048" "starts_with ''http://'' my_endpoint"
    and "R = register_meeting_with_handlers e (mh_client_register_meeting (fleet_transport K net) token mid my_id my_endpoint) mh_data fleet"
  shows "knows_meeting net ep mid my_id my_endpoint (fleet ep) (rg_world R ep)
    \<and> (nw_fate net ep i = Delivered \<longrightarrow> (ep, Ok ()) \<in> set (rg_calls R))"
proof -
  let ?call = "mh_client_register_meeting (fleet_transport K net) token mid my_id my_endpoint"
  define P where "P j w \<longleftrightarrow> length (hn_calls (w ep)) = j \<and> hn_validator (w ep) = hn_validator (fleet ep)
      \<and> hn_session (w ep) = hn_session (fleet ep)" for j and w :: handler_fleet
  define Q where "Q calls w \<longleftrightarrow> knows_meeting net ep mid my_id my_endpoint (fleet ep) (w ep)
      \<and> (nw_fate net ep i = Delivered \<longrightarrow> (ep, Ok ()) \<in> set calls)"
    for calls :: "(string \<times> (unit, McError) result) list" and w :: handler_fleet
  have keep: "Q (calls @ [(epa, r)]) w'" if inv: "Q calls w" and run: "?call epa w = (r, w')" for calls w epa r w'
    using run
  proof (cases rule: client_call_cases)
    case (failed n)
    then show ?thesis using inv knows_meeting_session [of n "w ep"] by (auto simp: Q_def)
  next
    case (taken n)
    have "other_meetings_kept mid (hn_session (fleet ep)) (hn_session (w ep))" using inv by (simp add: Q_def knows_meeting_def)
    then have "knows_meeting net ep mid my_id my_endpoint (fleet ep) n" if "epa = ep" using knows_meeting_trans taken(2) that by blast
    then show ?thesis using inv taken(1) by (cases "epa = ep") (auto simp: Q_def)
  qed
  have miss: "\<exists>err w'. ?call ep w = (Err err, w') \<and> P (Suc j) w'" if "j < i" "P j w" for j w
    using missed_call [OF assms(5,6), of w] that assms(9) by (fastforce simp: P_def next_fate_def)
  have hit: "Q (calls @ [(ep, r)]) w'" if P: "P i w" and run: "?call ep w = (r, w')" for calls w r w'
  proof -
    have "fst (handler_answer K (nw_validate net ep i) (nw_now net ep i) (''Bearer '' @ token) (mid, my_id, my_endpoint) (w ep)) = Ok True"
      by (rule accepted_answer) (use assms(10-20) P in \<open>simp_all add: P_def\<close>)
    then have "knows_meeting net ep mid my_id my_endpoint (w ep) (w' ep) \<and> (nw_fate net ep i = Delivered \<longrightarrow> r = Ok ())"
      using arriving_call [OF assms(5,6) _ _ run] P assms(8) by (simp add: P_def next_fate_def)
    then show ?thesis using P by (auto simp: Q_def P_def knows_meeting_def)
  qed
  obtain xs h' ys where split: "as_handlers mh_data = xs @ h' # ys" "ep_grpc_endpoint h' = ep" "\<forall>x \<in> set xs. ep_grpc_endpoint x \<noteq> ep"
    using split_list_first_prop [of "as_handlers mh_data" "\<lambda>x. ep_grpc_endpoint x = ep"] assms(2,3) by blast
  let ?st0 = "\<lparr>rg_calls = [], rg_waited = 0, rg_world = fleet\<rparr>"
  define st1 where "st1 = register_each e ?call xs ?st0"
  have "rg_world st1 ep = fleet ep" unfolding st1_def
  proof (rule register_each_inv [where I = "\<lambda>_ w. w ep = fleet ep"])
    show "w' ep = fleet ep" if "x \<in> set xs" "w ep = fleet ep" "?call (ep_grpc_endpoint x) w = (r, w')" for w x r w'
      using that(3) by (cases rule: client_call_cases) (use that(1,2) split(3) in auto)
  qed simp
  then have "P 0 (rg_world st1)" using assms(4) by (simp add: P_def)
  then have at: "Q (rg_calls (snd (register_attempts e ?call ep 1 st1))) (rg_world (snd (register_attempts e ?call ep 1 st1)))"
    using attempts_reach [of e i P ?call ep Q 0 i st1, OF assms(1,7) miss hit keep] by simp
  obtain st2 where st2: "register_attempts e ?call ep 1 st1 = (True, st2)" using attempts_go_on [OF assms(1)] by blast
  have "R = register_each e ?call (h' # ys) st1"
    unfolding assms(21) register_meeting_with_handlers_def split(1) st1_def by (rule register_each_append [OF assms(1)])
  then have "R = register_each e ?call ys st2" using st2 split(2) by simp
  then have "Q (rg_calls R) (rg_world R)" using at st2 register_each_inv [of ys Q ?call st2 e] keep by simp
  then show ?thesis by (simp add: Q_def)
qed

text \<open>
  Why the log says no more: a handler whose every reply is lost is logged as failed, although by the last property it
  knows the meeting when a request reaches it and its token is accepted.
\<close>

lemma lost_replies_logged_as_failed:
  assumes "\<forall>i. \<exists>err. nw_fate net ep i = ReplyLost err"
    and "R = register_meeting_with_handlers e (mh_client_register_meeting (fleet_transport K net) token mid my_id my_endpoint) mh_data fleet"
  shows "(ep, Ok ()) \<notin> set (rg_calls R)"
proof -
  let ?call = "mh_client_register_meeting (fleet_transport K net) token mid my_id my_endpoint"
  have lost: "next_fate net ep n \<noteq> Delivered" for n using assms(1) by (metis next_fate_def call_fate.distinct(11))
  have step: "(ep, Ok ()) \<notin> set (calls @ [(epa, r)])" if "(ep, Ok ()) \<notin> set calls" "?call epa w = (r, w')" for calls epa w r w'
    using that(2) by (cases rule: client_call_cases) (use that(1) lost in auto)
  show ?thesis
    unfolding assms(2) register_meeting_with_handlers_def
    by (rule register_each_inv [where I = "\<lambda>calls _. (ep, Ok ()) \<notin> set calls", OF step]) simp_all
qed

definition demo_mc_claims :: ServiceClaims where
  "demo_mc_claims = service_claims_new ''mc-1'' 4600 1000 ''service.write.mh service.write.gc'' (Some ''meeting-controller'')"

abbreviation "demo_mc_lib \<equiv> demo_lib ''k'' [7] [2] (service_claims_json demo_mc_claims)"

definition demo_fleet_nodes :: handler_fleet where
  "demo_fleet_nodes = (\<lambda>_. \<lparr>hn_validator = demo_validator, hn_session = session_new, hn_calls = []\<rparr>)"

text \<open>Handler \<open>a\<close> is down for good, and the first request to handler \<open>b\<close> gets lost.\<close>

definition demo_network :: network where
  "demo_network = \<lparr>nw_fate = (\<lambda>ep i. if ep = ''http://a'' then Unreachable ''refused''
       else if i = 0 then RequestLost ''timeout'' else Delivered),
     nw_now = (\<lambda>ep i. 7 + i), nw_validate = (\<lambda>ep i. demo_validate_env 2000),
     nw_endpoint_err = (\<lambda>_. None), nw_header_err = (\<lambda>_. None)\<rparr>"

lemma demo_mc_token_accepted:
  "fst (jwt_validate demo_mc_lib service_claims_of sc_iat (demo_validate_env 2000) ''ab.b.b'' demo_validator) = Ok demo_mc_claims"
  "has_scope demo_mc_claims ''service.write.mh''" "sc_service_type demo_mc_claims = Some ''meeting-controller''"
  by code_simp+

theorem meeting_registered_everywhere_witness:
  "let R = register_meeting_with_handlers demo_reg_env
      (mh_client_register_meeting (fleet_transport demo_mc_lib demo_network) ''ab.b.b'' ''m'' ''mc-1'' ''http://mc'')
      demo_handlers demo_fleet_nodes
   in knows_meeting demo_network ''http://b'' ''m'' ''mc-1'' ''http://mc'' (demo_fleet_nodes ''http://b'') (rg_world R ''http://b'')
    \<and> (''http://b'', Ok ()) \<in> set (rg_calls R)"
proof -
  define R where "R = register_meeting_with_handlers demo_reg_env
      (mh_client_register_meeting (fleet_transport demo_mc_lib demo_network) ''ab.b.b'' ''m'' ''mc-1'' ''http://mc'')
      demo_handlers demo_fleet_nodes"
  have fates: "nw_fate demo_network ''http://b'' 0 = RequestLost ''timeout''" "nw_fate demo_network ''http://b'' 1 = Delivered"
    by (simp_all add: demo_network_def)
  have "knows_meeting demo_network ''http://b'' ''m'' ''mc-1'' ''http://mc'' (demo_fleet_nodes ''http://b'') (rg_world R ''http://b'')
      \<and> (nw_fate demo_network ''http://b'' 1 = Delivered \<longrightarrow> (''http://b'', Ok ()) \<in> set (rg_calls R))"
    by (rule meeting_registered_everywhere [of demo_reg_env "as_handlers demo_handlers ! 1" demo_handlers _ _ _ _ 1 demo_mc_lib demo_mc_claims,
          OF _ _ _ _ _ _ _ _ _ _ _ _ _ _ _ _ _ _ _ _ R_def])
      (simp_all add: demo_reg_env_def no_cancel_def demo_handlers_def demo_fleet_nodes_def fates demo_mc_token_accepted starts_with_def,
       simp_all add: demo_network_def demo_mc_token_accepted)
  then show ?thesis using fates by (simp add: R_def [symmetric])
qed

end
