(* ===== verification/AC_Key_Props.thy ===== *)
theory AC_Key_Props
  imports AC_Keys
begin

text \<open>
  What holds of the Auth Controller's signing keys: when a rotation is allowed and what it leaves, that every stored
  key can be decrypted and is published with its own public half, in every reachable state, and what a rotation does not
  revoke.
\<close>

section \<open>What a rotation does\<close>

lemma new_key_fields:
  assumes "new_key K L e master_key kid = Ok k"
  shows "ky_key_id k = kid \<and> ky_is_active k \<and> ky_valid_from k = ke_now e \<and> ky_valid_until k = ke_now e + KEY_VALIDITY
    \<and> ky_created_at k = ke_db_now e"
  using assms by (auto simp: new_key_def split: sum.splits prod.splits)

definition deactivated :: "SigningKey \<Rightarrow> SigningKey" where
  "deactivated k = k\<lparr>ky_is_active := False\<rparr>"

lemma deactivated_fields [simp]:
  "ky_key_id (deactivated k) = ky_key_id k" "\<not> ky_is_active (deactivated k)" "ky_valid_until (deactivated k) = ky_valid_until k"
  "ky_public_key (deactivated k) = ky_public_key k" "ky_valid_from (deactivated k) = ky_valid_from k"
  by (simp_all add: deactivated_def)

lemma activate_only_new:
  assumes "kid \<notin> ky_key_id ` set (ad_keys db)" "ky_key_id k = kid" "ky_is_active k"
  shows "activate_only kid (db\<lparr>ad_keys := ad_keys db @ [k]\<rparr>) = db\<lparr>ad_keys := map deactivated (ad_keys db) @ [k]\<rparr>"
proof -
  have "(\<lambda>k. if ky_is_active k then k\<lparr>ky_is_active := False\<rparr> else k) = deactivated"
    by (auto simp: deactivated_def)
  moreover have "map ((\<lambda>k. if ky_key_id k = kid then k\<lparr>ky_is_active := True\<rparr> else k) \<circ> deactivated) (ad_keys db)
      = map deactivated (ad_keys db)"
    using assms(1) by (auto simp: image_iff)
  moreover have "(deactivated k)\<lparr>ky_is_active := True\<rparr> = k" using assms(3) by (simp add: deactivated_def)
  ultimately show ?thesis using assms(2) by (simp add: activate_only_def)
qed

lemma rotate_signing_key_tx_ok:
  assumes "rotate_signing_key_tx K L year e master_key cluster db = Ok (kid, db')"
  obtains k where "new_key K L e master_key kid = Ok k" "kid \<notin> ky_key_id ` set (ad_keys db)"
    "db' = db\<lparr>ad_keys := map deactivated (ad_keys db) @ [k]\<rparr>"
proof -
  obtain k d where k: "new_key K L e master_key kid = Ok k" "insert_key k db = (Ok d, db\<lparr>ad_keys := ad_keys db @ [k]\<rparr>)"
    "db' = activate_only kid (db\<lparr>ad_keys := ad_keys db @ [k]\<rparr>)"
    using assms by (auto simp: rotate_signing_key_tx_def Let_def insert_key_def split: sum.splits prod.splits if_splits)
  then have "kid \<notin> ky_key_id ` set (ad_keys db)"
    using new_key_fields [OF k(1)] by (auto simp: insert_key_def split: if_splits)
  then show ?thesis using that k activate_only_new new_key_fields by metis
qed

text \<open>The tables after a rotation: every other key is off, so one key at most is usable.\<close>

definition rotated :: "SigningKey \<Rightarrow> ac_db \<Rightarrow> ac_db" where
  "rotated k db = db\<lparr>ad_keys := map deactivated (ad_keys db) @ [k]\<rparr>"

lemma usable_keys_rotated: "usable_keys t (rotated k db) = (if key_usable t k then [k] else [])"
  by (simp add: usable_keys_def rotated_def key_usable_def o_def)

lemma last_rotation_ge: "k \<in> set (ad_keys db) \<Longrightarrow> \<exists>t. last_rotation db = Some t \<and> ky_created_at k \<le> t"
  by (auto simp: last_rotation_def intro!: Max_ge)

lemma rotation_tx_ok:
  assumes "rotation_tx K L year e master_key cluster force db = Ok ((old, kid), db')"
  obtains k where "new_key K L (ro_key e) master_key kid = Ok k" "kid \<notin> ky_key_id ` set (ad_keys db)" "db' = rotated k db"
    "old \<in> set (ad_keys db)" "\<forall>k \<in> set (ad_keys db). ky_created_at k + min_interval force \<le> ro_check_now e"
proof -
  obtain us where us: "usable_keys (ke_db_now (ro_key e)) db = old # us"
    "rotate_signing_key_tx K L year (ro_key e) master_key cluster db = Ok (kid, db')"
    using assms by (auto simp: rotation_tx_def Let_def split: list.splits sum.splits prod.splits option.splits if_splits)
  have old: "old \<in> set (ad_keys db)" using us(1) set_usable_keys [of "ke_db_now (ro_key e)" db] by auto
  have "\<forall>k \<in> set (ad_keys db). ky_created_at k + min_interval force \<le> ro_check_now e"
  proof
    fix k assume "k \<in> set (ad_keys db)"
    then obtain t where t: "last_rotation db = Some t" "ky_created_at k \<le> t" using last_rotation_ge by blast
    then have "\<not> int (ro_check_now e) - int t < int (min_interval force)"
      using assms by (auto simp: rotation_tx_def Let_def)
    then show "ky_created_at k + min_interval force \<le> ro_check_now e" using t(2) by linarith
  qed
  then show ?thesis using rotate_signing_key_tx_ok [OF us(2)] that old unfolding rotated_def by metis
qed

lemma authorize_rotation_snd [simp]: "snd (authorize_rotation K e header db) = db"
  by (auto simp: authorize_rotation_def Let_def split: sum.split prod.split option.split dest!: get_by_key_id_db)

lemma handle_rotate_keys_ok:
  assumes "handle_rotate_keys K L year e master_key cluster header db = (Ok r, db')"
  obtains force old where "authorize_rotation K e header db = (Ok force, db)"
    "rotation_tx K L year e master_key cluster force db = Ok ((old, rr_new_key_id r), db')" "rr_old_key_id r = ky_key_id old"
proof -
  obtain force db1 where a: "authorize_rotation K e header db = (Ok force, db1)"
    using assms by (auto simp: handle_rotate_keys_def split: sum.splits prod.splits)
  then have "db1 = db" using authorize_rotation_snd by (metis snd_conv)
  with assms a that show ?thesis
    by (auto simp: handle_rotate_keys_def run_tx_def get_by_key_id_ok split: sum.splits prod.splits option.splits db_fault.splits)
qed

lemma rotation_effect:
  assumes "handle_rotate_keys K L year e master_key cluster header db = (Ok r, db')"
  shows "\<exists>k. ky_key_id k = rr_new_key_id r \<and> rr_new_key_id r \<notin> ky_key_id ` set (ad_keys db) \<and> (\<forall>t. set (usable_keys t db') \<subseteq> {k})"
proof -
  obtain force old where "rotation_tx K L year e master_key cluster force db = Ok ((old, rr_new_key_id r), db')"
    using handle_rotate_keys_ok [OF assms] by metis
  then obtain k where "new_key K L (ro_key e) master_key (rr_new_key_id r) = Ok k"
    "rr_new_key_id r \<notin> ky_key_id ` set (ad_keys db)" "db' = rotated k db"
    using rotation_tx_ok by metis
  then show ?thesis using new_key_fields by (intro exI [of _ k]) (auto simp: usable_keys_rotated)
qed

text \<open>
  C17. A key rotation succeeds only with a token that authorizes it and only when every existing key was created at
  least one hour ago, or six days when the token does not have the force scope.  It adds one key under a new
  identifier and deactivates all others, so that at any time \<open>t\<close> of the database the only usable key is the new one, and
  only from the application's time of the rotation and for a year.
\<close>

theorem rotation_limits_and_effect:
  assumes "handle_rotate_keys K L year e master_key cluster header db = (Ok r, db')"
  shows "\<exists>force k. authorize_rotation K e header db = (Ok force, db)
    \<and> (\<forall>old \<in> set (ad_keys db). ky_created_at old + from_secs (if force then 3600 else 6 * 86400) \<le> ro_check_now e)
    \<and> db' = db\<lparr>ad_keys := map (\<lambda>old. old\<lparr>ky_is_active := False\<rparr>) (ad_keys db) @ [k]\<rparr>
    \<and> ky_key_id k = rr_new_key_id r \<and> rr_new_key_id r \<notin> ky_key_id ` set (ad_keys db)
    \<and> (\<forall>t. usable_keys t db' =
          (if ke_now (ro_key e) \<le> t \<and> t < ke_now (ro_key e) + from_secs (365 * 86400) then [k] else []))"
proof -
  obtain force old where h: "authorize_rotation K e header db = (Ok force, db)"
    "rotation_tx K L year e master_key cluster force db = Ok ((old, rr_new_key_id r), db')"
    using handle_rotate_keys_ok [OF assms] by metis
  obtain k where k: "new_key K L (ro_key e) master_key (rr_new_key_id r) = Ok k"
    "rr_new_key_id r \<notin> ky_key_id ` set (ad_keys db)" "db' = rotated k db"
    "\<forall>k \<in> set (ad_keys db). ky_created_at k + min_interval force \<le> ro_check_now e"
    using rotation_tx_ok [OF h(2)] by metis
  moreover have "usable_keys t db' =
      (if ke_now (ro_key e) \<le> t \<and> t < ke_now (ro_key e) + from_secs (365 * 86400) then [k] else [])" for t
    using new_key_fields [OF k(1)] by (simp add: k(3) usable_keys_rotated key_usable_def KEY_VALIDITY_def)
  moreover have "deactivated = (\<lambda>old. old\<lparr>ky_is_active := False\<rparr>)" by (auto simp: deactivated_def)
  ultimately show ?thesis using h(1) new_key_fields [OF k(1)] by (auto simp: min_interval_def rotated_def)
qed

definition demo_crypto :: crypto_lib where
  "demo_crypto = \<lparr>cl_public = (\<lambda>p. if p = [7] then Ok [2] else Ok [3]), cl_seal = (\<lambda>m n p. Ok (p @ replicate 16 0)),
     cl_open = (\<lambda>m n c. Ok (take (length c - 16) c)), cl_hash = (\<lambda>salt s cost. Ok (''h'' @ s)),
     cl_verify = (\<lambda>s h. Ok (h = ''h'' @ s))\<rparr>"

definition demo_key :: SigningKey where
  "demo_key = \<lparr>ky_key_id = ''k'', ky_public_key = public_key_pem demo_K [2], ky_private_key_encrypted = [7],
     ky_encryption_nonce = replicate 12 0, ky_encryption_tag = replicate 16 0, ky_is_active = True, ky_valid_from = 0,
     ky_valid_until = KEY_VALIDITY, ky_created_at = 0\<rparr>"

definition demo_db :: ac_db where
  "demo_db = \<lparr>ad_orgs = [], ad_credentials = [], ad_keys = [demo_key], ad_events = [], ad_users = [], ad_roles = []\<rparr>"

definition demo_key_env :: "instant \<Rightarrow> key_env" where
  "demo_key_env t = \<lparr>ke_pkcs8 = Ok [9], ke_nonce = Ok (replicate 12 1), ke_now = t, ke_db_now = t, ke_inet_ok = (\<lambda>_. True),
     ke_active_fault = DbOk, ke_count_fault = DbOk, ke_create_fault = DbOk, ke_rotate_fault = DbOk, ke_log_fault = DbOk\<rparr>"

definition demo_rotate_env :: "instant \<Rightarrow> rotate_env" where
  "demo_rotate_env t = \<lparr>ro_lookup_fault = DbOk, ro_lookup_now = t, ro_exp_now = 4000, ro_iat_now = 4000, ro_skew = 300,
     ro_check_now = t, ro_tx = DbOk, ro_key = demo_key_env t, ro_final_fault = DbOk\<rparr>"

lemma demo_env_sel [simp]:
  "ro_key (demo_rotate_env t) = demo_key_env t" "ro_tx (demo_rotate_env t) = DbOk" "ro_check_now (demo_rotate_env t) = t"
  "ro_final_fault (demo_rotate_env t) = DbOk" "ke_db_now (demo_key_env t) = t" "ke_now (demo_key_env t) = t"
  "ke_active_fault (demo_key_env t) = DbOk" "ke_count_fault (demo_key_env t) = DbOk" "ke_create_fault (demo_key_env t) = DbOk"
  by (simp_all add: demo_rotate_env_def demo_key_env_def)

abbreviation "demo_rotator \<equiv> demo_lib ''k'' [7] [2]
  (service_claims_json (service_claims_new ''op'' 4600 1000 ''admin.force-rotate-keys.ac'' (Some ''global-controller'')))"

lemma demo_authorized:
  "authorize_rotation demo_rotator (demo_rotate_env (from_secs 4000)) (Some ''Bearer ab.b.b'') demo_db = (Ok True, demo_db)"
proof -
  have "bearer_token (Some ''Bearer ab.b.b'') = Ok ''ab.b.b''" by code_simp
  moreover have "extract_kid demo_rotator ''ab.b.b'' = Ok ''k''" by code_simp
  moreover have "verify_jwt demo_rotator 4000 4000 ''ab.b.b'' (public_key_pem demo_K [2]) 300
      = Ok (service_claims_new ''op'' 4600 1000 ''admin.force-rotate-keys.ac'' (Some ''global-controller''))"
    by code_simp
  moreover have "split_whitespace ''admin.force-rotate-keys.ac'' = [''admin.force-rotate-keys.ac'']" by code_simp
  ultimately show ?thesis
    by (simp add: authorize_rotation_def demo_rotate_env_def get_by_key_id_def demo_db_def demo_key_def KEY_VALIDITY_def
        from_secs_def service_claims_new_def)
qed

definition demo_new_key :: "instant \<Rightarrow> SigningKey" where
  "demo_new_key t = \<lparr>ky_key_id = ''auth-eu-2025-01'', ky_public_key = public_key_pem demo_K [3], ky_private_key_encrypted = [9],
     ky_encryption_nonce = replicate 12 1, ky_encryption_tag = replicate 16 0, ky_is_active = True, ky_valid_from = t,
     ky_valid_until = t + KEY_VALIDITY, ky_created_at = t\<rparr>"

lemma demo_new_key_made:
  "new_key (demo_lib kid priv pub payload) demo_crypto (demo_key_env t) (replicate 32 5) ''auth-eu-2025-01'' = Ok (demo_new_key t)"
  by (simp add: new_key_def generate_signing_key_def encrypt_private_key_def demo_key_env_def demo_crypto_def demo_new_key_def
      crypto_err_def public_key_pem_def demo_lib_def)

lemma demo_rotate_tx:
  "rotate_signing_key_tx demo_rotator demo_crypto (\<lambda>_. ''2025'') (demo_key_env t) (replicate 32 5) ''eu'' demo_db
     = Ok (''auth-eu-2025-01'', rotated (demo_new_key t) demo_db)"
proof -
  have "like ''auth-eu-2025-%'' ''k'' = False" by code_simp
  then have "count_keys_like ''auth-eu-2025-'' demo_db = 0" by (simp add: count_keys_like_def demo_db_def demo_key_def)
  moreover have "show_nat2 (Suc 0) = ''01''" by code_simp
  moreover have "insert_key (demo_new_key t) demo_db = (Ok (demo_new_key t), demo_db\<lparr>ad_keys := ad_keys demo_db @ [demo_new_key t]\<rparr>)"
    by (simp add: insert_key_def demo_new_key_def demo_db_def demo_key_def KEY_VALIDITY_def from_secs_def)
  moreover have "activate_only ''auth-eu-2025-01'' (demo_db\<lparr>ad_keys := ad_keys demo_db @ [demo_new_key t]\<rparr>)
      = rotated (demo_new_key t) demo_db"
    unfolding rotated_def by (rule activate_only_new) (simp_all add: demo_db_def demo_key_def demo_new_key_def)
  ultimately show ?thesis
    using demo_new_key_made by (simp add: rotate_signing_key_tx_def key_prefix_def)
qed

lemma demo_rotation:
  "handle_rotate_keys demo_rotator demo_crypto (\<lambda>_. ''2025'') (demo_rotate_env (from_secs 4000)) (replicate 32 5) ''eu''
     (Some ''Bearer ab.b.b'') demo_db
   = (Ok \<lparr>rr_rotated = True, rr_new_key_id = ''auth-eu-2025-01'', rr_old_key_id = ''k'', rr_old_key_valid_until = KEY_VALIDITY\<rparr>,
      rotated (demo_new_key (from_secs 4000)) demo_db)"
proof -
  have "usable_keys (from_secs 4000) demo_db = [demo_key]"
    by (simp add: usable_keys_def demo_db_def demo_key_def key_usable_def KEY_VALIDITY_def from_secs_def)
  moreover have "last_rotation demo_db = Some 0" by (simp add: last_rotation_def demo_db_def demo_key_def)
  moreover have "get_by_key_id DbOk ''k'' (rotated k demo_db) = (Ok (Some (deactivated demo_key)), rotated k demo_db)" for k
    by (simp add: get_by_key_id_def rotated_def demo_db_def demo_key_def)
  moreover have "\<not> int (from_secs 4000) < int (from_secs 3600)" by (simp add: from_secs_def)
  moreover have "ky_key_id demo_key = ''k''" "ky_valid_until demo_key = KEY_VALIDITY" by (simp_all add: demo_key_def)
  ultimately show ?thesis
    using demo_rotate_tx by (simp add: handle_rotate_keys_def demo_authorized run_tx_def rotation_tx_def min_interval_def)
qed

theorem rotation_limits_and_effect_witness:
  "\<exists>k. usable_keys (from_secs 4000) (rotated (demo_new_key (from_secs 4000)) demo_db) = [k]"
  using rotation_limits_and_effect [OF demo_rotation]
  by (force simp: from_secs_def)

section \<open>Stored keys can be used\<close>

text \<open>AES-GCM opens what it sealed, and its tag is 16 bytes.\<close>

definition sealing_ok :: "crypto_lib \<Rightarrow> bool" where
  "sealing_ok L \<longleftrightarrow>
     (\<forall>m n p c. length m = 32 \<longrightarrow> length n = 12 \<longrightarrow> cl_seal L m n p = Ok c \<longrightarrow>
        length c = length p + 16 \<and> cl_open L m n c = Ok p)"

definition stored_private_key :: "crypto_lib \<Rightarrow> u8 list \<Rightarrow> SigningKey \<Rightarrow> (u8 list, AcError) result" where
  "stored_private_key L master_key k =
     decrypt_private_key L \<lparr>ek_data = ky_private_key_encrypted k, ek_nonce = ky_encryption_nonce k, ek_tag = ky_encryption_tag k\<rparr>
       master_key"

definition key_ok :: "jwt_lib \<Rightarrow> crypto_lib \<Rightarrow> u8 list \<Rightarrow> SigningKey \<Rightarrow> bool" where
  "key_ok K L master_key k \<longleftrightarrow> ky_key_id k \<noteq> []
     \<and> (\<exists>priv pub. stored_private_key L master_key k = Ok priv \<and> cl_public L priv = Ok pub \<and> ky_public_key k = public_key_pem K pub)"

definition keys_wf :: "jwt_lib \<Rightarrow> crypto_lib \<Rightarrow> u8 list \<Rightarrow> ac_db \<Rightarrow> bool" where
  "keys_wf K L master_key db \<longleftrightarrow>
     distinct (map ky_key_id (ad_keys db)) \<and> (\<forall>k \<in> set (ad_keys db). key_ok K L master_key k)"

lemma decrypt_encrypted:
  assumes "sealing_ok L" "encrypt_private_key L nonce priv master_key = Ok ek" "\<And>n. nonce = Ok n \<Longrightarrow> length n = 12"
  shows "decrypt_private_key L ek master_key = Ok priv"
proof -
  obtain n c where "length master_key = 32" "nonce = Ok n" "cl_seal L master_key n priv = Ok c" "16 \<le> length c"
    "ek = \<lparr>ek_data = take (length c - 16) c, ek_nonce = n, ek_tag = drop (length c - 16) c\<rparr>"
    using assms(2) by (auto simp: encrypt_private_key_def bad_length_def crypto_err_def Let_def split: sum.splits if_splits)
  moreover from this assms(1,3) have "length n = 12" "cl_open L master_key n c = Ok priv" unfolding sealing_ok_def by blast+
  ultimately show ?thesis by (simp add: decrypt_private_key_def crypto_err_def)
qed

lemma new_key_ok:
  assumes "sealing_ok L" "\<And>n. ke_nonce e = Ok n \<Longrightarrow> length n = 12" "new_key K L e master_key kid = Ok k" "kid \<noteq> []"
  shows "key_ok K L master_key k"
proof -
  obtain priv pub ek where k: "cl_public L priv = Ok pub" "encrypt_private_key L (ke_nonce e) priv master_key = Ok ek"
    "ky_public_key k = public_key_pem K pub" "ky_key_id k = kid"
    "ky_private_key_encrypted k = ek_data ek" "ky_encryption_nonce k = ek_nonce ek" "ky_encryption_tag k = ek_tag ek"
    using assms(3) by (auto simp: new_key_def generate_signing_key_def crypto_err_def split: sum.splits prod.splits)
  then have "stored_private_key L master_key k = Ok priv"
    using decrypt_encrypted [OF assms(1) k(2) assms(2)] by (cases ek) (simp add: stored_private_key_def)
  then show ?thesis using k assms(4) by (auto simp: key_ok_def)
qed

text \<open>Switching keys on and off keeps the invariant.\<close>

lemma key_ok_deactivated: "key_ok K L m (deactivated k) = key_ok K L m k"
  by (simp add: key_ok_def stored_private_key_def deactivated_def)

lemma keys_wf_map:
  assumes "keys_wf K L m db" "\<And>k. deactivated (g k) = deactivated k"
  shows "keys_wf K L m (db\<lparr>ad_keys := map g (ad_keys db)\<rparr>)"
proof -
  have "ky_key_id (g k) = ky_key_id k" "key_ok K L m (g k) = key_ok K L m k" for k
    using assms(2) [of k] key_ok_deactivated deactivated_fields(1) by metis+
  then show ?thesis using assms(1) by (simp add: keys_wf_def o_def)
qed

lemma keys_wf_activate_only: "keys_wf K L m db \<Longrightarrow> keys_wf K L m (activate_only kid db)"
  unfolding activate_only_def map_map by (erule keys_wf_map) (simp add: deactivated_def)

lemma keys_wf_deactivate_key: "keys_wf K L m db \<Longrightarrow> keys_wf K L m (snd (deactivate_key f kid db))"
  by (cases f) (auto simp: deactivate_key_def intro!: keys_wf_map simp: deactivated_def)

lemma keys_wf_cong: "ad_keys db' = ad_keys db \<Longrightarrow> keys_wf K L m db' = keys_wf K L m db"
  by (simp add: keys_wf_def)

lemma log_event_keys [simp]: "ad_keys (snd (log_event inet f now ty u c s r ip db)) = ad_keys db"
  by (cases f) (simp_all add: log_event_def Let_def)

lemma keys_wf_log [simp]: "keys_wf K L m (snd (log_event inet f now ty u c s r ip db)) = keys_wf K L m db"
  by (rule keys_wf_cong) simp

lemma keys_wf_insert: "keys_wf K L m db \<Longrightarrow> key_ok K L m k \<Longrightarrow> keys_wf K L m (snd (insert_key k db))"
  by (auto simp: keys_wf_def insert_key_def)

lemma keys_wf_create: "keys_wf K L m db \<Longrightarrow> key_ok K L m k \<Longrightarrow> keys_wf K L m (snd (create_signing_key f k db))"
  using keys_wf_insert by (cases f) (fastforce simp: create_signing_key_def split: prod.split sum.split)+

lemma keys_wf_rotate_key: "keys_wf K L m db \<Longrightarrow> keys_wf K L m (snd (rotate_key f kid db))"
  by (cases f) (simp_all add: rotate_key_def keys_wf_activate_only)

lemma keys_wf_expire_each: "keys_wf K L m db \<Longrightarrow> keys_wf K L m (snd (expire_each inet now fs kids db))"
proof (induction kids arbitrary: db)
  case (Cons kid kids)
  obtain r db1 where d: "deactivate_key (fst (fs kid)) kid db = (r, db1)" by fastforce
  then have wf: "keys_wf K L m db1" using keys_wf_deactivate_key [OF Cons.prems, of "fst (fs kid)" kid] by simp
  then show ?case
    using Cons.IH [of "snd (log_event inet (snd (fs kid)) now (event_str KeyExpired) None None True None None db1)"] d
    by (cases r) (auto split: prod.split sum.split)
qed simp

definition nonce_ok :: "key_env \<Rightarrow> bool" where
  "nonce_ok e \<longleftrightarrow> (\<forall>n. ke_nonce e = Ok n \<longrightarrow> length n = 12)"

lemma key_prefix_not_Nil [simp]: "key_prefix year cluster now \<noteq> []"
  by (simp add: key_prefix_def)

lemma new_key_id_ok:
  "sealing_ok L \<Longrightarrow> nonce_ok e \<Longrightarrow> new_key K L e m (key_prefix year cluster now @ s) = Ok k \<Longrightarrow> key_ok K L m k"
  by (rule new_key_ok) (auto simp: nonce_ok_def)

lemma get_next_key_sequence_db: "get_next_key_sequence f prefix db = (r, db') \<Longrightarrow> db' = db"
  using ac_exec_read [of "\<lambda>db. (Ok ((count_keys_like prefix db + 1) mod 2 ^ 32), db)" "''Failed to count keys: ''" f db]
  by (simp add: get_next_key_sequence_def)

lemma keys_wf_initialize:
  assumes "sealing_ok L" "nonce_ok e" "keys_wf K L m db"
  shows "keys_wf K L m (snd (initialize_signing_key K L year e m cluster db))"
  using assms keys_wf_create [OF assms(3) new_key_id_ok [OF assms(1,2)], of _ _ _ _ _ "ke_create_fault e"]
  by (auto simp: initialize_signing_key_def Let_def log_key_event_def split: prod.split sum.split option.split
      dest!: get_active_key_db get_next_key_sequence_db) (metis snd_conv)+

lemma keys_wf_rotate:
  assumes "sealing_ok L" "nonce_ok e" "keys_wf K L m db"
  shows "keys_wf K L m (snd (rotate_signing_key K L year e m cluster db))"
proof -
  have create: "keys_wf K L m db2"
    if "new_key K L e m (key_prefix year cluster (ke_now e) @ s) = Ok k" "create_signing_key (ke_create_fault e) k db = (r, db2)" for s k r db2
    using keys_wf_create [OF assms(3) new_key_id_ok [OF assms(1,2) that(1)], of "ke_create_fault e"] that(2) by simp
  have rotate: "keys_wf K L m db3" if "keys_wf K L m db2" "rotate_key f kid db2 = (r, db3)" for db2 db3 f kid r
    using keys_wf_rotate_key [OF that(1), of f kid] that(2) by simp
  show ?thesis
    using assms create rotate
    by (auto simp: rotate_signing_key_def Let_def log_key_event_def split: prod.split sum.split dest!: get_next_key_sequence_db) blast+
qed

lemma keys_wf_rotated:
  "keys_wf K L m db \<Longrightarrow> key_ok K L m k \<Longrightarrow> ky_key_id k \<notin> ky_key_id ` set (ad_keys db) \<Longrightarrow> keys_wf K L m (rotated k db)"
  by (auto simp: keys_wf_def rotated_def key_ok_deactivated o_def)

lemma keys_wf_rotation_tx:
  assumes "sealing_ok L" "nonce_ok (ro_key e)" "keys_wf K L m db"
    "rotation_tx K L year e m cluster force db = Ok (a, db')"
  shows "keys_wf K L m db'"
proof -
  obtain old kid where a: "a = (old, kid)" by fastforce
  obtain s where s: "kid = key_prefix year cluster (ke_now (ro_key e)) @ s"
    using assms(4) a by (auto simp: rotation_tx_def rotate_signing_key_tx_def Let_def split: list.splits sum.splits prod.splits option.splits if_splits)
  show ?thesis
    using rotation_tx_ok [OF assms(4) [unfolded a]] keys_wf_rotated [OF assms(3)] new_key_id_ok [OF assms(1,2)] new_key_fields s
    by metis
qed

lemma keys_wf_handle_rotate:
  assumes "sealing_ok L" "nonce_ok (ro_key e)" "keys_wf K L m db"
  shows "keys_wf K L m (snd (handle_rotate_keys K L year e m cluster header db))"
proof -
  obtain r d where a: "authorize_rotation K e header db = (r, d)" by fastforce
  then have "d = db" using authorize_rotation_snd by (metis snd_conv)
  then show ?thesis
    using a assms keys_wf_rotation_tx [OF assms]
    by (auto simp: handle_rotate_keys_def run_tx_def split: prod.split sum.split db_fault.split option.split dest!: get_by_key_id_db)
qed

section \<open>Published keys\<close>

lemma lines_of_pem:
  assumes "set s \<inter> {CHR 0x0A, CHR 0x0D} = {}"
  shows "lines_of (''-----BEGIN PUBLIC KEY-----'' @ newline @ s @ newline @ ''-----END PUBLIC KEY-----'')
    = [''-----BEGIN PUBLIC KEY-----'', s, ''-----END PUBLIC KEY-----'']"
proof -
  let ?p = "\<lambda>c :: char. c = CHR 0x0A"
  have "split_on ?p (''-----BEGIN PUBLIC KEY-----'' @ newline @ s @ newline @ ''-----END PUBLIC KEY-----'')
      = split_on ?p ''-----BEGIN PUBLIC KEY-----'' @ split_on ?p s @ split_on ?p ''-----END PUBLIC KEY-----''"
    by (simp add: newline_def split_on_append_sep)
  moreover have "split_on ?p s = [s]" using assms by (intro split_on_clean) auto
  moreover have "s \<noteq> [] \<Longrightarrow> last s \<noteq> CHR 0x0D" using assms last_in_set by fastforce
  ultimately show ?thesis by (auto simp: lines_of_def split_on_clean)
qed

lemma pem_body_public_key:
  assumes "b64_ok K"
  shows "pem_body (public_key_pem K pub) = jl_b64_encode K pub"
proof -
  have c: "set (jl_b64_encode K pub) \<inter> {CHR ''-'', CHR 0x0A, CHR 0x0D} = {}" using assms by (simp add: b64_ok_def)
  then have "\<not> starts_with ''-----'' (jl_b64_encode K pub)"
    by (cases "jl_b64_encode K pub") (auto simp: starts_with_def)
  moreover have "lines_of (public_key_pem K pub) = [''-----BEGIN PUBLIC KEY-----'', jl_b64_encode K pub, ''-----END PUBLIC KEY-----'']"
    unfolding public_key_pem_def using c by (intro lines_of_pem) auto
  ultimately show ?thesis by (simp add: pem_body_def starts_with_def)
qed

lemma json_web_key_ok:
  assumes "b64_ok K" "ky_public_key k = public_key_pem K pub"
  shows "json_web_key K k = Some \<lparr>jk_kty = ''OKP'', jk_kid = ky_key_id k, jk_crv = Some ''Ed25519'',
    jk_x = Some (jl_b64url_encode K pub), jk_alg = Some ''EdDSA'', jk_use = Some ''sig''\<rparr>"
  using assms pem_body_public_key [OF assms(1)] by (simp add: json_web_key_def b64_ok_def)

lemma get_jwks_ok:
  "get_jwks K f now db = (Ok ks, db') \<longleftrightarrow> f = DbOk \<and> db' = db \<and> ks = List.map_filter (json_web_key K) (usable_keys now db)"
  by (auto simp: get_jwks_def get_all_active_keys_def ac_exec_ok split: prod.split sum.split)

lemma jwks_kids: "jwk \<in> set (List.map_filter (json_web_key K) ks) \<Longrightarrow> \<exists>k \<in> set ks. json_web_key K k = Some jwk \<and> jk_kid jwk = ky_key_id k"
  by (auto simp: List.map_filter_def json_web_key_def split: option.splits)

section \<open>Reachable key tables\<close>

text \<open>The operations that touch the key table, in any order and with any faults, and everything that does not touch it.\<close>

inductive key_run :: "jwt_lib \<Rightarrow> crypto_lib \<Rightarrow> (instant \<Rightarrow> string) \<Rightarrow> u8 list \<Rightarrow> ac_db \<Rightarrow> bool" for K L year m where
  start: "ad_keys db = [] \<Longrightarrow> key_run K L year m db"
| initialize: "key_run K L year m db \<Longrightarrow> nonce_ok e \<Longrightarrow> key_run K L year m (snd (initialize_signing_key K L year e m cluster db))"
| rotate: "key_run K L year m db \<Longrightarrow> nonce_ok e \<Longrightarrow> key_run K L year m (snd (rotate_signing_key K L year e m cluster db))"
| rotate_request: "key_run K L year m db \<Longrightarrow> nonce_ok (ro_key e) \<Longrightarrow>
    key_run K L year m (snd (handle_rotate_keys K L year e m cluster header db))"
| expire: "key_run K L year m db \<Longrightarrow> key_run K L year m (snd (expire_old_keys inet f now fs db))"
| other: "key_run K L year m db \<Longrightarrow> ad_keys db' = ad_keys db \<Longrightarrow> key_run K L year m db'"

lemma keys_wf_expire: "keys_wf K L m db \<Longrightarrow> keys_wf K L m (snd (expire_old_keys inet f now fs db))"
  by (cases f) (simp_all add: expire_old_keys_def keys_wf_expire_each)

lemma key_run_wf: "key_run K L year m db \<Longrightarrow> sealing_ok L \<Longrightarrow> keys_wf K L m db"
proof (induction rule: key_run.induct)
  case (start db)
  then show ?case by (simp add: keys_wf_def)
next
  case (other db db')
  then show ?case using keys_wf_cong by blast
qed (simp_all add: keys_wf_initialize keys_wf_rotate keys_wf_handle_rotate keys_wf_expire)

text \<open>
  C26. Whatever the sequence of key initializations, rotations and expirations, failures at any statement included, stored
  keys have different identifiers, the master key decrypts each to a private key, and the entry published for it in the
  key set has the public half of that very key.
\<close>

theorem stored_keys_usable:
  assumes "key_run K L year m db" "sealing_ok L" "b64_ok K"
  shows "distinct (map ky_key_id (ad_keys db))
    \<and> (\<forall>k \<in> set (ad_keys db). \<exists>priv pub jwk. stored_private_key L m k = Ok priv \<and> cl_public L priv = Ok pub
          \<and> json_web_key K k = Some jwk \<and> jk_kid jwk = ky_key_id k \<and> Option.bind (jk_x jwk) (jl_b64url_decode K) = Some pub)"
proof -
  have wf: "keys_wf K L m db" using assms key_run_wf by blast
  have "\<exists>priv pub jwk. stored_private_key L m k = Ok priv \<and> cl_public L priv = Ok pub
      \<and> json_web_key K k = Some jwk \<and> jk_kid jwk = ky_key_id k \<and> Option.bind (jk_x jwk) (jl_b64url_decode K) = Some pub"
    if k: "k \<in> set (ad_keys db)" for k
  proof -
    obtain priv pub where "stored_private_key L m k = Ok priv" "cl_public L priv = Ok pub" "ky_public_key k = public_key_pem K pub"
      using wf k by (auto simp: keys_wf_def key_ok_def)
    then show ?thesis using json_web_key_ok [OF assms(3)] assms(3) by (auto simp: b64_ok_def)
  qed
  then show ?thesis using wf by (simp add: keys_wf_def)
qed

lemma demo_sealing: "sealing_ok demo_crypto"
  by (simp add: sealing_ok_def demo_crypto_def)

definition empty_db :: ac_db where
  "empty_db = \<lparr>ad_orgs = [], ad_credentials = [], ad_keys = [], ad_events = [], ad_users = [], ad_roles = []\<rparr>"

lemma demo_initialized:
  "snd (initialize_signing_key (demo_lib kid priv pub payload) demo_crypto (\<lambda>_. ''2025'') (demo_key_env 5) (replicate 32 5) ''eu''
     empty_db)
   = log_key_event (demo_key_env 5) KeyGenerated (empty_db\<lparr>ad_keys := [demo_new_key 5]\<rparr>)"
proof -
  have "show_nat2 (Suc 0) = ''01''" by code_simp
  moreover have "insert_key (demo_new_key 5) empty_db = (Ok (demo_new_key 5), empty_db\<lparr>ad_keys := [demo_new_key 5]\<rparr>)"
    by (simp add: insert_key_def demo_new_key_def empty_db_def KEY_VALIDITY_def from_secs_def)
  moreover have "usable_keys 5 empty_db = []" "count_keys_like p empty_db = 0" for p
    by (simp_all add: usable_keys_def count_keys_like_def empty_db_def)
  ultimately show ?thesis
    by (simp add: initialize_signing_key_def get_active_key_def get_next_key_sequence_def key_prefix_def demo_new_key_made
        create_signing_key_def)
qed

theorem stored_keys_usable_witness:
  "ad_keys (snd (initialize_signing_key demo_K demo_crypto (\<lambda>_. ''2025'') (demo_key_env 5) (replicate 32 5) ''eu'' empty_db))
     = [demo_new_key 5]
   \<and> (\<exists>priv. stored_private_key demo_crypto (replicate 32 5) (demo_new_key 5) = Ok priv)"
proof -
  have keys: "ad_keys (snd (initialize_signing_key demo_K demo_crypto (\<lambda>_. ''2025'') (demo_key_env 5) (replicate 32 5) ''eu'' empty_db))
      = [demo_new_key 5]"
    by (simp add: demo_initialized log_key_event_def)
  have "key_run demo_K demo_crypto (\<lambda>_. ''2025'') (replicate 32 5)
      (snd (initialize_signing_key demo_K demo_crypto (\<lambda>_. ''2025'') (demo_key_env 5) (replicate 32 5) ''eu'' empty_db))"
    by (intro key_run.intros) (simp_all add: empty_db_def nonce_ok_def demo_key_env_def)
  from stored_keys_usable [OF this demo_sealing demo_lib_b64] keys show ?thesis by auto
qed

section \<open>Old keys keep authorizing rotations\<close>

lemma find_map_same:
  "(\<And>x. p (g x) = p x) \<Longrightarrow> find p (map g xs) = map_option g (find p xs)"
  by (induction xs) auto

lemma find_append_some: "find p xs = Some x \<Longrightarrow> find p (xs @ ys) = Some x"
  by (induction xs) (auto split: if_splits)

lemma find_by_id_rotated:
  "find (\<lambda>k. ky_key_id k = kid) (ad_keys db) = Some old \<Longrightarrow>
   find (\<lambda>k. ky_key_id k = kid) (ad_keys (rotated k db)) = Some (deactivated old)"
  by (simp add: rotated_def find_append_some find_map_same)

text \<open>
  Rotating the keys does not take the right to rotate from tokens of the old keys: a token that authorizes a rotation
  before a rotation still authorizes one after it, although its key is no longer active.
\<close>

theorem rotated_out_key_still_authorizes:
  assumes "handle_rotate_keys K L year e master_key cluster header db = (Ok r, db')"
    and "fst (authorize_rotation K e2 header2 db) = Ok force"
  shows "fst (authorize_rotation K e2 header2 db') = Ok force \<and> (\<forall>k \<in> set (ad_keys db'). ky_is_active k \<longrightarrow> ky_key_id k = rr_new_key_id r)"
proof -
  obtain f2 old where "rotation_tx K L year e master_key cluster f2 db = Ok ((old, rr_new_key_id r), db')"
    using handle_rotate_keys_ok [OF assms(1)] by metis
  then obtain k where k: "new_key K L (ro_key e) master_key (rr_new_key_id r) = Ok k" "db' = rotated k db"
    using rotation_tx_ok by metis
  obtain token kid old where a: "bearer_token header2 = Ok token" "extract_kid K token = Ok kid" "ro_lookup_fault e2 = DbOk"
    "find (\<lambda>k. ky_key_id k = kid) (ad_keys db) = Some old"
    using assms(2) by (auto simp: authorize_rotation_def Let_def get_by_key_id_ok split: sum.splits prod.splits option.splits)
  then have "get_by_key_id DbOk kid db' = (Ok (Some (deactivated old)), db')" "get_by_key_id DbOk kid db = (Ok (Some old), db)"
    using find_by_id_rotated by (simp_all add: get_by_key_id_ok k(2))
  then have "fst (authorize_rotation K e2 header2 db') = Ok force"
    using assms(2) a by (auto simp: authorize_rotation_def Let_def split: sum.splits if_splits)
  moreover have "ky_is_active k' \<longrightarrow> ky_key_id k' = rr_new_key_id r" if "k' \<in> set (ad_keys db')" for k'
    using that new_key_fields [OF k(1)] by (auto simp: k(2) rotated_def)
  ultimately show ?thesis by blast
qed

theorem rotated_out_key_still_authorizes_witness:
  "fst (authorize_rotation demo_rotator (demo_rotate_env (from_secs 4000)) (Some ''Bearer ab.b.b'')
     (rotated (demo_new_key (from_secs 4000)) demo_db)) = Ok True"
  using rotated_out_key_still_authorizes [OF demo_rotation, of "demo_rotate_env (from_secs 4000)" "Some ''Bearer ab.b.b''"] demo_authorized by simp

section \<open>A rotation that fails changes nothing\<close>

lemma find_old_key:
  "old \<in> set (ad_keys db) \<Longrightarrow> \<exists>k. find (\<lambda>k. ky_key_id k = ky_key_id old) (ad_keys db) = Some k"
  by (metis (mono_tags, lifting) find_None_iff option.exhaust)

text \<open>
  When a rotation request is answered with an error, the tables are as they were, unless the connection broke after
  the commit or when the old key was read back.
\<close>
lemma failed_rotation_changes_nothing:
  assumes "handle_rotate_keys K L year e master_key cluster header db = (Err err, db')"
    and "\<forall>msg. ro_tx e \<noteq> DbFailAfter msg" and "ro_final_fault e = DbOk"
  shows "db' = db"
proof (rule ccontr)
  assume changed: "db' \<noteq> db"
  obtain a d where a: "authorize_rotation K e header db = (a, d)" by fastforce
  then have "d = db" using authorize_rotation_snd by (metis snd_conv)
  then obtain force old kid d2 where t: "rotation_tx K L year e master_key cluster force db = Ok ((old, kid), d2)"
    "fst (get_by_key_id DbOk (ky_key_id old) d2) \<in> {Err err, Ok None}"
    using a assms changed
    by (auto simp: handle_rotate_keys_def run_tx_def split: prod.splits sum.splits db_fault.splits option.splits)
  obtain k where "d2 = rotated k db" "old \<in> set (ad_keys db)" using rotation_tx_ok [OF t(1)] by metis
  then obtain x where "find (\<lambda>k. ky_key_id k = ky_key_id old) (ad_keys d2) = Some x"
    using find_old_key find_by_id_rotated by metis
  then show False using t(2) by (simp add: get_by_key_id_def)
qed

end
