(* ===== verification/AC_Token_Props.thy ===== *)
theory AC_Token_Props
  imports AC_Tokens AC_Key_Props
begin

text \<open>
  What holds of issued service tokens, and how many guesses the lockout of a client lets through.
\<close>

section \<open>What an issued service token grants\<close>

lemma cred_by_client_id_ok:
  "cred_by_client_id f cid db = (Ok r, db') \<longleftrightarrow> f = DbOk \<and> db' = db \<and> r = find (\<lambda>c. cd_client_id c = cid) (ad_credentials db)"
  by (auto simp: cred_by_client_id_def ac_exec_ok)

lemma get_failed_attempts_count_ok:
  "get_failed_attempts_count f now w cred db = (Ok n, db') \<longleftrightarrow>
     f = DbOk \<and> db' = db \<and> n = length (filter (failed_for_credential now w cred) (ad_events db))"
  by (auto simp: get_failed_attempts_count_def ac_exec_ok)

lemma load_signing_key_ok:
  assumes "load_signing_key L e m db = (Ok (kid, priv), db')"
  obtains k ks where "usable_keys (ie_db_now e) db = k # ks" "kid = ky_key_id k" "db' = db"
    "decrypt_private_key L \<lparr>ek_data = ky_private_key_encrypted k, ek_nonce = ky_encryption_nonce k, ek_tag = ky_encryption_tag k\<rparr> m
       = Ok priv"
proof -
  obtain k where k: "get_active_key (ie_key_fault e) (ie_db_now e) db = (Ok (Some k), db')"
    "decrypt_private_key L \<lparr>ek_data = ky_private_key_encrypted k, ek_nonce = ky_encryption_nonce k, ek_tag = ky_encryption_tag k\<rparr> m
       = Ok priv" "kid = ky_key_id k"
    using assms by (auto simp: load_signing_key_def split: prod.splits sum.splits option.splits)
  show ?thesis
    using k(1) that [OF _ k(3) _ k(2)] by (cases "usable_keys (ie_db_now e) db") (simp_all add: get_active_key_ok)
qed

lemma sign_jwt_ok: "sign_jwt K L claims priv kid = Ok token \<Longrightarrow> jl_encode K kid claims priv = Ok token"
  by (auto simp: sign_jwt_def crypto_err_def split: sum.splits)

lemma granted_scopes_ok:
  "granted_scopes requested allowed = Ok ss \<longleftrightarrow> (case requested of None \<Rightarrow> ss = allowed | Some rs \<Rightarrow> ss = rs \<and> set rs \<subseteq> set allowed)"
  by (auto simp: granted_scopes_def list_all_iff split: option.splits)

lemma issue_to_credential_ok:
  assumes "issue_to_credential K L e m cid req ip cred valid db = (Ok resp, db')"
  obtains ss k ks priv where "cd_is_active cred" "valid" "granted_scopes req (cd_scopes cred) = Ok ss"
    "usable_keys (ie_db_now e) (ie_others e 2 db) = k # ks"
    "decrypt_private_key L \<lparr>ek_data = ky_private_key_encrypted k, ek_nonce = ky_encryption_nonce k, ek_tag = ky_encryption_tag k\<rparr> m
       = Ok priv"
    "jl_encode K (ky_key_id k) (service_claims_json (service_claims_new cid (ie_now e + 3600) (ie_now e)
       (join_with '' '' ss) (Some (cd_service_type cred)))) priv = Ok (tr_access_token resp)"
    "tr_scope resp = join_with '' '' ss" "tr_expires_in resp = 3600"
proof -
  obtain ss kid priv d where i: "cd_is_active cred" "valid" "granted_scopes req (cd_scopes cred) = Ok ss"
    "load_signing_key L e m (ie_others e 2 db) = (Ok (kid, priv), d)"
    "sign_jwt K L (service_claims_json (service_claims_new cid (ie_now e + 3600) (ie_now e)
       (join_with '' '' ss) (Some (cd_service_type cred)))) priv kid = Ok (tr_access_token resp)"
    "tr_scope resp = join_with '' '' ss" "tr_expires_in resp = 3600"
    using assms by (auto simp: issue_to_credential_def Let_def TOKEN_EXPIRY_SECONDS_def split: prod.splits sum.splits if_splits)
  show ?thesis using load_signing_key_ok [OF i(4)] i sign_jwt_ok [OF i(5)] that by metis
qed

lemma issue_service_token_ok:
  assumes "issue_service_token K L e m cid secret gt req ip w mx db = (Ok resp, db')"
  obtains cred where "find (\<lambda>c. cd_client_id c = cid) (ad_credentials (ie_others e 0 db)) = Some cred"
    "length (filter (failed_for_credential (ie_window_now e) w (cd_credential_id cred)) (ad_events (ie_others e 1 (ie_others e 0 db)))) < mx"
    "cl_verify L secret (cd_client_secret_hash cred) = Ok True"
    "issue_to_credential K L e m cid req ip cred True (ie_others e 1 (ie_others e 0 db)) = (Ok resp, db')"
proof -
  obtain cred valid where i: "find (\<lambda>c. cd_client_id c = cid) (ad_credentials (ie_others e 0 db)) = Some cred"
    "length (filter (failed_for_credential (ie_window_now e) w (cd_credential_id cred)) (ad_events (ie_others e 1 (ie_others e 0 db)))) < mx"
    "cl_verify L secret (cd_client_secret_hash cred) = Ok valid"
    "issue_to_credential K L e m cid req ip cred valid (ie_others e 1 (ie_others e 0 db)) = (Ok resp, db')"
    using assms
    by (auto simp: issue_service_token_def cred_by_client_id_ok get_failed_attempts_count_ok verify_client_secret_def crypto_err_def
        split: prod.splits sum.splits option.splits if_splits)
  have valid using i(4) by (rule issue_to_credential_ok)
  then show ?thesis using i that by simp
qed

text \<open>
  C21. A service token is issued only for an active credential with this client identifier whose secret was
  given and which is not locked.  It is signed with a usable key, lives one hour, carries the client identifier and the
  service type, and grants only scopes the credential has: exactly the requested ones when scopes were requested.
\<close>

theorem issued_token_within_credential:
  assumes "issue_service_token K L e m cid secret gt req ip w mx db = (Ok resp, db')"
  shows "\<exists>cred k priv claims. cred \<in> set (ad_credentials (ie_others e 0 db)) \<and> cd_client_id cred = cid \<and> cd_is_active cred
    \<and> cl_verify L secret (cd_client_secret_hash cred) = Ok True
    \<and> length (filter (failed_for_credential (ie_window_now e) w (cd_credential_id cred)) (ad_events (ie_others e 1 (ie_others e 0 db)))) < mx
    \<and> key_usable (ie_db_now e) k
    \<and> claims = service_claims_new cid (ie_now e + 3600) (ie_now e) (tr_scope resp) (Some (cd_service_type cred))
    \<and> jl_encode K (ky_key_id k) (service_claims_json claims) priv = Ok (tr_access_token resp)
    \<and> (\<forall>s. has_scope claims s \<longrightarrow> (\<exists>t \<in> set (cd_scopes cred). s \<in> set (split_whitespace t)))
    \<and> (\<forall>rs. req = Some rs \<longrightarrow> set rs \<subseteq> set (cd_scopes cred) \<and> tr_scope resp = join_with '' '' rs)"
proof -
  obtain cred where c: "find (\<lambda>c. cd_client_id c = cid) (ad_credentials (ie_others e 0 db)) = Some cred"
    "length (filter (failed_for_credential (ie_window_now e) w (cd_credential_id cred)) (ad_events (ie_others e 1 (ie_others e 0 db)))) < mx"
    "cl_verify L secret (cd_client_secret_hash cred) = Ok True"
    "issue_to_credential K L e m cid req ip cred True (ie_others e 1 (ie_others e 0 db)) = (Ok resp, db')"
    using assms by (rule issue_service_token_ok)
  obtain ss k ks priv where i: "cd_is_active cred" "granted_scopes req (cd_scopes cred) = Ok ss"
    "usable_keys (ie_db_now e) (ie_others e 2 (ie_others e 1 (ie_others e 0 db))) = k # ks"
    "jl_encode K (ky_key_id k) (service_claims_json (service_claims_new cid (ie_now e + 3600) (ie_now e)
       (join_with '' '' ss) (Some (cd_service_type cred)))) priv = Ok (tr_access_token resp)"
    "tr_scope resp = join_with '' '' ss"
    using issue_to_credential_ok [OF c(4)] by metis
  have cred: "cred \<in> set (ad_credentials (ie_others e 0 db))" "cd_client_id cred = cid"
    using c(1) by (auto simp: find_Some_iff)
  have "key_usable (ie_db_now e) k" using i(3) set_usable_keys by (metis (mono_tags, lifting) list.set_intros(1) mem_Collect_eq)
  moreover have "set ss \<subseteq> set (cd_scopes cred)" using i(2) by (auto simp: granted_scopes_ok split: option.splits)
  then have "\<exists>t \<in> set (cd_scopes cred). s \<in> set (split_whitespace t)" if "s \<in> set (split_whitespace (tr_scope resp))" for s
    using that by (auto simp: i(5) split_whitespace_join)
  moreover have "\<forall>rs. req = Some rs \<longrightarrow> set rs \<subseteq> set (cd_scopes cred) \<and> tr_scope resp = join_with '' '' rs"
    using i(2,5) by (auto simp: granted_scopes_ok)
  ultimately show ?thesis
    using cred i(1,4,5) c(2,3) by (auto simp: has_scope_def service_claims_new_def list_ex_iff)
qed

definition demo_cred :: ServiceCredential where
  "demo_cred = \<lparr>cd_credential_id = ''c1'', cd_client_id = ''gc'', cd_client_secret_hash = ''hs'', cd_service_type = ''global-controller'',
     cd_region = None, cd_scopes = [''a'', ''b''], cd_is_active = True, cd_created_at = 0, cd_updated_at = 0\<rparr>"

definition demo_ac :: ac_db where
  "demo_ac = demo_db\<lparr>ad_credentials := [demo_cred]\<rparr>"

definition demo_issue_env :: "instant \<Rightarrow> issue_env" where
  "demo_issue_env t = \<lparr>ie_others = (\<lambda>_ db. db), ie_inet_ok = (\<lambda>_. True), ie_role_order = (\<lambda>r. r), ie_subject_fault = DbOk,
     ie_count_fault = DbOk, ie_roles_fault = DbOk, ie_key_fault = DbOk, ie_log_fault = DbOk, ie_login_fault = DbOk,
     ie_window_now = t, ie_db_now = t, ie_now = 1000, ie_jti = ''j''\<rparr>"

lemma demo_issue_sel [simp]:
  "ie_others (demo_issue_env t) n db = db" "ie_inet_ok (demo_issue_env t) ip" "ie_subject_fault (demo_issue_env t) = DbOk"
  "ie_count_fault (demo_issue_env t) = DbOk" "ie_key_fault (demo_issue_env t) = DbOk" "ie_log_fault (demo_issue_env t) = DbOk"
  "ie_window_now (demo_issue_env t) = t" "ie_db_now (demo_issue_env t) = t" "ie_now (demo_issue_env t) = 1000"
  by (simp_all add: demo_issue_env_def)

lemma demo_usable: "t < KEY_VALIDITY \<Longrightarrow> usable_keys t demo_db = [demo_key]"
  by (simp add: usable_keys_def demo_db_def demo_key_def key_usable_def)

lemma demo_ac_sel [simp]:
  "ad_credentials demo_ac = [demo_cred]" "ad_events demo_ac = []" "ad_keys demo_ac = ad_keys demo_db"
  by (simp_all add: demo_ac_def demo_db_def)

lemma demo_loaded:
  assumes "t < KEY_VALIDITY" "ad_keys db = ad_keys demo_db"
  shows "load_signing_key demo_crypto (demo_issue_env t) (replicate 32 5) db = (Ok (''k'', [7]), db)"
  using demo_usable [OF assms(1)] assms(2)
  by (simp add: load_signing_key_def get_active_key_def usable_keys_def decrypt_private_key_def crypto_err_def)
    (simp add: demo_key_def demo_crypto_def)

lemma demo_issued:
  "fst (issue_service_token demo_K demo_crypto (demo_issue_env 5) (replicate 32 5) ''gc'' ''s'' ''client_credentials'' None
     (Some ''10.0.0.1'') 15 5 demo_ac)
   = Ok \<lparr>tr_access_token = ''ab.b.b'', tr_token_type = ''Bearer'', tr_expires_in = 3600, tr_scope = ''a b''\<rparr>"
proof -
  have "verify_client_secret demo_crypto ''s'' (cd_client_secret_hash demo_cred) = Ok True"
    by (simp add: verify_client_secret_def crypto_err_def demo_crypto_def demo_cred_def)
  moreover have "sign_jwt demo_K demo_crypto (service_claims_json demo_claims) [7] ''k'' = Ok ''ab.b.b''"
    by (simp add: sign_jwt_def crypto_err_def demo_crypto_def demo_lib_def)
  moreover have "cd_client_id demo_cred = ''gc''" "cd_is_active demo_cred" "cd_scopes demo_cred = [''a'', ''b'']"
    "cd_service_type demo_cred = ''global-controller''"
    by (simp_all add: demo_cred_def)
  moreover have "5 < KEY_VALIDITY" by (simp add: KEY_VALIDITY_def from_secs_def)
  ultimately show ?thesis
    by (simp add: issue_service_token_def cred_by_client_id_def get_failed_attempts_count_def issue_to_credential_def
        granted_scopes_def demo_loaded TOKEN_EXPIRY_SECONDS_def demo_claims_def)
qed

theorem issued_token_within_credential_witness:
  "\<exists>cred \<in> set (ad_credentials demo_ac). cd_client_id cred = ''gc'' \<and> cd_is_active cred
     \<and> cl_verify demo_crypto ''s'' (cd_client_secret_hash cred) = Ok True"
proof -
  let ?r = "issue_service_token demo_K demo_crypto (demo_issue_env 5) (replicate 32 5) ''gc'' ''s'' ''client_credentials'' None
     (Some ''10.0.0.1'') 15 5 demo_ac"
  have "?r = (Ok \<lparr>tr_access_token = ''ab.b.b'', tr_token_type = ''Bearer'', tr_expires_in = 3600, tr_scope = ''a b''\<rparr>, snd ?r)"
    by (metis demo_issued prod.collapse)
  from issued_token_within_credential [OF this] show ?thesis by auto
qed

section \<open>Lockout\<close>

text \<open>
  The attempts of a run on one client, each with its environment and secret, and how many of them were answered with a
  verdict on the secret, rather than turned away as locked or broken off.
\<close>

fun tested ::
  "jwt_lib \<Rightarrow> crypto_lib \<Rightarrow> u8 list \<Rightarrow> string \<Rightarrow> nat \<Rightarrow> nat \<Rightarrow> (issue_env \<times> string \<times> string list option \<times> string option) list
     \<Rightarrow> ac_db \<Rightarrow> nat"
where
  "tested K L m cid w mx [] db = 0"
| "tested K L m cid w mx ((e, secret, req, ip) # gs) db =
     (case issue_service_token K L e m cid secret ''client_credentials'' req ip w mx db of
        (r, db') \<Rightarrow> (if r = Err InvalidCredentials \<or> \<not> isl r then 1 else 0) + tested K L m cid w mx gs db')"

definition recent_failures :: "instant \<Rightarrow> nat \<Rightarrow> string \<Rightarrow> ac_db \<Rightarrow> nat" where
  "recent_failures now w cred db = length (filter (failed_for_credential now w cred) (ad_events db))"

text \<open>
  What others may do to the tables during an attempt: anything that leaves the client's credential as it is and deletes none of its
  failures from the log.  An attempt whose failure is logged: its statement succeeds and the address is one the column takes.
\<close>

definition keeps_failures :: "string \<Rightarrow> nat \<Rightarrow> ServiceCredential \<Rightarrow> (ac_db \<Rightarrow> ac_db) \<Rightarrow> bool" where
  "keeps_failures cid w cred f \<longleftrightarrow>
     (\<forall>db. find (\<lambda>c. cd_client_id c = cid) (ad_credentials db) = Some cred \<longrightarrow>
        find (\<lambda>c. cd_client_id c = cid) (ad_credentials (f db)) = Some cred
        \<and> (\<forall>now. recent_failures now w (cd_credential_id cred) db \<le> recent_failures now w (cd_credential_id cred) (f db)))"

definition failure_logged :: "issue_env \<Rightarrow> string option \<Rightarrow> bool" where
  "failure_logged e ip \<longleftrightarrow> ie_log_fault e = DbOk \<and> (case ip of None \<Rightarrow> True | Some a \<Rightarrow> ie_inet_ok e a)"

text \<open>An attempt within the window that ends at \<open>T\<close>, by the clocks that count and that stamp the log.\<close>

definition within_window :: "instant \<Rightarrow> nat \<Rightarrow> issue_env \<Rightarrow> bool" where
  "within_window T w e \<longleftrightarrow> ie_window_now e \<le> T \<and> T \<le> ie_db_now e + from_secs (60 * w)"

lemma length_filter_le_imp: "(\<And>x. p x \<Longrightarrow> q x) \<Longrightarrow> length (filter p xs) \<le> length (filter q xs)"
  by (induction xs) (auto intro: le_SucI)

lemma recent_failures_antimono: "t \<le> t' \<Longrightarrow> recent_failures t' w cred db \<le> recent_failures t w cred db"
  unfolding recent_failures_def by (rule length_filter_le_imp) (auto simp: failed_for_credential_def since_def)

lemma keeps_failuresD:
  assumes "keeps_failures cid w cred f" "find (\<lambda>c. cd_client_id c = cid) (ad_credentials db) = Some cred"
  shows "find (\<lambda>c. cd_client_id c = cid) (ad_credentials (f db)) = Some cred"
    and "recent_failures now w (cd_credential_id cred) db \<le> recent_failures now w (cd_credential_id cred) (f db)"
  using assms by (auto simp: keeps_failures_def)

lemma log_failure_counted:
  fixes cred e ip reason
  defines "logged \<equiv> log_service_event e ServiceTokenFailed (cd_credential_id cred) False reason ip"
  assumes "find (\<lambda>c. cd_client_id c = cid) (ad_credentials db) = Some cred"
  shows "ad_credentials (logged db) = ad_credentials db"
    and "recent_failures now w (cd_credential_id cred) db \<le> recent_failures now w (cd_credential_id cred) (logged db)"
    and "failure_logged e ip \<Longrightarrow> T \<le> ie_db_now e + from_secs (60 * w) \<Longrightarrow>
      recent_failures T w (cd_credential_id cred) (logged db) = Suc (recent_failures T w (cd_credential_id cred) db)"
proof -
  have "cred \<in> set (ad_credentials db)" using assms(2) by (auto simp: find_Some_iff)
  then show "failure_logged e ip \<Longrightarrow> T \<le> ie_db_now e + from_secs (60 * w) \<Longrightarrow>
      recent_failures T w (cd_credential_id cred) (logged db) = Suc (recent_failures T w (cd_credential_id cred) db)"
    by (simp add: logged_def log_service_event_def log_event_def event_allowed_def failure_logged_def recent_failures_def
        failed_for_credential_def since_def split: option.splits)
  show "ad_credentials (logged db) = ad_credentials db"
    "recent_failures now w (cd_credential_id cred) db \<le> recent_failures now w (cd_credential_id cred) (logged db)"
    by (cases "ie_log_fault e"; simp add: logged_def log_service_event_def log_event_def Let_def recent_failures_def)+
qed

text \<open>One wrong guess: either it gets no verdict, or it was within the limit; and no logged failure is forgotten.\<close>

lemma wrong_guess:
  assumes cred: "find (\<lambda>c. cd_client_id c = cid) (ad_credentials db) = Some cred"
    and others: "\<And>i. keeps_failures cid w cred (ie_others e i)" and wrong: "cl_verify L secret (cd_client_secret_hash cred) = Ok False"
    and run: "issue_service_token K L e m cid secret ''client_credentials'' req ip w mx db = (r, db')"
  shows "find (\<lambda>c. cd_client_id c = cid) (ad_credentials db') = Some cred"
    and "recent_failures T w (cd_credential_id cred) db \<le> recent_failures T w (cd_credential_id cred) db'"
    and "r = Err InvalidCredentials \<and> recent_failures (ie_window_now e) w (cd_credential_id cred) db < mx
        \<and> (failure_logged e ip \<and> within_window T w e \<longrightarrow>
             recent_failures T w (cd_credential_id cred) db < recent_failures T w (cd_credential_id cred) db')
      \<or> isl r \<and> r \<noteq> Err InvalidCredentials"
proof -
  define d0 where "d0 = ie_others e 0 db"
  define d1 where "d1 = ie_others e (Suc 0) d0"
  define d2 where "d2 = ie_others e 2 d1"
  let ?rf = "\<lambda>now. recent_failures now w (cd_credential_id cred)"
  let ?found = "\<lambda>d. find (\<lambda>c. cd_client_id c = cid) (ad_credentials d) = Some cred"
  let ?log = "log_service_event e ServiceTokenFailed (cd_credential_id cred) False
      (Some (if \<not> cd_is_active cred then ''Credential is inactive'' else ''Invalid client secret'')) ip d2"
  have found: "?found d0" "?found d1" "?found d2"
    using keeps_failuresD(1) [OF others] cred by (simp_all add: d0_def d1_def d2_def)
  have grow: "?rf now db \<le> ?rf now d0" "?rf now d0 \<le> ?rf now d1" "?rf now d1 \<le> ?rf now d2" for now
    using keeps_failuresD(2) [OF others] cred found by (simp_all add: d0_def d1_def d2_def)
  consider "isl r" "r \<noteq> Err InvalidCredentials" "db' = d0 \<or> db' = d1"
    | "r = Err InvalidCredentials" "?rf (ie_window_now e) d1 < mx" "db' = ?log"
    using run found wrong
    by (cases "ie_subject_fault e"; cases "ie_count_fault e")
      (auto simp: issue_service_token_def cred_by_client_id_def get_failed_attempts_count_def recent_failures_def verify_client_secret_def
        crypto_err_def issue_to_credential_def d0_def [symmetric] d1_def [symmetric] d2_def [symmetric] split: if_splits)
  then have "?found db' \<and> ?rf T db \<le> ?rf T db' \<and>
      (r = Err InvalidCredentials \<and> ?rf (ie_window_now e) db < mx \<and> (failure_logged e ip \<and> within_window T w e \<longrightarrow> ?rf T db < ?rf T db')
       \<or> isl r \<and> r \<noteq> Err InvalidCredentials)"
  proof cases
    case 1
    then show ?thesis using found grow [of T] by (auto intro: order.trans)
  next
    case 2
    let ?reason = "Some (if \<not> cd_is_active cred then ''Credential is inactive'' else ''Invalid client secret'')"
    note log = log_failure_counted [OF found(3), where e = e and reason = ?reason and ip = ip]
    have "?rf T d2 \<le> ?rf T db'" "?found db'" using 2(3) log(1) log(2) [where now = T and w = w] found(3) by simp_all
    moreover have "?rf (ie_window_now e) db < mx" using 2(2) grow [of "ie_window_now e"] by simp
    moreover have "?rf T db' = Suc (?rf T d2)" if "failure_logged e ip" "within_window T w e"
      using 2(3) log(3) [where T = T and w = w, OF that(1)] that(2) by (simp add: within_window_def)
    ultimately show ?thesis using 2(1) grow [of T] by auto
  qed
  then show "?found db'" "?rf T db \<le> ?rf T db'"
    "r = Err InvalidCredentials \<and> ?rf (ie_window_now e) db < mx \<and> (failure_logged e ip \<and> within_window T w e \<longrightarrow> ?rf T db < ?rf T db')
      \<or> isl r \<and> r \<noteq> Err InvalidCredentials"
    by blast+
qed

lemma tested_le:
  assumes "find (\<lambda>c. cd_client_id c = cid) (ad_credentials db) = Some cred"
    and "\<forall>(e, secret, req, ip) \<in> set gs. within_window T w e \<and> (\<forall>i. keeps_failures cid w cred (ie_others e i))
        \<and> cl_verify L secret (cd_client_secret_hash cred) = Ok False"
  shows "tested K L m cid w mx gs db \<le> mx - recent_failures T w (cd_credential_id cred) db
    + length (filter (\<lambda>(e, secret, req, ip). \<not> failure_logged e ip) gs)"
  using assms
proof (induction gs arbitrary: db)
  case (Cons g gs)
  let ?rf = "\<lambda>now. recent_failures now w (cd_credential_id cred)"
  obtain e secret req ip where g: "g = (e, secret, req, ip)" by (cases g)
  obtain r db' where run: "issue_service_token K L e m cid secret ''client_credentials'' req ip w mx db = (r, db')" by fastforce
  have e: "within_window T w e" "\<And>i. keeps_failures cid w cred (ie_others e i)" "cl_verify L secret (cd_client_secret_hash cred) = Ok False"
    using Cons.prems(2) g by auto
  note guess = wrong_guess(1) [OF Cons.prems(1) e(2,3) run] wrong_guess(2,3) [OF Cons.prems(1) e(2,3) run, of T]
  have later: "tested K L m cid w mx gs db' \<le> mx - ?rf T db' + length (filter (\<lambda>(e, secret, req, ip). \<not> failure_logged e ip) gs)"
    using Cons.prems by (intro Cons.IH guess(1)) auto
  have "?rf T db \<le> ?rf (ie_window_now e) db" using e(1) by (intro recent_failures_antimono) (simp add: within_window_def)
  then show ?case using guess(2,3) later e(1) run by (auto simp: g)
qed simp

text \<open>
  C19. Guessing a client's secret is bounded.  Of any attempts with wrong secrets made one after the other and all within one window of
  the rate limit, at most the configured number is answered with a verdict on the secret, plus one for each attempt whose failure
  could not be written to the log.  This holds whatever else fails and whatever others do to the tables
  meanwhile, as long as they leave the credential as it is and delete none of its failures; attempts that overlap are not counted.
\<close>

theorem wrong_guesses_bounded:
  assumes "find (\<lambda>c. cd_client_id c = cid) (ad_credentials db) = Some cred"
    and "\<forall>(e, secret, req, ip) \<in> set gs. within_window T w e \<and> (\<forall>i. keeps_failures cid w cred (ie_others e i))
        \<and> cl_verify L secret (cd_client_secret_hash cred) = Ok False"
  shows "tested K L m cid w mx gs db \<le> mx + length (filter (\<lambda>(e, secret, req, ip). \<not> failure_logged e ip) gs)"
  using tested_le [OF assms] by (rule order.trans) simp

theorem wrong_guesses_bounded_witness:
  "tested demo_K demo_crypto (replicate 32 5) ''gc'' 15 2 (replicate 9 (demo_issue_env 5, ''x'', None, Some ''10.0.0.1'')) demo_ac \<le> 2"
proof -
  let ?gs = "replicate 9 (demo_issue_env 5, ''x'', None :: string list option, Some ''10.0.0.1'')"
  have "find (\<lambda>c. cd_client_id c = ''gc'') (ad_credentials demo_ac) = Some demo_cred" by (simp add: demo_cred_def)
  moreover have "\<forall>(e, secret, req, ip) \<in> set ?gs. within_window 5 15 e \<and> (\<forall>i. keeps_failures ''gc'' 15 demo_cred (ie_others e i))
      \<and> cl_verify demo_crypto secret (cd_client_secret_hash demo_cred) = Ok False"
    by (auto simp: within_window_def keeps_failures_def demo_issue_env_def demo_crypto_def demo_cred_def)
  ultimately have "tested demo_K demo_crypto (replicate 32 5) ''gc'' 15 2 ?gs demo_ac
      \<le> 2 + length (filter (\<lambda>(e, secret, req, ip). \<not> failure_logged e ip) ?gs)"
    by (rule wrong_guesses_bounded)
  moreover have "failure_logged (demo_issue_env 5) (Some ''10.0.0.1'')" by (simp add: failure_logged_def demo_issue_env_def)
  ultimately show ?thesis by simp
qed

text \<open>When the failure cannot be written to the log, nothing counts the guess.\<close>

lemma unlogged_guess_not_counted:
  assumes "ie_others e = (\<lambda>_ db. db)" "ie_subject_fault e = DbOk" "ie_count_fault e = DbOk" "ie_log_fault e = DbFailBefore msg"
    "find (\<lambda>c. cd_client_id c = cid) (ad_credentials db) = Some cred" "recent_failures (ie_window_now e) w (cd_credential_id cred) db < mx"
    "cl_verify L secret (cd_client_secret_hash cred) = Ok False"
  shows "issue_service_token K L e m cid secret ''client_credentials'' req ip w mx db = (Err InvalidCredentials, db)"
  using assms
  by (simp add: issue_service_token_def cred_by_client_id_def get_failed_attempts_count_def recent_failures_def
      verify_client_secret_def crypto_err_def issue_to_credential_def log_service_event_def log_event_def)

end
