(* ===== verification/AC_Account_Props.thy ===== *)
theory AC_Account_Props
  imports AC_Accounts AC_Token_Props
begin

text \<open>
  What holds of accounts: a client made through the interface cannot be deleted through it, and a registration counts
  twice towards the limit of its address.
\<close>

section \<open>A registered client cannot be deleted\<close>

lemma create_service_credential_ok:
  assumes "create_service_credential f now i cid h st region ss db = (Ok c, db')"
  shows "cd_credential_id c = i \<and> cd_client_id c = cid \<and> cid \<notin> cd_client_id ` set (ad_credentials db)
    \<and> db' = db\<lparr>ad_credentials := ad_credentials db @ [c]\<rparr>"
  using assms by (auto simp: create_service_credential_def ac_exec_ok Let_def split: if_splits)

lemma log_account_event_logged:
  assumes "ac_log_fault e = DbOk" "c \<in> set (ad_credentials db)"
  obtains ev where "log_account_event e ty (cd_credential_id c) db = db\<lparr>ad_events := ad_events db @ [ev]\<rparr>"
    "ev_credential_id ev = Some (cd_credential_id c)"
  using assms by (cases ty) (auto simp: log_account_event_def log_event_def event_allowed_def Let_def intro: that)

lemma register_service_ok:
  assumes "register_service K L e st region cost db = (Ok resp, db')" "ac_others e = (\<lambda>_ db. db)" "ac_log_fault e = DbOk"
  obtains c ev where "cd_client_id c = ac_client_id e" "rs_client_id resp = ac_client_id e"
    "ac_client_id e \<notin> cd_client_id ` set (ad_credentials db)"
    "db' = db\<lparr>ad_credentials := ad_credentials db @ [c], ad_events := ad_events db @ [ev]\<rparr>"
    "ev_credential_id ev = Some (cd_credential_id c)"
proof -
  obtain h svc d c where r: "create_service_credential (ac_write_fault e) (ac_db_now e) (ac_new_id e) (ac_client_id e) h st region
      (default_scopes svc) db = (Ok c, d)" "db' = log_account_event e ServiceRegistered (cd_credential_id c) d"
    "rs_client_id resp = ac_client_id e"
    using assms(1,2) by (auto simp: register_service_def Let_def split: sum.splits prod.splits)
  note c = create_service_credential_ok [OF r(1)]
  then have "c \<in> set (ad_credentials d)" by simp
  from log_account_event_logged [OF assms(3) this] obtain ev where "db' = d\<lparr>ad_events := ad_events d @ [ev]\<rparr>"
    "ev_credential_id ev = Some (cd_credential_id c)" using r(2) by metis
  then show ?thesis using c r(3) by (intro that [of c ev]) auto
qed

lemma cred_by_id_db: "cred_by_id f cred db = (r, db') \<Longrightarrow> db' = db"
  by (cases f) (auto simp: cred_by_id_def)

lemma delete_referenced:
  assumes "Some cred \<in> ev_credential_id ` set (ad_events db)"
  shows "\<exists>err. delete_credential f cred db = (Err err, db)"
proof -
  have "filter (\<lambda>c. cd_credential_id c = cred) (ad_credentials db) = []
      \<and> filter (\<lambda>c. cd_credential_id c \<noteq> cred) (ad_credentials db) = ad_credentials db"
    if "cred \<notin> cd_credential_id ` set (ad_credentials db)"
    using that by (auto simp: filter_empty_conv filter_id_conv)
  then show ?thesis using assms by (cases f) (auto simp: delete_credential_def)
qed

text \<open>
  A client made by the create endpoint can never be deleted by the delete endpoint: its registration is in the audit
  log, whose reference to the credential the database does not let go, so as long as the log keeps its entries every
  delete request is answered with an error and removes nothing.
\<close>

theorem registered_client_undeletable:
  assumes "handle_create_client K L e st region cost db = (Ok resp, db')" "ac_others e = (\<lambda>_ db. db)" "ac_log_fault e = DbOk"
    and "set (ad_events db') \<subseteq> set (ad_events d)" "\<And>n db. ac_others e2 n db = db"
  shows "\<exists>err. handle_delete_client e2 (cc_id resp) d = (Err err, d)"
proof -
  obtain r db1 where r: "register_service K L e st region cost db = (Ok r, db1)"
    "cred_by_client_id (ac_refetch_fault e) (rs_client_id r) db1 = (Ok (Some c), db') \<Longrightarrow> cc_id resp = cd_credential_id c" for c
    using assms(1,2) by (auto simp: handle_create_client_def split: if_splits sum.splits prod.splits option.splits)
  obtain c ev where c: "cd_client_id c = ac_client_id e" "rs_client_id r = ac_client_id e"
    "ac_client_id e \<notin> cd_client_id ` set (ad_credentials db)"
    "db1 = db\<lparr>ad_credentials := ad_credentials db @ [c], ad_events := ad_events db @ [ev]\<rparr>"
    "ev_credential_id ev = Some (cd_credential_id c)"
    using r(1) assms(2,3) by (rule register_service_ok)
  have "find (\<lambda>x. cd_client_id x = ac_client_id e) (ad_credentials db1) = Some c"
    using c(1,3,4) by (auto simp: find_Some_iff nth_append image_iff intro!: exI [of _ "length (ad_credentials db)"])
      (metis nth_mem)
  then have f: "cc_id resp = cd_credential_id c \<and> db' = db1"
    using r assms(1,2) c(2) by (auto simp: handle_create_client_def cred_by_client_id_ok split: if_splits sum.splits prod.splits option.splits)
  then have "Some (cc_id resp) \<in> ev_credential_id ` set (ad_events d)" using assms(4) c(4,5) by force
  then show ?thesis
    using delete_referenced assms(5)
    by (auto simp: handle_delete_client_def split: prod.split sum.split option.split dest!: cred_by_id_db)
qed

definition demo_account_env :: account_env where
  "demo_account_env = \<lparr>ac_others = (\<lambda>_ db. db), ac_inet_ok = (\<lambda>_. True), ac_client_id = ''mh-1'', ac_new_id = ''c2'',
     ac_secret_bytes = Ok [1], ac_salt = [], ac_db_now = 5, ac_fetch_fault = DbOk, ac_write_fault = DbOk, ac_log_fault = DbOk,
     ac_refetch_fault = DbOk\<rparr>"

lemma demo_account_sel [simp]:
  "ac_others demo_account_env n db = db" "ac_inet_ok demo_account_env = (\<lambda>_. True)" "ac_client_id demo_account_env = ''mh-1''"
  "ac_new_id demo_account_env = ''c2''" "ac_secret_bytes demo_account_env = Ok [1]" "ac_write_fault demo_account_env = DbOk"
  "ac_log_fault demo_account_env = DbOk" "ac_refetch_fault demo_account_env = DbOk"
  by (simp_all add: demo_account_env_def)

lemma demo_hashed: "\<exists>h. hash_client_secret demo_crypto salt secret 12 = Ok h"
  by (simp add: hash_client_secret_def MIN_BCRYPT_COST_def MAX_BCRYPT_COST_def demo_crypto_def crypto_err_def)

lemma demo_registered:
  "\<exists>c resp. register_service demo_K demo_crypto demo_account_env ''media-handler'' None 12 demo_ac
     = (Ok resp, log_account_event demo_account_env ServiceRegistered (cd_credential_id c) (demo_ac\<lparr>ad_credentials := [demo_cred, c]\<rparr>))
     \<and> cd_client_id c = ''mh-1'' \<and> rs_client_id resp = ''mh-1''"
proof -
  obtain h where "hash_client_secret demo_crypto (ac_salt demo_account_env) (jl_b64_encode demo_K [1]) 12 = Ok h"
    using demo_hashed by blast
  moreover have "generate_client_secret demo_K (Ok [1]) = Ok (jl_b64_encode demo_K [1])"
    by (simp add: generate_client_secret_def crypto_err_def)
  moreover have "cd_client_id demo_cred = ''gc''" "cd_credential_id demo_cred = ''c1''" by (simp_all add: demo_cred_def)
  ultimately show ?thesis
    by (intro exI [of _ "\<lparr>cd_credential_id = ''c2'', cd_client_id = ''mh-1'', cd_client_secret_hash = h, cd_service_type = ''media-handler'',
        cd_region = None, cd_scopes = default_scopes MediaHandler, cd_is_active = True, cd_created_at = ac_db_now demo_account_env,
        cd_updated_at = ac_db_now demo_account_env\<rparr>"])
      (simp add: register_service_def service_type_from_str_def create_service_credential_def Let_def)
qed

lemma log_account_event_credentials [simp]: "ad_credentials (log_account_event e ty c db) = ad_credentials db"
  by (cases "ac_log_fault e") (simp_all add: log_account_event_def log_event_def Let_def)

theorem registered_client_undeletable_witness:
  "\<exists>resp err. fst (handle_create_client demo_K demo_crypto demo_account_env ''media-handler'' None 12 demo_ac) = Ok resp
     \<and> handle_delete_client demo_account_env (cc_id resp)
         (snd (handle_create_client demo_K demo_crypto demo_account_env ''media-handler'' None 12 demo_ac))
       = (Err err, snd (handle_create_client demo_K demo_crypto demo_account_env ''media-handler'' None 12 demo_ac))"
proof -
  let ?c = "handle_create_client demo_K demo_crypto demo_account_env ''media-handler'' None 12 demo_ac"
  have "\<exists>resp. fst ?c = Ok resp"
    using demo_registered by (auto simp: handle_create_client_def valid_types_def cred_by_client_id_def demo_cred_def)
  then obtain resp where r: "fst ?c = Ok resp" ..
  then have "?c = (Ok resp, snd ?c)" by (metis prod.collapse)
  then have "\<exists>err. handle_delete_client demo_account_env (cc_id resp) (snd ?c) = (Err err, snd ?c)"
    by (rule registered_client_undeletable) (simp_all add: demo_account_env_def)
  with r show ?thesis by blast
qed

section \<open>Registrations count twice\<close>

lemma create_user_ok:
  assumes "create_user f i org email h name db = (Ok u, db')"
  shows "us_user_id u = i \<and> us_org_id u = org \<and> us_email u = email \<and> db' = db\<lparr>ad_users := ad_users db @ [u]\<rparr>
    \<and> (\<forall>u \<in> set (ad_users db). \<not> (us_org_id u = org \<and> us_email u = email))"
  using assms by (auto simp: create_user_def ac_exec_ok Let_def split: if_splits)

lemma add_user_role_other:
  assumes "add_user_role f user role db = (r, db')"
  shows "ad_users db' = ad_users db \<and> ad_events db' = ad_events db"
  using assms by (cases f) (auto simp: add_user_role_def split: if_splits)

lemma load_signing_key_db: "load_signing_key L e m db = (r, db') \<Longrightarrow> db' = db"
  by (auto simp: load_signing_key_def split: prod.splits sum.splits option.splits dest!: get_active_key_db)

lemma get_user_roles_db: "get_user_roles ro f user db = (r, db') \<Longrightarrow> db' = db"
  by (cases f) (auto simp: get_user_roles_def)

lemma update_last_login_events [simp]: "ad_events (snd (update_last_login f now user db)) = ad_events db"
  by (cases f) (simp_all add: update_last_login_def)

text \<open>A successful login of a known user from an address the database reads.\<close>

definition login_event :: "instant \<Rightarrow> string \<Rightarrow> string \<Rightarrow> AuthEvent" where
  "login_event t user a = \<lparr>ev_event_type = ''user_login'', ev_user_id = Some user, ev_credential_id = None, ev_success = True,
     ev_failure_reason = None, ev_ip_address = Some a, ev_created_at = t\<rparr>"

lemma log_login:
  assumes "user \<in> us_user_id ` set (ad_users db)" "inet a"
  shows "log_event inet DbOk t ''user_login'' (Some user) None True None (Some a) db
    = (Ok (), db\<lparr>ad_events := ad_events db @ [login_event t user a]\<rparr>)"
  using assms by (simp add: log_event_def event_allowed_def login_event_def)

lemma failed_by_user_db: "get_failed_attempts_count_by_user f now w u db = (r, db') \<Longrightarrow> db' = db"
  by (cases f) (auto simp: get_failed_attempts_count_by_user_def)

lemma user_by_email_ok:
  "user_by_email f org email db = (Ok r, db') \<longleftrightarrow>
     f = DbOk \<and> db' = db \<and> r = find (\<lambda>u. us_org_id u = org \<and> us_email u = email) (ad_users db)"
  by (auto simp: user_by_email_def ac_exec_ok)

lemma issue_user_token_logs:
  assumes "issue_user_token K L e m org email pw (Some a) w mx db = (Ok resp, db')"
    "ie_others e = (\<lambda>_ db. db)" "ie_log_fault e = DbOk" "ie_inet_ok e a"
  shows "\<exists>user. ad_events db' = ad_events db @ [login_event (ie_db_now e) user a]"
proof -
  obtain u valid where u: "find (\<lambda>u. us_org_id u = org \<and> us_email u = email) (ad_users db) = Some u"
    "issue_to_user K L e m (Some a) u valid db = (Ok resp, db')"
    using assms(1,2)
    by (auto simp: issue_user_token_def user_by_email_ok split: prod.splits sum.splits option.splits if_splits dest!: failed_by_user_db)
  then have "us_user_id u \<in> us_user_id ` set (ad_users db)" by (auto simp: find_Some_iff)
  then have "snd (log_event (ie_inet_ok e) DbOk (ie_db_now e) ''user_login'' (Some (us_user_id u)) None True None (Some a) db)
      = db\<lparr>ad_events := ad_events db @ [login_event (ie_db_now e) (us_user_id u) a]\<rparr>"
    using log_login assms(4) by simp
  then show ?thesis
    using u(2) assms(2,3)
    by (auto simp: issue_to_user_def Let_def log_user_auth_event_def split: prod.splits sum.splits if_splits
        dest!: get_user_roles_db load_signing_key_db)
qed

lemma register_user_logs:
  assumes "register_user K L e cfg m org req (Some a) db = (Ok resp, db')"
    "rv_others e = (\<lambda>_ db. db)" "rv_log_fault e = DbOk" "ie_others (rv_issue e) = (\<lambda>_ db. db)" "ie_log_fault (rv_issue e) = DbOk"
    "ie_inet_ok (rv_issue e) a"
  shows "\<exists>u1 u2. ad_events db' = ad_events db @ [login_event (rv_db_now e) u1 a, login_event (ie_db_now (rv_issue e)) u2 a]"
proof -
  have c: "register_checked K L e cfg m org req (Some a) db = (Ok resp, db')"
    using assms(1,2)
    by (auto simp: register_user_def Let_def email_exists_in_org_def ac_exec_ok split: prod.splits sum.splits bool.splits if_splits)
  obtain h user db1 r db2 tok where u: "create_user (rv_create_fault e) (rv_user_id e) org (rq_email req) h
      (trim_text (rq_display_name req)) db = (Ok user, db1)"
    "add_user_role (rv_role_fault e) (us_user_id user) ''user'' db1 = (Ok r, db2)"
    "issue_user_token K L (rv_issue e) m org (rq_email req) (rq_password req) (Some a) (rc_window cfg) (rc_max_attempts cfg)
       (snd (log_event (ie_inet_ok (rv_issue e)) DbOk (rv_db_now e) ''user_login'' (Some (us_user_id user)) None True None (Some a) db2))
     = (Ok tok, db')"
    using c assms(2,3) by (auto simp: register_checked_def Let_def split: prod.splits sum.splits)
  have "us_user_id user \<in> us_user_id ` set (ad_users db2)" "ad_events db2 = ad_events db"
    using create_user_ok [OF u(1)] add_user_role_other [OF u(2)] by auto
  then show ?thesis
    using issue_user_token_logs [OF u(3) assms(4-6)] log_login [of _ db2 "ie_inet_ok (rv_issue e)" a] assms(6) by auto
qed

text \<open>
  One registration from an address is counted as two towards the address's registration limit, because the
  registration itself and the login that follows it are both logged as logins.
\<close>

theorem registration_counts_twice:
  assumes "register_user K L e cfg m org req (Some a) db = (Ok resp, db')"
    and "rv_others e = (\<lambda>_ db. db)" "ie_others (rv_issue e) = (\<lambda>_ db. db)"
    and "rv_log_fault e = DbOk" "ie_log_fault (rv_issue e) = DbOk" "ie_inet_ok (rv_issue e) a"
    and "now \<le> rv_db_now e + from_secs (60 * w)" "now \<le> ie_db_now (rv_issue e) + from_secs (60 * w)"
  shows "count_registrations_from_ip DbOk now w a db' = count_registrations_from_ip DbOk now w a db + 2"
  using register_user_logs [OF assms(1,2,4,3,5,6)] assms(7,8)
  by (auto simp: count_registrations_from_ip_def login_from_def login_event_def since_def)

definition demo_user_claims :: UserClaims where
  "demo_user_claims = \<lparr>uc_sub = ''u1'', uc_org_id = ''o1'', uc_email = ''a@b.c'', uc_roles = [''user''], uc_iat = 1000, uc_exp = 4600,
     uc_jti = ''j''\<rparr>"

definition demo_orgs :: ac_db where
  "demo_orgs = demo_db\<lparr>ad_orgs := [\<lparr>og_org_id = ''o1'', og_subdomain = ''acme'', og_is_active = True\<rparr>]\<rparr>"

definition demo_register_env :: register_env where
  "demo_register_env = \<lparr>rv_others = (\<lambda>_ db. db), rv_user_id = ''u1'', rv_salt = [], rv_window_now = 5, rv_db_now = 5, rv_count_fault = DbOk,
     rv_exists_fault = DbOk, rv_create_fault = DbOk, rv_role_fault = DbOk, rv_log_fault = DbOk, rv_issue = demo_issue_env 5\<rparr>"

definition demo_config :: register_config where
  "demo_config = \<lparr>rc_bcrypt_cost = 12, rc_registration_window = 60, rc_registration_max = 5, rc_window = 15, rc_max_attempts = 5\<rparr>"

definition demo_request :: RegistrationRequest where
  "demo_request = \<lparr>rq_email = ''a@b.c'', rq_password = ''password'', rq_display_name = ''Ann''\<rparr>"

abbreviation "demo_user_lib \<equiv> demo_lib ''k'' [7] [2] (user_claims_json demo_user_claims)"

definition demo_user :: User where
  "demo_user = \<lparr>us_user_id = ''u1'', us_org_id = ''o1'', us_email = ''a@b.c'', us_password_hash = ''hpassword'', us_display_name = ''Ann'',
     us_is_active = True, us_last_login_at = None\<rparr>"

lemma demo_user_token:
  assumes "ad_users db = [demo_user]" "ad_roles db = [(''u1'', ''user'')]" "ad_keys db = ad_keys demo_db"
    "filter (failed_for_user 5 15 ''u1'') (ad_events db) = []"
  shows "\<exists>resp. fst (issue_user_token demo_user_lib demo_crypto (demo_issue_env 5) (replicate 32 5) ''o1'' ''a@b.c'' ''password''
    (Some ''10.0.0.1'') 15 5 db) = Ok resp"
proof -
  have "verify_client_secret demo_crypto ''password'' ''hpassword'' = Ok True"
    by (simp add: verify_client_secret_def crypto_err_def demo_crypto_def)
  moreover have "sign_jwt demo_user_lib demo_crypto (user_claims_json demo_user_claims) [7] ''k'' = Ok ''ab.b.b''"
    by (simp add: sign_jwt_def crypto_err_def demo_crypto_def demo_lib_def)
  moreover have "load_signing_key demo_crypto (demo_issue_env 5) (replicate 32 5) db = (Ok (''k'', [7]), db)"
    using assms(3) by (intro demo_loaded) (simp_all add: KEY_VALIDITY_def from_secs_def)
  moreover have "ie_roles_fault (demo_issue_env 5) = DbOk" "ie_role_order (demo_issue_env 5) = (\<lambda>r. r)" "ie_jti (demo_issue_env 5) = ''j''"
    by (simp_all add: demo_issue_env_def)
  ultimately show ?thesis
    using assms
    by (simp add: issue_user_token_def user_by_email_def demo_user_def get_failed_attempts_count_by_user_def unwrap_or_def
        issue_to_user_def get_user_roles_def sign_user_jwt_def TOKEN_EXPIRY_SECONDS_def demo_user_claims_def Let_def)
qed

lemma demo_registration:
  "\<exists>resp. fst (register_user demo_user_lib demo_crypto demo_register_env demo_config (replicate 32 5) ''o1'' demo_request
     (Some ''10.0.0.1'') demo_orgs) = Ok resp"
proof -
  have v: "is_valid_email ''a@b.c''" "trim_text ''Ann'' = ''Ann''" by code_simp+
  have h: "hash_client_secret demo_crypto [] ''password'' 12 = Ok ''hpassword''"
    by (simp add: hash_client_secret_def MIN_BCRYPT_COST_def MAX_BCRYPT_COST_def demo_crypto_def crypto_err_def)
  let ?db = "demo_orgs\<lparr>ad_users := [demo_user], ad_roles := [(''u1'', ''user'')],
    ad_events := [login_event 5 ''u1'' ''10.0.0.1'']\<rparr>"
  obtain resp where r: "fst (issue_user_token demo_user_lib demo_crypto (demo_issue_env 5) (replicate 32 5) ''o1'' ''a@b.c'' ''password''
      (Some ''10.0.0.1'') 15 5 ?db) = Ok resp"
    using demo_user_token [of ?db] by (auto simp: demo_orgs_def failed_for_user_def login_event_def)
  have sel: "ad_users demo_orgs = []" "ad_roles demo_orgs = []" "ad_events demo_orgs = []"
    "og_org_id ` set (ad_orgs demo_orgs) = {''o1''}"
    by (simp_all add: demo_orgs_def demo_db_def)
  have "create_user DbOk ''u1'' ''o1'' ''a@b.c'' ''hpassword'' ''Ann'' demo_orgs = (Ok demo_user, demo_orgs\<lparr>ad_users := [demo_user]\<rparr>)"
    using sel by (simp add: create_user_def demo_user_def Let_def)
  moreover have "add_user_role DbOk ''u1'' ''user'' (demo_orgs\<lparr>ad_users := [demo_user]\<rparr>)
      = (Ok (), demo_orgs\<lparr>ad_users := [demo_user], ad_roles := [(''u1'', ''user'')]\<rparr>)"
    using sel by (simp add: add_user_role_def demo_user_def)
  moreover have "log_event (ie_inet_ok (demo_issue_env 5)) DbOk 5 ''user_login'' (Some ''u1'') None True None (Some ''10.0.0.1'')
      (demo_orgs\<lparr>ad_users := [demo_user], ad_roles := [(''u1'', ''user'')]\<rparr>) = (Ok (), ?db)"
    using sel by (subst log_login) (simp_all add: demo_user_def)
  ultimately have "\<exists>resp. fst (register_checked demo_user_lib demo_crypto demo_register_env demo_config (replicate 32 5) ''o1'' demo_request
      (Some ''10.0.0.1'') demo_orgs) = Ok resp"
    using r h v(2)
    by (auto simp: register_checked_def demo_register_env_def demo_config_def demo_request_def demo_user_def split: prod.split)
  then show ?thesis
    using v sel by (auto simp: register_user_def count_registrations_from_ip_def email_exists_in_org_def demo_register_env_def
        demo_config_def demo_request_def MIN_PASSWORD_LENGTH_def)
qed

theorem registration_counts_twice_witness:
  "count_registrations_from_ip DbOk 5 60 ''10.0.0.1'' (snd (register_user demo_user_lib demo_crypto demo_register_env demo_config
     (replicate 32 5) ''o1'' demo_request (Some ''10.0.0.1'') demo_orgs)) = 2"
proof -
  let ?r = "register_user demo_user_lib demo_crypto demo_register_env demo_config (replicate 32 5) ''o1'' demo_request (Some ''10.0.0.1'') demo_orgs"
  obtain resp where "?r = (Ok resp, snd ?r)" using demo_registration by (metis prod.collapse)
  then have "count_registrations_from_ip DbOk 5 60 ''10.0.0.1'' (snd ?r) = count_registrations_from_ip DbOk 5 60 ''10.0.0.1'' demo_orgs + 2"
    by (rule registration_counts_twice) (simp_all add: demo_register_env_def demo_issue_env_def)
  then show ?thesis by (simp add: count_registrations_from_ip_def demo_orgs_def demo_db_def)
qed

end
