(* ===== verification/System_Auth.thy ===== *)
theory System_Auth
  imports AC_Account_Props
begin

text \<open>
  The Auth Controller and the services that check its tokens: a token that was issued is accepted while its key is
  published, and what a rotation does to the tokens of the old key and of the new one.
\<close>

section \<open>A token is accepted while its key is published\<close>

lemma key_map_absent: "kid \<notin> jk_kid ` set ks \<Longrightarrow> hm_get (fold (\<lambda>k m. hm_insert (jk_kid k) k m) ks m) kid = hm_get m kid"
  by (induction ks arbitrary: m) auto

lemma key_map_present:
  "distinct (map jk_kid ks) \<Longrightarrow> k \<in> set ks \<Longrightarrow> hm_get (fold (\<lambda>k m. hm_insert (jk_kid k) k m) ks m) (jk_kid k) = Some k"
proof (induction ks arbitrary: m)
  case (Cons x ks)
  then show ?case by (cases "k = x") (auto simp: key_map_absent)
qed simp

definition stale :: "instant \<Rightarrow> JwksClient \<Rightarrow> bool" where
  "stale t c \<longleftrightarrow> (case jc_cache c of None \<Rightarrow> True | Some cached \<Rightarrow> cj_expires_at cached \<le> t)"

lemma get_key_stale:
  assumes "stale t1 c"
  shows "fst (get_key t1 (Keys ks) t2 (\<lambda>c. c) kid c) = (case hm_get (key_map ks) kid of None \<Rightarrow> Err KeyNotFound | Some k \<Rightarrow> Ok k)"
  using assms by (auto simp: get_key_def stale_def refresh_cache_def Let_def split: option.splits)

lemma get_key_fresh:
  assumes "jc_cache c = Some cached" "t1 < cj_expires_at cached"
  shows "get_key t1 reply t2 others kid c = (case hm_get (cj_keys cached) kid of None \<Rightarrow> (Err KeyNotFound, c) | Some k \<Rightarrow> (Ok k, c))"
  using assms by (auto simp: get_key_def Let_def split: option.splits)

text \<open>The keys a validator gets from the Auth Controller in the state \<open>db\<close> at the time \<open>t\<close>.\<close>

definition published :: "jwt_lib \<Rightarrow> instant \<Rightarrow> ac_db \<Rightarrow> Jwk list" where
  "published K t db = List.map_filter (json_web_key K) (usable_keys t db)"

lemma get_jwks_published: "get_jwks K DbOk t db = (Ok (published K t db), db)"
  by (simp add: get_jwks_ok published_def)

lemma published_kids: "jk_kid ` set (published K t db) \<subseteq> ky_key_id ` set (usable_keys t db)"
  unfolding published_def using jwks_kids by fastforce

lemma distinct_insert_newest:
  "distinct (map f (insert_newest t k xs)) \<longleftrightarrow> f k \<notin> f ` set xs \<and> distinct (map f xs)"
  by (induction xs) auto

lemma distinct_newest_first: "distinct (map f (newest_first t xs)) \<longleftrightarrow> distinct (map f xs)"
proof (induction xs)
  case (Cons x xs)
  have "newest_first t (x # xs) = insert_newest t x (newest_first t xs)" by (simp add: newest_first_def)
  then show ?case using Cons by (simp add: distinct_insert_newest)
qed simp

lemma distinct_usable_kids:
  "distinct (map ky_key_id (ad_keys db)) \<Longrightarrow> distinct (map ky_key_id (usable_keys t db))"
  by (simp add: usable_keys_def distinct_newest_first distinct_map_filter)

lemma json_web_key_kid: "json_web_key K k = Some j \<Longrightarrow> jk_kid j = ky_key_id k"
  by (auto simp: json_web_key_def split: option.splits)

lemma distinct_published: "distinct (map ky_key_id ks) \<Longrightarrow> distinct (map jk_kid (List.map_filter (json_web_key K) ks))"
proof (induction ks)
  case (Cons k ks)
  show ?case
  proof (cases "json_web_key K k")
    case None
    then show ?thesis using Cons by (simp add: List.map_filter_simps)
  next
    case (Some j)
    then have "jk_kid j \<notin> jk_kid ` set (List.map_filter (json_web_key K) ks)"
      using Cons.prems jwks_kids [of _ K ks] json_web_key_kid by fastforce
    then show ?thesis using Cons Some by (simp add: List.map_filter_simps)
  qed
qed (simp add: List.map_filter_simps)

lemma published_mem: "k \<in> set (usable_keys t db) \<Longrightarrow> json_web_key K k = Some j \<Longrightarrow> j \<in> set (published K t db)"
  by (force simp: published_def List.map_filter_def image_iff)

lemma published_lookup:
  assumes "b64_ok K" "keys_wf K L m db" "k \<in> set (usable_keys t db)"
  obtains priv pub jwk where "stored_private_key L m k = Ok priv" "cl_public L priv = Ok pub" "json_web_key K k = Some jwk"
    "hm_get (key_map (published K t db)) (ky_key_id k) = Some jwk" "jk_x jwk = Some (jl_b64url_encode K pub)"
    "jk_kty jwk = ''OKP''" "jk_alg jwk = Some ''EdDSA''"
proof -
  have "k \<in> set (ad_keys db)" using assms(3) by (simp add: set_usable_keys)
  then obtain priv pub where k: "stored_private_key L m k = Ok priv" "cl_public L priv = Ok pub" "ky_public_key k = public_key_pem K pub"
    using assms(2) by (auto simp: keys_wf_def key_ok_def)
  obtain jwk where j: "json_web_key K k = Some jwk" "jk_x jwk = Some (jl_b64url_encode K pub)" "jk_kty jwk = ''OKP''"
    "jk_alg jwk = Some ''EdDSA''" "jk_kid jwk = ky_key_id k"
    by (rule that, rule json_web_key_ok [OF assms(1) k(3)]) simp_all
  have "jwk \<in> set (published K t db)" using published_mem assms(3) j(1) by blast
  moreover have "distinct (map jk_kid (published K t db))"
    unfolding published_def using assms(2) by (intro distinct_published distinct_usable_kids) (simp add: keys_wf_def)
  ultimately have "hm_get (key_map (published K t db)) (ky_key_id k) = Some jwk"
    using key_map_present [of "published K t db" jwk "[]"] j(5) by (simp add: key_map_def)
  then show ?thesis using that k j by blast
qed

lemma extract_kid_signed:
  assumes "signing_ok K pub" "jl_encode K kid payload priv = Ok token" "length token \<le> 8192" "kid \<noteq> []"
  shows "extract_kid K token = Ok kid"
proof -
  obtain h p s where "split_on (\<lambda>c. c = CHR ''.'') token = [h, p, s]" "header_kid K h = Some kid"
    using assms(1,2) unfolding signing_ok_def by blast
  then show ?thesis
    using assms(3,4) by (auto simp: extract_kid_def MAX_JWT_SIZE_BYTES_def header_kid_def Option.bind_eq_Some_conv)
qed

lemma signed_token_validates:
  assumes ok: "b64_ok K" "signing_ok K (cl_public L)" and wf: "keys_wf K L m db" and k: "k \<in> set (usable_keys t db)"
    and enc: "stored_private_key L m k = Ok priv" "jl_encode K (ky_key_id k) payload priv = Ok token" "length token \<le> 8192"
    and payload: "field as_i64 ''exp'' payload = Some exp" "claims_of payload = Some claims"
    and env: "stale (ve_look e) (jv_client v)" "ve_reply e = Keys (published K t db)" "ve_others e = (\<lambda>c. c)"
      "ve_decode_now e \<le> exp + 60" "iat claims \<le> ve_iat_now e + jv_clock_skew_seconds v"
  shows "fst (jwt_validate K claims_of iat e token v) = Ok claims"
proof -
  obtain pub jwk where p: "cl_public L priv = Ok pub" "hm_get (key_map (published K t db)) (ky_key_id k) = Some jwk"
    "jk_x jwk = Some (jl_b64url_encode K pub)" "jk_kty jwk = ''OKP''" "jk_alg jwk = Some ''EdDSA''"
    using published_lookup [OF ok(1) wf k] enc(1) by (metis sum.inject(2))
  have "ky_key_id k \<noteq> []" using wf k by (auto simp: keys_wf_def key_ok_def set_usable_keys)
  then have kid: "extract_kid K token = Ok (ky_key_id k)" using extract_kid_signed ok(2) enc(2,3) by blast
  have "fst (get_key (ve_look e) (ve_reply e) (ve_refresh e) (ve_others e) (ky_key_id k) (jv_client v)) = Ok jwk"
    using get_key_stale [OF env(1)] p(2) by (simp add: env(2,3))
  then obtain c where get: "get_key (ve_look e) (ve_reply e) (ve_refresh e) (ve_others e) (ky_key_id k) (jv_client v) = (Ok jwk, c)"
    by (metis prod.collapse)
  have "jl_decode K token pub (ve_decode_now e) = Some payload"
    using ok(2) enc(2) p(1) payload(1) env(4) unfolding signing_ok_def by blast
  then have "verify_token K claims_of (ve_decode_now e) token jwk = Ok claims"
    using p(3-5) payload(2) ok(1) by (simp add: verify_token_def decode_ed25519_public_key_jwk_def b64_ok_def)
  then show ?thesis using kid get env(5) by (simp add: jwt_validate_def validate_iat_at_def)
qed

text \<open>
  C5. A service token that the Auth Controller issued is accepted by every service that fetches the published keys while
  the signing key is among them, until one minute after the token's hour, and gives the claims of the credential.  The
  key table may be any reachable one; no key operation runs between the statements of the token request.
\<close>

theorem issued_token_accepted:
  assumes lib: "b64_ok K" "signing_ok K (cl_public L)" "sealing_ok L"
    and issue: "key_run K L year m db" "\<forall>n d. ad_keys (ie_others e n d) = ad_keys d" "usable_keys (ie_db_now e) db = k # ks"
      "issue_service_token K L e m cid secret gt req ip w mx db = (Ok resp, db')"
      "0 \<le> ie_now e" "ie_now e < 2 ^ 62" "length (tr_access_token resp) \<le> 8192"
    and fetch: "key_run K L year m d" "k \<in> set (usable_keys t d)" "get_jwks K DbOk t d = (Ok jwks, d)"
    and env: "stale (ve_look ve) (jv_client v)" "ve_reply ve = Keys jwks" "ve_others ve = (\<lambda>c. c)"
      "ve_decode_now ve \<le> ie_now e + 3660" "ie_now e \<le> ve_iat_now ve + jv_clock_skew_seconds v"
  shows "\<exists>cred \<in> set (ad_credentials (ie_others e 0 db)). cd_client_id cred = cid
    \<and> fst (jwt_validate K service_claims_of sc_iat ve (tr_access_token resp) v)
      = Ok (service_claims_new cid (ie_now e + 3600) (ie_now e) (tr_scope resp) (Some (cd_service_type cred)))"
proof -
  obtain cred where c: "find (\<lambda>c. cd_client_id c = cid) (ad_credentials (ie_others e 0 db)) = Some cred"
    "issue_to_credential K L e m cid req ip cred True (ie_others e 1 (ie_others e 0 db)) = (Ok resp, db')"
    using issue(4) by (rule issue_service_token_ok)
  let ?claims = "service_claims_new cid (ie_now e + 3600) (ie_now e) (tr_scope resp) (Some (cd_service_type cred))"
  have keys: "ad_keys (ie_others e 2 (ie_others e 1 (ie_others e 0 db))) = ad_keys db" using issue(2) by simp
  obtain priv where i: "stored_private_key L m k = Ok priv"
    "jl_encode K (ky_key_id k) (service_claims_json ?claims) priv = Ok (tr_access_token resp)"
    using issue_to_credential_ok [OF c(2)] issue(3) keys unfolding usable_keys_def stored_private_key_def
    by (metis list.inject)
  have range: "i64 (sc_exp ?claims)" "i64 (sc_iat ?claims)" using issue(5,6) by (simp_all add: service_claims_new_def i64_def)
  then have claims: "service_claims_of (service_claims_json ?claims) = Some ?claims" by (rule service_claims_roundtrip)
  moreover have "field as_i64 ''exp'' (service_claims_json ?claims) = Some (ie_now e + 3600)"
    using range(1) by (simp add: service_claims_json_def service_claims_new_def json_simps)
  ultimately have "fst (jwt_validate K service_claims_of sc_iat ve (tr_access_token resp) v) = Ok ?claims"
    using key_run_wf [OF fetch(1) lib(3)] env fetch(3) get_jwks_published [of K t d]
    by (intro signed_token_validates [OF lib(1,2) _ fetch(2) i issue(7)]) (auto simp: service_claims_new_def)
  moreover have "cred \<in> set (ad_credentials (ie_others e 0 db))" "cd_client_id cred = cid" using c(1) by (auto simp: find_Some_iff)
  ultimately show ?thesis by blast
qed

definition demo_live :: ac_db where
  "demo_live = empty_db\<lparr>ad_keys := [demo_new_key 5], ad_credentials := [demo_cred]\<rparr>"

abbreviation "demo_live_lib \<equiv> demo_lib ''auth-eu-2025-01'' [9] [3] (service_claims_json demo_claims)"

lemma demo_live_run: "key_run demo_live_lib demo_crypto (\<lambda>_. ''2025'') (replicate 32 5) demo_live"
proof (rule key_run.other)
  show "key_run demo_live_lib demo_crypto (\<lambda>_. ''2025'') (replicate 32 5)
      (snd (initialize_signing_key demo_live_lib demo_crypto (\<lambda>_. ''2025'') (demo_key_env 5) (replicate 32 5) ''eu'' empty_db))"
    by (intro key_run.intros) (simp_all add: empty_db_def nonce_ok_def demo_key_env_def)
  show "ad_keys demo_live = ad_keys (snd (initialize_signing_key demo_live_lib demo_crypto (\<lambda>_. ''2025'') (demo_key_env 5)
      (replicate 32 5) ''eu'' empty_db))"
    by (simp add: demo_initialized log_key_event_def demo_live_def)
qed

lemma demo_live_usable: "usable_keys 5 demo_live = [demo_new_key 5]"
  by (simp add: usable_keys_def demo_live_def demo_new_key_def key_usable_def KEY_VALIDITY_def from_secs_def)

lemma demo_live_issued:
  "fst (issue_service_token demo_live_lib demo_crypto (demo_issue_env 5) (replicate 32 5) ''gc'' ''s'' ''client_credentials'' None
     (Some ''10.0.0.1'') 15 5 demo_live)
   = Ok \<lparr>tr_access_token = ''ab.b.b'', tr_token_type = ''Bearer'', tr_expires_in = 3600, tr_scope = ''a b''\<rparr>"
proof -
  have "verify_client_secret demo_crypto ''s'' (cd_client_secret_hash demo_cred) = Ok True"
    by (simp add: verify_client_secret_def crypto_err_def demo_crypto_def demo_cred_def)
  moreover have "sign_jwt demo_live_lib demo_crypto (service_claims_json demo_claims) [9] ''auth-eu-2025-01'' = Ok ''ab.b.b''"
    by (simp add: sign_jwt_def crypto_err_def demo_crypto_def demo_lib_def)
  moreover have "cd_client_id demo_cred = ''gc''" "cd_is_active demo_cred" "cd_scopes demo_cred = [''a'', ''b'']"
    "cd_service_type demo_cred = ''global-controller''"
    by (simp_all add: demo_cred_def)
  moreover have "load_signing_key demo_crypto (demo_issue_env 5) (replicate 32 5) demo_live = (Ok (''auth-eu-2025-01'', [9]), demo_live)"
    by (simp add: load_signing_key_def get_active_key_def demo_live_usable decrypt_private_key_def crypto_err_def)
      (simp add: demo_new_key_def demo_crypto_def)
  moreover have "ad_credentials demo_live = [demo_cred]" "ad_events demo_live = []" by (simp_all add: demo_live_def empty_db_def)
  ultimately show ?thesis
    by (simp add: issue_service_token_def cred_by_client_id_def get_failed_attempts_count_def issue_to_credential_def
        granted_scopes_def TOKEN_EXPIRY_SECONDS_def demo_claims_def)
qed

theorem issued_token_accepted_witness:
  "fst (jwt_validate demo_live_lib service_claims_of sc_iat
     \<lparr>ve_look = 0, ve_reply = Keys (published demo_live_lib 5 demo_live), ve_refresh = 0, ve_others = (\<lambda>c. c), ve_decode_now = 2000,
      ve_iat_now = 2000\<rparr> ''ab.b.b'' (jwt_validator_new (jwks_client_new 300) 60)) = Ok demo_claims"
proof -
  let ?r = "issue_service_token demo_live_lib demo_crypto (demo_issue_env 5) (replicate 32 5) ''gc'' ''s'' ''client_credentials'' None
     (Some ''10.0.0.1'') 15 5 demo_live"
  let ?resp = "\<lparr>tr_access_token = ''ab.b.b'', tr_token_type = ''Bearer'', tr_expires_in = 3600, tr_scope = ''a b''\<rparr>"
  let ?v = "jwt_validator_new (jwks_client_new 300) 60"
  let ?ve = "\<lparr>ve_look = 0, ve_reply = Keys (published demo_live_lib 5 demo_live), ve_refresh = 0, ve_others = (\<lambda>c. c), ve_decode_now = 2000,
      ve_iat_now = 2000\<rparr>"
  have issue: "?r = (Ok ?resp, snd ?r)" using demo_live_issued by (metis prod.collapse)
  have sign: "signing_ok demo_live_lib (cl_public demo_crypto)" by (rule demo_lib_signing) (simp add: demo_crypto_def)
  have "\<exists>cred \<in> set (ad_credentials (ie_others (demo_issue_env 5) 0 demo_live)). cd_client_id cred = ''gc''
    \<and> fst (jwt_validate demo_live_lib service_claims_of sc_iat ?ve (tr_access_token ?resp) ?v)
      = Ok (service_claims_new ''gc'' (ie_now (demo_issue_env 5) + 3600) (ie_now (demo_issue_env 5)) (tr_scope ?resp) (Some (cd_service_type cred)))"
    by (rule issued_token_accepted [OF demo_lib_b64 sign demo_sealing demo_live_run _ _ issue _ _ _ demo_live_run _ get_jwks_published])
      (simp_all add: demo_live_usable stale_def jwt_validator_new_def jwks_client_new_def MAX_CLOCK_SKEW_def)
  then show ?thesis by (auto simp: demo_live_def empty_db_def demo_cred_def demo_claims_def)
qed

section \<open>A rotation interrupts the services\<close>

lemma jwt_validate_no_key:
  assumes "extract_kid K token = Ok kid"
    "fst (get_key (ve_look e) (ve_reply e) (ve_refresh e) (ve_others e) kid (jv_client v)) = Err KeyNotFound"
  shows "fst (jwt_validate K claims_of iat e token v) = Err KeyNotFound"
  using assms by (cases "get_key (ve_look e) (ve_reply e) (ve_refresh e) (ve_others e) kid (jv_client v)") (simp add: jwt_validate_def)

lemma key_map_kids: "kid \<notin> ky_key_id ` set (usable_keys t db) \<Longrightarrow> hm_get (key_map (published K t db)) kid = None"
  unfolding key_map_def using published_kids [of K t db] by (subst key_map_absent) auto

text \<open>
  C30. A key rotation rejects good tokens twice.  A service that fetched the keys before the rotation refuses every token
  of the new key with \<open>KeyNotFound\<close> until its cache expires, whatever the Auth Controller would answer; a service that
  fetches them after the rotation refuses in the same way every token of the old keys, however fresh the token is.
\<close>

theorem rotation_interrupts_services:
  assumes "handle_rotate_keys K L year e master_key cluster header db = (Ok r, db')"
  shows "(\<forall>v ve token cached (claims_of :: json \<Rightarrow> 'c option) iat t. jc_cache (jv_client v) = Some cached \<longrightarrow>
      cj_keys cached = key_map (published K t db) \<longrightarrow> ve_look ve < cj_expires_at cached \<longrightarrow>
      extract_kid K token = Ok (rr_new_key_id r) \<longrightarrow>
        fst (jwt_validate K claims_of iat ve token v) = Err KeyNotFound)
    \<and> (\<forall>v ve token kid (claims_of :: json \<Rightarrow> 'c option) iat t. stale (ve_look ve) (jv_client v) \<longrightarrow>
      ve_reply ve = Keys (published K t db') \<longrightarrow> ve_others ve = (\<lambda>c. c) \<longrightarrow>
      extract_kid K token = Ok kid \<longrightarrow> kid \<in> ky_key_id ` set (ad_keys db) \<longrightarrow>
        fst (jwt_validate K claims_of iat ve token v) = Err KeyNotFound)"
proof -
  obtain k where k: "ky_key_id k = rr_new_key_id r" "rr_new_key_id r \<notin> ky_key_id ` set (ad_keys db)"
    "\<And>t. set (usable_keys t db') \<subseteq> {k}"
    using rotation_effect [OF assms] by blast
  have old: "hm_get (key_map (published K t db)) (rr_new_key_id r) = None" for t
    using k(2) by (intro key_map_kids) (auto simp: set_usable_keys)
  have new: "hm_get (key_map (published K t db')) kid = None" if "kid \<in> ky_key_id ` set (ad_keys db)" for t kid
  proof (rule key_map_kids)
    have "ky_key_id ` set (usable_keys t db') \<subseteq> {rr_new_key_id r}" using k(1) k(3) [of t] by auto
    then show "kid \<notin> ky_key_id ` set (usable_keys t db')" using k(2) that by (metis singletonD subsetD)
  qed
  show ?thesis
    using old new by (auto intro!: jwt_validate_no_key simp: get_key_fresh get_key_stale)
qed

theorem rotation_interrupts_services_witness:
  "fst (jwt_validate demo_rotator service_claims_of sc_iat
     \<lparr>ve_look = 0, ve_reply = Keys (published demo_rotator (from_secs 4000) (rotated (demo_new_key (from_secs 4000)) demo_db)),
      ve_refresh = 0, ve_others = (\<lambda>c. c), ve_decode_now = 4000, ve_iat_now = 4000\<rparr> ''ab.b.b''
     (jwt_validator_new (jwks_client_new 300) 60)) = Err KeyNotFound"
proof -
  have kid: "extract_kid demo_rotator ''ab.b.b'' = Ok ''k''" by code_simp
  show ?thesis
    by (rule rotation_interrupts_services [OF demo_rotation, THEN conjunct2, rule_format, OF _ _ _ kid])
      (simp_all add: stale_def jwt_validator_new_def jwks_client_new_def demo_db_def demo_key_def)
qed

end
