(* ===== verification/System_Join.thy ===== *)
theory System_Join
  imports System_Auth GC_Meeting_Props MC_Connection_Props
begin

text \<open>
  The join of a user across the services: the Global Controller asks the Auth Controller for a meeting token, and the
  Meeting Controller and the Media Handler check it against the keys that the Auth Controller publishes.
\<close>

section \<open>The Auth Controller as the Global Controller reaches it\<close>

text \<open>
  The two internal endpoints behind the authentication of services.  \<open>reason\<close> gives the text of a status; a URL
  outside the two routes, and a body of the wrong kind, are refused before a handler runs.
\<close>

definition ac_answer :: "(nat \<Rightarrow> string) \<Rightarrow> (InternalTokenResponse, AcError) result \<times> ac_db \<Rightarrow> ac_reply \<times> ac_db" where
  "ac_answer reason = (\<lambda>(r, db). (case r of
      Inl err \<Rightarrow> (let status = unat (ac_status_code err) in AcReply status (reason status) (Err ''missing field''))
    | Inr t \<Rightarrow> AcReply 200 (reason 200) (Ok t), db))"

definition ac_endpoint ::
  "jwt_lib \<Rightarrow> crypto_lib \<Rightarrow> auth_env \<Rightarrow> issue_env \<Rightarrow> u8 list \<Rightarrow> (nat \<Rightarrow> string) \<Rightarrow> string \<Rightarrow> ac_db ac_http" where
  "ac_endpoint K L ae ie master_key reason base url authorization body db =
     (let meeting = base @ ''/api/v1/auth/internal/meeting-token''; guest = base @ ''/api/v1/auth/internal/guest-token''
      in if url \<noteq> meeting \<and> url \<noteq> guest then (AcReply 404 (reason 404) (Err ''EOF while parsing a value''), db)
         else case require_service_auth K ae (Some authorization) db of
                (Inl err, db) \<Rightarrow> ac_answer reason (Err err, db)
              | (Inr claims, db) \<Rightarrow>
                  (case body of
                     AcMeetingRequest r \<Rightarrow>
                       if url = meeting then ac_answer reason (handle_meeting_token K L ie master_key claims r db)
                       else (AcReply 422 (reason 422) (Err ''expected value''), db)
                   | AcGuestRequest r \<Rightarrow>
                       if url = guest then ac_answer reason (handle_guest_token K L ie master_key claims r db)
                       else (AcReply 422 (reason 422) (Err ''expected value''), db)))"

lemma require_service_auth_keeps: "require_service_auth K ae h db = (r, db') \<Longrightarrow> db' = db"
  by (auto simp: require_service_auth_def split: sum.splits prod.splits option.splits dest!: get_active_key_db)

lemma ac_answer_ok: "ac_answer reason x = (AcReply status msg (Ok t), db) \<Longrightarrow> x = (Ok t, db)"
  by (cases x) (auto simp: ac_answer_def Let_def split: sum.splits)

lemma ac_endpoint_meeting:
  assumes "ac_endpoint K L ae ie m reason base url auth (AcMeetingRequest r) db = (AcReply status msg (Ok t), db')"
  obtains claims where "require_service_auth K ae (Some auth) db = (Ok claims, db)"
    "REQUIRED_SCOPE \<in> set (split_whitespace (sc_scope claims))"
    "issue_meeting_token_internal K L ie m r (min (mr_ttl_seconds r) MAX_TOKEN_TTL_SECONDS) db = (Ok t, db')"
proof -
  obtain a db1 where a: "require_service_auth K ae (Some auth) db = (a, db1)" by fastforce
  then have "db1 = db" by (rule require_service_auth_keeps)
  moreover from assms a obtain claims where "a = Ok claims"
    by (cases a) (auto simp: ac_endpoint_def Let_def ac_answer_def split: if_splits)
  moreover from this assms a have "handle_meeting_token K L ie m claims r db = (Ok t, db')"
    using ac_answer_ok calculation(1) by (auto simp: ac_endpoint_def Let_def split: if_splits)
  ultimately show ?thesis using that a by (auto simp: handle_meeting_token_def Let_def split: if_splits)
qed

lemma issue_internal_token_ok:
  assumes "issue_internal_token K L ie m payload ttl db = (Ok t, db')"
  obtains k ks priv where "usable_keys (ie_db_now ie) (ie_others ie 0 db) = k # ks" "stored_private_key L m k = Ok priv"
    "jl_encode K (ky_key_id k) payload priv = Ok (it_token t)" "it_expires_in t = ttl"
proof -
  obtain kid priv db1 where l: "load_signing_key L ie m (ie_others ie 0 db) = (Ok (kid, priv), db1)"
    and s: "sign_jwt K L payload priv kid = Ok (it_token t)" "it_expires_in t = ttl"
    using assms by (auto simp: issue_internal_token_def split: prod.splits sum.splits)
  show ?thesis by (rule load_signing_key_ok [OF l]) (use that s sign_jwt_ok in \<open>auto simp: stored_private_key_def\<close>)
qed

definition issued_claims :: "MeetingTokenRequest \<Rightarrow> int \<Rightarrow> u32 \<Rightarrow> string \<Rightarrow> MeetingTokenClaims" where
  "issued_claims r now ttl jti =
     \<lparr>mt_sub = mr_subject_user_id r, mt_token_type = ''meeting'', mt_meeting_id = mr_meeting_id r,
      mt_home_org_id = Some (mr_home_org_id r), mt_meeting_org_id = mr_meeting_org_id r,
      mt_participant_type = (if mr_participant_type r = ReqMember then Member else External),
      mt_role = (if mr_role r = ReqHost then Host else MrParticipant), mt_capabilities = mr_capabilities r, mt_iat = now,
      mt_exp = now + uint ttl, mt_jti = jti\<rparr>"

lemma issued_claims_read:
  assumes "i64 now" "i64 (now + uint ttl)" "mr_participant_type r \<noteq> ReqGuest" "mr_role r \<noteq> ReqGuestRole"
  shows "meeting_claims_of (meeting_token_json r now ttl jti) = Some (issued_claims r now ttl jti)"
  using assms by (cases "mr_participant_type r"; cases "mr_role r")
    (simp_all add: meeting_claims_of_def meeting_token_json_def issued_claims_def json_simps)

section \<open>From the join to the Meeting Controller and the Media Handler\<close>

lemma issued_meeting_token_validates:
  assumes lib: "b64_ok K" "signing_ok K (cl_public L)" "sealing_ok L"
    and issue: "issue_meeting_token_internal K L ie m r ttl db = (Ok t, db')" "usable_keys (ie_db_now ie) (ie_others ie 0 db) = k # ks"
      "0 \<le> ie_now ie" "ie_now ie < 2 ^ 62" "length (it_token t) \<le> 8192"
    and r: "mr_participant_type r \<noteq> ReqGuest" "mr_role r \<noteq> ReqGuestRole"
    and fetch: "key_run K L year m d" "k \<in> set (usable_keys t0 d)"
    and env: "stale (ve_look ve) (jv_client v)" "ve_reply ve = Keys (published K t0 d)" "ve_others ve = (\<lambda>c. c)"
      "ve_decode_now ve \<le> ie_now ie + uint ttl + 60" "ie_now ie \<le> ve_iat_now ve + jv_clock_skew_seconds v"
  shows "fst (jwt_validate K meeting_claims_of mt_iat ve (it_token t) v) = Ok (issued_claims r (ie_now ie) ttl (ie_jti ie))"
proof -
  let ?j = "meeting_token_json r (ie_now ie) ttl (ie_jti ie)"
  obtain priv where i: "stored_private_key L m k = Ok priv" "jl_encode K (ky_key_id k) ?j priv = Ok (it_token t)"
    using issue(1,2) unfolding issue_meeting_token_internal_def by (elim issue_internal_token_ok) simp
  have range: "i64 (ie_now ie)" "i64 (ie_now ie + uint ttl)" using issue(3,4) i64_ttl by (simp_all add: i64_def)
  have "field as_i64 ''exp'' ?j = Some (ie_now ie + uint ttl)"
    using range by (simp add: meeting_token_json_def json_simps)
  moreover have "meeting_claims_of ?j = Some (issued_claims r (ie_now ie) ttl (ie_jti ie))"
    using range r by (rule issued_claims_read)
  ultimately show ?thesis
    using key_run_wf [OF fetch(1) lib(3)] env
    by (intro signed_token_validates [OF lib(1,2) _ fetch(2) i issue(5)]) (auto simp: issued_claims_def)
qed

lemma join_meeting_ok:
  assumes "join_meeting T A e claims code g = (Ok resp, l, g')"
  obtains m user org status msg t where "m \<in> set (md_meetings (gw_meet g))" "mw_meeting_code m = code"
    "parse_user_id T (uc_sub claims) = Ok user" "tl_uuid_parse T (uc_org_id claims) = Some org"
    "ga_http A (ga_ac_internal_url A @ ''/api/v1/auth/internal/meeting-token'') (''Bearer '' @ je_token e)
       (AcMeetingRequest (join_token_request m user org)) (gw_ac g) = (AcReply status msg (Ok t), gw_ac g')"
    "jr_token resp = it_token t" "jr_meeting_id resp = mw_meeting_id m"
proof -
  obtain m user org where m: "find_meeting_by_code (je_find e) code (gw_meet g) = (Ok m, gw_meet g)"
      and j: "parse_user_id T (uc_sub claims) = Ok user" "tl_uuid_parse T (uc_org_id claims) = Some org"
      and p: "place_and_request A e m (request_meeting_token (ga_http A) (ga_ac_internal_url A) (je_token e)
         (join_token_request m user org)) g = (Ok resp, l, g')"
    using assms find_by_code_keeps [of "je_find e" code "gw_meet g"]
    by (auto simp: join_meeting_def Let_def split: prod.splits sum.splits if_splits option.splits)
  from place_and_request_ok [OF p] obtain a t where
    t: "request_meeting_token (ga_http A) (ga_ac_internal_url A) (je_token e) (join_token_request m user org) (gw_ac g) = (Ok t, gw_ac g')"
    and r: "resp = join_response t m a" by auto
  from ac_request_ok [OF t [unfolded request_meeting_token_def]] find_by_code_ok [OF m] show ?thesis
    by (auto intro: that [OF _ _ j] simp: r join_response_def)
qed

text \<open>
  C8. The answer to a join opens the door it names.  When the Auth Controller behind the client has a reachable key table
  and its newest key signs the token, a Meeting Controller that fetches the keys while that key is published admits a join
  request with the token of the answer and the meeting of the answer until a minute after the token's quarter of an hour;
  the claims name the user of the access token, make a host exactly of the user who created the meeting, and give the
  capabilities of a participant.  The Media Handler accepts the same token.
\<close>

theorem joined_user_admitted:
  assumes lib: "b64_ok K" "signing_ok K (cl_public L)" "sealing_ok L"
    and ac: "ga_http A = ac_endpoint K L ae ie mk reason base" "\<forall>d. ad_keys (ie_others ie 0 d) = ad_keys d"
      "usable_keys (ie_db_now ie) (gw_ac g) = k # ks" "0 \<le> ie_now ie" "ie_now ie < 2 ^ 62"
    and join: "join_meeting T A e claims code g = (Ok resp, l, g')" "length (jr_token resp) \<le> 8192"
    and fetch: "key_run K L year mk d" "k \<in> set (usable_keys t d)"
    and env: "stale (ve_look ve) (jv_client v)" "ve_reply ve = Keys (published K t d)" "ve_others ve = (\<lambda>c. c)"
      "ve_decode_now ve \<le> ie_now ie + 960" "ie_now ie \<le> ve_iat_now ve + jv_clock_skew_seconds v"
    and conn: "cx_jwt ce = K" "cx_jwt_env ce = ve" "cx_validator ce = v" "jq_join_token q = jr_token resp"
      "jq_meeting_id q = jr_meeting_id resp"
  shows "\<exists>c m user. fst (authorize_join ce q) = Ok c \<and> fst (mh_validate_meeting_token K ve (jr_token resp) v) = Ok c
    \<and> m \<in> set (md_meetings (gw_meet g)) \<and> mw_meeting_code m = code \<and> mt_meeting_id c = mw_meeting_id m
    \<and> parse_user_id T (uc_sub claims) = Ok user \<and> mt_sub c = user \<and> (mt_role c = Host \<longleftrightarrow> mw_created_by_user_id m = user)
    \<and> mt_capabilities c = DEFAULT_PARTICIPANT_CAPABILITIES"
proof -
  obtain m user org status msg r where m: "m \<in> set (md_meetings (gw_meet g))" "mw_meeting_code m = code"
    "parse_user_id T (uc_sub claims) = Ok user"
    and post: "ac_endpoint K L ae ie mk reason base (ga_ac_internal_url A @ ''/api/v1/auth/internal/meeting-token'') (''Bearer '' @ je_token e)
       (AcMeetingRequest (join_token_request m user org)) (gw_ac g) = (AcReply status msg (Ok r), gw_ac g')"
    and resp: "jr_token resp = it_token r" "jr_meeting_id resp = mw_meeting_id m"
    using join(1) unfolding ac(1) [symmetric] by (rule join_meeting_ok)
  let ?q = "join_token_request m user org"
  let ?c = "issued_claims ?q (ie_now ie) 900 (ie_jti ie)"
  have issue: "issue_meeting_token_internal K L ie mk ?q 900 (gw_ac g) = (Ok r, gw_ac g')"
    using post by (rule ac_endpoint_meeting) (simp add: join_token_request_def MAX_TOKEN_TTL_SECONDS_def DEFAULT_TOKEN_TTL_SECONDS_def)
  have "usable_keys (ie_db_now ie) (ie_others ie 0 (gw_ac g)) = k # ks" using ac(2,3) by (simp add: usable_keys_def)
  then have ok: "fst (jwt_validate K meeting_claims_of mt_iat ve (jr_token resp) v) = Ok ?c"
    using join(2) env ac(4,5) unfolding resp(1)
    by (intro issued_meeting_token_validates [OF lib issue _ _ _ _ _ _ fetch]) (simp_all add: join_token_request_def)
  then obtain v' where "jwt_validate K meeting_claims_of mt_iat ve (jr_token resp) v = (Ok ?c, v')" by (metis prod.collapse)
  then have "fst (authorize_join ce q) = Ok ?c" "fst (mh_validate_meeting_token K ve (jr_token resp) v) = Ok ?c"
    using conn resp(2) by (simp_all add: authorize_join_def mc_validate_meeting_token_def mh_validate_meeting_token_def
        issued_claims_def join_token_request_def)
  moreover have "mt_meeting_id ?c = mw_meeting_id m" "mt_sub ?c = user" "mt_role ?c = Host \<longleftrightarrow> mw_created_by_user_id m = user"
    "mt_capabilities ?c = DEFAULT_PARTICIPANT_CAPABILITIES"
    by (simp_all add: issued_claims_def join_token_request_def)
  ultimately show ?thesis using m by blast
qed

text \<open>
  The Auth Controller of the example: its library signs the token of the join and also reads \<open>s\<close>, the service token of
  the Global Controller.
\<close>

abbreviation "demo_join_payload \<equiv> meeting_token_json (join_token_request (demo_row ''m'' ''o'' ''c'') ''u'' ''o'') 1000 900 ''j''"

definition demo_gc_token :: ServiceClaims where
  "demo_gc_token = service_claims_new ''gc'' 4600 1000 ''internal:meeting-token'' (Some ''global-controller'')"

definition demo_join_lib :: jwt_lib where
  "demo_join_lib = (let K = demo_lib ''auth-eu-2025-01'' [9] [3] demo_join_payload
     in K\<lparr>jl_decode := (\<lambda>token pub now. if token = ''s'' then Some (service_claims_json demo_gc_token) else jl_decode K token pub now)\<rparr>)"

definition demo_auth_env :: auth_env where
  "demo_auth_env = \<lparr>ae_fault = DbOk, ae_db_now = 5, ae_exp_now = 1000, ae_iat_now = 1000, ae_skew = 300\<rparr>"

definition demo_joining_app :: "(int, unit, ac_db) gc_app" where
  "demo_joining_app = \<lparr>ga_f64 = ga_f64 demo_app, ga_client = ga_client demo_app,
     ga_http = ac_endpoint demo_join_lib AC_Key_Props.demo_crypto demo_auth_env (demo_issue_env 5) (replicate 32 5) (\<lambda>_. ''OK'') ''ac'',
     ga_region = ga_region demo_app, ga_gc_id = ga_gc_id demo_app, ga_ac_internal_url = ''ac''\<rparr>"

definition demo_joining_world :: "(unit, ac_db) gc_world" where
  "demo_joining_world = \<lparr>gw_meet = demo_tables [demo_row ''m'' ''o'' ''c''], gw_db = demo_gc_db, gw_mcs = (), gw_ac = demo_live\<rparr>"

lemma demo_join_lib_ok: "b64_ok demo_join_lib" "signing_ok demo_join_lib (cl_public AC_Key_Props.demo_crypto)"
proof -
  have sign: "signing_ok (demo_lib ''auth-eu-2025-01'' [9] [3] demo_join_payload) (cl_public AC_Key_Props.demo_crypto)"
    by (rule demo_lib_signing) (simp add: AC_Key_Props.demo_crypto_def)
  show "b64_ok demo_join_lib"
    using demo_lib_b64 [of "''auth-eu-2025-01''" "[9]" "[3]" demo_join_payload] by (simp add: b64_ok_def demo_join_lib_def Let_def)
  show "signing_ok demo_join_lib (cl_public AC_Key_Props.demo_crypto)"
    using sign unfolding signing_ok_def header_kid_def demo_join_lib_def Let_def by (auto simp: demo_lib_def split: if_splits)
qed

lemma initialize_decode_irrelevant:
  "initialize_signing_key (K\<lparr>jl_decode := f\<rparr>) L year e m cluster db = initialize_signing_key K L year e m cluster db"
proof -
  have "public_key_pem (K\<lparr>jl_decode := f\<rparr>) = public_key_pem K" by (intro ext) (simp add: public_key_pem_def)
  then have n: "new_key (K\<lparr>jl_decode := f\<rparr>) = new_key K" by (intro ext) (simp add: new_key_def generate_signing_key_def split: sum.split)
  show ?thesis unfolding initialize_signing_key_def n by (rule refl)
qed

lemma demo_joining_run: "key_run demo_join_lib AC_Key_Props.demo_crypto (\<lambda>_. ''2025'') (replicate 32 5) demo_live"
proof (rule key_run.other)
  let ?init = "initialize_signing_key demo_join_lib AC_Key_Props.demo_crypto (\<lambda>_. ''2025'') (demo_key_env 5) (replicate 32 5) ''eu'' empty_db"
  show "key_run demo_join_lib AC_Key_Props.demo_crypto (\<lambda>_. ''2025'') (replicate 32 5) (snd ?init)"
    by (intro key_run.intros) (simp_all add: empty_db_def nonce_ok_def demo_key_env_def)
  show "ad_keys demo_live = ad_keys (snd ?init)"
    unfolding demo_join_lib_def Let_def initialize_decode_irrelevant
    by (simp add: demo_initialized log_key_event_def demo_live_def)
qed

lemma demo_key_pem: "ky_public_key (demo_new_key 5) = public_key_pem demo_join_lib [3]"
  by (simp add: demo_new_key_def public_key_pem_def demo_join_lib_def Let_def demo_lib_def)

lemma demo_joining_answer:
  "ac_endpoint demo_join_lib AC_Key_Props.demo_crypto demo_auth_env (demo_issue_env 5) (replicate 32 5) (\<lambda>_. ''OK'') ''ac''
     (''ac'' @ ''/api/v1/auth/internal/meeting-token'') (''Bearer '' @ ''s'')
     (AcMeetingRequest (join_token_request (demo_row ''m'' ''o'' ''c'') ''u'' ''o'')) demo_live
   = (AcReply 200 ''OK'' (Ok \<lparr>it_token = ''ab.b.b'', it_expires_in = 900\<rparr>), demo_live)"
proof -
  have "bearer_token (Some (''Bearer '' @ ''s'')) = Ok ''s''" by code_simp
  moreover have "decode_ed25519_public_key_pem demo_join_lib (ky_public_key (demo_new_key 5)) = Some [3]"
    using pem_body_public_key [OF demo_join_lib_ok(1), of "[3]"] demo_join_lib_ok(1)
    by (simp add: decode_ed25519_public_key_pem_def demo_key_pem b64_ok_def)
  moreover have "service_claims_of (service_claims_json demo_gc_token) = Some demo_gc_token" by code_simp
  moreover have "sc_iat demo_gc_token = 1000" by code_simp
  moreover have "ie_jti (demo_issue_env 5) = ''j''" by (simp add: demo_issue_env_def)
  moreover have "split_whitespace (sc_scope demo_gc_token) = [''internal:meeting-token'']" by code_simp
  moreover have "load_signing_key AC_Key_Props.demo_crypto (demo_issue_env 5) (replicate 32 5) demo_live = (Ok (''auth-eu-2025-01'', [9]), demo_live)"
    by (simp add: load_signing_key_def get_active_key_def demo_live_usable decrypt_private_key_def crypto_err_def)
      (simp add: demo_new_key_def AC_Key_Props.demo_crypto_def)
  moreover have "sign_jwt demo_join_lib AC_Key_Props.demo_crypto demo_join_payload [9] ''auth-eu-2025-01'' = Ok ''ab.b.b''"
    by (simp add: sign_jwt_def crypto_err_def AC_Key_Props.demo_crypto_def demo_join_lib_def Let_def demo_lib_def)
  moreover have "mr_ttl_seconds (join_token_request (demo_row ''m'' ''o'' ''c'') ''u'' ''o'') = 900"
    by (simp add: join_token_request_def DEFAULT_TOKEN_TTL_SECONDS_def)
  moreover have "jl_decode demo_join_lib ''s'' pub now = Some (service_claims_json demo_gc_token)" for pub now
    by (simp add: demo_join_lib_def Let_def)
  ultimately show ?thesis
    by (simp add: ac_endpoint_def require_service_auth_def demo_auth_env_def get_active_key_def demo_live_usable verify_jwt_def verify_claims_def
        MAX_JWT_SIZE_BYTES_def handle_meeting_token_def REQUIRED_SCOPE_def MAX_TOKEN_TTL_SECONDS_def issue_meeting_token_internal_def
        issue_internal_token_def ac_answer_def Let_def validate_iat_at_def)
qed

theorem joined_user_admitted_witness:
  "\<exists>resp l g' c q. join_meeting demo_text demo_joining_app GC_Meeting_Props.demo_join_env demo_user_claims ''c'' demo_joining_world = (Ok resp, l, g')
     \<and> jq_join_token q = jr_token resp \<and> jq_meeting_id q = ''m''
     \<and> fst (authorize_join ((demo_conn_env ''p'')\<lparr>cx_jwt := demo_join_lib, cx_jwt_env :=
          \<lparr>ve_look = 0, ve_reply = Keys (published demo_join_lib 5 demo_live), ve_refresh = 0, ve_others = (\<lambda>c. c), ve_decode_now = 1960,
           ve_iat_now = 1960\<rparr>\<rparr>) q) = Ok c \<and> mt_role c = Host"
proof -
  let ?A = demo_joining_app and ?e = GC_Meeting_Props.demo_join_env and ?g = demo_joining_world
  let ?ve = "\<lparr>ve_look = 0, ve_reply = Keys (published demo_join_lib 5 demo_live), ve_refresh = 0, ve_others = (\<lambda>c. c),
    ve_decode_now = 1960, ve_iat_now = 1960\<rparr>"
  let ?ce = "(demo_conn_env ''p'')\<lparr>cx_jwt := demo_join_lib, cx_jwt_env := ?ve\<rparr>"
  have w: "gw_meet ?g = demo_tables [demo_row ''m'' ''o'' ''c'']" "je_find ?e = DbOk" "gw_ac ?g = demo_live"
    "ga_http ?A = ac_endpoint demo_join_lib AC_Key_Props.demo_crypto demo_auth_env (demo_issue_env 5) (replicate 32 5) (\<lambda>_. ''OK'') ''ac''"
    "mw_meeting_id (demo_row ''m'' ''o'' ''c'') = ''m''"
    by (simp_all add: demo_joining_world_def GC_Meeting_Props.demo_join_env_def demo_joining_app_def demo_row_def)
  have "ac_request (ga_http ?A) (''ac'' @ ''/api/v1/auth/internal/meeting-token'') ''s''
      (AcMeetingRequest (join_token_request (demo_row ''m'' ''o'' ''c'') ''u'' ''o'')) demo_live
    = (Ok \<lparr>it_token = ''ab.b.b'', it_expires_in = 900\<rparr>, demo_live)"
    unfolding ac_request_def w demo_joining_answer by (simp add: handle_response_def)
  moreover have demo_user: "parse_user_id demo_text ''u'' = Ok ''u''" by code_simp
  moreover have "ga_ac_internal_url ?A = ''ac''" "je_token ?e = ''s''" "create_ac_client ?e = Ok ()"
    by (simp_all add: demo_joining_app_def GC_Meeting_Props.demo_join_env_def create_ac_client_def)
  moreover obtain a where "gc_assign_meeting_with_mh (ga_f64 ?A) (ga_client ?A) (je_assign ?e) ''m'' (ga_region ?A) (ga_gc_id ?A)
      (gw_db ?g) (gw_mcs ?g) = (Ok a, [], demo_gc_db, ())"
    using demo_assigned by (auto simp: demo_joining_app_def demo_joining_world_def)
  ultimately obtain l g' where run: "join_meeting demo_text ?A ?e demo_user_claims ''c'' ?g
      = (Ok (join_response \<lparr>it_token = ''ab.b.b'', it_expires_in = 900\<rparr> (demo_row ''m'' ''o'' ''c'') a), l, g')"
    unfolding join_meeting_def w demo_find
    by (simp add: demo_row_open demo_user_claims_def demo_text_def place_and_request_def w request_meeting_token_def)
  let ?resp = "join_response \<lparr>it_token = ''ab.b.b'', it_expires_in = 900\<rparr> (demo_row ''m'' ''o'' ''c'') a"
  let ?q = "\<lparr>jq_meeting_id = ''m'', jq_join_token = jr_token ?resp, jq_participant_name = ''Ann''\<rparr>"
  have "\<exists>c m user. fst (authorize_join ?ce ?q) = Ok c
    \<and> fst (mh_validate_meeting_token demo_join_lib ?ve (jr_token ?resp) (jwt_validator_new (jwks_client_new 300) 300)) = Ok c
    \<and> m \<in> set (md_meetings (gw_meet ?g)) \<and> mw_meeting_code m = ''c'' \<and> mt_meeting_id c = mw_meeting_id m
    \<and> parse_user_id demo_text (uc_sub demo_user_claims) = Ok user \<and> mt_sub c = user
    \<and> (mt_role c = Host \<longleftrightarrow> mw_created_by_user_id m = user) \<and> mt_capabilities c = DEFAULT_PARTICIPANT_CAPABILITIES"
    by (rule joined_user_admitted [OF demo_join_lib_ok demo_sealing w(4) _ _ _ _ run _ demo_joining_run])
      (simp_all add: demo_live_usable w(3) stale_def jwt_validator_new_def jwks_client_new_def MAX_CLOCK_SKEW_def demo_conn_env_def
        join_response_def w(5))
  then obtain c m user where c: "fst (authorize_join ?ce ?q) = Ok c" "m \<in> set (md_meetings (gw_meet ?g))"
    "parse_user_id demo_text (uc_sub demo_user_claims) = Ok user" "mt_role c = Host \<longleftrightarrow> mw_created_by_user_id m = user" by blast
  moreover have "user = ''u''" using c(3) demo_user by (simp add: demo_user_claims_def)
  moreover have "mw_created_by_user_id m = ''u''" using c(2) by (simp add: w(1) demo_tables_def demo_row_def)
  ultimately have "fst (authorize_join ?ce ?q) = Ok c" "mt_role c = Host" by simp_all
  then show ?thesis using run by (intro exI [of _ ?resp] exI [of _ l] exI [of _ g'] exI [of _ c] exI [of _ ?q]) simp
qed

end
