(* ===== verification/Token_Manager.thy ===== *)
theory Token_Manager
  imports Auth_Token
begin

text \<open>
  The task that keeps a service's own token fresh (crates/common/src/token_manager.rs): its configuration, the request to
  the Auth Controller, the refresh loop turn by turn, and its start.  The retries have a closed form, and while the Auth
  Controller answers the token in the channel never expires.
\<close>

section \<open>Constants, errors and configuration\<close>

text \<open>An \<open>i64\<close> is an \<open>int\<close> whose arithmetic wraps around, as the release profile compiles it.\<close>

definition wrap_i64 :: "int \<Rightarrow> int" where
  "wrap_i64 x = (x + 2 ^ 63) mod 2 ^ 64 - 2 ^ 63"

definition DEFAULT_REFRESH_THRESHOLD :: duration where "DEFAULT_REFRESH_THRESHOLD = from_secs 300"
definition DEFAULT_HTTP_TIMEOUT :: duration where "DEFAULT_HTTP_TIMEOUT = from_secs 10"
definition INITIAL_BACKOFF_MS :: u64 where "INITIAL_BACKOFF_MS = 1000"
definition MAX_BACKOFF_MS :: u64 where "MAX_BACKOFF_MS = 30000"
definition CLOCK_DRIFT_MARGIN_SECS :: int where "CLOCK_DRIFT_MARGIN_SECS = 30"

datatype TokenError = AcquisitionFailed string | HttpError string | AuthenticationRejected string | InvalidResponse string
  | TokenConfiguration string | TokenChannelClosed

fun error_category :: "TokenError \<Rightarrow> string" where
  "error_category (HttpError _) = ''http''"
| "error_category (AuthenticationRejected _) = ''auth_rejected''"
| "error_category (InvalidResponse _) = ''invalid_response''"
| "error_category (AcquisitionFailed _) = ''acquisition_failed''"
| "error_category (TokenConfiguration _) = ''configuration''"
| "error_category TokenChannelClosed = ''channel_closed''"

text \<open>\<open>tc_on_refresh\<close> says whether a callback is set.\<close>

record TokenManagerConfig =
  tc_ac_endpoint :: string
  tc_client_id :: string
  tc_client_secret :: string
  tc_refresh_threshold :: duration
  tc_http_timeout :: duration
  tc_on_refresh :: bool

definition token_config_new :: "string \<Rightarrow> string \<Rightarrow> string \<Rightarrow> TokenManagerConfig" where
  "token_config_new ac_endpoint client_id client_secret =
     \<lparr>tc_ac_endpoint = ac_endpoint, tc_client_id = client_id, tc_client_secret = client_secret,
      tc_refresh_threshold = DEFAULT_REFRESH_THRESHOLD, tc_http_timeout = DEFAULT_HTTP_TIMEOUT, tc_on_refresh = False\<rparr>"

definition token_config_new_secure :: "string \<Rightarrow> string \<Rightarrow> string \<Rightarrow> (TokenManagerConfig, TokenError) result" where
  "token_config_new_secure ac_endpoint client_id client_secret =
     (if \<not> starts_with ''https://'' ac_endpoint then Err (TokenConfiguration ''AC endpoint must use HTTPS in production'')
      else Ok (token_config_new ac_endpoint client_id client_secret))"

definition token_config_from_url :: "string \<Rightarrow> string \<Rightarrow> string \<Rightarrow> (TokenManagerConfig, TokenError) result" where
  "token_config_from_url ac_endpoint client_id client_secret =
     (if starts_with ''https://'' ac_endpoint then token_config_new_secure ac_endpoint client_id client_secret
      else if starts_with ''http://'' ac_endpoint then Ok (token_config_new ac_endpoint client_id client_secret)
      else Err (TokenConfiguration (''Invalid AC endpoint URL scheme (expected http:// or https://): '' @ ac_endpoint)))"

definition with_refresh_threshold :: "duration \<Rightarrow> TokenManagerConfig \<Rightarrow> TokenManagerConfig" where
  "with_refresh_threshold threshold c = c\<lparr>tc_refresh_threshold := threshold\<rparr>"

definition with_http_timeout :: "duration \<Rightarrow> TokenManagerConfig \<Rightarrow> TokenManagerConfig" where
  "with_http_timeout timeout c = c\<lparr>tc_http_timeout := timeout\<rparr>"

definition with_on_refresh :: "TokenManagerConfig \<Rightarrow> TokenManagerConfig" where
  "with_on_refresh c = c\<lparr>tc_on_refresh := True\<rparr>"

section \<open>Acquiring a token\<close>

record OAuthTokenResponse =
  ot_access_token :: string
  ot_token_type :: string
  ot_expires_in :: u64
  ot_scope :: "string option"

text \<open>The request, and what comes back: an error of the transport, or a status with its text and the body as read.\<close>

record token_request =
  tq_url :: string
  tq_grant_type :: string
  tq_client_id :: string
  tq_client_secret :: string

datatype oauth_reply = OAuthSendFailed string | OAuthReply nat string "(OAuthTokenResponse, string) result"

definition token_request :: "TokenManagerConfig \<Rightarrow> token_request" where
  "token_request c = \<lparr>tq_url = tc_ac_endpoint c @ ''/api/v1/auth/service/token'', tq_grant_type = ''client_credentials'',
     tq_client_id = tc_client_id c, tq_client_secret = tc_client_secret c\<rparr>"

text \<open>\<open>now\<close> is the clock when the answer has been read, in seconds.\<close>

definition acquire_token :: "oauth_reply \<Rightarrow> int \<Rightarrow> (string \<times> int, TokenError) result" where
  "acquire_token reply now =
     (case reply of
        OAuthSendFailed e \<Rightarrow> Err (HttpError e)
      | OAuthReply status txt body \<Rightarrow>
          if 200 \<le> status \<and> status < 300
          then case body of
                 Inl e \<Rightarrow> Err (InvalidResponse e)
               | Inr r \<Rightarrow> Ok (ot_access_token r, wrap_i64 (now + wrap_i64 (uint (ot_expires_in r))))
          else if status = 401 \<or> status = 400 then Err (AuthenticationRejected (''Status '' @ txt))
          else if 500 \<le> status \<and> status < 600 then Err (HttpError (''AC server error: '' @ txt))
          else Err (HttpError (''Unexpected status: '' @ txt)))"

section \<open>The refresh loop\<close>

text \<open>What the loop does, in order; the durations of sleeps are in milliseconds and in seconds.\<close>

datatype refresh_action = OnRefresh bool "string option" | SendToken string | SleepMillis u64 | SleepSecs int

record refresh_state =
  rs_backoff :: u64
  rs_expires_at :: "int option"
  rs_initial_acquisition :: bool

definition refresh_init :: refresh_state where
  "refresh_init = \<lparr>rs_backoff = INITIAL_BACKOFF_MS, rs_expires_at = None, rs_initial_acquisition = True\<rparr>"

text \<open>
  What one turn meets: the clock at the check, the answer to the request and the clock when it is read, whether a
  receiver is left, and the clock when the sleep is computed.
\<close>

record refresh_env =
  re_check_now :: int
  re_reply :: oauth_reply
  re_acquire_now :: int
  re_receivers :: bool
  re_sleep_now :: int

definition threshold_secs :: "TokenManagerConfig \<Rightarrow> int" where
  "threshold_secs c = wrap_i64 (int (tc_refresh_threshold c div 1000000000))"

definition needs_refresh :: "TokenManagerConfig \<Rightarrow> int \<Rightarrow> int option \<Rightarrow> bool" where
  "needs_refresh c now expires_at =
     (case expires_at of
        Some exp \<Rightarrow> wrap_i64 (exp - now) \<le> wrap_i64 (threshold_secs c + CLOCK_DRIFT_MARGIN_SECS)
      | None \<Rightarrow> True)"

definition sleep_secs :: "TokenManagerConfig \<Rightarrow> int \<Rightarrow> int option \<Rightarrow> int" where
  "sleep_secs c now expires_at =
     (case expires_at of
        Some exp \<Rightarrow>
          (let refresh_at = wrap_i64 (wrap_i64 (exp - threshold_secs c) - CLOCK_DRIFT_MARGIN_SECS)
           in max (wrap_i64 (refresh_at - now)) 1)
      | None \<Rightarrow> 1)"

definition callback :: "TokenManagerConfig \<Rightarrow> bool \<Rightarrow> string option \<Rightarrow> refresh_action list" where
  "callback c success category = (if tc_on_refresh c then [OnRefresh success category] else [])"

text \<open>One turn of the loop; \<open>None\<close> is the end of the task.\<close>

definition refresh_turn ::
  "TokenManagerConfig \<Rightarrow> refresh_env \<Rightarrow> refresh_state \<Rightarrow> refresh_action list \<times> refresh_state option" where
  "refresh_turn c e s =
     (if needs_refresh c (re_check_now e) (rs_expires_at s)
      then case acquire_token (re_reply e) (re_acquire_now e) of
             Inr (token, new_expires_at) \<Rightarrow>
               (let s = s\<lparr>rs_expires_at := Some new_expires_at\<rparr>
                in if \<not> re_receivers e then (callback c True None, None)
                   else let s = s\<lparr>rs_initial_acquisition := False, rs_backoff := INITIAL_BACKOFF_MS\<rparr>
                        in (callback c True None @ [SendToken token, SleepSecs (sleep_secs c (re_sleep_now e) (rs_expires_at s))], Some s))
           | Inl err \<Rightarrow>
               (callback c False (Some (error_category err)) @ [SleepMillis (rs_backoff s)],
                Some (s\<lparr>rs_backoff := min (rs_backoff s * 2) MAX_BACKOFF_MS\<rparr>))
      else ([SleepSecs (sleep_secs c (re_sleep_now e) (rs_expires_at s))], Some s))"

fun token_refresh_loop :: "TokenManagerConfig \<Rightarrow> refresh_env list \<Rightarrow> refresh_state \<Rightarrow> refresh_action list" where
  "token_refresh_loop c [] s = []"
| "token_refresh_loop c (e # es) s =
     (case refresh_turn c e s of
        (actions, None) \<Rightarrow> actions
      | (actions, Some s) \<Rightarrow> actions @ token_refresh_loop c es s)"

text \<open>
  Starting the task: \<open>client\<close> is the result of building the HTTP client.  The receiver waits for the first token; with
  the turns \<open>es\<close> so far the result may still be open.
\<close>

fun first_token :: "refresh_action list \<Rightarrow> string option" where
  "first_token [] = None"
| "first_token (SendToken token # _) = Some token"
| "first_token (_ # as) = first_token as"

definition spawn_token_manager ::
  "(unit, string) result \<Rightarrow> TokenManagerConfig \<Rightarrow> refresh_env list \<Rightarrow> (string, TokenError) result option" where
  "spawn_token_manager client c es =
     (case client of
        Inl e \<Rightarrow> Some (Err (TokenConfiguration (''Failed to build HTTP client: '' @ e)))
      | Inr _ \<Rightarrow>
          (case first_token (token_refresh_loop c es refresh_init) of
             None \<Rightarrow> None
           | Some token \<Rightarrow>
               Some (if token = [] then Err (AcquisitionFailed ''Token is empty after acquisition'') else Ok token)))"

section \<open>Retries\<close>

lemma wrap_i64_id [simp]: "i64 x \<Longrightarrow> wrap_i64 x = x"
  by (simp add: wrap_i64_def i64_def)

lemma wrap_i64_range: "i64 (wrap_i64 x)"
proof -
  have "0 \<le> (x + 2 ^ 63) mod 2 ^ 64" "(x + 2 ^ 63) mod 2 ^ 64 < (2 :: int) ^ 64" by simp_all
  then show ?thesis by (simp add: wrap_i64_def i64_def)
qed

text \<open>The reference: the delay after the \<open>n\<close>th failure in a row, counted from zero.\<close>

definition backoff :: "nat \<Rightarrow> nat" where
  "backoff n = min (1000 * 2 ^ n) 30000"

lemma backoff_bounds: "1000 \<le> backoff n" "backoff n \<le> 30000"
  by (simp_all add: backoff_def)

lemma min_of_nat: "a < 2 ^ 64 \<Longrightarrow> b < 2 ^ 64 \<Longrightarrow> min (word_of_nat a) (word_of_nat b) = (word_of_nat (min a b) :: u64)"
  by (auto simp: min_def word_of_nat_less_eq_iff take_bit_nat_eq_self)

lemma backoff_doubles: "min (of_nat (backoff n) * 2) MAX_BACKOFF_MS = of_nat (backoff (Suc n))"
proof -
  have "min (of_nat (backoff n) * 2) MAX_BACKOFF_MS = min (word_of_nat (backoff n * 2)) (word_of_nat 30000 :: u64)"
    by (simp add: MAX_BACKOFF_MS_def)
  also have "\<dots> = word_of_nat (min (backoff n * 2) 30000)" using backoff_bounds(2) [of n] by (intro min_of_nat) simp_all
  also have "min (backoff n * 2) 30000 = backoff (Suc n)" by (auto simp: backoff_def min_def)
  finally show ?thesis .
qed

definition failing :: "TokenManagerConfig \<Rightarrow> int option \<Rightarrow> refresh_env \<Rightarrow> bool" where
  "failing c exp e \<longleftrightarrow> needs_refresh c (re_check_now e) exp \<and> isl (acquire_token (re_reply e) (re_acquire_now e))"

fun is_sleep :: "refresh_action \<Rightarrow> bool" where
  "is_sleep (SleepMillis _) = True"
| "is_sleep (SleepSecs _) = True"
| "is_sleep _ = False"

lemma callback_quiet [simp]: "filter is_sleep (callback c ok cat) = []" "SendToken t \<notin> set (callback c ok cat)"
  "SleepMillis m \<notin> set (callback c ok cat)"
  by (simp_all add: callback_def)

lemma failing_turn:
  assumes "failing c (rs_expires_at s) e"
  obtains err where "acquire_token (re_reply e) (re_acquire_now e) = Err err"
    "refresh_turn c e s = (callback c False (Some (error_category err)) @ [SleepMillis (rs_backoff s)],
       Some (s\<lparr>rs_backoff := min (rs_backoff s * 2) MAX_BACKOFF_MS\<rparr>))"
  using assms by (cases "acquire_token (re_reply e) (re_acquire_now e)") (auto simp: failing_def refresh_turn_def)

lemma failing_run:
  assumes "\<forall>e \<in> set es. failing c (rs_expires_at s) e" "rs_backoff s = of_nat (backoff n)"
  shows "\<exists>acts. token_refresh_loop c (es @ rest) s
      = acts @ token_refresh_loop c rest (s\<lparr>rs_backoff := of_nat (backoff (n + length es))\<rparr>)
    \<and> filter is_sleep acts = map (\<lambda>k. SleepMillis (of_nat (backoff (n + k)))) [0..<length es] \<and> (\<forall>t. SendToken t \<notin> set acts)"
  using assms
proof (induction es arbitrary: s n)
  case Nil
  then have "s\<lparr>rs_backoff := of_nat (backoff n)\<rparr> = s" by (cases s) simp
  then show ?case by (intro exI [of _ "[]"]) simp
next
  case (Cons e es)
  obtain err where turn: "refresh_turn c e s = (callback c False (Some (error_category err)) @ [SleepMillis (rs_backoff s)],
       Some (s\<lparr>rs_backoff := min (rs_backoff s * 2) MAX_BACKOFF_MS\<rparr>))"
    using Cons.prems(1) by (auto elim: failing_turn)
  let ?s = "s\<lparr>rs_backoff := of_nat (backoff (Suc n))\<rparr>"
  obtain acts where acts: "token_refresh_loop c (es @ rest) ?s
      = acts @ token_refresh_loop c rest (?s\<lparr>rs_backoff := of_nat (backoff (Suc n + length es))\<rparr>)"
    "filter is_sleep acts = map (\<lambda>k. SleepMillis (of_nat (backoff (Suc n + k)))) [0..<length es]" "\<forall>t. SendToken t \<notin> set acts"
    using Cons.IH [of ?s "Suc n"] Cons.prems(1) by auto
  have "map (\<lambda>k. SleepMillis (of_nat (backoff (n + k)))) [0..<length (e # es)]
      = SleepMillis (of_nat (backoff n)) # map (\<lambda>k. SleepMillis (of_nat (backoff (Suc n + k)))) [0..<length es]"
    by (simp add: upt_conv_Cons map_Suc_upt [symmetric] del: upt_Suc)
  then show ?case
    using acts turn Cons.prems(2)
    by (intro exI [of _ "callback c False (Some (error_category err)) @ SleepMillis (rs_backoff s) # acts"])
      (simp add: backoff_doubles del: upt_Suc)
qed

text \<open>
  C28. However long the Auth Controller fails, the loop retries: the delays between the attempts are one second and double
  up to thirty seconds, nothing else is waited for and no token is sent; and the first attempt that succeeds sends its
  token at once, sleeps until the refresh and starts the delays again from one second.
\<close>

theorem refresh_retries:
  assumes "\<forall>e \<in> set es. failing c (rs_expires_at s) e" "rs_backoff s = INITIAL_BACKOFF_MS"
    and "needs_refresh c (re_check_now e) (rs_expires_at s)" "acquire_token (re_reply e) (re_acquire_now e) = Ok (token, exp)" "re_receivers e"
  shows "\<exists>acts. token_refresh_loop c (es @ e # rest) s = acts @ callback c True None
      @ [SendToken token, SleepSecs (sleep_secs c (re_sleep_now e) (Some exp))]
      @ token_refresh_loop c rest \<lparr>rs_backoff = INITIAL_BACKOFF_MS, rs_expires_at = Some exp, rs_initial_acquisition = False\<rparr>
    \<and> filter is_sleep acts = map (\<lambda>k. SleepMillis (of_nat (min (1000 * 2 ^ k) 30000))) [0..<length es]
    \<and> (\<forall>t. SendToken t \<notin> set acts)"
proof -
  have "rs_backoff s = of_nat (backoff 0)" using assms(2) by (simp add: INITIAL_BACKOFF_MS_def backoff_def)
  from failing_run [OF assms(1) this, of "e # rest"] obtain acts where acts:
    "token_refresh_loop c (es @ e # rest) s = acts @ token_refresh_loop c (e # rest) (s\<lparr>rs_backoff := of_nat (backoff (length es))\<rparr>)"
    "filter is_sleep acts = map (\<lambda>k. SleepMillis (of_nat (min (1000 * 2 ^ k) 30000))) [0..<length es]" "\<forall>t. SendToken t \<notin> set acts"
    by (auto simp: backoff_def)
  have "s\<lparr>rs_expires_at := Some exp, rs_initial_acquisition := False, rs_backoff := INITIAL_BACKOFF_MS\<rparr>
      = \<lparr>rs_backoff = INITIAL_BACKOFF_MS, rs_expires_at = Some exp, rs_initial_acquisition = False\<rparr>"
    by (cases s) simp
  with acts assms(3-5) show ?thesis by (intro exI [of _ acts]) (simp add: refresh_turn_def Let_def)
qed

definition demo_turn :: "int \<Rightarrow> oauth_reply \<Rightarrow> refresh_env" where
  "demo_turn t reply = \<lparr>re_check_now = t, re_reply = reply, re_acquire_now = t, re_receivers = True, re_sleep_now = t\<rparr>"

definition demo_grant :: "string \<Rightarrow> oauth_reply" where
  "demo_grant token = OAuthReply 200 ''200 OK''
     (Ok \<lparr>ot_access_token = token, ot_token_type = ''Bearer'', ot_expires_in = 3600, ot_scope = None\<rparr>)"

theorem refresh_retries_witness:
  "filter is_sleep (token_refresh_loop (token_config_new ''http://ac'' ''gc'' ''s'')
      [demo_turn 0 (OAuthSendFailed ''refused''), demo_turn 1 (OAuthReply 503 ''503'' (Err ''no body'')), demo_turn 3 (demo_grant ''t'')] refresh_init)
   = [SleepMillis 1000, SleepMillis 2000, SleepSecs 3270]"
proof -
  let ?c = "token_config_new ''http://ac'' ''gc'' ''s''"
  let ?es = "[demo_turn 0 (OAuthSendFailed ''refused''), demo_turn 1 (OAuthReply 503 ''503'' (Err ''no body''))]"
  have thr: "threshold_secs ?c = 300"
    by (simp add: threshold_secs_def token_config_new_def DEFAULT_REFRESH_THRESHOLD_def from_secs_def i64_def)
  have fail: "\<forall>e \<in> set ?es. failing ?c (rs_expires_at refresh_init) e"
    by (simp add: failing_def demo_turn_def refresh_init_def needs_refresh_def acquire_token_def)
  have grant: "acquire_token (re_reply (demo_turn 3 (demo_grant ''t''))) (re_acquire_now (demo_turn 3 (demo_grant ''t''))) = Ok (''t'', 3603)"
    by (simp add: acquire_token_def demo_turn_def demo_grant_def i64_def)
  have "needs_refresh ?c (re_check_now (demo_turn 3 (demo_grant ''t''))) (rs_expires_at refresh_init)"
    "re_receivers (demo_turn 3 (demo_grant ''t''))" "rs_backoff refresh_init = INITIAL_BACKOFF_MS"
    by (simp_all add: needs_refresh_def refresh_init_def demo_turn_def)
  moreover have "sleep_secs ?c (re_sleep_now (demo_turn 3 (demo_grant ''t''))) (Some 3603) = 3270"
    by (simp add: sleep_secs_def thr CLOCK_DRIFT_MARGIN_SECS_def i64_def demo_turn_def)
  ultimately show ?thesis
    using refresh_retries [OF fail _ _ grant, of "[]"] by (auto simp: upt_rec)
qed

section \<open>Freshness\<close>

fun granted :: "oauth_reply \<Rightarrow> OAuthTokenResponse option" where
  "granted (OAuthReply status txt (Inr r)) = (if 200 \<le> status \<and> status < 300 then Some r else None)"
| "granted _ = None"

lemma acquire_granted:
  assumes "granted reply = Some r" "0 \<le> now" "now < 2 ^ 62" "uint (ot_expires_in r) < 2 ^ 62"
  shows "acquire_token reply now = Ok (ot_access_token r, now + uint (ot_expires_in r))"
proof -
  have "i64 l" "i64 (now + l)" if "0 \<le> l" "l < 2 ^ 62" for l using assms(2,3) that by (simp_all add: i64_def)
  from this [OF uint_ge_0 assms(4)] have "i64 (uint (ot_expires_in r))" "i64 (now + uint (ot_expires_in r))" .
  then show ?thesis using assms(1) by (cases reply rule: granted.cases) (auto simp: acquire_token_def split: if_splits)
qed

text \<open>The lifetime that the Auth Controller grants in a turn, and the token.\<close>

definition life :: "refresh_env \<Rightarrow> int" where
  "life e = (case granted (re_reply e) of None \<Rightarrow> 0 | Some r \<Rightarrow> uint (ot_expires_in r))"

definition token_of :: "refresh_env \<Rightarrow> string" where
  "token_of e = (case granted (re_reply e) of None \<Rightarrow> [] | Some r \<Rightarrow> ot_access_token r)"

text \<open>
  A turn in which the request succeeds and takes at most \<open>d\<close> seconds, and two turns in a row: the sleep ends not before
  its time and at most \<open>lag\<close> seconds after it.
\<close>

definition turn_timed :: "TokenManagerConfig \<Rightarrow> int \<Rightarrow> refresh_env \<Rightarrow> bool" where
  "turn_timed c d e \<longleftrightarrow> granted (re_reply e) \<noteq> None \<and> re_receivers e \<and> 0 \<le> re_check_now e \<and> re_check_now e \<le> re_acquire_now e
     \<and> re_acquire_now e \<le> re_sleep_now e \<and> re_sleep_now e \<le> re_check_now e + d \<and> re_sleep_now e < 2 ^ 61
     \<and> threshold_secs c + 30 + d < life e \<and> life e < 2 ^ 61"

definition woken_timed :: "TokenManagerConfig \<Rightarrow> int \<Rightarrow> refresh_env \<Rightarrow> refresh_env \<Rightarrow> bool" where
  "woken_timed c lag e e' \<longleftrightarrow>
     (let wake = re_sleep_now e + sleep_secs c (re_sleep_now e) (Some (re_acquire_now e + life e))
      in wake \<le> re_check_now e' \<and> re_check_now e' \<le> wake + lag)"

lemma sleep_until:
  assumes "turn_timed c d e" "0 \<le> threshold_secs c" "threshold_secs c < 2 ^ 60" "0 \<le> d"
  shows "sleep_secs c (re_sleep_now e) (Some (re_acquire_now e + life e))
    = re_acquire_now e + life e - threshold_secs c - 30 - re_sleep_now e"
proof -
  have t: "0 \<le> re_acquire_now e" "re_acquire_now e \<le> re_sleep_now e" "re_sleep_now e \<le> re_acquire_now e + d"
    "re_sleep_now e < 2 ^ 61" "threshold_secs c + 30 + d < life e" "life e < 2 ^ 61"
    using assms(1) by (auto simp: turn_timed_def)
  then have "i64 (re_acquire_now e + life e - threshold_secs c)" "i64 (re_acquire_now e + life e - threshold_secs c - 30)"
    "i64 (re_acquire_now e + life e - threshold_secs c - 30 - re_sleep_now e)"
    using assms(2-4) by (simp_all add: i64_def)
  then show ?thesis using t by (simp add: sleep_secs_def CLOCK_DRIFT_MARGIN_SECS_def Let_def)
qed

lemma woken_due:
  assumes "turn_timed c d e" "woken_timed c lag e e'" "0 \<le> threshold_secs c" "threshold_secs c < 2 ^ 60" "0 \<le> d" "re_check_now e' < 2 ^ 61"
  shows "needs_refresh c (re_check_now e') (Some (re_acquire_now e + life e))"
proof -
  have t: "0 \<le> re_acquire_now e" "re_acquire_now e \<le> re_sleep_now e" "re_sleep_now e < 2 ^ 61" "0 \<le> life e" "life e < 2 ^ 61"
    "re_acquire_now e + life e - threshold_secs c - 30 \<le> re_check_now e'" "0 \<le> re_check_now e'"
    using assms sleep_until [OF assms(1,3,4,5)] by (auto simp: turn_timed_def woken_timed_def Let_def)
  then have "i64 (re_acquire_now e + life e - re_check_now e')" "i64 (threshold_secs c + CLOCK_DRIFT_MARGIN_SECS)"
    using assms(3,4,6) by (simp_all add: i64_def CLOCK_DRIFT_MARGIN_SECS_def)
  then show ?thesis using t by (simp add: needs_refresh_def CLOCK_DRIFT_MARGIN_SECS_def)
qed

lemma timed_turn:
  assumes "turn_timed c d e" "needs_refresh c (re_check_now e) (rs_expires_at s)"
  obtains s' where "refresh_turn c e s = (callback c True None @ [SendToken (token_of e),
      SleepSecs (sleep_secs c (re_sleep_now e) (Some (re_acquire_now e + life e)))], Some s')"
    "rs_expires_at s' = Some (re_acquire_now e + life e)"
proof -
  obtain r where r: "granted (re_reply e) = Some r" using assms(1) by (auto simp: turn_timed_def)
  then have "life e = uint (ot_expires_in r)" "token_of e = ot_access_token r" by (simp_all add: life_def token_of_def)
  moreover have "acquire_token (re_reply e) (re_acquire_now e) = Ok (ot_access_token r, re_acquire_now e + uint (ot_expires_in r))"
    using assms(1) calculation by (intro acquire_granted r) (auto simp: turn_timed_def)
  ultimately show ?thesis using assms that by (auto simp: refresh_turn_def turn_timed_def Let_def)
qed

fun sent :: "refresh_action list \<Rightarrow> string list" where
  "sent [] = []"
| "sent (SendToken t # as) = t # sent as"
| "sent (_ # as) = sent as"

lemma sent_append [simp]: "sent (xs @ ys) = sent xs @ sent ys"
  by (induction xs rule: sent.induct) simp_all

lemma sent_callback [simp]: "sent (callback c ok cat) = []"
  by (simp add: callback_def)

lemma timed_run_sends:
  assumes "\<forall>e \<in> set es. turn_timed c d e" "successively (woken_timed c lag) es" "0 \<le> threshold_secs c" "threshold_secs c < 2 ^ 60" "0 \<le> d"
    and "es \<noteq> [] \<Longrightarrow> needs_refresh c (re_check_now (hd es)) (rs_expires_at s)"
  shows "sent (token_refresh_loop c es s) = map token_of es"
  using assms(1,2,6)
proof (induction es arbitrary: s)
  case (Cons e es)
  obtain s' where s': "refresh_turn c e s = (callback c True None @ [SendToken (token_of e),
      SleepSecs (sleep_secs c (re_sleep_now e) (Some (re_acquire_now e + life e)))], Some s')"
    "rs_expires_at s' = Some (re_acquire_now e + life e)"
    using Cons.prems by (auto elim: timed_turn)
  have "needs_refresh c (re_check_now (hd es)) (rs_expires_at s')" if "es \<noteq> []"
  proof -
    have "turn_timed c d (hd es)" using that Cons.prems(1) by (cases es) auto
    then have "re_check_now (hd es) < 2 ^ 61" by (auto simp: turn_timed_def)
    then show ?thesis
      using that Cons.prems assms(3-5) woken_due [of c d e lag "hd es"] by (auto simp: s'(2) successively_Cons)
  qed
  then have "sent (token_refresh_loop c es s') = map token_of es"
    using Cons.prems by (intro Cons.IH) (auto simp: successively_Cons)
  then show ?case using s'(1) by simp
qed simp

text \<open>
  C14. While the Auth Controller answers, the token in the channel is always a valid one.  Every wake-up refreshes; the
  tokens appear in the channel in the order of the turns, and each is replaced more than \<open>skew\<close> seconds before it expires,
  where the time a request takes, the delay of a wake-up and the difference between the two clocks together stay under
  the threshold and the margin of thirty seconds, and the lifetimes granted are longer than threshold, margin and request.
\<close>

theorem token_always_fresh:
  assumes "\<forall>e \<in> set es. turn_timed c d e" "successively (woken_timed c lag) es"
    and "0 \<le> threshold_secs c" "threshold_secs c < 2 ^ 60" "0 \<le> d" "d + lag + skew < threshold_secs c + 30"
  shows "sent (token_refresh_loop c es refresh_init) = map token_of es
    \<and> (\<forall>n. Suc n < length es \<longrightarrow> re_acquire_now (es ! Suc n) + skew < re_acquire_now (es ! n) + life (es ! n))"
proof
  show "sent (token_refresh_loop c es refresh_init) = map token_of es"
    by (rule timed_run_sends [OF assms(1-5)]) (simp add: refresh_init_def needs_refresh_def)
  show "\<forall>n. Suc n < length es \<longrightarrow> re_acquire_now (es ! Suc n) + skew < re_acquire_now (es ! n) + life (es ! n)"
  proof (intro allI impI)
    fix n assume n: "Suc n < length es"
    let ?e = "es ! n" and ?e' = "es ! Suc n"
    have "woken_timed c lag ?e ?e'" "turn_timed c d ?e" "turn_timed c d ?e'"
      using assms(1,2) n by (auto simp: successively_conv_nth)
    then show "re_acquire_now ?e' + skew < re_acquire_now ?e + life ?e"
      using sleep_until [of c d ?e] assms(3-6) by (auto simp: woken_timed_def turn_timed_def Let_def)
  qed
qed

theorem token_always_fresh_witness:
  "sent (token_refresh_loop (token_config_new ''http://ac'' ''gc'' ''s'') [demo_turn 0 (demo_grant ''t1''), demo_turn 3270 (demo_grant ''t2'')]
     refresh_init) = [''t1'', ''t2''] \<and> (3270 :: int) + 200 < 0 + 3600"
proof -
  let ?c = "token_config_new ''http://ac'' ''gc'' ''s''"
  let ?es = "[demo_turn 0 (demo_grant ''t1''), demo_turn 3270 (demo_grant ''t2'')]"
  have thr: "threshold_secs ?c = 300"
    by (simp add: threshold_secs_def token_config_new_def DEFAULT_REFRESH_THRESHOLD_def from_secs_def i64_def)
  have life: "life (demo_turn t (demo_grant x)) = 3600" "token_of (demo_turn t (demo_grant x)) = x" for t x
    by (simp_all add: life_def token_of_def demo_turn_def demo_grant_def)
  have timed: "\<forall>e \<in> set ?es. turn_timed ?c 10 e"
    by (simp add: turn_timed_def thr life) (simp add: demo_turn_def demo_grant_def)
  have "sleep_secs ?c 0 (Some 3600) = 3270" by (simp add: sleep_secs_def thr CLOCK_DRIFT_MARGIN_SECS_def i64_def)
  then have woken: "successively (woken_timed ?c 5) ?es" by (simp add: woken_timed_def life Let_def) (simp add: demo_turn_def)
  show ?thesis
    using token_always_fresh [OF timed woken, of 200, unfolded thr] by (simp add: life)
qed

section \<open>Lifetimes the loop does not expect\<close>

text \<open>
  A token that lives no longer than threshold and margin is fetched again every second, and so is one whose lifetime is
  \<open>2\<^sup>63\<close> seconds or more: read as a signed number it lies in the past.
\<close>

definition polled :: "TokenManagerConfig \<Rightarrow> int \<Rightarrow> int \<Rightarrow> bool" where
  "polled c now exp \<longleftrightarrow> sleep_secs c now (Some exp) = 1 \<and> needs_refresh c (now + 1) (Some exp)"

lemma short_lifetime_polled:
  assumes "0 \<le> now" "now < 2 ^ 61" "0 \<le> threshold_secs c" "threshold_secs c < 2 ^ 60" "0 \<le> l" "l \<le> threshold_secs c + 30"
  shows "polled c now (now + l)"
proof -
  have "i64 (now + l - threshold_secs c)" "i64 (now + l - threshold_secs c - 30)" "i64 (now + l - threshold_secs c - 30 - now)"
    "i64 (now + l - (now + 1))" "i64 (threshold_secs c + 30)"
    using assms by (simp_all add: i64_def)
  then show ?thesis using assms by (simp add: polled_def sleep_secs_def needs_refresh_def CLOCK_DRIFT_MARGIN_SECS_def Let_def)
qed

lemma wrap_i64_high: "2 ^ 63 \<le> u \<Longrightarrow> u < 2 ^ 64 \<Longrightarrow> wrap_i64 u = u - 2 ^ 64"
proof -
  assume u: "2 ^ 63 \<le> u" "u < 2 ^ 64"
  have "(u + 2 ^ 63) mod 2 ^ 64 = (u - 2 ^ 63 + 2 ^ 64) mod 2 ^ 64" by (simp add: add.commute)
  also have "\<dots> = u - 2 ^ 63" unfolding mod_add_self2 using u by (intro mod_pos_pos_trivial) simp_all
  finally show ?thesis by (simp add: wrap_i64_def)
qed

lemma huge_lifetime_polled:
  assumes "0 \<le> now" "now < 2 ^ 61" "0 \<le> threshold_secs c" "threshold_secs c < 2 ^ 60" "2 ^ 63 + 2 ^ 62 \<le> uint (ot_expires_in r)"
    and "acquire_token (OAuthReply 200 txt (Ok r)) now = Ok (token, exp)"
  shows "polled c now exp"
proof -
  let ?l = "uint (ot_expires_in r) - 2 ^ 64"
  have u: "uint (ot_expires_in r) < 2 ^ 64" using uint_lt2p [of "ot_expires_in r"] by simp
  then have "wrap_i64 (uint (ot_expires_in r)) = ?l" using assms(5) by (intro wrap_i64_high) simp_all
  moreover have "i64 (now + ?l)" using assms(1,2,5) u by (simp add: i64_def)
  ultimately have exp: "exp = now + ?l" using assms(6) by (simp add: acquire_token_def)
  have "i64 (now + ?l - threshold_secs c)" "i64 (now + ?l - threshold_secs c - 30)" "i64 (now + ?l - threshold_secs c - 30 - now)"
    "i64 (now + ?l - (now + 1))" "i64 (threshold_secs c + 30)"
    using assms u by (simp_all add: i64_def)
  then show ?thesis
    using assms u by (simp add: exp polled_def sleep_secs_def needs_refresh_def CLOCK_DRIFT_MARGIN_SECS_def Let_def)
qed

section \<open>Starting the task\<close>

text \<open>The start succeeds with the first token, whatever failed before it, and only an empty token makes it fail.\<close>

lemma first_token_sent: "first_token as = (case sent as of [] \<Rightarrow> None | t # _ \<Rightarrow> Some t)"
  by (induction "as" rule: first_token.induct) simp_all

lemma spawn_returns:
  "spawn_token_manager (Ok ()) c es = (case sent (token_refresh_loop c es refresh_init) of [] \<Rightarrow> None
     | t # _ \<Rightarrow> Some (if t = [] then Err (AcquisitionFailed ''Token is empty after acquisition'') else Ok t))"
  by (simp add: spawn_token_manager_def first_token_sent split: list.splits)

lemma secure_config: "token_config_new_secure url cid secret = Ok c \<Longrightarrow> starts_with ''https://'' (tc_ac_endpoint c)"
  by (auto simp: token_config_new_secure_def token_config_new_def split: if_splits)

end
