(* ===== verification/Service_Config.thy ===== *)
theory Service_Config
  imports AC_Keys
begin

text \<open>
  The configurations of the four services, read from environment variables (\<open>config.rs\<close> of ac-service, gc-service,
  mc-service and mh-service): required variables, defaults, numbers as \<open>str::parse\<close> reads them, and the bounds the
  controllers enforce.  The file system, the host name, fresh UUIDs and base64 are parameters; logged warnings other than the
  one about the database's TLS mode are left out.
\<close>

section \<open>Reading variables\<close>

text \<open>\<open>vars\<close> are the variables of the environment; \<open>and_then\<close> is the operator \<open>?\<close>.\<close>

type_synonym vars = "string \<Rightarrow> string option"

definition and_then :: "('a, 'e) result \<Rightarrow> ('a \<Rightarrow> ('b, 'e) result) \<Rightarrow> ('b, 'e) result" where
  "and_then r f = (case r of Inl e \<Rightarrow> Err e | Inr a \<Rightarrow> f a)"

lemma and_then_simps [simp]: "and_then (Err e) f = Err e" "and_then (Ok a) f = f a"
  by (simp_all add: and_then_def)

lemma and_then_Ok [simp]: "and_then r f = Ok b \<longleftrightarrow> (\<exists>a. r = Ok a \<and> f a = Ok b)"
  by (cases r) simp_all

definition var_or :: "string \<Rightarrow> string option \<Rightarrow> string" where
  "var_or d v = (case v of None \<Rightarrow> d | Some s \<Rightarrow> s)"

text \<open>
  \<open>str::parse\<close> for an integer type from \<open>lo\<close> to \<open>hi\<close>: the digits are taken one by one, so that the first bad one or the first
  overflow decides the error.  A minus sign is a sign only for a signed type.
\<close>

fun parse_int_digits :: "int \<Rightarrow> int \<Rightarrow> bool \<Rightarrow> int \<Rightarrow> string \<Rightarrow> (int, string) result" where
  "parse_int_digits lo hi neg acc [] = Ok acc"
| "parse_int_digits lo hi neg acc (ch # cs) =
     (case digit_value ch of
        None \<Rightarrow> Err ''invalid digit found in string''
      | Some d \<Rightarrow>
          (let n = (if neg then 10 * acc - int d else 10 * acc + int d)
           in if n < lo then Err ''number too small to fit in target type''
              else if hi < n then Err ''number too large to fit in target type''
              else parse_int_digits lo hi neg n cs))"

definition parse_int :: "int \<Rightarrow> int \<Rightarrow> string \<Rightarrow> (int, string) result" where
  "parse_int lo hi s =
     (if s = [] then Err ''cannot parse integer from empty string''
      else if s = ''+'' \<or> s = ''-'' then Err ''invalid digit found in string''
      else if hd s = CHR ''+'' then parse_int_digits lo hi False 0 (tl s)
      else if hd s = CHR ''-'' \<and> lo < 0 then parse_int_digits lo hi True 0 (tl s)
      else parse_int_digits lo hi False 0 s)"

definition parse_i64 :: "string \<Rightarrow> (int, string) result" where "parse_i64 = parse_int (- (2 ^ 63)) (2 ^ 63 - 1)"
definition parse_u32 :: "string \<Rightarrow> (int, string) result" where "parse_u32 = parse_int 0 (2 ^ 32 - 1)"
definition parse_u64 :: "string \<Rightarrow> (int, string) result" where "parse_u64 = parse_int 0 (2 ^ 64 - 1)"

text \<open>\<open>and_then(|s| s.parse().ok()).unwrap_or(default)\<close>.\<close>

definition parsed_or :: "(string \<Rightarrow> (int, string) result) \<Rightarrow> int \<Rightarrow> string option \<Rightarrow> int" where
  "parsed_or parse d v = (case v of None \<Rightarrow> d | Some s \<Rightarrow> (case parse s of Inl _ \<Rightarrow> d | Inr n \<Rightarrow> n))"

text \<open>The name of an instance that is not given: prefix, host and the first eight characters of a fresh UUID.\<close>

definition generated_id :: "string \<Rightarrow> string option \<Rightarrow> string \<Rightarrow> string" where
  "generated_id prefix hostname uuid =
     prefix @ ''-'' @ var_or ''unknown'' hostname @ ''-'' @ (if length uuid < 8 then ''00000000'' else take 8 uuid)"

datatype ConfigError = MissingEnvVar string | InvalidValue string | InvalidMasterKey string | InvalidHashSecret string
  | Base64Error string | InvalidJwtClockSkew string | InvalidBcryptCost string | InvalidRateLimitConfig string
  | InvalidRateLimit string | InvalidMcStalenessThreshold string

definition required :: "vars \<Rightarrow> string \<Rightarrow> (string, ConfigError) result" where
  "required vars name = (case vars name of None \<Rightarrow> Err (MissingEnvVar name) | Some s \<Rightarrow> Ok s)"

definition DEFAULT_CLOCK_SKEW :: int where "DEFAULT_CLOCK_SKEW = 300"

section \<open>The Meeting Controller\<close>

record McConfig =
  mg_redis_url :: string
  mg_webtransport_bind_address :: string
  mg_grpc_bind_address :: string
  mg_health_bind_address :: string
  mg_region :: string
  mg_gc_grpc_url :: string
  mg_mc_id :: string
  mg_max_meetings :: int
  mg_max_participants :: int
  mg_binding_token_ttl_seconds :: int
  mg_clock_skew_seconds :: int
  mg_nonce_grace_window_seconds :: int
  mg_disconnect_grace_period_seconds :: int
  mg_binding_token_secret :: string
  mg_ac_endpoint :: string
  mg_client_id :: string
  mg_client_secret :: string
  mg_ac_jwks_url :: string
  mg_tls_cert_path :: string
  mg_tls_key_path :: string
  mg_grpc_advertise_address :: string
  mg_webtransport_advertise_address :: string

text \<open>What both media services check: the scheme of the URL of the keys, and that the certificate and its key exist.\<close>

definition check_jwks_url :: "string \<Rightarrow> (unit, ConfigError) result" where
  "check_jwks_url url =
     (if \<not> starts_with ''http://'' url \<and> \<not> starts_with ''https://'' url
      then Err (InvalidValue ''AC_JWKS_URL must start with http:// or https://'') else Ok ())"

definition check_file :: "(string \<Rightarrow> bool) \<Rightarrow> string \<Rightarrow> string \<Rightarrow> (unit, ConfigError) result" where
  "check_file path_exists name path =
     (if \<not> path_exists path then Err (InvalidValue (name @ '' file does not exist: '' @ path)) else Ok ())"

definition mc_config_from_vars ::
  "(string \<Rightarrow> bool) \<Rightarrow> string option \<Rightarrow> string \<Rightarrow> vars \<Rightarrow> (McConfig, ConfigError) result" where
  "mc_config_from_vars path_exists hostname uuid vars =
     and_then (required vars ''REDIS_URL'') (\<lambda>redis_url.
     and_then (required vars ''MC_BINDING_TOKEN_SECRET'') (\<lambda>binding_token_secret.
     and_then (required vars ''AC_ENDPOINT'') (\<lambda>ac_endpoint.
     and_then (required vars ''MC_CLIENT_ID'') (\<lambda>client_id.
     and_then (required vars ''MC_CLIENT_SECRET'') (\<lambda>client_secret.
     and_then (required vars ''AC_JWKS_URL'') (\<lambda>ac_jwks_url.
     and_then (check_jwks_url ac_jwks_url) (\<lambda>_.
     and_then (required vars ''MC_TLS_CERT_PATH'') (\<lambda>tls_cert_path.
     and_then (required vars ''MC_TLS_KEY_PATH'') (\<lambda>tls_key_path.
     and_then (check_file path_exists ''MC_TLS_CERT_PATH'' tls_cert_path) (\<lambda>_.
     and_then (check_file path_exists ''MC_TLS_KEY_PATH'' tls_key_path) (\<lambda>_.
     and_then (required vars ''MC_GRPC_ADVERTISE_ADDRESS'') (\<lambda>grpc_advertise_address.
     and_then (required vars ''MC_WEBTRANSPORT_ADVERTISE_ADDRESS'') (\<lambda>webtransport_advertise_address.
       Ok \<lparr>mg_redis_url = redis_url,
           mg_webtransport_bind_address = var_or ''0.0.0.0:4433'' (vars ''MC_WEBTRANSPORT_BIND_ADDRESS''),
           mg_grpc_bind_address = var_or ''0.0.0.0:50052'' (vars ''MC_GRPC_BIND_ADDRESS''),
           mg_health_bind_address = var_or ''0.0.0.0:8081'' (vars ''MC_HEALTH_BIND_ADDRESS''),
           mg_region = var_or ''us-east-1'' (vars ''MC_REGION''),
           mg_gc_grpc_url = var_or ''http://localhost:50051'' (vars ''GC_GRPC_URL''),
           mg_mc_id = var_or (generated_id ''mc'' hostname uuid) (vars ''MC_ID''),
           mg_max_meetings = parsed_or parse_u32 1000 (vars ''MC_MAX_MEETINGS''),
           mg_max_participants = parsed_or parse_u32 10000 (vars ''MC_MAX_PARTICIPANTS''),
           mg_binding_token_ttl_seconds = parsed_or parse_u64 30 (vars ''MC_BINDING_TOKEN_TTL_SECONDS''),
           mg_clock_skew_seconds = parsed_or parse_u64 5 (vars ''MC_CLOCK_SKEW_SECONDS''),
           mg_nonce_grace_window_seconds = parsed_or parse_u64 5 (vars ''MC_NONCE_GRACE_WINDOW_SECONDS''),
           mg_disconnect_grace_period_seconds = parsed_or parse_u64 30 (vars ''MC_DISCONNECT_GRACE_PERIOD_SECONDS''),
           mg_binding_token_secret = binding_token_secret, mg_ac_endpoint = ac_endpoint, mg_client_id = client_id,
           mg_client_secret = client_secret, mg_ac_jwks_url = ac_jwks_url, mg_tls_cert_path = tls_cert_path,
           mg_tls_key_path = tls_key_path, mg_grpc_advertise_address = grpc_advertise_address,
           mg_webtransport_advertise_address = webtransport_advertise_address\<rparr>)))))))))))))"

section \<open>The Media Handler\<close>

record MhConfig =
  hg_grpc_bind_address :: string
  hg_health_bind_address :: string
  hg_webtransport_bind_address :: string
  hg_region :: string
  hg_gc_grpc_url :: string
  hg_handler_id :: string
  hg_max_streams :: int
  hg_ac_endpoint :: string
  hg_client_id :: string
  hg_client_secret :: string
  hg_tls_cert_path :: string
  hg_tls_key_path :: string
  hg_grpc_advertise_address :: string
  hg_webtransport_advertise_address :: string
  hg_ac_jwks_url :: string
  hg_register_meeting_timeout_seconds :: int
  hg_max_connections :: int

definition MAX_REGISTER_MEETING_TIMEOUT_SECONDS :: int where "MAX_REGISTER_MEETING_TIMEOUT_SECONDS = 300"

definition mh_config_from_vars ::
  "(string \<Rightarrow> bool) \<Rightarrow> string option \<Rightarrow> string \<Rightarrow> vars \<Rightarrow> (MhConfig, ConfigError) result" where
  "mh_config_from_vars path_exists hostname uuid vars =
     and_then (required vars ''AC_ENDPOINT'') (\<lambda>ac_endpoint.
     and_then (required vars ''MH_CLIENT_ID'') (\<lambda>client_id.
     and_then (required vars ''MH_CLIENT_SECRET'') (\<lambda>client_secret.
     and_then (required vars ''MH_TLS_CERT_PATH'') (\<lambda>tls_cert_path.
     and_then (required vars ''MH_TLS_KEY_PATH'') (\<lambda>tls_key_path.
     and_then (check_file path_exists ''MH_TLS_CERT_PATH'' tls_cert_path) (\<lambda>_.
     and_then (check_file path_exists ''MH_TLS_KEY_PATH'' tls_key_path) (\<lambda>_.
     and_then (required vars ''MH_GRPC_ADVERTISE_ADDRESS'') (\<lambda>grpc_advertise_address.
     and_then (required vars ''MH_WEBTRANSPORT_ADVERTISE_ADDRESS'') (\<lambda>webtransport_advertise_address.
     and_then (required vars ''AC_JWKS_URL'') (\<lambda>ac_jwks_url.
     and_then (check_jwks_url ac_jwks_url) (\<lambda>_.
       Ok \<lparr>hg_grpc_bind_address = var_or ''0.0.0.0:50053'' (vars ''MH_GRPC_BIND_ADDRESS''),
           hg_health_bind_address = var_or ''0.0.0.0:8083'' (vars ''MH_HEALTH_BIND_ADDRESS''),
           hg_webtransport_bind_address = var_or ''0.0.0.0:4434'' (vars ''MH_WEBTRANSPORT_BIND_ADDRESS''),
           hg_region = var_or ''us-east-1'' (vars ''MH_REGION''),
           hg_gc_grpc_url = var_or ''http://localhost:50051'' (vars ''GC_GRPC_URL''),
           hg_handler_id = var_or (generated_id ''mh'' hostname uuid) (vars ''MH_HANDLER_ID''),
           hg_max_streams = parsed_or parse_u32 1000 (vars ''MH_MAX_STREAMS''),
           hg_ac_endpoint = ac_endpoint, hg_client_id = client_id, hg_client_secret = client_secret,
           hg_tls_cert_path = tls_cert_path, hg_tls_key_path = tls_key_path,
           hg_grpc_advertise_address = grpc_advertise_address,
           hg_webtransport_advertise_address = webtransport_advertise_address, hg_ac_jwks_url = ac_jwks_url,
           hg_register_meeting_timeout_seconds =
             min (parsed_or parse_u64 15 (vars ''MH_REGISTER_MEETING_TIMEOUT_SECONDS'')) MAX_REGISTER_MEETING_TIMEOUT_SECONDS,
           hg_max_connections = parsed_or parse_u64 10000 (vars ''MH_MAX_CONNECTIONS'')\<rparr>)))))))))))"

section \<open>The Global Controller\<close>

record GcConfig =
  cg_database_url :: string
  cg_bind_address :: string
  cg_region :: string
  cg_ac_jwks_url :: string
  cg_ac_internal_url :: string
  cg_jwt_clock_skew_seconds :: int
  cg_rate_limit_rpm :: int
  cg_grpc_bind_address :: string
  cg_mc_staleness_threshold_seconds :: int
  cg_gc_id :: string
  cg_gc_client_id :: string
  cg_gc_client_secret :: string

text \<open>A number that must be positive; \<open>what\<close> is how the error names the type.\<close>

definition positive_var ::
  "(string \<Rightarrow> ConfigError) \<Rightarrow> (string \<Rightarrow> (int, string) result) \<Rightarrow> string \<Rightarrow> int \<Rightarrow> vars \<Rightarrow> (int, ConfigError) result" where
  "positive_var err parse name d vars =
     (case vars name of
        None \<Rightarrow> Ok d
      | Some s \<Rightarrow>
          (case parse s of
             Inl e \<Rightarrow> Err (err (name @ '' must be a valid positive integer, got '' @ [CHR 0x27] @ s @ [CHR 0x27] @ '': '' @ e))
           | Inr value \<Rightarrow> if value = 0 then Err (err (name @ '' must be greater than 0'')) else Ok value))"

text \<open>The tolerance of clocks; \<open>unit\<close> is what the Auth Controller adds to its message.\<close>

definition clock_skew_var :: "string \<Rightarrow> vars \<Rightarrow> (int, ConfigError) result" where
  "clock_skew_var unit vars =
     (case vars ''JWT_CLOCK_SKEW_SECONDS'' of
        None \<Rightarrow> Ok DEFAULT_CLOCK_SKEW
      | Some s \<Rightarrow>
          (case parse_i64 s of
             Inl e \<Rightarrow> Err (InvalidJwtClockSkew
               (''JWT_CLOCK_SKEW_SECONDS must be a valid integer, got '' @ [CHR 0x27] @ s @ [CHR 0x27] @ '': '' @ e))
           | Inr value \<Rightarrow>
               if value \<le> 0 then Err (InvalidJwtClockSkew (''JWT_CLOCK_SKEW_SECONDS must be positive, got '' @ show_int value))
               else if value > MAX_CLOCK_SKEW
               then Err (InvalidJwtClockSkew
                 (''JWT_CLOCK_SKEW_SECONDS must not exceed '' @ show_int MAX_CLOCK_SKEW @ '' seconds'' @ unit @ '', got '' @ show_int value))
               else Ok value))"

definition gc_config_from_vars :: "string option \<Rightarrow> string \<Rightarrow> vars \<Rightarrow> (GcConfig, ConfigError) result" where
  "gc_config_from_vars hostname uuid vars =
     and_then (required vars ''DATABASE_URL'') (\<lambda>database_url.
     and_then (clock_skew_var [] vars) (\<lambda>jwt_clock_skew_seconds.
     and_then (positive_var InvalidRateLimit parse_u32 ''RATE_LIMIT_RPM'' 100 vars) (\<lambda>rate_limit_rpm.
     and_then (positive_var InvalidMcStalenessThreshold parse_u64 ''MC_STALENESS_THRESHOLD_SECONDS'' 30 vars)
       (\<lambda>mc_staleness_threshold_seconds.
     and_then (required vars ''GC_CLIENT_ID'') (\<lambda>gc_client_id.
     and_then (required vars ''GC_CLIENT_SECRET'') (\<lambda>gc_client_secret.
       Ok \<lparr>cg_database_url = database_url, cg_bind_address = var_or ''0.0.0.0:8080'' (vars ''BIND_ADDRESS''),
           cg_region = var_or ''us-east-1'' (vars ''GC_REGION''),
           cg_ac_jwks_url = var_or ''http://localhost:8082/.well-known/jwks.json'' (vars ''AC_JWKS_URL''),
           cg_ac_internal_url = var_or ''http://localhost:8082'' (vars ''AC_INTERNAL_URL''),
           cg_jwt_clock_skew_seconds = jwt_clock_skew_seconds, cg_rate_limit_rpm = rate_limit_rpm,
           cg_grpc_bind_address = var_or ''0.0.0.0:50051'' (vars ''GC_GRPC_BIND_ADDRESS''),
           cg_mc_staleness_threshold_seconds = mc_staleness_threshold_seconds,
           cg_gc_id = var_or (generated_id ''gc'' hostname uuid) (vars ''GC_ID''),
           cg_gc_client_id = gc_client_id, cg_gc_client_secret = gc_client_secret\<rparr>))))))"

section \<open>The Auth Controller\<close>

record AcConfig =
  ag_database_url :: string
  ag_bind_address :: string
  ag_master_key :: "u8 list"
  ag_hash_secret :: "u8 list"
  ag_otlp_endpoint :: "string option"
  ag_jwt_clock_skew_seconds :: int
  ag_bcrypt_cost :: int
  ag_rate_limit_window_minutes :: int
  ag_rate_limit_max_attempts :: int
  ag_registration_rate_limit_window_minutes :: int
  ag_registration_rate_limit_max_attempts :: int

definition DEFAULT_BCRYPT_COST :: int where "DEFAULT_BCRYPT_COST = 12"

definition parse_rate_limit_i64 :: "vars \<Rightarrow> string \<Rightarrow> int \<Rightarrow> int \<Rightarrow> int \<Rightarrow> (int, ConfigError) result" where
  "parse_rate_limit_i64 vars env_var d lo hi =
     (case vars env_var of
        None \<Rightarrow> Ok d
      | Some s \<Rightarrow>
          (case parse_i64 s of
             Inl e \<Rightarrow> Err (InvalidRateLimitConfig (env_var @ '' must be a valid integer, got '' @ [CHR 0x27] @ s @ [CHR 0x27] @ '': '' @ e))
           | Inr v \<Rightarrow>
               if v < lo then Err (InvalidRateLimitConfig (env_var @ '' must be at least '' @ show_int lo @ '', got '' @ show_int v))
               else if v > hi then Err (InvalidRateLimitConfig (env_var @ '' must not exceed '' @ show_int hi @ '', got '' @ show_int v))
               else Ok v))"

definition bcrypt_cost_var :: "vars \<Rightarrow> (int, ConfigError) result" where
  "bcrypt_cost_var vars =
     (case vars ''BCRYPT_COST'' of
        None \<Rightarrow> Ok DEFAULT_BCRYPT_COST
      | Some s \<Rightarrow>
          (case parse_u32 s of
             Inl e \<Rightarrow> Err (InvalidBcryptCost (''BCRYPT_COST must be a valid positive integer, got '' @ [CHR 0x27] @ s @ [CHR 0x27] @ '': '' @ e))
           | Inr value \<Rightarrow>
               if value < int MIN_BCRYPT_COST
               then Err (InvalidBcryptCost (''BCRYPT_COST must be at least '' @ show_nat MIN_BCRYPT_COST
                      @ '' (OWASP 2024 security floor), got '' @ show_int value))
               else if value > int MAX_BCRYPT_COST
               then Err (InvalidBcryptCost (''BCRYPT_COST must not exceed '' @ show_nat MAX_BCRYPT_COST
                      @ '' (prevents excessive latency), got '' @ show_int value))
               else Ok value))"

text \<open>\<open>b64\<close> is the decoder of standard base64.\<close>

definition hash_secret_var :: "(string \<Rightarrow> (u8 list, string) result) \<Rightarrow> vars \<Rightarrow> (u8 list, ConfigError) result" where
  "hash_secret_var b64 vars =
     (case vars ''AC_HASH_SECRET'' of
        None \<Rightarrow> Ok (replicate 32 0)
      | Some s \<Rightarrow>
          (case b64 s of
             Inl e \<Rightarrow> Err (Base64Error e)
           | Inr secret \<Rightarrow>
               if length secret < 32
               then Err (InvalidHashSecret (''Expected at least 32 bytes, got '' @ show_nat (length secret))) else Ok secret))"

definition master_key_var :: "(string \<Rightarrow> (u8 list, string) result) \<Rightarrow> vars \<Rightarrow> (u8 list, ConfigError) result" where
  "master_key_var b64 vars =
     and_then (required vars ''AC_MASTER_KEY'') (\<lambda>s.
       case b64 s of
         Inl e \<Rightarrow> Err (Base64Error e)
       | Inr master_key \<Rightarrow>
           if length master_key \<noteq> 32 then Err (InvalidMasterKey (''Expected 32 bytes, got '' @ show_nat (length master_key)))
           else Ok master_key)"

definition ac_config_from_vars :: "(string \<Rightarrow> (u8 list, string) result) \<Rightarrow> vars \<Rightarrow> (AcConfig, ConfigError) result" where
  "ac_config_from_vars b64 vars =
     and_then (required vars ''DATABASE_URL'') (\<lambda>database_url.
     and_then (master_key_var b64 vars) (\<lambda>master_key.
     and_then (hash_secret_var b64 vars) (\<lambda>hash_secret.
     and_then (clock_skew_var '' (10 minutes)'' vars) (\<lambda>jwt_clock_skew_seconds.
     and_then (bcrypt_cost_var vars) (\<lambda>bcrypt_cost.
     and_then (parse_rate_limit_i64 vars ''AC_RATE_LIMIT_WINDOW_MINUTES'' 15 1 60) (\<lambda>rate_limit_window_minutes.
     and_then (parse_rate_limit_i64 vars ''AC_RATE_LIMIT_MAX_ATTEMPTS'' 5 1 100) (\<lambda>rate_limit_max_attempts.
     and_then (parse_rate_limit_i64 vars ''AC_REGISTRATION_RATE_LIMIT_WINDOW_MINUTES'' 60 1 1440)
       (\<lambda>registration_rate_limit_window_minutes.
     and_then (parse_rate_limit_i64 vars ''AC_REGISTRATION_RATE_LIMIT_MAX_ATTEMPTS'' 5 1 100)
       (\<lambda>registration_rate_limit_max_attempts.
       Ok \<lparr>ag_database_url = database_url, ag_bind_address = var_or ''0.0.0.0:8082'' (vars ''BIND_ADDRESS''),
           ag_master_key = master_key, ag_hash_secret = hash_secret, ag_otlp_endpoint = vars ''OTLP_ENDPOINT'',
           ag_jwt_clock_skew_seconds = jwt_clock_skew_seconds, ag_bcrypt_cost = bcrypt_cost,
           ag_rate_limit_window_minutes = rate_limit_window_minutes, ag_rate_limit_max_attempts = rate_limit_max_attempts,
           ag_registration_rate_limit_window_minutes = registration_rate_limit_window_minutes,
           ag_registration_rate_limit_max_attempts = registration_rate_limit_max_attempts\<rparr>)))))))))"

text \<open>The warning about the encryption of the connection to the database.\<close>

datatype tls_warning = NoSslMode | WeakSslMode

fun contains :: "string \<Rightarrow> string \<Rightarrow> bool" where
  "contains pat [] = (pat = [])"
| "contains pat (c # cs) \<longleftrightarrow> starts_with pat (c # cs) \<or> contains pat cs"

definition validate_tls_config :: "string \<Rightarrow> tls_warning option" where
  "validate_tls_config database_url =
     (if \<not> contains ''sslmode='' database_url then Some NoSslMode
      else if \<not> contains ''sslmode=verify-full'' database_url then Some WeakSslMode
      else None)"

section \<open>Numbers\<close>

lemma parse_int_digits_range:
  "parse_int_digits lo hi neg acc cs = Ok n \<Longrightarrow> lo \<le> acc \<Longrightarrow> acc \<le> hi \<Longrightarrow> lo \<le> n \<and> n \<le> hi"
  by (induction cs arbitrary: acc) (auto simp: Let_def split: option.splits if_splits)

lemma parse_int_range: "parse_int lo hi s = Ok n \<Longrightarrow> lo \<le> 0 \<Longrightarrow> 0 \<le> hi \<Longrightarrow> lo \<le> n \<and> n \<le> hi"
  by (auto simp: parse_int_def split: if_splits dest!: parse_int_digits_range)

lemma parse_i64_range: "parse_i64 s = Ok n \<Longrightarrow> - (2 ^ 63) \<le> n \<and> n < 2 ^ 63"
  using parse_int_range [of "- (2 ^ 63)" "2 ^ 63 - 1" s n] by (simp add: parse_i64_def)

lemma parse_u32_range: "parse_u32 s = Ok n \<Longrightarrow> 0 \<le> n \<and> n < 2 ^ 32"
  using parse_int_range [of 0 "2 ^ 32 - 1" s n] by (simp add: parse_u32_def)

lemma parse_u64_range: "parse_u64 s = Ok n \<Longrightarrow> 0 \<le> n \<and> n < 2 ^ 64"
  using parse_int_range [of 0 "2 ^ 64 - 1" s n] by (simp add: parse_u64_def)

lemma parse_digits_mono: "parse_digits acc cs = Some n \<Longrightarrow> acc \<le> n"
proof (induction cs arbitrary: acc)
  case (Cons c cs)
  then show ?case by (fastforce split: option.splits)
qed simp

text \<open>The parser agrees with reading the digits as a natural number, for a number of either sign.\<close>

lemma parse_int_digits_pos:
  "parse_digits acc cs = Some n \<Longrightarrow> lo \<le> 0 \<Longrightarrow> int n \<le> hi \<Longrightarrow> parse_int_digits lo hi False (int acc) cs = Ok (int n)"
proof (induction cs arbitrary: acc)
  case (Cons c cs)
  then obtain d where d: "digit_value c = Some d" "parse_digits (10 * acc + d) cs = Some n" by (auto split: option.splits)
  then have "10 * acc + d \<le> n" by (simp add: parse_digits_mono)
  moreover have "parse_int_digits lo hi False (int (10 * acc + d)) cs = Ok (int n)" using Cons d(2) by blast
  ultimately show ?case using Cons.prems d(1) by simp
qed simp

lemma parse_int_digits_neg:
  "parse_digits acc cs = Some n \<Longrightarrow> 0 \<le> hi \<Longrightarrow> lo \<le> - int n \<Longrightarrow> parse_int_digits lo hi True (- int acc) cs = Ok (- int n)"
proof (induction cs arbitrary: acc)
  case (Cons c cs)
  then obtain d where d: "digit_value c = Some d" "parse_digits (10 * acc + d) cs = Some n" by (auto split: option.splits)
  then have "10 * acc + d \<le> n" by (simp add: parse_digits_mono)
  moreover have "parse_int_digits lo hi True (- int (10 * acc + d)) cs = Ok (- int n)" using Cons d(2) by blast
  moreover have "- int (10 * acc + d) = 10 * (- int acc) - int d" by simp
  ultimately show ?case using Cons.prems d(1) by simp
qed simp

lemma show_nat_no_sign: "hd (show_nat n) \<noteq> CHR ''+'' \<and> hd (show_nat n) \<noteq> CHR ''-''"
proof -
  obtain d ds where s: "show_nat n = ''0123456789'' ! d # ds" "d < 10" using show_nat_head by blast
  have "digit_value (''0123456789'' ! d) = Some d" using digit_value_digit [OF s(2)] .
  moreover have "digit_value (CHR ''+'') = None" "digit_value (CHR ''-'') = None" by code_simp+
  ultimately show ?thesis using s(1) by auto
qed

lemma parse_show_int:
  assumes "lo \<le> n" "n \<le> hi" "lo \<le> 0" "0 \<le> hi"
  shows "parse_int lo hi (show_int n) = Ok n"
proof (cases "n < 0")
  case True
  then have "show_int n = CHR ''-'' # show_nat (nat (- n))" "lo < 0" using assms(1) by (simp_all add: show_int_def)
  then show ?thesis
    using parse_int_digits_neg [OF parse_show [of "nat (- n)"], of hi lo] assms True by (simp add: parse_int_def)
next
  case False
  then have s: "show_int n = show_nat (nat n)" by (simp add: show_int_def)
  have "show_nat (nat n) \<notin> {''+'', ''-''}" using show_nat_no_sign [of "nat n"] by auto
  then show ?thesis
    using parse_int_digits_pos [OF parse_show [of "nat n"], of lo hi] show_nat_no_sign [of "nat n"] assms False
    by (simp add: s parse_int_def)
qed

section \<open>What a loaded configuration guarantees\<close>

lemma required_Ok [simp]: "required vars name = Ok s \<longleftrightarrow> vars name = Some s"
  by (simp add: required_def split: option.splits)

lemma check_jwks_url_Ok: "check_jwks_url url = Ok u \<longleftrightarrow> starts_with ''http://'' url \<or> starts_with ''https://'' url"
  by (simp add: check_jwks_url_def)

lemma check_file_Ok: "check_file path_exists name path = Ok u \<longleftrightarrow> path_exists path"
  by (simp add: check_file_def)

lemma clock_skew_bounds: "clock_skew_var unit vars = Ok n \<Longrightarrow> 1 \<le> n \<and> n \<le> 600"
  by (auto simp: clock_skew_var_def DEFAULT_CLOCK_SKEW_def MAX_CLOCK_SKEW_def split: option.splits sum.splits if_splits)

lemma rate_limit_bounds: "parse_rate_limit_i64 vars name d lo hi = Ok n \<Longrightarrow> lo \<le> d \<Longrightarrow> d \<le> hi \<Longrightarrow> lo \<le> n \<and> n \<le> hi"
  by (auto simp: parse_rate_limit_i64_def split: option.splits sum.splits if_splits)

lemma bcrypt_cost_bounds: "bcrypt_cost_var vars = Ok n \<Longrightarrow> 10 \<le> n \<and> n \<le> 14"
  by (auto simp: bcrypt_cost_var_def DEFAULT_BCRYPT_COST_def MIN_BCRYPT_COST_def MAX_BCRYPT_COST_def
      split: option.splits sum.splits if_splits)

lemma master_key_length: "master_key_var b64 vars = Ok mk \<Longrightarrow> length mk = 32"
  by (cases "vars ''AC_MASTER_KEY''"; cases "b64 (the (vars ''AC_MASTER_KEY''))")
    (auto simp: master_key_var_def required_def split: if_splits)

lemma positive_var_bounds:
  assumes "positive_var err parse name d vars = Ok n" "\<And>s n. parse s = Ok n \<Longrightarrow> 0 \<le> n \<and> n < hi" "0 < d" "d < hi"
  shows "0 < n \<and> n < hi"
  using assms(1,3,4) assms(2) [of "the (vars name)" n] by (auto simp: positive_var_def split: option.splits sum.splits if_splits)

lemma parsed_or_bounds:
  assumes "\<And>s n. parse s = Ok n \<Longrightarrow> 0 \<le> n \<and> n < hi" "0 \<le> d" "d < hi"
  shows "0 \<le> parsed_or parse d v" "parsed_or parse d v < hi"
  using assms by (auto simp: parsed_or_def split: option.splits sum.splits dest!: assms(1))

definition ac_config_ok :: "AcConfig \<Rightarrow> bool" where
  "ac_config_ok c \<longleftrightarrow> length (ag_master_key c) = 32 \<and> 32 \<le> length (ag_hash_secret c)
     \<and> ag_jwt_clock_skew_seconds c \<in> {1..600} \<and> ag_bcrypt_cost c \<in> {10..14}
     \<and> ag_rate_limit_window_minutes c \<in> {1..60} \<and> ag_rate_limit_max_attempts c \<in> {1..100}
     \<and> ag_registration_rate_limit_window_minutes c \<in> {1..1440} \<and> ag_registration_rate_limit_max_attempts c \<in> {1..100}"

definition gc_config_ok :: "GcConfig \<Rightarrow> bool" where
  "gc_config_ok c \<longleftrightarrow> cg_jwt_clock_skew_seconds c \<in> {1..600} \<and> cg_rate_limit_rpm c \<in> {1..<2 ^ 32}
     \<and> cg_mc_staleness_threshold_seconds c \<in> {1..<2 ^ 64}"

lemma ac_config_bounded: "ac_config_from_vars b64 vars = Ok c \<Longrightarrow> ac_config_ok c"
proof -
  assume "ac_config_from_vars b64 vars = Ok c"
  then obtain mk hs skew cost w1 a1 w2 a2 where v:
    "master_key_var b64 vars = Ok mk" "hash_secret_var b64 vars = Ok hs" "clock_skew_var '' (10 minutes)'' vars = Ok skew"
    "bcrypt_cost_var vars = Ok cost" "parse_rate_limit_i64 vars ''AC_RATE_LIMIT_WINDOW_MINUTES'' 15 1 60 = Ok w1"
    "parse_rate_limit_i64 vars ''AC_RATE_LIMIT_MAX_ATTEMPTS'' 5 1 100 = Ok a1"
    "parse_rate_limit_i64 vars ''AC_REGISTRATION_RATE_LIMIT_WINDOW_MINUTES'' 60 1 1440 = Ok w2"
    "parse_rate_limit_i64 vars ''AC_REGISTRATION_RATE_LIMIT_MAX_ATTEMPTS'' 5 1 100 = Ok a2"
    and c: "ag_master_key c = mk" "ag_hash_secret c = hs" "ag_jwt_clock_skew_seconds c = skew" "ag_bcrypt_cost c = cost"
      "ag_rate_limit_window_minutes c = w1" "ag_rate_limit_max_attempts c = a1"
      "ag_registration_rate_limit_window_minutes c = w2" "ag_registration_rate_limit_max_attempts c = a2"
    unfolding ac_config_from_vars_def by auto
  have "length mk = 32" using v(1) by (rule master_key_length)
  moreover have "32 \<le> length hs" using v(2) by (auto simp: hash_secret_var_def split: option.splits sum.splits if_splits)
  ultimately show ?thesis
    using clock_skew_bounds [OF v(3)] bcrypt_cost_bounds [OF v(4)] rate_limit_bounds [OF v(5)] rate_limit_bounds [OF v(6)]
      rate_limit_bounds [OF v(7)] rate_limit_bounds [OF v(8)]
    by (simp add: ac_config_ok_def c)
qed

lemma gc_config_bounded: "gc_config_from_vars hostname uuid vars = Ok c \<Longrightarrow> gc_config_ok c"
proof -
  assume "gc_config_from_vars hostname uuid vars = Ok c"
  then obtain skew rate stale where v: "clock_skew_var [] vars = Ok skew"
    "positive_var InvalidRateLimit parse_u32 ''RATE_LIMIT_RPM'' 100 vars = Ok rate"
    "positive_var InvalidMcStalenessThreshold parse_u64 ''MC_STALENESS_THRESHOLD_SECONDS'' 30 vars = Ok stale"
    and c: "cg_jwt_clock_skew_seconds c = skew" "cg_rate_limit_rpm c = rate" "cg_mc_staleness_threshold_seconds c = stale"
    unfolding gc_config_from_vars_def by auto
  show ?thesis
    using clock_skew_bounds [OF v(1)] positive_var_bounds [OF v(2), of "2 ^ 32"] positive_var_bounds [OF v(3), of "2 ^ 64"]
      parse_u32_range parse_u64_range
    by (simp add: gc_config_ok_def c)
qed

lemma mh_config_bounded:
  assumes "mh_config_from_vars path_exists hostname uuid vars = Ok c"
  shows "hg_max_streams c \<in> {0..<2 ^ 32} \<and> hg_register_meeting_timeout_seconds c \<in> {0..300} \<and> hg_max_connections c \<in> {0..<2 ^ 64}"
  using assms parsed_or_bounds [of parse_u32 "2 ^ 32" 1000 "vars ''MH_MAX_STREAMS''"]
    parsed_or_bounds [of parse_u64 "2 ^ 64" 15 "vars ''MH_REGISTER_MEETING_TIMEOUT_SECONDS''"]
    parsed_or_bounds [of parse_u64 "2 ^ 64" 10000 "vars ''MH_MAX_CONNECTIONS''"] parse_u32_range parse_u64_range
  by (auto simp: mh_config_from_vars_def MAX_REGISTER_MEETING_TIMEOUT_SECONDS_def)

lemma mc_config_bounded:
  assumes "mc_config_from_vars path_exists hostname uuid vars = Ok c"
  shows "mg_max_meetings c \<in> {0..<2 ^ 32} \<and> mg_max_participants c \<in> {0..<2 ^ 32}"
  using assms parsed_or_bounds [of parse_u32 "2 ^ 32" 1000 "vars ''MC_MAX_MEETINGS''"]
    parsed_or_bounds [of parse_u32 "2 ^ 32" 10000 "vars ''MC_MAX_PARTICIPANTS''"] parse_u32_range
  by (auto simp: mc_config_from_vars_def)

text \<open>
  C33. A service that starts runs within its bounds, whatever the environment holds.  The Auth Controller has a master key of
  32 bytes and a hash secret of at least 32, a clock tolerance of one second to ten minutes, a bcrypt cost from 10 to 14
  and rate limits inside the ranges its constants name; the Global Controller has the same clock tolerance and positive
  limits; the Media Handler waits at most five minutes for a registration.  The capacities of the media services are only
  as bounded as their types.
\<close>

theorem loaded_configuration_bounded:
  "(\<forall>c. ac_config_from_vars b64 vars = Ok c \<longrightarrow> ac_config_ok c)
   \<and> (\<forall>c. gc_config_from_vars hostname uuid vars = Ok c \<longrightarrow> gc_config_ok c)
   \<and> (\<forall>c. mh_config_from_vars path_exists hostname uuid vars = Ok c \<longrightarrow>
        hg_max_streams c \<in> {0..<2 ^ 32} \<and> hg_register_meeting_timeout_seconds c \<in> {0..300} \<and> hg_max_connections c \<in> {0..<2 ^ 64})
   \<and> (\<forall>c. mc_config_from_vars path_exists hostname uuid vars = Ok c \<longrightarrow>
        mg_max_meetings c \<in> {0..<2 ^ 32} \<and> mg_max_participants c \<in> {0..<2 ^ 32})"
  using ac_config_bounded gc_config_bounded mh_config_bounded mc_config_bounded by blast

definition demo_vars :: vars where
  "demo_vars = [''DATABASE_URL'' \<mapsto> ''db'', ''AC_MASTER_KEY'' \<mapsto> ''k'', ''BCRYPT_COST'' \<mapsto> ''14'', ''JWT_CLOCK_SKEW_SECONDS'' \<mapsto> ''600'']"

theorem loaded_configuration_bounded_witness:
  "\<exists>c. ac_config_from_vars (\<lambda>_. Ok (replicate 32 1)) demo_vars = Ok c \<and> ac_config_ok c \<and> ag_bcrypt_cost c = 14"
proof -
  have "isl (ac_config_from_vars (\<lambda>_. Ok (replicate 32 1)) demo_vars) = False
    \<and> ag_bcrypt_cost (projr (ac_config_from_vars (\<lambda>_. Ok (replicate 32 1)) demo_vars)) = 14"
    by code_simp
  then obtain c where c: "ac_config_from_vars (\<lambda>_. Ok (replicate 32 1)) demo_vars = Ok c" "ag_bcrypt_cost c = 14"
    by (cases "ac_config_from_vars (\<lambda>_. Ok (replicate 32 1)) demo_vars") auto
  then show ?thesis using loaded_configuration_bounded [of "\<lambda>_. Ok (replicate 32 1)" demo_vars] by blast
qed

section \<open>When the media services start\<close>

text \<open>
  The Meeting Controller starts exactly when its required variables are set, the URL of the keys has one of two schemes and
  the two files exist: no number keeps it from starting, and one that cannot be read gives the default without a word.
\<close>

definition MC_REQUIRED :: "string list" where
  "MC_REQUIRED = [''REDIS_URL'', ''MC_BINDING_TOKEN_SECRET'', ''AC_ENDPOINT'', ''MC_CLIENT_ID'', ''MC_CLIENT_SECRET'', ''AC_JWKS_URL'',
     ''MC_TLS_CERT_PATH'', ''MC_TLS_KEY_PATH'', ''MC_GRPC_ADVERTISE_ADDRESS'', ''MC_WEBTRANSPORT_ADVERTISE_ADDRESS'']"

lemma mc_config_loads_iff:
  "(\<exists>c. mc_config_from_vars path_exists hostname uuid vars = Ok c) \<longleftrightarrow>
     (\<forall>name \<in> set MC_REQUIRED. vars name \<noteq> None)
     \<and> (\<exists>url cert key. vars ''AC_JWKS_URL'' = Some url \<and> (starts_with ''http://'' url \<or> starts_with ''https://'' url)
          \<and> vars ''MC_TLS_CERT_PATH'' = Some cert \<and> vars ''MC_TLS_KEY_PATH'' = Some key \<and> path_exists cert \<and> path_exists key)"
  unfolding mc_config_from_vars_def and_then_Ok required_Ok check_jwks_url_Ok check_file_Ok MC_REQUIRED_def by auto

lemma bad_number_ignored: "isl (parse s) \<Longrightarrow> parsed_or parse d (Some s) = d"
  by (cases "parse s") (auto simp: parsed_or_def)

lemma mc_typo_gives_default:
  assumes "mc_config_from_vars path_exists hostname uuid vars = Ok c" "vars ''MC_MAX_MEETINGS'' = Some ''5OO''"
  shows "mg_max_meetings c = 1000"
proof -
  have "isl (parse_u32 ''5OO'')" by code_simp
  then show ?thesis using assms bad_number_ignored [of parse_u32 "''5OO''" 1000] by (auto simp: mc_config_from_vars_def)
qed

text \<open>Without a hash secret the Auth Controller takes thirty-two zero bytes, in every build.\<close>

lemma hash_secret_default: "vars ''AC_HASH_SECRET'' = None \<Longrightarrow> ac_config_from_vars b64 vars = Ok c \<Longrightarrow> ag_hash_secret c = replicate 32 0"
  by (auto simp: ac_config_from_vars_def hash_secret_var_def)

end
