(* ===== verification/Service_Clients.thy ===== *)
theory Service_Clients
  imports Service_Config GC_Services MC_Registry MH_Connection
begin

text \<open>
  The clients through which the media services reach the other controllers, and the tasks that drive them: the Meeting
  Controller's registration and heartbeats (\<open>mc-service/src/grpc/gc_client.rs\<close>, \<open>run_gc_task\<close> of \<open>main.rs\<close>), the Media
  Handler's registration and load reports (\<open>mh-service/src/grpc/gc_client.rs\<close>, \<open>main.rs\<close>) and its notifications to the Meeting
  Controllers (\<open>mh-service/src/grpc/mc_client.rs\<close>).  tonic is a parameter: a call takes the authorization header, the request
  and the state of the callee.  The capacities and usage percentages in a heartbeat that the callee never reads are left out,
  and a cancellation is seen between two calls, not inside one.
\<close>

section \<open>Calls\<close>

text \<open>
  What a caller sees of a failed call: the status code, as far as the clients tell codes apart, and the text of the status.
\<close>

datatype rpc_code = CodeNotFound | CodeUnauthenticated | CodePermissionDenied | CodeOther

type_synonym rpc_status = "rpc_code \<times> string"

type_synonym ('q, 'r, 'w) rpc = "string \<Rightarrow> 'q \<Rightarrow> 'w \<Rightarrow> ('r, rpc_status) result \<times> 'w"

text \<open>The header of a call, unless the token cannot be put into one.\<close>

definition add_auth :: "(string \<Rightarrow> string option) \<Rightarrow> (string \<Rightarrow> 'e) \<Rightarrow> string \<Rightarrow> (string, 'e) result" where
  "add_auth header_err config token =
     (let authorization = ''Bearer '' @ token
      in case header_err authorization of
           Some e \<Rightarrow> Err (config (''Authorization header parse failed: '' @ e))
         | None \<Rightarrow> Ok authorization)"

definition BACKOFF_BASE :: duration where "BACKOFF_BASE = from_secs 1"
definition BACKOFF_MAX :: duration where "BACKOFF_MAX = from_secs 30"

text \<open>Creating a client connects to the Global Controller; the channel reconnects by itself afterwards.\<close>

definition connect_gc ::
  "(string \<Rightarrow> 'e) \<Rightarrow> (string \<Rightarrow> 'e) \<Rightarrow> string option \<Rightarrow> string option \<Rightarrow> 'c \<Rightarrow> ('c, 'e) result" where
  "connect_gc config grpc endpoint_err connect_err client =
     (case endpoint_err of
        Some e \<Rightarrow> Err (config (''Invalid GC endpoint: '' @ e))
      | None \<Rightarrow>
          (case connect_err of
             Some e \<Rightarrow> Err (grpc (''Failed to connect to GC: '' @ e))
           | None \<Rightarrow> Ok client))"

section \<open>The Meeting Controller's client of the Global Controller\<close>

record 'w mc_channel =
  ch_header_err :: "string \<Rightarrow> string option"
  ch_register :: "(RegisterMcRequest, RegisterMcResponse, 'w) rpc"
  ch_fast :: "(HeartbeatRequest, HeartbeatResponse, 'w) rpc"
  ch_comprehensive :: "(HeartbeatRequest, HeartbeatResponse, 'w) rpc"

record McGcClient =
  gk_is_registered :: bool
  gk_fast_heartbeat_interval_ms :: u64
  gk_comprehensive_heartbeat_interval_ms :: u64

definition mc_gc_client_new :: "string option \<Rightarrow> string option \<Rightarrow> (McGcClient, McError) result" where
  "mc_gc_client_new endpoint_err connect_err =
     connect_gc MC_Types.Config MC_Types.Grpc endpoint_err connect_err
       \<lparr>gk_is_registered = False, gk_fast_heartbeat_interval_ms = 10000, gk_comprehensive_heartbeat_interval_ms = 30000\<rparr>"

definition mc_register_request :: "McConfig \<Rightarrow> RegisterMcRequest" where
  "mc_register_request c = \<lparr>rm_id = mg_mc_id c, rm_region = mg_region c, rm_grpc_endpoint = mg_grpc_advertise_address c,
     rm_webtransport_endpoint = mg_webtransport_advertise_address c, rm_max_meetings = word_of_int (mg_max_meetings c),
     rm_max_participants = word_of_int (mg_max_participants c)\<rparr>"

definition mc_try_register ::
  "'w mc_channel \<Rightarrow> string \<Rightarrow> RegisterMcRequest \<Rightarrow> 'w \<Rightarrow> (RegisterMcResponse, McError) result \<times> 'w" where
  "mc_try_register X token request w =
     (case add_auth (ch_header_err X) MC_Types.Config token of
        Inl e \<Rightarrow> (Err e, w)
      | Inr authorization \<Rightarrow>
          (case ch_register X authorization request w of
             (Inl (_, msg), w) \<Rightarrow> (Err (MC_Types.Grpc (''RegisterMC RPC failed: '' @ msg)), w)
           | (Inr r, w) \<Rightarrow> (Ok r, w)))"

definition mc_store_registration :: "RegisterMcResponse \<Rightarrow> McGcClient \<Rightarrow> McGcClient" where
  "mc_store_registration r k =
     \<lparr>gk_is_registered = True,
      gk_fast_heartbeat_interval_ms =
        (if rmr_fast_heartbeat_interval_ms r > 0 then rmr_fast_heartbeat_interval_ms r else gk_fast_heartbeat_interval_ms k),
      gk_comprehensive_heartbeat_interval_ms =
        (if rmr_comprehensive_heartbeat_interval_ms r > 0 then rmr_comprehensive_heartbeat_interval_ms r
         else gk_comprehensive_heartbeat_interval_ms k)\<rparr>"

definition MAX_REGISTRATION_RETRIES :: nat where "MAX_REGISTRATION_RETRIES = 20"
definition MAX_REGISTRATION_DURATION :: duration where "MAX_REGISTRATION_DURATION = from_secs 300"

text \<open>
  Registration.  \<open>token n\<close> is the token in the channel at the \<open>n\<close>th attempt and \<open>took n\<close> the time that attempt takes;
  beside the result the loop returns how many attempts it made.
\<close>

function mc_register_loop ::
  "'w mc_channel \<Rightarrow> (nat \<Rightarrow> string) \<Rightarrow> (nat \<Rightarrow> duration) \<Rightarrow> RegisterMcRequest \<Rightarrow> instant \<Rightarrow> nat \<Rightarrow> duration \<Rightarrow> instant \<Rightarrow> McGcClient
     \<Rightarrow> 'w \<Rightarrow> (unit, McError) result \<times> nat \<times> McGcClient \<times> 'w"
where
  "mc_register_loop X token took request deadline retry_count delay now k w =
     (if now \<ge> deadline then (Err (MC_Types.Config ''Registration failed after 300s deadline''), retry_count, k, w)
      else case mc_try_register X (token retry_count) request w of
             (Inr response, w) \<Rightarrow>
               if rmr_accepted response then (Ok (), Suc retry_count, mc_store_registration response k, w)
               else (Err (MC_Types.Config (''GC rejected registration: '' @ rmr_message response)), Suc retry_count, k, w)
           | (Inl e, w) \<Rightarrow>
               if Suc retry_count \<ge> MAX_REGISTRATION_RETRIES then (Err e, Suc retry_count, k, w)
               else mc_register_loop X token took request deadline (Suc retry_count) (min (delay * 2) BACKOFF_MAX)
                      (now + took retry_count + delay) k w)"
  by pat_completeness auto
termination
  by (relation "measure (\<lambda>(X, token, took, request, deadline, retry_count, delay, now, k, w). MAX_REGISTRATION_RETRIES - retry_count)") auto

declare mc_register_loop.simps [simp del]

definition mc_register ::
  "'w mc_channel \<Rightarrow> (nat \<Rightarrow> string) \<Rightarrow> (nat \<Rightarrow> duration) \<Rightarrow> McConfig \<Rightarrow> instant \<Rightarrow> McGcClient \<Rightarrow> 'w
     \<Rightarrow> (unit, McError) result \<times> nat \<times> McGcClient \<times> 'w"
where
  "mc_register X token took c now =
     mc_register_loop X token took (mc_register_request c) (now + MAX_REGISTRATION_DURATION) 0 BACKOFF_BASE now"

text \<open>A heartbeat: nothing when the controller is not registered, and the metric that is recorded for each call.\<close>

definition mc_heartbeat_request :: "McConfig \<Rightarrow> u32 \<Rightarrow> u32 \<Rightarrow> int \<Rightarrow> HeartbeatRequest" where
  "mc_heartbeat_request c current_meetings current_participants health =
     \<lparr>hb_controller_id = mg_mc_id c,
      hb_capacity = Some \<lparr>cap_current_meetings = current_meetings, cap_current_participants = current_participants\<rparr>,
      hb_health = health\<rparr>"

definition mc_heartbeat ::
  "string \<Rightarrow> string \<Rightarrow> (HeartbeatRequest, HeartbeatResponse, 'w) rpc \<Rightarrow> (string \<Rightarrow> string option) \<Rightarrow> string \<Rightarrow> HeartbeatRequest \<Rightarrow> McGcClient
     \<Rightarrow> 'w \<Rightarrow> (unit, McError) result \<times> (string \<times> string) list \<times> McGcClient \<times> 'w"
where
  "mc_heartbeat kind title call header_err token request k w =
     (if \<not> gk_is_registered k then (Ok (), [], k, w)
      else case add_auth header_err MC_Types.Config token of
             Inl e \<Rightarrow> (Err e, [], k, w)
           | Inr authorization \<Rightarrow>
               (case call authorization request w of
                  (Inr _, w) \<Rightarrow> (Ok (), [(''success'', kind)], k, w)
                | (Inl (code, msg), w) \<Rightarrow>
                    if code = CodeNotFound then (Err MC_Types.NotRegistered, [(''error'', kind)], k\<lparr>gk_is_registered := False\<rparr>, w)
                    else (Err (MC_Types.Grpc (title @ '' heartbeat failed: '' @ msg)), [(''error'', kind)], k, w)))"

definition mc_fast_heartbeat ::
  "'w mc_channel \<Rightarrow> string \<Rightarrow> McConfig \<Rightarrow> u32 \<Rightarrow> u32 \<Rightarrow> int \<Rightarrow> McGcClient \<Rightarrow> 'w
     \<Rightarrow> (unit, McError) result \<times> (string \<times> string) list \<times> McGcClient \<times> 'w"
where
  "mc_fast_heartbeat X token c meetings participants health =
     mc_heartbeat ''fast'' ''Fast'' (ch_fast X) (ch_header_err X) token (mc_heartbeat_request c meetings participants health)"

definition mc_comprehensive_heartbeat ::
  "'w mc_channel \<Rightarrow> string \<Rightarrow> McConfig \<Rightarrow> u32 \<Rightarrow> u32 \<Rightarrow> int \<Rightarrow> McGcClient \<Rightarrow> 'w
     \<Rightarrow> (unit, McError) result \<times> (string \<times> string) list \<times> McGcClient \<times> 'w"
where
  "mc_comprehensive_heartbeat X token c meetings participants health =
     mc_heartbeat ''comprehensive'' ''Comprehensive'' (ch_comprehensive X) (ch_header_err X) token
       (mc_heartbeat_request c meetings participants health)"

definition mc_attempt_reregistration ::
  "'w mc_channel \<Rightarrow> string \<Rightarrow> McConfig \<Rightarrow> McGcClient \<Rightarrow> 'w \<Rightarrow> (unit, McError) result \<times> McGcClient \<times> 'w" where
  "mc_attempt_reregistration X token c k w =
     (case mc_try_register X token (mc_register_request c) w of
        (Inl e, w) \<Rightarrow> (Err e, k, w)
      | (Inr response, w) \<Rightarrow>
          if rmr_accepted response then (Ok (), mc_store_registration response k, w)
          else (Err (MC_Types.Config (''GC rejected re-registration: '' @ rmr_message response)), k, w))"

section \<open>The task of the Meeting Controller\<close>

definition handle_heartbeat_error :: "'w mc_channel \<Rightarrow> string \<Rightarrow> McConfig \<Rightarrow> McError \<Rightarrow> McGcClient \<Rightarrow> 'w \<Rightarrow> McGcClient \<times> 'w" where
  "handle_heartbeat_error X token c error k w =
     (if error = MC_Types.NotRegistered then snd (mc_attempt_reregistration X token c k w) else (k, w))"

text \<open>
  A tick: the numbers of the metrics and the tokens in the channel for the heartbeat and for a registration after it; the
  health reported is always healthy.  \<open>OthersMove\<close> is what happens to the Global Controller between two ticks.
\<close>

datatype 'w gc_task_event = FastTick u32 u32 string string | ComprehensiveTick u32 u32 string string | TaskCancelled
  | OthersMove "'w \<Rightarrow> 'w"

definition after_heartbeat ::
  "'w mc_channel \<Rightarrow> string \<Rightarrow> McConfig \<Rightarrow> (unit, McError) result \<times> (string \<times> string) list \<times> McGcClient \<times> 'w
     \<Rightarrow> (string \<times> string) list \<times> McGcClient \<times> 'w"
where
  "after_heartbeat X token c r =
     (case r of
        (Inr _, metrics, k, w) \<Rightarrow> (metrics, k, w)
      | (Inl e, metrics, k, w) \<Rightarrow> (metrics, handle_heartbeat_error X token c e k w))"

fun heartbeat_loop ::
  "'w mc_channel \<Rightarrow> McConfig \<Rightarrow> 'w gc_task_event list \<Rightarrow> McGcClient \<Rightarrow> 'w \<Rightarrow> (string \<times> string) list \<times> McGcClient \<times> 'w"
where
  "heartbeat_loop X c [] k w = ([], k, w)"
| "heartbeat_loop X c (TaskCancelled # evs) k w = ([], k, w)"
| "heartbeat_loop X c (OthersMove f # evs) k w = heartbeat_loop X c evs k (f w)"
| "heartbeat_loop X c (FastTick meetings participants token token' # evs) k w =
     (let (metrics, k, w) = after_heartbeat X token' c (mc_fast_heartbeat X token c meetings participants 1 k w);
          (metrics', k, w) = heartbeat_loop X c evs k w
      in (metrics @ metrics', k, w))"
| "heartbeat_loop X c (ComprehensiveTick meetings participants token token' # evs) k w =
     (let (metrics, k, w) = after_heartbeat X token' c (mc_comprehensive_heartbeat X token c meetings participants 1 k w);
          (metrics', k, w) = heartbeat_loop X c evs k w
      in (metrics @ metrics', k, w))"

text \<open>
  The start of the task: \<open>register\<close> is called until it succeeds, with five seconds between the calls, or until the task
  is cancelled.  The answer says whether the controller has become ready, \<open>None\<close> when it still tries.
\<close>

datatype registration_turn = TurnCancelled | TurnRegister "nat \<Rightarrow> string" "nat \<Rightarrow> duration" instant

fun initial_registration ::
  "'w mc_channel \<Rightarrow> McConfig \<Rightarrow> registration_turn list \<Rightarrow> McGcClient \<Rightarrow> 'w \<Rightarrow> bool option \<times> McGcClient \<times> 'w" where
  "initial_registration X c [] k w = (None, k, w)"
| "initial_registration X c (TurnCancelled # turns) k w = (Some False, k, w)"
| "initial_registration X c (TurnRegister token took now # turns) k w =
     (case mc_register X token took c now k w of
        (Inr _, _, k, w) \<Rightarrow> (Some True, k, w)
      | (Inl _, _, k, w) \<Rightarrow> initial_registration X c turns k w)"

text \<open>The whole task: readiness, the intervals of the two tickers, and the heartbeats.\<close>

definition mc_run_gc_task ::
  "'w mc_channel \<Rightarrow> McConfig \<Rightarrow> registration_turn list \<Rightarrow> 'w gc_task_event list \<Rightarrow> McGcClient \<Rightarrow> 'w
     \<Rightarrow> bool \<times> (u64 \<times> u64) option \<times> (string \<times> string) list \<times> McGcClient \<times> 'w"
where
  "mc_run_gc_task X c turns evs k w =
     (case initial_registration X c turns k w of
        (Some True, k, w) \<Rightarrow>
          (let intervals = (gk_fast_heartbeat_interval_ms k, gk_comprehensive_heartbeat_interval_ms k)
           in (True, Some intervals, heartbeat_loop X c evs k w))
      | (_, k, w) \<Rightarrow> (False, None, [], k, w))"

section \<open>The Media Handler's client of the Global Controller\<close>

record 'w mh_channel =
  hc_header_err :: "string \<Rightarrow> string option"
  hc_register :: "(RegisterMhRequest, RegisterMhResponse, 'w) rpc"
  hc_load_report :: "(SendLoadReportRequest, HeartbeatResponse, 'w) rpc"

record MhGcClient =
  hk_is_registered :: bool
  hk_load_report_interval_ms :: u64

definition mh_gc_client_new :: "string option \<Rightarrow> string option \<Rightarrow> (MhGcClient, MhError) result" where
  "mh_gc_client_new endpoint_err connect_err =
     connect_gc MH_Connection.Config MH_Connection.Grpc endpoint_err connect_err
       \<lparr>hk_is_registered = False, hk_load_report_interval_ms = 10000\<rparr>"

definition mh_register_request :: "MhConfig \<Rightarrow> RegisterMhRequest" where
  "mh_register_request c = \<lparr>rh_handler_id = hg_handler_id c, rh_region = hg_region c,
     rh_webtransport_endpoint = hg_webtransport_advertise_address c, rh_grpc_endpoint = hg_grpc_advertise_address c,
     rh_max_streams = word_of_int (hg_max_streams c)\<rparr>"

definition mh_try_register ::
  "'w mh_channel \<Rightarrow> string \<Rightarrow> RegisterMhRequest \<Rightarrow> 'w \<Rightarrow> (RegisterMhResponse, MhError) result \<times> 'w" where
  "mh_try_register X token request w =
     (case add_auth (hc_header_err X) MH_Connection.Config token of
        Inl e \<Rightarrow> (Err e, w)
      | Inr authorization \<Rightarrow>
          (case hc_register X authorization request w of
             (Inl (_, msg), w) \<Rightarrow> (Err (MH_Connection.Grpc (''RegisterMH failed: '' @ msg)), w)
           | (Inr r, w) \<Rightarrow> (Ok r, w)))"

definition mh_store_registration :: "RegisterMhResponse \<Rightarrow> MhGcClient \<Rightarrow> MhGcClient" where
  "mh_store_registration r k =
     \<lparr>hk_is_registered = True,
      hk_load_report_interval_ms =
        (if rhr_load_report_interval_ms r > 0 then rhr_load_report_interval_ms r else hk_load_report_interval_ms k)\<rparr>"

text \<open>
  Registration has no limit: \<open>tokens\<close> are the tokens of the attempts so far, and \<open>None\<close> means that it still tries.  The list
  holds what is recorded and waited for.
\<close>

datatype mh_register_action = GcRegistration string | RegisterSleep duration

fun mh_register_loop ::
  "'w mh_channel \<Rightarrow> RegisterMhRequest \<Rightarrow> string list \<Rightarrow> duration \<Rightarrow> MhGcClient \<Rightarrow> 'w
     \<Rightarrow> (unit, MhError) result option \<times> mh_register_action list \<times> MhGcClient \<times> 'w"
where
  "mh_register_loop X request [] delay k w = (None, [], k, w)"
| "mh_register_loop X request (token # tokens) delay k w =
     (case mh_try_register X token request w of
        (Inr response, w) \<Rightarrow>
          if rhr_accepted response then (Some (Ok ()), [GcRegistration ''success''], mh_store_registration response k, w)
          else (Some (Err (MH_Connection.Grpc (''GC rejected registration: '' @ rhr_message response))), [GcRegistration ''success''], k, w)
      | (Inl e, w) \<Rightarrow>
          (let (r, as, k, w) = mh_register_loop X request tokens (min (delay * 2) BACKOFF_MAX) k w
           in (r, GcRegistration ''error'' # RegisterSleep delay # as, k, w)))"

definition mh_gc_register ::
  "'w mh_channel \<Rightarrow> MhConfig \<Rightarrow> string list \<Rightarrow> MhGcClient \<Rightarrow> 'w
     \<Rightarrow> (unit, MhError) result option \<times> mh_register_action list \<times> MhGcClient \<times> 'w"
where
  "mh_gc_register X c tokens = mh_register_loop X (mh_register_request c) tokens BACKOFF_BASE"

definition mh_send_load_report ::
  "'w mh_channel \<Rightarrow> string \<Rightarrow> MhConfig \<Rightarrow> MhGcClient \<Rightarrow> 'w \<Rightarrow> (unit, MhError) result \<times> string list \<times> MhGcClient \<times> 'w" where
  "mh_send_load_report X token c k w =
     (if \<not> hk_is_registered k then (Ok (), [], k, w)
      else case add_auth (hc_header_err X) MH_Connection.Config token of
             Inl e \<Rightarrow> (Err e, [], k, w)
           | Inr authorization \<Rightarrow>
               (case hc_load_report X authorization \<lparr>lr_handler_id = hg_handler_id c, lr_current_streams = 0, lr_health = 1\<rparr> w of
                  (Inr _, w) \<Rightarrow> (Ok (), [''success''], k, w)
                | (Inl (code, msg), w) \<Rightarrow>
                    if code = CodeNotFound then (Err MH_Connection.NotRegistered, [''error''], k\<lparr>hk_is_registered := False\<rparr>, w)
                    else (Err (MH_Connection.Grpc (''SendLoadReport failed: '' @ msg)), [''error''], k, w)))"

definition mh_attempt_reregistration ::
  "'w mh_channel \<Rightarrow> string \<Rightarrow> MhConfig \<Rightarrow> MhGcClient \<Rightarrow> 'w \<Rightarrow> (unit, MhError) result \<times> MhGcClient \<times> 'w" where
  "mh_attempt_reregistration X token c k w =
     (case mh_try_register X token (mh_register_request c) w of
        (Inl e, w) \<Rightarrow> (Err e, k, w)
      | (Inr response, w) \<Rightarrow>
          if rhr_accepted response then (Ok (), mh_store_registration response k, w)
          else (Err (MH_Connection.Grpc (''GC rejected re-registration: '' @ rhr_message response)), k, w))"

datatype 'w mh_task_event = ReportTick string string | MhTaskCancelled | MhOthersMove "'w \<Rightarrow> 'w"

fun load_report_loop ::
  "'w mh_channel \<Rightarrow> MhConfig \<Rightarrow> 'w mh_task_event list \<Rightarrow> MhGcClient \<Rightarrow> 'w \<Rightarrow> string list \<times> MhGcClient \<times> 'w" where
  "load_report_loop X c [] k w = ([], k, w)"
| "load_report_loop X c (MhTaskCancelled # evs) k w = ([], k, w)"
| "load_report_loop X c (MhOthersMove f # evs) k w = load_report_loop X c evs k (f w)"
| "load_report_loop X c (ReportTick token token' # evs) k w =
     (let (r, metrics, k, w) = mh_send_load_report X token c k w;
          (k, w) = (if r = Err MH_Connection.NotRegistered then snd (mh_attempt_reregistration X token' c k w) else (k, w));
          (metrics', k, w) = load_report_loop X c evs k w
      in (metrics @ metrics', k, w))"

section \<open>The Media Handler's client of the Meeting Controllers\<close>

definition MAX_RETRY_ATTEMPTS :: nat where "MAX_RETRY_ATTEMPTS = 3"
definition RETRY_BASE_DELAY :: duration where "RETRY_BASE_DELAY = from_secs 1"

record ('q, 'w) mc_transport =
  mt_endpoint_err :: "string \<Rightarrow> string option"
  mt_connect_err :: "string \<Rightarrow> nat \<Rightarrow> string option"
  mt_header_err :: "string \<Rightarrow> string option"
  mt_call :: "string \<Rightarrow> nat \<Rightarrow> string \<Rightarrow> 'q \<Rightarrow> 'w \<Rightarrow> (unit, rpc_status) result \<times> 'w"

definition is_auth_error :: "MhError \<Rightarrow> bool" where
  "is_auth_error err = (case err of MH_Connection.JwtValidation _ \<Rightarrow> True | _ \<Rightarrow> False)"

text \<open>One call, the \<open>attempt\<close>th: a channel of its own, then the header, then the call.\<close>

definition try_send :: "('q, 'w) mc_transport \<Rightarrow> string \<Rightarrow> nat \<Rightarrow> string \<Rightarrow> 'q \<Rightarrow> 'w \<Rightarrow> (unit, MhError) result \<times> 'w" where
  "try_send X endpoint attempt token request w =
     (case mt_endpoint_err X endpoint of
        Some e \<Rightarrow> (Err (MH_Connection.Config (''Invalid MC endpoint: '' @ e)), w)
      | None \<Rightarrow>
     (case mt_connect_err X endpoint attempt of
        Some e \<Rightarrow> (Err (MH_Connection.Grpc (''Failed to connect to MC: '' @ e)), w)
      | None \<Rightarrow>
     (case add_auth (mt_header_err X) MH_Connection.Config token of
        Inl e \<Rightarrow> (Err e, w)
      | Inr authorization \<Rightarrow>
     (case mt_call X endpoint attempt authorization request w of
        (Inr _, w) \<Rightarrow> (Ok (), w)
      | (Inl (code, msg), w) \<Rightarrow>
          if code = CodeUnauthenticated \<or> code = CodePermissionDenied
          then (Err (MH_Connection.JwtValidation ''MC rejected service token''), w)
          else (Err (MH_Connection.Grpc (''MC notification RPC failed: '' @ msg)), w)))))"

text \<open>
  The retries.  \<open>between n\<close> is what others do to the Meeting Controller during the wait after attempt \<open>n\<close>; the lists hold the
  recorded metrics and the waits.
\<close>

function send_attempts ::
  "('q, 'w) mc_transport \<Rightarrow> (nat \<Rightarrow> string) \<Rightarrow> (nat \<Rightarrow> 'w \<Rightarrow> 'w) \<Rightarrow> string \<Rightarrow> string \<Rightarrow> 'q \<Rightarrow> nat \<Rightarrow> duration \<Rightarrow> 'w
     \<Rightarrow> (unit, MhError) result \<times> (string \<times> string) list \<times> duration list \<times> 'w"
where
  "send_attempts X token between endpoint event request attempt delay w =
     (if attempt > MAX_RETRY_ATTEMPTS then (Ok (), [], [], w)
      else case try_send X endpoint attempt (token attempt) request w of
             (Inr _, w) \<Rightarrow> (Ok (), [(event, ''success'')], [], w)
           | (Inl e, w) \<Rightarrow>
               if is_auth_error e then (Err e, [(event, ''error'')], [], w)
               else if attempt = MAX_RETRY_ATTEMPTS then (Err e, [(event, ''error'')], [], w)
               else let (r, metrics, waits, w) =
                          send_attempts X token between endpoint event request (Suc attempt) (delay * 2) (between attempt w)
                    in (r, metrics, delay # waits, w))"
  by pat_completeness auto
termination
  by (relation "measure (\<lambda>(X, token, between, endpoint, event, request, attempt, delay, w). Suc MAX_RETRY_ATTEMPTS - attempt)") auto

declare send_attempts.simps [simp del]

definition send_with_retry ::
  "('q, 'w) mc_transport \<Rightarrow> (nat \<Rightarrow> string) \<Rightarrow> (nat \<Rightarrow> 'w \<Rightarrow> 'w) \<Rightarrow> string \<Rightarrow> string \<Rightarrow> 'q \<Rightarrow> 'w
     \<Rightarrow> (unit, MhError) result \<times> (string \<times> string) list \<times> duration list \<times> 'w"
where
  "send_with_retry X token between endpoint event request =
     send_attempts X token between endpoint event request 1 RETRY_BASE_DELAY"

text \<open>The two notifications, for a participant of a meeting at this handler.\<close>

record notification =
  nf_meeting_id :: string
  nf_participant_id :: string
  nf_handler_id :: string
  nf_reason :: "int option"

definition client_notify_connected ::
  "(notification, 'w) mc_transport \<Rightarrow> (nat \<Rightarrow> string) \<Rightarrow> (nat \<Rightarrow> 'w \<Rightarrow> 'w) \<Rightarrow> string \<Rightarrow> string \<Rightarrow> string \<Rightarrow> string \<Rightarrow> 'w
     \<Rightarrow> (unit, MhError) result \<times> (string \<times> string) list \<times> duration list \<times> 'w"
where
  "client_notify_connected X token between endpoint meeting_id participant_id handler_id =
     send_with_retry X token between endpoint ''connected''
       \<lparr>nf_meeting_id = meeting_id, nf_participant_id = participant_id, nf_handler_id = handler_id, nf_reason = None\<rparr>"

definition client_notify_disconnected ::
  "(notification, 'w) mc_transport \<Rightarrow> (nat \<Rightarrow> string) \<Rightarrow> (nat \<Rightarrow> 'w \<Rightarrow> 'w) \<Rightarrow> string \<Rightarrow> string \<Rightarrow> string \<Rightarrow> string \<Rightarrow> int \<Rightarrow> 'w
     \<Rightarrow> (unit, MhError) result \<times> (string \<times> string) list \<times> duration list \<times> 'w"
where
  "client_notify_disconnected X token between endpoint meeting_id participant_id handler_id reason =
     send_with_retry X token between endpoint ''disconnected''
       \<lparr>nf_meeting_id = meeting_id, nf_participant_id = participant_id, nf_handler_id = handler_id, nf_reason = Some reason\<rparr>"

section \<open>The task of the Media Handler\<close>

text \<open>A turn of the start: cancelled, or a call of \<open>register\<close> with the tokens of its attempts so far.\<close>

fun mh_initial_registration ::
  "'w mh_channel \<Rightarrow> MhConfig \<Rightarrow> string list option list \<Rightarrow> MhGcClient \<Rightarrow> 'w \<Rightarrow> bool option \<times> MhGcClient \<times> 'w" where
  "mh_initial_registration X c [] k w = (None, k, w)"
| "mh_initial_registration X c (None # turns) k w = (Some False, k, w)"
| "mh_initial_registration X c (Some tokens # turns) k w =
     (case mh_gc_register X c tokens k w of
        (Some (Inr _), _, k, w) \<Rightarrow> (Some True, k, w)
      | (Some (Inl _), _, k, w) \<Rightarrow> mh_initial_registration X c turns k w
      | (None, _, k, w) \<Rightarrow> (None, k, w))"

definition mh_run_gc_task ::
  "'w mh_channel \<Rightarrow> MhConfig \<Rightarrow> string list option list \<Rightarrow> 'w mh_task_event list \<Rightarrow> MhGcClient \<Rightarrow> 'w
     \<Rightarrow> bool \<times> u64 option \<times> string list \<times> MhGcClient \<times> 'w"
where
  "mh_run_gc_task X c turns evs k w =
     (case mh_initial_registration X c turns k w of
        (Some True, k, w) \<Rightarrow> (True, Some (hk_load_report_interval_ms k), load_report_loop X c evs k w)
      | (_, k, w) \<Rightarrow> (False, None, [], k, w))"

end
