(* ===== verification/Service_Client_Props.thy ===== *)
theory Service_Client_Props
  imports Service_Clients GC_Service_Props
begin

text \<open>
  What the clients guarantee: a controller is ready only when it is listed at the Global Controller, registration ends at its
  deadline, notifications are bounded; and two ways in which they lose track: a registration that is lost for good and a
  notification that arrives too late.
\<close>

section \<open>A registration that is lost\<close>

text \<open>What others do to the Global Controller in the course of some events of the task.\<close>

fun others_move :: "'w gc_task_event list \<Rightarrow> 'w \<Rightarrow> 'w" where
  "others_move [] w = w"
| "others_move (TaskCancelled # evs) w = w"
| "others_move (OthersMove f # evs) w = others_move evs (f w)"
| "others_move (_ # evs) w = others_move evs w"

lemma unregistered_heartbeat: "\<not> gk_is_registered k \<Longrightarrow> mc_heartbeat kind title call h token q k w = (Ok (), [], k, w)"
  by (simp add: mc_heartbeat_def)

lemma unregistered_silent: "\<not> gk_is_registered k \<Longrightarrow> heartbeat_loop X c evs k w = ([], k, others_move evs w)"
  by (induction evs w rule: others_move.induct)
    (simp_all add: mc_fast_heartbeat_def mc_comprehensive_heartbeat_def unregistered_heartbeat after_heartbeat_def)

lemma heartbeat_unregisters:
  "mc_heartbeat kind title call h token q k w = (Err MC_Types.NotRegistered, ms, k1, w1) \<Longrightarrow> \<not> gk_is_registered k1"
  by (auto simp: mc_heartbeat_def add_auth_def Let_def split: if_splits sum.splits prod.splits option.splits)

lemma failed_reregistration_keeps: "mc_attempt_reregistration X token c k w = (Err e, k2, w2) \<Longrightarrow> k2 = k"
  by (auto simp: mc_attempt_reregistration_def split: sum.splits prod.splits if_splits)

text \<open>
  C16. A Meeting Controller that the Global Controller no longer knows is lost if its one attempt to register again fails.  When
  a heartbeat, fast or comprehensive, is answered NOT_FOUND and that attempt fails, the controller is never heard of again: every later heartbeat is skipped as long as the task runs, no call is made and no error recorded, and
  nothing but others changes the Global Controller.  The log and the comments promise a retry with the next heartbeat.
\<close>

theorem lost_registration_is_final:
  assumes "tick = FastTick m p token token' \<and> beat = mc_fast_heartbeat X token c m p 1 k w
      \<or> tick = ComprehensiveTick m p token token' \<and> beat = mc_comprehensive_heartbeat X token c m p 1 k w"
    and "beat = (Err MC_Types.NotRegistered, ms, k1, w1)"
    and "mc_attempt_reregistration X token' c k1 w1 = (Err e, k2, w2)"
  shows "heartbeat_loop X c (tick # evs) k w = (ms, k1, others_move evs w2) \<and> \<not> gk_is_registered k1"
proof -
  have k1: "\<not> gk_is_registered k1"
    using assms(1,2) heartbeat_unregisters unfolding mc_fast_heartbeat_def mc_comprehensive_heartbeat_def by metis
  moreover have "k2 = k1" using assms(3) by (rule failed_reregistration_keeps)
  ultimately have "after_heartbeat X token' c beat = (ms, k1, w2)"
    using assms(2,3) by (simp add: after_heartbeat_def handle_heartbeat_error_def)
  moreover have "heartbeat_loop X c (tick # evs) k w = (let (metrics, k, w) = after_heartbeat X token' c beat;
      (metrics', k, w) = heartbeat_loop X c evs k w in (metrics @ metrics', k, w))"
    using assms(1) by auto
  ultimately show ?thesis using k1 by (simp add: unregistered_silent)
qed

text \<open>The Media Handler's task is lost in the same way.\<close>

fun mh_others_move :: "'w mh_task_event list \<Rightarrow> 'w \<Rightarrow> 'w" where
  "mh_others_move [] w = w"
| "mh_others_move (MhTaskCancelled # evs) w = w"
| "mh_others_move (MhOthersMove f # evs) w = mh_others_move evs (f w)"
| "mh_others_move (ReportTick _ _ # evs) w = mh_others_move evs w"

lemma unregistered_handler_silent: "\<not> hk_is_registered k \<Longrightarrow> load_report_loop X c evs k w = ([], k, mh_others_move evs w)"
  by (induction evs w rule: mh_others_move.induct) (simp_all add: mh_send_load_report_def)

lemma lost_handler_is_final:
  assumes "mh_send_load_report X token c k w = (Err MH_Connection.NotRegistered, ms, k1, w1)"
    and "mh_attempt_reregistration X token' c k1 w1 = (Err e, k2, w2)"
  shows "load_report_loop X c (ReportTick token token' # evs) k w = (ms, k1, mh_others_move evs w2) \<and> \<not> hk_is_registered k1"
proof -
  have "\<not> hk_is_registered k1"
    using assms(1) by (auto simp: mh_send_load_report_def add_auth_def Let_def split: if_splits sum.splits prod.splits option.splits)
  moreover have "k2 = k1" using assms(2) by (auto simp: mh_attempt_reregistration_def split: sum.splits prod.splits if_splits)
  ultimately show ?thesis using assms by (simp add: unregistered_handler_silent)
qed

text \<open>While it is known, the task keeps its registration, whatever else fails.\<close>

lemma known_controller_stays:
  assumes "gk_is_registered k" "mc_fast_heartbeat X token c m p 1 k w = (r, ms, k1, w1)" "r \<noteq> Err MC_Types.NotRegistered"
  shows "k1 = k" and "heartbeat_loop X c (FastTick m p token token' # evs) k w = (ms @ fst (heartbeat_loop X c evs k w1),
    snd (heartbeat_loop X c evs k w1))"
proof -
  show k: "k1 = k"
    using assms by (auto simp: mc_fast_heartbeat_def mc_heartbeat_def add_auth_def Let_def split: if_splits sum.splits prod.splits option.splits)
  show "heartbeat_loop X c (FastTick m p token token' # evs) k w = (ms @ fst (heartbeat_loop X c evs k w1),
    snd (heartbeat_loop X c evs k w1))"
    using assms(2,3) by (cases r) (auto simp: k after_heartbeat_def handle_heartbeat_error_def split: prod.splits)
qed

section \<open>How long registration tries\<close>

definition waited :: "nat \<Rightarrow> nat" where
  "waited n = (\<Sum>i<n. min (2 ^ i) 30)"

lemma waited_values: "waited 0 = 0" "waited 14 = 301"
proof -
  have "[0..<14] = [0, 1, 2, 3, 4, 5, 6, 7, 8, 9, 10, 11, 12, 13 :: nat]" by (simp add: upt_rec)
  then have "{..<14 :: nat} = {0, 1, 2, 3, 4, 5, 6, 7, 8, 9, 10, 11, 12, 13}" by (metis list.simps(15) lessThan_atLeast0 empty_set set_upt)
  then show "waited 14 = 301" by (simp add: waited_def)
qed (simp add: waited_def)

lemma waited_Suc: "waited (Suc n) = waited n + min (2 ^ n) 30"
  by (simp add: waited_def)

lemma delay_doubles: "min (from_secs (min (2 ^ n) 30) * 2) BACKOFF_MAX = from_secs (min (2 ^ Suc n) 30)"
  by (auto simp: from_secs_def BACKOFF_MAX_def min_def)

lemma failing_registration:
  assumes "\<forall>n w. isl (fst (mc_try_register X (token n) req w))" "n \<le> 14" "start + from_secs (waited n) \<le> now"
  shows "\<exists>m w'. mc_register_loop X token took req (start + MAX_REGISTRATION_DURATION) n (from_secs (min (2 ^ n) 30)) now k w
    = (Err (MC_Types.Config ''Registration failed after 300s deadline''), m, k, w') \<and> n \<le> m \<and> m \<le> 14
    \<and> (n < m \<longrightarrow> now < start + MAX_REGISTRATION_DURATION) \<and> (n = m \<longrightarrow> start + MAX_REGISTRATION_DURATION \<le> now)"
  using assms(2,3)
proof (induction "14 - n" arbitrary: n now w)
  case 0
  then have "n = 14" by simp
  then show ?case
    using 0 by (subst mc_register_loop.simps) (simp add: waited_values MAX_REGISTRATION_DURATION_def from_secs_def)
next
  case (Suc d)
  show ?case
  proof (cases "start + MAX_REGISTRATION_DURATION \<le> now")
    case True
    then show ?thesis using Suc by (subst mc_register_loop.simps) simp
  next
    case False
    obtain e w1 where fail: "mc_try_register X (token n) req w = (Err e, w1)"
      using assms(1) by (metis isl_def prod.collapse)
    have "start + from_secs (waited (Suc n)) \<le> now + took n + from_secs (min (2 ^ n) 30)"
      using Suc.prems(2) unfolding waited_Suc by (simp add: from_secs_def add_mult_distrib)
    moreover have "d = 14 - Suc n" "Suc n \<le> 14" using Suc.hyps(2) by simp_all
    ultimately obtain m w' where "mc_register_loop X token took req (start + MAX_REGISTRATION_DURATION) (Suc n)
        (from_secs (min (2 ^ Suc n) 30)) (now + took n + from_secs (min (2 ^ n) 30)) k w1
      = (Err (MC_Types.Config ''Registration failed after 300s deadline''), m, k, w')" "Suc n \<le> m" "m \<le> 14"
      using Suc.hyps(1) by blast
    moreover have "Suc n < MAX_REGISTRATION_RETRIES" using \<open>Suc n \<le> 14\<close> by (simp add: MAX_REGISTRATION_RETRIES_def)
    ultimately show ?thesis
      using False fail by (subst mc_register_loop.simps) (auto simp: delay_doubles not_le)
  qed
qed

text \<open>
  C27. A registration that finds no Global Controller ends at its deadline of five minutes after at most fourteen attempts,
  with the error of the deadline.  The limit of twenty attempts is never reached: the waits between them alone would take
  more than seven minutes.
\<close>

theorem registration_ends_at_deadline:
  assumes "\<forall>n w. isl (fst (mc_try_register X (token n) (mc_register_request c) w))"
  shows "\<exists>n w'. mc_register X token took c now k w = (Err (MC_Types.Config ''Registration failed after 300s deadline''), n, k, w')
    \<and> 1 \<le> n \<and> n \<le> 14"
proof -
  have b: "BACKOFF_BASE = from_secs (min (2 ^ 0) 30)" by (simp add: BACKOFF_BASE_def)
  obtain n w' where "mc_register X token took c now k w = (Err (MC_Types.Config ''Registration failed after 300s deadline''), n, k, w')"
    "n \<le> 14" "0 = n \<longrightarrow> now + MAX_REGISTRATION_DURATION \<le> now"
    using failing_registration [OF assms, of 0 now now took k w] unfolding mc_register_def b by (auto simp: waited_values from_secs_def)
  then show ?thesis by (cases n) (auto simp: MAX_REGISTRATION_DURATION_def from_secs_def)
qed

section \<open>Registration at the Global Controller\<close>

text \<open>The channel whose other end is the gate and the service of the Global Controller, over its tables.\<close>

definition rpc_status_of :: "Status \<Rightarrow> rpc_status" where
  "rpc_status_of s = ((case fst s of StNotFound \<Rightarrow> CodeNotFound | StUnauthenticated \<Rightarrow> CodeUnauthenticated
     | StPermissionDenied \<Rightarrow> CodePermissionDenied | _ \<Rightarrow> CodeOther), snd s)"

definition gc_rpc ::
  "jwt_lib \<Rightarrow> validate_env \<Rightarrow> JwtValidator \<Rightarrow> string \<Rightarrow> ('q \<Rightarrow> gc_db \<Rightarrow> ('r, Status) result \<times> gauge_update list \<times> gc_db)
     \<Rightarrow> ('q, 'r, gc_db) rpc"
where
  "gc_rpc K ve v path handler authorization q db =
     (case gc_call K ve v \<lparr>rq_header = HeaderText authorization, rq_path = path\<rparr> (handler q) db of
        (Inl s, _, db) \<Rightarrow> (Err (rpc_status_of s), db)
      | (Inr r, _, db) \<Rightarrow> (Ok r, db))"

text \<open>The Global Controller as it answers the calls of one run: every call meets the same environment, and every reply arrives.\<close>

definition gc_channel :: "jwt_lib \<Rightarrow> validate_env \<Rightarrow> JwtValidator \<Rightarrow> (string \<Rightarrow> string option) \<Rightarrow> grpc_env \<Rightarrow> gc_db mc_channel" where
  "gc_channel K ve v header_err e =
     \<lparr>ch_header_err = header_err,
      ch_register = gc_rpc K ve v ''/dark_tower.internal.v1.GlobalControllerService/RegisterMC'' (gc_register_mc e),
      ch_fast = gc_rpc K ve v ''/dark_tower.internal.v1.GlobalControllerService/FastHeartbeat'' (fast_heartbeat e),
      ch_comprehensive = gc_rpc K ve v ''/dark_tower.internal.v1.GlobalControllerService/ComprehensiveHeartbeat'' (comprehensive_heartbeat e)\<rparr>"

lemma registered_by_call:
  "mc_register_loop X token took req deadline n delay now k w = (Ok u, m, k', w') \<Longrightarrow>
     \<exists>tok w0 r. mc_try_register X tok req w0 = (Ok r, w') \<and> rmr_accepted r \<and> k' = mc_store_registration r k"
proof (induction X token took req deadline n delay now k w rule: mc_register_loop.induct)
  case (1 X token took req deadline n delay now k w)
  show ?case
  proof (cases "mc_try_register X (token n) req w")
    case (Pair r w1)
    show ?thesis
    proof (cases r)
      case (Inl e)
      then show ?thesis using 1 Pair by (subst (asm) mc_register_loop.simps) (auto split: if_splits)
    next
      case (Inr resp)
      then show ?thesis using 1(2) Pair by (subst (asm) mc_register_loop.simps) (auto split: if_splits)
    qed
  qed
qed

lemma register_call_ok:
  assumes "mc_try_register (gc_channel K ve v h e) tok req db0 = (Ok r, db)"
  shows "\<exists>g. gc_register_mc e req db0 = (Ok r, g, db)"
  using assms by (auto simp: mc_try_register_def gc_channel_def gc_rpc_def gc_call_def split: sum.splits prod.splits)

lemma register_mc_row:
  "\<exists>r \<in> set (db_mcs (snd (register_mc now cid region grpc wt m p db))). mr_controller_id r = cid \<and> mr_region r = region
     \<and> mr_grpc_endpoint r = grpc \<and> mr_webtransport_endpoint r = wt \<and> mr_max_meetings r = m \<and> mr_max_participants r = p
     \<and> mr_health_status r = ''pending'' \<and> mr_last_heartbeat_at r = now"
proof (cases "\<exists>r \<in> set (db_mcs db). mr_controller_id r = cid")
  case True
  then obtain r where "r \<in> set (db_mcs db)" "mr_controller_id r = cid" by blast
  then show ?thesis
    using True by (intro bexI [of _ "r\<lparr>mr_region := region, mr_grpc_endpoint := grpc, mr_webtransport_endpoint := wt,
        mr_max_meetings := m, mr_max_participants := p, mr_health_status := ''pending'', mr_last_heartbeat_at := now\<rparr>"])
      (auto simp: register_mc_def image_iff)
next
  case False
  then show ?thesis by (simp add: register_mc_def)
qed

lemma gc_register_mc_okD:
  assumes "gc_register_mc e req db0 = (Ok r, g, db)" "ge_others e = (\<lambda>d. d)"
  shows "rmr_accepted r \<and> 0 < uint (rm_max_meetings req) \<and> 0 < uint (rm_max_participants req)
    \<and> rmr_fast_heartbeat_interval_ms r = 10000 \<and> rmr_comprehensive_heartbeat_interval_ms r = 30000
    \<and> (\<exists>row \<in> set (db_mcs db). mr_controller_id row = rm_id req \<and> mr_region row = rm_region req
         \<and> mr_grpc_endpoint row = rm_grpc_endpoint req \<and> mr_max_meetings row = uint (rm_max_meetings req)
         \<and> mr_max_participants row = uint (rm_max_participants req))"
proof (cases "check_mc_request (ge_alnum e) req")
  case (Inl s)
  then show ?thesis using assms(1) by (simp add: gc_register_mc_def)
next
  case (Inr u)
  then have "0 < uint (rm_max_meetings req)" "0 < uint (rm_max_participants req)"
    by (auto simp: check_mc_request_def checks_Ok validate_capacity_Ok word_neq_0_conv word_less_def)
  moreover obtain m p where mp: "i32_try_from (rm_max_meetings req) = Some m" "i32_try_from (rm_max_participants req) = Some p"
    using assms(1) Inr by (cases "i32_try_from (rm_max_meetings req)"; cases "i32_try_from (rm_max_participants req)")
      (simp_all add: gc_register_mc_def)
  then have mp': "m = uint (rm_max_meetings req)" "p = uint (rm_max_participants req)" by (simp_all add: i32_try_from_eq)
  let ?wt = "if rm_webtransport_endpoint req = [] then None else Some (rm_webtransport_endpoint req)"
  let ?reg = "register_mc (ge_now e) (rm_id req) (rm_region req) (rm_grpc_endpoint req) ?wt m p"
  obtain a d where x: "db_exec (ge_fault e) ?reg db0 = (a, d)" by fastforce
  have "\<exists>b. a = Ok b" using assms(1) Inr mp x by (cases a) (simp_all add: gc_register_mc_def Let_def)
  then have ok: "db_exec (ge_fault e) ?reg db0 = (Ok (), d)" using x by auto
  then have "d = snd (?reg db0)" by (simp add: db_exec_Ok)
  moreover have "db = d" and r: "r = \<lparr>rmr_accepted = True, rmr_message = ''Registration successful'',
      rmr_fast_heartbeat_interval_ms = DEFAULT_FAST_HEARTBEAT_INTERVAL_MS,
      rmr_comprehensive_heartbeat_interval_ms = DEFAULT_COMPREHENSIVE_HEARTBEAT_INTERVAL_MS\<rparr>"
    using assms Inr mp ok by (simp_all add: gc_register_mc_def Let_def)
  ultimately show ?thesis
    using register_mc_row [of "ge_now e" "rm_id req" "rm_region req" "rm_grpc_endpoint req" ?wt m p db0]
    by (auto simp: mp' DEFAULT_FAST_HEARTBEAT_INTERVAL_MS_def DEFAULT_COMPREHENSIVE_HEARTBEAT_INTERVAL_MS_def)
qed

lemma ready_by_registration:
  "initial_registration X c turns k w = (Some True, k', w') \<Longrightarrow>
     \<exists>tok w0 r k0. mc_try_register X tok (mc_register_request c) w0 = (Ok r, w') \<and> rmr_accepted r \<and> k' = mc_store_registration r k0"
  by (induction X c turns k w rule: initial_registration.induct)
    (auto simp: mc_register_def split: prod.splits sum.splits dest!: registered_by_call)

text \<open>
  C13. A Meeting Controller reports that it is ready only when the Global Controller lists it: at that moment there is a row
  with its name, its region, its endpoint and its capacities, which are positive; and from then on it beats every ten and
  every thirty seconds, as the Global Controller asked.
\<close>

theorem ready_controller_is_listed:
  assumes "mc_run_gc_task (gc_channel K ve v h e) c turns [] k0 db0 = (True, Some (fast, full), [], k, db)"
    and "ge_others e = (\<lambda>d. d)" "mg_max_meetings c \<in> {0..<2 ^ 32}" "mg_max_participants c \<in> {0..<2 ^ 32}"
  shows "gk_is_registered k \<and> fast = 10000 \<and> full = 30000 \<and> 0 < mg_max_meetings c \<and> 0 < mg_max_participants c
    \<and> (\<exists>row \<in> set (db_mcs db). mr_controller_id row = mg_mc_id c \<and> mr_region row = mg_region c
         \<and> mr_grpc_endpoint row = mg_grpc_advertise_address c \<and> mr_max_meetings row = mg_max_meetings c
         \<and> mr_max_participants row = mg_max_participants c)"
proof -
  have init: "initial_registration (gc_channel K ve v h e) c turns k0 db0 = (Some True, k, db)"
    and iv: "fast = gk_fast_heartbeat_interval_ms k" "full = gk_comprehensive_heartbeat_interval_ms k"
    using assms(1) by (auto simp: mc_run_gc_task_def Let_def split: prod.splits option.splits bool.splits)
  obtain tok d r k1 where r: "mc_try_register (gc_channel K ve v h e) tok (mc_register_request c) d = (Ok r, db)"
    "k = mc_store_registration r k1"
    using ready_by_registration [OF init] by blast
  obtain g where "gc_register_mc e (mc_register_request c) d = (Ok r, g, db)" using register_call_ok [OF r(1)] by blast
  from gc_register_mc_okD [OF this assms(2)] show ?thesis
    using assms(3,4) by (simp add: r(2) iv mc_store_registration_def mc_register_request_def uint_word_of_int)
qed

text \<open>A controller configured with no room for meetings never becomes ready, and says so only in its log.\<close>

lemma zero_capacity_refused:
  assumes "mg_max_meetings c = 0"
  shows "\<exists>err. mc_try_register (gc_channel K ve v h e) tok (mc_register_request c) db = (Err err, db)"
proof -
  have "\<exists>s. check_mc_request (ge_alnum e) (mc_register_request c) = Err s"
    using assms by (cases "check_mc_request (ge_alnum e) (mc_register_request c)")
      (auto simp: check_mc_request_def checks_Ok validate_capacity_Ok mc_register_request_def)
  then show ?thesis
    by (auto simp: mc_try_register_def gc_channel_def gc_rpc_def gc_call_def gc_register_mc_def split: sum.splits prod.splits)
qed

lemma zero_capacity_never_ready:
  assumes "mg_max_meetings c = 0"
  shows "fst (initial_registration (gc_channel K ve v h e) c turns k db) \<noteq> Some True"
proof
  assume "fst (initial_registration (gc_channel K ve v h e) c turns k db) = Some True"
  then obtain k' db' where "initial_registration (gc_channel K ve v h e) c turns k db = (Some True, k', db')" by (metis prod.collapse)
  from ready_by_registration [OF this] zero_capacity_refused [OF assms, of K ve v h e] show False by (metis Inr_Inl_False prod.inject)
qed

section \<open>Notifications of the Media Handler\<close>

lemma send_attempts_bounds:
  assumes "attempt \<in> {1, 2, 3}" "send_attempts X token between ep event q attempt delay w = (r, metrics, waits, w')"
  shows "metrics = [(event, if isl r then ''error'' else ''success'')] \<and> waits \<in> {[], [delay], [delay, delay * 2]}
    \<and> length waits \<le> 3 - attempt"
  using assms
proof (induction X token between ep event q attempt delay w arbitrary: r metrics waits w' rule: send_attempts.induct)
  case (1 X token between ep event q attempt delay w)
  obtain r1 w1 where call: "try_send X ep attempt (token attempt) q w = (r1, w1)" by fastforce
  have le: "\<not> attempt > MAX_RETRY_ATTEMPTS" using 1(2) by (auto simp: MAX_RETRY_ATTEMPTS_def)
  show ?case
  proof (cases r1)
    case (Inr u)
    then show ?thesis using 1(3) call le by (subst (asm) send_attempts.simps) auto
  next
    case (Inl e)
    show ?thesis
    proof (cases "is_auth_error e \<or> attempt = MAX_RETRY_ATTEMPTS")
      case True
      then have "send_attempts X token between ep event q attempt delay w = (Err e, [(event, ''error'')], [], w1)"
        using call le Inl by (subst send_attempts.simps) auto
      then show ?thesis using 1(3) by auto
    next
      case False
      obtain r2 m2 ws w2 where rec:
        "send_attempts X token between ep event q (Suc attempt) (delay * 2) (between attempt w1) = (r2, m2, ws, w2)" by (metis prod_cases4)
      have nxt: "Suc attempt \<in> {1, 2, 3}" using 1(2) False by (auto simp: MAX_RETRY_ATTEMPTS_def)
      have res: "r = r2" "metrics = m2" "waits = delay # ws"
        using 1(3) call le Inl False rec by (subst (asm) send_attempts.simps; simp)+
      have "m2 = [(event, if isl r2 then ''error'' else ''success'')] \<and> ws \<in> {[], [delay * 2], [delay * 2, delay * 2 * 2]}
          \<and> length ws \<le> 3 - Suc attempt"
        using 1(1) [OF le call [symmetric] Inl _ _ nxt rec] False by simp
      then show ?thesis using 1(2) res nxt by auto
    qed
  qed
qed

text \<open>
  A notification is tried at most three times, with waits of one and of two seconds between the attempts, and counted once.
\<close>

lemma notification_bounded:
  assumes "send_with_retry X token between ep event q w = (r, metrics, waits, w')"
  shows "metrics = [(event, if isl r then ''error'' else ''success'')] \<and> waits \<in> {[], [from_secs 1], [from_secs 1, from_secs 2]}"
  using send_attempts_bounds [OF _ assms [unfolded send_with_retry_def]] by (auto simp: RETRY_BASE_DELAY_def from_secs_def)

lemma auth_error_not_retried:
  assumes "try_send X ep 1 (token 1) q w = (Err (MH_Connection.JwtValidation msg), w1)"
  shows "send_with_retry X token between ep event q w = (Err (MH_Connection.JwtValidation msg), [(event, ''error'')], [], w1)"
  unfolding send_with_retry_def using assms
  by (subst send_attempts.simps) (simp add: MAX_RETRY_ATTEMPTS_def is_auth_error_def)

text \<open>The transport to a Meeting Controller whose service is reached unless \<open>down\<close> says that the attempt fails.\<close>

definition mc_service_transport :: "instant \<Rightarrow> (nat \<Rightarrow> bool) \<Rightarrow> (notification, registry) mc_transport" where
  "mc_service_transport now down =
     \<lparr>mt_endpoint_err = (\<lambda>_. None), mt_connect_err = (\<lambda>_ n. if down n then Some ''connection refused'' else None),
      mt_header_err = (\<lambda>_. None),
      mt_call = (\<lambda>ep n authorization q r.
        case (case nf_reason q of
                None \<Rightarrow> notify_participant_connected now (nf_meeting_id q) (nf_participant_id q) (nf_handler_id q) r
              | Some _ \<Rightarrow> notify_participant_disconnected (nf_meeting_id q) (nf_participant_id q) (nf_handler_id q) r) of
          (Inl _, r) \<Rightarrow> (Err (CodeOther, ''Invalid request''), r)
        | (Inr _, r) \<Rightarrow> (Ok (), r))\<rparr>"

text \<open>
  A notification that is retried can arrive after the one that takes it back.  When the first attempt to report a new
  connection fails and the participant leaves during the wait of one second, the report of the end reaches the Meeting
  Controller first and finds nothing; the second attempt then succeeds, and the Meeting Controller lists a connection that no
  longer exists and that nobody will take back.
\<close>

theorem late_notification_leaves_link:
  assumes "validate_ids mid pid hid = Ok ()" "down 1" "\<not> down 2" "hm_get r mid = None"
    and "between 1 = (\<lambda>r. snd (snd (snd (client_notify_disconnected (mc_service_transport now (\<lambda>_. False)) token' (\<lambda>_ r. r) ep mid pid hid 1 r))))"
  shows "\<exists>r'. client_notify_connected (mc_service_transport now down) token between ep mid pid hid r
      = (Ok (), [(''connected'', ''success'')], [from_secs 1], r') \<and> (mid, pid, hid) \<in> registry_links r'"
proof -
  let ?X = "mc_service_transport now down" and ?Y = "mc_service_transport now (\<lambda>_. False)"
  let ?q = "\<lparr>nf_meeting_id = mid, nf_participant_id = pid, nf_handler_id = hid, nf_reason = None\<rparr>"
  let ?q' = "\<lparr>nf_meeting_id = mid, nf_participant_id = pid, nf_handler_id = hid, nf_reason = Some 1\<rparr>"
  have "notify_participant_disconnected mid pid hid r = (Ok True, r)"
    using assms(1,4) by (simp add: notify_participant_disconnected_def remove_connection_def)
  then have "try_send ?Y ep 1 (token' 1) ?q' r = (Ok (), r)"
    by (simp add: try_send_def mc_service_transport_def add_auth_def)
  then have left: "between 1 r = r"
    unfolding assms(5) client_notify_disconnected_def send_with_retry_def
    by (subst send_attempts.simps) (simp add: MAX_RETRY_ATTEMPTS_def)
  have first: "try_send ?X ep 1 (token 1) ?q r = (Err (MH_Connection.Grpc ''Failed to connect to MC: connection refused''), r)"
    using assms(2) by (simp add: try_send_def mc_service_transport_def)
  obtain added r' where add: "add_connection now mid pid hid r = (added, r')" by fastforce
  have "added" using add_connection_fst [of now mid pid hid r] assms(4) add
    by (simp add: hm_get_or_def total_connections_def hm_sum_def hm_values_def MAX_CONNECTIONS_PER_MEETING_def)
  then have link: "(mid, pid, hid) \<in> registry_links r'" using add_connection_links [of now mid pid hid r] add by simp
  have "try_send ?X ep 2 (token 2) ?q r = (Ok (), r')"
    using assms(1,3) add by (simp add: try_send_def mc_service_transport_def add_auth_def notify_participant_connected_def)
  then have "send_attempts ?X token between ep ''connected'' ?q 2 (from_secs 1 * 2) r = (Ok (), [(''connected'', ''success'')], [], r')"
    by (subst send_attempts.simps) (simp add: MAX_RETRY_ATTEMPTS_def)
  then have "client_notify_connected ?X token between ep mid pid hid r = (Ok (), [(''connected'', ''success'')], [from_secs 1], r')"
    unfolding client_notify_connected_def send_with_retry_def
    by (subst send_attempts.simps) (simp add: first left MAX_RETRY_ATTEMPTS_def is_auth_error_def RETRY_BASE_DELAY_def del: One_nat_def)
  then show ?thesis using link by blast
qed

section \<open>Examples\<close>

definition demo_mc_config :: McConfig where
  "demo_mc_config = \<lparr>mg_redis_url = ''r'', mg_webtransport_bind_address = [], mg_grpc_bind_address = [], mg_health_bind_address = [],
     mg_region = ''eu'', mg_gc_grpc_url = ''g'', mg_mc_id = ''mc-1'', mg_max_meetings = 5, mg_max_participants = 50,
     mg_binding_token_ttl_seconds = 30, mg_clock_skew_seconds = 5, mg_nonce_grace_window_seconds = 5,
     mg_disconnect_grace_period_seconds = 30, mg_binding_token_secret = ''s'', mg_ac_endpoint = ''a'', mg_client_id = ''mc'',
     mg_client_secret = ''s'', mg_ac_jwks_url = ''http://j'', mg_tls_cert_path = ''c'', mg_tls_key_path = ''k'',
     mg_grpc_advertise_address = ''http://10.0.0.1:50052'', mg_webtransport_advertise_address = ''https://10.0.0.1:4433''\<rparr>"

text \<open>A Global Controller that has forgotten the controller and is too busy to register it; its state counts the calls.\<close>

definition demo_forgetful :: "nat mc_channel" where
  "demo_forgetful = \<lparr>ch_header_err = (\<lambda>_. None), ch_register = (\<lambda>_ _ n. (Err (CodeOther, ''unavailable''), Suc n)),
     ch_fast = (\<lambda>_ _ n. (Err (CodeNotFound, ''Controller not registered''), Suc n)),
     ch_comprehensive = (\<lambda>_ _ n. (Err (CodeNotFound, ''Controller not registered''), Suc n))\<rparr>"

definition demo_known_client :: McGcClient where
  "demo_known_client = \<lparr>gk_is_registered = True, gk_fast_heartbeat_interval_ms = 10000, gk_comprehensive_heartbeat_interval_ms = 30000\<rparr>"

theorem lost_registration_is_final_witness:
  "heartbeat_loop demo_forgetful demo_mc_config [FastTick 1 2 ''t'' ''t'', ComprehensiveTick 1 2 ''t'' ''t'', FastTick 1 2 ''t'' ''t'']
     demo_known_client 0 = ([(''error'', ''fast'')], demo_known_client\<lparr>gk_is_registered := False\<rparr>, 2)
   \<and> heartbeat_loop demo_forgetful demo_mc_config [ComprehensiveTick 1 2 ''t'' ''t'', FastTick 1 2 ''t'' ''t'']
     demo_known_client 0 = ([(''error'', ''comprehensive'')], demo_known_client\<lparr>gk_is_registered := False\<rparr>, 2)"
proof -
  have fast: "mc_fast_heartbeat demo_forgetful ''t'' demo_mc_config 1 2 1 demo_known_client 0
      = (Err MC_Types.NotRegistered, [(''error'', ''fast'')], demo_known_client\<lparr>gk_is_registered := False\<rparr>, 1)"
    by (simp add: mc_fast_heartbeat_def mc_heartbeat_def demo_known_client_def demo_forgetful_def add_auth_def)
  have comprehensive: "mc_comprehensive_heartbeat demo_forgetful ''t'' demo_mc_config 1 2 1 demo_known_client 0
      = (Err MC_Types.NotRegistered, [(''error'', ''comprehensive'')], demo_known_client\<lparr>gk_is_registered := False\<rparr>, 1)"
    by (simp add: mc_comprehensive_heartbeat_def mc_heartbeat_def demo_known_client_def demo_forgetful_def add_auth_def)
  have again: "mc_attempt_reregistration demo_forgetful ''t'' demo_mc_config (demo_known_client\<lparr>gk_is_registered := False\<rparr>) 1
      = (Err (MC_Types.Grpc ''RegisterMC RPC failed: unavailable''), demo_known_client\<lparr>gk_is_registered := False\<rparr>, 2)"
    by (simp add: mc_attempt_reregistration_def mc_try_register_def demo_forgetful_def add_auth_def)
  show ?thesis
    using lost_registration_is_final [OF disjI1 [OF conjI [OF refl refl]] fast again,
        of "[ComprehensiveTick 1 2 ''t'' ''t'', FastTick 1 2 ''t'' ''t'']"]
      lost_registration_is_final [OF disjI2 [OF conjI [OF refl refl]] comprehensive again, of "[FastTick 1 2 ''t'' ''t'']"]
    by (simp only: others_move.simps)
qed

theorem registration_ends_at_deadline_witness:
  "fst (mc_register demo_forgetful (\<lambda>_. ''t'') (\<lambda>_. 0) demo_mc_config 0 demo_known_client 0)
     = Err (MC_Types.Config ''Registration failed after 300s deadline'')"
  using registration_ends_at_deadline [of demo_forgetful "\<lambda>_. ''t''" demo_mc_config "\<lambda>_. 0" 0 demo_known_client 0]
  by (auto simp: mc_try_register_def demo_forgetful_def add_auth_def)

definition demo_mc_token_claims :: ServiceClaims where
  "demo_mc_token_claims = service_claims_new ''mc-1'' 4600 1000 ''service.write.gc service.write.mh'' (Some ''meeting-controller'')"

abbreviation "demo_controller_lib \<equiv> demo_lib ''k'' [7] [2] (service_claims_json demo_mc_token_claims)"

definition demo_grpc_env :: grpc_env where
  "demo_grpc_env = \<lparr>ge_alnum = (\<lambda>_. False), ge_now = 7, ge_fault = DbOk, ge_others = (\<lambda>d. d), ge_count_fault = DbOk, ge_unix = 1000\<rparr>"

abbreviation "demo_gc_channel \<equiv> gc_channel demo_controller_lib (demo_validate_env 2000) demo_validator (\<lambda>_. None) demo_grpc_env"

lemma demo_registered_at_gc:
  "\<exists>db. mc_try_register demo_gc_channel ''ab.b.b'' (mc_register_request demo_mc_config) \<lparr>db_mcs = [], db_mhs = [], db_assignments = []\<rparr>
     = (Ok \<lparr>rmr_accepted = True, rmr_message = ''Registration successful'', rmr_fast_heartbeat_interval_ms = 10000,
            rmr_comprehensive_heartbeat_interval_ms = 30000\<rparr>, db)"
proof -
  have "fst (gc_grpc_auth demo_controller_lib (demo_validate_env 2000)
      \<lparr>rq_header = HeaderText ''Bearer ab.b.b'', rq_path = ''/dark_tower.internal.v1.GlobalControllerService/RegisterMC''\<rparr> demo_validator)
    = Ok demo_mc_token_claims" by code_simp
  moreover have "check_mc_request (\<lambda>_. False) (mc_register_request demo_mc_config) = Ok ()" by code_simp
  moreover have "rm_max_meetings (mc_register_request demo_mc_config) = 5" "rm_max_participants (mc_register_request demo_mc_config) = 50"
    by (simp_all add: mc_register_request_def demo_mc_config_def)
  ultimately show ?thesis
    by (simp add: mc_try_register_def gc_channel_def gc_rpc_def gc_call_def gc_register_mc_def add_auth_def i32_try_from_def
        demo_grpc_env_def Let_def DEFAULT_FAST_HEARTBEAT_INTERVAL_MS_def DEFAULT_COMPREHENSIVE_HEARTBEAT_INTERVAL_MS_def
        split: prod.split)
qed

theorem ready_controller_is_listed_witness:
  "\<exists>k db. mc_run_gc_task demo_gc_channel demo_mc_config [TurnRegister (\<lambda>_. ''ab.b.b'') (\<lambda>_. 0) 0] [] (demo_known_client\<lparr>gk_is_registered := False\<rparr>)
       \<lparr>db_mcs = [], db_mhs = [], db_assignments = []\<rparr> = (True, Some (10000, 30000), [], k, db)
     \<and> (\<exists>row \<in> set (db_mcs db). mr_controller_id row = ''mc-1'' \<and> mr_max_meetings row = 5)"
proof -
  let ?db = "\<lparr>db_mcs = [], db_mhs = [], db_assignments = []\<rparr>" and ?k = "demo_known_client\<lparr>gk_is_registered := False\<rparr>"
  let ?turns = "[TurnRegister (\<lambda>_. ''ab.b.b'') (\<lambda>_. 0) 0]"
  obtain db where reg: "mc_try_register demo_gc_channel ''ab.b.b'' (mc_register_request demo_mc_config) ?db
     = (Ok \<lparr>rmr_accepted = True, rmr_message = ''Registration successful'', rmr_fast_heartbeat_interval_ms = 10000,
            rmr_comprehensive_heartbeat_interval_ms = 30000\<rparr>, db)"
    using demo_registered_at_gc by blast
  then have "mc_register demo_gc_channel (\<lambda>_. ''ab.b.b'') (\<lambda>_. 0) demo_mc_config 0 ?k ?db = (Ok (), 1, demo_known_client, db)"
    unfolding mc_register_def
    by (subst mc_register_loop.simps) (simp add: MAX_REGISTRATION_DURATION_def from_secs_def mc_store_registration_def demo_known_client_def)
  then have run: "mc_run_gc_task demo_gc_channel demo_mc_config ?turns [] ?k ?db = (True, Some (10000, 30000), [], demo_known_client, db)"
    by (simp add: mc_run_gc_task_def demo_known_client_def)
  have "\<exists>row \<in> set (db_mcs db). mr_controller_id row = ''mc-1'' \<and> mr_max_meetings row = 5"
    using ready_controller_is_listed [OF run] by (simp add: demo_grpc_env_def demo_mc_config_def) blast
  with run show ?thesis by blast
qed

theorem late_notification_leaves_link_witness:
  "\<exists>r'. client_notify_connected (mc_service_transport 0 (\<lambda>n. n = 1)) (\<lambda>_. ''t'')
       (\<lambda>_ r. snd (snd (snd (client_notify_disconnected (mc_service_transport 0 (\<lambda>_. False)) (\<lambda>_. ''t'') (\<lambda>_ r. r) ''e'' ''m'' ''p'' ''h'' 1 r))))
       ''e'' ''m'' ''p'' ''h'' registry_new = (Ok (), [(''connected'', ''success'')], [from_secs 1], r')
     \<and> (''m'', ''p'', ''h'') \<in> registry_links r'"
proof (rule late_notification_leaves_link)
  show "validate_ids ''m'' ''p'' ''h'' = Ok ()" by code_simp
qed (simp_all add: registry_new_def hm_get_def)

end
