(* ===== verification/Helper_Ports.thy ===== *)
theory Helper_Ports
  imports Auth_Token "HOL-Library.Sublist"
begin

text \<open>
  The devloop helper (crates/devloop-helper), the host-side process that builds and deploys a
  development cluster on request: its errors and identifiers (error.rs), and the allocation of host
  ports (ports.rs).

  A Rust \<open>str\<close> is its list of UTF-8 bytes.  The registry file is modelled by what serde_json reads
  from it: nothing, a registry, or a text it refuses.  The registry lock is held until an operation
  returns, so an operation on the registry is one atomic function of the file, under an environment
  that says which system calls fail, how far a write came and which processes are alive.
\<close>

section \<open>Errors\<close>

datatype HelperError = InvalidCommand string | InvalidService string | PortAllocationError string
  | CommandFailed string string | HelperIo string | HelperJson string | AuthFailed | RequestTooLarge
  | InvalidRequest string | InvalidSlug string | AlreadyRunning u32 | Busy string "string list" | Cancelled bool

definition format_busy_op :: "string \<Rightarrow> string list \<Rightarrow> string" where
  "format_busy_op op args = (if args = [] then op else op @ '' '' @ join_with '' '' args)"

fun helper_error_text :: "HelperError \<Rightarrow> string" where
  "helper_error_text (InvalidCommand c) = ''invalid command: '' @ c"
| "helper_error_text (InvalidService s) = ''invalid service: '' @ s"
| "helper_error_text (PortAllocationError d) = ''port allocation failed: '' @ d"
| "helper_error_text (CommandFailed cmd detail) = ''command failed: '' @ cmd @ '': '' @ detail"
| "helper_error_text (HelperIo e) = ''I/O error: '' @ e"
| "helper_error_text (HelperJson e) = ''JSON error: '' @ e"
| "helper_error_text AuthFailed = ''authentication failed''"
| "helper_error_text RequestTooLarge = ''request too large''"
| "helper_error_text (InvalidRequest d) = ''invalid request: '' @ d"
| "helper_error_text (InvalidSlug d) = ''invalid slug: '' @ d"
| "helper_error_text (AlreadyRunning pid) = ''helper already running (pid '' @ show_nat (unat pid) @ '')''"
| "helper_error_text (Busy op args) =
     ''helper busy with '' @ format_busy_op op args @ ''; run dev-cluster cancel to abort it''"
| "helper_error_text (Cancelled escalated) =
     (if escalated then ''cancelled (sigterm timeout, escalated to sigkill)'' else ''cancelled by client request'')"

fun helper_error_kind :: "HelperError \<Rightarrow> string" where
  "helper_error_kind (InvalidCommand _) = ''invalid_command''"
| "helper_error_kind (InvalidService _) = ''invalid_service''"
| "helper_error_kind (PortAllocationError _) = ''port_allocation''"
| "helper_error_kind (CommandFailed _ _) = ''command_failed''"
| "helper_error_kind (HelperIo _) = ''io_error''"
| "helper_error_kind (HelperJson _) = ''json_error''"
| "helper_error_kind AuthFailed = ''auth_failed''"
| "helper_error_kind RequestTooLarge = ''request_too_large''"
| "helper_error_kind (InvalidRequest _) = ''invalid_request''"
| "helper_error_kind (InvalidSlug _) = ''invalid_slug''"
| "helper_error_kind (AlreadyRunning _) = ''already_running''"
| "helper_error_kind (Busy _ _) = ''busy''"
| "helper_error_kind (Cancelled _) = ''cancelled''"

section \<open>Slugs\<close>

definition byte_of :: "char \<Rightarrow> nat" where
  "byte_of c = of_char c"

definition is_ascii_lowercase :: "char \<Rightarrow> bool" where
  "is_ascii_lowercase c \<longleftrightarrow> 97 \<le> byte_of c \<and> byte_of c \<le> 122"

definition is_ascii_digit :: "char \<Rightarrow> bool" where
  "is_ascii_digit c \<longleftrightarrow> 48 \<le> byte_of c \<and> byte_of c \<le> 57"

text \<open>\<open>char::from\<close> of a byte, printed: the code point of that number, in UTF-8.\<close>

definition char_from :: "char \<Rightarrow> string" where
  "char_from c = (if byte_of c < 128 then [c] else [char_of (192 + byte_of c div 64), char_of (128 + byte_of c mod 64)])"

definition slug_edge :: "char \<Rightarrow> bool" where
  "slug_edge c \<longleftrightarrow> is_ascii_lowercase c \<or> is_ascii_digit c"

definition valid_slug_new :: "string \<Rightarrow> (string, HelperError) result" where
  "valid_slug_new s =
     (if s = [] \<or> 63 < length s
      then Err (InvalidSlug (''slug must be 1-63 characters, got '' @ show_nat (length s)))
      else if \<not> slug_edge (hd s)
      then Err (InvalidSlug (''slug must start with lowercase alphanumeric, got '' @ quoted (char_from (hd s))))
      else if \<not> slug_edge (last s)
      then Err (InvalidSlug (''slug must end with lowercase alphanumeric, got '' @ quoted (char_from (last s))))
      else case find (\<lambda>c. \<not> slug_edge c \<and> c \<noteq> CHR ''-'') s of
             Some c \<Rightarrow> Err (InvalidSlug (''slug contains invalid character '' @ quoted (char_from c) @ '' (allowed: a-z, 0-9, -)''))
           | None \<Rightarrow> Ok s)"

section \<open>Port allocation\<close>

definition NUM_SLOTS :: nat where "NUM_SLOTS = 50"
definition STRIDE :: u16 where "STRIDE = 200"
definition PORT_RANGE_START :: u16 where "PORT_RANGE_START = 20000"

text \<open>\<open>PortOffsets\<close>: the offset of each service's port within a block.\<close>

datatype port_name = AC_HTTP | GC_HTTP | GC_GRPC | MC_0_HEALTH | MC_0_GRPC | MC_0_WEBTRANSPORT
  | MC_1_HEALTH | MC_1_GRPC | MC_1_WEBTRANSPORT | MH_0_HEALTH | MH_0_GRPC | MH_0_WEBTRANSPORT
  | MH_1_HEALTH | MH_1_GRPC | MH_1_WEBTRANSPORT | POSTGRES | PROMETHEUS | GRAFANA | LOKI | K8S_API | K8S_API_HOST

fun port_offset :: "port_name \<Rightarrow> u16" where
  "port_offset AC_HTTP = 0"
| "port_offset GC_HTTP = 1"
| "port_offset GC_GRPC = 2"
| "port_offset MC_0_HEALTH = 10"
| "port_offset MC_0_GRPC = 11"
| "port_offset MC_0_WEBTRANSPORT = 12"
| "port_offset MC_1_HEALTH = 13"
| "port_offset MC_1_GRPC = 14"
| "port_offset MC_1_WEBTRANSPORT = 15"
| "port_offset MH_0_HEALTH = 20"
| "port_offset MH_0_GRPC = 21"
| "port_offset MH_0_WEBTRANSPORT = 22"
| "port_offset MH_1_HEALTH = 23"
| "port_offset MH_1_GRPC = 24"
| "port_offset MH_1_WEBTRANSPORT = 25"
| "port_offset POSTGRES = 30"
| "port_offset PROMETHEUS = 100"
| "port_offset GRAFANA = 101"
| "port_offset LOKI = 102"
| "port_offset K8S_API = 103"
| "port_offset K8S_API_HOST = 104"

record PortAllocation =
  pa_base_port :: u16
  pa_slot_index :: nat

definition alloc_port :: "PortAllocation \<Rightarrow> port_name \<Rightarrow> u16" where
  "alloc_port alloc name = pa_base_port alloc + port_offset name"

record RegistryEntry =
  re_slug :: string
  re_slot_index :: nat
  re_base_port :: u16
  re_pid :: u32

type_synonym PortRegistry = "RegistryEntry list"

text \<open>The registry file: absent, blank, a text that is not a registry (with serde_json's complaint), or a registry.\<close>

datatype registry_file = NoFile | BlankFile | GarbledFile string | RegistryFile PortRegistry

text \<open>
  How a write ends: done, refused when the file is opened, or cut short after the file was
  truncated, with nothing or with a part of the text in it (and the complaint it will cause).
\<close>

datatype write_fate = Written | NotOpened string | CutShort string "string option"

record registry_env =
  rv_path :: string
  rv_kill :: "int \<Rightarrow> bool"
  rv_pid :: u32
  rv_lock :: "string option"
  rv_read :: "string option"
  rv_write :: write_fate

text \<open>The djb2 hash of a slug, in wrapping 64-bit arithmetic.\<close>

definition djb2 :: "string \<Rightarrow> u64" where
  "djb2 slug = fold (\<lambda>b hash. hash * 33 + of_nat (byte_of b)) slug 5381"

definition preferred_index :: "string \<Rightarrow> nat" where
  "preferred_index slug = unat (djb2 slug) mod NUM_SLOTS"

text \<open>\<open>libc::kill(pid as pid_t, 0) == 0\<close>: the identifier is read as a signed number.\<close>

definition is_process_alive :: "(int \<Rightarrow> bool) \<Rightarrow> u32 \<Rightarrow> bool" where
  "is_process_alive kill0 pid = kill0 (sint pid)"

definition is_helper_alive :: "(int \<Rightarrow> bool) \<Rightarrow> (u32 \<Rightarrow> string option) \<Rightarrow> u32 \<Rightarrow> bool" where
  "is_helper_alive kill0 cmdline pid =
     (is_process_alive kill0 pid
      \<and> (case cmdline pid of Some text \<Rightarrow> list_ex (prefix ''devloop-helper'') (suffixes text) | None \<Rightarrow> False))"

text \<open>\<open>PathBuf::join\<close> of a relative name.\<close>

definition path_join :: "string \<Rightarrow> string \<Rightarrow> string" where
  "path_join dir name =
     (if prefix ''/'' name then name
      else if dir = [] \<or> last dir = CHR ''/'' then dir @ name
      else dir @ ''/'' @ name)"

definition cache_dir :: "(string \<Rightarrow> string option) \<Rightarrow> string" where
  "cache_dir var =
     (case var ''XDG_CACHE_HOME'' of
        Some (c # cs) \<Rightarrow> path_join (c # cs) ''devloop''
      | _ \<Rightarrow> (case var ''HOME'' of
               Some home \<Rightarrow> path_join (path_join home ''.cache'') ''devloop''
             | None \<Rightarrow> ''/tmp/devloop-cache''))"

definition registry_path :: "(string \<Rightarrow> string option) \<Rightarrow> string" where
  "registry_path var = path_join (cache_dir var) ''port-registry.json''"

definition read_registry :: "registry_env \<Rightarrow> registry_file \<Rightarrow> (PortRegistry, HelperError) result" where
  "read_registry env rfile =
     (case rfile of
        NoFile \<Rightarrow> Ok []
      | _ \<Rightarrow>
        (case rv_read env of
           Some e \<Rightarrow> Err (HelperIo e)
         | None \<Rightarrow>
           (case rfile of
              GarbledFile e \<Rightarrow> Err (PortAllocationError (''failed to parse port registry at '' @ rv_path env @ '': '' @ e))
            | RegistryFile r \<Rightarrow> Ok r
            | _ \<Rightarrow> Ok [])))"

definition write_registry :: "registry_env \<Rightarrow> PortRegistry \<Rightarrow> registry_file \<Rightarrow> (unit, HelperError) result \<times> registry_file" where
  "write_registry env registry rfile =
     (case rv_write env of
        Written \<Rightarrow> (Ok (), RegistryFile registry)
      | NotOpened e \<Rightarrow> (Err (HelperIo e), rfile)
      | CutShort e None \<Rightarrow> (Err (HelperIo e), BlankFile)
      | CutShort e (Some complaint) \<Rightarrow> (Err (HelperIo e), GarbledFile complaint))"

definition free_slot :: "string \<Rightarrow> nat set \<Rightarrow> nat option" where
  "free_slot slug allocated_slots =
     find (\<lambda>idx. idx \<notin> allocated_slots) (map (\<lambda>offset. (preferred_index slug + offset) mod NUM_SLOTS) [0..<NUM_SLOTS])"

definition slot_base :: "nat \<Rightarrow> u16" where
  "slot_base slot_index = PORT_RANGE_START + of_nat slot_index * STRIDE"

definition allocate_ports :: "registry_env \<Rightarrow> string \<Rightarrow> registry_file \<Rightarrow> (PortAllocation, HelperError) result \<times> registry_file" where
  "allocate_ports env slug rfile =
     (case rv_lock env of
        Some e \<Rightarrow> (Err (HelperIo e), rfile)
      | None \<Rightarrow>
        (case read_registry env rfile of
           Err e \<Rightarrow> (Err e, rfile)
         | Ok entries \<Rightarrow>
           (let live = filter (\<lambda>entry. is_process_alive (rv_kill env) (re_pid entry)) entries
            in case find (\<lambda>entry. re_slug entry = slug) live of
                 Some entry \<Rightarrow> (Ok \<lparr>pa_base_port = re_base_port entry, pa_slot_index = re_slot_index entry\<rparr>, rfile)
               | None \<Rightarrow>
                 (case free_slot slug (re_slot_index ` set live) of
                    None \<Rightarrow> (Err (PortAllocationError (''all '' @ show_nat NUM_SLOTS
                              @ '' port slots are in use '' @ [CHR 0xE2, CHR 0x80, CHR 0x94] @ '' cannot allocate ports for '' @ quoted slug)), rfile)
                  | Some slot_index \<Rightarrow>
                    (case write_registry env
                            (live @ [\<lparr>re_slug = slug, re_slot_index = slot_index,
                                      re_base_port = slot_base slot_index, re_pid = rv_pid env\<rparr>]) rfile of
                       (Err e, rfile') \<Rightarrow> (Err e, rfile')
                     | (Ok _, rfile') \<Rightarrow>
                       (Ok \<lparr>pa_base_port = slot_base slot_index, pa_slot_index = slot_index\<rparr>, rfile'))))))"

definition deallocate_ports :: "registry_env \<Rightarrow> string \<Rightarrow> registry_file \<Rightarrow> (unit, HelperError) result \<times> registry_file" where
  "deallocate_ports env slug rfile =
     (case rv_lock env of
        Some e \<Rightarrow> (Err (HelperIo e), rfile)
      | None \<Rightarrow>
        (case read_registry env rfile of
           Err e \<Rightarrow> (Err e, rfile)
         | Ok entries \<Rightarrow> write_registry env (filter (\<lambda>entry. re_slug entry \<noteq> slug) entries) rfile))"

definition critical_offsets :: "(string \<times> port_name) list" where
  "critical_offsets = [(''ac_http'', AC_HTTP), (''gc_http'', GC_HTTP), (''gc_grpc'', GC_GRPC),
     (''mc_0_health'', MC_0_HEALTH), (''mc_0_webtransport'', MC_0_WEBTRANSPORT),
     (''mc_1_webtransport'', MC_1_WEBTRANSPORT), (''mh_0_webtransport'', MH_0_WEBTRANSPORT),
     (''mh_1_webtransport'', MH_1_WEBTRANSPORT), (''prometheus'', PROMETHEUS), (''k8s_api'', K8S_API)]"

text \<open>
  A port counts as available when nothing accepts a TCP connection on it at 127.0.0.1;
  \<open>accepts\<close> are the listeners, by transport, address and port.
\<close>

datatype transport = TCP | UDP

definition is_port_available :: "(transport \<Rightarrow> string \<Rightarrow> u16 \<Rightarrow> bool) \<Rightarrow> u16 \<Rightarrow> bool" where
  "is_port_available accepts port \<longleftrightarrow> \<not> accepts TCP ''127.0.0.1'' port"

definition verify_ports_available ::
  "(transport \<Rightarrow> string \<Rightarrow> u16 \<Rightarrow> bool) \<Rightarrow> PortAllocation \<Rightarrow> (unit, HelperError) result" where
  "verify_ports_available accepts alloc =
     (case find (\<lambda>(name, offset). \<not> is_port_available accepts (alloc_port alloc offset)) critical_offsets of
        Some (name, offset) \<Rightarrow> Err (PortAllocationError (''port '' @ show_nat (unat (alloc_port alloc offset))
                                 @ '' ('' @ name @ '') is already in use''))
      | None \<Rightarrow> Ok ())"

section \<open>The port map\<close>

record PortEntries =
  pe_ac_http :: u16
  pe_gc_http :: u16
  pe_gc_grpc :: u16
  pe_mc_0_health :: u16
  pe_mc_0_grpc :: u16
  pe_mc_0_webtransport :: u16
  pe_mc_1_health :: u16
  pe_mc_1_grpc :: u16
  pe_mc_1_webtransport :: u16
  pe_mh_0_health :: u16
  pe_mh_0_grpc :: u16
  pe_mh_0_webtransport :: u16
  pe_mh_1_health :: u16
  pe_mh_1_grpc :: u16
  pe_mh_1_webtransport :: u16
  pe_postgres :: u16
  pe_prometheus :: u16
  pe_grafana :: u16
  pe_loki :: u16
  pe_k8s_api :: u16

record PortMap =
  pm_cluster_name :: string
  pm_host :: string
  pm_host_fallback :: string
  pm_observability_deployed :: bool
  pm_ports :: PortEntries
  pm_container_urls :: "(string, string) hmap"
  pm_host_urls :: "(string, string) hmap"
  pm_created_at :: string

definition port_entries :: "PortAllocation \<Rightarrow> bool \<Rightarrow> PortEntries" where
  "port_entries alloc observability_deployed =
     \<lparr>pe_ac_http = alloc_port alloc AC_HTTP,
      pe_gc_http = alloc_port alloc GC_HTTP,
      pe_gc_grpc = alloc_port alloc GC_GRPC,
      pe_mc_0_health = alloc_port alloc MC_0_HEALTH,
      pe_mc_0_grpc = alloc_port alloc MC_0_GRPC,
      pe_mc_0_webtransport = alloc_port alloc MC_0_WEBTRANSPORT,
      pe_mc_1_health = alloc_port alloc MC_1_HEALTH,
      pe_mc_1_grpc = alloc_port alloc MC_1_GRPC,
      pe_mc_1_webtransport = alloc_port alloc MC_1_WEBTRANSPORT,
      pe_mh_0_health = alloc_port alloc MH_0_HEALTH,
      pe_mh_0_grpc = alloc_port alloc MH_0_GRPC,
      pe_mh_0_webtransport = alloc_port alloc MH_0_WEBTRANSPORT,
      pe_mh_1_health = alloc_port alloc MH_1_HEALTH,
      pe_mh_1_grpc = alloc_port alloc MH_1_GRPC,
      pe_mh_1_webtransport = alloc_port alloc MH_1_WEBTRANSPORT,
      pe_postgres = alloc_port alloc POSTGRES,
      pe_prometheus = (if observability_deployed then alloc_port alloc PROMETHEUS else 0),
      pe_grafana = (if observability_deployed then alloc_port alloc GRAFANA else 0),
      pe_loki = (if observability_deployed then alloc_port alloc LOKI else 0),
      pe_k8s_api = alloc_port alloc K8S_API\<rparr>"

definition service_url :: "string \<Rightarrow> u16 \<Rightarrow> string" where
  "service_url host port = ''http://'' @ host @ '':'' @ show_nat (unat port)"

definition service_urls :: "string \<Rightarrow> PortEntries \<Rightarrow> bool \<Rightarrow> (string, string) hmap" where
  "service_urls host ports observability_deployed =
     (let urls = hm_insert ''gc'' (service_url host (pe_gc_http ports)) (hm_insert ''ac'' (service_url host (pe_ac_http ports)) [])
      in if observability_deployed
         then hm_insert ''loki'' (service_url host (pe_loki ports))
               (hm_insert ''grafana'' (service_url host (pe_grafana ports))
                 (hm_insert ''prometheus'' (service_url host (pe_prometheus ports)) urls))
         else urls)"

definition generate_port_map :: "PortAllocation \<Rightarrow> string \<Rightarrow> string \<Rightarrow> string \<Rightarrow> bool \<Rightarrow> string \<Rightarrow> PortMap" where
  "generate_port_map alloc cluster_name host host_fallback observability_deployed now =
     (let ports = port_entries alloc observability_deployed
      in \<lparr>pm_cluster_name = cluster_name, pm_host = host, pm_host_fallback = host_fallback,
          pm_observability_deployed = observability_deployed, pm_ports = ports,
          pm_container_urls = service_urls host ports observability_deployed,
          pm_host_urls = service_urls ''localhost'' ports observability_deployed,
          pm_created_at = now\<rparr>)"

section \<open>The cluster template\<close>

definition template_ports :: "(string \<times> port_name) list" where
  "template_ports = [(''HOST_PORT_AC_HTTP'', AC_HTTP),
     (''HOST_PORT_GC_HTTP'', GC_HTTP),
     (''HOST_PORT_GC_GRPC'', GC_GRPC),
     (''HOST_PORT_MC_0_HEALTH'', MC_0_HEALTH),
     (''HOST_PORT_MC_0_GRPC'', MC_0_GRPC),
     (''HOST_PORT_MC_0_WEBTRANSPORT'', MC_0_WEBTRANSPORT),
     (''HOST_PORT_MC_1_HEALTH'', MC_1_HEALTH),
     (''HOST_PORT_MC_1_GRPC'', MC_1_GRPC),
     (''HOST_PORT_MC_1_WEBTRANSPORT'', MC_1_WEBTRANSPORT),
     (''HOST_PORT_MH_0_HEALTH'', MH_0_HEALTH),
     (''HOST_PORT_MH_0_GRPC'', MH_0_GRPC),
     (''HOST_PORT_MH_0_WEBTRANSPORT'', MH_0_WEBTRANSPORT),
     (''HOST_PORT_MH_1_HEALTH'', MH_1_HEALTH),
     (''HOST_PORT_MH_1_GRPC'', MH_1_GRPC),
     (''HOST_PORT_MH_1_WEBTRANSPORT'', MH_1_WEBTRANSPORT),
     (''HOST_PORT_PROMETHEUS'', PROMETHEUS),
     (''HOST_PORT_GRAFANA'', GRAFANA),
     (''HOST_PORT_LOKI'', LOKI),
     (''HOST_PORT_K8S_API'', K8S_API),
     (''HOST_PORT_K8S_API_HOST'', K8S_API_HOST)]"

definition template_env_vars :: "PortAllocation \<Rightarrow> string \<Rightarrow> (string, string) hmap" where
  "template_env_vars alloc host_gateway_ip =
     fold (\<lambda>(var, name). hm_insert var (show_nat (unat (alloc_port alloc name)))) template_ports
       (hm_insert ''HOST_GATEWAY_IP'' host_gateway_ip [])"

text \<open>\<open>str::replace\<close>: every occurrence from the left, without overlaps; the pattern is not empty.\<close>

fun replace_all :: "string \<Rightarrow> string \<Rightarrow> string \<Rightarrow> string" where
  "replace_all pat v [] = []"
| "replace_all pat v (c # cs) =
     (if pat \<noteq> [] \<and> prefix pat (c # cs) then v @ replace_all pat v (drop (length pat - 1) cs)
      else c # replace_all pat v cs)"

definition placeholder :: "string \<Rightarrow> string" where
  "placeholder key = ''${'' @ key @ ''}''"

definition substitute_template :: "string \<Rightarrow> (string, string) hmap \<Rightarrow> string" where
  "substitute_template template vars =
     fold (\<lambda>(key, value) result. replace_all (placeholder key) value result) vars template"

section \<open>Slugs and hashes\<close>

lemma find_SomeD: "find p xs = Some x \<Longrightarrow> x \<in> set xs \<and> p x"
  by (auto simp: find_Some_iff)

text \<open>An accepted slug is a DNS label of lower-case letters, digits and inner hyphens; nothing else is accepted.\<close>

lemma valid_slug_iff:
  "valid_slug_new s = Ok t \<longleftrightarrow> t = s \<and> s \<noteq> [] \<and> length s \<le> 63 \<and> slug_edge (hd s) \<and> slug_edge (last s)
     \<and> (\<forall>c\<in>set s. slug_edge c \<or> c = CHR ''-'')"
  by (auto simp: valid_slug_new_def find_None_iff dest: find_SomeD split: option.splits)

lemma valid_slug_no_path:
  assumes "valid_slug_new s = Ok t" shows "CHR ''/'' \<notin> set s" "CHR ''.'' \<notin> set s" "CHR ''$'' \<notin> set s"
proof -
  have "\<not> slug_edge (CHR ''/'')" "\<not> slug_edge (CHR ''.'')" "\<not> slug_edge (CHR ''$'')"
    by (simp_all add: slug_edge_def is_ascii_lowercase_def is_ascii_digit_def byte_of_def)
  then show "CHR ''/'' \<notin> set s" "CHR ''.'' \<notin> set s" "CHR ''$'' \<notin> set s" using assms unfolding valid_slug_iff by force+
qed

lemma preferred_index_less: "preferred_index slug < NUM_SLOTS"
  by (simp add: preferred_index_def NUM_SLOTS_def)

section \<open>The registry\<close>

text \<open>
  The invariant of the registry file: no slug and no slot is listed twice, and an entry's base port
  is that of its slot.
\<close>

definition entry_ok :: "RegistryEntry \<Rightarrow> bool" where
  "entry_ok entry \<longleftrightarrow> re_slot_index entry < NUM_SLOTS \<and> re_base_port entry = slot_base (re_slot_index entry)"

definition port_registry_ok :: "PortRegistry \<Rightarrow> bool" where
  "port_registry_ok r \<longleftrightarrow> distinct (map re_slug r) \<and> distinct (map re_slot_index r) \<and> list_all entry_ok r"

fun file_ok :: "registry_file \<Rightarrow> bool" where
  "file_ok (RegistryFile r) = port_registry_ok r"
| "file_ok _ = True"

lemma port_registry_ok_filter: "port_registry_ok r \<Longrightarrow> port_registry_ok (filter p r)"
  by (auto simp: port_registry_ok_def distinct_map_filter list_all_iff)

lemma port_registry_ok_snoc:
  "port_registry_ok r \<Longrightarrow> entry_ok e \<Longrightarrow> re_slug e \<notin> re_slug ` set r \<Longrightarrow> re_slot_index e \<notin> re_slot_index ` set r \<Longrightarrow>
   port_registry_ok (r @ [e])"
  by (auto simp: port_registry_ok_def)

lemma port_registry_ok_Nil [simp]: "port_registry_ok []"
  by (simp add: port_registry_ok_def)

lemma read_registry_ok: "file_ok rfile \<Longrightarrow> read_registry env rfile = Ok r \<Longrightarrow> port_registry_ok r"
  by (auto simp: read_registry_def split: option.splits registry_file.splits)

lemma write_registry_ok: "file_ok rfile \<Longrightarrow> port_registry_ok r \<Longrightarrow> file_ok (snd (write_registry env r rfile))"
  by (auto simp: write_registry_def split: write_fate.splits option.splits)

lemma free_slot_Some:
  assumes "free_slot slug used = Some i" shows "i < NUM_SLOTS" "i \<notin> used"
  using assms by (auto simp: free_slot_def find_Some_iff NUM_SLOTS_def)

text \<open>The scan tries every slot once: it fails exactly when all fifty are taken.\<close>

lemma cyclic_scan: "set (map (\<lambda>offset. (p + offset) mod n) [0..<n]) = {..<n}" if "0 < n" for p n :: nat
proof -
  have "i \<in> (\<lambda>offset. (p + offset) mod n) ` {0..<n}" if "i < n" for i
  proof (rule image_eqI)
    show "i = (p + (i + (n - p mod n)) mod n) mod n"
    proof -
      have "(p + (i + (n - p mod n)) mod n) mod n = (p mod n + (i + (n - p mod n))) mod n"
        by (simp add: mod_simps)
      also have "\<dots> = (i + n) mod n" using mod_less_divisor [OF \<open>0 < n\<close>, of p] by simp
      finally show ?thesis using \<open>i < n\<close> by simp
    qed
    show "(i + (n - p mod n)) mod n \<in> {0..<n}" using \<open>0 < n\<close> by simp
  qed
  then show ?thesis using that by auto
qed

lemma free_slot_None: "free_slot slug used = None \<longleftrightarrow> {..<NUM_SLOTS} \<subseteq> used"
proof -
  have "0 < NUM_SLOTS" by (simp add: NUM_SLOTS_def)
  from cyclic_scan [OF this, of "preferred_index slug"] show ?thesis unfolding free_slot_def find_None_iff by blast
qed

lemma slot_base_unat: "i < NUM_SLOTS \<Longrightarrow> unat (slot_base i) = 20000 + 200 * i"
proof -
  assume i: "i < NUM_SLOTS"
  have "unat (of_nat (20000 + 200 * i) :: u16) = 20000 + 200 * i"
    unfolding unat_of_nat by (rule mod_less) (use i in \<open>simp add: NUM_SLOTS_def\<close>)
  moreover have "slot_base i = of_nat (20000 + 200 * i)"
    by (simp add: slot_base_def PORT_RANGE_START_def STRIDE_def)
  ultimately show ?thesis by simp
qed

lemma port_offset_less: "unat (port_offset name) < 200"
  by (cases name) simp_all

lemma alloc_port_unat:
  assumes "i < NUM_SLOTS"
  shows "unat (alloc_port \<lparr>pa_base_port = slot_base i, pa_slot_index = i\<rparr> name) = 20000 + 200 * i + unat (port_offset name)"
  using port_offset_less [of name] assms
  by (simp add: alloc_port_def unat_word_ariths slot_base_unat NUM_SLOTS_def)

lemma port_offset_inj: "inj port_offset"
proof (rule injI)
  fix x y assume "port_offset x = port_offset y"
  then show "x = y" by (cases x; cases y) simp_all
qed

text \<open>Every operation on the registry keeps the invariant, whatever fails.\<close>

abbreviation live_entries :: "registry_env \<Rightarrow> PortRegistry \<Rightarrow> PortRegistry" where
  "live_entries env r \<equiv> filter (\<lambda>entry. is_process_alive (rv_kill env) (re_pid entry)) r"

abbreviation new_entry :: "string \<Rightarrow> nat \<Rightarrow> u32 \<Rightarrow> RegistryEntry" where
  "new_entry slug i pid \<equiv> \<lparr>re_slug = slug, re_slot_index = i, re_base_port = slot_base i, re_pid = pid\<rparr>"

lemma allocate_ports_cases:
  obtains (kept) "snd (allocate_ports env slug rfile) = rfile"
    | (written) r i where "read_registry env rfile = Ok r" "slug \<notin> re_slug ` set (live_entries env r)"
        "free_slot slug (re_slot_index ` set (live_entries env r)) = Some i"
        "snd (allocate_ports env slug rfile) = snd (write_registry env (live_entries env r @ [new_entry slug i (rv_pid env)]) rfile)"
proof (cases "rv_lock env")
  case None
  show thesis
  proof (cases "read_registry env rfile")
    case (Inr r)
    show thesis
    proof (cases "find (\<lambda>entry. re_slug entry = slug) (live_entries env r)")
      case None': None
      then have fresh: "slug \<notin> re_slug ` set (live_entries env r)" by (auto simp: find_None_iff)
      show thesis
      proof (cases "free_slot slug (re_slot_index ` set (live_entries env r))")
        case (Some i)
        from None None' Inr Some
        have "snd (allocate_ports env slug rfile) = snd (write_registry env (live_entries env r @ [new_entry slug i (rv_pid env)]) rfile)"
          unfolding allocate_ports_def Let_def
          by (simp split: sum.split prod.split)
        with Inr fresh Some show thesis by (rule written)
      qed (use None None' Inr kept in \<open>simp add: allocate_ports_def Let_def\<close>)
    qed (use None Inr kept in \<open>simp add: allocate_ports_def Let_def\<close>)
  qed (use None kept in \<open>simp add: allocate_ports_def\<close>)
qed (use kept in \<open>simp add: allocate_ports_def\<close>)

lemma allocate_ports_ok: "file_ok rfile \<Longrightarrow> file_ok (snd (allocate_ports env slug rfile))"
proof (cases rule: allocate_ports_cases [of env slug rfile])
  case (written r i)
  assume f: "file_ok rfile"
  from written(2) free_slot_Some [OF written(3)] read_registry_ok [OF f written(1)]
  have "port_registry_ok (live_entries env r @ [new_entry slug i (rv_pid env)])"
    by (intro port_registry_ok_snoc port_registry_ok_filter) (auto simp: entry_ok_def)
  with f written(4) show ?thesis by (simp add: write_registry_ok)
qed simp

lemma deallocate_ports_ok: "file_ok rfile \<Longrightarrow> file_ok (snd (deallocate_ports env slug rfile))"
  by (auto simp: deallocate_ports_def intro: write_registry_ok port_registry_ok_filter read_registry_ok split: option.split sum.split)

text \<open>What the helpers of one user do to their registry over time.\<close>

datatype port_registry_op = AllocatePorts registry_env string | DeallocatePorts registry_env string

fun registry_step :: "port_registry_op \<Rightarrow> registry_file \<Rightarrow> registry_file" where
  "registry_step (AllocatePorts env slug) rfile = snd (allocate_ports env slug rfile)"
| "registry_step (DeallocatePorts env slug) rfile = snd (deallocate_ports env slug rfile)"

definition registry_run :: "port_registry_op list \<Rightarrow> registry_file \<Rightarrow> registry_file" where
  "registry_run ops rfile = fold registry_step ops rfile"

lemma registry_run_ok: "file_ok rfile \<Longrightarrow> file_ok (registry_run ops rfile)"
proof (induction ops arbitrary: rfile)
  case (Cons op ops)
  then show ?case by (cases op) (simp_all add: registry_run_def allocate_ports_ok deallocate_ports_ok)
qed (simp add: registry_run_def)

text \<open>
  A slug holds a slot: its entry is in the file.  Nobody else can then get the slot, and the entry
  stays for as long as its process is seen alive, its slug is not deallocated and no write is cut short.
\<close>

definition holds_slot :: "string \<Rightarrow> nat \<Rightarrow> u32 \<Rightarrow> registry_file \<Rightarrow> bool" where
  "holds_slot slug i pid rfile \<longleftrightarrow> (\<exists>r. rfile = RegistryFile r \<and> \<lparr>re_slug = slug, re_slot_index = i, re_base_port = slot_base i, re_pid = pid\<rparr> \<in> set r)"

fun cut_short :: "write_fate \<Rightarrow> bool" where
  "cut_short (CutShort _ _) = True"
| "cut_short _ = False"

fun keeps_holder :: "string \<Rightarrow> u32 \<Rightarrow> port_registry_op \<Rightarrow> bool" where
  "keeps_holder slug pid (AllocatePorts env _) \<longleftrightarrow> is_process_alive (rv_kill env) pid \<and> \<not> cut_short (rv_write env)"
| "keeps_holder slug pid (DeallocatePorts env other) \<longleftrightarrow> other \<noteq> slug \<and> \<not> cut_short (rv_write env)"

lemma write_registry_holds:
  assumes "\<not> cut_short (rv_write env)" "holds_slot slug i pid rfile" "holds_slot slug i pid (RegistryFile r)"
  shows "holds_slot slug i pid (snd (write_registry env r rfile))"
  using assms by (auto simp: write_registry_def split: write_fate.splits option.splits)

lemma holds_slot_read:
  "holds_slot slug i pid rfile \<Longrightarrow> read_registry env rfile = Ok r \<Longrightarrow>
   rfile = RegistryFile r \<and> \<lparr>re_slug = slug, re_slot_index = i, re_base_port = slot_base i, re_pid = pid\<rparr> \<in> set r"
  by (auto simp: holds_slot_def read_registry_def split: option.splits)

lemma registry_step_holds:
  assumes "keeps_holder slug pid op" "holds_slot slug i pid rfile"
  shows "holds_slot slug i pid (registry_step op rfile)"
proof (cases op)
  case (AllocatePorts env other)
  show ?thesis
  proof (cases rule: allocate_ports_cases [of env other rfile])
    case (written r j)
    have "holds_slot slug i pid (snd (write_registry env (live_entries env r @ [new_entry other j (rv_pid env)]) rfile))"
      using assms AllocatePorts holds_slot_read [OF assms(2) written(1)]
      by (intro write_registry_holds) (auto simp: holds_slot_def)
    with AllocatePorts written(4) show ?thesis by simp
  qed (use AllocatePorts assms in simp)
next
  case (DeallocatePorts env other)
  have "holds_slot slug i pid (snd (write_registry env (filter (\<lambda>e. re_slug e \<noteq> other) r) rfile))"
    if "read_registry env rfile = Ok r" for r
    using assms DeallocatePorts holds_slot_read [OF assms(2) that]
    by (intro write_registry_holds) (auto simp: holds_slot_def)
  with DeallocatePorts assms(2) show ?thesis
    by (auto simp: deallocate_ports_def split: option.split sum.split)
qed

lemma registry_run_holds:
  "list_all (keeps_holder slug pid) ops \<Longrightarrow> holds_slot slug i pid rfile \<Longrightarrow> holds_slot slug i pid (registry_run ops rfile)"
  by (induction ops arbitrary: rfile) (simp_all add: registry_run_def registry_step_holds)

lemma registry_run_append: "registry_run (xs @ ys) rfile = registry_run ys (registry_run xs rfile)"
  by (simp add: registry_run_def)

text \<open>The process whose entry a slug has.\<close>

fun registry_holder :: "string \<Rightarrow> registry_file \<Rightarrow> u32 option" where
  "registry_holder slug (RegistryFile r) = map_option re_pid (find (\<lambda>entry. re_slug entry = slug) r)"
| "registry_holder slug _ = None"

lemma find_distinct_key:
  "distinct (map f r) \<Longrightarrow> e \<in> set r \<Longrightarrow> find (\<lambda>x. f x = f e) r = Some e"
  by (induction r) (auto simp: image_iff)

lemma holds_slot_holder: "file_ok rfile \<Longrightarrow> holds_slot slug i pid rfile \<Longrightarrow> registry_holder slug rfile = Some pid"
  using find_distinct_key [of re_slug _ "new_entry slug i pid"] by (auto simp: holds_slot_def port_registry_ok_def)

lemma holds_slot_unique:
  assumes "file_ok rfile" "holds_slot s i p rfile" "holds_slot t i q rfile" shows "s = t"
proof -
  from assms obtain r where r: "distinct (map re_slot_index r)" "new_entry s i p \<in> set r" "new_entry t i q \<in> set r"
    by (auto simp: holds_slot_def port_registry_ok_def)
  from find_distinct_key [OF r(1,2)] find_distinct_key [OF r(1,3)] show ?thesis by simp
qed

lemma entry_eqI: "entry_ok e \<Longrightarrow> e = new_entry (re_slug e) (re_slot_index e) (re_pid e)"
  by (cases e) (simp add: entry_ok_def)

lemma allocate_ports_success:
  assumes "file_ok rfile" "allocate_ports env slug rfile = (Ok a, rfile')"
  shows "\<exists>i pid. i < NUM_SLOTS \<and> a = \<lparr>pa_base_port = slot_base i, pa_slot_index = i\<rparr> \<and> holds_slot slug i pid rfile'"
proof -
  from assms(2) obtain r where lock: "rv_lock env = None" and r: "read_registry env rfile = Ok r"
    by (auto simp: allocate_ports_def split: option.splits sum.splits)
  show ?thesis
  proof (cases "find (\<lambda>entry. re_slug entry = slug) (live_entries env r)")
    case (Some e)
    with read_registry_ok [OF assms(1) r] have e: "e \<in> set r" "re_slug e = slug" "entry_ok e"
      by (auto simp: port_registry_ok_def list_all_iff dest!: find_SomeD)
    from r e(1) have "rfile = RegistryFile r" by (auto simp: read_registry_def split: registry_file.splits option.splits)
    moreover from assms(2) lock r Some have "rfile' = rfile" "a = \<lparr>pa_base_port = re_base_port e, pa_slot_index = re_slot_index e\<rparr>"
      by (simp_all add: allocate_ports_def)
    moreover from e have "new_entry slug (re_slot_index e) (re_pid e) \<in> set r" using entry_eqI [OF e(3)] by simp
    ultimately show ?thesis using e(3) unfolding holds_slot_def entry_ok_def by blast
  next
    case None
    with assms(2) lock r obtain i where i: "free_slot slug (re_slot_index ` set (live_entries env r)) = Some i"
      by (auto simp: allocate_ports_def split: option.splits)
    from assms(2) lock r None i
    have "write_registry env (live_entries env r @ [new_entry slug i (rv_pid env)]) rfile = (Ok (), rfile')"
      "a = \<lparr>pa_base_port = slot_base i, pa_slot_index = i\<rparr>"
      by (auto simp: allocate_ports_def split: prod.splits sum.splits)
    then have "holds_slot slug i (rv_pid env) rfile'" "a = \<lparr>pa_base_port = slot_base i, pa_slot_index = i\<rparr>"
      by (auto simp: write_registry_def holds_slot_def split: write_fate.splits option.splits)
    with free_slot_Some [OF i] show ?thesis by blast
  qed
qed

lemma stride_unique:
  "20000 + 200 * i + x = 20000 + 200 * j + y \<Longrightarrow> x < 200 \<Longrightarrow> y < 200 \<Longrightarrow> i = j \<and> x = y" for i j x y :: nat
proof -
  assume a: "20000 + 200 * i + x = 20000 + 200 * j + y" "x < 200" "y < 200"
  then have "(200 * i + x) div 200 = (200 * j + y) div 200" by simp
  with a have "i = j" by (simp add: div_mult_self4)
  with a show ?thesis by simp
qed

lemma block_disjoint:
  assumes "i < NUM_SLOTS" "j < NUM_SLOTS"
    and "alloc_port \<lparr>pa_base_port = slot_base i, pa_slot_index = i\<rparr> m = alloc_port \<lparr>pa_base_port = slot_base j, pa_slot_index = j\<rparr> n"
  shows "i = j \<and> m = n"
proof -
  have "20000 + 200 * i + unat (port_offset m) = 20000 + 200 * j + unat (port_offset n)"
    unfolding alloc_port_unat [OF assms(1), symmetric] alloc_port_unat [OF assms(2), symmetric] assms(3) by (rule refl)
  from stride_unique [OF this port_offset_less port_offset_less]
  have "i = j" "unat (port_offset m) = unat (port_offset n)" by simp_all
  then show ?thesis using injD [OF port_offset_inj, of m n] by (simp add: word_unat_eq_iff)
qed

text \<open>An allocation records the helper that makes it, or leaves the registry alone.\<close>

lemma allocate_ports_records:
  assumes "allocate_ports env s rfile = (Ok a, f1)" and "registry_holder s f1 = Some pid"
  shows "pid = rv_pid env \<or> f1 = rfile"
proof (cases rule: allocate_ports_cases [of env s rfile])
  case (written r i)
  have "find (\<lambda>entry. re_slug entry = s) (xs @ [new_entry s i (rv_pid env)]) = Some (new_entry s i (rv_pid env))"
    if "s \<notin> re_slug ` set xs" for xs
    using that by (induction xs) auto
  from this [OF written(2)] have "find (\<lambda>entry. re_slug entry = s) (live_entries env r @ [new_entry s i (rv_pid env)]) = Some (new_entry s i (rv_pid env))" .
  moreover have "f1 = rfile \<or> f1 = RegistryFile (live_entries env r @ [new_entry s i (rv_pid env)]) \<or> registry_holder s f1 = None"
    using written(4) assms(1) by (auto simp: write_registry_def split: write_fate.splits option.splits)
  ultimately show ?thesis using assms(2) by auto
qed (use assms(1) in simp)

text \<open>
  C37.  Whatever the helpers of a user did before, the ports that an allocation gives to a slug lie in 20000 to 29999,
  differ from each other, and are given to no other slug by any later sequence of allocations and
  deallocations in which the process that the registry records for the slug is seen alive, the slug is not deallocated
  and no write of the registry is cut short.  The process recorded is the helper that made the allocation, unless the
  slug already had an entry: then the registry stays as it is, and records whoever it recorded before.
\<close>

theorem allocated_ports_exclusive:
  assumes "allocate_ports env s (registry_run before NoFile) = (Ok a, f1)"
    and "registry_holder s f1 = Some pid"
    and "list_all (keeps_holder s pid) later"
    and "keeps_holder s pid (AllocatePorts env2 t)"
    and "allocate_ports env2 t (registry_run later f1) = (Ok b, f2)"
    and "t \<noteq> s"
  shows "alloc_port a m \<noteq> alloc_port b n \<and> unat (alloc_port a m) \<in> {20000..29999} \<and> (k \<noteq> m \<longrightarrow> alloc_port a k \<noteq> alloc_port a m)
    \<and> registry_holder s f2 = Some pid \<and> (pid = rv_pid env \<or> f1 = registry_run before NoFile)"
proof -
  have recorded: "pid = rv_pid env \<or> f1 = registry_run before NoFile" by (rule allocate_ports_records [OF assms(1,2)])
  have f0: "file_ok (registry_run before NoFile)" by (simp add: registry_run_ok)
  with allocate_ports_ok [of _ env s] assms(1) have f1: "file_ok f1" by (metis snd_conv)
  from allocate_ports_success [OF f0 assms(1)] assms(2) f1 obtain i where
    i: "i < NUM_SLOTS" "a = \<lparr>pa_base_port = slot_base i, pa_slot_index = i\<rparr>" "holds_slot s i pid f1"
    by (auto dest: holds_slot_holder)
  have f: "file_ok (registry_run later f1)" using f1 by (rule registry_run_ok)
  with allocate_ports_ok [of _ env2 t] assms(5) have f2: "file_ok f2" by (metis snd_conv)
  from allocate_ports_success [OF f assms(5)] obtain j q where
    j: "j < NUM_SLOTS" "b = \<lparr>pa_base_port = slot_base j, pa_slot_index = j\<rparr>" "holds_slot t j q f2" by blast
  have "holds_slot s i pid f2"
    using registry_step_holds [OF assms(4) registry_run_holds [OF assms(3) i(3)]] assms(5) by simp
  then have "registry_holder s f2 = Some pid" using holds_slot_holder [OF f2] by blast
  moreover have "i \<noteq> j" using holds_slot_unique [OF f2 _ j(3)] assms(6) \<open>holds_slot s i pid f2\<close> by blast
  moreover note block_disjoint [OF i(1) j(1), of m n] block_disjoint [OF i(1) i(1), of k m]
  moreover have "unat (alloc_port a m) \<in> {20000..29999}"
    using alloc_port_unat [OF i(1), of m] port_offset_less [of m] i(1,2) by (simp add: NUM_SLOTS_def)
  ultimately show ?thesis using i(2) j(2) recorded by blast
qed

abbreviation "demo_registry_env pid \<equiv> \<lparr>rv_path = ''r'', rv_kill = (\<lambda>p. 0 < p), rv_pid = pid, rv_lock = None,
  rv_read = None, rv_write = Written\<rparr>"

lemma find_first: "xs \<noteq> [] \<Longrightarrow> p (hd xs) \<Longrightarrow> find p xs = Some (hd xs)"
  by (cases xs) simp_all

lemma free_slot_preferred: "preferred_index slug \<notin> used \<Longrightarrow> free_slot slug used = Some (preferred_index slug)"
  using preferred_index_less [of slug]
  unfolding free_slot_def by (subst find_first) (simp_all add: hd_map upt_conv_Cons NUM_SLOTS_def)

lemma demo_preferred: "preferred_index ''b'' = 21" "preferred_index ''c'' = 22"
  by (simp_all add: preferred_index_def djb2_def NUM_SLOTS_def byte_of_def)

lemma demo_base: "slot_base 21 = 24200" "slot_base 22 = 24400"
  by (simp_all add: slot_base_def PORT_RANGE_START_def STRIDE_def)

lemma demo_first_allocation:
  "allocate_ports (demo_registry_env 100) ''b'' NoFile
   = (Ok \<lparr>pa_base_port = 24200, pa_slot_index = 21\<rparr>, RegistryFile [new_entry ''b'' 21 100])"
  using free_slot_preferred [of "''b''" "{}"]
  by (simp add: allocate_ports_def read_registry_def write_registry_def demo_preferred demo_base)

lemma demo_second_allocation:
  "allocate_ports (demo_registry_env 200) ''c'' (RegistryFile [new_entry ''b'' 21 100])
   = (Ok \<lparr>pa_base_port = 24400, pa_slot_index = 22\<rparr>, RegistryFile [new_entry ''b'' 21 100, new_entry ''c'' 22 200])"
  using free_slot_preferred [of "''c''" "{21}"]
  by (simp add: allocate_ports_def read_registry_def write_registry_def is_process_alive_def demo_preferred demo_base)

theorem allocated_ports_exclusive_witness:
  "\<exists>a b f1 f2. allocate_ports (demo_registry_env 100) ''b'' NoFile = (Ok a, f1)
     \<and> allocate_ports (demo_registry_env 200) ''c'' f1 = (Ok b, f2)
     \<and> alloc_port a K8S_API \<noteq> alloc_port b AC_HTTP \<and> registry_holder ''b'' f2 = Some 100"
proof -
  note first = demo_first_allocation and second = demo_second_allocation
  have run: "registry_run [] f = f" for f by (simp add: registry_run_def)
  have "registry_holder ''b'' (RegistryFile [new_entry ''b'' 21 100]) = Some 100" by simp
  from allocated_ports_exclusive [of "demo_registry_env 100" "''b''" "[]" _ _ _ "[]" _ _ _ _ K8S_API AC_HTTP, unfolded run, OF first this _ _ second]
  show ?thesis using first second by (simp add: is_process_alive_def)
qed

text \<open>
  A helper that is given an entry which is already there is not recorded in it.  Below, a process has the
  identifier 100 of an earlier helper; the helper 300 gets its ports, and when the process 100 ends, a
  helper of another slug gets the same ports although 300 is alive.
\<close>

lemma live_helper_loses_slot:
  "allocate_ports (demo_registry_env 300) ''b'' (RegistryFile [new_entry ''b'' 21 100])
     = (Ok \<lparr>pa_base_port = 24200, pa_slot_index = 21\<rparr>, RegistryFile [new_entry ''b'' 21 100])"
  "fst (allocate_ports ((demo_registry_env 400)\<lparr>rv_kill := \<lambda>p. p = 300\<rparr>) ''0'' (RegistryFile [new_entry ''b'' 21 100]))
     = Ok \<lparr>pa_base_port = 24200, pa_slot_index = 21\<rparr>"
proof -
  have "preferred_index ''0'' = 21" by (simp add: preferred_index_def djb2_def NUM_SLOTS_def byte_of_def)
  then show "fst (allocate_ports ((demo_registry_env 400)\<lparr>rv_kill := \<lambda>p. p = 300\<rparr>) ''0'' (RegistryFile [new_entry ''b'' 21 100]))
      = Ok \<lparr>pa_base_port = 24200, pa_slot_index = 21\<rparr>"
    using free_slot_preferred [of "''0''" "{}"]
    by (simp add: allocate_ports_def read_registry_def write_registry_def is_process_alive_def demo_base)
qed (simp add: allocate_ports_def read_registry_def is_process_alive_def demo_base)

text \<open>Without faults an allocation fails only when fifty live helpers hold the fifty slots.\<close>

lemma allocate_ports_succeeds:
  assumes "rv_lock env = None" "rv_read env = None" "rv_write env = Written"
  shows "(\<exists>a. fst (allocate_ports env slug (RegistryFile r)) = Ok a)
     \<longleftrightarrow> slug \<in> re_slug ` set (live_entries env r) \<or> \<not> {..<NUM_SLOTS} \<subseteq> re_slot_index ` set (live_entries env r)"
proof -
  have "slug \<in> re_slug ` set (live_entries env r) \<longleftrightarrow> find (\<lambda>e. re_slug e = slug) (live_entries env r) \<noteq> None"
    by (auto simp: find_None_iff)
  moreover have "read_registry env (RegistryFile r) = Ok r" using assms by (simp add: read_registry_def)
  ultimately show ?thesis using assms free_slot_None [of slug "re_slot_index ` set (live_entries env r)"]
    by (auto simp: allocate_ports_def write_registry_def simp del: set_filter split: option.split)
qed

text \<open>
  An entry belongs to the helper's process and not to the cluster, which goes on when the helper
  ends.  The next helper whose slug prefers the slot then gets the ports of the running cluster, and
  the check that the ports are free passes: it connects to 127.0.0.1 while the cluster listens on
  the gateway's address.
\<close>

lemma running_cluster_ports_reused:
  assumes holder: "allocate_ports env s (RegistryFile r) = (Ok a, RegistryFile r')" "port_registry_ok r" "registry_holder s (RegistryFile r') = Some pid"
    and gone: "\<not> is_process_alive (rv_kill env2) pid"
    and newcomer: "preferred_index t = pa_slot_index a" "t \<notin> re_slug ` set r'"
      "rv_lock env2 = None" "rv_read env2 = None" "rv_write env2 = Written"
    and listening: "\<And>tr addr port. accepts tr addr port \<Longrightarrow> addr = gateway" "gateway \<noteq> ''127.0.0.1''"
  shows "fst (allocate_ports env2 t (RegistryFile r')) = Ok a \<and> verify_ports_available accepts a = Ok ()"
proof -
  have r': "port_registry_ok r'" using allocate_ports_ok [of "RegistryFile r" env s] holder(1,2) by simp
  from allocate_ports_success [OF _ holder(1)] holder(2) obtain i q where
    i: "i < NUM_SLOTS" "a = \<lparr>pa_base_port = slot_base i, pa_slot_index = i\<rparr>" "holds_slot s i q (RegistryFile r')" by auto
  from holds_slot_holder [OF _ i(3)] r' holder(3) have "q = pid" by (simp del: registry_holder.simps)
  have "i \<notin> re_slot_index ` set (live_entries env2 r')"
  proof
    assume "i \<in> re_slot_index ` set (live_entries env2 r')"
    then obtain e where e: "e \<in> set r'" "re_slot_index e = i" "is_process_alive (rv_kill env2) (re_pid e)" by auto
    from i(3) have "new_entry s i q \<in> set r'" by (simp add: holds_slot_def)
    moreover have d: "distinct (map re_slot_index r')" using r' by (simp add: port_registry_ok_def)
    ultimately have "e = new_entry s i q" using find_distinct_key [OF d e(1)] find_distinct_key [OF d, of "new_entry s i q"] e(2) by simp
    with e(3) gone \<open>q = pid\<close> show False by simp
  qed
  then have free: "free_slot t (re_slot_index ` set (live_entries env2 r')) = Some i"
    using free_slot_preferred [of t] newcomer(1) i(2) by simp
  have "find (\<lambda>e. re_slug e = t) (live_entries env2 r') = None" using newcomer(2) by (auto simp: find_None_iff)
  with free newcomer i(2) have "fst (allocate_ports env2 t (RegistryFile r')) = Ok a"
    by (simp add: allocate_ports_def read_registry_def write_registry_def del: set_filter)
  moreover have "verify_ports_available accepts a = Ok ()"
    using listening by (auto simp: verify_ports_available_def is_port_available_def find_None_iff split: option.split dest!: find_SomeD)
  ultimately show ?thesis ..
qed

section \<open>What a template becomes\<close>

text \<open>
  A template is plain text with named holes.  The substitution fills each hole it has a value for and
  leaves the others and the text alone, and so does not depend on the order in which the map is
  visited, as long as neither text nor values contain a dollar sign.
\<close>

datatype piece = Plain string | Hole string

fun render :: "piece \<Rightarrow> string" where
  "render (Plain s) = s"
| "render (Hole key) = placeholder key"

fun fill :: "(string, string) hmap \<Rightarrow> piece \<Rightarrow> string" where
  "fill vars (Plain s) = s"
| "fill vars (Hole key) = (case hm_get vars key of Some value \<Rightarrow> value | None \<Rightarrow> placeholder key)"

definition hole_key_ok :: "string \<Rightarrow> bool" where
  "hole_key_ok key \<longleftrightarrow> CHR ''$'' \<notin> set key \<and> CHR ''}'' \<notin> set key"

fun piece_ok :: "piece \<Rightarrow> bool" where
  "piece_ok (Plain s) \<longleftrightarrow> CHR ''$'' \<notin> set s"
| "piece_ok (Hole key) \<longleftrightarrow> hole_key_ok key"

lemma placeholder_Cons: "placeholder key = CHR ''$'' # CHR ''{'' # key @ ''}''"
  by (simp add: placeholder_def)

lemma replace_all_plain:
  "CHR ''$'' \<notin> set s \<Longrightarrow> replace_all (placeholder key) v (s @ t) = s @ replace_all (placeholder key) v t"
  by (induction s) (auto simp: placeholder_Cons)

lemma replace_all_hole: "replace_all (placeholder key) v (placeholder key @ t) = v @ replace_all (placeholder key) v t"
  by (simp add: placeholder_Cons)

lemma hole_prefix:
  assumes "hole_key_ok key" "hole_key_ok other" "prefix (placeholder key) (placeholder other @ t)" shows "key = other"
proof -
  from assms(3) obtain u where u: "key @ ''}'' @ u = other @ ''}'' @ t"
    by (auto simp: placeholder_Cons prefix_def)
  have "takeWhile (\<lambda>c. c \<noteq> CHR ''}'') (k @ ''}'' @ w) = k" if "hole_key_ok k" for k w
    using that by (subst takeWhile_append2) (auto simp: hole_key_ok_def)
  from this [OF assms(1), of u] this [OF assms(2), of t] u show ?thesis by simp
qed

lemma replace_all_other:
  assumes "hole_key_ok key" "hole_key_ok other" "key \<noteq> other"
  shows "replace_all (placeholder key) v (placeholder other @ t) = placeholder other @ replace_all (placeholder key) v t"
proof -
  have "\<not> prefix (placeholder key) (placeholder other @ t)" using hole_prefix assms by blast
  moreover have "CHR ''$'' \<notin> set (tl (placeholder other))" using assms(2) by (simp add: placeholder_Cons hole_key_ok_def)
  ultimately show ?thesis
    using replace_all_plain [of "tl (placeholder other)" key v t] by (simp add: placeholder_Cons)
qed

fun fill_one :: "string \<Rightarrow> string \<Rightarrow> piece \<Rightarrow> piece" where
  "fill_one key v (Plain s) = Plain s"
| "fill_one key v (Hole k) = (if k = key then Plain v else Hole k)"

lemma replace_all_pieces:
  "list_all piece_ok ps \<Longrightarrow> hole_key_ok key \<Longrightarrow>
   replace_all (placeholder key) v (concat (map render ps)) = concat (map (render \<circ> fill_one key v) ps)"
proof (induction ps)
  case (Cons p ps)
  then show ?case
    by (cases p) (auto simp: replace_all_plain replace_all_hole replace_all_other)
qed simp

lemma substitute_template_fills:
  assumes "list_all piece_ok ps" "\<And>key v. (key, v) \<in> set vars \<Longrightarrow> hole_key_ok key \<and> CHR ''$'' \<notin> set v"
  shows "substitute_template (concat (map render ps)) vars = concat (map (fill vars) ps)"
  using assms
proof (induction vars arbitrary: ps)
  case Nil
  have "fill [] = render" by (rule ext, case_tac x) simp_all
  then show ?case by (simp add: substitute_template_def)
next
  case (Cons kv vars)
  obtain key v where kv: "kv = (key, v)" by (cases kv)
  with Cons.prems(2) [of key v] have ok: "hole_key_ok key" "CHR ''$'' \<notin> set v" by simp_all
  have "piece_ok p \<Longrightarrow> piece_ok (fill_one key v p)" for p using ok by (cases p) simp_all
  with Cons.prems(1) have ps: "list_all piece_ok (map (fill_one key v) ps)" by (auto simp: list_all_iff)
  have "fill vars (fill_one key v p) = fill (kv # vars) p" for p by (cases p) (simp_all add: kv hm_get_def)
  then have "fill vars \<circ> fill_one key v = fill (kv # vars)" by (simp add: fun_eq_iff)
  moreover have "substitute_template (concat (map render (map (fill_one key v) ps))) vars
      = concat (map (fill vars) (map (fill_one key v) ps))"
    by (intro Cons.IH [OF ps] Cons.prems(2)) simp
  ultimately show ?case using replace_all_pieces [OF Cons.prems(1) ok(1), of v]
    by (simp add: substitute_template_def kv comp_def)
qed

lemma show_nat_digits: "set (show_nat n) \<subseteq> set ''0123456789''"
proof (induction n rule: show_nat.induct)
  case (1 n)
  have "''0123456789'' ! k \<in> set ''0123456789''" if "k < 10" for k :: nat
    using that by (intro nth_mem) simp
  with 1 show ?case by (subst show_nat.simps) auto
qed

lemma template_env_vars_ok:
  assumes "CHR ''$'' \<notin> set gateway" "(key, v) \<in> set (template_env_vars alloc gateway)"
  shows "hole_key_ok key \<and> CHR ''$'' \<notin> set v"
proof -
  have ins: "set (hm_insert k w m) \<subseteq> insert (k, w) (set m)" for k :: string and w :: string and m
    unfolding hm_insert_def by (induction m) auto
  have "set (fold (\<lambda>(var, name). hm_insert var (show_nat (f name))) xs m)
      \<subseteq> (\<lambda>(var, name). (var, show_nat (f name))) ` set xs \<union> set m" for xs :: "(string \<times> port_name) list" and f m
    by (induction xs arbitrary: m) (use ins in \<open>fastforce\<close>)+
  note this [of "\<lambda>name. unat (alloc_port alloc name)" template_ports "[(''HOST_GATEWAY_IP'', gateway)]"]
  with assms(2) have "(key, v) \<in> (\<lambda>(var, name). (var, show_nat (unat (alloc_port alloc name)))) ` set template_ports
      \<or> (key, v) = (''HOST_GATEWAY_IP'', gateway)"
    unfolding template_env_vars_def by (auto simp: hm_insert_def)
  moreover have "list_all (\<lambda>(var, name). hole_key_ok var) template_ports" by code_simp
  ultimately show ?thesis using assms(1) show_nat_digits by (auto simp: list_all_iff hole_key_ok_def)
qed

end
