(* ===== verification/Helper_Protocol.thy ===== *)
theory Helper_Protocol
  imports Helper_Ports
begin

text \<open>
  The socket protocol of the devloop helper: authentication (auth.rs), requests, commands and
  answers (protocol.rs) and the audit log (logging.rs).  JSON texts are read and written by
  serde_json, which is a parameter where a text is read; a message to the client or the log is the
  value that is written.
\<close>

section \<open>Authentication\<close>

text \<open>\<open>generate_token\<close>: 32 bytes of the system's generator in hexadecimal (the \<open>hex\<close> crate is a parameter).\<close>

definition helper_generate_token :: "(u8 list \<Rightarrow> string) \<Rightarrow> u8 list option \<Rightarrow> (string, HelperError) result" where
  "helper_generate_token hex_encode rng =
     (case rng of
        None \<Rightarrow> Err (CommandFailed ''generate-token'' ''CSPRNG failure'')
      | Some bytes \<Rightarrow> Ok (hex_encode bytes))"

definition byte :: "char \<Rightarrow> u8" where
  "byte c = of_nat (byte_of c)"

text \<open>
  The comparison looks at every byte; only the accumulated difference decides.  With different
  lengths it runs over the first text all the same, and then says no.
\<close>

definition xor_acc :: "(u8 \<times> u8) list \<Rightarrow> u8 \<Rightarrow> u8" where
  "xor_acc pairs acc = fold (\<lambda>(a, b) acc. or acc (xor a b)) pairs acc"

definition constant_time_eq :: "string \<Rightarrow> string \<Rightarrow> bool" where
  "constant_time_eq a b =
     (if length a \<noteq> length b
      then (let acc = xor_acc (map (\<lambda>i. (byte (a ! i), if i < length b then byte (b ! i) else 0xFF)) [0..<length a]) 1
            in False)
      else xor_acc (zip (map byte a) (map byte b)) 0 = 0)"

definition helper_validate_token :: "string \<Rightarrow> string \<Rightarrow> (unit, HelperError) result" where
  "helper_validate_token provided expected = (if \<not> constant_time_eq provided expected then Err AuthFailed else Ok ())"

section \<open>Commands\<close>

definition MAX_REQUEST_SIZE :: nat where "MAX_REQUEST_SIZE = 1048576"

datatype Service = Ac | Gc | Mc | Mh

definition service_all :: "Service list" where
  "service_all = [Ac, Gc, Mc, Mh]"

fun service_str :: "Service \<Rightarrow> string" where
  "service_str Ac = ''ac''"
| "service_str Gc = ''gc''"
| "service_str Mc = ''mc''"
| "service_str Mh = ''mh''"

fun image_tag :: "Service \<Rightarrow> string" where
  "image_tag Ac = ''localhost/ac-service:latest''"
| "image_tag Gc = ''localhost/gc-service:latest''"
| "image_tag Mc = ''localhost/mc-service:latest''"
| "image_tag Mh = ''localhost/mh-service:latest''"

fun dockerfile :: "Service \<Rightarrow> string" where
  "dockerfile Ac = ''infra/docker/ac-service/Dockerfile''"
| "dockerfile Gc = ''infra/docker/gc-service/Dockerfile''"
| "dockerfile Mc = ''infra/docker/mc-service/Dockerfile''"
| "dockerfile Mh = ''infra/docker/mh-service/Dockerfile''"

definition service_from_str :: "string \<Rightarrow> (Service, HelperError) result" where
  "service_from_str s =
     (if s = ''ac'' then Ok Ac
      else if s = ''gc'' then Ok Gc
      else if s = ''mc'' then Ok Mc
      else if s = ''mh'' then Ok Mh
      else Err (InvalidService s))"

datatype HelperCommand = Setup bool | Rebuild Service | RebuildAll | Deploy Service | Teardown | Status | Cancel

fun command_name :: "HelperCommand \<Rightarrow> string" where
  "command_name (Setup _) = ''setup''"
| "command_name (Rebuild _) = ''rebuild''"
| "command_name RebuildAll = ''rebuild-all''"
| "command_name (Deploy _) = ''deploy''"
| "command_name Teardown = ''teardown''"
| "command_name Status = ''status''"
| "command_name Cancel = ''cancel''"

fun args_for_log :: "HelperCommand \<Rightarrow> string list" where
  "args_for_log (Setup skip_observability) = (if skip_observability then [''--skip-observability''] else [])"
| "args_for_log (Rebuild svc) = [service_str svc]"
| "args_for_log (Deploy svc) = [service_str svc]"
| "args_for_log _ = []"

fun is_write :: "HelperCommand \<Rightarrow> bool" where
  "is_write Status = False"
| "is_write Cancel = False"
| "is_write _ = True"

section \<open>Requests\<close>

record Request =
  rq_token :: string
  rq_command :: string
  rq_service :: "string option"
  rq_skip_observability :: bool

text \<open>
  The derived reader of a request: an object without unknown or repeated fields, or the array of the
  fields in order; the last two may be left out.
\<close>

fun opt_str :: "json \<Rightarrow> string option option" where
  "opt_str JNull = Some None"
| "opt_str (JStr s) = Some (Some s)"
| "opt_str _ = None"

definition make_request :: "json option \<Rightarrow> json option \<Rightarrow> json option \<Rightarrow> json option \<Rightarrow> Request option" where
  "make_request token command service skip =
     (case (Option.bind token as_str, Option.bind command as_str,
            case service of None \<Rightarrow> Some None | Some j \<Rightarrow> opt_str j,
            case skip of None \<Rightarrow> Some False | Some j \<Rightarrow> as_bool j) of
        (Some t, Some c, Some s, Some b) \<Rightarrow> Some \<lparr>rq_token = t, rq_command = c, rq_service = s, rq_skip_observability = b\<rparr>
      | _ \<Rightarrow> None)"

fun request_of_json :: "json \<Rightarrow> Request option" where
  "request_of_json (JObj m) =
     (if distinct (map fst m) \<and> list_all (\<lambda>k. k \<in> {''token'', ''command'', ''service'', ''skip_observability''}) (map fst m)
      then make_request (hm_get m ''token'') (hm_get m ''command'') (hm_get m ''service'') (hm_get m ''skip_observability'')
      else None)"
| "request_of_json (JArr [t, c]) = make_request (Some t) (Some c) None None"
| "request_of_json (JArr [t, c, s]) = make_request (Some t) (Some c) (Some s) None"
| "request_of_json (JArr [t, c, s, b]) = make_request (Some t) (Some c) (Some s) (Some b)"
| "request_of_json _ = None"

text \<open>\<open>{b:02x}\<close>.\<close>

definition hex2 :: "nat \<Rightarrow> string" where
  "hex2 n = [''0123456789abcdef'' ! (n div 16 mod 16), ''0123456789abcdef'' ! (n mod 16)]"

definition is_control :: "char \<Rightarrow> bool" where
  "is_control c \<longleftrightarrow> byte_of c < 0x20 \<or> byte_of c = 0x7f"

definition validate_no_control_chars :: "string \<Rightarrow> string \<Rightarrow> (unit, HelperError) result" where
  "validate_no_control_chars s field_name =
     (case find (\<lambda>(i, b). is_control b) (enumerate 0 s) of
        Some (i, b) \<Rightarrow> Err (InvalidRequest (field_name @ '' contains control character at byte '' @ show_nat i
                            @ '' (0x'' @ hex2 (byte_of b) @ '')''))
      | None \<Rightarrow> Ok ())"

definition no_service :: "Request \<Rightarrow> HelperCommand \<Rightarrow> (HelperCommand, HelperError) result" where
  "no_service req cmd =
     (if rq_service req \<noteq> None
      then Err (InvalidRequest (command_name cmd @ '' command does not accept a service argument''))
      else Ok cmd)"

definition needs_service :: "Request \<Rightarrow> (Service \<Rightarrow> HelperCommand) \<Rightarrow> (HelperCommand, HelperError) result" where
  "needs_service req cmd =
     (case rq_service req of
        None \<Rightarrow> Err (InvalidRequest (rq_command req @ '' command requires a service argument''))
      | Some s \<Rightarrow> (case service_from_str s of Err e \<Rightarrow> Err e | Ok svc \<Rightarrow> Ok (cmd svc)))"

definition command_of :: "Request \<Rightarrow> (HelperCommand, HelperError) result" where
  "command_of req =
     (let c = rq_command req in
      if c = ''setup'' then no_service req (Setup (rq_skip_observability req))
      else if c = ''rebuild'' then needs_service req Rebuild
      else if c = ''rebuild-all'' then no_service req RebuildAll
      else if c = ''deploy'' then needs_service req Deploy
      else if c = ''teardown'' then no_service req Teardown
      else if c = ''status'' then no_service req Status
      else if c = ''cancel''
      then (case no_service req Cancel of
              Err e \<Rightarrow> Err e
            | Ok cmd \<Rightarrow> if rq_skip_observability req
                       then Err (InvalidRequest ''cancel command does not accept --skip-observability'') else Ok cmd)
      else Err (InvalidCommand c))"

definition parse_command :: "Request \<Rightarrow> (HelperCommand, HelperError) result" where
  "parse_command req =
     (case validate_no_control_chars (rq_command req) ''command'' of
        Err e \<Rightarrow> Err e
      | Ok _ \<Rightarrow>
        (case validate_no_control_chars (rq_token req) ''token'' of
           Err e \<Rightarrow> Err e
         | Ok _ \<Rightarrow>
           (case rq_service req of
              None \<Rightarrow> command_of req
            | Some svc \<Rightarrow> (case validate_no_control_chars svc ''service'' of Err e \<Rightarrow> Err e | Ok _ \<Rightarrow> command_of req))))"

section \<open>Answers\<close>

record Response =
  rp_success :: bool
  rp_message :: string
  rp_error_kind :: "string option"
  rp_data :: "json option"

fun busy_data :: "HelperError \<Rightarrow> json option" where
  "busy_data (Busy op args) = Some (JObj [(''op'', JStr op), (''args'', JArr (map JStr args))])"
| "busy_data _ = None"

definition response_err :: "HelperError \<Rightarrow> Response" where
  "response_err e = \<lparr>rp_success = False, rp_message = helper_error_text e,
     rp_error_kind = Some (helper_error_kind e), rp_data = busy_data e\<rparr>"

definition MAX_LINE_LEN :: nat where "MAX_LINE_LEN = 65536"

datatype StreamKind = StreamOut | StreamErr

record StreamLine =
  sl_stream :: StreamKind
  sl_line :: string
  sl_ts :: string

record CommandResult =
  cr_ok :: bool
  cr_exit_code :: "int option"
  cr_duration_ms :: u64
  cr_error :: "string option"
  cr_error_kind :: "string option"
  cr_data :: "json option"

text \<open>\<open>is_char_boundary\<close>: the ends of the text, and every byte that does not continue a character.\<close>

definition is_char_boundary :: "string \<Rightarrow> nat \<Rightarrow> bool" where
  "is_char_boundary s i \<longleftrightarrow> i = 0 \<or> i = length s \<or> i < length s \<and> \<not> (128 \<le> byte_of (s ! i) \<and> byte_of (s ! i) < 192)"

fun boundary_before :: "string \<Rightarrow> nat \<Rightarrow> nat" where
  "boundary_before s end = (if 0 < end \<and> \<not> is_char_boundary s end then boundary_before s (end - 1) else end)"

declare boundary_before.simps [simp del]

definition truncate_line :: "string \<Rightarrow> nat \<Rightarrow> string" where
  "truncate_line line max_len =
     (if length line \<le> max_len then line
      else take (boundary_before line max_len) line @ '' [truncated]'')"

section \<open>The audit log\<close>

definition OUTCOME_COMPLETED :: string where "OUTCOME_COMPLETED = ''completed''"
definition OUTCOME_CANCELLED :: string where "OUTCOME_CANCELLED = ''cancelled''"
definition OUTCOME_ERROR :: string where "OUTCOME_ERROR = ''error''"
definition OUTCOME_REJECTED :: string where "OUTCOME_REJECTED = ''rejected''"
definition OUTCOME_NO_OP :: string where "OUTCOME_NO_OP = ''no-op''"

record LogEntry =
  le_cmd :: string
  le_args :: "string list"
  le_duration_ms :: "u64 option"
  le_exit_code :: "int option"
  le_error :: "string option"
  le_outcome :: "string option"

definition log_startup :: "string \<Rightarrow> string \<Rightarrow> u32 \<Rightarrow> LogEntry" where
  "log_startup cluster_name socket_path pid =
     \<lparr>le_cmd = ''startup'', le_args = [''cluster='' @ cluster_name, ''socket='' @ socket_path, ''pid='' @ show_nat (unat pid)],
      le_duration_ms = None, le_exit_code = None, le_error = None, le_outcome = None\<rparr>"

definition log_command :: "string \<Rightarrow> string list \<Rightarrow> u64 \<Rightarrow> int \<Rightarrow> string option \<Rightarrow> string option \<Rightarrow> LogEntry" where
  "log_command cmd args duration_ms exit_code err outcome =
     \<lparr>le_cmd = cmd, le_args = args, le_duration_ms = Some duration_ms, le_exit_code = Some exit_code,
      le_error = err, le_outcome = outcome\<rparr>"

section \<open>What holds of the protocol\<close>

lemma byte_inj: "byte a = byte b \<longleftrightarrow> a = b"
proof -
  have "byte_of c < 2 ^ 8" for c by (simp add: byte_of_def)
  then have "unat (byte c) = byte_of c" for c unfolding byte_def unat_of_nat by simp
  then show ?thesis by (metis byte_of_def char_of_char)
qed

lemma xor_zero: "xor a b = 0 \<longleftrightarrow> a = b" for a b :: u8
  by (auto simp: bit_eq_iff bit_xor_iff)

lemma xor_acc_zero: "xor_acc pairs acc = 0 \<longleftrightarrow> acc = 0 \<and> list_all (\<lambda>(a, b). a = b) pairs"
proof (induction pairs arbitrary: acc)
  case (Cons p pairs)
  then show ?case by (cases p) (simp add: xor_acc_def or_eq_0_iff xor_zero)
qed (simp add: xor_acc_def)

text \<open>The comparison that always looks at every byte is equality of the two texts.\<close>

lemma constant_time_eq_iff: "constant_time_eq a b \<longleftrightarrow> a = b"
proof (cases "length a = length b")
  case True
  have "list_all (\<lambda>(x, y). x = y) (zip (map byte a) (map byte b)) \<longleftrightarrow> a = b"
    using True by (induction a b rule: list_induct2) (auto simp: byte_inj)
  with True show ?thesis by (simp add: constant_time_eq_def xor_acc_zero)
qed (auto simp: constant_time_eq_def)

lemma helper_validate_token_iff: "helper_validate_token provided expected = Ok () \<longleftrightarrow> provided = expected"
  by (simp add: helper_validate_token_def constant_time_eq_iff)

lemma service_roundtrip: "service_from_str s = Ok svc \<longleftrightarrow> s = service_str svc"
  by (cases svc) (auto simp: service_from_str_def)

lemma validate_no_control_chars_iff: "validate_no_control_chars s f = Ok () \<longleftrightarrow> list_all (\<lambda>c. \<not> is_control c) s"
proof -
  have "snd ` set (enumerate 0 s) = set s" unfolding set_map [symmetric] map_snd_enumerate ..
  then have "(\<exists>p\<in>set (enumerate 0 s). is_control (snd p)) \<longleftrightarrow> (\<exists>c\<in>set s. is_control c)"
    by force
  then show ?thesis
    by (auto simp: validate_no_control_chars_def find_None_iff list_all_iff case_prod_unfold split: option.split dest!: find_SomeD)
qed

text \<open>The fields a command is sent with.\<close>

fun request_service :: "HelperCommand \<Rightarrow> string option" where
  "request_service (Rebuild svc) = Some (service_str svc)"
| "request_service (Deploy svc) = Some (service_str svc)"
| "request_service _ = None"

fun request_skip :: "HelperCommand \<Rightarrow> bool \<Rightarrow> bool" where
  "request_skip (Setup skip) b \<longleftrightarrow> b = skip"
| "request_skip Cancel b \<longleftrightarrow> \<not> b"
| "request_skip _ b \<longleftrightarrow> True"

lemma no_service_ok: "no_service req cmd = Ok c \<longleftrightarrow> c = cmd \<and> rq_service req = None"
  by (auto simp: no_service_def)

lemma needs_service_ok: "needs_service req cmd = Ok c \<longleftrightarrow> (\<exists>svc. rq_service req = Some (service_str svc) \<and> c = cmd svc)"
  by (auto simp: needs_service_def service_roundtrip split: option.splits sum.splits)
     (metis service_roundtrip sum.distinct(1), metis Inr_inject service_roundtrip)

lemma command_of_ok:
  "command_of req = Ok c \<longleftrightarrow> rq_command req = command_name c \<and> rq_service req = request_service c
     \<and> request_skip c (rq_skip_observability req)"
proof -
  have "(case no_service req Cancel of Err e \<Rightarrow> Err e | Ok cmd \<Rightarrow> if b then Err x else Ok cmd) = Ok c
      \<longleftrightarrow> rq_service req = None \<and> c = Cancel \<and> \<not> b" for b x
    by (auto simp: no_service_def)
  then show ?thesis by (cases c) (auto simp: command_of_def Let_def no_service_ok needs_service_ok)
qed

text \<open>
  A request is accepted as a command exactly when it is what that command is sent as, without control
  characters: no other text reaches the code that runs programs.
\<close>

lemma parse_command_ok:
  "parse_command req = Ok c \<longleftrightarrow> rq_command req = command_name c \<and> rq_service req = request_service c
     \<and> request_skip c (rq_skip_observability req) \<and> list_all (\<lambda>ch. \<not> is_control ch) (rq_token req)"
proof -
  have names: "list_all (\<lambda>ch. \<not> is_control ch) (command_name c)"
    by (cases c) (simp_all add: is_control_def byte_of_def)
  have services: "list_all (\<lambda>ch. \<not> is_control ch) (service_str svc)" for svc
    by (cases svc) (simp_all add: is_control_def byte_of_def)
  have v: "(case validate_no_control_chars s f of Err e \<Rightarrow> Err e | Ok _ \<Rightarrow> k) = Ok c
      \<longleftrightarrow> list_all (\<lambda>ch. \<not> is_control ch) s \<and> k = Ok c" for s f and k :: "(HelperCommand, HelperError) result"
    unfolding validate_no_control_chars_iff [symmetric, of _ f] by (simp split: sum.split)
  have "rq_service req = request_service c \<Longrightarrow> rq_service req = Some s \<Longrightarrow> list_all (\<lambda>ch. \<not> is_control ch) s" for s
    using services by (cases c) auto
  with names show ?thesis
    by (cases "rq_service req") (auto simp: parse_command_def v command_of_ok)
qed

lemma boundary_before_le: "boundary_before s n \<le> n"
  by (induction s n rule: boundary_before.induct) (subst boundary_before.simps, auto)

lemma boundary_before_boundary: "n \<le> length s \<Longrightarrow> is_char_boundary s (boundary_before s n)"
proof (induction s n rule: boundary_before.induct)
  case (1 s n)
  show ?case
  proof (cases "0 < n \<and> \<not> is_char_boundary s n")
    case True
    with 1 show ?thesis by (subst boundary_before.simps) simp
  next
    case False
    then show ?thesis by (subst boundary_before.simps) (auto simp: is_char_boundary_def)
  qed
qed

text \<open>A line sent to a client is the line or a prefix of it that ends between characters, marked.\<close>

lemma truncate_line_bounded:
  "length (truncate_line line n) \<le> n + 12
   \<and> (truncate_line line n = line \<or> (\<exists>k\<le>n. is_char_boundary line k \<and> truncate_line line n = take k line @ '' [truncated]''))"
  using boundary_before_le [of line n] boundary_before_boundary [of n line] by (auto simp: truncate_line_def)

end
