(* ===== verification/Helper_Process.thy ===== *)
theory Helper_Process
  imports Helper_Protocol
begin

text \<open>
  How the devloop helper runs programs (commands.rs, \<open>run_command_streaming\<close>).  A child process runs in a
  process group of its own; two threads read its output line by line, and the thread that owns the
  child forwards the lines to the client, watches the cancel token of the operation and the shutdown
  flag of the process, and signals the group.

  A run is given by its turns of the loop: what the channel delivers within fifty milliseconds,
  whether the client takes the line, what the two flags read, the clock, and whether the child has
  been seen to exit.  A list of turns that does not end the loop gives \<open>None\<close>: the program still runs.
\<close>

section \<open>Signals\<close>

definition CANCEL_GRACEFUL_TIMEOUT :: duration where
  "CANCEL_GRACEFUL_TIMEOUT = from_secs 2"

datatype posix_signal = SIGTERM | SIGKILL

text \<open>\<open>libc::kill\<close> with a target, and \<open>Child::kill\<close>, which sends SIGKILL to the leader only.\<close>

datatype kill_call = KillTarget int posix_signal | KillLeader

definition signal_process_group :: "u32 \<Rightarrow> posix_signal \<Rightarrow> (kill_call, HelperError) result" where
  "signal_process_group pid sig =
     (if 2 ^ 31 \<le> uint pid
      then Err (CommandFailed ''kill'' (''PID '' @ show_nat (unat pid) @ '' exceeds i32 range''))
      else Ok (KillTarget (- uint pid) sig))"

text \<open>The pattern of the call sites: the group, or the leader when the group cannot be named.\<close>

definition signal_or_kill :: "u32 \<Rightarrow> posix_signal \<Rightarrow> kill_call" where
  "signal_or_kill pid sig = (case signal_process_group pid sig of Ok k \<Rightarrow> k | Err _ \<Rightarrow> KillLeader)"

section \<open>The reader threads\<close>

datatype StreamMsg = MsgLine StreamLine | MsgDone

text \<open>
  \<open>pipe_reader\<close> on what \<open>BufRead::lines\<close> yields: each line with its time, or an error, for instance for
  a line that is not UTF-8.
\<close>

fun pipe_reader :: "StreamKind \<Rightarrow> (string \<times> string, string) result list \<Rightarrow> StreamMsg list" where
  "pipe_reader kind [] = [MsgDone]"
| "pipe_reader kind (Inr (line, ts) # rest) =
     MsgLine \<lparr>sl_stream = kind, sl_line = truncate_line line MAX_LINE_LEN, sl_ts = ts\<rparr> # pipe_reader kind rest"
| "pipe_reader kind (Inl e # rest) = [MsgDone]"

section \<open>The loop\<close>

datatype recv = Received StreamMsg | RecvTimeout | RecvDisconnected

record turn =
  tn_recv :: recv
  tn_send_ok :: bool
  tn_cancel :: bool
  tn_shutdown :: bool
  tn_now :: instant
  tn_exited :: bool

record run_state =
  rs_done_count :: nat
  rs_write_failed :: bool
  rs_child_killed :: bool
  rs_cancel_termed :: bool
  rs_term_at :: "instant option"
  rs_escalated :: bool
  rs_sent :: "StreamLine list"
  rs_kills :: "kill_call list"

definition run_init :: run_state where
  "run_init = \<lparr>rs_done_count = 0, rs_write_failed = False, rs_child_killed = False, rs_cancel_termed = False,
     rs_term_at = None, rs_escalated = False, rs_sent = [], rs_kills = []\<rparr>"

text \<open>A line from the child: sent on, and when the client is gone the group is killed and the rest dropped.\<close>

definition forward_line :: "u32 \<Rightarrow> turn \<Rightarrow> StreamLine \<Rightarrow> run_state \<Rightarrow> run_state" where
  "forward_line pid t line s =
     (if rs_write_failed s then s
      else if tn_send_ok t then s\<lparr>rs_sent := rs_sent s @ [line]\<rparr>
      else let s' = s\<lparr>rs_write_failed := True\<rparr>
           in if rs_child_killed s then s'
              else s'\<lparr>rs_kills := rs_kills s @ [signal_or_kill pid SIGKILL], rs_child_killed := True\<rparr>)"

text \<open>The flags: SIGTERM on cancel, SIGKILL after the grace period, SIGKILL at once on shutdown.\<close>

definition check_flags :: "u32 \<Rightarrow> turn \<Rightarrow> run_state \<Rightarrow> run_state" where
  "check_flags pid t s =
     (if rs_child_killed s then s
      else if tn_cancel t \<and> \<not> rs_cancel_termed s
      then (case signal_process_group pid SIGTERM of
              Ok k \<Rightarrow> s\<lparr>rs_kills := rs_kills s @ [k], rs_cancel_termed := True, rs_term_at := Some (tn_now t)\<rparr>
            | Err _ \<Rightarrow> s\<lparr>rs_kills := rs_kills s @ [KillLeader], rs_child_killed := True, rs_escalated := True\<rparr>)
      else if rs_cancel_termed s
      then (case rs_term_at s of
              None \<Rightarrow> s
            | Some t0 \<Rightarrow>
              if CANCEL_GRACEFUL_TIMEOUT \<le> duration_since (tn_now t) t0
              then (if tn_exited t then s\<lparr>rs_child_killed := True\<rparr>
                    else s\<lparr>rs_kills := rs_kills s @ [signal_or_kill pid SIGKILL], rs_child_killed := True, rs_escalated := True\<rparr>)
              else if tn_exited t then s\<lparr>rs_child_killed := True\<rparr> else s)
      else if tn_shutdown t
      then s\<lparr>rs_kills := rs_kills s @ [signal_or_kill pid SIGKILL], rs_child_killed := True\<rparr>
      else s)"

fun stream_loop :: "u32 \<Rightarrow> turn list \<Rightarrow> run_state \<Rightarrow> run_state option" where
  "stream_loop pid [] s = None"
| "stream_loop pid (t # ts) s =
     (case tn_recv t of
        RecvDisconnected \<Rightarrow> Some s
      | RecvTimeout \<Rightarrow> stream_loop pid ts (check_flags pid t s)
      | Received (MsgLine line) \<Rightarrow> stream_loop pid ts (check_flags pid t (forward_line pid t line s))
      | Received MsgDone \<Rightarrow>
          (let s' = s\<lparr>rs_done_count := rs_done_count s + 1\<rparr>
           in if 2 \<le> rs_done_count s' then Some s' else stream_loop pid ts (check_flags pid t s')))"

record ExitStatus =
  es_success :: bool
  es_text :: string

text \<open>One program: whether it starts, its identifier, the turns, its end, and the cancel token after it.\<close>

record child_run =
  ch_spawn :: "string option"
  ch_pid :: u32
  ch_turns :: "turn list"
  ch_wait :: "(ExitStatus, string) result"
  ch_cancel_set :: bool

definition run_result :: "string \<Rightarrow> child_run \<Rightarrow> run_state \<Rightarrow> (unit, HelperError) result" where
  "run_result description c s =
     (case ch_wait c of
        Err e \<Rightarrow> Err (CommandFailed description (''failed to wait for child: '' @ e))
      | Ok status \<Rightarrow>
        if rs_write_failed s then Err (CommandFailed description ''stream write failed: client disconnected'')
        else if ch_cancel_set c then Err (Cancelled (rs_escalated s))
        else if \<not> es_success status
        then Err (CommandFailed description (''exit code: '' @ es_text status
                    @ (if rs_child_killed s then '' (killed due to SIGTERM)'' else [])))
        else Ok ())"

definition run_command_streaming :: "string \<Rightarrow> child_run \<Rightarrow> ((unit, HelperError) result \<times> run_state) option" where
  "run_command_streaming description c =
     (case ch_spawn c of
        Some e \<Rightarrow> Some (Err (CommandFailed description (''failed to execute: '' @ e)), run_init)
      | None \<Rightarrow> map_option (\<lambda>s. (run_result description c s, s)) (stream_loop (ch_pid c) (ch_turns c) run_init))"

section \<open>What holds of a run\<close>

text \<open>
  The signals of a run, whatever the turns: at most one SIGTERM and then at most one SIGKILL, both to
  the child's own group, which is never the group of the helper itself.
\<close>

definition kill_plan :: "u32 \<Rightarrow> kill_call list set" where
  "kill_plan pid = (if 2 ^ 31 \<le> uint pid then {[], [KillLeader]}
     else {[], [KillTarget (- uint pid) SIGTERM], [KillTarget (- uint pid) SIGKILL],
           [KillTarget (- uint pid) SIGTERM, KillTarget (- uint pid) SIGKILL]})"

definition run_inv :: "u32 \<Rightarrow> run_state \<Rightarrow> bool" where
  "run_inv pid s \<longleftrightarrow>
     rs_kills s \<in> kill_plan pid
     \<and> (\<not> rs_child_killed s \<longrightarrow> rs_kills s = (if rs_cancel_termed s then [KillTarget (- uint pid) SIGTERM] else []))
     \<and> (rs_cancel_termed s \<longrightarrow> uint pid < 2 ^ 31 \<and> rs_term_at s \<noteq> None)
     \<and> (rs_write_failed s \<longrightarrow> rs_child_killed s)
     \<and> (rs_escalated s \<longrightarrow> rs_child_killed s)"

lemmas signal_defs = signal_or_kill_def signal_process_group_def

lemma run_inv_init: "run_inv pid run_init"
  by (simp add: run_inv_def run_init_def kill_plan_def)

lemma run_inv_forward: "run_inv pid s \<Longrightarrow> run_inv pid (forward_line pid t line s)"
  by (auto simp: run_inv_def forward_line_def kill_plan_def signal_defs Let_def)

lemma run_inv_flags:
  assumes inv: "run_inv pid s" shows "run_inv pid (check_flags pid t s)"
proof (cases "rs_child_killed s")
  case True
  with inv show ?thesis by (simp add: check_flags_def)
next
  case live: False
  show ?thesis
  proof (cases "rs_cancel_termed s")
    case True
    with inv live obtain t0 where "rs_term_at s = Some t0" "uint pid < 2 ^ 31"
      "rs_kills s = [KillTarget (- uint pid) SIGTERM]" by (auto simp: run_inv_def)
    with inv True live show ?thesis by (simp add: check_flags_def run_inv_def kill_plan_def signal_defs)
  next
    case False
    with inv live have "rs_kills s = []" by (simp add: run_inv_def)
    with inv False live show ?thesis by (simp add: check_flags_def run_inv_def kill_plan_def signal_defs)
  qed
qed

lemma run_inv_done: "run_inv pid s \<Longrightarrow> run_inv pid (s\<lparr>rs_done_count := n\<rparr>)"
  by (simp add: run_inv_def)

lemma stream_loop_inv: "stream_loop pid ts s = Some s' \<Longrightarrow> run_inv pid s \<Longrightarrow> run_inv pid s'"
  by (induction pid ts s rule: stream_loop.induct)
     (auto simp: Let_def run_inv_forward run_inv_flags run_inv_done split: recv.splits StreamMsg.splits if_splits)

text \<open>
  A run ends with \<open>Cancelled\<close> only when its own token is set, and with success only when the program
  succeeded, the client took every line and the token was not set.
\<close>

lemma run_result_ok:
  "run_result description c s = Ok () \<longleftrightarrow>
     \<not> rs_write_failed s \<and> \<not> ch_cancel_set c \<and> (\<exists>status. ch_wait c = Ok status \<and> es_success status)"
  by (auto simp: run_result_def split: sum.split)

lemma run_result_cancelled:
  "run_result description c s = Err (Cancelled b) \<Longrightarrow> ch_cancel_set c \<and> \<not> rs_write_failed s \<and> b = rs_escalated s"
  by (auto simp: run_result_def split: sum.splits if_splits)

text \<open>The grace period: the group is killed on behalf of a cancellation only two seconds after the SIGTERM.\<close>

lemma escalation_waits:
  assumes "\<not> rs_child_killed s" "rs_cancel_termed s" "rs_term_at s = Some t0"
    and "rs_kills (check_flags pid t s) \<noteq> rs_kills s"
  shows "from_secs 2 \<le> duration_since (tn_now t) t0 \<and> \<not> tn_exited t \<and> rs_escalated (check_flags pid t s)"
  using assms by (auto simp: check_flags_def CANCEL_GRACEFUL_TIMEOUT_def split: if_splits)

text \<open>
  The lines a client gets are those of the channel, in their order, up to the one it no longer takes.
\<close>

definition channel_lines :: "turn list \<Rightarrow> StreamLine list" where
  "channel_lines ts = concat (map (\<lambda>t. case tn_recv t of Received (MsgLine line) \<Rightarrow> [line] | _ \<Rightarrow> []) ts)"

lemma check_flags_sent [simp]:
  "rs_sent (check_flags pid t s) = rs_sent s" "rs_write_failed (check_flags pid t s) = rs_write_failed s"
  "rs_done_count (check_flags pid t s) = rs_done_count s"
  by (auto simp: check_flags_def split: option.split sum.split)

lemma forward_line_sent:
  "rs_sent (forward_line pid t line s) = rs_sent s @ (if rs_write_failed s \<or> \<not> tn_send_ok t then [] else [line])"
  "rs_write_failed (forward_line pid t line s) = (rs_write_failed s \<or> \<not> tn_send_ok t)"
  by (auto simp: forward_line_def Let_def)

lemma stream_loop_failed: "stream_loop pid ts s = Some s' \<Longrightarrow> rs_write_failed s \<Longrightarrow> rs_sent s' = rs_sent s \<and> rs_write_failed s'"
  by (induction pid ts s rule: stream_loop.induct)
     (auto simp: Let_def forward_line_sent split: recv.splits StreamMsg.splits if_splits)

lemma stream_loop_sent:
  "stream_loop pid ts s = Some s' \<Longrightarrow>
   \<exists>lines. rs_sent s' = rs_sent s @ lines \<and> prefix lines (channel_lines ts)"
proof (induction pid ts s rule: stream_loop.induct)
  case (2 pid t ts s)
  show ?case
  proof (cases "tn_recv t")
    case (Received m)
    show ?thesis
    proof (cases m)
      case (MsgLine line)
      with 2 Received have run: "stream_loop pid ts (check_flags pid t (forward_line pid t line s)) = Some s'" by simp
      show ?thesis
      proof (cases "rs_write_failed s \<or> \<not> tn_send_ok t")
        case True
        with stream_loop_failed [OF run] show ?thesis by (simp add: forward_line_sent)
      next
        case False
        with "2.IH"(1) [OF Received MsgLine run] MsgLine Received show ?thesis
          by (auto simp: forward_line_sent channel_lines_def)
      qed
    next
      case MsgDone
      with 2 Received show ?thesis by (auto simp: channel_lines_def Let_def split: if_splits)
    qed
  qed (use 2 in \<open>auto simp: channel_lines_def\<close>)
qed simp

text \<open>
  A line that is not UTF-8 ends the reader: what the program writes to that stream afterwards never
  reaches the client.
\<close>

lemma pipe_reader_stops:
  "pipe_reader kind (map Inr lines @ Inl e # rest) = pipe_reader kind (map Inr lines)"
  by (induction lines) auto

end
