(* ===== verification/Helper_Commands.thy ===== *)
theory Helper_Commands
  imports Helper_Process
begin

text \<open>
  The commands of the devloop helper (commands.rs): setup, rebuild, deploy, teardown, status and cancel,
  on top of the port registry and of the programs they run.

  A command is a function of the world: the registry, the files of the runtime directory, the programs
  run so far and the lines sent to the client.  It ends with a value or an error, or does not end
  (\<open>None\<close>) when a program it runs does not.  What the world answers is given by an environment: how each
  program behaves, by its position among the programs of the command, and which files can be written.
\<close>

definition CONTAINER_HOST :: string where "CONTAINER_HOST = ''host.containers.internal''"
definition DEFAULT_HOST_GATEWAY_IP :: string where "DEFAULT_HOST_GATEWAY_IP = ''10.255.255.254''"

datatype ContainerRuntime = Podman | Docker

fun runtime_str :: "ContainerRuntime \<Rightarrow> string" where
  "runtime_str Podman = ''podman''"
| "runtime_str Docker = ''docker''"

fun kind_provider_env :: "ContainerRuntime \<Rightarrow> string \<times> string" where
  "kind_provider_env Podman = (''KIND_EXPERIMENTAL_PROVIDER'', ''podman'')"
| "kind_provider_env Docker = (''KIND_EXPERIMENTAL_PROVIDER'', ''docker'')"

definition detect_container_runtime :: "(string \<Rightarrow> bool) \<Rightarrow> (ContainerRuntime, HelperError) result" where
  "detect_container_runtime which =
     (if which ''podman'' then Ok Podman
      else if which ''docker'' then Ok Docker
      else Err (CommandFailed ''detect-runtime'' ''neither podman nor docker found in PATH''))"

definition check_prerequisites :: "(string \<Rightarrow> bool) \<Rightarrow> (ContainerRuntime, HelperError) result" where
  "check_prerequisites which =
     (if \<not> which ''kind'' then Err (CommandFailed ''prerequisites'' ''kind not found in PATH'')
      else if \<not> which ''kubectl'' then Err (CommandFailed ''prerequisites'' ''kubectl not found in PATH'')
      else detect_container_runtime which)"

section \<open>World and environment\<close>

record helper_ctx =
  hc_slug :: string
  hc_cluster_name :: string
  hc_project_root :: string
  hc_runtime_dir :: string
  hc_container_runtime :: ContainerRuntime
  hc_host_gateway_ip :: "string option"

datatype file_content = TextFile string | PortMapFile PortMap | PartFile string

record child_cmd =
  cc_program :: string
  cc_args :: "string list"
  cc_env :: "(string \<times> string) list"

record helper_world =
  hw_registry :: registry_file
  hw_files :: "(string, file_content) hmap"
  hw_programs :: "child_cmd list"
  hw_output :: "StreamLine list"

text \<open>
  \<open>ce_output\<close> is \<open>Command::output\<close> of the programs whose output is collected: an error when they do not
  start, otherwise whether they succeed, their output and their error output, already made UTF-8.
\<close>

record cmd_env =
  ce_registry :: registry_env
  ce_child :: "nat \<Rightarrow> child_run"
  ce_accepts :: "transport \<Rightarrow> string \<Rightarrow> u16 \<Rightarrow> bool"
  ce_read :: "string \<Rightarrow> (string, string) result"
  ce_write :: "string \<Rightarrow> (string \<times> string option) option"
  ce_output :: "string list \<Rightarrow> (bool \<times> string \<times> string, string) result"
  ce_status_text :: "string list \<Rightarrow> string"
  ce_parse_ip :: "string \<Rightarrow> bool option"
  ce_parse_json :: "string \<Rightarrow> (json, string) result"
  ce_now :: string

type_synonym 'a cmd = "helper_world \<Rightarrow> (('a, HelperError) result \<times> helper_world) option"

definition return_cmd :: "('a, HelperError) result \<Rightarrow> 'a cmd" where
  "return_cmd r w = Some (r, w)"

text \<open>The question mark operator: go on with the value, or end with the error.\<close>

definition then_cmd :: "'a cmd \<Rightarrow> ('a \<Rightarrow> 'b cmd) \<Rightarrow> 'b cmd" where
  "then_cmd m f w =
     (case m w of
        None \<Rightarrow> None
      | Some (Err e, w') \<Rightarrow> Some (Err e, w')
      | Some (Ok a, w') \<Rightarrow> f a w')"

definition run_program :: "cmd_env \<Rightarrow> string \<Rightarrow> child_cmd \<Rightarrow> unit cmd" where
  "run_program env description c w =
     (case run_command_streaming description (ce_child env (length (hw_programs w))) of
        None \<Rightarrow> None
      | Some (r, s) \<Rightarrow> Some (r, w\<lparr>hw_programs := hw_programs w @ [c], hw_output := hw_output w @ rs_sent s\<rparr>))"

text \<open>Open with truncation, write, flush: an error before the file is open leaves it as it was.\<close>

definition write_file :: "cmd_env \<Rightarrow> string \<Rightarrow> file_content \<Rightarrow> unit cmd" where
  "write_file env name content w =
     (case ce_write env name of
        None \<Rightarrow> Some (Ok (), w\<lparr>hw_files := hm_insert name content (hw_files w)\<rparr>)
      | Some (e, None) \<Rightarrow> Some (Err (HelperIo e), w)
      | Some (e, Some part) \<Rightarrow> Some (Err (HelperIo e), w\<lparr>hw_files := hm_insert name (PartFile part) (hw_files w)\<rparr>))"

definition on_registry :: "(registry_file \<Rightarrow> ('a, HelperError) result \<times> registry_file) \<Rightarrow> 'a cmd" where
  "on_registry f w = (case f (hw_registry w) of (r, reg) \<Rightarrow> Some (r, w\<lparr>hw_registry := reg\<rparr>))"

section \<open>Text helpers\<close>

definition validate_gateway_ip :: "cmd_env \<Rightarrow> string \<Rightarrow> (unit, HelperError) result" where
  "validate_gateway_ip env ip =
     (case ce_parse_ip env ip of
        None \<Rightarrow> Err (InvalidRequest (''invalid host-gateway-ip: '' @ quoted ip))
      | Some True \<Rightarrow> Err (InvalidRequest
          ''host-gateway-ip must not be 0.0.0.0 or :: (ADR-0030 prohibits binding to all interfaces)'')
      | Some False \<Rightarrow> Ok ())"

definition gateway_ip :: "helper_ctx \<Rightarrow> string" where
  "gateway_ip ctx = (case hc_host_gateway_ip ctx of Some ip \<Rightarrow> ip | None \<Rightarrow> DEFAULT_HOST_GATEWAY_IP)"

definition port_map_shell :: "PortAllocation \<Rightarrow> string" where
  "port_map_shell alloc =
     ''# Generated by devloop-helper'' @ [CHR 0x0A] @
     concat (map (\<lambda>(var, name). var @ ''='' @ show_nat (unat (alloc_port alloc name)) @ [CHR 0x0A])
       [(''AC_HTTP_PORT'', AC_HTTP), (''GC_HTTP_PORT'', GC_HTTP), (''MH_HEALTH_PORT'', MH_0_HEALTH),
        (''POSTGRES_PORT'', POSTGRES), (''PROMETHEUS_PORT'', PROMETHEUS), (''GRAFANA_PORT'', GRAFANA), (''LOKI_PORT'', LOKI),
        (''MC_0_WEBTRANSPORT_PORT'', MC_0_WEBTRANSPORT), (''MC_1_WEBTRANSPORT_PORT'', MC_1_WEBTRANSPORT),
        (''MH_0_WEBTRANSPORT_PORT'', MH_0_WEBTRANSPORT), (''MH_1_WEBTRANSPORT_PORT'', MH_1_WEBTRANSPORT)])"

definition SERVER_PATTERN :: string where "SERVER_PATTERN = ''server: https://''"

text \<open>Every occurrence of the pattern with the host and port after it, up to white space, is replaced.\<close>

function rewrite_servers :: "string \<Rightarrow> string \<Rightarrow> string" where
  "rewrite_servers target [] = []"
| "rewrite_servers target (c # cs) =
     (if prefix SERVER_PATTERN (c # cs)
      then SERVER_PATTERN @ target
           @ rewrite_servers target (dropWhile (\<lambda>ch. \<not> is_whitespace ch) (drop (length SERVER_PATTERN - 1) cs))
      else c # rewrite_servers target cs)"
  by pat_completeness auto

termination
proof (relation "measure (\<lambda>(target, s). length s)")
  fix target and c :: char and cs :: string
  have "length (dropWhile p (drop n cs)) \<le> length cs" for p n
    using length_dropWhile_le [of p "drop n cs"] by simp
  then show "((target, dropWhile (\<lambda>ch. \<not> is_whitespace ch) (drop (length SERVER_PATTERN - 1) cs)), target, c # cs)
      \<in> measure (\<lambda>(target, s). length s)" by (simp add: less_Suc_eq_le)
qed auto

definition rewrite_kubeconfig_server :: "string \<Rightarrow> string \<Rightarrow> u16 \<Rightarrow> (string, HelperError) result" where
  "rewrite_kubeconfig_server kubeconfig target_host target_port =
     (if \<not> list_ex (prefix SERVER_PATTERN) (suffixes kubeconfig)
      then Err (CommandFailed ''kubeconfig rewrite''
             (''kubeconfig does not contain '' @ quoted SERVER_PATTERN @ '' pattern''))
      else Ok (rewrite_servers (target_host @ '':'' @ show_nat (unat target_port)) kubeconfig))"

text \<open>\<open>str::lines\<close>.\<close>

definition text_lines :: "string \<Rightarrow> string list" where
  "text_lines s =
     (let ls = split_on (\<lambda>c. c = CHR 0x0A) s
      in map (\<lambda>l. if l \<noteq> [] \<and> last l = CHR 0x0D then butlast l else l) (if last ls = [] then butlast ls else ls))"

section \<open>Commands\<close>

definition port_entries_json :: "PortEntries \<Rightarrow> json" where
  "port_entries_json p = JObj (map (\<lambda>(k, v). (k, JNum (uint v)))
     [(''ac_http'', pe_ac_http p),
      (''gc_http'', pe_gc_http p),
      (''gc_grpc'', pe_gc_grpc p),
      (''mc_0_health'', pe_mc_0_health p),
      (''mc_0_grpc'', pe_mc_0_grpc p),
      (''mc_0_webtransport'', pe_mc_0_webtransport p),
      (''mc_1_health'', pe_mc_1_health p),
      (''mc_1_grpc'', pe_mc_1_grpc p),
      (''mc_1_webtransport'', pe_mc_1_webtransport p),
      (''mh_0_health'', pe_mh_0_health p),
      (''mh_0_grpc'', pe_mh_0_grpc p),
      (''mh_0_webtransport'', pe_mh_0_webtransport p),
      (''mh_1_health'', pe_mh_1_health p),
      (''mh_1_grpc'', pe_mh_1_grpc p),
      (''mh_1_webtransport'', pe_mh_1_webtransport p),
      (''postgres'', pe_postgres p),
      (''prometheus'', pe_prometheus p),
      (''grafana'', pe_grafana p),
      (''loki'', pe_loki p),
      (''k8s_api'', pe_k8s_api p)])"

definition urls_json :: "(string, string) hmap \<Rightarrow> json" where
  "urls_json m = JObj (map (\<lambda>(k, v). (k, JStr v)) m)"

definition port_map_json :: "PortMap \<Rightarrow> json" where
  "port_map_json m = JObj [(''cluster_name'', JStr (pm_cluster_name m)), (''host'', JStr (pm_host m)),
     (''host_fallback'', JStr (pm_host_fallback m)), (''observability_deployed'', JBool (pm_observability_deployed m)),
     (''ports'', port_entries_json (pm_ports m)), (''container_urls'', urls_json (pm_container_urls m)),
     (''host_urls'', urls_json (pm_host_urls m)), (''created_at'', JStr (pm_created_at m))]"

definition cluster_already_exists :: "cmd_env \<Rightarrow> string \<Rightarrow> (bool, HelperError) result" where
  "cluster_already_exists env cluster_name =
     (case ce_output env [''kind'', ''get'', ''clusters''] of
        Err e \<Rightarrow> Err (CommandFailed ''kind get clusters'' (''failed to execute: '' @ e))
      | Ok (success, out, err) \<Rightarrow>
        if \<not> success then Err (CommandFailed ''kind get clusters'' err)
        else Ok (list_ex (\<lambda>line. trim_text line = cluster_name) (text_lines out)))"

definition generate_container_kubeconfig :: "cmd_env \<Rightarrow> helper_ctx \<Rightarrow> PortAllocation \<Rightarrow> unit cmd" where
  "generate_container_kubeconfig env ctx alloc =
     (let call = [''kind'', ''get'', ''kubeconfig'', ''--name'', hc_cluster_name ctx] in
      case ce_output env call of
        Err e \<Rightarrow> return_cmd (Err (CommandFailed ''kind get kubeconfig'' (''failed to execute: '' @ e)))
      | Ok (success, out, err) \<Rightarrow>
        if \<not> success
        then return_cmd (Err (CommandFailed ''kind get kubeconfig''
               (''exit '' @ ce_status_text env call @ '': '' @ trim_text err)))
        else then_cmd (return_cmd (rewrite_kubeconfig_server out (gateway_ip ctx) (alloc_port alloc K8S_API)))
               (\<lambda>kubeconfig. write_file env (path_join (hc_runtime_dir ctx) ''kubeconfig'') (TextFile kubeconfig)))"

definition setup_cmd :: "helper_ctx \<Rightarrow> string list \<Rightarrow> child_cmd" where
  "setup_cmd ctx extra =
     \<lparr>cc_program = path_join (hc_project_root ctx) ''infra/kind/scripts/setup.sh'', cc_args = ''--yes'' # extra,
      cc_env = [(''DT_CLUSTER_NAME'', hc_cluster_name ctx), (''DT_PORT_MAP'', path_join (hc_runtime_dir ctx) ''port-map.env''),
                (''DT_HOST_GATEWAY_IP'', gateway_ip ctx), kind_provider_env (hc_container_runtime ctx)]\<rparr>"

text \<open>What a setup does once it has its ports.\<close>

definition setup_with_ports :: "cmd_env \<Rightarrow> helper_ctx \<Rightarrow> bool \<Rightarrow> PortAllocation \<Rightarrow> json option cmd" where
  "setup_with_ports env ctx skip_observability alloc =
     then_cmd (return_cmd (verify_ports_available (ce_accepts env) alloc)) (\<lambda>_.
     then_cmd (return_cmd (case ce_read env (path_join (hc_project_root ctx) ''infra/kind/kind-config.yaml.tmpl'') of
                             Err e \<Rightarrow> Err (CommandFailed ''setup'' (''failed to read kind-config template: '' @ e))
                           | Ok text \<Rightarrow> Ok text)) (\<lambda>template.
     then_cmd (return_cmd (validate_gateway_ip env (gateway_ip ctx))) (\<lambda>_.
       let vars = hm_insert ''CLUSTER_NAME'' (hc_cluster_name ctx) (template_env_vars alloc (gateway_ip ctx));
           config_path = path_join (hc_runtime_dir ctx) ''kind-config.yaml'';
           port_map = generate_port_map alloc (hc_cluster_name ctx) CONTAINER_HOST ''172.17.0.1'' (\<not> skip_observability) (ce_now env)
       in
     then_cmd (write_file env config_path (TextFile (substitute_template template vars))) (\<lambda>_.
     then_cmd (write_file env (path_join (hc_runtime_dir ctx) ''ports.json'') (PortMapFile port_map)) (\<lambda>_.
     then_cmd (return_cmd (cluster_already_exists env (hc_cluster_name ctx))) (\<lambda>cluster_exists.
     then_cmd (if cluster_exists then return_cmd (Ok ())
               else run_program env ''kind create cluster''
                 \<lparr>cc_program = ''kind'', cc_args = [''create'', ''cluster'', ''--config'', config_path, ''--name'', hc_cluster_name ctx],
                  cc_env = [kind_provider_env (hc_container_runtime ctx)]\<rparr>) (\<lambda>_.
     then_cmd (write_file env (path_join (hc_runtime_dir ctx) ''port-map.env'') (TextFile (port_map_shell alloc))) (\<lambda>_.
     then_cmd (run_program env ''setup.sh'' (setup_cmd ctx (if skip_observability then [''--skip-observability''] else []))) (\<lambda>_.
     then_cmd (generate_container_kubeconfig env ctx alloc) (\<lambda>_.
       return_cmd (Ok (Some (port_map_json port_map)))))))))))))"

definition cmd_setup :: "cmd_env \<Rightarrow> helper_ctx \<Rightarrow> bool \<Rightarrow> json option cmd" where
  "cmd_setup env ctx skip_observability =
     then_cmd (on_registry (allocate_ports (ce_registry env) (hc_slug ctx))) (setup_with_ports env ctx skip_observability)"

definition remove_file :: "string \<Rightarrow> helper_world \<Rightarrow> helper_world" where
  "remove_file name w = w\<lparr>hw_files := hm_remove name (hw_files w)\<rparr>"

definition load_image_to_kind :: "cmd_env \<Rightarrow> helper_ctx \<Rightarrow> string \<Rightarrow> unit cmd" where
  "load_image_to_kind env ctx tag =
     (let provider = kind_provider_env (hc_container_runtime ctx);
          tmp_path = path_join (hc_runtime_dir ctx) ''kind-image-load.tar''
      in case hc_container_runtime ctx of
           Podman \<Rightarrow>
             then_cmd (run_program env (''podman save '' @ tag)
                         \<lparr>cc_program = ''podman'', cc_args = [''save'', tag, ''-o'', tmp_path], cc_env = []\<rparr>)
               (\<lambda>_ w. map_option (\<lambda>(r, w'). (r, remove_file tmp_path w'))
                  (run_program env ''kind load image-archive''
                     \<lparr>cc_program = ''kind'', cc_args = [''load'', ''image-archive'', tmp_path, ''--name'', hc_cluster_name ctx],
                      cc_env = [provider]\<rparr> w))
         | Docker \<Rightarrow>
             run_program env ''kind load docker-image''
               \<lparr>cc_program = ''kind'', cc_args = [''load'', ''docker-image'', tag, ''--name'', hc_cluster_name ctx],
                cc_env = [provider]\<rparr>)"

definition rollout_restart :: "cmd_env \<Rightarrow> helper_ctx \<Rightarrow> string \<Rightarrow> string \<Rightarrow> unit cmd" where
  "rollout_restart env ctx target label =
     run_program env (''kubectl rollout restart '' @ label)
       \<lparr>cc_program = ''kubectl'', cc_args = [''--context'', ''kind-'' @ hc_cluster_name ctx, ''rollout'', ''restart'', target,
          ''-n'', ''dark-tower''], cc_env = []\<rparr>"

fun restart_deployment :: "cmd_env \<Rightarrow> helper_ctx \<Rightarrow> Service \<Rightarrow> unit cmd" where
  "restart_deployment env ctx Ac = rollout_restart env ctx ''statefulset/ac-service'' ''ac-service''"
| "restart_deployment env ctx Gc = rollout_restart env ctx ''deployment/gc-service'' ''gc-service''"
| "restart_deployment env ctx Mc =
     then_cmd (rollout_restart env ctx ''deployment/mc-0'' ''mc-0'') (\<lambda>_. rollout_restart env ctx ''deployment/mc-1'' ''mc-1'')"
| "restart_deployment env ctx Mh =
     then_cmd (rollout_restart env ctx ''deployment/mh-0'' ''mh-0'') (\<lambda>_. rollout_restart env ctx ''deployment/mh-1'' ''mh-1'')"

definition cmd_rebuild :: "cmd_env \<Rightarrow> helper_ctx \<Rightarrow> Service \<Rightarrow> unit cmd" where
  "cmd_rebuild env ctx svc =
     (let runtime = runtime_str (hc_container_runtime ctx) in
      then_cmd (run_program env (runtime @ '' build '' @ service_str svc)
                  \<lparr>cc_program = runtime, cc_args = [''build'', ''-t'', image_tag svc, ''-f'', dockerfile svc, hc_project_root ctx],
                   cc_env = []\<rparr>) (\<lambda>_.
      then_cmd (load_image_to_kind env ctx (image_tag svc)) (\<lambda>_.
      restart_deployment env ctx svc)))"

fun rebuild_each :: "cmd_env \<Rightarrow> helper_ctx \<Rightarrow> Service list \<Rightarrow> unit cmd" where
  "rebuild_each env ctx [] = return_cmd (Ok ())"
| "rebuild_each env ctx (svc # svcs) = then_cmd (cmd_rebuild env ctx svc) (\<lambda>_. rebuild_each env ctx svcs)"

definition cmd_rebuild_all :: "cmd_env \<Rightarrow> helper_ctx \<Rightarrow> unit cmd" where
  "cmd_rebuild_all env ctx = rebuild_each env ctx service_all"

definition cmd_deploy :: "cmd_env \<Rightarrow> helper_ctx \<Rightarrow> Service \<Rightarrow> unit cmd" where
  "cmd_deploy env ctx svc =
     then_cmd (return_cmd (validate_gateway_ip env (gateway_ip ctx))) (\<lambda>_.
       run_program env (''setup.sh --skip-build --only '' @ service_str svc)
         (setup_cmd ctx [''--skip-build'', ''--only'', service_str svc]))"

text \<open>\<open>Cancelled\<close> ends a teardown; every other error of \<open>kind delete cluster\<close> is only logged.\<close>

fun propagate_teardown_kind_result :: "(unit, HelperError) result \<Rightarrow> (unit, HelperError) result" where
  "propagate_teardown_kind_result (Inl (Cancelled escalated)) = Err (Cancelled escalated)"
| "propagate_teardown_kind_result _ = Ok ()"

definition cmd_teardown :: "cmd_env \<Rightarrow> helper_ctx \<Rightarrow> unit cmd" where
  "cmd_teardown env ctx w =
     (case run_program env ''kind delete cluster''
             \<lparr>cc_program = ''kind'', cc_args = [''delete'', ''cluster'', ''--name'', hc_cluster_name ctx],
              cc_env = [kind_provider_env (hc_container_runtime ctx)]\<rparr> w of
        None \<Rightarrow> None
      | Some (result, w') \<Rightarrow>
        (case propagate_teardown_kind_result result of
           Err e \<Rightarrow> Some (Err e, w')
         | Ok _ \<Rightarrow> Some (Ok (), w'\<lparr>hw_registry := snd (deallocate_ports (ce_registry env) (hc_slug ctx) (hw_registry w'))\<rparr>)))"

section \<open>The write slot\<close>

text \<open>
  The operation in flight.  Its cancel token is a flag of its own, named here by the number of the
  operation; \<open>hs_tokens\<close> are the flags.
\<close>

record InFlightOp =
  if_op :: string
  if_args :: "string list"
  if_started_at :: string
  if_cancel_token :: nat

record WriteState =
  ws_in_flight :: "InFlightOp option"

definition write_state_new :: WriteState where
  "write_state_new = \<lparr>ws_in_flight = None\<rparr>"

record BusyHint =
  bh_op :: string
  bh_args :: "string list"
  bh_started_at :: string
  bh_cancel_pending :: bool

definition snapshot_busy :: "(nat \<Rightarrow> bool) \<Rightarrow> WriteState \<Rightarrow> BusyHint option" where
  "snapshot_busy tokens g =
     map_option (\<lambda>opn. \<lparr>bh_op = if_op opn, bh_args = if_args opn, bh_started_at = if_started_at opn,
                      bh_cancel_pending = tokens (if_cancel_token opn)\<rparr>) (ws_in_flight g)"

text \<open>Claiming the slot under its lock, and what \<open>WriteSlotGuard\<close> does when it is dropped.\<close>

definition claim_slot :: "HelperCommand \<Rightarrow> string \<Rightarrow> nat \<Rightarrow> WriteState \<Rightarrow> (unit, HelperError) result \<times> WriteState" where
  "claim_slot cmd now token g =
     (case ws_in_flight g of
        Some opn \<Rightarrow> (Err (Busy (if_op opn) (if_args opn)), g)
      | None \<Rightarrow> (Ok (), g\<lparr>ws_in_flight := Some \<lparr>if_op = command_name cmd, if_args = args_for_log cmd,
                                     if_started_at = now, if_cancel_token = token\<rparr>\<rparr>))"

definition release_slot :: "WriteState \<Rightarrow> WriteState" where
  "release_slot g = g\<lparr>ws_in_flight := None\<rparr>"

text \<open>The body of a write, and how its error is reported when its token is set.\<close>

fun write_body :: "cmd_env \<Rightarrow> helper_ctx \<Rightarrow> HelperCommand \<Rightarrow> json option cmd" where
  "write_body env ctx (Setup skip) = cmd_setup env ctx skip"
| "write_body env ctx (Rebuild svc) = then_cmd (cmd_rebuild env ctx svc) (\<lambda>_. return_cmd (Ok None))"
| "write_body env ctx RebuildAll = then_cmd (cmd_rebuild_all env ctx) (\<lambda>_. return_cmd (Ok None))"
| "write_body env ctx (Deploy svc) = then_cmd (cmd_deploy env ctx svc) (\<lambda>_. return_cmd (Ok None))"
| "write_body env ctx Teardown = then_cmd (cmd_teardown env ctx) (\<lambda>_. return_cmd (Ok None))"
| "write_body env ctx other =
     return_cmd (Err (InvalidRequest (''internal: write dispatcher reached non-write command '' @ command_name other)))"

definition map_cancelled :: "bool \<Rightarrow> ('a, HelperError) result \<Rightarrow> ('a, HelperError) result" where
  "map_cancelled cancel_set result =
     (case result of
        Ok a \<Rightarrow> Ok a
      | Err e \<Rightarrow> Err (if cancel_set then (case e of Cancelled _ \<Rightarrow> e | _ \<Rightarrow> Cancelled False) else e))"

text \<open>
  The whole of \<open>run_with_write_slot\<close> for one connection; \<open>cancel_set\<close> is the token after the body.  The slot
  is free again afterwards, and untouched when it was busy.
\<close>

definition run_with_write_slot ::
  "cmd_env \<Rightarrow> helper_ctx \<Rightarrow> HelperCommand \<Rightarrow> nat \<Rightarrow> bool \<Rightarrow> WriteState \<Rightarrow> helper_world
   \<Rightarrow> ((json option, HelperError) result \<times> WriteState \<times> helper_world) option" where
  "run_with_write_slot env ctx cmd token cancel_set g w =
     (case claim_slot cmd (ce_now env) token g of
        (Err e, g') \<Rightarrow> Some (Err e, g', w)
      | (Ok _, g') \<Rightarrow>
        (case write_body env ctx cmd w of
           None \<Rightarrow> None
         | Some (result, w') \<Rightarrow> Some (map_cancelled cancel_set result, release_slot g', w')))"

section \<open>Cancel and status\<close>

text \<open>
  \<open>cmd_cancel\<close> in its two parts: what it reads of the slot under the lock, and the flag it sets afterwards,
  with its answer.
\<close>

definition cancel_snapshot :: "WriteState \<Rightarrow> InFlightOp option" where
  "cancel_snapshot g = ws_in_flight g"

definition cancel_answer :: "InFlightOp option \<Rightarrow> json" where
  "cancel_answer snapshot =
     (case snapshot of
        Some opn \<Rightarrow> JObj [(''cancelled'', JBool True), (''op'', JStr (if_op opn)), (''args'', JArr (map JStr (if_args opn))),
                       (''started_at'', JStr (if_started_at opn))]
      | None \<Rightarrow> JObj [(''cancelled'', JBool False), (''reason'', JStr ''no-op'')])"

definition cancel_store :: "InFlightOp option \<Rightarrow> (nat \<Rightarrow> bool) \<Rightarrow> nat \<Rightarrow> bool" where
  "cancel_store snapshot tokens = (case snapshot of Some opn \<Rightarrow> tokens(if_cancel_token opn := True) | None \<Rightarrow> tokens)"

definition cmd_cancel :: "WriteState \<Rightarrow> (nat \<Rightarrow> bool) \<Rightarrow> (json option, HelperError) result \<times> (nat \<Rightarrow> bool)" where
  "cmd_cancel g tokens = (let snapshot = cancel_snapshot g in (Ok (Some (cancel_answer snapshot)), cancel_store snapshot tokens))"

record PodStatus =
  ps_name :: string
  ps_phase :: string
  ps_ready :: bool

record PodHealthSummary =
  ph_total :: nat
  ph_ready :: nat
  ph_not_ready :: "PodStatus list"

fun as_array :: "json \<Rightarrow> json list option" where
  "as_array (JArr xs) = Some xs"
| "as_array _ = None"

definition json_pointer :: "string list \<Rightarrow> json \<Rightarrow> json option" where
  "json_pointer path j = fold (\<lambda>k acc. Option.bind acc (json_get k)) path (Some j)"

definition pod_status :: "json \<Rightarrow> PodStatus" where
  "pod_status item =
     (let name = (case Option.bind (json_pointer [''metadata'', ''name''] item) as_str of Some s \<Rightarrow> s | None \<Rightarrow> ''<unknown>'');
          phase = (case Option.bind (json_pointer [''status'', ''phase''] item) as_str of Some s \<Rightarrow> s | None \<Rightarrow> ''Unknown'');
          containers_ready =
            (case Option.bind (json_pointer [''status'', ''containerStatuses''] item) as_array of
               Some statuses \<Rightarrow> statuses \<noteq> [] \<and> list_all (\<lambda>s. Option.bind (json_get ''ready'' s) as_bool = Some True) statuses
             | None \<Rightarrow> False)
      in \<lparr>ps_name = name, ps_phase = phase, ps_ready = (phase = ''Running'' \<and> containers_ready)\<rparr>)"

definition parse_pod_health :: "(string \<Rightarrow> (json, string) result) \<Rightarrow> string \<Rightarrow> (PodHealthSummary, string) result" where
  "parse_pod_health parse text =
     (case parse text of
        Err e \<Rightarrow> Err (''invalid JSON: '' @ e)
      | Ok j \<Rightarrow>
        (case Option.bind (json_get ''items'' j) as_array of
           None \<Rightarrow> Err (''missing or invalid '' @ quoted ''items'' @ '' array'')
         | Some items \<Rightarrow>
             (let pods = map pod_status items
              in Ok \<lparr>ph_total = length pods, ph_ready = length (filter ps_ready pods),
                     ph_not_ready = filter (\<lambda>p. \<not> ps_ready p) pods\<rparr>)))"

definition pod_status_json :: "PodStatus \<Rightarrow> json" where
  "pod_status_json p = JObj [(''name'', JStr (ps_name p)), (''phase'', JStr (ps_phase p)), (''ready'', JBool (ps_ready p))]"

definition pod_summary_json :: "PodHealthSummary \<Rightarrow> json" where
  "pod_summary_json h = JObj [(''total'', JNum (int (ph_total h))), (''ready'', JNum (int (ph_ready h))),
     (''not_ready'', JArr (map pod_status_json (ph_not_ready h)))]"

definition pod_check :: "cmd_env \<Rightarrow> helper_ctx \<Rightarrow> bool \<Rightarrow> bool \<times> PodHealthSummary option \<times> string option" where
  "pod_check env ctx cluster_exists =
     (if cluster_exists
      then (case ce_output env [''kubectl'', ''get'', ''pods'', ''-n'', ''dark-tower'', ''--context'',
                   ''kind-'' @ hc_cluster_name ctx, ''-o'', ''json''] of
              Ok (True, out, err) \<Rightarrow>
                (case parse_pod_health (ce_parse_json env) out of
                   Ok summary \<Rightarrow> (ph_not_ready summary = [] \<and> 0 < ph_total summary, Some summary, None)
                 | Err e \<Rightarrow> (False, None, Some (''pod health parse error: '' @ e)))
            | Ok (False, out, err) \<Rightarrow> (False, None, Some (''kubectl failed: '' @ trim_text err))
            | Err e \<Rightarrow> (False, None, Some (''kubectl spawn failed: '' @ e)))
      else (False, None, None))"

definition opt_json :: "('a \<Rightarrow> json) \<Rightarrow> 'a option \<Rightarrow> json" where
  "opt_json f x = (case x of None \<Rightarrow> JNull | Some a \<Rightarrow> f a)"

text \<open>The value in ports.json: the map that was written, what the parser makes of another text, or nothing.\<close>

definition ports_value :: "cmd_env \<Rightarrow> helper_ctx \<Rightarrow> helper_world \<Rightarrow> json option" where
  "ports_value env ctx w =
     (let path = path_join (hc_runtime_dir ctx) ''ports.json'' in
      case hm_get (hw_files w) path of
        None \<Rightarrow> None
      | Some content \<Rightarrow>
        (case ce_read env path of
           Err _ \<Rightarrow> None
         | Ok _ \<Rightarrow>
           (case content of
              PortMapFile m \<Rightarrow> Some (port_map_json m)
            | TextFile s \<Rightarrow> (case ce_parse_json env s of Ok j \<Rightarrow> Some j | Err _ \<Rightarrow> None)
            | PartFile s \<Rightarrow> (case ce_parse_json env s of Ok j \<Rightarrow> Some j | Err _ \<Rightarrow> None))))"

definition cmd_status ::
  "cmd_env \<Rightarrow> helper_ctx \<Rightarrow> (nat \<Rightarrow> bool) \<Rightarrow> WriteState \<Rightarrow> helper_world \<Rightarrow> (json option, HelperError) result" where
  "cmd_status env ctx tokens g w =
     (let busy = snapshot_busy tokens g;
          cluster_exists = (case cluster_already_exists env (hc_cluster_name ctx) of Ok b \<Rightarrow> b | Err _ \<Rightarrow> False);
          (pods_healthy, pod_summary, pod_error) = pod_check env ctx cluster_exists
      in Ok (Some (JObj [
           (''cluster_exists'', JBool cluster_exists),
           (''pods_healthy'', JBool pods_healthy),
           (''setup_in_progress'', JBool (case busy of Some b \<Rightarrow> bh_op b = ''setup'' | None \<Rightarrow> False)),
           (''checked_at'', JStr (ce_now env)),
           (''pod_summary'', opt_json pod_summary_json pod_summary),
           (''pod_error'', opt_json JStr pod_error),
           (''ports'', opt_json (\<lambda>j. j) (ports_value env ctx w)),
           (''busy'', JBool (busy \<noteq> None)),
           (''cancel_pending'', JBool (case busy of Some b \<Rightarrow> bh_cancel_pending b | None \<Rightarrow> False)),
           (''in_flight'', opt_json (\<lambda>b. JObj [(''op'', JStr (bh_op b)), (''args'', JArr (map JStr (bh_args b))),
                                            (''started_at'', JStr (bh_started_at b))]) busy)])))"

text \<open>How \<open>execute\<close> reports what a command returned.\<close>

definition command_result :: "u64 \<Rightarrow> (json option, HelperError) result \<Rightarrow> CommandResult" where
  "command_result duration_ms result =
     (case result of
        Ok data \<Rightarrow> \<lparr>cr_ok = True, cr_exit_code = Some 0, cr_duration_ms = duration_ms, cr_error = None,
                     cr_error_kind = None, cr_data = data\<rparr>
      | Err e \<Rightarrow> \<lparr>cr_ok = False, cr_exit_code = None, cr_duration_ms = duration_ms, cr_error = Some (helper_error_text e),
                  cr_error_kind = Some (helper_error_kind e), cr_data = busy_data e\<rparr>)"

record exec_state =
  xs_write_state :: WriteState
  xs_tokens :: "nat \<Rightarrow> bool"
  xs_next_token :: nat
  xs_world :: helper_world

text \<open>
  \<open>execute\<close> when no other connection is at work meanwhile; \<open>cancel_set\<close> says whether the token of this
  write is set when its body has ended.
\<close>

definition execute ::
  "cmd_env \<Rightarrow> helper_ctx \<Rightarrow> bool \<Rightarrow> u64 \<Rightarrow> HelperCommand \<Rightarrow> exec_state \<Rightarrow> (CommandResult \<times> exec_state) option" where
  "execute env ctx cancel_set duration_ms cmd x =
     (if is_write cmd
      then (case run_with_write_slot env ctx cmd (xs_next_token x) cancel_set (xs_write_state x) (xs_world x) of
              None \<Rightarrow> None
            | Some (result, g', w') \<Rightarrow>
                Some (command_result duration_ms result,
                      x\<lparr>xs_write_state := g', xs_next_token := xs_next_token x + 1, xs_world := w'\<rparr>))
      else case cmd of
             Status \<Rightarrow> Some (command_result duration_ms (cmd_status env ctx (xs_tokens x) (xs_write_state x) (xs_world x)), x)
           | Cancel \<Rightarrow> (case cmd_cancel (xs_write_state x) (xs_tokens x) of
                         (result, tokens) \<Rightarrow> Some (command_result duration_ms result, x\<lparr>xs_tokens := tokens\<rparr>))
           | other \<Rightarrow> Some (command_result duration_ms
                       (Err (InvalidCommand (''non-write command not handled: '' @ command_name other))), x))"

section \<open>Sequencing\<close>

lemma then_cmd_ok:
  "then_cmd m f w = Some (Ok b, w'') \<longleftrightarrow> (\<exists>a w'. m w = Some (Ok a, w') \<and> f a w' = Some (Ok b, w''))"
  by (auto simp: then_cmd_def split: option.split sum.split prod.split)

lemma return_cmd_ok [simp]: "return_cmd r w = Some (r', w') \<longleftrightarrow> r' = r \<and> w' = w"
  by (auto simp: return_cmd_def)

lemma write_file_ok: "write_file env name content w = Some (Ok (), w') \<longleftrightarrow>
    ce_write env name = None \<and> w' = w\<lparr>hw_files := hm_insert name content (hw_files w)\<rparr>"
  by (auto simp: write_file_def split: option.splits)

lemma on_registry_ok: "on_registry f w = Some (Ok a, w') \<longleftrightarrow>
    (\<exists>reg. f (hw_registry w) = (Ok a, reg) \<and> w' = w\<lparr>hw_registry := reg\<rparr>)"
  by (auto simp: on_registry_def split: prod.splits)

text \<open>
  The programs a command starts.  \<open>starts A m\<close>: the command \<open>m\<close> starts only programs of \<open>A\<close>, however it ends.
\<close>

definition starts :: "child_cmd set \<Rightarrow> 'a cmd \<Rightarrow> bool" where
  "starts A m \<longleftrightarrow> (\<forall>w r w'. m w = Some (r, w') \<longrightarrow> (\<exists>ps. hw_programs w' = hw_programs w @ ps \<and> set ps \<subseteq> A))"

named_theorems starts_rules

lemma starts_return [starts_rules]: "starts A (return_cmd r)"
  by (simp add: starts_def)

lemma starts_write_file [starts_rules]: "starts A (write_file env name content)"
  by (auto simp: starts_def write_file_def split: option.splits)

lemma starts_on_registry [starts_rules]: "starts A (on_registry f)"
  by (auto simp: starts_def on_registry_def split: prod.splits)

lemma starts_run_program: "c \<in> A \<Longrightarrow> starts A (run_program env d c)"
  by (auto simp: starts_def run_program_def split: option.splits)

lemma starts_then_cmd [starts_rules]:
  assumes "starts A m" "\<And>a. starts A (f a)" shows "starts A (then_cmd m f)"
  unfolding starts_def
proof (intro allI impI)
  fix w r w'' assume run: "then_cmd m f w = Some (r, w'')"
  then obtain r1 w' where m: "m w = Some (r1, w')" by (auto simp: then_cmd_def split: option.splits)
  from assms(1) m obtain ps where ps: "hw_programs w' = hw_programs w @ ps" "set ps \<subseteq> A" unfolding starts_def by blast
  show "\<exists>ps. hw_programs w'' = hw_programs w @ ps \<and> set ps \<subseteq> A"
  proof (cases r1)
    case (Inr a)
    with run m have "f a w' = Some (r, w'')" by (simp add: then_cmd_def)
    with assms(2) [of a] obtain qs where "hw_programs w'' = hw_programs w' @ qs" "set qs \<subseteq> A" unfolding starts_def by blast
    with ps show ?thesis by (intro exI [of _ "ps @ qs"]) simp
  qed (use run m ps in \<open>auto simp: then_cmd_def\<close>)
qed

text \<open>
  The programs the helper may start: five tools, with the context of its own cluster, and in their
  environment only the name of the cluster, the port map, the gateway's address and the provider.
\<close>

definition helper_tool :: "helper_ctx \<Rightarrow> child_cmd \<Rightarrow> bool" where
  "helper_tool ctx c \<longleftrightarrow>
     cc_program c \<in> {''kind'', ''kubectl'', ''podman'', ''docker'', path_join (hc_project_root ctx) ''infra/kind/scripts/setup.sh''}
     \<and> fst ` set (cc_env c) \<subseteq> {''DT_CLUSTER_NAME'', ''DT_PORT_MAP'', ''DT_HOST_GATEWAY_IP'', ''KIND_EXPERIMENTAL_PROVIDER''}
     \<and> (cc_program c = ''kind'' \<and> hd (cc_args c) = ''delete'' \<longrightarrow> cc_args c = [''delete'', ''cluster'', ''--name'', hc_cluster_name ctx])"

lemma provider_key: "fst (kind_provider_env rt) = ''KIND_EXPERIMENTAL_PROVIDER''"
  by (cases rt) simp_all

lemma path_join_absolute: "path_join d ''infra/kind/scripts/setup.sh'' \<noteq> ''kind''"
proof
  assume "path_join d ''infra/kind/scripts/setup.sh'' = ''kind''"
  from arg_cong [OF this, of length] show False by (auto simp: path_join_def split: if_splits)
qed

lemma setup_cmd_tool: "helper_tool ctx (setup_cmd ctx extra)"
  using path_join_absolute by (simp add: helper_tool_def setup_cmd_def provider_key)

lemma rollout_starts: "starts (Collect (helper_tool ctx)) (rollout_restart env ctx target label)"
  unfolding rollout_restart_def by (rule starts_run_program) (simp add: helper_tool_def)

lemma kubeconfig_starts: "starts A (generate_container_kubeconfig env ctx alloc)"
  unfolding generate_container_kubeconfig_def Let_def
  by (auto intro!: starts_rules split: sum.split prod.split)

lemma load_image_starts: "starts (Collect (helper_tool ctx)) (load_image_to_kind env ctx tag)"
proof (cases "hc_container_runtime ctx")
  case Podman
  have removed: "starts A (\<lambda>w. map_option (\<lambda>(r, w'). (r, remove_file n w')) (m w))" if "starts A m" for A n and m :: "unit cmd"
    using that by (auto simp: starts_def remove_file_def)
  from Podman show ?thesis unfolding load_image_to_kind_def Let_def
    by (auto intro!: starts_then_cmd starts_run_program removed simp: helper_tool_def)
next
  case Docker
  then show ?thesis unfolding load_image_to_kind_def Let_def
    by (auto intro!: starts_run_program simp: helper_tool_def)
qed

lemma rebuild_starts: "starts (Collect (helper_tool ctx)) (cmd_rebuild env ctx svc)"
proof -
  have "starts (Collect (helper_tool ctx)) (restart_deployment env ctx svc)"
    by (cases svc) (auto intro!: starts_then_cmd rollout_starts)
  moreover have "helper_tool ctx \<lparr>cc_program = runtime_str rt, cc_args = ''build'' # rest, cc_env = []\<rparr>" for rt rest
    by (cases rt) (simp_all add: helper_tool_def)
  ultimately show ?thesis unfolding cmd_rebuild_def Let_def
    by (intro starts_then_cmd starts_run_program load_image_starts) auto
qed

lemma rebuild_each_starts: "starts (Collect (helper_tool ctx)) (rebuild_each env ctx svcs)"
  by (induction svcs) (auto intro!: starts_rules rebuild_starts)

lemma setup_starts: "starts (Collect (helper_tool ctx)) (cmd_setup env ctx skip)"
proof -
  have "helper_tool ctx \<lparr>cc_program = ''kind'', cc_args = ''create'' # rest, cc_env = [kind_provider_env rt]\<rparr>" for rest rt
    by (simp add: helper_tool_def provider_key)
  then show ?thesis unfolding cmd_setup_def setup_with_ports_def Let_def
    by (intro starts_then_cmd starts_on_registry starts_return starts_write_file kubeconfig_starts)
       (auto intro!: starts_run_program starts_return setup_cmd_tool)
qed

lemma deploy_starts: "starts (Collect (helper_tool ctx)) (cmd_deploy env ctx svc)"
  unfolding cmd_deploy_def by (intro starts_then_cmd starts_return starts_run_program) (simp add: setup_cmd_tool)

lemma teardown_starts: "starts (Collect (helper_tool ctx)) (cmd_teardown env ctx)"
proof -
  let ?c = "\<lparr>cc_program = ''kind'', cc_args = [''delete'', ''cluster'', ''--name'', hc_cluster_name ctx],
              cc_env = [kind_provider_env (hc_container_runtime ctx)]\<rparr>"
  have "starts (Collect (helper_tool ctx)) (run_program env ''kind delete cluster'' ?c)"
    by (rule starts_run_program) (simp add: helper_tool_def provider_key)
  then show ?thesis unfolding starts_def cmd_teardown_def by (fastforce split: option.splits sum.splits prod.splits)
qed

lemma write_body_starts: "starts (Collect (helper_tool ctx)) (write_body env ctx cmd)"
  by (cases cmd) (auto simp: cmd_rebuild_all_def intro!: starts_rules setup_starts rebuild_starts rebuild_each_starts deploy_starts teardown_starts)

section \<open>What the commands leave behind\<close>

text \<open>After the allocation nothing in a setup touches the registry.\<close>

definition keeps_registry :: "'a cmd \<Rightarrow> bool" where
  "keeps_registry m \<longleftrightarrow> (\<forall>w r w'. m w = Some (r, w') \<longrightarrow> hw_registry w' = hw_registry w)"

named_theorems keeps_rules

lemma keeps_return [keeps_rules]: "keeps_registry (return_cmd r)"
  by (simp add: keeps_registry_def)

lemma keeps_write_file [keeps_rules]: "keeps_registry (write_file env name content)"
  by (auto simp: keeps_registry_def write_file_def split: option.splits)

lemma keeps_run_program [keeps_rules]: "keeps_registry (run_program env d c)"
  by (auto simp: keeps_registry_def run_program_def split: option.splits)

lemma keeps_then_cmd [keeps_rules]: "keeps_registry m \<Longrightarrow> (\<And>a. keeps_registry (f a)) \<Longrightarrow> keeps_registry (then_cmd m f)"
  unfolding keeps_registry_def then_cmd_def by (fastforce split: option.splits sum.splits prod.splits)

lemma keeps_kubeconfig [keeps_rules]: "keeps_registry (generate_container_kubeconfig env ctx alloc)"
  unfolding generate_container_kubeconfig_def Let_def by (auto intro!: keeps_rules split: sum.split prod.split)

text \<open>
  A setup that succeeds reports the port map of the ports the registry holds for its slug, and only
  with an address of the gateway that is not unspecified.
\<close>

lemma cmd_setup_result:
  assumes "cmd_setup env ctx skip w = Some (Ok data, w')"
  shows "\<exists>alloc reg. allocate_ports (ce_registry env) (hc_slug ctx) (hw_registry w) = (Ok alloc, reg)
    \<and> hw_registry w' = reg
    \<and> data = Some (port_map_json (generate_port_map alloc (hc_cluster_name ctx) CONTAINER_HOST ''172.17.0.1'' (\<not> skip) (ce_now env)))
    \<and> validate_gateway_ip env (gateway_ip ctx) = Ok ()"
proof -
  have keeps: "keeps_registry (setup_with_ports env ctx skip alloc)" for alloc
    unfolding setup_with_ports_def Let_def by (auto intro!: keeps_rules)
  from assms obtain alloc reg where
    a: "allocate_ports (ce_registry env) (hc_slug ctx) (hw_registry w) = (Ok alloc, reg)"
      "setup_with_ports env ctx skip alloc (w\<lparr>hw_registry := reg\<rparr>) = Some (Ok data, w')"
    by (auto simp: cmd_setup_def then_cmd_ok on_registry_ok)
  from a(2) have "data = Some (port_map_json (generate_port_map alloc (hc_cluster_name ctx) CONTAINER_HOST ''172.17.0.1'' (\<not> skip) (ce_now env)))"
    "validate_gateway_ip env (gateway_ip ctx) = Ok ()"
    by (auto simp: setup_with_ports_def then_cmd_ok Let_def)
  with a keeps [of alloc] show ?thesis unfolding keeps_registry_def by force
qed

text \<open>
  Teardown: a client that goes away while \<open>kind delete cluster\<close> runs has the program killed; the error
  that follows is not \<open>Cancelled\<close>, so the ports are given back and the command succeeds, although the
  cluster need not be gone and although the operation may have been cancelled.
\<close>

lemma deallocate_ports_written:
  "rv_lock env = None \<Longrightarrow> rv_read env = None \<Longrightarrow> rv_write env = Written \<Longrightarrow>
   deallocate_ports env slug (RegistryFile r) = (Ok (), RegistryFile (filter (\<lambda>e. re_slug e \<noteq> slug) r))"
  by (simp add: deallocate_ports_def read_registry_def write_registry_def)

text \<open>
  When the client of a teardown goes away while the cluster is being deleted, the deletion is
  killed, the cluster's ports are removed from the registry all the same, and the operation counts as
  a success, even if it was cancelled.
\<close>

theorem interrupted_teardown_frees_ports:
  assumes deletion: "run_command_streaming ''kind delete cluster'' (ce_child env (length (hw_programs w))) = Some (r, s)"
    and gone: "rs_write_failed s"
    and registry: "rv_lock (ce_registry env) = None" "rv_read (ce_registry env) = None" "rv_write (ce_registry env) = Written"
      "hw_registry w = RegistryFile entries"
    and slot: "ws_in_flight g = None"
  shows "rs_child_killed s \<and> r \<noteq> Ok ()
    \<and> (\<exists>w'. run_with_write_slot env ctx Teardown token cancel_set g w = Some (Ok None, release_slot g, w')
          \<and> hw_registry w' = RegistryFile (filter (\<lambda>e. re_slug e \<noteq> hc_slug ctx) entries))"
proof -
  let ?c = "ce_child env (length (hw_programs w))"
  from deletion gone have loop: "stream_loop (ch_pid ?c) (ch_turns ?c) run_init = Some s"
    and r: "r = run_result ''kind delete cluster'' ?c s"
    by (auto simp: run_command_streaming_def run_init_def split: option.splits)
  from stream_loop_inv [OF loop run_inv_init] gone have killed: "rs_child_killed s" by (simp add: run_inv_def)
  from r gone obtain d where "r = Err (CommandFailed ''kind delete cluster'' d)"
    by (auto simp: run_result_def split: sum.splits)
  with deletion registry slot killed show ?thesis
    by (simp add: run_with_write_slot_def claim_slot_def release_slot_def then_cmd_def cmd_teardown_def run_program_def
        deallocate_ports_written map_cancelled_def return_cmd_def)
qed

abbreviation "demo_gone \<equiv> \<lparr>tn_recv = Received (MsgLine \<lparr>sl_stream = StreamOut, sl_line = ''Deleting cluster'', sl_ts = []\<rparr>),
  tn_send_ok = False, tn_cancel = True, tn_shutdown = False, tn_now = 0, tn_exited = False\<rparr>"
abbreviation "demo_closed \<equiv> \<lparr>tn_recv = RecvDisconnected, tn_send_ok = True, tn_cancel = True, tn_shutdown = False,
  tn_now = 1, tn_exited = True\<rparr>"

definition demo_cmd_env :: cmd_env where
  "demo_cmd_env = \<lparr>ce_registry = demo_registry_env 100,
     ce_child = (\<lambda>_. \<lparr>ch_spawn = None, ch_pid = 4711, ch_turns = [demo_gone, demo_closed],
                      ch_wait = Ok \<lparr>es_success = False, es_text = ''signal: 9''\<rparr>, ch_cancel_set = True\<rparr>),
     ce_accepts = (\<lambda>_ _ _. False), ce_read = (\<lambda>_. Ok []), ce_write = (\<lambda>_. None), ce_output = (\<lambda>_. Ok (True, [], [])),
     ce_status_text = (\<lambda>_. []), ce_parse_ip = (\<lambda>_. Some False), ce_parse_json = (\<lambda>_. Ok JNull), ce_now = []\<rparr>"

definition demo_ctx :: helper_ctx where
  "demo_ctx = \<lparr>hc_slug = ''b'', hc_cluster_name = ''devloop-b'', hc_project_root = ''/src'', hc_runtime_dir = ''/tmp/devloop-b'',
     hc_container_runtime = Podman, hc_host_gateway_ip = None\<rparr>"

theorem interrupted_teardown_frees_ports_witness:
  "\<exists>w'. run_with_write_slot demo_cmd_env demo_ctx Teardown 0 True write_state_new
      \<lparr>hw_registry = RegistryFile [new_entry ''b'' 21 100], hw_files = [], hw_programs = [], hw_output = []\<rparr>
    = Some (Ok None, release_slot write_state_new, w') \<and> hw_registry w' = RegistryFile []"
proof -
  let ?w = "\<lparr>hw_registry = RegistryFile [new_entry ''b'' 21 100], hw_files = [], hw_programs = [], hw_output = []\<rparr>"
  have "run_command_streaming ''kind delete cluster'' (ce_child demo_cmd_env (length (hw_programs ?w)))
      = Some (Err (CommandFailed ''kind delete cluster'' ''stream write failed: client disconnected''),
              run_init\<lparr>rs_write_failed := True, rs_child_killed := True, rs_kills := [KillTarget (- 4711) SIGKILL]\<rparr>)"
    by (simp add: demo_cmd_env_def run_command_streaming_def run_init_def forward_line_def check_flags_def signal_defs
        run_result_def)
  from interrupted_teardown_frees_ports [OF this, of "[new_entry ''b'' 21 100]" write_state_new demo_ctx 0 True] show ?thesis
    by (simp add: demo_cmd_env_def demo_ctx_def write_state_new_def)
qed

end
