(* ===== verification/Helper_Server.thy ===== *)
theory Helper_Server
  imports Helper_Commands
begin

text \<open>
  The devloop helper as a server (main.rs): its arguments, its start with the lock and the PID file,
  one connection from the request to the audit log, and the interleaving of connections that share
  the write slot.
\<close>

section \<open>Arguments and start\<close>

definition MAX_CONCURRENT_CONNECTIONS :: nat where "MAX_CONCURRENT_CONNECTIONS = 32"
definition REJECT_LOG_DEDUP_SECS :: int where "REJECT_LOG_DEDUP_SECS = 1"

record Args =
  ar_slug :: string
  ar_project_root :: "string option"
  ar_host_gateway_ip :: "string option"

fun parse_options :: "string list \<Rightarrow> Args \<Rightarrow> (Args, HelperError) result" where
  "parse_options [] a = Ok a"
| "parse_options (arg # rest) a =
     (if arg = ''--project-root''
      then (case rest of
              [] \<Rightarrow> Err (InvalidRequest ''--project-root requires a value'')
            | v # rest' \<Rightarrow> parse_options rest' (a\<lparr>ar_project_root := Some v\<rparr>))
      else if arg = ''--host-gateway-ip''
      then (case rest of
              [] \<Rightarrow> Err (InvalidRequest ''--host-gateway-ip requires a value'')
            | v # rest' \<Rightarrow> parse_options rest' (a\<lparr>ar_host_gateway_ip := Some v\<rparr>))
      else Err (InvalidRequest (''unknown argument: '' @ arg)))"

definition parse_args :: "string list \<Rightarrow> (Args, HelperError) result" where
  "parse_args argv =
     (case argv of
        program # slug # options \<Rightarrow> parse_options options \<lparr>ar_slug = slug, ar_project_root = None, ar_host_gateway_ip = None\<rparr>
      | _ \<Rightarrow> Err (InvalidRequest ''missing required argument: slug''))"

text \<open>The files of the runtime directory that decide about a start.\<close>

record runtime_files =
  rt_pid :: "string option"
  rt_socket :: bool
  rt_token :: "string option"

text \<open>
  What the system answers during a start: \<open>flock\<close> without waiting, which processes are helpers, the own
  identifier, the generator, the tools in the path, and errors of the file operations in their order:
  the directory, the PID file and the token (with whether the file was already truncated), the audit
  log, and the socket (with whether it exists by then).
\<close>

datatype lock_fate = Locked | HeldByOther | LockError string

record start_env =
  st_lock :: lock_fate
  st_helper_alive :: "u32 \<Rightarrow> bool"
  st_own_pid :: u32
  st_rng :: "u8 list option"
  st_hex :: "u8 list \<Rightarrow> string"
  st_which :: "string \<Rightarrow> bool"
  st_dir_error :: "string option"
  st_pid_read_error :: "string option"
  st_pid_error :: "(string \<times> bool) option"
  st_token_error :: "(string \<times> bool) option"
  st_log_error :: "string option"
  st_bind_error :: "(string \<times> bool) option"

definition acquire_startup_lock :: "lock_fate \<Rightarrow> (unit, HelperError) result" where
  "acquire_startup_lock fate =
     (case fate of
        Locked \<Rightarrow> Ok ()
      | HeldByOther \<Rightarrow> Err (AlreadyRunning 0)
      | LockError e \<Rightarrow> Err (HelperIo e))"

definition handle_stale_pid :: "string option \<Rightarrow> (u32 \<Rightarrow> bool) \<Rightarrow> runtime_files \<Rightarrow> (unit, HelperError) result \<times> runtime_files" where
  "handle_stale_pid read_error helper_alive fs =
     (case rt_pid fs of
        None \<Rightarrow> (Ok (), fs)
      | Some text \<Rightarrow>
        (case read_error of
           Some e \<Rightarrow> (Err (HelperIo e), fs)
         | None \<Rightarrow>
           (case parse_unsigned 32 (trim_text text) of
              None \<Rightarrow> (Err (InvalidRequest (''invalid PID file content: '' @ trim_text text)), fs)
            | Some n \<Rightarrow>
              if helper_alive (of_nat n) then (Err (AlreadyRunning (of_nat n)), fs)
              else (Ok (), fs\<lparr>rt_pid := None, rt_socket := False, rt_token := None\<rparr>))))"

text \<open>\<open>write_pid_file\<close>: truncate, then write; an error may come before or after the truncation.\<close>

definition write_pid_file :: "start_env \<Rightarrow> runtime_files \<Rightarrow> (unit, HelperError) result \<times> runtime_files" where
  "write_pid_file env fs =
     (case st_pid_error env of
        None \<Rightarrow> (Ok (), fs\<lparr>rt_pid := Some (show_nat (unat (st_own_pid env)))\<rparr>)
      | Some (e, truncated) \<Rightarrow> (Err (HelperIo e), if truncated then fs\<lparr>rt_pid := Some []\<rparr> else fs))"

definition helper_start :: "start_env \<Rightarrow> string \<Rightarrow> runtime_files \<Rightarrow> (string \<times> ContainerRuntime, HelperError) result \<times> runtime_files" where
  "helper_start env slug fs =
     (case valid_slug_new slug of
        Err e \<Rightarrow> (Err e, fs)
      | Ok _ \<Rightarrow>
        if st_dir_error env \<noteq> None then (Err (HelperIo (the (st_dir_error env))), fs)
        else
        (case acquire_startup_lock (st_lock env) of
           Err e \<Rightarrow> (Err e, fs)
         | Ok _ \<Rightarrow>
           (case handle_stale_pid (st_pid_read_error env) (st_helper_alive env) fs of
              (Err e, fs1) \<Rightarrow> (Err e, fs1)
            | (Ok _, fs1) \<Rightarrow>
              (case write_pid_file env fs1 of
                 (Err e, fs2) \<Rightarrow> (Err e, fs2)
               | (Ok _, fs2) \<Rightarrow>
                 (case helper_generate_token (st_hex env) (st_rng env) of
                    Err e \<Rightarrow> (Err e, fs2)
                  | Ok token \<Rightarrow>
                    (case st_token_error env of
                       Some (e, truncated) \<Rightarrow> (Err (HelperIo e), if truncated then fs2\<lparr>rt_token := Some []\<rparr> else fs2)
                     | None \<Rightarrow>
                       (let fs3 = fs2\<lparr>rt_token := Some token\<rparr> in
                        if st_log_error env \<noteq> None then (Err (HelperIo (the (st_log_error env))), fs3)
                        else case check_prerequisites (st_which env) of
                          Err e \<Rightarrow> (Err e, fs3)
                        | Ok runtime \<Rightarrow>
                          (case st_bind_error env of
                             Some (e, bound) \<Rightarrow> (Err (HelperIo e), fs3\<lparr>rt_socket := bound\<rparr>)
                           | None \<Rightarrow> (Ok (token, runtime), fs3\<lparr>rt_socket := True\<rparr>)))))))))"

definition cleanup :: "runtime_files \<Rightarrow> runtime_files" where
  "cleanup fs = fs\<lparr>rt_pid := None, rt_socket := False, rt_token := None\<rparr>"

section \<open>One connection\<close>

text \<open>\<open>read_line\<close> on the stream cut at the size limit.\<close>

definition read_line :: "string \<Rightarrow> string" where
  "read_line input =
     (let s = take MAX_REQUEST_SIZE input; l = takeWhile (\<lambda>c. c \<noteq> CHR 0x0A) s
      in if length l < length s then l @ [CHR 0x0A] else l)"

datatype client_msg = MResponse Response | MStarted string | MResult CommandResult

record conn_lib =
  cl_utf8 :: "string \<Rightarrow> bool"
  cl_parse :: "string \<Rightarrow> (json, string) result"
  cl_complaint :: "json \<Rightarrow> string"

definition read_request :: "conn_lib \<Rightarrow> string \<Rightarrow> (Request, string) result" where
  "read_request L text =
     (case cl_parse L text of
        Err e \<Rightarrow> Err e
      | Ok j \<Rightarrow> (case request_of_json j of None \<Rightarrow> Err (cl_complaint L j) | Some req \<Rightarrow> Ok req))"

definition extract_op_and_args :: "json option \<Rightarrow> string \<times> string" where
  "extract_op_and_args data =
     (case Option.bind (Option.bind data (json_get ''op'')) as_str of Some op \<Rightarrow> op | None \<Rightarrow> ''unknown'',
      case Option.bind (Option.bind data (json_get ''args'')) as_array of
        Some xs \<Rightarrow> join_with '' '' (List.map_filter as_str xs) | None \<Rightarrow> [])"

definition was_cancelled :: "json option \<Rightarrow> bool" where
  "was_cancelled data = (Option.bind (Option.bind data (json_get ''cancelled'')) as_bool = Some True)"

text \<open>The audit entry of an executed command.\<close>

definition audit_entry :: "HelperCommand \<Rightarrow> CommandResult \<Rightarrow> LogEntry" where
  "audit_entry cmd res =
     (let exit_code = (case cr_exit_code res of Some n \<Rightarrow> n | None \<Rightarrow> -1) in
      if cr_error_kind res = Some ''busy''
      then (case extract_op_and_args (cr_data res) of
              (in_flight_op, in_flight_args) \<Rightarrow>
                log_command ''rejected_busy''
                  [''rejected='' @ command_name cmd, ''rejected_args='' @ join_with '' '' (args_for_log cmd),
                   ''in_flight='' @ in_flight_op, ''in_flight_args='' @ in_flight_args]
                  (cr_duration_ms res) exit_code None (Some OUTCOME_REJECTED))
      else if command_name cmd = ''cancel''
      then (if was_cancelled (cr_data res)
            then (case extract_op_and_args (cr_data res) of
                    (target_op, target_args) \<Rightarrow>
                      log_command ''cancel'' [''target='' @ target_op, ''target_args='' @ target_args]
                        (cr_duration_ms res) exit_code (Some target_op) (Some OUTCOME_COMPLETED))
            else log_command ''cancel'' [] (cr_duration_ms res) exit_code (Some ''none'') (Some OUTCOME_NO_OP))
      else log_command (command_name cmd) (args_for_log cmd) (cr_duration_ms res) exit_code (cr_error res)
             (Some (if cr_error_kind res = Some ''cancelled'' then OUTCOME_CANCELLED
                    else if exit_code = 0 then OUTCOME_COMPLETED else OUTCOME_ERROR)))"

record conn_outcome =
  co_result :: "(unit, HelperError) result"
  co_sent :: "client_msg list"
  co_log :: "LogEntry list"

text \<open>A refusal: an entry if it is logged, then the answer, whose failure ends the handler with an error.\<close>

definition refuse :: "bool \<Rightarrow> HelperError \<Rightarrow> string option \<Rightarrow> conn_outcome" where
  "refuse send_ok e logged =
     \<lparr>co_result = (if send_ok then Ok () else Err (HelperIo ''Broken pipe'')),
      co_sent = [MResponse (response_err e)],
      co_log = (case logged of None \<Rightarrow> []
                | Some cmd \<Rightarrow> [log_command cmd [] 0 1 (Some (helper_error_text e)) (Some OUTCOME_ERROR)])\<rparr>"

definition helper_handle_connection ::
  "conn_lib \<Rightarrow> string \<Rightarrow> string \<Rightarrow> bool \<Rightarrow> (HelperCommand \<Rightarrow> 's \<Rightarrow> CommandResult \<times> 's) \<Rightarrow> 's \<Rightarrow> conn_outcome \<times> 's" where
  "helper_handle_connection L expected_token input send_ok exec s =
     (let line = read_line input in
      if \<not> cl_utf8 L line
      then (\<lparr>co_result = Err (HelperIo ''stream did not contain valid UTF-8''), co_sent = [], co_log = []\<rparr>, s)
      else if line = [] then (refuse send_ok (InvalidRequest ''empty request'') None, s)
      else if last line \<noteq> CHR 0x0A \<and> MAX_REQUEST_SIZE \<le> length line
      then (refuse send_ok RequestTooLarge (Some ''unknown''), s)
      else case read_request L (trim_text line) of
             Err e \<Rightarrow> (refuse send_ok (InvalidRequest (''invalid JSON: '' @ e)) (Some ''unknown''), s)
           | Ok req \<Rightarrow>
             (case helper_validate_token (rq_token req) expected_token of
                Err e \<Rightarrow> (refuse send_ok e (Some ''auth''), s)
              | Ok _ \<Rightarrow>
                (case parse_command req of
                   Err e \<Rightarrow> (refuse send_ok e (Some (rq_command req)), s)
                 | Ok cmd \<Rightarrow>
                   (case exec cmd s of
                      (res, s') \<Rightarrow>
                        (\<lparr>co_result = Ok (), co_sent = [MStarted (command_name cmd), MResult res],
                          co_log = [audit_entry cmd res]\<rparr>, s')))))"

text \<open>The entry for connections over the limit, at most one per second.\<close>

definition maybe_log_cap_reject :: "int \<Rightarrow> int \<Rightarrow> LogEntry list \<times> int" where
  "maybe_log_cap_reject now_ms last_ms =
     (if now_ms - last_ms < REJECT_LOG_DEDUP_SECS * 1000 then ([], last_ms)
      else ([log_command ''rejected'' [] 0 1 (Some ''connection_cap_reached'') (Some OUTCOME_REJECTED)], now_ms))"

section \<open>Connections in parallel\<close>

text \<open>
  Each accepted connection has a thread.  A thread reads a request; a write claims the slot and keeps it
  until its body has ended; a cancel reads the slot under its lock and sets the flag it found there
  later; everything else ends the connection without touching the shared state.  The accept loop counts
  the threads.  After a signal the accept loop ends and with it the process, whatever the threads do.
  \<open>sv_claims\<close> and \<open>sv_cancels\<close> record which write got which token and which cancels were carried out.
\<close>

datatype phase = Reading | Writing HelperCommand nat | Cancelling "InFlightOp option"

record server =
  sv_slot :: WriteState
  sv_tokens :: "nat \<Rightarrow> bool"
  sv_next_token :: nat
  sv_threads :: "(nat, phase) hmap"
  sv_count :: nat
  sv_shutdown :: bool
  sv_exited :: bool
  sv_claims :: "(nat, HelperCommand) hmap"
  sv_cancels :: "InFlightOp list"

definition server_init :: server where
  "server_init = \<lparr>sv_slot = write_state_new, sv_tokens = (\<lambda>_. False), sv_next_token = 0, sv_threads = [], sv_count = 0,
     sv_shutdown = False, sv_exited = False, sv_claims = [], sv_cancels = []\<rparr>"

definition set_phase :: "nat \<Rightarrow> phase \<Rightarrow> server \<Rightarrow> server" where
  "set_phase c p s = s\<lparr>sv_threads := hm_insert c p (sv_threads s)\<rparr>"

text \<open>The thread ends, and \<open>ConnGuard\<close> gives its place back.\<close>

definition end_thread :: "nat \<Rightarrow> server \<Rightarrow> server" where
  "end_thread c s = s\<lparr>sv_threads := hm_remove c (sv_threads s), sv_count := sv_count s - 1\<rparr>"

inductive server_step :: "server \<Rightarrow> server \<Rightarrow> bool" where
  accept: "\<not> sv_exited s \<Longrightarrow> sv_count s < MAX_CONCURRENT_CONNECTIONS \<Longrightarrow> hm_get (sv_threads s) c = None \<Longrightarrow>
     server_step s ((set_phase c Reading s)\<lparr>sv_count := sv_count s + 1\<rparr>)"
| finish: "\<not> sv_exited s \<Longrightarrow> hm_get (sv_threads s) c = Some Reading \<Longrightarrow> server_step s (end_thread c s)"
| claim: "\<not> sv_exited s \<Longrightarrow> hm_get (sv_threads s) c = Some Reading \<Longrightarrow> is_write cmd \<Longrightarrow>
     claim_slot cmd now (sv_next_token s) (sv_slot s) = (Ok (), slot) \<Longrightarrow>
     server_step s ((set_phase c (Writing cmd (sv_next_token s)) s)\<lparr>sv_slot := slot, sv_next_token := sv_next_token s + 1,
        sv_claims := hm_insert (sv_next_token s) cmd (sv_claims s)\<rparr>)"
| busy: "\<not> sv_exited s \<Longrightarrow> hm_get (sv_threads s) c = Some Reading \<Longrightarrow> is_write cmd \<Longrightarrow>
     claim_slot cmd now (sv_next_token s) (sv_slot s) = (Err e, slot) \<Longrightarrow> server_step s (end_thread c s)"
| release: "\<not> sv_exited s \<Longrightarrow> hm_get (sv_threads s) c = Some (Writing cmd token) \<Longrightarrow>
     server_step s ((end_thread c s)\<lparr>sv_slot := release_slot (sv_slot s)\<rparr>)"
| cancel_read: "\<not> sv_exited s \<Longrightarrow> hm_get (sv_threads s) c = Some Reading \<Longrightarrow>
     server_step s (set_phase c (Cancelling (cancel_snapshot (sv_slot s))) s)"
| cancel_set: "\<not> sv_exited s \<Longrightarrow> hm_get (sv_threads s) c = Some (Cancelling snapshot) \<Longrightarrow>
     server_step s ((end_thread c s)\<lparr>sv_tokens := cancel_store snapshot (sv_tokens s),
        sv_cancels := sv_cancels s @ (case snapshot of None \<Rightarrow> [] | Some opn \<Rightarrow> [opn])\<rparr>)"
| signalled: "\<not> sv_exited s \<Longrightarrow> server_step s (s\<lparr>sv_shutdown := True\<rparr>)"
| exit: "\<not> sv_exited s \<Longrightarrow> sv_shutdown s \<Longrightarrow> server_step s (s\<lparr>sv_exited := True\<rparr>)"

inductive server_reachable :: "server \<Rightarrow> bool" where
  init: "server_reachable server_init"
| step: "server_reachable s \<Longrightarrow> server_step s s' \<Longrightarrow> server_reachable s'"

text \<open>
  The invariant.  \<open>names s opn\<close>: the operation \<open>opn\<close> as it was read from the slot is the claim of its
  token.
\<close>

definition names :: "server \<Rightarrow> InFlightOp \<Rightarrow> bool" where
  "names s opn \<longleftrightarrow> (\<exists>cmd. hm_get (sv_claims s) (if_cancel_token opn) = Some cmd
     \<and> if_op opn = command_name cmd \<and> if_args opn = args_for_log cmd)"

definition count_ok :: "server \<Rightarrow> bool" where
  "count_ok s \<longleftrightarrow> hm_wf (sv_threads s) \<and> sv_count s = hm_len (sv_threads s) \<and> sv_count s \<le> MAX_CONCURRENT_CONNECTIONS"

definition sole_writer :: "server \<Rightarrow> InFlightOp \<Rightarrow> bool" where
  "sole_writer s opn \<longleftrightarrow> (\<exists>c cmd. hm_get (sv_threads s) c = Some (Writing cmd (if_cancel_token opn))
     \<and> hm_get (sv_claims s) (if_cancel_token opn) = Some cmd \<and> if_op opn = command_name cmd \<and> if_args opn = args_for_log cmd
     \<and> (\<forall>c' cmd' t. hm_get (sv_threads s) c' = Some (Writing cmd' t) \<longrightarrow> c' = c))"

definition slot_ok :: "server \<Rightarrow> bool" where
  "slot_ok s \<longleftrightarrow> (\<forall>t \<ge> sv_next_token s. hm_get (sv_claims s) t = None)
     \<and> (case ws_in_flight (sv_slot s) of
          None \<Rightarrow> (\<forall>c cmd t. hm_get (sv_threads s) c \<noteq> Some (Writing cmd t))
        | Some opn \<Rightarrow> sole_writer s opn)"

definition cancel_ok :: "server \<Rightarrow> bool" where
  "cancel_ok s \<longleftrightarrow> (\<forall>c opn. hm_get (sv_threads s) c = Some (Cancelling (Some opn)) \<longrightarrow> names s opn)
     \<and> (\<forall>opn \<in> set (sv_cancels s). names s opn)
     \<and> (\<forall>t. sv_tokens s t \<longrightarrow> (\<exists>opn \<in> set (sv_cancels s). if_cancel_token opn = t))"

lemmas server_defs = set_phase_def end_thread_def release_slot_def claim_slot_def cancel_snapshot_def

lemma hm_len_insert_known: "hm_get m k \<noteq> None \<Longrightarrow> hm_len (hm_insert k v m) = hm_len m"
  using hm_len_insert_old by fastforce

lemma hm_len_removed: "hm_wf m \<Longrightarrow> hm_get m k \<noteq> None \<Longrightarrow> hm_len (hm_remove k m) = hm_len m - 1"
  using hm_len_remove by fastforce

lemma step_count_ok: "server_step s s' \<Longrightarrow> count_ok s \<Longrightarrow> count_ok s'"
  by (induction rule: server_step.induct)
     (auto simp: count_ok_def set_phase_def end_thread_def hm_len_insert_fresh hm_len_insert_known hm_len_removed
       intro: le_trans [OF diff_le_self])

lemma sole_writer_names: "sole_writer s opn \<Longrightarrow> names s opn"
  by (auto simp: sole_writer_def names_def)

lemma sole_writer_cong:
  "sole_writer s opn \<Longrightarrow> sv_claims s' = sv_claims s \<Longrightarrow>
   (\<And>c cmd t. hm_get (sv_threads s') c = Some (Writing cmd t) \<longleftrightarrow> hm_get (sv_threads s) c = Some (Writing cmd t)) \<Longrightarrow> sole_writer s' opn"
  by (simp add: sole_writer_def)

lemma slot_ok_cong:
  "slot_ok s \<Longrightarrow> sv_claims s' = sv_claims s \<Longrightarrow> sv_next_token s' = sv_next_token s \<Longrightarrow> sv_slot s' = sv_slot s \<Longrightarrow>
   (\<And>c cmd t. hm_get (sv_threads s') c = Some (Writing cmd t) \<longleftrightarrow> hm_get (sv_threads s) c = Some (Writing cmd t)) \<Longrightarrow> slot_ok s'"
  unfolding slot_ok_def using sole_writer_cong [of s _ s'] by (simp split: option.splits)

lemma step_slot_ok: "server_step s s' \<Longrightarrow> slot_ok s \<Longrightarrow> slot_ok s'"
proof (induction rule: server_step.induct)
  case (claim s c cmd now slot)
  then have idle: "ws_in_flight (sv_slot s) = None"
    and slot: "ws_in_flight slot = Some \<lparr>if_op = command_name cmd, if_args = args_for_log cmd, if_started_at = now,
                                        if_cancel_token = sv_next_token s\<rparr>"
    by (auto simp: claim_slot_def split: option.splits)
  with claim.prems show ?case by (auto simp: slot_ok_def sole_writer_def set_phase_def slot)
next
  case (release s c cmd token)
  then obtain opn where "sole_writer s opn"
    by (cases "ws_in_flight (sv_slot s)") (auto simp: slot_ok_def)
  with release.hyps have "hm_get (sv_threads s) c' = Some (Writing cmd' t) \<Longrightarrow> c' = c" for c' cmd' t
    unfolding sole_writer_def by metis
  with release.prems show ?case by (auto simp: slot_ok_def end_thread_def release_slot_def)
qed (erule slot_ok_cong; auto simp: server_defs)+

lemma names_mono:
  "names s opn \<Longrightarrow> (\<And>t cmd. hm_get (sv_claims s) t = Some cmd \<Longrightarrow> hm_get (sv_claims s') t = Some cmd) \<Longrightarrow> names s' opn"
  by (auto simp: names_def)

lemma step_claims: "server_step s s' \<Longrightarrow> slot_ok s \<Longrightarrow> hm_get (sv_claims s) t = Some cmd \<Longrightarrow> hm_get (sv_claims s') t = Some cmd"
  by (induction rule: server_step.induct) (auto simp: server_defs slot_ok_def)

lemma step_cancels:
  assumes "server_step s s'"
  shows "hm_get (sv_threads s') c = Some (Cancelling (Some opn)) \<Longrightarrow>
      hm_get (sv_threads s) c = Some (Cancelling (Some opn)) \<or> ws_in_flight (sv_slot s) = Some opn"
    and "opn \<in> set (sv_cancels s') \<Longrightarrow> opn \<in> set (sv_cancels s) \<or> (\<exists>c. hm_get (sv_threads s) c = Some (Cancelling (Some opn)))"
    and "set (sv_cancels s) \<subseteq> set (sv_cancels s')"
    and "sv_tokens s' t \<Longrightarrow> sv_tokens s t \<or> (\<exists>opn \<in> set (sv_cancels s'). if_cancel_token opn = t)"
  using assms
  by (cases rule: server_step.cases, auto simp: server_defs cancel_store_def split: if_splits option.splits)+

lemma step_cancel_ok:
  assumes "server_step s s'" "slot_ok s" "cancel_ok s" shows "cancel_ok s'"
proof -
  have names: "names s opn \<Longrightarrow> names s' opn" for opn
    using names_mono step_claims [OF assms(1,2)] by blast
  have slot: "ws_in_flight (sv_slot s) = Some opn \<Longrightarrow> names s opn" for opn
    using assms(2) by (simp add: slot_ok_def sole_writer_names)
  note step = step_cancels [OF assms(1)]
  show ?thesis unfolding cancel_ok_def
  proof (intro conjI allI impI ballI)
    fix c opn assume "hm_get (sv_threads s') c = Some (Cancelling (Some opn))"
    with step(1) slot assms(3) show "names s' opn" unfolding cancel_ok_def by (blast intro: names)
  next
    fix opn assume "opn \<in> set (sv_cancels s')"
    with step(2) assms(3) show "names s' opn" unfolding cancel_ok_def by (blast intro: names)
  next
    fix t assume "sv_tokens s' t"
    with step(3,4) assms(3) show "\<exists>opn \<in> set (sv_cancels s'). if_cancel_token opn = t" unfolding cancel_ok_def by blast
  qed
qed

lemma reachable_inv: "server_reachable s \<Longrightarrow> count_ok s \<and> slot_ok s \<and> cancel_ok s"
proof (induction rule: server_reachable.induct)
  case init
  show ?case by (simp add: server_init_def count_ok_def slot_ok_def cancel_ok_def write_state_new_def hm_len_def)
next
  case (step s s')
  then show ?case using step_count_ok step_slot_ok step_cancel_ok by blast
qed

text \<open>
  C36.  However connections interleave, at most one write runs; the slot names it; at most thirty-two
  connections are served; and a running write finds its cancel flag set only if a cancel was carried
  out that named this very write, its operation and its arguments, never a later one.
\<close>

theorem write_slot_exclusive:
  assumes "server_reachable s" "hm_get (sv_threads s) c = Some (Writing cmd token)"
  shows "(\<forall>c' cmd' token'. hm_get (sv_threads s) c' = Some (Writing cmd' token') \<longrightarrow> c' = c)
    \<and> map_option (\<lambda>b. (bh_op b, bh_args b, bh_cancel_pending b)) (snapshot_busy (sv_tokens s) (sv_slot s))
        = Some (command_name cmd, args_for_log cmd, sv_tokens s token)
    \<and> (sv_tokens s token \<longrightarrow> (\<exists>opn \<in> set (sv_cancels s).
         if_cancel_token opn = token \<and> if_op opn = command_name cmd \<and> if_args opn = args_for_log cmd))
    \<and> hm_len (sv_threads s) \<le> MAX_CONCURRENT_CONNECTIONS"
proof -
  from reachable_inv [OF assms(1)] have inv: "count_ok s" "slot_ok s" "cancel_ok s" by auto
  from inv(2) assms(2) obtain opn where opn: "ws_in_flight (sv_slot s) = Some opn" "sole_writer s opn"
    by (cases "ws_in_flight (sv_slot s)") (auto simp: slot_ok_def)
  from opn(2) assms(2) have w: "token = if_cancel_token opn" "hm_get (sv_claims s) token = Some cmd"
      "if_op opn = command_name cmd" "if_args opn = args_for_log cmd"
      "\<forall>c' cmd' token'. hm_get (sv_threads s) c' = Some (Writing cmd' token') \<longrightarrow> c' = c"
    unfolding sole_writer_def by (metis option.inject phase.inject(1))+
  moreover have "\<exists>o' \<in> set (sv_cancels s). if_cancel_token o' = token \<and> if_op o' = command_name cmd \<and> if_args o' = args_for_log cmd"
    if "sv_tokens s token"
    using inv(3) that w(2) unfolding cancel_ok_def names_def by fastforce
  ultimately show ?thesis using inv(1) opn(1) by (simp add: count_ok_def snapshot_busy_def)
qed

text \<open>
  After a signal the process ends without waiting for the threads: a program that a write has started
  may be left running, signalled by nobody.
\<close>

lemma shutdown_abandons_write:
  "\<exists>s. server_reachable s \<and> sv_exited s \<and> hm_get (sv_threads s) 0 = Some (Writing (Setup False) 0) \<and> \<not> sv_tokens s 0"
proof -
  let ?a = "(set_phase 0 Reading server_init)\<lparr>sv_count := sv_count server_init + 1\<rparr>"
  let ?slot = "(sv_slot ?a)\<lparr>ws_in_flight := Some \<lparr>if_op = ''setup'', if_args = [], if_started_at = [], if_cancel_token = 0\<rparr>\<rparr>"
  let ?b = "(set_phase 0 (Writing (Setup False) (sv_next_token ?a)) ?a)\<lparr>sv_slot := ?slot, sv_next_token := sv_next_token ?a + 1,
        sv_claims := hm_insert (sv_next_token ?a) (Setup False) (sv_claims ?a)\<rparr>"
  have "server_reachable ?a"
    by (rule server_reachable.step [OF server_reachable.init server_step.accept])
       (simp_all add: server_init_def MAX_CONCURRENT_CONNECTIONS_def)
  then have "server_reachable ?b"
    by (rule server_reachable.step [OF _ server_step.claim [where now = "[]"]])
       (simp_all add: server_init_def claim_slot_def set_phase_def write_state_new_def)
  then have "server_reachable (?b\<lparr>sv_shutdown := True\<rparr>)"
    by (rule server_reachable.step [OF _ server_step.signalled]) (simp add: server_init_def set_phase_def)
  then have "server_reachable (?b\<lparr>sv_shutdown := True, sv_exited := True\<rparr>)"
    by (rule server_reachable.step [OF _ server_step.exit]) (simp_all add: server_init_def set_phase_def)
  then show ?thesis by (intro exI conjI) (assumption, simp_all add: server_init_def set_phase_def)
qed

theorem write_slot_exclusive_witness:
  "\<exists>s. server_reachable s \<and> map_option bh_op (snapshot_busy (sv_tokens s) (sv_slot s)) = Some ''setup''"
proof -
  from shutdown_abandons_write obtain s where s: "server_reachable s" "hm_get (sv_threads s) 0 = Some (Writing (Setup False) 0)"
    by blast
  from write_slot_exclusive [OF s] s(1) show ?thesis by (intro exI [of _ s]) (auto simp: option.map_comp comp_def)
qed

section \<open>What a connection can do\<close>

text \<open>
  C39.  A connection changes the state of the helper only by executing a command, and only for a request
  that carries the token; the command is then the one the request spells, with its service and its flag
  that leaves the observability stack out, and exactly one entry goes to the audit log.  Every other request is answered or dropped without effect.
\<close>

theorem connection_needs_token:
  assumes "helper_handle_connection L expected input send_ok exec s = (out, s')"
  shows "(s' = s \<and> (\<forall>cmd. MStarted cmd \<notin> set (co_sent out)) \<and> length (co_log out) \<le> 1)
    \<or> (\<exists>req cmd res. read_request L (trim_text (read_line input)) = Ok req \<and> rq_token req = expected
         \<and> parse_command req = Ok cmd \<and> rq_command req = command_name cmd \<and> rq_service req = request_service cmd
         \<and> request_skip cmd (rq_skip_observability req)
         \<and> exec cmd s = (res, s') \<and> co_sent out = [MStarted (command_name cmd), MResult res]
         \<and> co_log out = [audit_entry cmd res])"
proof -
  have refused: "(\<forall>cmd. MStarted cmd \<notin> set (co_sent (refuse b e l))) \<and> length (co_log (refuse b e l)) \<le> 1" for b e l
    by (simp add: refuse_def split: option.split)
  show ?thesis
  proof (cases "\<exists>req cmd. cl_utf8 L (read_line input) \<and> read_line input \<noteq> []
      \<and> \<not> (last (read_line input) \<noteq> CHR 0x0A \<and> MAX_REQUEST_SIZE \<le> length (read_line input))
      \<and> read_request L (trim_text (read_line input)) = Ok req \<and> helper_validate_token (rq_token req) expected = Ok ()
      \<and> parse_command req = Ok cmd")
    case True
    then obtain req cmd where r: "cl_utf8 L (read_line input)" "read_line input \<noteq> []"
      "\<not> (last (read_line input) \<noteq> CHR 0x0A \<and> MAX_REQUEST_SIZE \<le> length (read_line input))"
      "read_request L (trim_text (read_line input)) = Ok req" "helper_validate_token (rq_token req) expected = Ok ()"
      "parse_command req = Ok cmd" by blast
    obtain res s1 where e: "exec cmd s = (res, s1)" by fastforce
    from assms r e have "out = \<lparr>co_result = Ok (), co_sent = [MStarted (command_name cmd), MResult res], co_log = [audit_entry cmd res]\<rparr>"
      "s' = s1" by (auto simp: helper_handle_connection_def Let_def)
    moreover have "rq_command req = command_name cmd" "rq_service req = request_service cmd" "request_skip cmd (rq_skip_observability req)"
      using r(6) by (simp_all add: parse_command_ok)
    ultimately show ?thesis using r(4-6) e by (auto simp: helper_validate_token_iff)
  next
    case False
    with assms refused show ?thesis
      by (auto simp: helper_handle_connection_def Let_def split: if_splits sum.splits)
  qed
qed

abbreviation "demo_conn_lib \<equiv> \<lparr>cl_utf8 = (\<lambda>_. True),
  cl_parse = (\<lambda>_. Ok (JObj [(''token'', JStr ''t''), (''command'', JStr ''setup''), (''skip_observability'', JBool True)])),
  cl_complaint = (\<lambda>_. [])\<rparr>"

definition demo_exec :: "HelperCommand \<Rightarrow> nat \<Rightarrow> CommandResult \<times> nat" where
  "demo_exec cmd n = (command_result 0 (Ok None), if cmd = Setup True then Suc n else n)"

text \<open>With a wrong token nothing runs; with the right one the setup the request asks for does, without observability.\<close>

theorem connection_needs_token_witness:
  "(\<exists>out. helper_handle_connection demo_conn_lib ''s'' ''{}'' True demo_exec 0 = (out, 0)
     \<and> (\<forall>cmd. MStarted cmd \<notin> set (co_sent out)))
   \<and> (\<exists>out. helper_handle_connection demo_conn_lib ''t'' ''{}'' True demo_exec 0 = (out, 1)
     \<and> co_log out = [audit_entry (Setup True) (command_result 0 (Ok None))])"
proof
  let ?run = "\<lambda>expected. helper_handle_connection demo_conn_lib expected ''{}'' True demo_exec 0"
  let ?req = "\<lparr>rq_token = ''t'', rq_command = ''setup'', rq_service = None, rq_skip_observability = True\<rparr>"
  have req: "read_request demo_conn_lib x = Ok ?req" for x by (simp add: read_request_def make_request_def hm_get_def)
  obtain out n where run: "?run ''s'' = (out, n)" by (meson surj_pair)
  with connection_needs_token [OF run] req show "\<exists>out. ?run ''s'' = (out, 0) \<and> (\<forall>cmd. MStarted cmd \<notin> set (co_sent out))" by auto
  obtain out' n' where run': "?run ''t'' = (out', n')" by (meson surj_pair)
  have "parse_command ?req = Ok (Setup True)" by code_simp
  moreover have "helper_validate_token ''t'' ''t'' = Ok ()" by (simp add: helper_validate_token_iff)
  moreover from calculation have "n' = 1"
    using run' req by (simp add: helper_handle_connection_def Let_def read_line_def MAX_REQUEST_SIZE_def demo_exec_def)
  ultimately show "\<exists>out. ?run ''t'' = (out, 1) \<and> co_log out = [audit_entry (Setup True) (command_result 0 (Ok None))]"
    using connection_needs_token [OF run'] req run' by (auto simp: demo_exec_def)
qed

text \<open>
  Idle clients: a connection that sends nothing keeps its thread, so thirty-two of them, which need no
  token, keep everybody else out.
\<close>

lemma idle_clients_block:
  assumes "sv_count s = MAX_CONCURRENT_CONNECTIONS" "server_step s s'"
    and "hm_get (sv_threads s) c = None" shows "hm_get (sv_threads s') c = None"
  using assms(2,1,3) by (cases rule: server_step.cases) (auto simp: server_defs)

section \<open>What a start can do\<close>

text \<open>
  A start succeeds only for a slug that is safe in paths, with the lock, and when no other helper of the
  slug is alive; it leaves its own identifier and a fresh token in the runtime directory.
\<close>

lemma helper_start_ok:
  assumes "helper_start env slug fs = (Ok (token, runtime), fs')"
  shows "valid_slug_new slug = Ok slug \<and> st_lock env = Locked
    \<and> (\<forall>text n. rt_pid fs = Some text \<longrightarrow> parse_unsigned 32 (trim_text text) = Some n \<longrightarrow> \<not> st_helper_alive env (of_nat n))
    \<and> rt_pid fs' = Some (show_nat (unat (st_own_pid env))) \<and> rt_token fs' = Some token \<and> rt_socket fs'"
proof -
  have "valid_slug_new slug = Ok x \<Longrightarrow> x = slug" for x by (simp add: valid_slug_iff)
  with assms show ?thesis
    by (auto simp: helper_start_def acquire_startup_lock_def handle_stale_pid_def write_pid_file_def Let_def
        split: sum.splits lock_fate.splits option.splits prod.splits if_splits)
qed

text \<open>
  A PID file that was truncated and not written, for instance on a full disk, makes every later start
  fail until somebody deletes it.
\<close>

lemma empty_pid_file_blocks:
  assumes "rt_pid fs = Some []" shows "\<exists>e. fst (helper_start env slug fs) = Err e \<and> snd (helper_start env slug fs) = fs"
  using assms
  by (auto simp: helper_start_def handle_stale_pid_def parse_unsigned_def trim_text_def split: sum.split option.split)

end
