(* ===== verification/Guard_Filter.thy ===== *)
theory Guard_Filter
  imports Auth_Token "HOL-Library.Sublist"
begin

text \<open>
  The filter with which the repository's guards (crates/dt-guard) decide which lines of a Rust file are
  test code and not searched for secrets and personal data: common/test_code_filter.rs.

  A file is its list of lines.  The scanner's loops run over line numbers; \<open>lines ! i\<close> is only read inside
  the list.
\<close>

section \<open>Paths\<close>

definition has_substring :: "string \<Rightarrow> string \<Rightarrow> bool" where
  "has_substring s pat = list_ex (prefix pat) (suffixes s)"

definition has_suffix :: "string \<Rightarrow> string \<Rightarrow> bool" where
  "has_suffix s suf = suffix suf s"

definition is_guard_internal_path :: "string \<Rightarrow> bool" where
  "is_guard_internal_path s \<longleftrightarrow> prefix ''crates/dt-guard/'' s \<or> prefix ''scripts/guards/'' s"

definition PATH_SUBSTRINGS :: "string list" where
  "PATH_SUBSTRINGS = [''/tests/'', ''/fixtures/'', ''/__tests__/'', ''/test-utils/'', ''-test-utils/'', ''-test-helpers/'', ''/test_utils/'']"

definition FILE_SUFFIXES :: "string list" where
  "FILE_SUFFIXES = [''_test.rs'', ''_tests.rs'', ''.test.ts'', ''.spec.ts'', ''.test.tsx'', ''.spec.tsx'', ''.test.svelte'']"

text \<open>\<open>None\<close> is a path that is not UTF-8.\<close>

definition is_test_path :: "string option \<Rightarrow> bool" where
  "is_test_path path =
     (case path of
        None \<Rightarrow> False
      | Some s \<Rightarrow> prefix ''vendor/'' s \<or> list_ex (has_substring s) PATH_SUBSTRINGS \<or> list_ex (has_suffix s) FILE_SUFFIXES)"

section \<open>Lines\<close>

text \<open>The scanner's comment and string states within a line.\<close>

fun strip_scan :: "char option \<Rightarrow> bool \<Rightarrow> string \<Rightarrow> string \<times> bool" where
  "strip_scan quote in_block [] = ([], in_block)"
| "strip_scan quote True (c # cs) =
     (case cs of
        d # ds \<Rightarrow> if c = CHR ''*'' \<and> d = CHR ''/'' then strip_scan quote False ds else strip_scan quote True cs
      | [] \<Rightarrow> ([], True))"
| "strip_scan (Some q) False (c # cs) =
     (if c = CHR 0x5C
      then (case cs of
              d # ds \<Rightarrow> (case strip_scan (Some q) False ds of (out, b) \<Rightarrow> (c # d # out, b))
            | [] \<Rightarrow> ([c], False))
      else case strip_scan (if c = q then None else Some q) False cs of (out, b) \<Rightarrow> (c # out, b))"
| "strip_scan None False (c # cs) =
     (if c = CHR ''/''
      then (case cs of
              d # ds \<Rightarrow>
                if d = CHR ''/'' then ([], False)
                else if d = CHR ''*'' then strip_scan None True ds
                else (case strip_scan None False cs of (out, b) \<Rightarrow> (c # out, b))
            | [] \<Rightarrow> ([c], False))
      else if c = CHR 0x22 \<or> c = CHR 0x27
      then (case strip_scan (Some c) False cs of (out, b) \<Rightarrow> (c # out, b))
      else (case strip_scan None False cs of (out, b) \<Rightarrow> (c # out, b)))"

definition strip_comments :: "string \<Rightarrow> bool \<Rightarrow> string \<times> bool" where
  "strip_comments line in_block_comment = strip_scan None in_block_comment line"

text \<open>The braces of a line, outside of what looks like a string or character literal.\<close>

fun brace_scan :: "char option \<Rightarrow> int \<Rightarrow> string \<Rightarrow> int" where
  "brace_scan quote depth [] = depth"
| "brace_scan (Some q) depth (c # cs) =
     (if c = CHR 0x5C then (case cs of [] \<Rightarrow> depth | _ # ds \<Rightarrow> brace_scan (Some q) depth ds)
      else brace_scan (if c = q then None else Some q) depth cs)"
| "brace_scan None depth (c # cs) =
     (if c = CHR 0x22 \<or> c = CHR 0x27 then brace_scan (Some c) depth cs
      else if c = CHR ''{'' then brace_scan None (depth + 1) cs
      else if c = CHR ''}'' then brace_scan None (depth - 1) cs
      else brace_scan None depth cs)"

definition process_line :: "int \<Rightarrow> string \<Rightarrow> int" where
  "process_line depth line = brace_scan None depth line"

fun substring_after :: "string \<Rightarrow> string \<Rightarrow> string option" where
  "substring_after marker [] = (if marker = [] then Some [] else None)"
| "substring_after marker (c # cs) =
     (if prefix marker (c # cs) then Some (drop (length marker) (c # cs)) else substring_after marker cs)"

definition lists_test :: "string \<Rightarrow> string \<Rightarrow> bool" where
  "lists_test t marker =
     (case substring_after marker t of
        None \<Rightarrow> False
      | Some after \<Rightarrow> list_ex (\<lambda>p. trim_text p = ''test'') (split_on (\<lambda>c. c = CHR '','') (hd (split_on (\<lambda>c. c = CHR '')'') after))))"

definition is_cfg_test_attribute :: "string \<Rightarrow> bool" where
  "is_cfg_test_attribute line =
     (let t = dropWhile is_whitespace line in
      (prefix ''#['' t \<or> prefix ''#!['' t)
      \<and> (has_substring t ''cfg(test'' \<or> has_substring t ''cfg(any(test'' \<or> has_substring t ''cfg(all(test''
         \<or> has_substring t ''cfg(any('' \<and> has_substring t ''test'' \<and> lists_test t ''cfg(any(''
         \<or> has_substring t ''cfg(all('' \<and> has_substring t ''test'' \<and> lists_test t ''cfg(all(''))"

section \<open>Blocks\<close>

text \<open>
  The search for the line that opens the block, from line \<open>j\<close> on, with the depth reached so far: the line,
  the depth after it and the comment state.
\<close>

function find_opener :: "string list \<Rightarrow> nat \<Rightarrow> int \<Rightarrow> bool \<Rightarrow> (nat \<times> int \<times> bool) option" where
  "find_opener ls j depth comment =
     (if j < length ls
      then (case strip_comments (ls ! j) comment of
              (stripped, comment') \<Rightarrow>
                let depth' = process_line depth stripped
                in if 0 < depth' then Some (j, depth', comment') else find_opener ls (j + 1) depth' comment')
      else None)"
  by pat_completeness auto
termination by (relation "measure (\<lambda>(ls, j, _). length ls - j)") auto

text \<open>The walk to the end of the block: the line after it and the comment state there.\<close>

function find_end :: "string list \<Rightarrow> nat \<Rightarrow> int \<Rightarrow> bool \<Rightarrow> nat \<times> bool" where
  "find_end ls k depth comment =
     (if 0 < depth \<and> k < length ls
      then (case strip_comments (ls ! k) comment of
              (stripped, comment') \<Rightarrow> find_end ls (k + 1) (process_line depth stripped) comment')
      else (k, comment))"
  by pat_completeness auto
termination by (relation "measure (\<lambda>(ls, k, _). length ls - k)") auto

declare find_opener.simps [simp del] find_end.simps [simp del]

text \<open>
  One attribute at line \<open>i\<close>, stripped to \<open>stripped\<close>: where its block starts to be walked.  A block that opens
  on the attribute's own line is taken to start on the next one, whose braces are not counted.
\<close>

definition block_start :: "string list \<Rightarrow> nat \<Rightarrow> string \<Rightarrow> bool \<Rightarrow> (nat \<times> int \<times> bool) option" where
  "block_start ls i stripped comment =
     (let depth = process_line 0 stripped
      in if 0 < depth then Some (i + 1, depth, comment) else find_opener ls (i + 1) depth comment)"

lemma find_end_ge: "k \<le> fst (find_end ls k depth comment)"
  by (induction ls k depth comment rule: find_end.induct) (subst find_end.simps, force split: prod.split)

function scan_blocks :: "string list \<Rightarrow> nat \<Rightarrow> bool \<Rightarrow> (nat \<times> nat) list" where
  "scan_blocks ls i comment =
     (if i < length ls
      then (case strip_comments (ls ! i) comment of
              (stripped, comment') \<Rightarrow>
                if \<not> is_cfg_test_attribute stripped then scan_blocks ls (i + 1) comment'
                else (case block_start ls i stripped comment' of
                        None \<Rightarrow> scan_blocks ls (i + 1) comment'
                      | Some (j, depth, c) \<Rightarrow>
                          (case find_end ls (j + 1) depth c of
                             (k, c') \<Rightarrow> (i + 1, k) # scan_blocks ls (max k (j + 1)) c')))
      else [])"
  by pat_completeness auto

lemma find_opener_ge: "find_opener ls j depth comment = Some (j', d, c) \<Longrightarrow> j \<le> j'"
proof (induction ls j depth comment rule: find_opener.induct)
  case (1 ls j depth comment)
  obtain stripped comment' where sc: "strip_comments (ls ! j) comment = (stripped, comment')" by fastforce
  show ?case
  proof (cases "0 < process_line depth stripped")
    case True
    with "1.prems" sc show ?thesis by (subst (asm) find_opener.simps) (simp split: if_splits)
  next
    case False
    with "1.prems" sc have "j < length ls" "find_opener ls (j + 1) (process_line depth stripped) comment' = Some (j', d, c)"
      by (subst (asm) find_opener.simps, simp split: if_splits)+
    with "1.IH" [OF _ sc [symmetric] refl _ ] False show ?thesis by fastforce
  qed
qed

lemma block_start_ge: "block_start ls i stripped comment = Some (j, d, c) \<Longrightarrow> i < j"
  using find_opener_ge [of ls "i + 1"] by (fastforce simp: block_start_def Let_def split: if_splits)

termination scan_blocks
  by (relation "measure (\<lambda>(ls, i, _). length ls - i)") (auto dest!: block_start_ge)

declare scan_blocks.simps [simp del]

definition compute_test_block_ranges :: "string list \<Rightarrow> (nat \<times> nat) list" where
  "compute_test_block_ranges ls = scan_blocks ls 0 False"

definition is_line_in_test_block :: "(nat \<times> nat) list \<Rightarrow> nat \<Rightarrow> bool" where
  "is_line_in_test_block ranges line_no = list_ex (\<lambda>(s, e). s \<le> line_no \<and> line_no \<le> e) ranges"

section \<open>What the ranges are\<close>

text \<open>The ranges are ascending and disjoint, and each starts at an attribute.\<close>

fun ascending :: "nat \<Rightarrow> (nat \<times> nat) list \<Rightarrow> bool" where
  "ascending n [] = True"
| "ascending n ((a, b) # rs) \<longleftrightarrow> n < a \<and> a < b \<and> ascending b rs"

lemma ascending_mono: "m \<le> n \<Longrightarrow> ascending n rs \<Longrightarrow> ascending m rs"
  by (cases rs) auto

lemma scan_blocks_ascending: "ascending i (scan_blocks ls i comment)"
proof (induction ls i comment rule: scan_blocks.induct)
  case (1 ls i comment)
  obtain stripped comment' where sc: "strip_comments (ls ! i) comment = (stripped, comment')" by fastforce
  show ?case
  proof (cases "i < length ls \<and> is_cfg_test_attribute stripped \<and> block_start ls i stripped comment' \<noteq> None")
    case True
    then obtain j d c where b: "block_start ls i stripped comment' = Some (j, d, c)" by auto
    obtain k c' where e: "find_end ls (j + 1) d c = (k, c')" by fastforce
    have "j + 1 \<le> k" using find_end_ge [of "j + 1" ls d c] e by simp
    moreover have "i < j" by (rule block_start_ge [OF b])
    moreover have "scan_blocks ls i comment = (i + 1, k) # scan_blocks ls (max k (j + 1)) c'"
      using True sc b e by (subst scan_blocks.simps) simp
    moreover have "ascending (max k (j + 1)) (scan_blocks ls (max k (j + 1)) c')"
      using "1.IH"(3) True sc b e by fastforce
    ultimately show ?thesis by (simp add: max_def split: if_splits)
  next
    case False
    show ?thesis
    proof (cases "i < length ls")
      case True
      with False sc have "scan_blocks ls i comment = scan_blocks ls (i + 1) comment'"
        by (subst scan_blocks.simps) (auto split: option.split)
      moreover have "ascending (i + 1) (scan_blocks ls (i + 1) comment')"
        using "1.IH"(1,2) True False sc by fastforce
      ultimately show ?thesis using ascending_mono [of i "i + 1"] by simp
    qed (subst scan_blocks.simps, simp)
  qed
qed

text \<open>
  Lines without comments, and the change of depth of a line.
\<close>

definition clean :: "string \<Rightarrow> bool" where
  "clean l \<longleftrightarrow> strip_comments l False = (l, False)"

definition delta :: "string \<Rightarrow> int" where
  "delta l = process_line 0 l"

lemma brace_scan_add: "brace_scan quote (a + depth) l = a + brace_scan quote depth l"
proof (induction quote depth l rule: brace_scan.induct)
  case (2 q depth c cs)
  then show ?case by (auto split: list.split)
next
  case (3 depth c cs)
  then show ?case by (simp add: add.assoc diff_add_eq [symmetric] add_diff_eq)
qed simp

lemma process_line_delta: "process_line depth l = depth + delta l"
  using brace_scan_add [of None depth 0 l] by (simp add: process_line_def delta_def)

lemma find_end_walk:
  assumes "list_all clean body" "\<forall>n<length body. 0 < d + sum_list (map delta (take n body))" "d + sum_list (map delta body) \<le> 0"
  shows "find_end (xs @ body @ post) (length xs) d False = (length xs + length body, False)"
  using assms
proof (induction body arbitrary: xs d)
  case Nil
  then show ?case by (subst find_end.simps) simp
next
  case (Cons l body)
  have d: "0 < d" using Cons.prems(2) by (metis length_greater_0_conv list.discI sum_list.Nil take_0 list.simps(8) add.right_neutral)
  have "find_end ((xs @ [l]) @ body @ post) (length (xs @ [l])) (d + delta l) False = (length (xs @ [l]) + length body, False)"
  proof (rule Cons.IH)
    show "\<forall>n<length body. 0 < d + delta l + sum_list (map delta (take n body))"
    proof (intro allI impI)
      fix n assume "n < length body"
      with Cons.prems(2) [rule_format, of "Suc n"] show "0 < d + delta l + sum_list (map delta (take n body))" by simp
    qed
  qed (use Cons.prems in auto)
  with d Cons.prems(1) show ?case
    by (subst find_end.simps) (simp add: clean_def process_line_delta nth_append)
qed

lemma find_opener_walk:
  assumes "list_all clean mid" "list_all (\<lambda>l. delta l = 0) mid" "clean opn" "0 < delta opn"
  shows "find_opener (xs @ mid @ opn # post) (length xs) 0 False = Some (length xs + length mid, delta opn, False)"
  using assms(1,2)
proof (induction mid arbitrary: xs)
  case Nil
  with assms show ?case by (subst find_opener.simps) (simp add: clean_def process_line_delta Let_def)
next
  case (Cons l mid)
  with Cons.IH [of "xs @ [l]"] show ?case
    by (subst find_opener.simps) (simp add: clean_def process_line_delta Let_def nth_append)
qed

lemma scan_blocks_skip:
  assumes "list_all clean pre" "list_all (\<lambda>l. \<not> is_cfg_test_attribute l) pre"
  shows "scan_blocks (xs @ pre @ post) (length xs) False = scan_blocks (xs @ pre @ post) (length xs + length pre) False"
  using assms
proof (induction pre arbitrary: xs)
  case (Cons l pre)
  with Cons.IH [of "xs @ [l]"] show ?case by (subst scan_blocks.simps) (simp add: clean_def nth_append)
qed simp

text \<open>
  An attribute on a line of its own, then lines without braces, then a line that opens a block: the
  first range is from the attribute to the line that closes that block.  The lines in between may be
  anything, so when the attribute belongs to a declaration without a block the range covers the next
  block of the file, which is production code.
\<close>

theorem first_test_block:
  assumes "list_all clean (pre @ [attr] @ mid @ [opn] @ body)"
    and "list_all (\<lambda>l. \<not> is_cfg_test_attribute l) pre" "is_cfg_test_attribute attr" "delta attr = 0"
    and "list_all (\<lambda>l. delta l = 0) mid" "0 < delta opn"
    and "\<forall>n<length body. 0 < delta opn + sum_list (map delta (take n body))" "delta opn + sum_list (map delta body) \<le> 0"
  shows "hd (compute_test_block_ranges (pre @ [attr] @ mid @ [opn] @ body @ post))
    = (length pre + 1, length (pre @ [attr] @ mid @ [opn] @ body))"
proof -
  let ?ls = "pre @ [attr] @ mid @ [opn] @ body @ post"
  have skip: "compute_test_block_ranges ?ls = scan_blocks ?ls (length pre) False"
    using scan_blocks_skip [of pre "[]" "[attr] @ mid @ [opn] @ body @ post"] assms(1,2) by (simp add: compute_test_block_ranges_def)
  have opener: "block_start ?ls (length pre) attr False = Some (length pre + 1 + length mid, delta opn, False)"
    using find_opener_walk [of mid opn "pre @ [attr]" "body @ post"] assms by (simp add: block_start_def Let_def delta_def [symmetric])
  have walk: "find_end ?ls (length pre + 1 + length mid + 1) (delta opn) False = (length (pre @ [attr] @ mid @ [opn] @ body), False)"
    using find_end_walk [of body "delta opn" "pre @ [attr] @ mid @ [opn]" post] assms by simp
  have "strip_comments (?ls ! length pre) False = (attr, False)" using assms(1) by (simp add: clean_def nth_append)
  with skip opener walk assms(3) show ?thesis by (subst skip, subst scan_blocks.simps) simp
qed

lemma production_after_use_exempt:
  "compute_test_block_ranges [''#[cfg(test)]'', ''use helpers::x;'', ''fn production() {'', ''    let key = 1;'', ''}''] = [(1, 5)]"
  by code_simp

text \<open>A block that opens and closes around the attribute's line: the line after the opener is not counted.\<close>

lemma same_line_opener_runs_on:
  "compute_test_block_ranges [''#[cfg(test)] mod tests {'', ''}'', ''fn production() {'', ''    let key = 1;'', ''}''] = [(1, 5)]"
  by code_simp

end
