(* ===== verification/Metric_Labels.thy ===== *)
theory Metric_Labels
  imports Auth_Token "HOL-Library.Sublist"
begin

text \<open>
  The paths under which HTTP requests are counted (observability/metrics.rs of gc-service and ac-service).
  A metric has one time series for each value of its labels, so a path chosen by a client must not become
  a label: the normalised path is one of a fixed list.
\<close>

definition path_parts :: "string \<Rightarrow> string list" where
  "path_parts path = split_on (\<lambda>c. c = CHR ''/'') path"

section \<open>Global Controller\<close>

definition normalize_dynamic_endpoint :: "string \<Rightarrow> string" where
  "normalize_dynamic_endpoint path =
     (if prefix ''/api/v1/meetings/'' path
      then (let parts = path_parts path in
            if length parts = 5 then ''/api/v1/meetings/{code}''
            else if length parts = 6 \<and> parts ! 5 = ''guest-token'' then ''/api/v1/meetings/{code}/guest-token''
            else if length parts = 6 \<and> parts ! 5 = ''settings'' then ''/api/v1/meetings/{id}/settings''
            else ''/other'')
      else ''/other'')"

definition normalize_endpoint :: "string \<Rightarrow> string" where
  "normalize_endpoint path =
     (if path \<in> {''/'', ''/health'', ''/metrics'', ''/api/v1/me'', ''/api/v1/meetings''} then path
      else normalize_dynamic_endpoint path)"

section \<open>Auth Controller\<close>

definition is_ascii_hexdigit :: "char \<Rightarrow> bool" where
  "is_ascii_hexdigit c \<longleftrightarrow> (let b = (of_char c :: nat) in 48 \<le> b \<and> b \<le> 57 \<or> 65 \<le> b \<and> b \<le> 70 \<or> 97 \<le> b \<and> b \<le> 102)"

definition is_uuid :: "string \<Rightarrow> bool" where
  "is_uuid s \<longleftrightarrow>
     length s = 36
     \<and> s ! 8 = CHR ''-'' \<and> s ! 13 = CHR ''-'' \<and> s ! 18 = CHR ''-'' \<and> s ! 23 = CHR ''-''
     \<and> list_all (\<lambda>(i, b). i \<in> {8, 13, 18, 23} \<or> is_ascii_hexdigit b) (enumerate 0 s)"

definition normalize_dynamic_path :: "string \<Rightarrow> string" where
  "normalize_dynamic_path path =
     (if prefix ''/api/v1/admin/clients/'' path
      then (let parts = path_parts path in
            if length parts = 6 \<and> is_uuid (parts ! 5) then ''/api/v1/admin/clients/{id}''
            else if length parts = 7 \<and> is_uuid (parts ! 5) \<and> parts ! 6 = ''rotate-secret''
            then ''/api/v1/admin/clients/{id}/rotate-secret''
            else ''/other'')
      else ''/other'')"

definition normalize_path :: "string \<Rightarrow> string" where
  "normalize_path path =
     (if path \<in> {''/'', ''/health'', ''/ready'', ''/metrics'', ''/.well-known/jwks.json'', ''/api/v1/auth/service/token'',
                ''/api/v1/auth/user/token'', ''/api/v1/admin/services/register'', ''/api/v1/admin/clients'', ''/internal/rotate-keys''}
      then path else normalize_dynamic_path path)"

section \<open>Bounds\<close>

definition gc_labels :: "string list" where
  "gc_labels = [''/'', ''/health'', ''/metrics'', ''/api/v1/me'', ''/api/v1/meetings'', ''/api/v1/meetings/{code}'',
     ''/api/v1/meetings/{code}/guest-token'', ''/api/v1/meetings/{id}/settings'', ''/other'']"

definition ac_labels :: "string list" where
  "ac_labels = [''/'', ''/health'', ''/ready'', ''/metrics'', ''/.well-known/jwks.json'', ''/api/v1/auth/service/token'',
     ''/api/v1/auth/user/token'', ''/api/v1/admin/services/register'', ''/api/v1/admin/clients'', ''/internal/rotate-keys'',
     ''/api/v1/admin/clients/{id}'', ''/api/v1/admin/clients/{id}/rotate-secret'', ''/other'']"

lemma normalize_endpoint_bounded: "normalize_endpoint path \<in> set gc_labels"
  by (auto simp: normalize_endpoint_def normalize_dynamic_endpoint_def gc_labels_def Let_def)

lemma normalize_path_bounded: "normalize_path path \<in> set ac_labels"
  by (auto simp: normalize_path_def normalize_dynamic_path_def ac_labels_def Let_def)

text \<open>The code or identifier of a meeting does not show in the label, whatever it is.\<close>

lemma split_on_append:
  "\<not> list_ex p xs \<Longrightarrow> p c \<Longrightarrow> split_on p (xs @ c # ys) = xs # split_on p ys"
  by (induction xs) auto

lemma split_on_none: "\<not> list_ex p xs \<Longrightarrow> split_on p xs = [xs]"
  by (induction xs) auto

lemma meeting_code_hidden:
  assumes "CHR ''/'' \<notin> set code"
  shows "normalize_endpoint (''/api/v1/meetings/'' @ code) = ''/api/v1/meetings/{code}''"
    "normalize_endpoint (''/api/v1/meetings/'' @ code @ ''/settings'') = ''/api/v1/meetings/{id}/settings''"
proof -
  have code: "\<not> list_ex (\<lambda>c. c = CHR ''/'') code" using assms by (auto simp: list_ex_iff)
  have "path_parts (''/api/v1/meetings/'' @ code) = ['''', ''api'', ''v1'', ''meetings'', code]"
    using split_on_none [OF code] by (simp add: path_parts_def)
  moreover have "path_parts (''/api/v1/meetings/'' @ code @ ''/settings'') = ['''', ''api'', ''v1'', ''meetings'', code, ''settings'']"
    using split_on_append [OF code, of "CHR ''/''" "''settings''"] by (simp add: path_parts_def)
  ultimately show "normalize_endpoint (''/api/v1/meetings/'' @ code) = ''/api/v1/meetings/{code}''"
    "normalize_endpoint (''/api/v1/meetings/'' @ code @ ''/settings'') = ''/api/v1/meetings/{id}/settings''"
    by (simp_all add: normalize_endpoint_def normalize_dynamic_endpoint_def)
qed

text \<open>Routes that are served but not in the lists are all counted under one label.\<close>

lemma unlisted_routes: "normalize_endpoint ''/ready'' = ''/other''" "normalize_path ''/api/v1/auth/register'' = ''/other''"
  "normalize_path ''/api/v1/auth/internal/meeting-token'' = ''/other''" "normalize_path ''/api/v1/auth/internal/guest-token'' = ''/other''"
  by (simp_all add: normalize_endpoint_def normalize_dynamic_endpoint_def normalize_path_def normalize_dynamic_path_def)

end
