(* ===== verification/Spec2Isabelle.thy ===== *)
theory Spec2Isabelle
  imports Prelude Media_Codec MH_Session Framing MH_Connection
    MC_Types MC_Metrics MC_Binding MC_Meeting MC_Meeting_Props MC_Session_Props
    MC_Participant MC_Registry MC_Fencing MC_Controller MC_Assignment
    GC_Database GC_Assignment System_Assignment GC_Meetings GC_Meeting_Props
    Access GC_Services GC_Service_Props MC_Connection MC_Connection_Props MH_Service System_Media System_Join
    Token_Manager Service_Config Service_Clients Service_Client_Props
    Helper_Ports Helper_Protocol Helper_Process Helper_Commands Helper_Server Guard_Filter Metric_Labels
    Auth_Token AC_Store AC_Keys AC_Key_Props AC_Tokens AC_Token_Props AC_Accounts AC_Account_Props System_Auth
begin

text \<open>
  A verification of Dark Tower, a video conferencing system: its media plane, that is the Meeting
  Controller (crates/mc-service), the Media Handler (crates/mh-service) and the media frame codec
  they share (crates/media-protocol); the Global Controller (crates/gc-service), which keeps the
  meetings and places them; authentication, that is the Auth Controller (crates/ac-service) and the
  token validation and token refresh all services share (crates/common); and the tools beside them,
  the devloop helper (crates/devloop-helper) and the filter of the repository guards (crates/dt-guard).

  \<^bold>\<open>The program.\<close>  A client joins a meeting over WebTransport at a Meeting Controller.  There one
  controller actor supervises a meeting actor per meeting, which owns the participants and spawns a
  participant actor per connection.  The Global Controller assigns meetings to Meeting Controllers;
  the Media Handlers of a meeting are stored in Redis under fencing generations.  The client also
  connects to Media Handlers, each of which keeps its sessions in one actor and reports connects
  and disconnects back to the Meeting Controller, whose registry records them.  Services and users
  get signed tokens from the Auth Controller; a service that receives one fetches the public keys,
  keeps them for five minutes, and checks the token itself.  To join, a user asks the Global
  Controller, which places the meeting if need be and has the Auth Controller issue a meeting token;
  with this token the client goes to the Meeting Controller and the Media Handlers.  Controllers and
  handlers register with the Global Controller and report to it, with tokens a task keeps fresh.

  \<^bold>\<open>Theories and sources.\<close>
  \<^item> \<open>Prelude\<close>: Rust's integers, clocks, \<open>Result\<close>, \<open>HashMap\<close> (contract \<open>hash_map\<close>), big-endian bytes,
    decimal numerals.
  \<^item> \<open>Media_Codec\<close>: media-protocol/src/frame.rs, stream.rs and codec.rs.  The \<open>bytes\<close> crate is the
    parameter \<open>bytes_ops\<close>.
  \<^item> \<open>MH_Session\<close>: mh-service/src/session/mod.rs; the session actor's tables and every command, with
    the contract \<open>session_store\<close> between them and the connection tasks.
  \<^item> \<open>Framing\<close>: the length-prefixed message framing of both services (webtransport/connection.rs).
  \<^item> \<open>MH_Connection\<close>: mh-service/src/webtransport/connection.rs; the handshake as a function and the
    rest of a connection task as steps that interleave with all other tasks and with the session
    actor; the errors of mh-service/src/errors.rs.
  \<^item> \<open>MC_Types\<close>, \<open>MC_Metrics\<close>, \<open>MC_Binding\<close>: mc-service/src/errors.rs, actors/messages.rs,
    webtransport/handler.rs, actors/metrics.rs, actors/session.rs.  Cryptography is the parameter
    \<open>crypto_ops\<close> with the contract \<open>binding_crypto\<close>.
  \<^item> \<open>MC_Meeting\<close>: actors/meeting.rs.  The actor's fields are the record \<open>Meeting\<close>, each handler is a
    function to a reply, the new state and the list of effects in program order, and \<open>meeting_turn\<close>
    is one turn of the loop in \<open>run\<close>.
  \<^item> \<open>MC_Meeting_Props\<close>, \<open>MC_Session_Props\<close>: what holds of it.
  \<^item> \<open>MC_Participant\<close>: actors/participant.rs.
  \<^item> \<open>MC_Registry\<close>: mh_connection_registry.rs and grpc/media_coordination.rs, with the contract
    \<open>connection_registry\<close> over an abstract set of links.
  \<^item> \<open>MC_Fencing\<close>: redis/lua_scripts.rs and redis/client.rs.  A script or command is one atomic
    function on the keyspace; \<open>fenced_script\<close> is the contract that the three fenced scripts meet.
    Lua's number conversions and JSON are parameters.
  \<^item> \<open>MC_Controller\<close>: actors/controller.rs, and the handles of all three actors.
  \<^item> \<open>MC_Assignment\<close>: grpc/mc_service.rs, on top of the controller (contract \<open>meeting_host\<close>) and the
    fenced store.
  \<^item> \<open>GC_Database\<close>: gc-service/src/repositories; a statement is one atomic function on the tables, under
    a fault that may strike before or after it took effect.
  \<^item> \<open>GC_Assignment\<close>: services/mc_assignment.rs, mh_selection.rs and mc_client.rs.  Floating point is a
    parameter.
  \<^item> \<open>System_Assignment\<close>: both sides together, Global Controllers placing meetings on Meeting Controllers.
  \<^item> \<open>GC_Meetings\<close>, \<open>GC_Meeting_Props\<close>: models/mod.rs, repositories/meetings.rs and participants.rs,
    services/ac_client.rs and handlers/meetings.rs of the Global Controller.
  \<^item> \<open>Access\<close>: the authentication layers of the three gRPC servers and the HTTP middleware, over the scopes
    the Auth Controller grants by default.
  \<^item> \<open>GC_Services\<close>, \<open>GC_Service_Props\<close>: grpc/mc_service.rs, grpc/mh_service.rs and the tasks of the Global
    Controller; the tables change one committed statement at a time, and what others do between two
    statements is an event.
  \<^item> \<open>MC_Connection\<close>, \<open>MC_Connection_Props\<close>: the connection task of the Meeting Controller
    (webtransport/connection.rs), from the handshake to the bridge loop, and the registration of a meeting
    with its handlers (grpc/mh_client.rs).
  \<^item> \<open>MH_Service\<close>: grpc/mh_service.rs of the Media Handler.  \<open>System_Media\<close>: the registration task of the
    Meeting Controller against the handlers it calls; what the network makes of each call, a lost request
    or a lost reply among it, is the argument \<open>net\<close>.
  \<^item> \<open>Token_Manager\<close>: common/src/token_manager.rs, the loop turn by turn.
  \<^item> \<open>Service_Config\<close>: config.rs of the four services.
  \<^item> \<open>Service_Clients\<close>, \<open>Service_Client_Props\<close>: grpc/gc_client.rs of both media services with the tasks of
    main.rs that drive them, and grpc/mc_client.rs of the Media Handler.
  \<^item> \<open>Helper_Ports\<close>, \<open>Helper_Protocol\<close>, \<open>Helper_Process\<close>, \<open>Helper_Commands\<close>, \<open>Helper_Server\<close>: the devloop helper;
    its port registry, its socket protocol, the programs it runs and signals, its commands over a world of
    files and programs, and its connections as a step relation on the write slot.
  \<^item> \<open>Guard_Filter\<close>: dt-guard/src/common/test_code_filter.rs.  \<open>Metric_Labels\<close>: the paths in
    observability/metrics.rs of the Global and the Auth Controller.
  \<^item> \<open>Auth_Token\<close>: common/src/jwt.rs; claims and their JSON form, the key cache, the validator.  The JWT,
    base64 and JSON libraries are the parameter \<open>jwt_lib\<close>, with the contracts \<open>b64_ok\<close>, \<open>signing_ok\<close> and
    \<open>expiry_ok\<close> as hypotheses; an instance that meets them serves the examples.
  \<^item> \<open>AC_Store\<close>: ac-service/src/repositories, models and errors.rs.
  \<^item> \<open>AC_Keys\<close>: crypto/mod.rs, services/key_management_service.rs, middleware/auth.rs and the rotation
    endpoint; Ed25519, AES-GCM and bcrypt are the parameter \<open>crypto_lib\<close> (contract \<open>sealing_ok\<close>).
    \<open>AC_Key_Props\<close>: what holds of the keys, in every state \<open>key_run\<close> reaches.
  \<^item> \<open>AC_Tokens\<close>, \<open>AC_Token_Props\<close>: services/token_service.rs and handlers/internal_tokens.rs.  What other
    requests do between two statements is an argument.
  \<^item> \<open>AC_Accounts\<close>, \<open>AC_Account_Props\<close>: registration, users, client management, the organization of a request.
  \<^item> \<open>System_Auth\<close>: the Auth Controller together with a validating service.  \<open>System_Join\<close>: the join of a
    user across Global Controller, Auth Controller, Meeting Controller and Media Handler.

  \<^bold>\<open>What is shown.\<close>  Codec and framing: round trips, totality on any input, bounds, and where a length
  that does not fit its field is truncated.  Media Handler: the session tables keep their invariant
  and promote waiting clients correctly; every held connection is tracked, the Meeting Controller is
  always told, and one interleaving loses a wake-up and leaks a connection.  Meeting actor: its
  tables agree in every reachable state, and a connected participant's connection is held while
  identifiers are in order (the converse does not hold); mute flags change only by those entitled to; reconnection
  needs a fresh verified binding, restores the same participant and spends the identifier; the grace
  timer removes exactly the right participants; joins are announced to exactly the connected others;
  the shared participant count is exact, also for meetings that have ended; and two ways in which a
  participant loses its place although it should not.  Participant actor: exact output and a single
  final notice.  Registry: refinement of a set of links.  Fencing: no interleaving lets a stale
  token take effect; stored assignments are read back.  Controller and assignment service: the
  meeting gauge is exact, draining is final, when links are cleaned up, and the two flaws of the
  assignment path (a duplicate assignment wipes the live one; slots are never freed).  Placement: an
  assignment attempt returns the one current assignment, calls at most three controllers and finds
  one that accepts; the controller that accepted runs the meeting and Redis holds its handlers when its
  answer arrives, and two placements that race split a meeting; and when a meeting cannot be placed again.  Authentication: an issued token
  is accepted with its claims while its key is published, an accepted token was signed and is in
  time, kinds of tokens cannot be confused, tokens grant only what the credential has, guesses are
  bounded as far as failures are logged, keys stay usable in every reachable state, when a rotation is allowed and what it does to
  the tokens of the old and the new key; and flaws of rotation, deletion and registration limits.
  Meetings at the Global Controller: who may create, join and change one, with what role; codes, and
  quotas, which are those of the snapshot a creation saw.  Access: the default grants let exactly the intended services through each gate.  Registration:
  the tables stay well formed, silent controllers leave the pool, a controller is ready only when it is
  listed, registration ends at its deadline; a lost registration is final.  Connections: nobody reaches a
  meeting without a token for it, and the token of a join opens the door the answer names, at every
  service; registration with the handlers ends, reaches every handler that an attempt reaches, and what
  its log tells, which is all but what lost replies hide.  Tokens of the services:
  the retry delays in closed form, and no token expires in use while the Auth Controller answers.
  Configuration: what loads is within bounds.  Devloop helper: ports are nobody else's while the recorded process lives,
  one write at a time, a cancel hits the write it names, a connection without the token has no effect,
  only fixed programs are started; and flaws of teardown, registry, start and shutdown.  Guards and
  metrics: which lines count as test code, and that labels come from a fixed list.

  \<^bold>\<open>Conventions.\<close>  Counters have the width of the code and wrap; vectors and maps are finite lists.
  Clocks are natural numbers of nanoseconds.  Randomness, the clock, the outcome of waiting for a
  task, channel capacity and faults of databases, files and calls are arguments, so theorems hold for
  all of them.  A freshly drawn UUID is assumed not to be in use where a theorem says so (\<open>env_fresh\<close>).
  Generations are bounded by \<open>2 ^ 53\<close>, up to where Lua's numbers are exact.  No definition uses fuel:
  loops run over finite inputs, end by a measure, or are step relations.  A loop without an end of its
  own (token refresh, heartbeats, load reports, the accept loop and the programs of the devloop helper)
  runs over the list of its turns, whose length is arbitrary; where a theorem says that such a loop ends,
  it gives the bound: three attempts for a registration with a handler or a notification, at most fourteen
  attempts and three hundred seconds for a registration at the Global Controller.

  \<^bold>\<open>Not modelled.\<close>  Logging and tracing; exported metrics beyond their labels; the wiring of the
  services at start-up, TLS and QUIC; protobuf bytes; wrappers around third-party types (common/src
  types.rs, secret.rs, error.rs); the guards of dt-guard, which match regular expressions against the
  repository's own files, apart from their filter; generated and test code.  They have no state the
  program decides on, or stand for third-party behaviour.  Text is bytes; classes of characters are those
  of ASCII.
\<close>

end
